(* ===== verification/Prelude.thy ===== *)
theory Prelude
  imports Complex_Main "HOL-Library.List_Lexorder" "HOL-Library.Char_ord"
    "HOL-Library.Product_Lexorder" "HOL-Library.Sublist" "HOL-Library.AList" "HOL-Library.Countable"
begin

text \<open>
  Shared vocabulary of the development: Python exceptions as values, the string and
  dictionary operations of Python that the modelled code uses, rows of a database table,
  and the lemma collections the component theories fill.

  Strings are HOL strings, read as Latin-1 code points. Times are rational numbers of
  seconds. A Python dictionary is an association list in insertion order, with
  \<^const>\<open>AList.update\<close> (replace in place, else append) and \<^const>\<open>AList.delete\<close>.
\<close>

named_theorems row_simps \<open>equations of the table operations\<close>
named_theorems frame_simps \<open>fields an operation leaves unchanged\<close>
named_theorems op_defs \<open>definitions of the operations of a component\<close>

section \<open>Exceptions as values\<close>

type_synonym time = rat
type_synonym bytes = string
type_synonym 'v dict = "(string \<times> 'v) list"

datatype problem = Problem (p_path: string) (p_message: string)

text \<open>
  The exception classes that the modelled code raises or catches. \<open>NotSignedIn\<close> is a
  subclass of \<open>Forbidden\<close>; \<open>FlyDeployError\<close> is folded into \<open>FlyError\<close>. The two fields
  of \<open>OtherError\<close> are the class name and the message of any other Python exception.
\<close>

datatype exn =
    NotFound string
  | Forbidden string
  | NotSignedIn string
  | QuotaExceeded string
  | InvalidState string
  | InvalidInvite string
  | AuthError string
  | RateLimited string
  | ServiceError string
  | PolicyError "problem list"
  | Locked string
  | VaultError string
  | OAuthError string string int
  | FlyError string
  | MachinesError string "int option"
  | DeployError string
  | ValueError string
  | KeyError string
  | TypeError string
  | OtherError string string

type_synonym ('s, 'a) outcome = "(exn + 'a) \<times> 's"

fun is_err :: "'e + 'a \<Rightarrow> bool" where
  "is_err (Inl _) = True"
| "is_err (Inr _) = False"

lemma is_err_iff: "is_err r \<longleftrightarrow> (\<exists>e. r = Inl e)"
  by (cases r) auto

lemma not_is_err_iff: "\<not> is_err r \<longleftrightarrow> (\<exists>a. r = Inr a)"
  by (cases r) auto

fun bind_sum :: "exn + 'a \<Rightarrow> ('a \<Rightarrow> exn + 'b) \<Rightarrow> exn + 'b" where
  "bind_sum (Inl e) f = Inl e"
| "bind_sum (Inr a) f = f a"

lemma bind_sum_Inr_iff [simp]:
  "bind_sum r f = Inr b \<longleftrightarrow> (\<exists>a. r = Inr a \<and> f a = Inr b)"
  by (cases r) auto

section \<open>Strings\<close>

definition starts_with :: "string \<Rightarrow> string \<Rightarrow> bool" where
  "starts_with p s = (take (length p) s = p)"

definition ends_with :: "string \<Rightarrow> string \<Rightarrow> bool" where
  "ends_with p s = (length p \<le> length s \<and> drop (length s - length p) s = p)"

fun has_sub :: "string \<Rightarrow> string \<Rightarrow> bool" where
  "has_sub p [] = (p = [])"
| "has_sub p (c # s) = (starts_with p (c # s) \<or> has_sub p s)"

definition is_space :: "char \<Rightarrow> bool" where
  "is_space c = (let n = (of_char c :: nat) in
     (9 \<le> n \<and> n \<le> 13) \<or> (28 \<le> n \<and> n \<le> 32) \<or> n = 133 \<or> n = 160)"

definition lstrip_by :: "(char \<Rightarrow> bool) \<Rightarrow> string \<Rightarrow> string" where
  "lstrip_by f s = dropWhile f s"

definition rstrip_by :: "(char \<Rightarrow> bool) \<Rightarrow> string \<Rightarrow> string" where
  "rstrip_by f s = rev (dropWhile f (rev s))"

definition py_strip :: "string \<Rightarrow> string" where
  "py_strip s = rstrip_by is_space (lstrip_by is_space s)"

definition lower_char :: "char \<Rightarrow> char" where
  "lower_char c = (let n = (of_char c :: nat) in
     if (65 \<le> n \<and> n \<le> 90) \<or> (192 \<le> n \<and> n \<le> 222 \<and> n \<noteq> 215) then char_of (n + 32) else c)"

definition py_lower :: "string \<Rightarrow> string" where
  "py_lower s = map lower_char s"

text \<open>\<open>s.partition(c)\<close> for a one-character separator; the flag says whether it occurs.\<close>

definition partition_at :: "char \<Rightarrow> string \<Rightarrow> string \<times> bool \<times> string" where
  "partition_at c s =
     (let a = takeWhile (\<lambda>x. x \<noteq> c) s; r = dropWhile (\<lambda>x. x \<noteq> c) s
      in case r of [] \<Rightarrow> (a, False, []) | _ # b \<Rightarrow> (a, True, b))"

text \<open>\<open>s.rpartition(c)\<close>: split at the last occurrence.\<close>

definition rpartition_at :: "char \<Rightarrow> string \<Rightarrow> string \<times> bool \<times> string" where
  "rpartition_at c s =
     (let b = takeWhile (\<lambda>x. x \<noteq> c) (rev s); r = dropWhile (\<lambda>x. x \<noteq> c) (rev s)
      in case r of [] \<Rightarrow> ([], False, s) | _ # a \<Rightarrow> (rev a, True, rev b))"

fun split_on :: "char \<Rightarrow> string \<Rightarrow> string list" where
  "split_on c [] = [[]]"
| "split_on c (x # s) =
     (if x = c then [] # split_on c s
      else case split_on c s of [] \<Rightarrow> [[x]] | w # ws \<Rightarrow> (x # w) # ws)"

fun join_with :: "string \<Rightarrow> string list \<Rightarrow> string" where
  "join_with sep [] = []"
| "join_with sep [w] = w"
| "join_with sep (w # ws) = w @ sep @ join_with sep ws"

text \<open>\<open>s.split()\<close> with no argument: runs of whitespace separate, no empty words.\<close>

fun words_acc :: "string \<Rightarrow> string \<Rightarrow> string list" where
  "words_acc w [] = (if w = [] then [] else [rev w])"
| "words_acc w (c # s) =
     (if is_space c then (if w = [] then words_acc [] s else rev w # words_acc [] s)
      else words_acc (c # w) s)"

definition py_words :: "string \<Rightarrow> string list" where
  "py_words s = words_acc [] s"

definition digit_char :: "nat \<Rightarrow> char" where
  "digit_char d = char_of (48 + d)"

fun show_nat :: "nat \<Rightarrow> string" where
  "show_nat n = (if n < 10 then [digit_char n] else show_nat (n div 10) @ [digit_char (n mod 10)])"

declare show_nat.simps [simp del]

definition show_int :: "int \<Rightarrow> string" where
  "show_int i = (if i < 0 then CHR ''-'' # show_nat (nat (- i)) else show_nat (nat i))"

definition is_digit :: "char \<Rightarrow> bool" where
  "is_digit c = (let n = (of_char c :: nat) in 48 \<le> n \<and> n \<le> 57)"

definition is_lower :: "char \<Rightarrow> bool" where
  "is_lower c = (let n = (of_char c :: nat) in 97 \<le> n \<and> n \<le> 122)"

definition is_upper :: "char \<Rightarrow> bool" where
  "is_upper c = (let n = (of_char c :: nat) in 65 \<le> n \<and> n \<le> 90)"

definition is_ascii :: "string \<Rightarrow> bool" where
  "is_ascii s = (\<forall>c \<in> set s. (of_char c :: nat) < 128)"

definition digit_val :: "char \<Rightarrow> nat" where
  "digit_val c = of_char c - 48"

definition dec_val :: "string \<Rightarrow> nat" where
  "dec_val s = foldl (\<lambda>n c. 10 * n + digit_val c) 0 s"


text \<open>\<open>repr(s)\<close> of a Python string: the quotes and escapes CPython chooses.\<close>

definition hex_char :: "nat \<Rightarrow> char" where
  "hex_char d = char_of (if d < 10 then 48 + d else 87 + d)"

definition repr_char :: "char \<Rightarrow> char \<Rightarrow> string" where
  "repr_char q c = (let n = (of_char c :: nat) in
     if c = q \<or> n = 92 then [CHR 0x5C, c]
     else if n = 9 then [CHR 0x5C, CHR ''t'']
     else if n = 10 then [CHR 0x5C, CHR ''n'']
     else if n = 13 then [CHR 0x5C, CHR ''r'']
     else if n < 32 \<or> (127 \<le> n \<and> n \<le> 160) \<or> n = 173
       then [CHR 0x5C, CHR ''x'', hex_char (n div 16), hex_char (n mod 16)]
     else [c])"

definition py_repr :: "string \<Rightarrow> string" where
  "py_repr s =
     (let q = (if CHR 0x27 \<in> set s \<and> CHR 0x22 \<notin> set s then CHR 0x22 else CHR 0x27)
      in q # concat (map (repr_char q) s) @ [q])"

text \<open>
  \<open>s.format(**fields)\<close> for plain replacement fields. Conversions, format specifications
  and attribute access inside a field are rejected here (\<open>FormatSpec\<close>); Python would
  evaluate them.
\<close>

definition format_field :: "string dict \<Rightarrow> string \<Rightarrow> exn + string" where
  "format_field d w =
     (if w = [] \<or> list_all is_digit w
      then Inl (OtherError ''IndexError'' ''Replacement index out of range for positional args tuple'')
      else case map_of d w of
        Some v \<Rightarrow> Inr v
      | None \<Rightarrow> if list_ex (\<lambda>c. c \<in> {CHR ''!'', CHR '':'', CHR ''.'', CHR ''['', CHR ''{''}) w
               then Inl (OtherError ''FormatSpec'' w) else Inl (KeyError w))"

fun format_from :: "string dict \<Rightarrow> string option \<Rightarrow> string \<Rightarrow> exn + string" where
  "format_from d None [] = Inr []"
| "format_from d (Some w) [] = Inl (ValueError ''expected '}' before end of string'')"
| "format_from d None (c # s) =
     (if c = CHR ''{'' then
        (case s of
           [] \<Rightarrow> Inl (ValueError ''Single '{' encountered in format string'')
         | x # s' \<Rightarrow> if x = CHR ''{'' then map_sum id ((#) x) (format_from d None s')
                     else format_from d (Some []) s)
      else if c = CHR ''}'' then
        (case s of
           [] \<Rightarrow> Inl (ValueError ''Single '}' encountered in format string'')
         | x # s' \<Rightarrow> if x = CHR ''}'' then map_sum id ((#) x) (format_from d None s')
                     else Inl (ValueError ''Single '}' encountered in format string''))
      else map_sum id ((#) c) (format_from d None s))"
| "format_from d (Some w) (c # s) =
     (if c = CHR ''}'' then
        (case format_field d (rev w) of
           Inl e \<Rightarrow> Inl e
         | Inr v \<Rightarrow> map_sum id ((@) v) (format_from d None s))
      else format_from d (Some (c # w)) s)"

definition py_format :: "string dict \<Rightarrow> string \<Rightarrow> exn + string" where
  "py_format d s = format_from d None s"

section \<open>Laws of the string operations\<close>

lemma starts_with_iff: "starts_with p s \<longleftrightarrow> (\<exists>r. s = p @ r)"
  unfolding starts_with_def by (metis append_take_drop_id append_eq_conv_conj)

lemma starts_with_append [simp]: "starts_with p (p @ r)"
  by (simp add: starts_with_def)

lemma ends_with_iff: "ends_with p s \<longleftrightarrow> (\<exists>r. s = r @ p)"
proof
  assume "ends_with p s"
  then have "s = take (length s - length p) s @ p"
    unfolding ends_with_def by (metis append_take_drop_id)
  then show "\<exists>r. s = r @ p" ..
qed (auto simp: ends_with_def)

text \<open>Stripping twice is stripping once.\<close>

lemma rstrip_keep: "xs = [] \<or> \<not> f (last xs) \<Longrightarrow> rstrip_by f xs = xs"
  by (cases xs rule: rev_cases) (auto simp: rstrip_by_def)

lemma lstrip_keep: "xs = [] \<or> \<not> f (hd xs) \<Longrightarrow> lstrip_by f xs = xs"
  by (cases xs) (auto simp: lstrip_by_def)

lemma rstrip_last: "rstrip_by f xs = [] \<or> \<not> f (last (rstrip_by f xs))"
  by (metis hd_dropWhile last_rev rev_is_Nil_conv rstrip_by_def)

lemma rstrip_prefix: "\<exists>zs. xs = rstrip_by f xs @ zs"
  unfolding rstrip_by_def by (metis rev_append rev_rev_ident takeWhile_dropWhile_id)

lemma py_strip_idem [simp]: "py_strip (py_strip t) = py_strip t"
proof -
  let ?l = "lstrip_by is_space t"
  have l: "?l = [] \<or> \<not> is_space (hd ?l)" by (metis hd_dropWhile lstrip_by_def)
  obtain zs where zs: "?l = rstrip_by is_space ?l @ zs" using rstrip_prefix by blast
  have "rstrip_by is_space ?l = [] \<or> \<not> is_space (hd (rstrip_by is_space ?l))"
    using l zs by (metis hd_append2 append_is_Nil_conv)
  then show ?thesis by (simp add: py_strip_def lstrip_keep rstrip_keep rstrip_last)
qed

lemma py_strip_keep: "(\<And>c. c \<in> set t \<Longrightarrow> \<not> is_space c) \<Longrightarrow> py_strip t = t"
  unfolding py_strip_def by (subst lstrip_keep; cases t) (auto intro!: rstrip_keep)

lemma py_strip_Nil [simp]: "py_strip [] = []"
  by (rule py_strip_keep) simp

lemma partition_at_append [simp]:
  "c \<notin> set a \<Longrightarrow> partition_at c (a @ c # b) = (a, True, b)"
  unfolding partition_at_def by (auto simp: takeWhile_append dropWhile_append)

lemma partition_at_None [simp]:
  "c \<notin> set a \<Longrightarrow> partition_at c a = (a, False, [])"
proof -
  assume "c \<notin> set a"
  then have "takeWhile (\<lambda>x. x \<noteq> c) a = a" "dropWhile (\<lambda>x. x \<noteq> c) a = []"
    by (auto simp: takeWhile_eq_all_conv dropWhile_eq_Nil_conv)
  then show ?thesis unfolding partition_at_def Let_def by (simp only: list.case)
qed

lemma partition_at_True:
  "partition_at c s = (a, True, b) \<Longrightarrow> s = a @ c # b \<and> c \<notin> set a"
proof -
  assume h: "partition_at c s = (a, True, b)"
  obtain x r where r: "dropWhile (\<lambda>x. x \<noteq> c) s = x # r"
    using h by (auto simp: partition_at_def Let_def split: list.splits)
  then have "x = c" using hd_dropWhile [of "\<lambda>x. x \<noteq> c" s] by force
  moreover have "s = takeWhile (\<lambda>x. x \<noteq> c) s @ x # r"
    using r takeWhile_dropWhile_id [of "\<lambda>x. x \<noteq> c" s] by simp
  moreover have "a = takeWhile (\<lambda>x. x \<noteq> c) s" "b = r"
    using h r by (auto simp: partition_at_def Let_def)
  ultimately show ?thesis by (auto dest: set_takeWhileD)
qed

lemma show_nat_nonempty [simp]: "show_nat n \<noteq> []"
  by (subst show_nat.simps) simp

lemma digit_char_val: "d < 10 \<Longrightarrow> digit_val (digit_char d) = d"
  by (simp add: digit_val_def digit_char_def)

lemma dec_val_snoc: "dec_val (s @ [c]) = 10 * dec_val s + digit_val c"
  by (simp add: dec_val_def)

text \<open>Decimal rendering is read back by decimal evaluation; so it is injective.\<close>

lemma dec_val_show_nat [simp]: "dec_val (show_nat n) = n"
proof (induction n rule: show_nat.induct)
  case (1 n)
  show ?case
  proof (cases "n < 10")
    case True
    then show ?thesis
      by (subst show_nat.simps) (simp add: dec_val_def digit_char_val)
  next
    case False
    with 1 show ?thesis
      by (subst show_nat.simps) (simp add: dec_val_snoc digit_char_val)
  qed
qed

lemma show_nat_inject [simp]: "show_nat m = show_nat n \<longleftrightarrow> m = n"
  by (metis dec_val_show_nat)

lemma show_nat_digits: "c \<in> set (show_nat n) \<Longrightarrow> is_digit c"
proof (induction n rule: show_nat.induct)
  case (1 n)
  have dig: "d < 10 \<Longrightarrow> is_digit (digit_char d)" for d
    by (simp add: is_digit_def digit_char_def)
  show ?case
  proof (cases "n < 10")
    case True
    with "1.prems" show ?thesis by (subst (asm) show_nat.simps) (simp add: dig)
  next
    case False
    then have "c \<in> set (show_nat (n div 10)) \<or> c = digit_char (n mod 10)"
      using "1.prems" by (subst (asm) show_nat.simps) auto
    with "1.IH" False show ?thesis by (auto simp: dig)
  qed
qed

section \<open>Rows of a table\<close>

text \<open>
  A database table is the list of its rows in insertion order. \<open>SELECT * WHERE key=?\<close> on a
  primary key, \<open>UPDATE .. WHERE\<close>, \<open>DELETE .. WHERE\<close> and \<open>SELECT COUNT(*) .. WHERE\<close> are
  the four operations the code uses; an \<open>INSERT\<close> appends.
\<close>

definition find_row :: "('r \<Rightarrow> 'k) \<Rightarrow> 'k \<Rightarrow> 'r list \<Rightarrow> 'r option" where
  "find_row key k rows = find (\<lambda>r. key r = k) rows"

definition update_where :: "('r \<Rightarrow> bool) \<Rightarrow> ('r \<Rightarrow> 'r) \<Rightarrow> 'r list \<Rightarrow> 'r list" where
  "update_where p f rows = map (\<lambda>r. if p r then f r else r) rows"

definition delete_where :: "('r \<Rightarrow> bool) \<Rightarrow> 'r list \<Rightarrow> 'r list" where
  "delete_where p rows = filter (\<lambda>r. \<not> p r) rows"

definition count_where :: "('r \<Rightarrow> bool) \<Rightarrow> 'r list \<Rightarrow> int" where
  "count_where p rows = int (length (filter p rows))"

lemma find_row_Nil [simp]: "find_row key k [] = None"
  by (simp add: find_row_def)

lemma find_row_Cons [row_simps]:
  "find_row key k (r # rs) = (if key r = k then Some r else find_row key k rs)"
  by (simp add: find_row_def)

lemma find_row_SomeD: "find_row key k rows = Some r \<Longrightarrow> r \<in> set rows \<and> key r = k"
  by (induction rows) (auto simp: row_simps split: if_splits)

lemma find_row_None_iff: "find_row key k rows = None \<longleftrightarrow> k \<notin> key ` set rows"
  by (induction rows) (auto simp: row_simps)

lemma find_row_append [row_simps]:
  "find_row key k (xs @ ys) = (case find_row key k xs of None \<Rightarrow> find_row key k ys | Some r \<Rightarrow> Some r)"
  by (induction xs) (auto simp: row_simps)

lemma find_row_distinct:
  "distinct (map key rows) \<Longrightarrow> r \<in> set rows \<Longrightarrow> find_row key (key r) rows = Some r"
proof (induction rows)
  case (Cons x xs)
  then show ?case by (auto simp: row_simps)
qed simp

lemma in_update_where [row_simps]:
  "r \<in> set (update_where p f rows) \<longleftrightarrow> (\<exists>q \<in> set rows. r = (if p q then f q else q))"
  by (auto simp: update_where_def)

lemma length_update_where [simp]: "length (update_where p f rows) = length rows"
  by (simp add: update_where_def)

lemma find_row_deleted: "find_row key h (delete_where (\<lambda>w. key w = h) rows) = None"
  by (auto simp: find_row_None_iff delete_where_def)

lemma count_where_Nil [simp]: "count_where p [] = 0"
  by (simp add: count_where_def)

lemma count_where_Cons [row_simps]:
  "count_where p (r # rs) = (if p r then 1 else 0) + count_where p rs"
  by (simp add: count_where_def)

lemma count_where_append [row_simps]:
  "count_where p (xs @ ys) = count_where p xs + count_where p ys"
  by (simp add: count_where_def)

lemma count_where_nonneg [simp]: "0 \<le> count_where p rows"
  by (simp add: count_where_def)

lemma count_where_mono:
  "(\<And>r. r \<in> set rows \<Longrightarrow> p r \<Longrightarrow> q r) \<Longrightarrow> count_where p rows \<le> count_where q rows"
  by (induction rows) (auto simp: row_simps)

lemma count_where_update_le:
  "(\<And>r. r \<in> set rows \<Longrightarrow> p r \<Longrightarrow> q (f r) \<Longrightarrow> q r)
   \<Longrightarrow> count_where q (update_where p f rows) \<le> count_where q rows"
  by (induction rows) (auto simp: row_simps update_where_def)

lemma count_where_delete_le: "count_where q (delete_where p rows) \<le> count_where q rows"
  by (induction rows) (auto simp: row_simps delete_where_def)

text \<open>
  The contract of a row update that keeps the primary key: lookups commute with it. Every
  \<open>UPDATE\<close> of the code is one; the component theories interpret the locale for them.
\<close>

locale key_update =
  fixes key :: "'r \<Rightarrow> 'k" and f :: "'r \<Rightarrow> 'r"
  assumes key_kept: "key (f r) = key r"
begin

lemma keys_update: "map key (update_where p f rows) = map key rows"
  by (induction rows) (auto simp: update_where_def key_kept)

lemma find_update:
  "find_row key k (update_where p f rows)
   = map_option (\<lambda>r. if p r then f r else r) (find_row key k rows)"
  by (induction rows) (auto simp: update_where_def row_simps key_kept)

lemma distinct_update:
  "distinct (map key (update_where p f rows)) \<longleftrightarrow> distinct (map key rows)"
  by (simp add: keys_update)

end

lemma keys_delete_distinct:
  "distinct (map key rows) \<Longrightarrow> distinct (map key (delete_where p rows))"
  unfolding delete_where_def by (rule distinct_map_filter)

section \<open>Dictionaries\<close>

definition dict_get :: "'v dict \<Rightarrow> string \<Rightarrow> 'v option" where
  "dict_get d k = map_of d k"

definition dict_has :: "'v dict \<Rightarrow> string \<Rightarrow> bool" where
  "dict_has d k = (map_of d k \<noteq> None)"

definition dict_merge :: "'v dict \<Rightarrow> 'v dict \<Rightarrow> 'v dict" where
  "dict_merge d e = foldl (\<lambda>acc (k, v). AList.update k v acc) d e"

lemma dict_merge_get: "distinct (map fst e) \<Longrightarrow>
  map_of (dict_merge d e) k = (case map_of e k of Some v \<Rightarrow> Some v | None \<Rightarrow> map_of d k)"
proof (induction e arbitrary: d)
  case Nil
  then show ?case by (simp add: dict_merge_def)
next
  case (Cons p e)
  obtain a b where p: "p = (a, b)" by fastforce
  have "dict_merge d (p # e) = dict_merge (AList.update a b d) e"
    by (simp add: dict_merge_def p)
  with Cons p show ?case
    by (cases "k = a") (auto simp: update_conv' split: option.splits dest!: map_of_SomeD intro: rev_image_eqI)
qed

section \<open>Handles that work once\<close>

text \<open>
  The contract of taking a single-use handle (an authorization code, a ceremony): it is there
  when it is taken, and gone afterwards whatever came of it.
\<close>

locale one_shot =
  fixes take_it :: "'s \<Rightarrow> ('e + 'a) \<times> 's" and armed :: "'s \<Rightarrow> bool" and ok :: "'s \<Rightarrow> bool"
  assumes armed_if_taken: "take_it s = (Inr a, s') \<Longrightarrow> armed s"
    and disarmed: "ok s \<Longrightarrow> take_it s = (r, s') \<Longrightarrow> ok s' \<and> \<not> armed s'"
begin

lemma unarmed_fails:
  assumes "\<not> armed s"
  shows "\<exists>e. fst (take_it s) = Inl e"
proof (cases "fst (take_it s)")
  case (Inr a)
  then have "take_it s = (Inr a, snd (take_it s))" by (metis prod.collapse)
  with assms show ?thesis by (auto dest: armed_if_taken)
qed simp

lemma second_fails: "ok s \<Longrightarrow> take_it s = (r, s') \<Longrightarrow> \<exists>e. fst (take_it s') = Inl e"
  using disarmed [of s r s'] unarmed_fails [of s'] by simp

end

end
