(* ===== verification/Json.thy ===== *)
theory Json
  imports Prelude
begin

text \<open>
  JSON values as Python's \<open>json\<close> module reads them: \<open>int\<close>, \<open>float\<close> (a rational here) and
  \<open>bool\<close> are distinct types that compare by value (\<open>1 == 1.0 == True\<close>), and an object is
  a dictionary in insertion order.
\<close>

datatype json =
    JNull
  | JBool bool
  | JInt int
  | JFloat rat
  | JStr string
  | JList "json list"
  | JObj "(string \<times> json) list"

definition json_num :: "json \<Rightarrow> rat option" where
  "json_num j = (case j of
      JBool b \<Rightarrow> Some (if b then 1 else 0)
    | JInt i \<Rightarrow> Some (of_int i)
    | JFloat r \<Rightarrow> Some r
    | _ \<Rightarrow> None)"

text \<open>Normal form for \<open>==\<close>: numbers by value, objects by key.\<close>

primrec json_norm :: "json \<Rightarrow> json" where
  "json_norm JNull = JNull"
| "json_norm (JBool b) = JFloat (if b then 1 else 0)"
| "json_norm (JInt i) = JFloat (of_int i)"
| "json_norm (JFloat r) = JFloat r"
| "json_norm (JStr s) = JStr s"
| "json_norm (JList js) = JList (map json_norm js)"
| "json_norm (JObj kvs) = JObj (sort_key fst (map (map_prod id json_norm) kvs))"

definition json_eq :: "json \<Rightarrow> json \<Rightarrow> bool" where
  "json_eq a b = (json_norm a = json_norm b)"

text \<open>Python's truth value.\<close>

fun json_truthy :: "json \<Rightarrow> bool" where
  "json_truthy JNull = False"
| "json_truthy (JBool b) = b"
| "json_truthy (JInt i) = (i \<noteq> 0)"
| "json_truthy (JFloat r) = (r \<noteq> 0)"
| "json_truthy (JStr s) = (s \<noteq> [])"
| "json_truthy (JList js) = (js \<noteq> [])"
| "json_truthy (JObj kvs) = (kvs \<noteq> [])"

fun json_keys :: "json \<Rightarrow> string list" where
  "json_keys (JObj kvs) = map fst kvs"
| "json_keys _ = []"

text \<open>\<open>d.get(k)\<close> of a dictionary; the callers test \<open>isinstance(d, dict)\<close> first.\<close>

fun json_get :: "json \<Rightarrow> string \<Rightarrow> json option" where
  "json_get (JObj kvs) k = map_of kvs k"
| "json_get _ k = None"

fun is_JObj :: "json \<Rightarrow> bool" where
  "is_JObj (JObj _) = True" | "is_JObj _ = False"

fun is_JStr :: "json \<Rightarrow> bool" where
  "is_JStr (JStr _) = True" | "is_JStr _ = False"

fun is_JBool :: "json \<Rightarrow> bool" where
  "is_JBool (JBool _) = True" | "is_JBool _ = False"

text \<open>\<open>isinstance(v, int)\<close>: a \<open>bool\<close> is an \<open>int\<close> too.\<close>

fun is_JInt :: "json \<Rightarrow> bool" where
  "is_JInt (JInt _) = True" | "is_JInt (JBool _) = True" | "is_JInt _ = False"

text \<open>\<open>j.get(k)\<close> of any value, and \<open>list(j or [])\<close>.\<close>

definition no_attribute :: exn where
  "no_attribute = OtherError ''AttributeError'' (''object has no attribute '' @ py_repr ''get'')"

definition get_attr :: "json \<Rightarrow> string \<Rightarrow> exn + json" where
  "get_attr j k =
     (case j of
        JObj kvs \<Rightarrow> Inr (case map_of kvs k of None \<Rightarrow> JNull | Some v \<Rightarrow> v)
      | _ \<Rightarrow> Inl no_attribute)"

definition as_list :: "json \<Rightarrow> exn + json list" where
  "as_list j =
     (if \<not> json_truthy j then Inr []
      else case j of
        JList l \<Rightarrow> Inr l
      | JStr t \<Rightarrow> Inr (map (\<lambda>c. JStr [c]) t)
      | JObj kvs \<Rightarrow> Inr (map (\<lambda>(k, v). JStr k) kvs)
      | _ \<Rightarrow> Inl (TypeError ''object is not iterable''))"

section \<open>JSON text\<close>

abbreviation newline :: char where "newline \<equiv> CHR 0x0A"
abbreviation quote_mark :: char where "quote_mark \<equiv> CHR 0x22"

definition quoted :: "string \<Rightarrow> string" where
  "quoted s = [quote_mark] @ s @ [quote_mark]"

definition json_char :: "char \<Rightarrow> string" where
  "json_char c = (let n = (of_char c :: nat) in
     if n = 34 \<or> n = 92 then [CHR 0x5C, c]
     else if n = 10 then [CHR 0x5C, CHR ''n'']
     else if n = 13 then [CHR 0x5C, CHR ''r'']
     else if n = 9 then [CHR 0x5C, CHR ''t'']
     else if n = 8 then [CHR 0x5C, CHR ''b'']
     else if n = 12 then [CHR 0x5C, CHR ''f'']
     else if 32 \<le> n \<and> n \<le> 126 then [c]
     else [CHR 0x5C, CHR ''u'', CHR ''0'', CHR ''0'', hex_char (n div 16), hex_char (n mod 16)])"

definition json_text :: "string \<Rightarrow> string" where
  "json_text s = quoted (concat (map json_char s))"

text \<open>
  \<open>json.dumps\<close>: the indent per level, if any, and the separators of items and of a key from
  its value. \<open>sf\<close> is \<open>repr\<close> of a float.
\<close>

record json_style =
  js_indent :: "nat option"
  js_comma :: string
  js_colon :: string

definition indented :: "nat \<Rightarrow> json_style" where
  "indented n = \<lparr>js_indent = Some n, js_comma = '','', js_colon = '': ''\<rparr>"

definition one_line_json :: json_style where
  "one_line_json = \<lparr>js_indent = None, js_comma = '', '', js_colon = '': ''\<rparr>"

definition compact_json :: json_style where
  "compact_json = \<lparr>js_indent = None, js_comma = '','', js_colon = '':''\<rparr>"

definition line_start :: "json_style \<Rightarrow> nat \<Rightarrow> string" where
  "line_start st level = (case js_indent st of None \<Rightarrow> [] | Some n \<Rightarrow> newline # replicate (n * level) CHR '' '')"

fun dumps :: "(rat \<Rightarrow> string) \<Rightarrow> json_style \<Rightarrow> nat \<Rightarrow> json \<Rightarrow> string" where
  "dumps sf st level JNull = ''null''"
| "dumps sf st level (JBool b) = (if b then ''true'' else ''false'')"
| "dumps sf st level (JInt i) = show_int i"
| "dumps sf st level (JFloat q) = sf q"
| "dumps sf st level (JStr s) = json_text s"
| "dumps sf st level (JList js) =
     (if js = [] then ''[]''
      else ''['' @ line_start st (Suc level) @
           join_with (js_comma st @ line_start st (Suc level)) (map (dumps sf st (Suc level)) js) @
           line_start st level @ '']'')"
| "dumps sf st level (JObj kvs) =
     (if kvs = [] then ''{}''
      else ''{'' @ line_start st (Suc level) @
           join_with (js_comma st @ line_start st (Suc level))
             (map (\<lambda>kv. json_text (fst kv) @ js_colon st @ dumps sf st (Suc level) (snd kv)) kvs) @
           line_start st level @ ''}'')"

text \<open>\<open>sort_keys=True\<close>.\<close>

primrec sorted_keys :: "json \<Rightarrow> json" where
  "sorted_keys JNull = JNull"
| "sorted_keys (JBool b) = JBool b"
| "sorted_keys (JInt i) = JInt i"
| "sorted_keys (JFloat r) = JFloat r"
| "sorted_keys (JStr s) = JStr s"
| "sorted_keys (JList js) = JList (map sorted_keys js)"
| "sorted_keys (JObj kvs) = JObj (sort_key fst (map (map_prod id sorted_keys) kvs))"

instance json :: countable
  by countable_datatype

lemma json_eq_refl [simp]: "json_eq a a"
  by (simp add: json_eq_def)

lemma json_eq_sym: "json_eq a b \<longleftrightarrow> json_eq b a"
  by (auto simp: json_eq_def)

lemma json_eq_trans: "json_eq a b \<Longrightarrow> json_eq b c \<Longrightarrow> json_eq a c"
  by (simp add: json_eq_def)

end
