(* ===== verification/Vault.thy ===== *)
theory Vault
  imports Json
begin

text \<open>
  Sealing (sirosid_service/vault.py). AES-GCM is a third-party primitive: the record
  \<open>aead\<close> holds its two functions, on an abstract plaintext that is either bytes or the JSON
  document that the service serialises right before sealing. A sealed blob is the version
  byte, the nonce and the ciphertext, as in the source. \<open>SessionKeys\<close> is a dictionary from
  session ids to entries; its clock readings and random ids are arguments.
\<close>

datatype plaintext = PBytes bytes | PDoc json

instance plaintext :: countable
  by countable_datatype

record aead =
  a_enc :: "bytes \<Rightarrow> bytes \<Rightarrow> plaintext \<Rightarrow> bytes \<Rightarrow> bytes"
  a_dec :: "bytes \<Rightarrow> bytes \<Rightarrow> bytes \<Rightarrow> bytes \<Rightarrow> plaintext option"

text \<open>What the code relies on: decryption inverts encryption, and a ciphertext carries a tag.\<close>

definition aead_correct :: "aead \<Rightarrow> bool" where
  "aead_correct A \<longleftrightarrow>
     (\<forall>k n p a. a_dec A k n (a_enc A k n p a) a = Some p \<and> 16 \<le> length (a_enc A k n p a))"

text \<open>
  Authenticity, idealised: a ciphertext made under one key, nonce and associated data opens
  under no other.
\<close>

definition aead_binding :: "aead \<Rightarrow> bool" where
  "aead_binding A \<longleftrightarrow>
     (\<forall>k n p a k' n' a'. (k', n', a') \<noteq> (k, n, a) \<longrightarrow> a_dec A k' n' (a_enc A k n p a) a' = None)"

definition FORMAT_VERSION :: nat where "FORMAT_VERSION = 1"
definition KEY_BYTES :: nat where "KEY_BYTES = 32"
definition NONCE_BYTES :: nat where "NONCE_BYTES = 12"
definition KEY_CHECK_PLAINTEXT :: plaintext where "KEY_CHECK_PLAINTEXT = PBytes ''sirosid key check v1''"
definition DEFAULT_SESSION_TTL :: time where "DEFAULT_SESSION_TTL = 8 * 3600"
definition MAX_SESSION_TTL :: time where "MAX_SESSION_TTL = 24 * 3600"

definition aad :: "string \<Rightarrow> string \<Rightarrow> string \<Rightarrow> bytes" where
  "aad user_id kind object_id =
     ''sirosid/v'' @ show_nat FORMAT_VERSION @ ''|'' @ user_id @ ''|'' @ kind @ ''|'' @ object_id"

text \<open>A \<open>Sealer\<close> is its key; the constructor checks the length.\<close>

type_synonym sealer = bytes

definition make_sealer :: "bytes \<Rightarrow> exn + sealer" where
  "make_sealer key =
     (if length key \<noteq> KEY_BYTES
      then Inl (ValueError (''the main key must be '' @ show_nat KEY_BYTES @ '' bytes''))
      else Inr key)"

definition seal :: "aead \<Rightarrow> sealer \<Rightarrow> bytes \<Rightarrow> plaintext \<Rightarrow> bytes \<Rightarrow> bytes" where
  "seal A k nonce p a = char_of FORMAT_VERSION # nonce @ a_enc A k nonce p a"

definition open_blob :: "aead \<Rightarrow> sealer \<Rightarrow> bytes \<Rightarrow> bytes \<Rightarrow> exn + plaintext" where
  "open_blob A k blob a =
     (if length blob < 1 + NONCE_BYTES + 16 \<or> blob ! 0 \<noteq> char_of FORMAT_VERSION
      then Inl (VaultError ''not a sealed blob of a version this service understands'')
      else case a_dec A k (take NONCE_BYTES (drop 1 blob)) (drop (1 + NONCE_BYTES) blob) a of
             None \<Rightarrow> Inl (VaultError ''could not open: wrong key, wrong owner or object, or tampered'')
           | Some p \<Rightarrow> Inr p)"

lemma seal_length:
  "aead_correct A \<Longrightarrow> length nonce = NONCE_BYTES \<Longrightarrow> \<not> length (seal A k nonce p a) < 1 + NONCE_BYTES + 16"
  by (simp add: seal_def aead_correct_def not_less)

lemma open_seal:
  assumes "aead_correct A" and "length nonce = NONCE_BYTES"
  shows "open_blob A k (seal A k nonce p a) a = Inr p"
  using assms seal_length [OF assms, of k p a]
  by (simp add: open_blob_def seal_def aead_correct_def)

lemma open_other:
  assumes "aead_correct A" "aead_binding A" and "length nonce = NONCE_BYTES" and "k' \<noteq> k \<or> a' \<noteq> a"
  shows "\<exists>m. open_blob A k' (seal A k nonce p a) a' = Inl (VaultError m)"
  using assms seal_length [OF assms(1,3), of k p a]
  by (auto simp: open_blob_def seal_def aead_binding_def)

text \<open>
  The associated data names one object of one user, as long as the user id has no bar (ids
  are \<open>u_\<close> and hexadecimal digits) and neither has the kind (a literal of the code).
\<close>

lemma bar_append_eq:
  assumes "u @ CHR ''|'' # x = v @ CHR ''|'' # y" and "CHR ''|'' \<notin> set u" and "CHR ''|'' \<notin> set v"
  shows "u = v \<and> x = y"
proof -
  have "(u, True, x) = (v, True, y)"
    unfolding partition_at_append [OF assms(2), of x, symmetric]
      partition_at_append [OF assms(3), of y, symmetric] assms(1) ..
  then show ?thesis by simp
qed

lemma aad_inject:
  assumes "aad u k x = aad v l y"
    and "CHR ''|'' \<notin> set u" "CHR ''|'' \<notin> set v" "CHR ''|'' \<notin> set k" "CHR ''|'' \<notin> set l"
  shows "u = v \<and> k = l \<and> x = y"
proof -
  from assms(1) have "u @ CHR ''|'' # (k @ CHR ''|'' # x) = v @ CHR ''|'' # (l @ CHR ''|'' # y)"
    by (simp add: aad_def)
  from bar_append_eq [OF this assms(2,3)] have uv: "u = v" and "k @ CHR ''|'' # x = l @ CHR ''|'' # y"
    by auto
  from bar_append_eq [OF this(2) assms(4,5)] uv show ?thesis by simp
qed

section \<open>Session keys\<close>

record entry =
  e_sealer :: sealer
  e_user :: string
  e_expires :: time

type_synonym session_keys = "entry dict"

definition keys_purge :: "time \<Rightarrow> session_keys \<Rightarrow> session_keys" where
  "keys_purge now ks = filter (\<lambda>(s, e). \<not> e_expires e \<le> now) ks"

definition keys_put ::
  "string \<Rightarrow> bytes \<Rightarrow> time option \<Rightarrow> time \<Rightarrow> string \<Rightarrow> session_keys \<Rightarrow> (session_keys, string) outcome" where
  "keys_put user_id key ttl now fresh ks =
     (let ttl = (case ttl of None \<Rightarrow> DEFAULT_SESSION_TTL | Some t \<Rightarrow> min t MAX_SESSION_TTL)
      in if ttl \<le> 0 then (Inl (ValueError ''a session needs a positive lifetime''), ks)
         else
           let ks = keys_purge now ks; sid = ''s_'' @ fresh
           in case make_sealer key of
                Inl e \<Rightarrow> (Inl e, ks)
              | Inr s \<Rightarrow> (Inr sid, AList.update sid \<lparr>e_sealer = s, e_user = user_id, e_expires = now + ttl\<rparr> ks))"

definition keys_get :: "string \<Rightarrow> string \<Rightarrow> time \<Rightarrow> session_keys \<Rightarrow> (session_keys, sealer) outcome" where
  "keys_get session_id user_id now ks =
     (case map_of ks session_id of
        None \<Rightarrow> (Inl (Locked ''your session is locked: unlock it with your passkey''), AList.delete session_id ks)
      | Some e \<Rightarrow>
          if e_expires e \<le> now
          then (Inl (Locked ''your session is locked: unlock it with your passkey''), AList.delete session_id ks)
          else if e_user e \<noteq> user_id then (Inl (Locked ''this session belongs to someone else''), ks)
          else (Inr (e_sealer e), ks))"

definition keys_expires_at :: "string \<Rightarrow> string \<Rightarrow> time \<Rightarrow> session_keys \<Rightarrow> (session_keys, time) outcome" where
  "keys_expires_at session_id user_id now ks =
     (case keys_get session_id user_id now ks of
        (Inl e, ks') \<Rightarrow> (Inl e, ks')
      | (Inr _, ks') \<Rightarrow>
          (case map_of ks' session_id of
             None \<Rightarrow> (Inl (KeyError session_id), ks')
           | Some e \<Rightarrow> (Inr (e_expires e), ks')))"

definition keys_clone ::
  "string \<Rightarrow> string \<Rightarrow> time \<Rightarrow> time \<Rightarrow> string \<Rightarrow> session_keys \<Rightarrow> (session_keys, string) outcome" where
  "keys_clone session_id user_id ttl now fresh ks =
     (case keys_get session_id user_id now ks of
        (Inl e, ks') \<Rightarrow> (Inl e, ks')
      | (Inr s, ks') \<Rightarrow>
          let ttl = min ttl MAX_SESSION_TTL; sid = ''s_'' @ fresh
          in if ttl \<le> 0 then (Inl (ValueError ''a session needs a positive lifetime''), ks')
             else (Inr sid, AList.update sid \<lparr>e_sealer = s, e_user = user_id, e_expires = now + ttl\<rparr> ks'))"

definition keys_drop :: "string \<Rightarrow> session_keys \<Rightarrow> session_keys" where
  "keys_drop session_id ks = AList.delete session_id ks"

definition keys_drop_user :: "string \<Rightarrow> session_keys \<Rightarrow> session_keys" where
  "keys_drop_user user_id ks = filter (\<lambda>(s, e). e_user e \<noteq> user_id) ks"

definition keys_len :: "time \<Rightarrow> session_keys \<Rightarrow> nat \<times> session_keys" where
  "keys_len now ks = (let ks = keys_purge now ks in (length ks, ks))"

text \<open>The session \<open>sid\<close> holds a live key of \<open>user_id\<close>.\<close>

definition key_live :: "session_keys \<Rightarrow> string \<Rightarrow> string \<Rightarrow> time \<Rightarrow> bool" where
  "key_live ks sid user_id now =
     (case map_of ks sid of None \<Rightarrow> False | Some e \<Rightarrow> now < e_expires e \<and> e_user e = user_id)"

lemma keys_get_Inr_iff:
  "keys_get sid u now ks = (Inr s, ks') \<longleftrightarrow>
   ks' = ks \<and> (\<exists>e. map_of ks sid = Some e \<and> now < e_expires e \<and> e_user e = u \<and> e_sealer e = s)"
  by (auto simp: keys_get_def split: option.splits)

lemma keys_get_live: "is_err (fst (keys_get sid u now ks)) \<longleftrightarrow> \<not> key_live ks sid u now"
  by (auto simp: keys_get_def key_live_def split: option.splits)

lemma keys_get_err_Locked: "fst (keys_get sid u now ks) = Inl e \<Longrightarrow> \<exists>m. e = Locked m"
  by (auto simp: keys_get_def split: option.splits if_splits)

text \<open>A failed look-up only ever removes an entry that is dead already.\<close>

lemma keys_get_keeps_live:
  "key_live (snd (keys_get sid u now ks)) sid' u' now \<longleftrightarrow> key_live ks sid' u' now"
  by (auto simp: keys_get_def key_live_def delete_conv' split: option.splits if_splits)

lemma map_of_filter_snd:
  "distinct (map fst ks) \<Longrightarrow>
   map_of (filter (\<lambda>(s, e). P e) ks) k = (case map_of ks k of None \<Rightarrow> None | Some e \<Rightarrow> if P e then Some e else None)"
  by (induction ks) (auto simp: split: option.splits dest: map_of_SomeD intro: rev_image_eqI)

lemma key_live_purge:
  "distinct (map fst ks) \<Longrightarrow> key_live (keys_purge now ks) sid u t \<longleftrightarrow>
   key_live ks sid u t \<and> (\<exists>e. map_of ks sid = Some e \<and> now < e_expires e)"
  by (cases "map_of ks sid") (auto simp del: map_of_eq_Some_iff simp: key_live_def keys_purge_def map_of_filter_snd [where P = "\<lambda>e. \<not> e_expires e \<le> now"]
      split: option.splits if_splits)

lemma drop_user_dead:
  "distinct (map fst ks) \<Longrightarrow> \<not> key_live (keys_drop_user u ks) sid u now"
  by (auto simp: key_live_def keys_drop_user_def map_of_filter_snd [where P = "\<lambda>e. e_user e \<noteq> u"]
      split: option.splits if_splits)

lemma keys_distinct:
  "distinct (map fst ks) \<Longrightarrow> distinct (map fst (keys_purge now ks))"
  "distinct (map fst ks) \<Longrightarrow> distinct (map fst (keys_drop_user u ks))"
  "distinct (map fst ks) \<Longrightarrow> distinct (map fst (keys_drop s ks))"
  "distinct (map fst ks) \<Longrightarrow> distinct (map fst (snd (keys_get s u now ks)))"
  by (auto simp: keys_purge_def keys_drop_user_def keys_drop_def keys_get_def distinct_map_filter
      distinct_delete split: option.splits if_splits)

text \<open>A session is dead once it is dropped; a clone has the owner and key of its parent.\<close>

lemma keys_drop_dead: "\<not> key_live (keys_drop sid ks) sid u now"
  by (simp add: keys_drop_def key_live_def delete_conv')

lemma keys_clone_Inr:
  assumes "keys_clone sid u ttl now fresh ks = (Inr new, ks')"
  shows "key_live ks sid u now"
    and "map_of ks' new = Some \<lparr>e_sealer = e_sealer (the (map_of ks sid)), e_user = u,
                                 e_expires = now + min ttl MAX_SESSION_TTL\<rparr>"
    and "0 < min ttl MAX_SESSION_TTL"
  using assms
  by (auto simp: keys_clone_def keys_get_def key_live_def Let_def update_conv'
      split: option.splits if_splits sum.splits prod.splits)

section \<open>An instance of the primitive\<close>

text \<open>
  A concrete pair of functions that satisfies both hypotheses: the ciphertext is a run of
  marks whose length is the code of the whole input. It shows that they are consistent.
\<close>

definition toy_aead :: aead where
  "toy_aead =
     \<lparr>a_enc = (\<lambda>k n p a. replicate (16 + to_nat (k, n, p, a)) CHR ''#''),
      a_dec = (\<lambda>k n c a. case from_nat (length c - 16) of (k', n', p, a') \<Rightarrow>
                 if (k', n', a') = (k, n, a) then Some p else None)\<rparr>"

lemma toy_correct: "aead_correct toy_aead"
  by (simp add: aead_correct_def toy_aead_def)

lemma toy_binding: "aead_binding toy_aead"
  by (auto simp: aead_binding_def toy_aead_def)

end
