(* ===== verification/State.thy ===== *)
theory State
  imports Prelude
begin

text \<open>
  Instance state (sirosid_core/state.py): which files must survive between runs, carrying
  them in and out of a working directory, and the store that keeps them. A path is the
  list of its components from the root; a file system is the list of its files (a file and
  a directory of the same name are not told apart, and there are no symbolic links).
\<close>

definition STATE_FILES :: "string list" where
  "STATE_FILES = [''mongoRootPassword'', ''jwtSecret'', ''adminToken'', ''apiAuthKey.pem'', ''sirosVerifierStateKey'',
                  ''sirosVerifierPreviousStateKey'', ''sirosVerifierMongoPassword'', ''enginePdpToken'']"

definition VC_SECRETS_DIR :: string where "VC_SECRETS_DIR = ''vc-secrets''"
definition STATE_DIRS :: "string list" where "STATE_DIRS = [''vc-pki'', VC_SECRETS_DIR]"

type_synonym blobs = "bytes dict"
type_synonym abs_path = "string list"
type_synonym files = "(abs_path \<times> bytes) list"

definition is_state :: "string \<Rightarrow> bool" where
  "is_state rel0 =
     (let rel = lstrip_by (\<lambda>c. c = CHR ''.'' \<or> c = CHR ''/'')
                  (map (\<lambda>c. if c = CHR 0x5C then CHR ''/'' else c) rel0)
      in rel \<in> set STATE_FILES \<or> list_ex (\<lambda>d. rel = d \<or> starts_with (d @ ''/'') rel) STATE_DIRS)"

section \<open>Paths\<close>

text \<open>\<open>resolve()\<close>: the components seen so far are kept in reverse order.\<close>

fun resolve_onto :: "abs_path \<Rightarrow> string list \<Rightarrow> abs_path" where
  "resolve_onto acc [] = rev acc"
| "resolve_onto acc (c # cs) =
     (if c = [] \<or> c = ''.'' then resolve_onto acc cs
      else if c = ''..'' then resolve_onto (tl acc) cs
      else resolve_onto (c # acc) cs)"

text \<open>\<open>(workdir / rel).resolve()\<close> for an already resolved \<open>workdir\<close>.\<close>

definition join_resolve :: "abs_path \<Rightarrow> string \<Rightarrow> abs_path" where
  "join_resolve workdir rel =
     (if starts_with ''/'' rel then resolve_onto [] (split_on CHR ''/'' rel)
      else resolve_onto (rev workdir) (split_on CHR ''/'' rel))"

definition strictly_below :: "abs_path \<Rightarrow> abs_path \<Rightarrow> bool" where
  "strictly_below dir p = (length dir < length p \<and> take (length dir) p = dir)"

definition posix_rel :: "abs_path \<Rightarrow> abs_path \<Rightarrow> string" where
  "posix_rel dir p = join_with ''/'' (drop (length dir) p)"

section \<open>Carrying state\<close>

definition export_state :: "abs_path \<Rightarrow> files \<Rightarrow> blobs" where
  "export_state workdir fs =
     filter (\<lambda>(rel, b). is_state rel)
       (map (\<lambda>(p, b). (posix_rel workdir p, b))
         (sort_key fst (filter (\<lambda>(p, b). strictly_below workdir p) fs)))"

fun import_state :: "abs_path \<Rightarrow> blobs \<Rightarrow> files \<Rightarrow> (files, unit) outcome" where
  "import_state workdir [] fs = (Inr (), fs)"
| "import_state workdir ((rel, data) # bs) fs =
     (if \<not> is_state rel then (Inl (ValueError (py_repr rel @ '' is not an instance state file'')), fs)
      else
        let dest = join_resolve workdir rel in
        if \<not> strictly_below workdir dest
        then (Inl (ValueError (py_repr rel @ '' escapes the working directory'')), fs)
        else import_state workdir bs (AList.update dest data fs))"

section \<open>Stores\<close>

text \<open>\<open>MemoryStateStore\<close>: the reference for what a store must do.\<close>

type_synonym memory_store = "blobs dict"

definition mem_load :: "memory_store \<Rightarrow> string \<Rightarrow> exn + blobs" where
  "mem_load s i = Inr (case map_of s i of None \<Rightarrow> [] | Some b \<Rightarrow> b)"

definition mem_save :: "memory_store \<Rightarrow> string \<Rightarrow> blobs \<Rightarrow> memory_store" where
  "mem_save s i b = AList.update i b s"

definition mem_delete :: "memory_store \<Rightarrow> string \<Rightarrow> memory_store" where
  "mem_delete s i = AList.delete i s"

text \<open>
  The context manager \<open>workdir\<close>: seed a scratch directory, run the body in it, save the
  state only on a clean exit. The body threads the world; the scratch directory itself is
  the argument \<open>scratch\<close> (\<open>mkdtemp\<close> chooses it).
\<close>

definition workdir ::
  "('s \<Rightarrow> string \<Rightarrow> exn + blobs) \<Rightarrow> ('s \<Rightarrow> string \<Rightarrow> blobs \<Rightarrow> 's) \<Rightarrow> abs_path \<Rightarrow> string
   \<Rightarrow> (files \<Rightarrow> 'w \<Rightarrow> ((exn + 'a) \<times> files \<times> 'w)) \<Rightarrow> string \<Rightarrow> 's \<Rightarrow> 'w \<Rightarrow> (exn + 'a) \<times> 's \<times> 'w" where
  "workdir load save scratch subdir body instance_id s w =
     (let instance_dir = (if subdir = [] then scratch else join_resolve scratch subdir) in
      case load s instance_id of
        Inl e \<Rightarrow> (Inl e, s, w)
      | Inr blobs \<Rightarrow>
          (case import_state instance_dir blobs [] of
             (Inl e, fs) \<Rightarrow> (Inl e, s, w)
           | (Inr _, fs) \<Rightarrow>
               (case body fs w of
                  (Inl e, fs', w') \<Rightarrow> (Inl e, s, w')
                | (Inr a, fs', w') \<Rightarrow> (Inr a, save s instance_id (export_state instance_dir fs'), w'))))"

text \<open>
  The contract of a store: what is saved for one instance is what is loaded for it, and
  other instances do not notice. Paths of one save are distinct (they are dictionary keys).
\<close>

locale state_store =
  fixes load :: "'s \<Rightarrow> string \<Rightarrow> exn + blobs" and save :: "'s \<Rightarrow> string \<Rightarrow> blobs \<Rightarrow> 's"
  assumes load_save: "distinct (map fst b) \<Longrightarrow> load (save s i b) i = Inr b"
    and load_other: "i \<noteq> j \<Longrightarrow> load (save s i b) j = load s j"
begin

lemma workdir_failed_unchanged:
  "workdir load save scratch subdir body i s w = (Inl e, s', w') \<Longrightarrow> s' = s"
  by (auto simp: workdir_def Let_def split: sum.splits prod.splits)

lemma workdir_isolated:
  "workdir load save scratch subdir body i s w = (r, s', w') \<Longrightarrow> i \<noteq> j \<Longrightarrow> load s' j = load s j"
  by (auto simp: workdir_def Let_def load_other split: sum.splits prod.splits)

end

interpretation mem: state_store mem_load mem_save
  by unfold_locales (auto simp: mem_load_def mem_save_def update_conv')

lemma mem_delete_load: "mem_load (mem_delete s i) i = Inr []"
  by (simp add: mem_load_def mem_delete_def delete_conv')

section \<open>Nothing is written outside the working directory\<close>

lemma import_state_only_below:
  "import_state dir bs fs = (r, fs') \<Longrightarrow> map_of fs' p \<noteq> map_of fs p \<Longrightarrow> strictly_below dir p"
proof (induction dir bs fs arbitrary: r fs' rule: import_state.induct)
  case (2 dir rel data bs fs)
  show ?case
  proof (cases "is_state rel \<and> strictly_below dir (join_resolve dir rel)")
    case True
    let ?fs = "AList.update (join_resolve dir rel) data fs"
    from True "2.prems" have run: "import_state dir bs ?fs = (r, fs')" by (simp add: Let_def)
    show ?thesis
    proof (cases "p = join_resolve dir rel")
      case False
      then have "map_of ?fs p = map_of fs p" by (simp add: update_conv')
      with "2.IH" [OF _ refl _ run] True "2.prems" show ?thesis by simp
    qed (use True in simp)
  next
    case False
    with "2.prems" show ?thesis by (auto simp: Let_def split: if_splits)
  qed
qed auto

lemma import_state_Inr_all:
  "import_state dir bs fs = (Inr u, fs') \<Longrightarrow> (rel, b) \<in> set bs \<Longrightarrow>
   is_state rel \<and> strictly_below dir (join_resolve dir rel)"
  by (induction dir bs fs rule: import_state.induct) (auto simp: Let_def split: if_splits)

lemma export_state_is_state: "(rel, b) \<in> set (export_state dir fs) \<Longrightarrow> is_state rel"
  by (auto simp: export_state_def)

end
