(* ===== verification/Db.thy ===== *)
theory Db
  imports Vault State
begin

text \<open>
  The tables of the control plane (sirosid_service/db.py). A table is the list of its rows;
  a connection holds one writer lock, so a transaction is one function of the database, and
  a rolled-back one returns the database it was given. Columns that hold JSON text which the
  service always writes and parses itself (capabilities, naming, urls, audit details) are
  kept as the parsed value. \<open>hash_token\<close> is SHA-256, an argument of the operations that
  use it.
\<close>

section \<open>Rows\<close>

record user_row =
  u_id :: string
  u_name :: string
  u_email :: string
  u_role :: string
  u_capabilities :: "string list"
  u_max_concurrent :: int
  u_max_kept :: int
  u_kept_until :: "time option"
  u_disabled :: bool
  u_privatedata :: "bytes option"
  u_key_check :: "bytes option"
  u_created_at :: time

record invite_row =
  v_token_hash :: string
  v_created_by :: string
  v_role :: string
  v_capabilities :: "string list"
  v_max_concurrent :: int
  v_max_kept :: int
  v_kept_for_days :: "time option"
  v_email :: string
  v_expires_at :: time
  v_used_by :: "string option"
  v_used_at :: "time option"
  v_revoked :: bool
  v_created_at :: time

record config_row =
  c_id :: string
  c_owner :: string
  c_cname :: string
  c_doc :: bytes
  c_created_at :: time
  c_updated_at :: time

text \<open>
  The statuses of \<open>STATUSES\<close>, as constructors; \<open>status_name\<close> is the text in the column.
  Every status but \<open>Destroyed\<close> is in \<open>LIVE\<close>.
\<close>

datatype status =
  Creating | Running | Stopped | Stopping | Starting | Resetting | Reconfiguring | Failed | Destroyed

fun status_name :: "status \<Rightarrow> string" where
  "status_name Creating = ''creating''"
| "status_name Running = ''running''"
| "status_name Stopped = ''stopped''"
| "status_name Stopping = ''stopping''"
| "status_name Starting = ''starting''"
| "status_name Resetting = ''resetting''"
| "status_name Reconfiguring = ''reconfiguring''"
| "status_name Failed = ''failed''"
| "status_name Destroyed = ''destroyed''"

record instance_row =
  i_id :: string
  i_owner :: string
  i_name :: string
  i_status :: status
  i_naming :: "string dict"
  i_spec :: bytes
  i_config :: bytes
  i_created_at :: time
  i_updated_at :: time
  i_expires_at :: "time option"
  i_kept :: bool
  i_urls :: "string dict"
  i_error :: string
  i_config_name :: "string option"
  i_pending_spec :: "bytes option"
  i_pending_config :: "bytes option"

record state_row =
  st_instance :: string
  st_path :: string
  st_data :: bytes

record audit_row =
  au_ts :: time
  au_actor :: string
  au_action :: string
  au_target :: string
  au_detail :: "json dict"

record credential_row =
  k_id :: string
  k_user :: string
  k_public_key :: bytes
  k_sign_count :: int
  k_transports :: "json list"
  k_label :: string
  k_created_at :: time
  k_last_used :: "time option"

record web_session_row =
  ws_token_hash :: string
  ws_user :: string
  ws_created_at :: time
  ws_expires_at :: time

record client_row =
  oc_id :: string
  oc_name :: string
  oc_redirect_uris :: "string list"
  oc_created_at :: time

record db =
  users :: "user_row list"
  invites :: "invite_row list"
  configs :: "config_row list"
  instances :: "instance_row list"
  state_rows :: "state_row list"
  audit_rows :: "audit_row list"
  orphans :: "time dict"
  credentials :: "credential_row list"
  web_sessions :: "web_session_row list"
  oauth_clients :: "client_row list"

definition empty_db :: db where
  "empty_db = \<lparr>users = [], invites = [], configs = [], instances = [], state_rows = [], audit_rows = [],
     orphans = [], credentials = [], web_sessions = [], oauth_clients = []\<rparr>"

section \<open>Statements\<close>

text \<open>An \<open>INSERT\<close> whose primary key is taken raises \<open>sqlite3.IntegrityError\<close>.\<close>

definition integrity_error :: exn where
  "integrity_error = OtherError ''IntegrityError'' ''UNIQUE constraint failed''"

definition insert_row :: "('r \<Rightarrow> 'k) \<Rightarrow> 'r \<Rightarrow> 'r list \<Rightarrow> exn + 'r list" where
  "insert_row key r rows = (if find_row key (key r) rows = None then Inr (rows @ [r]) else Inl integrity_error)"

lemma insert_row_Inr_iff:
  "insert_row key r rows = Inr rows' \<longleftrightarrow> key r \<notin> key ` set rows \<and> rows' = rows @ [r]"
  by (auto simp: insert_row_def find_row_None_iff)

lemma insert_row_distinct:
  "insert_row key r rows = Inr rows' \<Longrightarrow> distinct (map key rows) \<Longrightarrow> distinct (map key rows')"
  by (auto simp: insert_row_Inr_iff)

definition audit :: "time \<Rightarrow> string \<Rightarrow> string \<Rightarrow> string \<Rightarrow> json dict \<Rightarrow> db \<Rightarrow> db" where
  "audit now actor action target detail d =
     d\<lparr>audit_rows := audit_rows d @
        [\<lparr>au_ts = now, au_actor = actor, au_action = action, au_target = target, au_detail = sort_key fst detail\<rparr>]\<rparr>"

text \<open>Identifiers are assigned in insertion order, so newest first is the reverse.\<close>

definition audit_log :: "nat \<Rightarrow> db \<Rightarrow> audit_row list" where
  "audit_log limit d = take limit (rev (audit_rows d))"

lemma audit_frame [frame_simps, simp]:
  "users (audit t a b c e d) = users d" "invites (audit t a b c e d) = invites d"
  "configs (audit t a b c e d) = configs d" "instances (audit t a b c e d) = instances d"
  "state_rows (audit t a b c e d) = state_rows d" "orphans (audit t a b c e d) = orphans d"
  "credentials (audit t a b c e d) = credentials d" "web_sessions (audit t a b c e d) = web_sessions d"
  "oauth_clients (audit t a b c e d) = oauth_clients d"
  by (simp_all add: audit_def)

section \<open>Sealed instance state\<close>

definition state_aad :: "string \<Rightarrow> string \<Rightarrow> string \<Rightarrow> bytes" where
  "state_aad owner instance_id path = aad owner ''state'' (instance_id @ ''/'' @ path)"

text \<open>
  State is sealed as bytes only and its associated data names it, so the \<open>PDoc\<close> branch is
  unreachable (\<open>aead_binding\<close>); it is an error here.
\<close>

fun open_rows :: "aead \<Rightarrow> sealer \<Rightarrow> string \<Rightarrow> string \<Rightarrow> state_row list \<Rightarrow> exn + blobs" where
  "open_rows A k owner i [] = Inr []"
| "open_rows A k owner i (r # rs) =
     (case open_blob A k (st_data r) (state_aad owner i (st_path r)) of
        Inl e \<Rightarrow> Inl e
      | Inr (PBytes b) \<Rightarrow> map_sum id ((#) (st_path r, b)) (open_rows A k owner i rs)
      | Inr (PDoc j) \<Rightarrow> Inl (TypeError ''a document where state bytes are expected''))"

definition sealed_load :: "aead \<Rightarrow> sealer \<Rightarrow> string \<Rightarrow> state_row list \<Rightarrow> string \<Rightarrow> exn + blobs" where
  "sealed_load A k owner rows i = open_rows A k owner i (filter (\<lambda>r. st_instance r = i) rows)"

text \<open>\<open>nonce\<close> holds the random nonces of this call, in the order they are drawn.\<close>

fun seal_rows :: "aead \<Rightarrow> sealer \<Rightarrow> string \<Rightarrow> (nat \<Rightarrow> bytes) \<Rightarrow> nat \<Rightarrow> string \<Rightarrow> blobs \<Rightarrow> state_row list" where
  "seal_rows A k owner nonce n i [] = []"
| "seal_rows A k owner nonce n i ((path, data) # bs) =
     \<lparr>st_instance = i, st_path = path, st_data = seal A k (nonce n) (PBytes data) (state_aad owner i path)\<rparr>
     # seal_rows A k owner nonce (Suc n) i bs"

definition delete_state :: "string \<Rightarrow> state_row list \<Rightarrow> state_row list" where
  "delete_state i rows = delete_where (\<lambda>r. st_instance r = i) rows"

definition sealed_save ::
  "aead \<Rightarrow> sealer \<Rightarrow> string \<Rightarrow> (nat \<Rightarrow> bytes) \<Rightarrow> state_row list \<Rightarrow> string \<Rightarrow> blobs \<Rightarrow> state_row list" where
  "sealed_save A k owner nonce rows i bs = delete_state i rows @ seal_rows A k owner nonce 0 i bs"

lemma seal_rows_instance: "r \<in> set (seal_rows A k owner nonce n i bs) \<Longrightarrow> st_instance r = i"
  by (induction A k owner nonce n i bs rule: seal_rows.induct) auto

lemma filter_seal_rows:
  "filter (\<lambda>r. st_instance r = j) (seal_rows A k owner nonce n i bs)
   = (if i = j then seal_rows A k owner nonce n i bs else [])"
  by (auto simp: filter_empty_conv filter_id_conv dest: seal_rows_instance)

lemma filter_delete_state:
  "filter (\<lambda>r. st_instance r = j) (delete_state i rows) = (if i = j then [] else filter (\<lambda>r. st_instance r = j) rows)"
  by (induction rows) (auto simp: delete_state_def delete_where_def)

definition nonces_ok :: "(nat \<Rightarrow> bytes) \<Rightarrow> bool" where
  "nonces_ok nonce \<longleftrightarrow> (\<forall>n. length (nonce n) = NONCE_BYTES)"

lemma open_seal_rows:
  "aead_correct A \<Longrightarrow> nonces_ok nonce \<Longrightarrow> open_rows A k owner i (seal_rows A k owner nonce n i bs) = Inr bs"
  by (induction A k owner nonce n i bs rule: seal_rows.induct) (simp_all add: open_seal nonces_ok_def)

text \<open>The sealed store keeps the contract of a state store, for any correct cipher.\<close>

lemma sealed_state_store:
  assumes "aead_correct A" and "nonces_ok nonce"
  shows "state_store (sealed_load A k owner) (sealed_save A k owner nonce)"
  using assms by unfold_locales
    (simp_all add: sealed_load_def sealed_save_def filter_delete_state filter_seal_rows open_seal_rows)

lemma sealed_load_delete: "sealed_load A k owner (delete_state i rows) i = Inr []"
  by (simp add: sealed_load_def filter_delete_state)

lemma sealed_load_delete_other: "i \<noteq> j \<Longrightarrow> sealed_load A k owner (delete_state i rows) j = sealed_load A k owner rows j"
  by (simp add: sealed_load_def filter_delete_state)

text \<open>
  Nobody else opens it: under another key, or for another owner, the first row of the
  instance already fails.
\<close>

lemma sealed_load_other_key:
  assumes "aead_correct A" "aead_binding A" "nonces_ok nonce" and "bs \<noteq> []"
    and "k' \<noteq> k \<or> (owner' \<noteq> owner \<and> CHR ''|'' \<notin> set owner \<and> CHR ''|'' \<notin> set owner')"
  shows "\<exists>m. sealed_load A k' owner' (sealed_save A k owner nonce rows i bs) i = Inl (VaultError m)"
proof -
  obtain path data bs' where bs: "bs = (path, data) # bs'" using assms(4) by (cases bs) auto
  have "k' \<noteq> k \<or> state_aad owner' i path \<noteq> state_aad owner i path"
  proof (cases "k' = k")
    case False
    then show ?thesis ..
  next
    case True
    with assms(5) have o: "owner' \<noteq> owner" "CHR ''|'' \<notin> set owner" "CHR ''|'' \<notin> set owner'" by auto
    have "state_aad owner' i path \<noteq> state_aad owner i path"
    proof
      assume "state_aad owner' i path = state_aad owner i path"
      from aad_inject [OF this [unfolded state_aad_def] o(3,2)] o(1) show False by simp
    qed
    then show ?thesis ..
  qed
  then obtain m where "open_blob A k' (seal A k (nonce 0) (PBytes data) (state_aad owner i path)) (state_aad owner' i path)
      = Inl (VaultError m)"
    using open_other assms(1-3) unfolding nonces_ok_def by blast
  then show ?thesis
    by (auto simp: sealed_load_def sealed_save_def filter_delete_state filter_seal_rows bs)
qed

end
