(* ===== verification/Components.thy ===== *)
theory Components
  imports Prelude
begin

text \<open>
  The component registry (sirosid_core/components.py): what an instance is made of and in
  which order it is deployed. A component dictionary of the source is a record; the keys
  it may lack (\<open>image\<close>, \<open>image_from_values\<close>, \<open>internal_check\<close>, \<open>mount\<close>) are options or
  constructors.
\<close>

datatype image_source = FixedImage string | ImageFromValues string | NoImage

datatype internal_check = TcpCheck nat | HttpCheck nat string

record component =
  c_name :: string
  c_image :: image_source
  c_ports :: "(nat \<times> bool) list"
  c_checks :: "string option"
  c_internal_check :: "internal_check option"
  c_mount :: "(string \<times> string) option"

definition STORAGE_APPS :: "string list" where
  "STORAGE_APPS = [''mongodb'', ''conformance-mongodb'']"

definition volume_name :: "string \<Rightarrow> string" where
  "volume_name component = map (\<lambda>c. if c = CHR ''-'' then CHR ''_'' else c) component @ ''_data''"

definition mk_component ::
  "string \<Rightarrow> image_source \<Rightarrow> (nat \<times> bool) list \<Rightarrow> string option \<Rightarrow> internal_check option
   \<Rightarrow> (string \<times> string) option \<Rightarrow> component" where
  "mk_component n i p ch ic m =
     \<lparr>c_name = n, c_image = i, c_ports = p, c_checks = ch, c_internal_check = ic, c_mount = m\<rparr>"

definition build_components :: "string \<Rightarrow> string \<Rightarrow> component list" where
  "build_components mini_oidc_image env_admin_image =
   [mk_component ''mongodb'' (FixedImage ''mongo:{mongo_version}'') [(27017, False)] None
      (Some (TcpCheck 27017)) (Some (volume_name ''mongodb'', ''/data/db'')),
    mk_component ''mini-oidc'' (FixedImage mini_oidc_image) [(9005, True)] (Some ''/health'') None None,
    mk_component ''vc-registry'' (ImageFromValues ''issuerRegistry'') [(8080, True)] (Some ''/health'') None None,
    mk_component ''vc-issuer'' (ImageFromValues ''issuerCore'') [(8081, False), (8090, False)] None
      (Some (HttpCheck 8081 ''/health'')) None,
    mk_component ''vc-verifier'' (ImageFromValues ''verifier'') [(8080, True)] (Some ''/health'') None None,
    mk_component ''vc-apigw'' (ImageFromValues ''issuerApigw'') [(8080, True)] (Some ''/health'') None None,
    mk_component ''pdp'' (ImageFromValues ''pdp'') [(8080, False)] None
      (Some (HttpCheck 8080 ''/healthz'')) None,
    mk_component ''wallet-backend'' (ImageFromValues ''walletBackend'')
      [(8080, False), (8081, False), (8082, False)] None (Some (HttpCheck 8080 ''/health'')) None,
    mk_component ''wallet-proxy'' (FixedImage ''nginx:alpine'') [(8090, True)]
      (Some ''/.well-known/assetlinks.json'') None None,
    mk_component ''env-admin'' (FixedImage env_admin_image) [(3002, False)] None
      (Some (HttpCheck 3002 ''/health'')) None,
    mk_component ''wallet-frontend'' (ImageFromValues ''walletFrontendConfig'') [(80, True)]
      (Some ''/'') None None]"

definition SIROS_VERIFIER_COMPONENT :: component where
  "SIROS_VERIFIER_COMPONENT =
     mk_component ''siros-verifier'' NoImage [(9001, True)] (Some ''/health'') None None"

definition WMP_ENGINE_COMPONENT :: component where
  "WMP_ENGINE_COMPONENT =
     mk_component ''wmp-engine'' NoImage [(8780, False)] (Some ''/healthz'') None None"

definition CONFORMANCE_COMPONENTS :: "component list" where
  "CONFORMANCE_COMPONENTS =
   [mk_component ''conformance-mongodb'' (FixedImage ''mongo:6'') [(27017, False)] None
      (Some (TcpCheck 27017)) (Some (volume_name ''conformance-mongodb'', ''/data/db'')),
    mk_component ''conformance-server''
      (FixedImage ''registry.gitlab.com/openid/conformance-suite:latest'') [(8080, False)] None
      (Some (TcpCheck 8080)) None,
    mk_component ''conformance''
      (FixedImage ''registry.gitlab.com/openid/conformance-suite/nginx:latest'') [(8443, True)] None
      None None,
    mk_component ''conformance-runner''
      (FixedImage ''ghcr.io/sirosfoundation/conformance-runner:main'') [(3001, False)] None
      (Some (HttpCheck 3001 ''/health'')) None]"

definition has_component :: "string \<Rightarrow> component list \<Rightarrow> bool" where
  "has_component n cs = list_ex (\<lambda>c. c_name c = n) cs"

fun insert_after_each :: "string \<Rightarrow> component \<Rightarrow> component list \<Rightarrow> component list" where
  "insert_after_each n x [] = []"
| "insert_after_each n x (c # cs) =
     (if c_name c = n then c # x # insert_after_each n x cs else c # insert_after_each n x cs)"

fun insert_before_each :: "string \<Rightarrow> component \<Rightarrow> component list \<Rightarrow> component list" where
  "insert_before_each n x [] = []"
| "insert_before_each n x (c # cs) =
     (if c_name c = n then x # c # insert_before_each n x cs else c # insert_before_each n x cs)"

definition with_optional_components :: "component list \<Rightarrow> string dict \<Rightarrow> component list" where
  "with_optional_components components images =
     (let out = components;
          out = (if dict_has images ''siros-verifier'' \<and> \<not> has_component ''siros-verifier'' out
                 then insert_after_each ''pdp'' SIROS_VERIFIER_COMPONENT out else out)
      in if dict_has images ''wmp-engine'' \<and> \<not> has_component ''wmp-engine'' out
         then insert_before_each ''wallet-proxy'' WMP_ENGINE_COMPONENT out else out)"

text \<open>\<open>names.insert(names.index(n) + 1, x)\<close>; \<open>index\<close> raises when \<open>n\<close> is missing.\<close>

fun insert_after_name :: "string \<Rightarrow> string \<Rightarrow> string list \<Rightarrow> exn + string list" where
  "insert_after_name n x [] = Inl (ValueError (n @ '' is not in list''))"
| "insert_after_name n x (y # ys) =
     (if y = n then Inr (y # x # ys) else map_sum id ((#) y) (insert_after_name n x ys))"

definition component_names_with :: "bool \<Rightarrow> exn + string list" where
  "component_names_with include_conformance =
     bind_sum (insert_after_name ''pdp'' (c_name SIROS_VERIFIER_COMPONENT)
                 (map c_name (build_components [] [])))
       (\<lambda>names. Inr (if include_conformance then names @ map c_name CONFORMANCE_COMPONENTS else names))"

text \<open>
  The call never raises, so the clients below use its value (\<open>component_names ()\<close> with
  the default argument).
\<close>

definition component_names :: "string list" where
  "component_names = (case component_names_with True of Inr ns \<Rightarrow> ns | Inl _ \<Rightarrow> [])"

lemma component_names_eq:
  "component_names =
   [''mongodb'', ''mini-oidc'', ''vc-registry'', ''vc-issuer'', ''vc-verifier'', ''vc-apigw'',
    ''pdp'', ''siros-verifier'', ''wallet-backend'', ''wallet-proxy'', ''env-admin'',
    ''wallet-frontend'', ''conformance-mongodb'', ''conformance-server'', ''conformance'',
    ''conformance-runner'']"
  by (simp add: component_names_def component_names_with_def build_components_def
      SIROS_VERIFIER_COMPONENT_def CONFORMANCE_COMPONENTS_def mk_component_def)

lemma component_names_with_Inr: "component_names_with True = Inr component_names"
  by (simp add: component_names_eq)
     (simp add: component_names_with_def build_components_def
      SIROS_VERIFIER_COMPONENT_def CONFORMANCE_COMPONENTS_def mk_component_def)

lemma component_names_distinct [simp]: "distinct component_names"
  by (simp add: component_names_eq)

lemma storage_apps_are_components: "set STORAGE_APPS \<subseteq> set component_names"
  by (simp add: component_names_eq STORAGE_APPS_def)

section \<open>Image-gated components\<close>

lemma has_component_after [simp]:
  "has_component m (insert_after_each n x cs)
   \<longleftrightarrow> has_component m cs \<or> (has_component n cs \<and> c_name x = m)"
  by (induction cs) (auto simp: has_component_def)

lemma has_component_before [simp]:
  "has_component m (insert_before_each n x cs)
   \<longleftrightarrow> has_component m cs \<or> (has_component n cs \<and> c_name x = m)"
  by (induction cs) (auto simp: has_component_def)

lemma insert_after_absent: "\<not> has_component n cs \<Longrightarrow> insert_after_each n x cs = cs"
  by (induction cs) (auto simp: has_component_def)

lemma insert_before_absent: "\<not> has_component n cs \<Longrightarrow> insert_before_each n x cs = cs"
  by (induction cs) (auto simp: has_component_def)

lemma filter_insert_after [simp]:
  "\<not> p x \<Longrightarrow> filter p (insert_after_each n x cs) = filter p cs"
  by (induction cs) auto

lemma filter_insert_before [simp]:
  "\<not> p x \<Longrightarrow> filter p (insert_before_each n x cs) = filter p cs"
  by (induction cs) auto

lemma optional_names [simp]:
  "c_name SIROS_VERIFIER_COMPONENT = ''siros-verifier''"
  "c_name WMP_ENGINE_COMPONENT = ''wmp-engine''"
  by (simp_all add: SIROS_VERIFIER_COMPONENT_def WMP_ENGINE_COMPONENT_def mk_component_def)

lemma with_optional_idempotent:
  "with_optional_components (with_optional_components cs images) images
   = with_optional_components cs images"
  unfolding with_optional_components_def Let_def
  by (auto simp: insert_after_absent insert_before_absent)

lemma with_optional_keeps_others:
  "filter (\<lambda>c. c_name c \<noteq> ''siros-verifier'' \<and> c_name c \<noteq> ''wmp-engine'')
     (with_optional_components cs images)
   = filter (\<lambda>c. c_name c \<noteq> ''siros-verifier'' \<and> c_name c \<noteq> ''wmp-engine'') cs"
  unfolding with_optional_components_def Let_def by simp

end
