(* ===== verification/Naming.thy ===== *)
theory Naming
  imports Components
begin

text \<open>
  Naming (sirosid_core/naming.py): every name an instance has. A \<open>Naming\<close> object is the
  record \<open>naming\<close>; the constructor's layout check is \<open>make_naming\<close>. The port tables are
  association lists in the order of the source, so that "the first kind is the default
  one" is the head of the list.
\<close>

definition LAYOUT_APPS :: string where "LAYOUT_APPS = ''apps''"
definition LAYOUT_SINGLE_MACHINE :: string where "LAYOUT_SINGLE_MACHINE = ''single-machine''"
definition LAYOUTS :: "string list" where "LAYOUTS = [LAYOUT_APPS, LAYOUT_SINGLE_MACHINE]"

definition APPS_PORTS :: "nat dict dict" where
  "APPS_PORTS =
   [(''mongodb'', [(''tcp'', 27017)]),
    (''mini-oidc'', [(''http'', 9005)]),
    (''vc-registry'', [(''http'', 8080), (''grpc'', 8090)]),
    (''vc-issuer'', [(''http'', 8081), (''grpc'', 8090)]),
    (''vc-verifier'', [(''http'', 8080)]),
    (''vc-apigw'', [(''http'', 8080)]),
    (''pdp'', [(''http'', 8080)]),
    (''siros-verifier'', [(''http'', 9001)]),
    (''wallet-backend'', [(''http'', 8080), (''admin'', 8081), (''engine'', 8082)]),
    (''wmp-engine'', [(''http'', 8780)]),
    (''wallet-proxy'', [(''http'', 8090)]),
    (''env-admin'', [(''http'', 3002)]),
    (''wallet-frontend'', [(''http'', 80)]),
    (''conformance-mongodb'', [(''tcp'', 27017)]),
    (''conformance-server'', [(''http'', 8080)]),
    (''conformance-runner'', [(''http'', 3001)]),
    (''conformance'', [(''https'', 8443)])]"

definition SINGLE_MACHINE_PORTS :: "nat dict dict" where
  "SINGLE_MACHINE_PORTS =
   [(''mongodb'', [(''tcp'', 27017)]),
    (''mini-oidc'', [(''http'', 9005)]),
    (''vc-registry'', [(''http'', 8100), (''grpc'', 8190)]),
    (''vc-issuer'', [(''http'', 8101), (''grpc'', 8191)]),
    (''vc-verifier'', [(''http'', 8102)]),
    (''vc-apigw'', [(''http'', 8103)]),
    (''pdp'', [(''http'', 8104)]),
    (''wallet-backend'', [(''http'', 8110), (''admin'', 8111), (''engine'', 8112)]),
    (''wmp-engine'', [(''http'', 8780)]),
    (''wallet-frontend'', [(''http'', 8120)]),
    (''wallet-proxy'', [(''http'', 8130)]),
    (''env-admin'', [(''http'', 3002)]),
    (''front'', [(''http'', 8080)])]"

record naming =
  n_env :: string
  n_app_prefix :: string
  n_host_pattern :: string
  n_layout :: string

definition make_naming :: "string \<Rightarrow> string \<Rightarrow> string \<Rightarrow> string \<Rightarrow> exn + naming" where
  "make_naming env app_prefix host_pattern layout =
     (if layout \<notin> set LAYOUTS
      then Inl (ValueError (''unknown layout '' @ py_repr layout @ '' (one of: '' @ join_with '', '' LAYOUTS @ '')''))
      else Inr \<lparr>n_env = env, n_app_prefix = app_prefix, n_host_pattern = host_pattern, n_layout = layout\<rparr>)"

definition single_machine :: "naming \<Rightarrow> bool" where
  "single_machine n = (n_layout n = LAYOUT_SINGLE_MACHINE)"

definition machine_app :: "naming \<Rightarrow> string" where
  "machine_app n = n_app_prefix n @ ''-'' @ n_env n"

definition port :: "naming \<Rightarrow> string \<Rightarrow> string \<Rightarrow> exn + nat" where
  "port n component kind =
     (case map_of (if single_machine n then SINGLE_MACHINE_PORTS else APPS_PORTS) component of
        None \<Rightarrow> Inl (KeyError component)
      | Some ports \<Rightarrow>
          if kind \<noteq> [] then (case map_of ports kind of None \<Rightarrow> Inl (KeyError kind) | Some p \<Rightarrow> Inr p)
          else (case ports of [] \<Rightarrow> Inl (OtherError ''StopIteration'' []) | (_, p) # _ \<Rightarrow> Inr p))"

definition app :: "naming \<Rightarrow> string \<Rightarrow> string" where
  "app n component = n_app_prefix n @ ''-'' @ n_env n @ ''-'' @ component"

definition internal_addr :: "naming \<Rightarrow> string \<Rightarrow> string" where
  "internal_addr n component = app n component @ ''.internal''"

definition addr :: "naming \<Rightarrow> string \<Rightarrow> string \<Rightarrow> exn + string" where
  "addr n component kind =
     (let host = (if single_machine n then ''127.0.0.1'' else internal_addr n component)
      in map_sum id (\<lambda>p. host @ '':'' @ show_nat p) (port n component kind))"

definition flat_host_problem :: "naming \<Rightarrow> string" where
  "flat_host_problem n =
     (case partition_at CHR ''.'' (n_host_pattern n) of (first, _, domain) \<Rightarrow>
        let hp = ''host_pattern '' @ py_repr (n_host_pattern n) in
        if \<not> has_sub ''{component}'' first \<or> \<not> (has_sub ''{id}'' first \<or> has_sub ''{env}'' first) then
          hp @ '': the first label must hold both {component} and {id} (e.g. '' @ [CHR 0x27] @
          ''{component}-{id}.sid.example'' @ [CHR 0x27] @ '') so one wildcard certificate covers it''
        else if domain = [] \<or> CHR ''{'' \<in> set domain then
          hp @ '': everything after the first label must be a fixed domain''
        else if domain = ''fly.dev'' \<or> ends_with ''.fly.dev'' domain then
          hp @ '': Fly routes *.fly.dev names to the app of that name, which does not exist in this layout''
        else [])"

definition listen :: "naming \<Rightarrow> string \<Rightarrow> string \<Rightarrow> exn + string" where
  "listen n component kind =
     map_sum id (\<lambda>p. if single_machine n then ''127.0.0.1:'' @ show_nat p else show_nat p)
       (port n component kind)"

definition to_dict :: "naming \<Rightarrow> string dict" where
  "to_dict n =
     [(''env'', n_env n), (''app_prefix'', n_app_prefix n), (''host_pattern'', n_host_pattern n)] @
     (if n_layout n \<noteq> LAYOUT_APPS then [(''layout'', n_layout n)] else [])"

definition get_default :: "string dict \<Rightarrow> string \<Rightarrow> string \<Rightarrow> string" where
  "get_default d k v = (case map_of d k of None \<Rightarrow> v | Some x \<Rightarrow> x)"

definition from_dict :: "string dict \<Rightarrow> exn + naming" where
  "from_dict d =
     (case map_of d ''env'' of
        None \<Rightarrow> Inl (KeyError ''env'')
      | Some env \<Rightarrow> make_naming env (get_default d ''app_prefix'' ''sirosid'')
                      (get_default d ''host_pattern'' ''{app}.fly.dev'') (get_default d ''layout'' LAYOUT_APPS))"

definition host :: "naming \<Rightarrow> string \<Rightarrow> exn + string" where
  "host n component =
     py_format [(''app'', app n component), (''env'', n_env n), (''id'', n_env n), (''component'', component)]
       (n_host_pattern n)"

definition url :: "naming \<Rightarrow> string \<Rightarrow> exn + string" where
  "url n component = map_sum id (\<lambda>h. ''https://'' @ h) (host n component)"

definition network :: "naming \<Rightarrow> string" where
  "network n = n_app_prefix n @ ''-'' @ n_env n"

definition label :: "naming \<Rightarrow> string" where
  "label n = n_app_prefix n @ ''-'' @ n_env n"

text \<open>A naming the constructor can have built.\<close>

definition naming_ok :: "naming \<Rightarrow> bool" where
  "naming_ok n \<longleftrightarrow> n_layout n \<in> set LAYOUTS"

lemma layouts_distinct [simp]: "LAYOUT_APPS \<noteq> LAYOUT_SINGLE_MACHINE"
  by (simp add: LAYOUT_APPS_def LAYOUT_SINGLE_MACHINE_def)

lemma make_naming_ok: "make_naming e a h l = Inr n \<Longrightarrow> naming_ok n"
  by (auto simp: make_naming_def naming_ok_def split: if_splits)

lemma from_dict_ok: "from_dict d = Inr n \<Longrightarrow> naming_ok n"
  by (auto simp: from_dict_def make_naming_ok split: option.splits)

lemma naming_roundtrip: "naming_ok n \<Longrightarrow> from_dict (to_dict n) = Inr n"
  by (cases n) (auto simp: from_dict_def to_dict_def get_default_def make_naming_def naming_ok_def LAYOUTS_def)

section \<open>Names never collide\<close>

lemma app_inject [simp]: "app n c = app n d \<longleftrightarrow> c = d"
  by (simp add: app_def)

lemma app_component_inject:
  assumes "app n c = app m d" and "n_app_prefix n = n_app_prefix m"
    and "CHR ''-'' \<notin> set (n_env n)" and "CHR ''-'' \<notin> set (n_env m)"
  shows "n_env n = n_env m \<and> c = d"
proof -
  from assms(1,2) have eq: "n_env n @ CHR ''-'' # c = n_env m @ CHR ''-'' # d"
    by (simp add: app_def)
  have "(n_env n, True, c) = (n_env m, True, d)"
    unfolding partition_at_append [OF assms(3), of c, symmetric]
      partition_at_append [OF assms(4), of d, symmetric] eq ..
  then show ?thesis by simp
qed

lemma machine_app_not_component_app:
  "n_app_prefix n = n_app_prefix m \<Longrightarrow> CHR ''-'' \<notin> set (n_env n) \<Longrightarrow> machine_app n \<noteq> app m c"
  by (auto simp: machine_app_def app_def)

lemma machine_app_inject:
  "n_app_prefix n = n_app_prefix m \<Longrightarrow> machine_app n = machine_app m \<longleftrightarrow> n_env n = n_env m"
  by (simp add: machine_app_def)

text \<open>All listeners of a port table, as (component, kind, port).\<close>

definition listeners :: "nat dict dict \<Rightarrow> (string \<times> string \<times> nat) list" where
  "listeners t = concat (map (\<lambda>(c, ps). map (\<lambda>(k, p). (c, k, p)) ps) t)"

lemma listeners_port_injective:
  assumes "distinct (map (\<lambda>(c, k, p). p) (listeners t))"
    and "(c, k, p) \<in> set (listeners t)" and "(c', k', p) \<in> set (listeners t)"
  shows "c = c' \<and> k = k'"
proof -
  from assms(1) have "inj_on (\<lambda>(c, k, p). p) (set (listeners t))"
    by (simp add: distinct_map)
  from inj_onD [OF this _ assms(2,3)] show ?thesis by simp
qed

lemma map_of_listeners:
  "map_of t c = Some ps \<Longrightarrow> map_of ps k = Some p \<Longrightarrow> (c, k, p) \<in> set (listeners t)"
  unfolding listeners_def by (auto dest!: map_of_SomeD intro!: bexI)

lemma single_machine_ports_distinct:
  "distinct (map (\<lambda>(c, k, p). p) (listeners SINGLE_MACHINE_PORTS))"
  by (simp add: listeners_def SINGLE_MACHINE_PORTS_def)

lemma first_port_listener:
  "map_of t c = Some ((k, p) # ps) \<Longrightarrow> (c, k, p) \<in> set (listeners t)"
  unfolding listeners_def by (auto dest!: map_of_SomeD intro!: bexI)

lemma port_listener:
  assumes "port n c k = Inr p"
  shows "\<exists>k'. (c, k', p) \<in> set (listeners (if single_machine n then SINGLE_MACHINE_PORTS else APPS_PORTS))"
  using assms unfolding port_def
  by (auto split: option.splits if_splits list.splits prod.splits
      intro: map_of_listeners first_port_listener)

section \<open>The public host name\<close>

text \<open>
  A format string without an opening brace is copied character by character, so what
  follows the first label of a flat host pattern is the same for every component.
\<close>

lemma format_open_field: "CHR ''}'' \<notin> set b \<Longrightarrow> is_err (format_from d (Some w) b)"
  by (induction b arbitrary: w) auto

lemma format_literal:
  "CHR ''{'' \<notin> set b \<Longrightarrow> CHR ''}'' \<notin> set b \<Longrightarrow> format_from d None b = Inr b"
  by (induction b) auto

lemma map_sum_Inr_iff [simp]: "map_sum id f r = Inr y \<longleftrightarrow> (\<exists>x. r = Inr x \<and> y = f x)"
  by (cases r) auto

lemma format_from_append_literal:
  assumes b: "CHR ''{'' \<notin> set b" "CHR ''}'' \<notin> set b"
  shows "format_from d w (a @ b) = Inr h \<Longrightarrow> \<exists>h'. format_from d w a = Inr h' \<and> h = h' @ b"
proof (induction a arbitrary: w h rule: length_induct)
  case (1 a)
  note IH = "1.IH" [rule_format] and run = "1.prems"
  show ?case
  proof (cases a)
    case Nil
    with run format_literal [OF b, of d] format_open_field [OF b(2), of d] show ?thesis
      by (cases w) (auto simp: is_err_iff, metis sum.distinct(1))
  next
    case (Cons c s)
    show ?thesis
    proof (cases w)
      case (Some v)
      show ?thesis
      proof (cases "c = CHR ''}''")
        case True
        with run Cons Some obtain u h1 where "format_field d (rev v) = Inr u"
          "format_from d None (s @ b) = Inr h1" "h = u @ h1"
          by (auto split: sum.splits)
        with IH [of s None h1] True Cons Some show ?thesis by auto
      next
        case False
        with run IH [of s "Some (c # v)" h] Cons Some show ?thesis by simp
      qed
    next
      case None
      consider (lit) "c \<noteq> CHR ''{''" "c \<noteq> CHR ''}''" | (dbl) x s' where "s = c # s'" "c = x" "x \<in> {CHR ''{'', CHR ''}''}"
        | (field) "c = CHR ''{''" "s = [] \<or> hd s \<noteq> CHR ''{''" | (bad) "c = CHR ''}''" "s = [] \<or> hd s \<noteq> CHR ''}''"
        by (cases s) auto
      then show ?thesis
      proof cases
        case lit
        with run Cons None obtain h1 where "format_from d None (s @ b) = Inr h1" "h = c # h1" by auto
        with IH [of s None h1] lit Cons None show ?thesis by auto
      next
        case dbl
        with run Cons None obtain h1 where "format_from d None (s' @ b) = Inr h1" "h = c # h1" by auto
        with IH [of s' None h1] dbl Cons None show ?thesis by auto
      next
        case field
        show ?thesis
        proof (cases s)
          case Nil
          with field run Cons None b format_open_field [OF b(2), of d "[]"] show ?thesis
            by (cases b) (auto split: if_splits)
        next
          case (Cons x s')
          with field run \<open>a = c # s\<close> None have "format_from d (Some []) (s @ b) = Inr h" by auto
          with IH [of s "Some []" h] field Cons \<open>a = c # s\<close> None show ?thesis by auto
        qed
      next
        case bad
        with run Cons None b show ?thesis by (cases s; cases b) auto
      qed
    qed
  qed
qed

end
