(* ===== verification/Spec.thy ===== *)
theory Spec
  imports Json Naming
begin

text \<open>
  InstanceSpec (sirosid_core/spec.py): everything that distinguishes one instance from
  another, as plain data. \<open>from_dict\<close> checks the JSON type of each key but not of the
  elements of a list or dictionary, so those elements stay JSON values here.
\<close>

record spec =
  s_env :: string
  s_region :: string
  s_images :: "json dict"
  s_conformance :: bool
  s_wallet_attestation :: bool
  s_trusted_issuers :: "json list"
  s_trusted_verifiers :: "json list"
  s_trusted_verifier_roots :: "json list"
  s_zk_circuits_sources :: "json list"
  s_rical_provider_url :: string
  s_rical_root_pem :: string
  s_dc_api_enable :: string
  s_credential_registries :: "json list"
  s_android_apps :: "json list"
  s_values :: "json dict"
  s_bbs_secret_key :: string
  s_app_prefix :: string
  s_host_pattern :: string
  s_scale_to_zero :: bool
  s_env_admin :: bool
  s_layout :: string
  s_public_ips :: bool

definition SECRET_FIELDS :: "string list" where
  "SECRET_FIELDS = [''bbs_secret_key'']"

text \<open>The defaults of the dataclass.\<close>

definition default_spec :: "string \<Rightarrow> spec" where
  "default_spec env =
     \<lparr>s_env = env, s_region = [], s_images = [], s_conformance = False, s_wallet_attestation = False,
      s_trusted_issuers = [], s_trusted_verifiers = [], s_trusted_verifier_roots = [],
      s_zk_circuits_sources = [], s_rical_provider_url = [], s_rical_root_pem = [], s_dc_api_enable = [],
      s_credential_registries = [], s_android_apps = [], s_values = [], s_bbs_secret_key = [],
      s_app_prefix = ''sirosid'', s_host_pattern = ''{app}.fly.dev'', s_scale_to_zero = False,
      s_env_admin = True, s_layout = LAYOUT_APPS, s_public_ips = True\<rparr>"

definition spec_naming :: "spec \<Rightarrow> exn + naming" where
  "spec_naming s = make_naming (s_env s) (s_app_prefix s) (s_host_pattern s) (s_layout s)"

definition spec_problems :: "string list option \<Rightarrow> spec \<Rightarrow> string list" where
  "spec_problems known s =
     (if s_env s = [] then [''env is required''] else []) @
     (if (s_rical_provider_url s \<noteq> []) \<noteq> (s_rical_root_pem s \<noteq> [])
      then [''rical_provider_url and rical_root_pem must both be set, or neither''] else []) @
     (if s_layout s \<notin> set LAYOUTS
      then [''layout must be one of '' @ join_with '', '' LAYOUTS @ '', got '' @ py_repr (s_layout s)] else []) @
     (if s_dc_api_enable s \<notin> {[], ''true'', ''false''}
      then [''dc_api_enable must be '' @ py_repr [] @ '', '' @ py_repr ''true'' @ '' or '' @ py_repr ''false'' @
            '', got '' @ py_repr (s_dc_api_enable s)] else []) @
     (case known of
        None \<Rightarrow> []
      | Some ks \<Rightarrow>
          let unknown = sort (remdups (filter (\<lambda>c. c \<notin> set ks) (map fst (s_images s)))) in
          if unknown = [] then [] else [''images names unknown component(s): '' @ join_with '', '' unknown])"

definition validate_spec :: "string list option \<Rightarrow> spec \<Rightarrow> exn + spec" where
  "validate_spec known s =
     (let ps = spec_problems known s in
      if ps \<noteq> [] then Inl (ValueError (''invalid instance spec: '' @ join_with ''; '' ps)) else Inr s)"

definition spec_to_dict :: "bool \<Rightarrow> spec \<Rightarrow> json dict" where
  "spec_to_dict include_secrets s =
     [(''env'', JStr (s_env s)), (''region'', JStr (s_region s)), (''images'', JObj (s_images s)),
      (''conformance'', JBool (s_conformance s)), (''wallet_attestation'', JBool (s_wallet_attestation s)),
      (''trusted_issuers'', JList (s_trusted_issuers s)), (''trusted_verifiers'', JList (s_trusted_verifiers s)),
      (''trusted_verifier_roots'', JList (s_trusted_verifier_roots s)),
      (''zk_circuits_sources'', JList (s_zk_circuits_sources s)),
      (''rical_provider_url'', JStr (s_rical_provider_url s)), (''rical_root_pem'', JStr (s_rical_root_pem s)),
      (''dc_api_enable'', JStr (s_dc_api_enable s)), (''credential_registries'', JList (s_credential_registries s)),
      (''android_apps'', JList (s_android_apps s)), (''values'', JObj (s_values s)),
      (''bbs_secret_key'', JStr (if \<not> include_secrets \<and> s_bbs_secret_key s \<noteq> [] then ''<redacted>'' else s_bbs_secret_key s)),
      (''app_prefix'', JStr (s_app_prefix s)), (''host_pattern'', JStr (s_host_pattern s)),
      (''scale_to_zero'', JBool (s_scale_to_zero s)), (''env_admin'', JBool (s_env_admin s)),
      (''layout'', JStr (s_layout s)), (''public_ips'', JBool (s_public_ips s))]"

definition redacted :: "spec \<Rightarrow> json dict" where
  "redacted s = spec_to_dict False s"

datatype kind = KStr | KBool | KList | KDict

definition spec_kinds :: "kind dict" where
  "spec_kinds =
     [(''images'', KDict), (''values'', KDict), (''conformance'', KBool), (''wallet_attestation'', KBool),
      (''trusted_issuers'', KList), (''trusted_verifiers'', KList), (''trusted_verifier_roots'', KList),
      (''zk_circuits_sources'', KList), (''credential_registries'', KList), (''android_apps'', KList),
      (''env'', KStr), (''region'', KStr), (''rical_provider_url'', KStr), (''rical_root_pem'', KStr),
      (''dc_api_enable'', KStr), (''bbs_secret_key'', KStr), (''app_prefix'', KStr), (''host_pattern'', KStr),
      (''scale_to_zero'', KBool), (''env_admin'', KBool), (''layout'', KStr), (''public_ips'', KBool)]"

fun of_kind :: "json \<Rightarrow> kind \<Rightarrow> bool" where
  "of_kind (JStr _) k = (k = KStr)"
| "of_kind (JBool _) k = (k = KBool)"
| "of_kind (JList _) k = (k = KList)"
| "of_kind (JObj _) k = (k = KDict)"
| "of_kind _ k = False"

fun get_str :: "json dict \<Rightarrow> string \<Rightarrow> string \<Rightarrow> string" where
  "get_str d k v = (case map_of d k of Some (JStr s) \<Rightarrow> s | _ \<Rightarrow> v)"

fun get_bool :: "json dict \<Rightarrow> string \<Rightarrow> bool \<Rightarrow> bool" where
  "get_bool d k v = (case map_of d k of Some (JBool b) \<Rightarrow> b | _ \<Rightarrow> v)"

fun get_list :: "json dict \<Rightarrow> string \<Rightarrow> json list \<Rightarrow> json list" where
  "get_list d k v = (case map_of d k of Some (JList l) \<Rightarrow> l | _ \<Rightarrow> v)"

fun get_obj :: "json dict \<Rightarrow> string \<Rightarrow> json dict \<Rightarrow> json dict" where
  "get_obj d k v = (case map_of d k of Some (JObj l) \<Rightarrow> l | _ \<Rightarrow> v)"

text \<open>\<open>cls(**data)\<close> for type-checked data: given fields override the defaults.\<close>

definition spec_of_data :: "json dict \<Rightarrow> spec \<Rightarrow> spec" where
  "spec_of_data d s =
     \<lparr>s_env = get_str d ''env'' (s_env s), s_region = get_str d ''region'' (s_region s),
      s_images = get_obj d ''images'' (s_images s), s_conformance = get_bool d ''conformance'' (s_conformance s),
      s_wallet_attestation = get_bool d ''wallet_attestation'' (s_wallet_attestation s),
      s_trusted_issuers = get_list d ''trusted_issuers'' (s_trusted_issuers s),
      s_trusted_verifiers = get_list d ''trusted_verifiers'' (s_trusted_verifiers s),
      s_trusted_verifier_roots = get_list d ''trusted_verifier_roots'' (s_trusted_verifier_roots s),
      s_zk_circuits_sources = get_list d ''zk_circuits_sources'' (s_zk_circuits_sources s),
      s_rical_provider_url = get_str d ''rical_provider_url'' (s_rical_provider_url s),
      s_rical_root_pem = get_str d ''rical_root_pem'' (s_rical_root_pem s),
      s_dc_api_enable = get_str d ''dc_api_enable'' (s_dc_api_enable s),
      s_credential_registries = get_list d ''credential_registries'' (s_credential_registries s),
      s_android_apps = get_list d ''android_apps'' (s_android_apps s),
      s_values = get_obj d ''values'' (s_values s),
      s_bbs_secret_key = get_str d ''bbs_secret_key'' (s_bbs_secret_key s),
      s_app_prefix = get_str d ''app_prefix'' (s_app_prefix s),
      s_host_pattern = get_str d ''host_pattern'' (s_host_pattern s),
      s_scale_to_zero = get_bool d ''scale_to_zero'' (s_scale_to_zero s),
      s_env_admin = get_bool d ''env_admin'' (s_env_admin s),
      s_layout = get_str d ''layout'' (s_layout s), s_public_ips = get_bool d ''public_ips'' (s_public_ips s)\<rparr>"

definition bad_kind :: "string \<times> json \<Rightarrow> bool" where
  "bad_kind kv = (case map_of spec_kinds (fst kv) of None \<Rightarrow> True | Some k \<Rightarrow> \<not> of_kind (snd kv) k)"

definition spec_from_dict :: "json \<Rightarrow> exn + spec" where
  "spec_from_dict data =
     (case data of
        JObj d \<Rightarrow>
          let unknown = sort (remdups (filter (\<lambda>k. k \<notin> fst ` set spec_kinds) (map fst d))) in
          if unknown \<noteq> [] then Inl (ValueError (''unknown instance spec key(s): '' @ join_with '', '' unknown))
          else (case filter bad_kind d of
                  (k, v) # _ \<Rightarrow> Inl (ValueError (''instance spec key '' @ py_repr k @ '' has the wrong type''))
                | [] \<Rightarrow>
                    if map_of d ''env'' = None then Inl (TypeError ''missing required argument: env'')
                    else Inr (spec_of_data d (default_spec [])))
      | _ \<Rightarrow> Inl (ValueError ''instance spec must be a mapping''))"

lemma spec_roundtrip: "spec_from_dict (JObj (spec_to_dict True s)) = Inr s"
  by (cases s) (simp add: spec_from_dict_def spec_to_dict_def spec_kinds_def bad_kind_def spec_of_data_def)

end
