(* ===== verification/Net.thy ===== *)
theory Net
  imports Prelude
begin

text \<open>
  What the code uses of Python's \<open>urllib.parse.urlsplit\<close> and \<open>ipaddress\<close> (CPython 3.13,
  the version of the service's image): splitting a URL, its user information, host and
  port, and the address classes of an IP literal. Addresses are integers. The Unicode
  normalisation check of a non-ASCII host never rejects a Latin-1 string and is left out.
\<close>

section \<open>IPv4\<close>

definition octet_ok :: "string \<Rightarrow> bool" where
  "octet_ok s = (s \<noteq> [] \<and> list_all is_digit s \<and> length s \<le> 3 \<and>
     \<not> (1 < length s \<and> hd s = CHR ''0'') \<and> dec_val s \<le> 255)"

definition parse_ipv4 :: "string \<Rightarrow> nat option" where
  "parse_ipv4 s =
     (let os = split_on CHR ''.'' s in
      if length os = 4 \<and> list_all octet_ok os
      then Some (foldl (\<lambda>n o'. 256 * n + dec_val o') 0 os) else None)"

text \<open>Membership in a network: the first \<open>l\<close> of \<open>bits\<close> bits agree.\<close>

definition in_net :: "nat \<Rightarrow> nat \<Rightarrow> nat \<Rightarrow> nat \<Rightarrow> bool" where
  "in_net bits l base ip = (ip div 2 ^ (bits - l) = base div 2 ^ (bits - l))"

definition v4 :: "nat \<Rightarrow> nat \<Rightarrow> nat \<Rightarrow> nat \<Rightarrow> nat" where
  "v4 a b c d = ((a * 256 + b) * 256 + c) * 256 + d"

definition v4_private_networks :: "(nat \<times> nat) list" where
  "v4_private_networks =
     [(v4 0 0 0 0, 8), (v4 10 0 0 0, 8), (v4 127 0 0 0, 8), (v4 169 254 0 0, 16), (v4 172 16 0 0, 12),
      (v4 192 0 0 0, 24), (v4 192 0 0 170, 31), (v4 192 0 2 0, 24), (v4 192 168 0 0, 16),
      (v4 198 18 0 0, 15), (v4 198 51 100 0, 24), (v4 203 0 113 0, 24), (v4 240 0 0 0, 4),
      (v4 255 255 255 255, 32)]"

definition v4_private :: "nat \<Rightarrow> bool" where
  "v4_private ip = (list_ex (\<lambda>(b, l). in_net 32 l b ip) v4_private_networks \<and>
                    ip \<noteq> v4 192 0 0 9 \<and> ip \<noteq> v4 192 0 0 10)"

definition v4_global :: "nat \<Rightarrow> bool" where
  "v4_global ip = (\<not> in_net 32 10 (v4 100 64 0 0) ip \<and> \<not> v4_private ip)"

definition v4_loopback :: "nat \<Rightarrow> bool" where
  "v4_loopback ip = in_net 32 8 (v4 127 0 0 0) ip"

section \<open>IPv6\<close>

definition hex_digit_val :: "char \<Rightarrow> nat option" where
  "hex_digit_val c = (let n = (of_char c :: nat) in
     if 48 \<le> n \<and> n \<le> 57 then Some (n - 48)
     else if 65 \<le> n \<and> n \<le> 70 then Some (n - 55)
     else if 97 \<le> n \<and> n \<le> 102 then Some (n - 87) else None)"

definition parse_hextet :: "string \<Rightarrow> nat option" where
  "parse_hextet s =
     (if s = [] \<or> 4 < length s \<or> list_ex (\<lambda>c. hex_digit_val c = None) s then None
      else Some (foldl (\<lambda>n c. 16 * n + the (hex_digit_val c)) 0 s))"

definition parse_hextets :: "string list \<Rightarrow> nat list option" where
  "parse_hextets ps = (if list_all (\<lambda>p. parse_hextet p \<noteq> None) ps then Some (map (the \<circ> parse_hextet) ps) else None)"

definition join_hextets :: "nat list \<Rightarrow> nat" where
  "join_hextets hs = foldl (\<lambda>n h. 65536 * n + h) 0 hs"

text \<open>The parts with a trailing dotted quad replaced by its two hextets.\<close>

definition v6_parts :: "string \<Rightarrow> (nat option) list option" where
  "v6_parts s =
     (let parts = split_on CHR '':'' s; lst = last parts;
          hx = (\<lambda>p. if p = [] then Some None else map_option Some (parse_hextet p))
      in if length parts < 3 then None
         else if CHR ''.'' \<in> set lst then
           (case parse_ipv4 lst of
              None \<Rightarrow> None
            | Some ip \<Rightarrow>
                (if list_all (\<lambda>p. hx p \<noteq> None) (butlast parts)
                 then Some (map (the \<circ> hx) (butlast parts) @ [Some (ip div 65536), Some (ip mod 65536)]) else None))
         else (if list_all (\<lambda>p. hx p \<noteq> None) parts then Some (map (the \<circ> hx) parts) else None))"

text \<open>
  \<open>_ip_int_from_string\<close>: empty parts strictly inside mark the \<open>::\<close>; at most one is
  allowed, and an empty first or last part must touch it.
\<close>

definition parse_v6_int :: "string \<Rightarrow> nat option" where
  "parse_v6_int s =
     (case v6_parts s of
        None \<Rightarrow> None
      | Some ps \<Rightarrow>
          if 9 < length ps then None
          else
            let inner = filter (\<lambda>i. ps ! i = None) [1..<length ps - 1] in
            case inner of
              [] \<Rightarrow> if length ps \<noteq> 8 \<or> hd ps = None \<or> last ps = None then None
                    else Some (join_hextets (map the ps))
            | [k] \<Rightarrow>
                let hi0 = k; lo0 = length ps - k - 1;
                    hi = (if hd ps = None then hi0 - 1 else hi0);
                    lo = (if last ps = None then lo0 - 1 else lo0)
                in if (hd ps = None \<and> hi \<noteq> 0) \<or> (last ps = None \<and> lo \<noteq> 0) \<or> 8 < hi + lo + 1 then None
                   else Some (join_hextets (map the (take hi ps) @ replicate (8 - (hi + lo)) 0 @
                                            map the (drop (length ps - lo) ps)))
            | _ \<Rightarrow> None)"

text \<open>An address with an optional scope identifier after a percent sign.\<close>

definition parse_ipv6 :: "string \<Rightarrow> nat option" where
  "parse_ipv6 s =
     (case partition_at CHR ''%'' s of (a, sep, scope) \<Rightarrow>
        if CHR ''/'' \<in> set s \<or> (sep \<and> (scope = [] \<or> CHR ''%'' \<in> set scope)) then None
        else parse_v6_int a)"

definition v6_private_networks :: "(nat \<times> nat) list" where
  "v6_private_networks =
     [(1, 128), (0, 128), (65535 * 2 ^ 32, 96), (join_hextets [0x64, 0xff9b, 1, 0, 0, 0, 0, 0], 48),
      (0x100 * 2 ^ 112, 64), (0x2001 * 2 ^ 112, 23), (join_hextets [0x2001, 0xdb8, 0, 0, 0, 0, 0, 0], 32),
      (0x2002 * 2 ^ 112, 16), (0x3fff * 2 ^ 112, 20), (0xfc00 * 2 ^ 112, 7), (0xfe80 * 2 ^ 112, 10)]"

definition v6_private_exceptions :: "(nat \<times> nat) list" where
  "v6_private_exceptions =
     [(join_hextets [0x2001, 1, 0, 0, 0, 0, 0, 1], 128), (join_hextets [0x2001, 1, 0, 0, 0, 0, 0, 2], 128),
      (join_hextets [0x2001, 3, 0, 0, 0, 0, 0, 0], 32), (join_hextets [0x2001, 4, 0x112, 0, 0, 0, 0, 0], 48),
      (join_hextets [0x2001, 0x20, 0, 0, 0, 0, 0, 0], 28), (join_hextets [0x2001, 0x30, 0, 0, 0, 0, 0, 0], 28)]"

definition v6_mapped :: "nat \<Rightarrow> nat option" where
  "v6_mapped ip = (if ip div 2 ^ 32 = 65535 then Some (ip mod 2 ^ 32) else None)"

definition v6_private :: "nat \<Rightarrow> bool" where
  "v6_private ip =
     (case v6_mapped ip of
        Some q \<Rightarrow> v4_private q
      | None \<Rightarrow> list_ex (\<lambda>(b, l). in_net 128 l b ip) v6_private_networks \<and>
                \<not> list_ex (\<lambda>(b, l). in_net 128 l b ip) v6_private_exceptions)"

definition v6_global :: "nat \<Rightarrow> bool" where
  "v6_global ip = (case v6_mapped ip of Some q \<Rightarrow> v4_global q | None \<Rightarrow> \<not> v6_private ip)"

definition v6_loopback :: "nat \<Rightarrow> bool" where
  "v6_loopback ip = (case v6_mapped ip of Some q \<Rightarrow> v4_loopback q | None \<Rightarrow> ip = 1)"

datatype ip_address = IPv4 nat | IPv6 nat

text \<open>\<open>ipaddress.ip_address(s)\<close>; \<open>None\<close> is its \<open>ValueError\<close>.\<close>

definition ip_address :: "string \<Rightarrow> ip_address option" where
  "ip_address s =
     (case parse_ipv4 s of
        Some ip \<Rightarrow> Some (IPv4 ip)
      | None \<Rightarrow> map_option IPv6 (parse_ipv6 s))"

fun is_global :: "ip_address \<Rightarrow> bool" where
  "is_global (IPv4 ip) = v4_global ip"
| "is_global (IPv6 ip) = v6_global ip"

fun is_loopback :: "ip_address \<Rightarrow> bool" where
  "is_loopback (IPv4 ip) = v4_loopback ip"
| "is_loopback (IPv6 ip) = v6_loopback ip"

section \<open>Splitting a URL\<close>

record split_url =
  u_scheme :: string
  u_netloc :: string
  u_path :: string
  u_query :: string
  u_fragment :: string

definition is_c0_or_space :: "char \<Rightarrow> bool" where
  "is_c0_or_space c = ((of_char c :: nat) \<le> 32)"

definition is_scheme_char :: "char \<Rightarrow> bool" where
  "is_scheme_char c = (is_lower c \<or> is_upper c \<or> is_digit c \<or> c \<in> set ''+-.'')"

definition split_scheme :: "string \<Rightarrow> string \<times> string" where
  "split_scheme s =
     (case partition_at CHR '':'' s of (a, found, r) \<Rightarrow>
        if found \<and> a \<noteq> [] \<and> (is_lower (hd a) \<or> is_upper (hd a)) \<and> list_all is_scheme_char a
        then (py_lower a, r) else ([], s))"

definition split_netloc :: "string \<Rightarrow> string \<times> string" where
  "split_netloc s = (takeWhile (\<lambda>c. c \<notin> set ''/?#'') s, dropWhile (\<lambda>c. c \<notin> set ''/?#'') s)"

text \<open>\<open>\Av[a-fA-F0-9]+\..+\Z\<close> of a bracketed host that starts with \<open>v\<close>.\<close>

definition ipvfuture_ok :: "string \<Rightarrow> bool" where
  "ipvfuture_ok s =
     (let r = tl s; h = takeWhile (\<lambda>c. hex_digit_val c \<noteq> None) r; t = dropWhile (\<lambda>c. hex_digit_val c \<noteq> None) r
      in h \<noteq> [] \<and> t \<noteq> [] \<and> hd t = CHR ''.'' \<and> tl t \<noteq> [] \<and> CHR 0x0A \<notin> set (tl t))"

definition bracketed_host_ok :: "string \<Rightarrow> bool" where
  "bracketed_host_ok h =
     (if starts_with ''v'' h then ipvfuture_ok h
      else case ip_address h of Some (IPv6 _) \<Rightarrow> True | _ \<Rightarrow> False)"

definition after_userinfo :: "string \<Rightarrow> string" where
  "after_userinfo netloc = (case rpartition_at CHR ''@'' netloc of (_, _, h) \<Rightarrow> h)"

definition bracketed_netloc_ok :: "string \<Rightarrow> bool" where
  "bracketed_netloc_ok netloc =
     (let hp = after_userinfo netloc in
      case partition_at CHR ''['' hp of (pre, opened, br) \<Rightarrow>
        if opened then
          (case partition_at CHR '']'' br of (h, _, p) \<Rightarrow>
             pre = [] \<and> (p = [] \<or> starts_with '':'' p) \<and> bracketed_host_ok h)
        else (case partition_at CHR '':'' hp of (h, _, _) \<Rightarrow> bracketed_host_ok h))"

definition netloc_ok :: "string \<Rightarrow> bool" where
  "netloc_ok n = (let l = CHR ''['' \<in> set n; r = CHR '']'' \<in> set n in l = r \<and> (l \<longrightarrow> bracketed_netloc_ok n))"

text \<open>\<open>None\<close> is the \<open>ValueError\<close> of \<open>urlsplit\<close>.\<close>

definition urlsplit :: "string \<Rightarrow> split_url option" where
  "urlsplit s0 =
     (let s = filter (\<lambda>c. c \<notin> {CHR 0x09, CHR 0x0A, CHR 0x0D}) (dropWhile is_c0_or_space s0) in
      case split_scheme s of (scheme, r0) \<Rightarrow>
      case (if starts_with ''//'' r0 then split_netloc (drop 2 r0) else ([], r0)) of (netloc, r1) \<Rightarrow>
      if \<not> netloc_ok netloc then None
      else
        case partition_at CHR ''#'' r1 of (r2, _, fragment) \<Rightarrow>
        case partition_at CHR ''?'' r2 of (path, _, query) \<Rightarrow>
        Some \<lparr>u_scheme = scheme, u_netloc = netloc, u_path = path, u_query = query, u_fragment = fragment\<rparr>)"

definition userinfo :: "split_url \<Rightarrow> string option \<times> string option" where
  "userinfo u =
     (case rpartition_at CHR ''@'' (u_netloc u) of (info, have, _) \<Rightarrow>
        if have then (case partition_at CHR '':'' info of (n, hp, p) \<Rightarrow> (Some n, if hp then Some p else None))
        else (None, None))"

definition hostinfo :: "split_url \<Rightarrow> string \<times> string" where
  "hostinfo u =
     (let hp = after_userinfo (u_netloc u) in
      case partition_at CHR ''['' hp of (_, opened, br) \<Rightarrow>
        if opened then
          (case partition_at CHR '']'' br of (h, _, p) \<Rightarrow> case partition_at CHR '':'' p of (_, _, p') \<Rightarrow> (h, p'))
        else (case partition_at CHR '':'' hp of (h, _, p) \<Rightarrow> (h, p)))"

text \<open>\<open>u.hostname\<close>: lower case up to a zone, the empty string where Python has \<open>None\<close>.\<close>

definition hostname :: "split_url \<Rightarrow> string" where
  "hostname u =
     (case partition_at CHR ''%'' (fst (hostinfo u)) of (h, pct, zone) \<Rightarrow>
        if fst (hostinfo u) = [] then [] else py_lower h @ (if pct then CHR ''%'' # zone else []))"

text \<open>\<open>u.port\<close>: the outer \<open>None\<close> is \<open>ValueError\<close>, the inner one "no port".\<close>

definition url_port :: "split_url \<Rightarrow> nat option option" where
  "url_port u =
     (let p = snd (hostinfo u) in
      if p = [] then Some None
      else if list_all is_digit p \<and> dec_val p \<le> 65535 then Some (Some (dec_val p)) else None)"

text \<open>Python's truth value of an optional string.\<close>

definition truthy_str :: "string option \<Rightarrow> bool" where
  "truthy_str s = (case s of None \<Rightarrow> False | Some t \<Rightarrow> t \<noteq> [])"

lemma v4_examples:
  "v4_global (v4 8 8 8 8)" "\<not> v4_global (v4 10 1 2 3)" "v4_loopback (v4 127 0 0 1)"
  by (simp_all add: v4_global_def v4_private_def v4_private_networks_def v4_loopback_def in_net_def v4_def)

end
