(* ===== verification/Android.thy ===== *)
theory Android
  imports Prelude
begin

text \<open>
  Android signing-key fingerprints (sirosid_core/android.py): the two encodings of a key
  hash and the identities of \<open>package=fingerprint\<close> entries. \<open>bytes.fromhex\<close> and the
  base64 functions of Python's \<open>binascii\<close> (non-strict decoding) are modelled on byte lists.
\<close>

section \<open>Base64\<close>

definition b64_char :: "nat \<Rightarrow> char" where
  "b64_char i = char_of (if i < 26 then 65 + i else if i < 52 then 71 + i else if i < 62 then i - 4
                         else if i = 62 then 45 else 95)"

text \<open>The value of a character of the URL-safe alphabet; \<open>+\<close> and \<open>/\<close> are read as well.\<close>

definition b64_val :: "char \<Rightarrow> nat option" where
  "b64_val c = (let n = (of_char c :: nat) in
     if 65 \<le> n \<and> n \<le> 90 then Some (n - 65)
     else if 97 \<le> n \<and> n \<le> 122 then Some (n - 71)
     else if 48 \<le> n \<and> n \<le> 57 then Some (n + 4)
     else if n = 43 \<or> n = 45 then Some 62
     else if n = 47 \<or> n = 95 then Some 63 else None)"

fun b64_encode :: "nat list \<Rightarrow> string" where
  "b64_encode [] = []"
| "b64_encode [a] = [b64_char (a div 4), b64_char (a mod 4 * 16), CHR ''='', CHR ''='']"
| "b64_encode [a, b] =
     [b64_char (a div 4), b64_char (a mod 4 * 16 + b div 16), b64_char (b mod 16 * 4), CHR ''='']"
| "b64_encode (a # b # c # bs) =
     b64_char (a div 4) # b64_char (a mod 4 * 16 + b div 16) #
     b64_char (b mod 16 * 4 + c div 64) # b64_char (c mod 64) # b64_encode bs"

text \<open>
  \<open>binascii.a2b_base64\<close>, non-strict: characters outside the alphabet are skipped, enough
  padding ends the input, and an incomplete quantum is an error (\<open>None\<close>). State: position
  in the quantum, padding characters seen since the last data character, left-over bits.
\<close>

fun b64_decode_from :: "nat \<Rightarrow> nat \<Rightarrow> nat \<Rightarrow> string \<Rightarrow> nat list option" where
  "b64_decode_from q pads left [] = (if q = 0 then Some [] else None)"
| "b64_decode_from q pads left (c # s) =
     (if c = CHR ''='' then
        (if 2 \<le> q then (if 4 \<le> q + Suc pads then Some [] else b64_decode_from q (Suc pads) left s)
         else b64_decode_from q pads left s)
      else case b64_val c of
        None \<Rightarrow> b64_decode_from q pads left s
      | Some v \<Rightarrow>
          if q = 0 then b64_decode_from 1 0 v s
          else if q = 1 then map_option ((#) (left * 4 + v div 16)) (b64_decode_from 2 0 (v mod 16) s)
          else if q = 2 then map_option ((#) (left * 16 + v div 4)) (b64_decode_from 3 0 (v mod 4) s)
          else map_option ((#) (left * 64 + v)) (b64_decode_from 0 0 0 s))"

definition b64_decode :: "string \<Rightarrow> nat list option" where
  "b64_decode s = b64_decode_from 0 0 0 s"

section \<open>Hexadecimal\<close>

definition hex_val :: "char \<Rightarrow> nat option" where
  "hex_val c = (let n = (of_char c :: nat) in
     if 48 \<le> n \<and> n \<le> 57 then Some (n - 48)
     else if 65 \<le> n \<and> n \<le> 70 then Some (n - 55)
     else if 97 \<le> n \<and> n \<le> 102 then Some (n - 87) else None)"

definition is_ascii_space :: "char \<Rightarrow> bool" where
  "is_ascii_space c = (let n = (of_char c :: nat) in n = 32 \<or> (9 \<le> n \<and> n \<le> 13))"

text \<open>\<open>bytes.fromhex\<close>: ASCII white space is skipped between bytes, not inside one.\<close>

fun fromhex :: "string \<Rightarrow> nat list option" where
  "fromhex [] = Some []"
| "fromhex [c] = (if is_ascii_space c then Some [] else None)"
| "fromhex (c # d # s) =
     (if is_ascii_space c then fromhex (d # s)
      else case (hex_val c, hex_val d) of
        (Some x, Some y) \<Rightarrow> map_option ((#) (16 * x + y)) (fromhex s)
      | _ \<Rightarrow> None)"

definition upper_hex_digit :: "nat \<Rightarrow> char" where
  "upper_hex_digit d = char_of (if d < 10 then 48 + d else 55 + d)"

definition upper_hex_byte :: "nat \<Rightarrow> string" where
  "upper_hex_byte b = [upper_hex_digit (b div 16), upper_hex_digit (b mod 16)]"

section \<open>Fingerprints\<close>

definition hex_to_apk_key_hash :: "string \<Rightarrow> exn + string" where
  "hex_to_apk_key_hash fingerprint_hex =
     (case fromhex (filter (\<lambda>c. c \<noteq> CHR '':'') fingerprint_hex) of
        None \<Rightarrow> Inl (ValueError ''non-hexadecimal number found in fromhex() arg'')
      | Some raw \<Rightarrow> Inr (rstrip_by (\<lambda>c. c = CHR ''='') (b64_encode raw)))"

text \<open>
  \<open>-len(h) % 4\<close> padding characters are appended. A non-ASCII text raises \<open>ValueError\<close>.
\<close>

definition apk_key_hash_to_hex :: "string \<Rightarrow> exn + string" where
  "apk_key_hash_to_hex h =
     (if \<not> is_ascii h then Inl (ValueError ''string argument should contain only ASCII characters'')
      else case b64_decode (h @ replicate (nat ((- int (length h)) mod 4)) CHR ''='') of
        None \<Rightarrow> Inl (ValueError ''Incorrect padding'')
      | Some raw \<Rightarrow> Inr (join_with '':'' (map upper_hex_byte raw)))"

record identity =
  id_package :: string
  id_fingerprint_hex :: string
  id_apk_key_hash :: string

definition parse_identity :: "string \<Rightarrow> string \<Rightarrow> exn + identity" where
  "parse_identity package val =
     (let v = py_strip val in
      if CHR '':'' \<in> set v then
        map_sum id (\<lambda>h. \<lparr>id_package = py_strip package, id_fingerprint_hex = v, id_apk_key_hash = h\<rparr>)
          (hex_to_apk_key_hash v)
      else
        map_sum id (\<lambda>x. \<lparr>id_package = py_strip package, id_fingerprint_hex = x, id_apk_key_hash = v\<rparr>)
          (apk_key_hash_to_hex v))"

definition identity_key :: "identity \<Rightarrow> string \<times> string" where
  "identity_key i = (id_package i, id_apk_key_hash i)"

text \<open>The inner loop, over the comma-separated parts of all entries in order.\<close>

fun identities_loop :: "string list \<Rightarrow> identity list \<Rightarrow> exn + identity list" where
  "identities_loop [] acc = Inr acc"
| "identities_loop (p # ps) acc =
     (let part = py_strip p in
      if part = [] then identities_loop ps acc
      else case partition_at CHR ''='' part of (package, eq, val) \<Rightarrow>
        if \<not> eq then Inl (ValueError (''android app entry '' @ py_repr part @ '' must be package=fingerprint''))
        else case parse_identity package val of
          Inl e \<Rightarrow> Inl e
        | Inr i \<Rightarrow>
            identities_loop ps (if identity_key i \<in> identity_key ` set acc then acc else acc @ [i]))"

definition identities_from_entries :: "string list \<Rightarrow> exn + identity list" where
  "identities_from_entries entries = identities_loop (concat (map (split_on CHR '','') entries)) []"

definition rp_origins :: "identity list \<Rightarrow> string list" where
  "rp_origins ids = map (\<lambda>i. ''android:apk-key-hash:'' @ id_apk_key_hash i) ids"

lemma identities_loop_distinct:
  "identities_loop ps acc = Inr out \<Longrightarrow> distinct (map identity_key acc) \<Longrightarrow> distinct (map identity_key out)"
proof (induction ps acc rule: identities_loop.induct)
  case (2 p ps acc)
  then show ?case
    by (auto simp: Let_def split: if_splits prod.splits sum.splits)
qed simp

section \<open>The two encodings are inverse\<close>

lemma b64_val_char: "i < 64 \<Longrightarrow> b64_val (b64_char i) = Some i"
  by (auto simp: b64_val_def b64_char_def Let_def)

lemma b64_char_not_pad [simp]: "i < 64 \<Longrightarrow> b64_char i \<noteq> CHR ''=''"
proof
  assume "i < 64" and "b64_char i = CHR ''=''"
  then have "b64_val CHR ''='' = Some i" using b64_val_char by metis
  then show False by (simp add: b64_val_def)
qed

definition byte_list :: "nat list \<Rightarrow> bool" where
  "byte_list bs = list_all (\<lambda>b. b < 256) bs"

text \<open>What encoding and stripping the padding leaves, and how decoding reads it back.\<close>

fun b64_body :: "nat list \<Rightarrow> string" where
  "b64_body [] = []"
| "b64_body [a] = [b64_char (a div 4), b64_char (a mod 4 * 16)]"
| "b64_body [a, b] = [b64_char (a div 4), b64_char (a mod 4 * 16 + b div 16), b64_char (b mod 16 * 4)]"
| "b64_body (a # b # c # bs) =
     b64_char (a div 4) # b64_char (a mod 4 * 16 + b div 16) #
     b64_char (b mod 16 * 4 + c div 64) # b64_char (c mod 64) # b64_body bs"

definition b64_pad :: "nat list \<Rightarrow> string" where
  "b64_pad bs = replicate (nat ((- int (length (b64_body bs))) mod 4)) CHR ''=''"

lemma sextets:
  "a < 256 \<Longrightarrow> (a::nat) div 4 < 64" "(a::nat) mod 4 * 16 < 64" "(b::nat) mod 16 * 4 < 64"
  "b < 256 \<Longrightarrow> (a::nat) mod 4 * 16 + b div 16 < 64"
  "c < 256 \<Longrightarrow> (b::nat) mod 16 * 4 + c div 64 < 64" "(c::nat) mod 64 < 64"
  by (auto; linarith)+

lemma quantum_arith:
  "(c::nat) < 256 \<Longrightarrow> c div 64 mod 4 * 64 + c mod 64 = c"
  "(b::nat) < 256 \<Longrightarrow> b div 16 mod 16 * 16 + b mod 16 = b"
  "(c::nat) < 256 \<Longrightarrow> c div 64 div 4 = 0"
  "(b::nat) < 256 \<Longrightarrow> b div 16 div 16 = 0"
proof -
  show "(c::nat) < 256 \<Longrightarrow> c div 64 mod 4 * 64 + c mod 64 = c"
  proof -
    assume "c < 256"
    then have "c div 64 < 4" by linarith
    then show ?thesis by simp
  qed
  show "(b::nat) < 256 \<Longrightarrow> b div 16 mod 16 * 16 + b mod 16 = b"
  proof -
    assume "b < 256"
    then have "b div 16 < 16" by linarith
    then show ?thesis by simp
  qed
qed simp_all

lemma minus_four_mod [simp]: "(- 4 - (k::int)) mod 4 = (- k) mod 4"
  by presburger

lemma b64_body_no_pad: "byte_list bs \<Longrightarrow> CHR ''='' \<notin> set (b64_body bs)"
proof (induction bs rule: b64_body.induct)
  case (4 a b c bs)
  then show ?case by (auto simp: byte_list_def sextets dest!: sym [of "CHR ''=''"])
qed (auto simp: byte_list_def sextets dest!: sym [of "CHR ''=''"])

lemma b64_encode_body: "byte_list bs \<Longrightarrow> b64_encode bs = b64_body bs @ b64_pad bs"
  by (induction bs rule: b64_body.induct)
     (simp_all add: byte_list_def b64_pad_def numeral_2_eq_2)

lemma rstrip_pad:
  "CHR ''='' \<notin> set s \<Longrightarrow> rstrip_by (\<lambda>c. c = CHR ''='') (s @ replicate n CHR ''='') = s"
proof -
  assume h: "CHR ''='' \<notin> set s"
  have "dropWhile (\<lambda>c. c = CHR ''='') (replicate n CHR ''='' @ rev s) = dropWhile (\<lambda>c. c = CHR ''='') (rev s)"
    by (induction n) auto
  moreover have "dropWhile (\<lambda>c. c = CHR ''='') (rev s) = rev s"
    using h by (cases "rev s") (auto dest: arg_cong [of "rev s" _ set])
  ultimately show ?thesis by (simp add: rstrip_by_def)
qed

lemma b64_decode_body: "byte_list bs \<Longrightarrow> b64_decode (b64_body bs @ b64_pad bs) = Some bs"
proof (induction bs rule: b64_body.induct)
  case (4 a b c bs)
  then have "a < 256" "b < 256" "c < 256" and IH: "b64_decode (b64_body bs @ b64_pad bs) = Some bs"
    by (simp_all add: byte_list_def)
  then show ?case
    by (simp add: b64_decode_def b64_val_char sextets b64_pad_def quantum_arith)
qed (simp_all add: byte_list_def b64_decode_def b64_pad_def b64_val_char sextets quantum_arith numeral_2_eq_2)

lemma upper_hex_digit_val: "d < 16 \<Longrightarrow> hex_val (upper_hex_digit d) = Some d"
  by (auto simp: hex_val_def upper_hex_digit_def Let_def)

lemma upper_hex_digit_code: "d < 16 \<Longrightarrow> (of_char (upper_hex_digit d) :: nat) \<in> {48..57} \<union> {65..70}"
  by (auto simp: upper_hex_digit_def)

lemma upper_hex_digit_no_space: "d < 16 \<Longrightarrow> \<not> is_ascii_space (upper_hex_digit d)"
  using upper_hex_digit_code [of d] by (auto simp: is_ascii_space_def Let_def)

lemma upper_hex_digit_no_colon: "d < 16 \<Longrightarrow> upper_hex_digit d \<noteq> CHR '':''"
  using upper_hex_digit_code [of d] by auto

lemma fromhex_upper_hex: "byte_list bs \<Longrightarrow> fromhex (concat (map upper_hex_byte bs)) = Some bs"
proof (induction bs)
  case (Cons b bs)
  then have b: "b div 16 < 16" "b mod 16 < 16" and IH: "fromhex (concat (map upper_hex_byte bs)) = Some bs"
    by (auto simp: byte_list_def)
  then show ?case
    by (simp add: upper_hex_byte_def [of b] upper_hex_digit_no_space upper_hex_digit_val)
qed simp

lemma filter_join_colon:
  "byte_list bs \<Longrightarrow>
   filter (\<lambda>c. c \<noteq> CHR '':'') (join_with '':'' (map upper_hex_byte bs)) = concat (map upper_hex_byte bs)"
proof (induction bs)
  case (Cons b bs)
  then have "b div 16 < 16" "b mod 16 < 16"
    and IH: "filter (\<lambda>c. c \<noteq> CHR '':'') (join_with '':'' (map upper_hex_byte bs)) = concat (map upper_hex_byte bs)"
    by (auto simp: byte_list_def)
  then show ?case
    by (cases bs) (simp_all add: upper_hex_byte_def [of b] upper_hex_digit_no_colon)
qed simp

lemma b64_char_ascii: "i < 64 \<Longrightarrow> (of_char (b64_char i) :: nat) < 128"
  by (auto simp: b64_char_def)

lemma b64_body_ascii: "byte_list bs \<Longrightarrow> is_ascii (b64_body bs)"
  by (induction bs rule: b64_body.induct) (auto simp: is_ascii_def byte_list_def b64_char_ascii sextets)

text \<open>The canonical fingerprint of a key and its hash determine each other.\<close>

lemma fingerprint_roundtrip:
  assumes "byte_list bs"
  shows "hex_to_apk_key_hash (join_with '':'' (map upper_hex_byte bs)) = Inr (b64_body bs)"
    and "apk_key_hash_to_hex (b64_body bs) = Inr (join_with '':'' (map upper_hex_byte bs))"
proof -
  have "rstrip_by (\<lambda>c. c = CHR ''='') (b64_encode bs) = b64_body bs"
    unfolding b64_encode_body [OF assms] b64_pad_def
    by (rule rstrip_pad [OF b64_body_no_pad [OF assms]])
  then show "hex_to_apk_key_hash (join_with '':'' (map upper_hex_byte bs)) = Inr (b64_body bs)"
    by (simp add: hex_to_apk_key_hash_def filter_join_colon [OF assms] fromhex_upper_hex [OF assms])
  show "apk_key_hash_to_hex (b64_body bs) = Inr (join_with '':'' (map upper_hex_byte bs))"
    using b64_decode_body [OF assms] b64_body_ascii [OF assms]
    by (simp add: apk_key_hash_to_hex_def b64_pad_def)
qed

lemma hex_val_less: "hex_val c = Some v \<Longrightarrow> v < 16"
  by (auto simp: hex_val_def Let_def split: if_splits)

lemma fromhex_bytes: "fromhex s = Some raw \<Longrightarrow> byte_list raw"
proof (induction s arbitrary: raw rule: fromhex.induct)
  case (3 c d s)
  show ?case
  proof (cases "is_ascii_space c")
    case True
    with 3 show ?thesis by simp
  next
    case False
    with 3(3) obtain x y r where "hex_val c = Some x" "hex_val d = Some y" "fromhex s = Some r" "raw = (16 * x + y) # r"
      by (auto split: option.splits)
    with 3(2) False hex_val_less [of c x] hex_val_less [of d y] show ?thesis by (fastforce simp: byte_list_def)
  qed
qed (auto simp: byte_list_def split: if_splits)

lemma unpadded_body: "byte_list bs \<Longrightarrow> rstrip_by (\<lambda>c. c = CHR ''='') (b64_encode bs) = b64_body bs"
  by (simp add: b64_encode_body b64_pad_def rstrip_pad b64_body_no_pad)

text \<open>Any accepted spelling of a fingerprint has the same hash as its canonical spelling.\<close>

lemma apk_key_hash_roundtrip:
  assumes "hex_to_apk_key_hash fp = Inr h"
  shows "\<exists>canonical. apk_key_hash_to_hex h = Inr canonical \<and> hex_to_apk_key_hash canonical = Inr h"
proof -
  obtain raw where raw: "fromhex (filter (\<lambda>c. c \<noteq> CHR '':'') fp) = Some raw"
    and h: "h = rstrip_by (\<lambda>c. c = CHR ''='') (b64_encode raw)"
    using assms by (auto simp: hex_to_apk_key_hash_def split: option.splits)
  note bytes = fromhex_bytes [OF raw]
  have "h = b64_body raw" by (simp add: h unpadded_body [OF bytes])
  with fingerprint_roundtrip [OF bytes] show ?thesis by auto
qed

end
