(* ===== verification/Policy.thy ===== *)
theory Policy
  imports Spec Net Android
begin

text \<open>
  Saved configs and the policy between a user's request and an InstanceSpec
  (sirosid_core/policy.py). A check appends at most one problem and returns whether the
  value passed; here it returns that problem, \<open>None\<close> for "passed". The problem list of a
  whole config is the concatenation in the order of the source.
\<close>

definition SCHEMA_VERSION :: int where "SCHEMA_VERSION = 1"
definition CAP_CUSTOM_IMAGES :: string where "CAP_CUSTOM_IMAGES = ''custom_images''"
definition CAP_RAW_VALUES :: string where "CAP_RAW_VALUES = ''raw_values''"
definition CAPABILITIES :: "string list" where "CAPABILITIES = [CAP_CUSTOM_IMAGES, CAP_RAW_VALUES]"
definition MAX_LIST :: nat where "MAX_LIST = 50"
definition MAX_ANDROID :: nat where "MAX_ANDROID = 20"
definition MAX_URL :: nat where "MAX_URL = 2048"
definition MAX_IDENTITY :: nat where "MAX_IDENTITY = 512"
definition MAX_NAME :: nat where "MAX_NAME = 64"
definition MAX_PEM :: nat where "MAX_PEM = 16 * 1024"
definition MAX_PEMS :: nat where "MAX_PEMS = 10"

record platform_policy =
  pp_channels :: "string dict dict"
  pp_allow_conformance :: bool
  pp_allowed_image_registries :: "string list option"
  pp_region :: string
  pp_app_prefix :: string
  pp_host_pattern :: string
  pp_scale_to_zero :: bool
  pp_env_admin :: bool
  pp_layout :: string
  pp_public_ips :: bool

definition default_policy :: platform_policy where
  "default_policy =
     \<lparr>pp_channels = [(''default'', [])], pp_allow_conformance = False, pp_allowed_image_registries = None,
      pp_region = ''arn'', pp_app_prefix = ''sid'', pp_host_pattern = ''{app}.fly.dev'',
      pp_scale_to_zero = True, pp_env_admin = True, pp_layout = ''apps'', pp_public_ips = True\<rparr>"

definition SAVED_CONFIG_KEYS :: "string list" where
  "SAVED_CONFIG_KEYS =
     [''schema_version'', ''name'', ''channel'', ''trusted_issuers'', ''trusted_verifiers'',
      ''trusted_verifier_roots'', ''credential_registries'', ''android_apps'', ''wallet_attestation'',
      ''dc_api_enable'', ''images'', ''values'', ''conformance'']"

section \<open>URLs, identities, certificates\<close>

definition BAD_SUFFIXES :: "string list" where
  "BAD_SUFFIXES = [''.internal'', ''.local'', ''.localhost'', ''.lan'', ''.home'', ''.corp'', ''.flycast'']"

definition IDENTITY_PREFIXES :: "string list" where
  "IDENTITY_PREFIXES = [''x509_hash:'', ''x509_san_dns:'', ''x509_san_uri:'', ''decentralized_identifier:'']"

definition bad_suffix :: "string \<Rightarrow> bool" where
  "bad_suffix h = list_ex (\<lambda>s. ends_with s h) BAD_SUFFIXES"

text \<open>A \<open>$\<close> at the end of a pattern also matches before a final newline.\<close>

definition before_dollar :: "string \<Rightarrow> string" where
  "before_dollar s = (if s \<noteq> [] \<and> last s = CHR 0x0A then butlast s else s)"

definition is_identity_char :: "char \<Rightarrow> bool" where
  "is_identity_char c = (is_lower c \<or> is_upper c \<or> is_digit c \<or> c \<in> set '':._~/%+=@,-'')"

definition identity_chars_match :: "string \<Rightarrow> bool" where
  "identity_chars_match s = (let b = before_dollar s in b \<noteq> [] \<and> list_all is_identity_char b)"

text \<open>The host the checks look at: lower case, no trailing dots.\<close>

definition checked_host :: "split_url \<Rightarrow> string" where
  "checked_host u = rstrip_by (\<lambda>c. c = CHR ''.'') (py_lower (hostname u))"

definition check_https_url :: "json \<Rightarrow> string \<Rightarrow> problem option" where
  "check_https_url val path =
     (case val of
        JStr s \<Rightarrow>
          if s = [] then Some (Problem path ''must be a non-empty string'')
          else if MAX_URL < length s
          then Some (Problem path (''is longer than '' @ show_nat MAX_URL @ '' characters''))
          else (case urlsplit s of
             None \<Rightarrow> Some (Problem path ''is not a valid URL'')
           | Some u \<Rightarrow>
             (case url_port u of
                None \<Rightarrow> Some (Problem path ''is not a valid URL'')
              | Some prt \<Rightarrow>
                if u_scheme u \<noteq> ''https'' then Some (Problem path ''must be an https URL'')
                else if truthy_str (fst (userinfo u)) \<or> truthy_str (snd (userinfo u))
                then Some (Problem path ''must not contain credentials'')
                else
                  let hst = checked_host u in
                  if hst = [] then Some (Problem path ''has no host'')
                  else if (case prt of None \<Rightarrow> False | Some p \<Rightarrow> \<not> (0 < p \<and> p < 65536))
                  then Some (Problem path ''has an invalid port'')
                  else (case ip_address hst of
                     Some ip \<Rightarrow>
                       if \<not> is_global ip
                       then Some (Problem path ''must not be a private, loopback or reserved address'')
                       else None
                   | None \<Rightarrow>
                       if hst = ''localhost'' \<or> CHR ''.'' \<notin> set hst \<or> bad_suffix hst
                       then Some (Problem path
                              ''must be a public host name (not localhost, an internal or single-label name)'')
                       else None)))
      | _ \<Rightarrow> Some (Problem path ''must be a non-empty string''))"

definition check_identity :: "json \<Rightarrow> string \<Rightarrow> problem option" where
  "check_identity val path =
     (case val of
        JStr s \<Rightarrow>
          if s = [] then Some (Problem path ''must be a non-empty string'')
          else if starts_with ''https://'' s then check_https_url val path
          else if MAX_IDENTITY < length s
          then Some (Problem path (''is longer than '' @ show_nat MAX_IDENTITY @ '' characters''))
          else if \<not> list_ex (\<lambda>p. starts_with p s) IDENTITY_PREFIXES \<or> \<not> identity_chars_match s
          then Some (Problem path (''must be an https URL or start with one of: '' @ join_with '', '' IDENTITY_PREFIXES))
          else None
      | _ \<Rightarrow> Some (Problem path ''must be a non-empty string''))"

definition check_pem :: "json \<Rightarrow> string \<Rightarrow> problem option" where
  "check_pem val path =
     (case val of
        JStr s \<Rightarrow>
          if MAX_PEM < length s
          then Some (Problem path (''must be PEM text of at most '' @ show_nat MAX_PEM @ '' bytes''))
          else
            let body = py_strip s in
            if \<not> (starts_with ''-----BEGIN CERTIFICATE-----'' body \<and> ends_with ''-----END CERTIFICATE-----'' body)
            then Some (Problem path ''must be a PEM CERTIFICATE (and nothing else - no private keys)'')
            else if has_sub ''PRIVATE KEY'' body then Some (Problem path ''must not contain a private key'')
            else None
      | _ \<Rightarrow> Some (Problem path (''must be PEM text of at most '' @ show_nat MAX_PEM @ '' bytes'')))"

section \<open>Image references\<close>

record image_ref =
  ir_host :: string
  ir_repo :: string
  ir_tag :: string
  ir_digest :: string

definition pinned :: "image_ref \<Rightarrow> bool" where
  "pinned r = (ir_digest r \<noteq> [])"

definition image_str :: "image_ref \<Rightarrow> string" where
  "image_str r = ir_host r @ ''/'' @ ir_repo r @ (if ir_tag r \<noteq> [] then '':'' @ ir_tag r else []) @
                 (if ir_digest r \<noteq> [] then ''@'' @ ir_digest r else [])"

definition is_lower_alnum :: "char \<Rightarrow> bool" where
  "is_lower_alnum c = (is_lower c \<or> is_digit c)"

text \<open>
  The pattern \<open>_IMAGE\<close>. Its four groups are delimited by characters that occur in none of
  them (\<open>/\<close> after the host, \<open>:\<close> and \<open>@\<close> after the repository), so matching it is splitting
  at those and testing each group.
\<close>

definition image_host_ok :: "string \<Rightarrow> bool" where
  "image_host_ok h =
     (case partition_at CHR '':'' h of (n, colon, p) \<Rightarrow>
        n \<noteq> [] \<and> is_lower_alnum (hd n) \<and> is_lower_alnum (last n) \<and>
        list_all (\<lambda>c. is_lower_alnum c \<or> c \<in> set ''.-'') n \<and>
        (colon \<longrightarrow> p \<noteq> [] \<and> length p \<le> 5 \<and> list_all is_digit p))"

definition separator_ok :: "string \<Rightarrow> bool" where
  "separator_ok s = (s \<in> {''.'', ''_'', ''__''} \<or> (s \<noteq> [] \<and> list_all (\<lambda>c. c = CHR ''-'') s))"

text \<open>One path component: runs of letters and digits joined by separators.\<close>

fun component_runs :: "bool \<Rightarrow> string \<Rightarrow> string \<Rightarrow> bool" where
  "component_runs seen sep [] = (seen \<and> sep = [])"
| "component_runs seen sep (c # s) =
     (if is_lower_alnum c then (sep = [] \<or> (seen \<and> separator_ok sep)) \<and> component_runs True [] s
      else c \<in> set ''._-'' \<and> component_runs seen (sep @ [c]) s)"

definition image_component_ok :: "string \<Rightarrow> bool" where
  "image_component_ok s = component_runs False [] s"

definition image_repo_ok :: "string \<Rightarrow> bool" where
  "image_repo_ok s = list_all image_component_ok (split_on CHR ''/'' s)"

definition is_tag_start :: "char \<Rightarrow> bool" where
  "is_tag_start c = (is_lower c \<or> is_upper c \<or> is_digit c \<or> c = CHR ''_'')"

definition image_tag_ok :: "string \<Rightarrow> bool" where
  "image_tag_ok s = (s \<noteq> [] \<and> length s \<le> 128 \<and> is_tag_start (hd s) \<and>
                     list_all (\<lambda>c. is_tag_start c \<or> c \<in> set ''.-'') s)"

definition is_lower_hex :: "char \<Rightarrow> bool" where
  "is_lower_hex c = (is_digit c \<or> (let n = (of_char c :: nat) in 97 \<le> n \<and> n \<le> 102))"

definition image_digest_ok :: "string \<Rightarrow> bool" where
  "image_digest_ok s = (starts_with ''sha256:'' s \<and> length s = 71 \<and> list_all is_lower_hex (drop 7 s))"

definition match_image :: "string \<Rightarrow> image_ref option" where
  "match_image ref =
     (case partition_at CHR ''/'' (before_dollar ref) of (hst, slash, rest) \<Rightarrow>
      case partition_at CHR ''@'' rest of (named, has_at, digest) \<Rightarrow>
      case partition_at CHR '':'' named of (repo, colon, tag) \<Rightarrow>
        if slash \<and> image_host_ok hst \<and> image_repo_ok repo \<and> (colon \<longrightarrow> image_tag_ok tag) \<and>
           (has_at \<longrightarrow> image_digest_ok digest)
        then Some \<lparr>ir_host = hst, ir_repo = repo, ir_tag = tag, ir_digest = digest\<rparr>
        else None)"

definition bare_image_message :: string where
  "bare_image_message =
     ''must name its registry (e.g. ghcr.io/org/image:tag) - a bare name would be looked up on '' @
     ''the deploying machine's local docker daemon''"

definition before_colon :: "string \<Rightarrow> string" where
  "before_colon s = fst (partition_at CHR '':'' s)"

definition parse_image :: "json \<Rightarrow> exn + image_ref" where
  "parse_image val =
     (case val of
        JStr ref \<Rightarrow>
          if ref = [] \<or> 300 < length ref then Inl (ValueError ''must be a non-empty image reference'')
          else if CHR ''/'' \<notin> set ref then Inl (ValueError bare_image_message)
          else (case match_image ref of
             None \<Rightarrow> Inl (ValueError
                ''is not a valid fully qualified image reference (registry/repo:tag or @sha256:...)'')
           | Some r \<Rightarrow>
               if CHR ''.'' \<notin> set (before_colon (ir_host r)) \<and> CHR '':'' \<notin> set (ir_host r)
               then Inl (ValueError bare_image_message)
               else if ir_tag r = [] \<and> ir_digest r = [] then Inl (ValueError ''must have a tag or a digest'')
               else Inr r)
      | _ \<Rightarrow> Inl (ValueError ''must be a non-empty image reference''))"

definition FORBIDDEN_REGISTRIES :: "string list" where
  "FORBIDDEN_REGISTRIES = [''registry.fly.io'']"

fun value_error_text :: "exn \<Rightarrow> string" where
  "value_error_text (ValueError m) = m"
| "value_error_text _ = []"

definition check_image :: "json \<Rightarrow> string \<Rightarrow> platform_policy \<Rightarrow> problem option" where
  "check_image ref path pol =
     (case parse_image ref of
        Inl e \<Rightarrow> Some (Problem path (value_error_text e))
      | Inr parsed \<Rightarrow>
          let hst = before_colon (ir_host parsed) in
          if hst \<in> set FORBIDDEN_REGISTRIES \<or> hst = ''localhost'' \<or> bad_suffix hst
          then Some (Problem path (''registry '' @ py_repr (ir_host parsed) @
                 '' is not allowed (another app's images, or not public)''))
          else if (case ip_address hst of Some ip \<Rightarrow> \<not> is_global ip | None \<Rightarrow> False)
          then Some (Problem path ''registry must not be a private address'')
          else (case pp_allowed_image_registries pol of
             Some allowed \<Rightarrow>
               if ir_host parsed \<notin> set allowed
               then Some (Problem path (''registry '' @ py_repr (ir_host parsed) @ '' is not one of: '' @
                      join_with '', '' allowed))
               else None
           | None \<Rightarrow> None))"

section \<open>The policy\<close>

definition opt_list :: "'a option \<Rightarrow> 'a list" where
  "opt_list x = (case x of None \<Rightarrow> [] | Some a \<Rightarrow> [a])"

text \<open>\<open>_list_of\<close>: the entries, and the problems it appends.\<close>

definition list_of :: "json dict \<Rightarrow> string \<Rightarrow> nat \<Rightarrow> json list \<times> problem list" where
  "list_of data key limit =
     (case map_of data key of
        None \<Rightarrow> ([], [])
      | Some JNull \<Rightarrow> ([], [])
      | Some (JList l) \<Rightarrow>
          if limit < length l then ([], [Problem key (''has more than '' @ show_nat limit @ '' entries'')])
          else (l, [])
      | Some _ \<Rightarrow> ([], [Problem key ''must be an array'']))"

fun check_each :: "(json \<Rightarrow> string \<Rightarrow> problem option) \<Rightarrow> string \<Rightarrow> nat \<Rightarrow> json list \<Rightarrow> problem list" where
  "check_each chk key i [] = []"
| "check_each chk key i (v # vs) =
     opt_list (chk v (key @ ''['' @ show_nat i @ '']'')) @ check_each chk key (Suc i) vs"

definition check_list ::
  "json dict \<Rightarrow> string \<Rightarrow> nat \<Rightarrow> (json \<Rightarrow> string \<Rightarrow> problem option) \<Rightarrow> problem list" where
  "check_list data key limit chk =
     (case list_of data key limit of (vs, ps) \<Rightarrow> ps @ check_each chk key 0 vs)"

fun json_str :: "json \<Rightarrow> string" where
  "json_str (JStr s) = s"
| "json_str _ = []"

definition check_android :: "json dict \<Rightarrow> problem list" where
  "check_android data =
     (case list_of data ''android_apps'' MAX_ANDROID of (apps, ps) \<Rightarrow> ps @
        (if apps = [] then []
         else if \<not> list_all is_JStr apps then [Problem ''android_apps'' ''entries must be strings'']
         else case identities_from_entries (map json_str apps) of
           Inr _ \<Rightarrow> []
         | Inl (ValueError m) \<Rightarrow> [Problem ''android_apps'' m]
         | Inl _ \<Rightarrow> [Problem ''android_apps'' ''has a malformed fingerprint'']))"

definition check_head :: "json dict \<Rightarrow> platform_policy \<Rightarrow> problem list" where
  "check_head saved pol =
     map (\<lambda>k. Problem k ''is not a known key (see schema()); unknown keys are rejected, not ignored'')
       (sort (remdups (filter (\<lambda>k. k \<notin> set SAVED_CONFIG_KEYS) (map fst saved)))) @
     (let version = (case map_of saved ''schema_version'' of None \<Rightarrow> JInt SCHEMA_VERSION | Some v \<Rightarrow> v) in
      if \<not> json_eq version (JInt SCHEMA_VERSION) \<or> is_JBool version
      then [Problem ''schema_version'' (''must be '' @ show_int SCHEMA_VERSION)] else []) @
     (case (case map_of saved ''name'' of None \<Rightarrow> JStr [] | Some v \<Rightarrow> v) of
        JStr n \<Rightarrow> if MAX_NAME < length n
                   then [Problem ''name'' (''must be a string of at most '' @ show_nat MAX_NAME @ '' characters'')] else []
      | _ \<Rightarrow> [Problem ''name'' (''must be a string of at most '' @ show_nat MAX_NAME @ '' characters'')]) @
     (case (case map_of saved ''channel'' of None \<Rightarrow> JStr ''default'' | Some v \<Rightarrow> v) of
        JStr c \<Rightarrow> if dict_has (pp_channels pol) c then []
                   else [Problem ''channel'' (''must be one of: '' @ join_with '', '' (sort (map fst (pp_channels pol))))]
      | _ \<Rightarrow> [Problem ''channel'' (''must be one of: '' @ join_with '', '' (sort (map fst (pp_channels pol))))])"

definition check_flags :: "json dict \<Rightarrow> platform_policy \<Rightarrow> problem list" where
  "check_flags saved pol =
     concat (map (\<lambda>key. case map_of saved key of
         None \<Rightarrow> []
       | Some v \<Rightarrow> if is_JBool v then [] else [Problem key ''must be true or false''])
       [''wallet_attestation'', ''conformance'']) @
     (if map_of saved ''conformance'' = Some (JBool True) \<and> \<not> pp_allow_conformance pol
      then [Problem ''conformance'' ''is not available on this platform'']
      else if map_of saved ''conformance'' = Some (JBool True) \<and> pp_layout pol = ''single-machine''
      then [Problem ''conformance'' ''is not available in the single-machine layout'']
      else []) @
     (case (case map_of saved ''dc_api_enable'' of None \<Rightarrow> JStr [] | Some v \<Rightarrow> v) of
        JStr d \<Rightarrow> if d \<in> {[], ''true'', ''false''} then []
                   else [Problem ''dc_api_enable'' (''must be '' @ py_repr [] @ '', '' @ py_repr ''true'' @ '' or '' @ py_repr ''false'')]
      | _ \<Rightarrow> [Problem ''dc_api_enable'' (''must be '' @ py_repr [] @ '', '' @ py_repr ''true'' @ '' or '' @ py_repr ''false'')])"

definition check_images :: "json dict \<Rightarrow> string list \<Rightarrow> platform_policy \<Rightarrow> problem list" where
  "check_images saved caps pol =
     (case map_of saved ''images'' of
        None \<Rightarrow> []
      | Some images \<Rightarrow>
          if json_truthy images then
            if CAP_CUSTOM_IMAGES \<notin> set caps
            then [Problem ''images'' (''needs the '' @ py_repr CAP_CUSTOM_IMAGES @ '' capability, which your account does not have'')]
            else (case images of
               JObj kvs \<Rightarrow>
                 concat (map (\<lambda>(comp, ref).
                   if comp \<notin> set component_names
                   then [Problem (''images.'' @ comp) (''is not a component (one of: '' @ join_with '', '' (sort component_names) @ '')'')]
                   else opt_list (check_image ref (''images.'' @ comp) pol)) kvs)
             | _ \<Rightarrow> [Problem ''images'' ''must be an object of component -> image''])
          else if images \<noteq> JNull \<and> \<not> is_JObj images
          then [Problem ''images'' ''must be an object of component -> image'']
          else [])"

definition check_values :: "json dict \<Rightarrow> string list \<Rightarrow> problem list" where
  "check_values saved caps =
     (case map_of saved ''values'' of
        None \<Rightarrow> []
      | Some vals \<Rightarrow>
          if json_truthy vals then
            if CAP_RAW_VALUES \<notin> set caps
            then [Problem ''values'' (''needs the '' @ py_repr CAP_RAW_VALUES @ '' capability, which your account does not have'')]
            else if \<not> is_JObj vals then [Problem ''values'' ''must be an object''] else []
          else [])"

definition validate :: "json \<Rightarrow> string list \<Rightarrow> platform_policy \<Rightarrow> problem list" where
  "validate saved_doc caps pol =
     (case saved_doc of
        JObj saved \<Rightarrow>
          check_head saved pol @
          check_list saved ''trusted_issuers'' MAX_LIST check_https_url @
          check_list saved ''trusted_verifiers'' MAX_LIST check_identity @
          check_list saved ''credential_registries'' MAX_LIST check_https_url @
          check_list saved ''trusted_verifier_roots'' MAX_PEMS check_pem @
          check_android saved @
          check_flags saved pol @
          check_images saved caps pol @
          check_values saved caps
      | _ \<Rightarrow> [Problem ''$'' ''a saved config must be a JSON object''])"

section \<open>From a saved config to a spec\<close>

definition PLATFORM_FIELDS :: "string list" where
  "PLATFORM_FIELDS = [''env'', ''region'', ''app_prefix'', ''host_pattern'', ''scale_to_zero'', ''env_admin'',
                      ''layout'', ''public_ips'']"

text \<open>\<open>saved.get(k) or []\<close> and \<open>saved.get(k) or {}\<close> of a validated config.\<close>

definition list_field :: "json dict \<Rightarrow> string \<Rightarrow> json list" where
  "list_field saved k = (case map_of saved k of Some (JList l) \<Rightarrow> l | _ \<Rightarrow> [])"

definition obj_field :: "json dict \<Rightarrow> string \<Rightarrow> json dict" where
  "obj_field saved k = (case map_of saved k of Some (JObj d) \<Rightarrow> d | _ \<Rightarrow> [])"

definition bool_field :: "json dict \<Rightarrow> string \<Rightarrow> bool" where
  "bool_field saved k = (case map_of saved k of None \<Rightarrow> False | Some v \<Rightarrow> json_truthy v)"

definition str_field :: "json dict \<Rightarrow> string \<Rightarrow> string \<Rightarrow> string" where
  "str_field saved k v = (case map_of saved k of Some (JStr s) \<Rightarrow> s | _ \<Rightarrow> v)"

definition channel_images :: "platform_policy \<Rightarrow> string \<Rightarrow> json dict" where
  "channel_images pol c = (case map_of (pp_channels pol) c of None \<Rightarrow> [] | Some imgs \<Rightarrow> map (map_prod id JStr) imgs)"

definition spec_of_saved :: "json dict \<Rightarrow> string \<Rightarrow> platform_policy \<Rightarrow> spec" where
  "spec_of_saved saved env pol =
     (default_spec env)
       \<lparr>s_region := pp_region pol,
        s_images := dict_merge (channel_images pol (str_field saved ''channel'' ''default'')) (obj_field saved ''images''),
        s_conformance := bool_field saved ''conformance'',
        s_wallet_attestation := bool_field saved ''wallet_attestation'',
        s_trusted_issuers := list_field saved ''trusted_issuers'',
        s_trusted_verifiers := list_field saved ''trusted_verifiers'',
        s_trusted_verifier_roots := map (\<lambda>p. JStr (py_strip (json_str p) @ [CHR 0x0A])) (list_field saved ''trusted_verifier_roots''),
        s_credential_registries := list_field saved ''credential_registries'',
        s_android_apps := list_field saved ''android_apps'',
        s_dc_api_enable := str_field saved ''dc_api_enable'' [],
        s_values := obj_field saved ''values'',
        s_app_prefix := pp_app_prefix pol,
        s_host_pattern := pp_host_pattern pol,
        s_scale_to_zero := pp_scale_to_zero pol,
        s_env_admin := pp_env_admin pol,
        s_layout := pp_layout pol,
        s_public_ips := pp_public_ips pol\<rparr>"

definition build_spec :: "json \<Rightarrow> string \<Rightarrow> string list \<Rightarrow> platform_policy \<Rightarrow> exn + spec" where
  "build_spec saved env caps pol =
     (let problems = validate saved caps pol in
      if problems \<noteq> [] then Inl (PolicyError problems)
      else case saved of
        JObj d \<Rightarrow> validate_spec (Some component_names) (spec_of_saved d env pol)
      | _ \<Rightarrow> Inl (TypeError ''not a dictionary''))"

definition rebuild_spec :: "json \<Rightarrow> spec \<Rightarrow> string list \<Rightarrow> platform_policy \<Rightarrow> exn + spec" where
  "rebuild_spec saved deployed caps pol =
     (case build_spec saved (s_env deployed) caps (pol\<lparr>pp_layout := s_layout deployed\<rparr>) of
        Inl e \<Rightarrow> Inl e
      | Inr s \<Rightarrow> validate_spec (Some component_names)
          (s\<lparr>s_env := s_env deployed, s_region := s_region deployed, s_app_prefix := s_app_prefix deployed,
             s_host_pattern := s_host_pattern deployed, s_scale_to_zero := s_scale_to_zero deployed,
             s_env_admin := s_env_admin deployed, s_layout := s_layout deployed,
             s_public_ips := s_public_ips deployed\<rparr>))"

section \<open>What a built spec looks like\<close>

lemma validate_spec_Inr: "validate_spec known s = Inr t \<Longrightarrow> t = s \<and> spec_problems known s = []"
  by (auto simp: validate_spec_def Let_def split: if_splits)

lemma build_spec_Inr:
  assumes "build_spec saved env caps pol = Inr sp"
  obtains d where "saved = JObj d" and "validate saved caps pol = []" and "sp = spec_of_saved d env pol"
    and "spec_problems (Some component_names) sp = []"
  using assms by (auto simp: build_spec_def Let_def split: if_splits json.splits dest!: validate_spec_Inr)

text \<open>The platform's fields come from the platform, whatever the config says.\<close>

lemma build_spec_platform:
  assumes "build_spec saved env caps pol = Inr sp"
  shows "s_env sp = env \<and> s_region sp = pp_region pol \<and> s_app_prefix sp = pp_app_prefix pol \<and>
         s_host_pattern sp = pp_host_pattern pol \<and> s_scale_to_zero sp = pp_scale_to_zero pol \<and>
         s_env_admin sp = pp_env_admin pol \<and> s_layout sp = pp_layout pol \<and> s_public_ips sp = pp_public_ips pol"
proof -
  obtain d where "sp = spec_of_saved d env pol" by (rule build_spec_Inr [OF assms])
  then show ?thesis by (simp add: spec_of_saved_def default_spec_def)
qed

lemma rebuild_spec_platform:
  assumes "rebuild_spec saved dep caps pol = Inr sp"
  shows "s_env sp = s_env dep \<and> s_region sp = s_region dep \<and> s_app_prefix sp = s_app_prefix dep \<and>
         s_host_pattern sp = s_host_pattern dep \<and> s_scale_to_zero sp = s_scale_to_zero dep \<and>
         s_env_admin sp = s_env_admin dep \<and> s_layout sp = s_layout dep \<and> s_public_ips sp = s_public_ips dep"
  using assms by (auto simp: rebuild_spec_def split: sum.splits dest!: validate_spec_Inr)

lemma build_spec_naming:
  assumes "build_spec saved env caps pol = Inr sp" and "spec_naming sp = Inr n"
  shows "n_env n = env \<and> n_app_prefix n = pp_app_prefix pol \<and> naming_ok n"
  using build_spec_platform [OF assms(1)] assms(2)
  by (auto simp: spec_naming_def make_naming_def naming_ok_def split: if_splits)

section \<open>Capabilities\<close>

text \<open>A validated config uses nothing that the account has no capability for.\<close>

lemma validate_parts:
  assumes "validate (JObj d) caps pol = []"
  shows "check_head d pol = []" "check_list d ''trusted_issuers'' MAX_LIST check_https_url = []"
    "check_list d ''trusted_verifiers'' MAX_LIST check_identity = []"
    "check_list d ''credential_registries'' MAX_LIST check_https_url = []"
    "check_list d ''trusted_verifier_roots'' MAX_PEMS check_pem = []"
    "check_android d = []" "check_flags d pol = []" "check_images d caps pol = []" "check_values d caps = []"
  using assms by (simp_all add: validate_def)

lemma check_images_Nil:
  assumes "check_images d caps pol = []" and "map_of d ''images'' = Some v" and "json_truthy v"
  shows "CAP_CUSTOM_IMAGES \<in> set caps"
    and "\<exists>kvs. v = JObj kvs \<and> (\<forall>(c, ref) \<in> set kvs. c \<in> set component_names \<and> check_image ref (''images.'' @ c) pol = None)"
  using assms by (auto simp: check_images_def opt_list_def split: if_splits json.splits option.splits)

lemma check_values_Nil:
  assumes "check_values d caps = []" and "map_of d ''values'' = Some v" and "json_truthy v"
  shows "CAP_RAW_VALUES \<in> set caps \<and> is_JObj v"
  using assms by (auto simp: check_values_def split: if_splits)

lemma check_each_Nil: "check_each chk key i vs = [] \<longleftrightarrow> (\<forall>j < length vs. chk (vs ! j) (key @ ''['' @ show_nat (i + j) @ '']'') = None)"
proof (induction vs arbitrary: i)
  case (Cons v vs)
  have "(\<forall>j < length (v # vs). chk ((v # vs) ! j) (key @ ''['' @ show_nat (i + j) @ '']'') = None) \<longleftrightarrow>
     chk v (key @ ''['' @ show_nat i @ '']'') = None \<and>
     (\<forall>j < length vs. chk (vs ! j) (key @ ''['' @ show_nat (Suc i + j) @ '']'') = None)"
    by (auto simp: less_Suc_eq_0_disj)
  with Cons show ?case by (simp add: opt_list_def split: option.splits)
qed simp

lemma check_list_Nil:
  assumes "check_list d key limit chk = []"
  shows "length (list_field d key) \<le> limit" and "v \<in> set (list_field d key) \<Longrightarrow> \<exists>path. chk v path = None"
  using assms
  by (auto simp: check_list_def list_of_def list_field_def check_each_Nil in_set_conv_nth split: option.splits json.splits if_splits)

text \<open>Withdrawing a capability never makes a rejected config valid.\<close>

lemma validate_mono:
  assumes "validate saved caps pol = []" and "set caps \<subseteq> set caps'"
  shows "validate saved caps' pol = []"
proof (cases saved)
  case (JObj d)
  from assms(1) JObj have d: "validate (JObj d) caps pol = []" by simp
  have "check_images d caps' pol = []"
  proof (cases "map_of d ''images''")
    case None then show ?thesis by (simp add: check_images_def)
  next
    case (Some v)
    then have "check_images d caps' pol = check_images d caps pol"
      using check_images_Nil (1) [OF validate_parts(8) [OF d] Some] assms(2)
      by (cases "json_truthy v") (auto simp: check_images_def)
    with validate_parts(8) [OF d] show ?thesis by simp
  qed
  moreover have "check_values d caps' = []"
  proof (cases "map_of d ''values''")
    case None then show ?thesis by (simp add: check_values_def)
  next
    case (Some v)
    then have "check_values d caps' = check_values d caps"
      using check_values_Nil [OF validate_parts(9) [OF d] Some] assms(2)
      by (cases "json_truthy v") (auto simp: check_values_def)
    with validate_parts(9) [OF d] show ?thesis by simp
  qed
  ultimately show ?thesis using JObj validate_parts [OF d] by (simp add: validate_def)
qed (use assms in \<open>simp_all add: validate_def\<close>)

end
