(* ===== verification/Fly.thy ===== *)
theory Fly
  imports Components
begin

text \<open>
  FlyClient (sirosid_core/fly.py) over its injected process runner. The runner, the JSON
  decoding of flyctl's replies and the clock are the fields of the record \<open>fly\<close>: flyctl is
  not part of the repository. A decoder returns \<open>None\<close> where \<open>json.loads\<close> raises
  \<open>ValueError\<close>. The type variable \<open>'w\<close> is the state of the world behind flyctl; every
  operation threads it. What is printed is not modelled.

  The two polling loops take their number of rounds from \<open>fly_fuel\<close>; running out of it is
  the exception \<open>OutOfFuel\<close>, and the lemmas on enough fuel show when it cannot happen.
\<close>

record cmd_result =
  cr_code :: int
  cr_out :: string
  cr_err :: string

record fly_machine =
  fm_id :: string
  fm_state :: "string option"
  fm_mounts :: "(string option \<times> string option) list"

record fly_volume =
  fv_id :: string
  fv_name :: "string option"
  fv_state :: "string option"
  fv_region :: "string option"

record 'w fly =
  fly_org :: string
  fly_run :: "string list \<Rightarrow> 'w \<Rightarrow> cmd_result \<times> 'w"
  fly_app_names :: "string \<Rightarrow> string list option"
  fly_machine_list :: "string \<Rightarrow> fly_machine list option"
  fly_volume_list :: "string \<Rightarrow> fly_volume list option"
  fly_check_states :: "string \<Rightarrow> string option list option"
  fly_token_rows :: "string \<Rightarrow> (string \<times> string) list"
  fly_secret_names :: "string \<Rightarrow> string list option"
  fly_mono :: "'w \<Rightarrow> time"
  fly_sleep :: "time \<Rightarrow> 'w \<Rightarrow> 'w"
  fly_fuel :: nat

definition AT_REST :: "string list" where
  "AT_REST = [''started'', ''stopped'', ''suspended'', ''failed'', ''destroyed'']"

definition FLY_REGION_FALLBACK :: string where
  "FLY_REGION_FALLBACK = ''arn''"

definition out_of_fuel :: exn where
  "out_of_fuel = OtherError ''OutOfFuel'' []"

definition is_line_break :: "char \<Rightarrow> bool" where
  "is_line_break c = (let n = (of_char c :: nat) in (10 \<le> n \<and> n \<le> 13) \<or> (28 \<le> n \<and> n \<le> 30) \<or> n = 133)"

text \<open>
  Lines of a text, empty ones included; \<open>detail_text\<close> drops empty lines, so a CR LF pair
  may count as two breaks.
\<close>

fun text_lines :: "string \<Rightarrow> string list" where
  "text_lines [] = [[]]"
| "text_lines (x # s) =
     (if is_line_break x then [] # text_lines s
      else case text_lines s of [] \<Rightarrow> [[x]] | w # ws \<Rightarrow> (x # w) # ws)"

definition detail_text :: "cmd_result \<Rightarrow> string" where
  "detail_text r =
     (let ls = filter (\<lambda>l. l \<noteq> []) (map py_strip (text_lines (py_strip (cr_err r @ cr_out r))))
      in if ls = [] then [] else '': '' @ take 240 (last ls))"

definition run :: "'w fly \<Rightarrow> string list \<Rightarrow> bool \<Rightarrow> bool \<Rightarrow> 'w \<Rightarrow> ('w, cmd_result) outcome" where
  "run f args check capture w =
     (case fly_run f (''flyctl'' # args) w of (r, w') \<Rightarrow>
        if check \<and> cr_code r \<noteq> 0
        then (Inl (FlyError (''flyctl '' @ hd args @ '' failed (exit '' @ show_int (cr_code r) @ '')'' @
                (if capture then detail_text r else []))), w')
        else (Inr r, w'))"

text \<open>\<open>json.loads(result.stdout or "[]")\<close> with the given decoder.\<close>

definition loads_or :: "(string \<Rightarrow> 'a list option) \<Rightarrow> string \<Rightarrow> 'a list option" where
  "loads_or dec out = (if out = [] then Some [] else dec out)"

definition json_error :: exn where
  "json_error = ValueError ''invalid JSON''"

definition app_exists :: "'w fly \<Rightarrow> string \<Rightarrow> 'w \<Rightarrow> ('w, bool) outcome" where
  "app_exists f name w =
     (case run f [''apps'', ''list'', ''--json''] False True w of
        (Inl e, w') \<Rightarrow> (Inl e, w')
      | (Inr r, w') \<Rightarrow>
          if cr_code r \<noteq> 0 then (Inr False, w')
          else case loads_or (fly_app_names f) (cr_out r) of
            None \<Rightarrow> (Inl json_error, w')
          | Some names \<Rightarrow> (Inr (name \<in> set names), w'))"

definition destroy_app :: "'w fly \<Rightarrow> string \<Rightarrow> 'w \<Rightarrow> ('w, bool) outcome" where
  "destroy_app f name w =
     (case app_exists f name w of
        (Inl e, w') \<Rightarrow> (Inl e, w')
      | (Inr False, w') \<Rightarrow> (Inr False, w')
      | (Inr True, w') \<Rightarrow>
          (case run f [''apps'', ''destroy'', name, ''--yes''] True False w' of
             (Inl e, w'') \<Rightarrow> (Inl e, w'')
           | (Inr r, w'') \<Rightarrow> (Inr True, w'')))"

definition list_apps :: "'w fly \<Rightarrow> 'w \<Rightarrow> ('w, string list) outcome" where
  "list_apps f w =
     (case run f [''apps'', ''list'', ''-o'', fly_org f, ''--json''] False True w of
        (Inl e, w') \<Rightarrow> (Inl e, w')
      | (Inr r, w') \<Rightarrow>
          if cr_code r \<noteq> 0
          then (Inl (FlyError (''could not list apps in org '' @ fly_org f @ '' (exit '' @
                  show_int (cr_code r) @ '')'' @ detail_text r)), w')
          else case loads_or (fly_app_names f) (cr_out r) of
            None \<Rightarrow> (Inl json_error, w')
          | Some names \<Rightarrow> (Inr names, w'))"

definition list_machines :: "'w fly \<Rightarrow> string \<Rightarrow> 'w \<Rightarrow> ('w, fly_machine list) outcome" where
  "list_machines f a w =
     (case run f [''machine'', ''list'', ''-a'', a, ''--json''] False True w of
        (Inl e, w') \<Rightarrow> (Inl e, w')
      | (Inr r, w') \<Rightarrow>
          if cr_code r \<noteq> 0 then (Inr [], w')
          else case loads_or (fly_machine_list f) (cr_out r) of
            None \<Rightarrow> (Inr [], w')
          | Some ms \<Rightarrow> (Inr ms, w'))"

text \<open>\<open>for x in xs: self.run(*cmd(x), check=False)\<close>; only the elements with \<open>p x\<close> are run.\<close>

fun run_each :: "'w fly \<Rightarrow> ('a \<Rightarrow> bool) \<Rightarrow> ('a \<Rightarrow> string list) \<Rightarrow> 'a list \<Rightarrow> 'w \<Rightarrow> ('w, unit) outcome" where
  "run_each f p cmd [] w = (Inr (), w)"
| "run_each f p cmd (x # xs) w =
     (if p x then
        (case run f (cmd x) False False w of
           (Inl e, w') \<Rightarrow> (Inl e, w')
         | (Inr _, w') \<Rightarrow> run_each f p cmd xs w')
      else run_each f p cmd xs w)"

definition stop_machines :: "'w fly \<Rightarrow> string \<Rightarrow> 'w \<Rightarrow> ('w, unit) outcome" where
  "stop_machines f a w =
     (case list_machines f a w of
        (Inl e, w') \<Rightarrow> (Inl e, w')
      | (Inr ms, w') \<Rightarrow>
          run_each f (\<lambda>m. fm_state m \<notin> {Some ''stopped'', Some ''destroyed''})
            (\<lambda>m. [''machine'', ''stop'', fm_id m, ''-a'', a]) ms w')"

definition destroy_machines :: "'w fly \<Rightarrow> string \<Rightarrow> 'w \<Rightarrow> ('w, unit) outcome" where
  "destroy_machines f a w =
     (case list_machines f a w of
        (Inl e, w') \<Rightarrow> (Inl e, w')
      | (Inr ms, w') \<Rightarrow>
          run_each f (\<lambda>_. True) (\<lambda>m. [''machine'', ''destroy'', fm_id m, ''-a'', a, ''--force'']) ms w')"

definition list_volumes :: "'w fly \<Rightarrow> string \<Rightarrow> 'w \<Rightarrow> ('w, fly_volume list) outcome" where
  "list_volumes f a w =
     (case run f [''volumes'', ''list'', ''-a'', a, ''--json''] False True w of
        (Inl e, w') \<Rightarrow> (Inl e, w')
      | (Inr r, w') \<Rightarrow>
          if cr_code r \<noteq> 0 then (Inr [], w')
          else case loads_or (fly_volume_list f) (cr_out r) of
            None \<Rightarrow> (Inr [], w')
          | Some vs \<Rightarrow> (Inr vs, w'))"

definition destroy_volume :: "'w fly \<Rightarrow> string \<Rightarrow> string \<Rightarrow> 'w \<Rightarrow> ('w, unit) outcome" where
  "destroy_volume f a v w =
     (case run f [''volumes'', ''destroy'', v, ''-a'', a, ''--yes''] True False w of
        (Inl e, w') \<Rightarrow> (Inl e, w')
      | (Inr _, w') \<Rightarrow> (Inr (), w'))"

text \<open>
  \<open>ensure_volume\<close>: the existing volume of that name, or a new one; an existing volume in
  another region is an error. The flag is the \<open>created\<close> key of the returned dictionary; the
  reply of \<open>volumes create\<close> is decoded by \<open>fly_volume_list\<close> as a list of one volume.
\<close>

definition volume_named :: "string \<Rightarrow> fly_volume \<Rightarrow> bool" where
  "volume_named name v = (fv_name v = Some name \<and> fv_state v \<noteq> Some ''destroyed'')"

definition ensure_volume ::
  "'w fly \<Rightarrow> string \<Rightarrow> string \<Rightarrow> string \<Rightarrow> nat \<Rightarrow> 'w \<Rightarrow> ('w, fly_volume option \<times> bool) outcome" where
  "ensure_volume f a name region size_gb w =
     (case list_volumes f a w of
        (Inl e, w') \<Rightarrow> (Inl e, w')
      | (Inr vs, w') \<Rightarrow>
          (case filter (volume_named name) vs of
             vol # _ \<Rightarrow>
               (case fv_region vol of
                  Some vr \<Rightarrow>
                    if region \<noteq> [] \<and> vr \<noteq> [] \<and> vr \<noteq> region
                    then (Inl (FlyError (a @ '': volume '' @ name @ '' ('' @ fv_id vol @ '') lives in region '' @ vr @
                            '' but this run targets '' @ region)), w')
                    else (Inr (Some vol, False), w')
                | None \<Rightarrow> (Inr (Some vol, False), w'))
           | [] \<Rightarrow>
               (case run f [''volumes'', ''create'', name, ''-a'', a, ''-r'',
                        (if region \<noteq> [] then region else FLY_REGION_FALLBACK),
                        ''-s'', show_nat size_gb, ''--yes'', ''--json''] True True w' of
                  (Inl e, w'') \<Rightarrow> (Inl e, w'')
                | (Inr r, w'') \<Rightarrow>
                    (Inr (case loads_or (fly_volume_list f) (cr_out r) of
                            Some (v # _) \<Rightarrow> Some v | _ \<Rightarrow> None, True), w''))))"

definition machine_has_mount :: "fly_machine \<Rightarrow> string \<Rightarrow> bool" where
  "machine_has_mount m volume =
     list_ex (\<lambda>(nm, vol). nm = Some volume \<or> vol = Some volume \<or>
        (case vol of None \<Rightarrow> False | Some v \<Rightarrow> starts_with ''vol_'' v)) (fm_mounts m)"

definition assert_volume_mounted :: "'w fly \<Rightarrow> string \<Rightarrow> string \<Rightarrow> 'w \<Rightarrow> ('w, unit) outcome" where
  "assert_volume_mounted f a volume w =
     (case list_machines f a w of
        (Inl e, w') \<Rightarrow> (Inl e, w')
      | (Inr ms, w') \<Rightarrow>
          if ms = [] then (Inl (FlyError (a @ '': no machine after deploy - cannot confirm volume '' @ volume @ '' is mounted'')), w')
          else if \<not> list_all (\<lambda>m. machine_has_mount m volume) ms
          then (Inl (FlyError (a @ '': machine came up WITHOUT the volume mount ('' @ volume @ '')'')), w')
          else (Inr (), w'))"

definition destroy_machines_without_mount :: "'w fly \<Rightarrow> string \<Rightarrow> 'w \<Rightarrow> ('w, unit) outcome" where
  "destroy_machines_without_mount f a w =
     (case list_machines f a w of
        (Inl e, w') \<Rightarrow> (Inl e, w')
      | (Inr ms, w') \<Rightarrow>
          run_each f (\<lambda>m. fm_mounts m = [])
            (\<lambda>m. [''machine'', ''destroy'', fm_id m, ''-a'', a, ''--force'']) ms w')"

definition existing_secret_names :: "'w fly \<Rightarrow> string \<Rightarrow> 'w \<Rightarrow> ('w, string list) outcome" where
  "existing_secret_names f a w =
     (case run f [''secrets'', ''list'', ''-a'', a, ''--json''] False True w of
        (Inl e, w') \<Rightarrow> (Inl e, w')
      | (Inr r, w') \<Rightarrow>
          if cr_code r \<noteq> 0 then (Inr [], w')
          else case loads_or (fly_secret_names f) (cr_out r) of
            None \<Rightarrow> (Inr [], w')
          | Some ns \<Rightarrow> (Inr ns, w'))"

definition revoke_tokens :: "'w fly \<Rightarrow> string \<Rightarrow> string \<Rightarrow> 'w \<Rightarrow> ('w, nat) outcome" where
  "revoke_tokens f a name w =
     (case run f [''tokens'', ''list'', ''-a'', a] False True w of
        (Inl e, w') \<Rightarrow> (Inl e, w')
      | (Inr r, w') \<Rightarrow>
          if cr_code r \<noteq> 0 then (Inr 0, w')
          else
            let ids = map fst (filter (\<lambda>(i, n). n = name) (fly_token_rows f (cr_out r))) in
            if ids = [] then (Inr 0, w')
            else (case run f ([''tokens'', ''revoke''] @ ids) False False w' of
                    (Inl e, w'') \<Rightarrow> (Inl e, w'')
                  | (Inr _, w'') \<Rightarrow> (Inr (length ids), w'')))"

definition ensure_app :: "'w fly \<Rightarrow> string \<Rightarrow> string option \<Rightarrow> bool \<Rightarrow> 'w \<Rightarrow> ('w, unit) outcome" where
  "ensure_app f name network allocate_public_ips w =
     (case (case app_exists f name w of
              (Inl e, w') \<Rightarrow> (Inl e, w')
            | (Inr True, w') \<Rightarrow> (Inr (), w')
            | (Inr False, w') \<Rightarrow>
                (case run f ([''apps'', ''create'', name, ''-o'', fly_org f, ''--yes''] @
                         (case network of None \<Rightarrow> [] | Some n \<Rightarrow> if n = [] then [] else [''--network'', n])) True False w' of
                   (Inl e, w'') \<Rightarrow> (Inl e, w'')
                 | (Inr _, w'') \<Rightarrow> (Inr (), w''))) of
        (Inl e, w') \<Rightarrow> (Inl e, w')
      | (Inr _, w') \<Rightarrow>
          if allocate_public_ips then
            (case run f [''ips'', ''allocate-v4'', ''--shared'', ''-a'', name] True False w' of
               (Inl e, w'') \<Rightarrow> (Inl e, w'')
             | (Inr _, w'') \<Rightarrow>
                 (case run f [''ips'', ''allocate-v6'', ''-a'', name] True False w'' of
                    (Inl e, w3) \<Rightarrow> (Inl e, w3)
                  | (Inr _, w3) \<Rightarrow> (Inr (), w3)))
          else (Inr (), w'))"

section \<open>The polling loops\<close>

text \<open>
  The \<open>while True\<close> of \<open>ensure_running\<close>: \<open>Inr None\<close> is its early \<open>return\<close>, \<open>Inr (Some ms)\<close>
  its \<open>break\<close> with the machines of the last look.
\<close>

fun settle_loop ::
  "nat \<Rightarrow> 'w fly \<Rightarrow> string \<Rightarrow> time \<Rightarrow> time \<Rightarrow> 'w \<Rightarrow> ('w, fly_machine list option) outcome" where
  "settle_loop 0 f a deadline poll w = (Inl out_of_fuel, w)"
| "settle_loop (Suc n) f a deadline poll w =
     (case run f [''machine'', ''list'', ''-a'', a, ''--json''] False True w of
        (Inl e, w') \<Rightarrow> (Inl e, w')
      | (Inr r, w') \<Rightarrow>
          if cr_code r \<noteq> 0 then (Inr None, w')
          else case loads_or (fly_machine_list f) (cr_out r) of
            None \<Rightarrow> (Inr None, w')
          | Some ms \<Rightarrow>
              if list_all (\<lambda>m. fm_state m \<in> Some ` set AT_REST) ms \<or> deadline \<le> fly_mono f w'
              then (Inr (Some ms), w')
              else settle_loop n f a deadline poll (fly_sleep f poll w'))"

definition ensure_running :: "'w fly \<Rightarrow> string \<Rightarrow> 'w \<Rightarrow> ('w, unit) outcome" where
  "ensure_running f a w =
     (case settle_loop (fly_fuel f) f a (fly_mono f w + 30) 2 w of
        (Inl e, w') \<Rightarrow> (Inl e, w')
      | (Inr None, w') \<Rightarrow> (Inr (), w')
      | (Inr (Some ms), w') \<Rightarrow>
          run_each f (\<lambda>m. fm_state m \<in> {Some ''stopped'', Some ''suspended''})
            (\<lambda>m. [''machine'', ''start'', fm_id m, ''-a'', a]) ms w')"

fun checks_loop :: "nat \<Rightarrow> 'w fly \<Rightarrow> string \<Rightarrow> time \<Rightarrow> time \<Rightarrow> 'w \<Rightarrow> ('w, bool) outcome" where
  "checks_loop 0 f a deadline poll w = (Inl out_of_fuel, w)"
| "checks_loop (Suc n) f a deadline poll w =
     (if \<not> fly_mono f w < deadline then (Inr False, w)
      else
        (case run f [''checks'', ''list'', ''-a'', a, ''--json''] False True w of
           (Inl e, w') \<Rightarrow> (Inl e, w')
         | (Inr r, w') \<Rightarrow>
             let cs = (if cr_code r = 0
                       then (case loads_or (fly_check_states f) (cr_out r) of None \<Rightarrow> [] | Some cs \<Rightarrow> cs)
                       else [])
             in if cs \<noteq> [] \<and> list_all (\<lambda>c. c = Some ''passing'') cs then (Inr True, w')
                else checks_loop n f a deadline poll (fly_sleep f poll w')))"

definition wait_for_checks :: "'w fly \<Rightarrow> string \<Rightarrow> 'w \<Rightarrow> ('w, unit) outcome" where
  "wait_for_checks f a w =
     (case checks_loop (fly_fuel f) f a (fly_mono f w + 90) 3 w of
        (Inl e, w') \<Rightarrow> (Inl e, w')
      | (Inr _, w') \<Rightarrow> (Inr (), w'))"

end
