(* ===== verification/Machines.thy ===== *)
theory Machines
  imports Json
begin

text \<open>
  MachinesClient (sirosid_core/machines.py) over its injected HTTP transport. The transport,
  the clock, sleeping and the decoding of reply bodies are fields of the record \<open>machines\<close>;
  a decoder returns \<open>None\<close> for a body that is not of the expected JSON type. \<open>NetError\<close> is
  an \<open>OSError\<close> of the transport (class name and text). Polling loops take \<open>ma_fuel\<close>
  rounds at most.
\<close>

datatype net_reply = NetError string string | Reply int string

record container_config =
  cc_name :: string
  cc_restart_policy :: "string option"
  cc_healthchecks :: bool

record mc_machine =
  mm_id :: string
  mm_state :: "string option"
  mm_host_pattern :: "string option"
  mm_config_hash :: "string option"
  mm_version :: string
  mm_config :: "container_config list option"
  mm_containers :: "(string option \<times> string) list"
  mm_checks :: "string option list"

record exec_result =
  ex_code :: "int option"
  ex_stdout :: string
  ex_stderr :: string

record 'w machines =
  ma_token :: string
  ma_base_url :: string
  ma_timeout :: time
  ma_transport :: "string \<Rightarrow> string \<Rightarrow> string dict \<Rightarrow> json option \<Rightarrow> time \<Rightarrow> 'w \<Rightarrow> net_reply \<times> 'w"
  ma_machine_list :: "string \<Rightarrow> mc_machine list option"
  ma_machine :: "string \<Rightarrow> mc_machine option"
  ma_exec_result :: "string \<Rightarrow> exec_result option"
  ma_secret_version :: "string \<Rightarrow> int option"
  ma_clock :: "'w \<Rightarrow> time"
  ma_sleep :: "time \<Rightarrow> 'w \<Rightarrow> 'w"
  ma_fuel :: nat

text \<open>A Fly token is sent as it is, a bare one as a bearer token.\<close>

definition authorization :: "string \<Rightarrow> string" where
  "authorization token =
     (let t = py_strip token in
      if fst (partition_at CHR '' '' t) \<in> {''FlyV1'', ''Bearer''} then t else ''Bearer '' @ t)"

definition OK_STATUS :: "int list" where
  "OK_STATUS = [200, 201, 202, 204]"

text \<open>\<open>urllib.parse.quote(s, safe="")\<close>, byte by byte of the UTF-8 encoding.\<close>

definition utf8_bytes :: "char \<Rightarrow> nat list" where
  "utf8_bytes c = (let n = (of_char c :: nat) in if n < 128 then [n] else [192 + n div 64, 128 + n mod 64])"

definition upper_hex :: "nat \<Rightarrow> char" where
  "upper_hex d = char_of (if d < 10 then 48 + d else 55 + d)"

definition url_quote_char :: "char \<Rightarrow> string" where
  "url_quote_char c =
     (if is_digit c \<or> is_lower c \<or> is_upper c \<or> c \<in> set ''_.-~'' then [c]
      else concat (map (\<lambda>b. [CHR ''%'', upper_hex (b div 16), upper_hex (b mod 16)]) (utf8_bytes c)))"

definition url_quote :: "string \<Rightarrow> string" where
  "url_quote s = concat (map url_quote_char s)"

text \<open>
  The attempts of one call: a network error is retried after \<open>2 * (attempt + 1)\<close> seconds
  while attempts are left.
\<close>

fun call_attempts ::
  "'w machines \<Rightarrow> string \<Rightarrow> string \<Rightarrow> string dict \<Rightarrow> json option \<Rightarrow> time \<Rightarrow> nat \<Rightarrow> nat \<Rightarrow> 'w
   \<Rightarrow> ('w, int \<times> string) outcome" where
  "call_attempts m meth path hs body tmo attempt 0 w = (Inl (MachinesError (meth @ '' '' @ path) None), w)"
| "call_attempts m meth path hs body tmo attempt (Suc left) w =
     (case ma_transport m meth (ma_base_url m @ path) hs body tmo w of
        (Reply st raw, w') \<Rightarrow> (Inr (st, raw), w')
      | (NetError cls msg, w') \<Rightarrow>
          if left = 0 then (Inl (MachinesError (meth @ '' '' @ path @ '': '' @ cls @ '': '' @ msg) None), w')
          else call_attempts m meth path hs body tmo (Suc attempt) left
                 (ma_sleep m (2 * (of_nat attempt + 1)) w'))"

definition call ::
  "'w machines \<Rightarrow> string \<Rightarrow> string \<Rightarrow> json option \<Rightarrow> bool \<Rightarrow> time option \<Rightarrow> bool \<Rightarrow> 'w
   \<Rightarrow> ('w, string) outcome" where
  "call m meth path body quiet timeout retry w =
     (let hs = [(''Authorization'', authorization (ma_token m)), (''Accept'', ''application/json'')] @
               (if body \<noteq> None then [(''Content-Type'', ''application/json'')] else []);
          attempts = (if meth = ''GET'' \<and> retry then 3 else 1);
          tmo = (case timeout of None \<Rightarrow> ma_timeout m | Some t \<Rightarrow> if t = 0 then ma_timeout m else t)
      in case call_attempts m meth path hs body tmo 0 attempts w of
           (Inl e, w') \<Rightarrow> (Inl e, w')
         | (Inr (st, raw), w') \<Rightarrow>
             if st \<notin> set OK_STATUS then
               (Inl (MachinesError (meth @ '' '' @ path @ '': HTTP '' @ show_int st @
                  (if quiet then [] else '': '' @ take 300 (py_strip raw))) (Some st)), w')
             else (Inr raw, w'))"

definition machines_path :: "string \<Rightarrow> string" where
  "machines_path a = ''/apps/'' @ url_quote a @ ''/machines''"

definition machine_path :: "string \<Rightarrow> string \<Rightarrow> string" where
  "machine_path a i = machines_path a @ ''/'' @ url_quote i"

definition m_list_machines ::
  "'w machines \<Rightarrow> string \<Rightarrow> time option \<Rightarrow> bool \<Rightarrow> 'w \<Rightarrow> ('w, mc_machine list) outcome" where
  "m_list_machines m a timeout retry w =
     (case call m ''GET'' (machines_path a) None False timeout retry w of
        (Inl e, w') \<Rightarrow> (Inl e, w')
      | (Inr raw, w') \<Rightarrow> (Inr (case ma_machine_list m raw of None \<Rightarrow> [] | Some ms \<Rightarrow> ms), w'))"

text \<open>The reply of a call that returns one machine.\<close>

definition m_reply :: "'w machines \<Rightarrow> ('w, string) outcome \<Rightarrow> ('w, mc_machine) outcome" where
  "m_reply m x =
     (case x of
        (Inl e, w') \<Rightarrow> (Inl e, w')
      | (Inr raw, w') \<Rightarrow>
          (case ma_machine m raw of
             None \<Rightarrow> (Inl (OtherError ''AttributeError'' ''get''), w')
           | Some x \<Rightarrow> (Inr x, w')))"

definition m_get_machine ::
  "'w machines \<Rightarrow> string \<Rightarrow> string \<Rightarrow> time option \<Rightarrow> bool \<Rightarrow> 'w \<Rightarrow> ('w, mc_machine) outcome" where
  "m_get_machine m a i timeout retry w = m_reply m (call m ''GET'' (machine_path a i) None False timeout retry w)"

text \<open>A POST on a machine with an empty JSON object as body.\<close>

definition m_action :: "string \<Rightarrow> 'w machines \<Rightarrow> string \<Rightarrow> string \<Rightarrow> 'w \<Rightarrow> ('w, string) outcome" where
  "m_action act m a i w = call m ''POST'' (machine_path a i @ ''/'' @ act) (Some (JObj [])) False None True w"

definition stop_machine where "stop_machine = m_action ''stop''"
definition start_machine where "start_machine = m_action ''start''"
definition cordon where "cordon = m_action ''cordon''"
definition uncordon where "uncordon = m_action ''uncordon''"
definition restart_machine where "restart_machine = m_action ''restart''"

definition destroy_machine ::
  "'w machines \<Rightarrow> string \<Rightarrow> string \<Rightarrow> bool \<Rightarrow> 'w \<Rightarrow> ('w, string) outcome" where
  "destroy_machine m a i force w =
     call m ''DELETE'' (machine_path a i @ (if force then ''?force=true'' else [])) None False None True w"

definition m_exec ::
  "'w machines \<Rightarrow> string \<Rightarrow> string \<Rightarrow> string list \<Rightarrow> string \<Rightarrow> int \<Rightarrow> 'w \<Rightarrow> ('w, exec_result) outcome" where
  "m_exec m a i command container timeout w =
     (let body = JObj ([(''command'', JList (map JStr command)), (''timeout'', JInt timeout)] @
                       (if container \<noteq> [] then [(''container'', JStr container)] else []))
      in case call m ''POST'' (machine_path a i @ ''/exec'') (Some body) False (Some (of_int timeout + 30)) True w of
           (Inl e, w') \<Rightarrow> (Inl e, w')
         | (Inr raw, w') \<Rightarrow>
             (case ma_exec_result m raw of
                None \<Rightarrow> (Inl (OtherError ''AttributeError'' ''get''), w')
              | Some x \<Rightarrow> (Inr x, w')))"

definition set_secret :: "'w machines \<Rightarrow> string \<Rightarrow> string \<Rightarrow> string \<Rightarrow> 'w \<Rightarrow> ('w, int) outcome" where
  "set_secret m a name val w =
     (case call m ''POST'' (''/apps/'' @ url_quote a @ ''/secrets/'' @ url_quote name)
             (Some (JObj [(''value'', JStr val)])) True None True w of
        (Inl e, w') \<Rightarrow> (Inl e, w')
      | (Inr raw, w') \<Rightarrow>
          (case ma_secret_version m raw of
             None \<Rightarrow> (Inl (MachinesError (''setting secret '' @ name @ '' on '' @ a @ '' returned no version'') None), w')
           | Some v \<Rightarrow> (Inr v, w')))"

text \<open>
  Creating a machine and replacing its config. \<open>None\<close> is a missing \<open>min_secrets_version\<close>; nobody
  skips the launch.
\<close>

definition version_field :: "int option \<Rightarrow> json dict" where
  "version_field v = (case v of None \<Rightarrow> [] | Some n \<Rightarrow> [(''min_secrets_version'', JInt n)])"

definition create_machine ::
  "'w machines \<Rightarrow> string \<Rightarrow> json \<Rightarrow> string \<Rightarrow> string \<Rightarrow> int option \<Rightarrow> 'w \<Rightarrow> ('w, mc_machine) outcome" where
  "create_machine m a config region name version w =
     m_reply m (call m ''POST'' (machines_path a)
       (Some (JObj ([(''config'', config)] @ (if region = [] then [] else [(''region'', JStr region)]) @
          (if name = [] then [] else [(''name'', JStr name)]) @ version_field version))) False (Some 120) True w)"

definition update_machine ::
  "'w machines \<Rightarrow> string \<Rightarrow> string \<Rightarrow> json \<Rightarrow> int option \<Rightarrow> 'w \<Rightarrow> ('w, mc_machine) outcome" where
  "update_machine m a i config version w =
     m_reply m (call m ''POST'' (machine_path a i) (Some (JObj ((''config'', config) # version_field version))) False (Some 120) True w)"

text \<open>
  \<open>wait\<close>: one call waits at most 60 seconds at the API; 408 and 504 mean "not yet".
\<close>

fun wait_loop ::
  "nat \<Rightarrow> 'w machines \<Rightarrow> string \<Rightarrow> string \<Rightarrow> string \<Rightarrow> string \<Rightarrow> time \<Rightarrow> 'w \<Rightarrow> ('w, unit) outcome" where
  "wait_loop 0 m a i st version deadline w = (Inl (OtherError ''OutOfFuel'' []), w)"
| "wait_loop (Suc n) m a i st version deadline w =
     (let left = max 1 (min 60 \<lfloor>deadline - ma_clock m w\<rfloor>)
      in case call m ''GET'' (machine_path a i @ ''/wait?state='' @ url_quote st @ ''&timeout='' @ show_int left @
                 (if version = [] then [] else ''&instance_id='' @ url_quote version))
               None False (Some (of_int left + 15)) True w of
           (Inr raw, w') \<Rightarrow> (Inr (), w')
         | (Inl e, w') \<Rightarrow>
             (case e of
                MachinesError msg status \<Rightarrow>
                  if status \<notin> {Some 408, Some 504} \<or> deadline \<le> ma_clock m w' then (Inl e, w')
                  else wait_loop n m a i st version deadline w'
              | _ \<Rightarrow> (Inl e, w')))"

text \<open>\<open>version\<close> is the argument \<open>instance_id\<close>: the version of the machine, if it is known.\<close>

definition wait_version ::
  "'w machines \<Rightarrow> string \<Rightarrow> string \<Rightarrow> string \<Rightarrow> string \<Rightarrow> time \<Rightarrow> 'w \<Rightarrow> ('w, unit) outcome" where
  "wait_version m a i st version timeout w = wait_loop (ma_fuel m) m a i st version (ma_clock m w + timeout) w"

definition wait :: "'w machines \<Rightarrow> string \<Rightarrow> string \<Rightarrow> string \<Rightarrow> time \<Rightarrow> 'w \<Rightarrow> ('w, unit) outcome" where
  "wait m a i st timeout = wait_version m a i st [] timeout"

definition container_ready :: "(string option \<times> string) list \<Rightarrow> string \<times> string \<Rightarrow> bool" where
  "container_ready states nw =
     (case nw of (n, want) \<Rightarrow>
        let s = map_of (rev states) (Some n) in
        if want = ''healthy'' then s = Some ''healthy'' else s \<in> {Some ''stopped'', Some ''exited''})"

definition not_ready_text ::
  "time \<Rightarrow> (string option \<times> string) list \<Rightarrow> (string \<times> string) list \<Rightarrow> string" where
  "not_ready_text timeout states pending =
     ''containers not ready after '' @ show_int \<lfloor>timeout\<rfloor> @ ''s: '' @
     join_with '', '' (map (\<lambda>(n, want). n @ '' is '' @
        (case map_of (rev states) (Some n) of None \<Rightarrow> ''missing'' | Some s \<Rightarrow> if s = [] then ''missing'' else s) @
        '' (want '' @ want @ '')'') (sort pending))"

fun containers_loop ::
  "nat \<Rightarrow> 'w machines \<Rightarrow> string \<Rightarrow> string \<Rightarrow> (string \<times> string) list \<Rightarrow> time \<Rightarrow> time \<Rightarrow> time \<Rightarrow> 'w
   \<Rightarrow> ('w, (string option \<times> string) list) outcome" where
  "containers_loop 0 m a i want timeout deadline poll w = (Inl (OtherError ''OutOfFuel'' []), w)"
| "containers_loop (Suc n) m a i want timeout deadline poll w =
     (case m_get_machine m a i None True w of
        (Inl e, w') \<Rightarrow> (Inl e, w')
      | (Inr x, w') \<Rightarrow>
          let pending = filter (\<lambda>nw. \<not> container_ready (mm_containers x) nw) want in
          if pending = [] then (Inr (mm_containers x), w')
          else if deadline \<le> ma_clock m w'
          then (Inl (MachinesError (not_ready_text timeout (mm_containers x) pending) None), w')
          else containers_loop n m a i want timeout deadline poll (ma_sleep m poll w'))"

definition wait_containers ::
  "'w machines \<Rightarrow> string \<Rightarrow> string \<Rightarrow> (string \<times> string) list \<Rightarrow> time \<Rightarrow> 'w
   \<Rightarrow> ('w, (string option \<times> string) list) outcome" where
  "wait_containers m a i want timeout w =
     containers_loop (ma_fuel m) m a i want timeout (ma_clock m w + timeout) 5 w"

text \<open>
  \<open>readiness\<close> of sirosid_core/singlemachine.py: what "up" means for a machine config. A
  machine without a container list raises \<open>KeyError\<close>.
\<close>

definition readiness :: "container_config list option \<Rightarrow> exn + (string \<times> string) list" where
  "readiness config =
     (case config of
        None \<Rightarrow> Inl (KeyError ''containers'')
      | Some cs \<Rightarrow> Inr (map (\<lambda>c. (cc_name c, if cc_restart_policy c = Some ''no'' then ''exited'' else ''healthy''))
            (filter (\<lambda>c. cc_healthchecks c \<or> cc_restart_policy c = Some ''no'') cs)))"

end
