(* ===== verification/Lifecycle.thy ===== *)
theory Lifecycle
  imports Naming Fly Machines
begin

text \<open>
  Instance lifecycle (sirosid_core/lifecycle.py) as functions of the Fly client, the
  optional Machines client and the naming. The loops over the components catch \<open>FlyError\<close>
  only, record it and go on; any other exception ends the loop and is the result.
\<close>

record destroy_report =
  dr_destroyed :: "string list"
  dr_kept :: "string list"
  dr_absent :: "string list"
  dr_failed :: "(string \<times> string) list"

record power_report =
  pr_changed :: "string list"
  pr_absent :: "string list"
  pr_failed :: "(string \<times> string) list"

definition empty_destroy_report :: destroy_report where
  "empty_destroy_report = \<lparr>dr_destroyed = [], dr_kept = [], dr_absent = [], dr_failed = []\<rparr>"

definition empty_power_report :: power_report where
  "empty_power_report = \<lparr>pr_changed = [], pr_absent = [], pr_failed = []\<rparr>"

definition destroy_ok :: "destroy_report \<Rightarrow> bool" where
  "destroy_ok r = (dr_failed r = [])"

definition power_ok :: "power_report \<Rightarrow> bool" where
  "power_ok r = (pr_failed r = [])"

text \<open>\<open>str(e)\<close>: the message of the exception.\<close>

fun exn_text :: "exn \<Rightarrow> string" where
  "exn_text (NotFound m) = m"
| "exn_text (Forbidden m) = m"
| "exn_text (NotSignedIn m) = m"
| "exn_text (QuotaExceeded m) = m"
| "exn_text (InvalidState m) = m"
| "exn_text (InvalidInvite m) = m"
| "exn_text (AuthError m) = m"
| "exn_text (RateLimited m) = m"
| "exn_text (ServiceError m) = m"
| "exn_text (PolicyError ps) = join_with ''; '' (map (\<lambda>p. p_path p @ '': '' @ p_message p) ps)"
| "exn_text (Locked m) = m"
| "exn_text (VaultError m) = m"
| "exn_text (OAuthError c d s) = (if d = [] then c else d)"
| "exn_text (FlyError m) = m"
| "exn_text (MachinesError m s) = m"
| "exn_text (DeployError m) = m"
| "exn_text (ValueError m) = m"
| "exn_text (KeyError m) = py_repr m"
| "exn_text (TypeError m) = m"
| "exn_text (OtherError c m) = m"

text \<open>\<open>type(e).__name__\<close>.\<close>

fun exn_class :: "exn \<Rightarrow> string" where
  "exn_class (NotFound _) = ''NotFound''"
| "exn_class (Forbidden _) = ''Forbidden''"
| "exn_class (NotSignedIn _) = ''NotSignedIn''"
| "exn_class (QuotaExceeded _) = ''QuotaExceeded''"
| "exn_class (InvalidState _) = ''InvalidState''"
| "exn_class (InvalidInvite _) = ''InvalidInvite''"
| "exn_class (AuthError _) = ''AuthError''"
| "exn_class (RateLimited _) = ''RateLimited''"
| "exn_class (ServiceError _) = ''ServiceError''"
| "exn_class (PolicyError _) = ''PolicyError''"
| "exn_class (Locked _) = ''Locked''"
| "exn_class (VaultError _) = ''VaultError''"
| "exn_class (OAuthError _ _ _) = ''OAuthError''"
| "exn_class (FlyError _) = ''FlyError''"
| "exn_class (MachinesError _ _) = ''MachinesError''"
| "exn_class (DeployError _) = ''DeployError''"
| "exn_class (ValueError _) = ''ValueError''"
| "exn_class (KeyError _) = ''KeyError''"
| "exn_class (TypeError _) = ''TypeError''"
| "exn_class (OtherError c _) = c"

section \<open>The layout of one Fly app per component\<close>

text \<open>What one round of the loop adds to the report.\<close>

datatype destroy_outcome = Destroyed_app | Kept_app | Absent_app | Skipped_app

definition destroy_component ::
  "'w fly \<Rightarrow> naming \<Rightarrow> bool \<Rightarrow> string \<Rightarrow> 'w \<Rightarrow> ('w, destroy_outcome) outcome" where
  "destroy_component f n keep_data name w =
     (let a = app n name in
      if keep_data \<and> name \<in> set STORAGE_APPS then
        (case app_exists f a w of
           (Inl e, w') \<Rightarrow> (Inl e, w')
         | (Inr False, w') \<Rightarrow> (Inr Skipped_app, w')
         | (Inr True, w') \<Rightarrow>
             (case stop_machines f a w' of
                (Inl e, w'') \<Rightarrow> (Inl e, w'')
              | (Inr _, w'') \<Rightarrow> (Inr Kept_app, w'')))
      else
        (case (if name \<noteq> ''env-admin'' then
                 (case app_exists f a w of
                    (Inl e, w') \<Rightarrow> (Inl e, w')
                  | (Inr False, w') \<Rightarrow> (Inr (), w')
                  | (Inr True, w') \<Rightarrow>
                      (case revoke_tokens f a ''sirosid-env-admin'' w' of
                         (Inl e, w'') \<Rightarrow> (Inl e, w'') | (Inr _, w'') \<Rightarrow> (Inr (), w'')))
               else (Inr (), w)) of
           (Inl e, w') \<Rightarrow> (Inl e, w')
         | (Inr _, w') \<Rightarrow>
             (case destroy_app f a w' of
                (Inl e, w'') \<Rightarrow> (Inl e, w'')
              | (Inr d, w'') \<Rightarrow> (Inr (if d then Destroyed_app else Absent_app), w''))))"

fun add_destroy :: "string \<Rightarrow> destroy_outcome \<Rightarrow> destroy_report \<Rightarrow> destroy_report" where
  "add_destroy a Destroyed_app r = r\<lparr>dr_destroyed := dr_destroyed r @ [a]\<rparr>"
| "add_destroy a Kept_app r = r\<lparr>dr_kept := dr_kept r @ [a]\<rparr>"
| "add_destroy a Absent_app r = r\<lparr>dr_absent := dr_absent r @ [a]\<rparr>"
| "add_destroy a Skipped_app r = r"

fun destroy_loop ::
  "'w fly \<Rightarrow> naming \<Rightarrow> bool \<Rightarrow> string list \<Rightarrow> destroy_report \<Rightarrow> 'w \<Rightarrow> ('w, destroy_report) outcome" where
  "destroy_loop f n keep_data [] r w = (Inr r, w)"
| "destroy_loop f n keep_data (name # names) r w =
     (case destroy_component f n keep_data name w of
        (Inr d, w') \<Rightarrow> destroy_loop f n keep_data names (add_destroy (app n name) d r) w'
      | (Inl (FlyError m), w') \<Rightarrow>
          destroy_loop f n keep_data names (r\<lparr>dr_failed := dr_failed r @ [(app n name, m)]\<rparr>) w'
      | (Inl e, w') \<Rightarrow> (Inl e, w'))"

datatype power_outcome = Changed | Not_there

definition stop_component :: "'w fly \<Rightarrow> naming \<Rightarrow> string \<Rightarrow> 'w \<Rightarrow> ('w, power_outcome) outcome" where
  "stop_component f n name w =
     (case app_exists f (app n name) w of
        (Inl e, w') \<Rightarrow> (Inl e, w')
      | (Inr False, w') \<Rightarrow> (Inr Not_there, w')
      | (Inr True, w') \<Rightarrow>
          (case stop_machines f (app n name) w' of
             (Inl e, w'') \<Rightarrow> (Inl e, w'') | (Inr _, w'') \<Rightarrow> (Inr Changed, w'')))"

text \<open>The component table of \<open>start_instance\<close>, keyed by name.\<close>

definition startable_components :: "component list" where
  "startable_components = build_components [] [] @ [SIROS_VERIFIER_COMPONENT] @ CONFORMANCE_COMPONENTS"

definition has_check :: "component \<Rightarrow> bool" where
  "has_check c = ((case c_checks c of None \<Rightarrow> False | Some p \<Rightarrow> p \<noteq> []) \<or> c_internal_check c \<noteq> None)"

definition start_component :: "'w fly \<Rightarrow> naming \<Rightarrow> string \<Rightarrow> 'w \<Rightarrow> ('w, power_outcome) outcome" where
  "start_component f n name w =
     (case app_exists f (app n name) w of
        (Inl e, w') \<Rightarrow> (Inl e, w')
      | (Inr False, w') \<Rightarrow> (Inr Not_there, w')
      | (Inr True, w') \<Rightarrow>
          (case ensure_running f (app n name) w' of
             (Inl e, w'') \<Rightarrow> (Inl e, w'')
           | (Inr _, w'') \<Rightarrow>
               (case find_row c_name name (rev startable_components) of
                  None \<Rightarrow> (Inl (KeyError name), w'')
                | Some c \<Rightarrow>
                    if has_check c then
                      (case wait_for_checks f (app n name) w'' of
                         (Inl e, w3) \<Rightarrow> (Inl e, w3) | (Inr _, w3) \<Rightarrow> (Inr Changed, w3))
                    else (Inr Changed, w''))))"

fun add_power :: "string \<Rightarrow> power_outcome \<Rightarrow> power_report \<Rightarrow> power_report" where
  "add_power a Changed r = r\<lparr>pr_changed := pr_changed r @ [a]\<rparr>"
| "add_power a Not_there r = r\<lparr>pr_absent := pr_absent r @ [a]\<rparr>"

fun power_loop ::
  "(string \<Rightarrow> 'w \<Rightarrow> ('w, power_outcome) outcome) \<Rightarrow> naming \<Rightarrow> string list \<Rightarrow> power_report \<Rightarrow> 'w
   \<Rightarrow> ('w, power_report) outcome" where
  "power_loop one n [] r w = (Inr r, w)"
| "power_loop one n (name # names) r w =
     (case one name w of
        (Inr d, w') \<Rightarrow> power_loop one n names (add_power (app n name) d r) w'
      | (Inl (FlyError m), w') \<Rightarrow>
          power_loop one n names (r\<lparr>pr_failed := pr_failed r @ [(app n name, m)]\<rparr>) w'
      | (Inl e, w') \<Rightarrow> (Inl e, w'))"

section \<open>The single-machine layout\<close>

text \<open>A machine as both clients list it: identifier and state.\<close>

type_synonym machine_ref = "string \<times> string option"

definition machine_ids :: "'w fly \<Rightarrow> string \<Rightarrow> 'w machines option \<Rightarrow> 'w \<Rightarrow> ('w, machine_ref list) outcome" where
  "machine_ids f a mo w =
     (case (case mo of
              Some m \<Rightarrow> (case m_list_machines m a None True w of
                           (Inl e, w') \<Rightarrow> (Inl e, w')
                         | (Inr ms, w') \<Rightarrow> (Inr (map (\<lambda>x. (mm_id x, mm_state x)) ms), w'))
            | None \<Rightarrow> (case list_machines f a w of
                           (Inl e, w') \<Rightarrow> (Inl e, w')
                         | (Inr ms, w') \<Rightarrow> (Inr (map (\<lambda>x. (fm_id x, fm_state x)) ms), w'))) of
        (Inl e, w') \<Rightarrow> (Inl e, w')
      | (Inr ms, w') \<Rightarrow> (Inr (filter (\<lambda>(i, s). s \<noteq> Some ''destroyed'') ms), w'))"

text \<open>An operation on one machine: through the Machines client if there is one, else flyctl.\<close>

definition machine_cmd ::
  "('w machines \<Rightarrow> string \<Rightarrow> string \<Rightarrow> 'w \<Rightarrow> ('w, string) outcome) \<Rightarrow> string \<Rightarrow> 'w fly
   \<Rightarrow> 'w machines option \<Rightarrow> string \<Rightarrow> string \<Rightarrow> 'w \<Rightarrow> ('w, unit) outcome" where
  "machine_cmd via verb f mo a i w =
     (case mo of
        Some m \<Rightarrow> (case via m a i w of (Inl e, w') \<Rightarrow> (Inl e, w') | (Inr _, w') \<Rightarrow> (Inr (), w'))
      | None \<Rightarrow> (case run f [''machine'', verb, i, ''-a'', a] True False w of
                   (Inl e, w') \<Rightarrow> (Inl e, w') | (Inr _, w') \<Rightarrow> (Inr (), w')))"

definition set_cordon :: "'w fly \<Rightarrow> 'w machines option \<Rightarrow> string \<Rightarrow> string \<Rightarrow> bool \<Rightarrow> 'w \<Rightarrow> ('w, unit) outcome" where
  "set_cordon f mo a i on w =
     (if on then machine_cmd cordon ''cordon'' f mo a i w else machine_cmd uncordon ''uncordon'' f mo a i w)"

definition wait_ready :: "'w machines \<Rightarrow> string \<Rightarrow> string \<Rightarrow> time \<Rightarrow> 'w \<Rightarrow> ('w, unit) outcome" where
  "wait_ready m a i timeout w =
     (case wait m a i ''started'' 300 w of
        (Inl e, w') \<Rightarrow> (Inl e, w')
      | (Inr _, w') \<Rightarrow>
          (case m_get_machine m a i None True w' of
             (Inl e, w'') \<Rightarrow> (Inl e, w'')
           | (Inr x, w'') \<Rightarrow>
               (case readiness (mm_config x) of
                  Inl e \<Rightarrow> (Inl e, w'')
                | Inr want \<Rightarrow>
                    (case wait_containers m a i want timeout w'' of
                       (Inl e, w3) \<Rightarrow> (Inl e, w3) | (Inr _, w3) \<Rightarrow> (Inr (), w3)))))"

definition stop_one :: "'w fly \<Rightarrow> 'w machines option \<Rightarrow> string \<Rightarrow> machine_ref \<Rightarrow> 'w \<Rightarrow> ('w, unit) outcome" where
  "stop_one f mo a x w =
     (case set_cordon f mo a (fst x) True w of
        (Inl e, w') \<Rightarrow> (Inl e, w')
      | (Inr _, w') \<Rightarrow>
          if snd x \<notin> {Some ''stopped'', Some ''suspended''} then
            (case machine_cmd stop_machine ''stop'' f mo a (fst x) w' of
               (Inl e, w'') \<Rightarrow> (Inl e, w'')
             | (Inr _, w'') \<Rightarrow>
                 (case mo of None \<Rightarrow> (Inr (), w'') | Some m \<Rightarrow> wait m a (fst x) ''stopped'' 120 w''))
          else (Inr (), w'))"

text \<open>The \<open>finally\<close> of the start branch: the machine becomes routable whatever happened.\<close>

definition start_one :: "'w fly \<Rightarrow> 'w machines option \<Rightarrow> string \<Rightarrow> time \<Rightarrow> machine_ref \<Rightarrow> 'w \<Rightarrow> ('w, unit) outcome" where
  "start_one f mo a ready_timeout x w =
     (case (if snd x \<noteq> Some ''started'' then machine_cmd start_machine ''start'' f mo a (fst x) w
            else (Inr (), w)) of
        (Inl e, w') \<Rightarrow> (Inl e, w')
      | (Inr _, w') \<Rightarrow>
          (case (case mo of None \<Rightarrow> (Inr (), w') | Some m \<Rightarrow> wait_ready m a (fst x) ready_timeout w') of
             (waited, w'') \<Rightarrow>
               (case set_cordon f mo a (fst x) False w'' of
                  (Inl e, w3) \<Rightarrow> (Inl e, w3)
                | (Inr _, w3) \<Rightarrow> (waited, w3))))"

fun for_each :: "('a \<Rightarrow> 'w \<Rightarrow> ('w, unit) outcome) \<Rightarrow> 'a list \<Rightarrow> 'w \<Rightarrow> ('w, unit) outcome" where
  "for_each one [] w = (Inr (), w)"
| "for_each one (x # xs) w =
     (case one x w of (Inl e, w') \<Rightarrow> (Inl e, w') | (Inr _, w') \<Rightarrow> for_each one xs w')"

definition power_single_machine ::
  "'w fly \<Rightarrow> naming \<Rightarrow> bool \<Rightarrow> 'w machines option \<Rightarrow> time \<Rightarrow> 'w \<Rightarrow> power_report \<times> 'w" where
  "power_single_machine f n stopping mo ready_timeout w =
     (let a = machine_app n in
      case app_exists f a w of
        (Inl e, w') \<Rightarrow> (empty_power_report\<lparr>pr_failed := [(a, exn_text e)]\<rparr>, w')
      | (Inr False, w') \<Rightarrow> (empty_power_report\<lparr>pr_absent := [a]\<rparr>, w')
      | (Inr True, w') \<Rightarrow>
          (case machine_ids f a mo w' of
             (Inl e, w'') \<Rightarrow> (empty_power_report\<lparr>pr_failed := [(a, exn_text e)]\<rparr>, w'')
           | (Inr ms, w'') \<Rightarrow>
               (case for_each (if stopping then stop_one f mo a else start_one f mo a ready_timeout) ms w'' of
                  (Inl e, w3) \<Rightarrow> (empty_power_report\<lparr>pr_failed := [(a, exn_text e)]\<rparr>, w3)
                | (Inr _, w3) \<Rightarrow> (empty_power_report\<lparr>pr_changed := [a]\<rparr>, w3))))"

definition destroy_single_machine ::
  "'w fly \<Rightarrow> naming \<Rightarrow> bool \<Rightarrow> 'w machines option \<Rightarrow> 'w \<Rightarrow> destroy_report \<times> 'w" where
  "destroy_single_machine f n keep_data mo w =
     (let a = machine_app n in
      if keep_data then
        (case app_exists f a w of
           (Inl e, w') \<Rightarrow> (empty_destroy_report\<lparr>dr_failed := [(a, exn_text e)]\<rparr>, w')
         | (Inr True, w') \<Rightarrow>
             (case power_single_machine f n True mo 900 w' of
                (_, w'') \<Rightarrow> (empty_destroy_report\<lparr>dr_kept := [a]\<rparr>, w''))
         | (Inr False, w') \<Rightarrow> (empty_destroy_report\<lparr>dr_absent := [a]\<rparr>, w'))
      else
        (case destroy_app f a w of
           (Inl e, w') \<Rightarrow> (empty_destroy_report\<lparr>dr_failed := [(a, exn_text e)]\<rparr>, w')
         | (Inr True, w') \<Rightarrow> (empty_destroy_report\<lparr>dr_destroyed := [a]\<rparr>, w')
         | (Inr False, w') \<Rightarrow> (empty_destroy_report\<lparr>dr_absent := [a]\<rparr>, w')))"

section \<open>The operations\<close>

definition destroy_instance ::
  "'w fly \<Rightarrow> naming \<Rightarrow> bool \<Rightarrow> 'w machines option \<Rightarrow> 'w \<Rightarrow> ('w, destroy_report) outcome" where
  "destroy_instance f n keep_data mo w =
     (if single_machine n then (case destroy_single_machine f n keep_data mo w of (r, w') \<Rightarrow> (Inr r, w'))
      else destroy_loop f n keep_data component_names empty_destroy_report w)"

definition stop_instance ::
  "'w fly \<Rightarrow> naming \<Rightarrow> 'w machines option \<Rightarrow> 'w \<Rightarrow> ('w, power_report) outcome" where
  "stop_instance f n mo w =
     (if single_machine n then (case power_single_machine f n True mo 900 w of (r, w') \<Rightarrow> (Inr r, w'))
      else power_loop (stop_component f n) n (rev component_names) empty_power_report w)"

definition start_instance ::
  "'w fly \<Rightarrow> naming \<Rightarrow> 'w machines option \<Rightarrow> time \<Rightarrow> 'w \<Rightarrow> ('w, power_report) outcome" where
  "start_instance f n mo ready_timeout w =
     (if single_machine n then (case power_single_machine f n False mo ready_timeout w of (r, w') \<Rightarrow> (Inr r, w'))
      else power_loop (start_component f n) n component_names empty_power_report w)"

definition detect_layout :: "'w fly \<Rightarrow> naming \<Rightarrow> 'w \<Rightarrow> ('w, naming) outcome" where
  "detect_layout f n w =
     (if single_machine n then (Inr n, w)
      else case app_exists f (machine_app n) w of
        (Inl e, w') \<Rightarrow> (Inl e, w')
      | (Inr True, w') \<Rightarrow> (Inr (n\<lparr>n_layout := LAYOUT_SINGLE_MACHINE\<rparr>), w')
      | (Inr False, w') \<Rightarrow> (Inr n, w'))"

definition naming_from_machine :: "'w machines \<Rightarrow> naming \<Rightarrow> 'w \<Rightarrow> ('w, naming) outcome" where
  "naming_from_machine m n w =
     (case m_list_machines m (machine_app n) None True w of
        (Inl e, w') \<Rightarrow> (Inl e, w')
      | (Inr ms, w') \<Rightarrow>
          (case filter (\<lambda>h. h \<noteq> None \<and> h \<noteq> Some []) (map mm_host_pattern ms) of
             Some h # _ \<Rightarrow> (Inr (n\<lparr>n_host_pattern := h\<rparr>), w')
           | _ \<Rightarrow> (Inr n, w')))"

text \<open>The shell script of the reset, an argument here: it is data for the container.\<close>

definition reset_one ::
  "'w machines \<Rightarrow> string \<Rightarrow> string \<Rightarrow> time \<Rightarrow> machine_ref \<Rightarrow> 'w \<Rightarrow> ('w, unit) outcome" where
  "reset_one m a script ready_timeout x w =
     (case (if snd x \<noteq> Some ''started'' then
              (case start_machine m a (fst x) w of
                 (Inl e, w') \<Rightarrow> (Inl e, w')
               | (Inr _, w') \<Rightarrow> wait_ready m a (fst x) ready_timeout w')
            else (Inr (), w)) of
        (Inl e, w') \<Rightarrow> (Inl e, w')
      | (Inr _, w') \<Rightarrow>
          (case m_exec m a (fst x) [''sh'', ''-c'', script] ''mongodb'' 60 w' of
             (Inl e, w1) \<Rightarrow> (Inl e, w1)
           | (Inr out, w1) \<Rightarrow>
               if ex_code out \<noteq> Some 0 then
                 (Inl (OtherError ''RuntimeError'' (''dropping the databases failed (exit '' @
                    (case ex_code out of None \<Rightarrow> ''None'' | Some c \<Rightarrow> show_int c) @ ''): '' @
                    take 300 (py_strip (ex_stderr out)))), w1)
               else
                 (case stop_machine m a (fst x) w1 of
                    (Inl e, w2) \<Rightarrow> (Inl e, w2)
                  | (Inr _, w2) \<Rightarrow>
                      (case wait m a (fst x) ''stopped'' 120 w2 of
                         (Inl e, w3) \<Rightarrow> (Inl e, w3)
                       | (Inr _, w3) \<Rightarrow>
                           (case start_machine m a (fst x) w3 of
                              (Inl e, w4) \<Rightarrow> (Inl e, w4)
                            | (Inr _, w4) \<Rightarrow>
                                (case wait_ready m a (fst x) ready_timeout w4 of
                                   (waited, w5) \<Rightarrow>
                                     (case uncordon m a (fst x) w5 of
                                        (Inl e, w6) \<Rightarrow> (Inl e, w6)
                                      | (Inr _, w6) \<Rightarrow> (waited, w6))))))))"

definition reset_single_machine ::
  "'w fly \<Rightarrow> 'w machines \<Rightarrow> naming \<Rightarrow> string \<Rightarrow> time \<Rightarrow> 'w \<Rightarrow> power_report \<times> 'w" where
  "reset_single_machine f m n script ready_timeout w =
     (let a = machine_app n in
      case app_exists f a w of
        (Inl e, w') \<Rightarrow> (empty_power_report\<lparr>pr_failed := [(a, exn_text e)]\<rparr>, w')
      | (Inr False, w') \<Rightarrow> (empty_power_report\<lparr>pr_absent := [a]\<rparr>, w')
      | (Inr True, w') \<Rightarrow>
          (case machine_ids f a (Some m) w' of
             (Inl e, w'') \<Rightarrow> (empty_power_report\<lparr>pr_failed := [(a, exn_text e)]\<rparr>, w'')
           | (Inr ms, w'') \<Rightarrow>
               (case for_each (reset_one m a script ready_timeout) ms w'' of
                  (Inl e, w3) \<Rightarrow> (empty_power_report\<lparr>pr_failed := [(a, exn_text e)]\<rparr>, w3)
                | (Inr _, w3) \<Rightarrow> (empty_power_report\<lparr>pr_changed := [a]\<rparr>, w3))))"

end
