(* ===== verification/Plane.thy ===== *)
theory Plane
  imports Db Policy Lifecycle
begin

text \<open>
  The control plane object (sirosid_service/service.py): its state, its configuration and
  the helpers every operation uses. An operation is a function of the state; the clock
  reading \<open>now\<close> and the random draws are arguments (an operation reads the clock at one
  instant). Fly, the machines API, the cipher and the two deployers are in the configuration.
\<close>

definition DAY :: time where "DAY = 86400"
definition ID_LENGTH :: nat where "ID_LENGTH = 8"
definition ID_ALPHABET :: string where "ID_ALPHABET = ''abcdefghijklmnopqrstuvwxyz234567''"

definition RESERVED_IDS :: "string list" where
  "RESERVED_IDS = [''admin'', ''console'', ''status'', ''www'', ''api'', ''mail'', ''login'', ''siros'', ''sirosid'', ''support'']"

definition LIVE :: "status list" where
  "LIVE = [Creating, Running, Stopped, Stopping, Starting, Resetting, Reconfiguring, Failed]"

definition STATUSES :: "status list" where
  "STATUSES = LIVE @ [Destroyed]"

definition RECONFIGURABLE :: "status list" where
  "RECONFIGURABLE = [Running, Failed]"

lemma live_iff [simp]: "s \<in> set LIVE \<longleftrightarrow> s \<noteq> Destroyed"
  by (cases s) (auto simp: LIVE_def)

lemma reconfigurable_iff [simp]: "s \<in> set RECONFIGURABLE \<longleftrightarrow> s = Running \<or> s = Failed"
  by (auto simp: RECONFIGURABLE_def)

section \<open>Principals, limits, configuration\<close>

record principal =
  who_user :: string
  who_role :: string
  who_caps :: "string list"
  who_session :: string

definition is_admin :: "principal \<Rightarrow> bool" where
  "is_admin who = (who_role who = ''admin'')"

record limits =
  l_ttl_days :: time
  l_global_max_instances :: int
  l_default_max_concurrent :: int
  l_sweep_grace_seconds :: time
  l_lapse_grace_days :: time
  l_invite_max_days :: time

definition default_limits :: limits where
  "default_limits = \<lparr>l_ttl_days = 3, l_global_max_instances = 10, l_default_max_concurrent = 2,
     l_sweep_grace_seconds = 3600, l_lapse_grace_days = 1, l_invite_max_days = 30\<rparr>"

text \<open>What \<open>secrets\<close>, \<open>os.urandom\<close> and the id generator return during one operation.\<close>

record draws =
  d_hex :: string
  d_token :: string
  d_nonce :: "nat \<Rightarrow> bytes"
  d_id :: "nat \<Rightarrow> string"

text \<open>
  The two deployers share a type: the spec, its naming, the scratch directory with the
  secrets directory in it, and the outside world; the result is the public URLs.
\<close>

type_synonym 'w deployer =
  "spec \<Rightarrow> naming \<Rightarrow> abs_path \<Rightarrow> files \<Rightarrow> 'w \<Rightarrow> (exn + string dict) \<times> files \<times> 'w"

record 'w plane =
  cp_fly :: "'w fly"
  cp_machines :: "'w machines"
  cp_platform :: platform_policy
  cp_limits :: limits
  cp_aead :: aead
  cp_hash :: "string \<Rightarrow> string"
  cp_show_float :: "time \<Rightarrow> string"
  cp_deploy_apps :: "'w deployer"
  cp_deploy_single :: "'w deployer"
  cp_register :: "(naming \<Rightarrow> string \<Rightarrow> string \<Rightarrow> 'w \<Rightarrow> ('w, unit) outcome) option"
  cp_reset_script :: string
  cp_scratch :: abs_path

section \<open>State\<close>

datatype job =
    Deploy_job string sealer
  | Reset_single_job string sealer
  | Reconfigure_job string sealer "string option"

record 'w cp =
  database :: db
  keys :: session_keys
  world :: 'w
  jobs :: "job list"

definition and_then :: "('s \<Rightarrow> ('s, 'a) outcome) \<Rightarrow> ('a \<Rightarrow> 's \<Rightarrow> ('s, 'b) outcome) \<Rightarrow> 's \<Rightarrow> ('s, 'b) outcome" where
  "and_then m k s = (case m s of (Inl e, s') \<Rightarrow> (Inl e, s') | (Inr a, s') \<Rightarrow> k a s')"

lemma and_then_Inr_iff:
  "and_then m k s = (Inr b, s'') \<longleftrightarrow> (\<exists>a s'. m s = (Inr a, s') \<and> k a s' = (Inr b, s''))"
  by (auto simp: and_then_def split: prod.splits sum.splits)

definition on_db :: "(db \<Rightarrow> (db, 'a) outcome) \<Rightarrow> 'w cp \<Rightarrow> ('w cp, 'a) outcome" where
  "on_db f s = (case f (database s) of (r, d) \<Rightarrow> (r, s\<lparr>database := d\<rparr>))"

definition on_keys :: "(session_keys \<Rightarrow> (session_keys, 'a) outcome) \<Rightarrow> 'w cp \<Rightarrow> ('w cp, 'a) outcome" where
  "on_keys f s = (case f (keys s) of (r, ks) \<Rightarrow> (r, s\<lparr>keys := ks\<rparr>))"

definition on_world :: "('w \<Rightarrow> ('w, 'a) outcome) \<Rightarrow> 'w cp \<Rightarrow> ('w cp, 'a) outcome" where
  "on_world f s = (case f (world s) of (r, w) \<Rightarrow> (r, s\<lparr>world := w\<rparr>))"

lemma on_db_frame:
  "on_db f s = (r, s') \<Longrightarrow> keys s' = keys s \<and> world s' = world s \<and> jobs s' = jobs s \<and> f (database s) = (r, database s')"
  by (auto simp: on_db_def split: prod.splits)

lemma on_keys_frame:
  "on_keys f s = (r, s') \<Longrightarrow> database s' = database s \<and> world s' = world s \<and> jobs s' = jobs s \<and> f (keys s) = (r, keys s')"
  by (auto simp: on_keys_def split: prod.splits)

lemma on_world_frame:
  "on_world f s = (r, s') \<Longrightarrow> database s' = database s \<and> keys s' = keys s \<and> jobs s' = jobs s \<and> f (world s) = (r, world s')"
  by (auto simp: on_world_def split: prod.splits)

definition submit :: "job \<Rightarrow> 'w cp \<Rightarrow> 'w cp" where
  "submit j s = s\<lparr>jobs := jobs s @ [j]\<rparr>"

section \<open>Shared helpers\<close>

definition user :: "string \<Rightarrow> db \<Rightarrow> exn + user_row" where
  "user user_id d =
     (case find_row u_id user_id (users d) of None \<Rightarrow> Inl (NotFound ''no such user'') | Some u \<Rightarrow> Inr u)"

definition require_admin :: "principal \<Rightarrow> exn + unit" where
  "require_admin who = (if is_admin who then Inr () else Inl (Forbidden ''admins only''))"

definition account_disabled :: exn where
  "account_disabled = Forbidden ''this account is disabled''"

definition principal_for :: "string \<Rightarrow> string \<Rightarrow> db \<Rightarrow> exn + principal" where
  "principal_for user_id session_id d =
     (case user user_id d of
        Inl e \<Rightarrow> Inl e
      | Inr u \<Rightarrow>
          if u_disabled u then Inl account_disabled
          else Inr \<lparr>who_user = u_id u, who_role = u_role u, who_caps = u_capabilities u, who_session = session_id\<rparr>)"

definition sealer_of :: "principal \<Rightarrow> time \<Rightarrow> 'w cp \<Rightarrow> ('w cp, sealer) outcome" where
  "sealer_of who now = on_keys (keys_get (who_session who) (who_user who) now)"

definition open_doc :: "aead \<Rightarrow> sealer \<Rightarrow> bytes \<Rightarrow> bytes \<Rightarrow> exn + json" where
  "open_doc A k blob a =
     (case open_blob A k blob a of
        Inl e \<Rightarrow> Inl e
      | Inr (PDoc j) \<Rightarrow> Inr j
      | Inr (PBytes b) \<Rightarrow> Inl (ValueError ''not a JSON document''))"

lemma open_doc_seal:
  "aead_correct A \<Longrightarrow> length nonce = NONCE_BYTES \<Longrightarrow> open_doc A k (seal A k nonce (PDoc j) a) a = Inr j"
  by (simp add: open_doc_def open_seal)

lemma open_doc_other:
  assumes "aead_correct A" "aead_binding A" and "length nonce = NONCE_BYTES" and "k' \<noteq> k \<or> a' \<noteq> a"
  shows "\<exists>m. open_doc A k' (seal A k nonce p a) a' = Inl (VaultError m)"
  using open_other [OF assms, of p] by (auto simp: open_doc_def)

lemma principal_for_Inr:
  "principal_for uid sid d = Inr who \<Longrightarrow>
   \<exists>u. find_row u_id uid (users d) = Some u \<and> \<not> u_disabled u \<and> who_user who = uid \<and> who_session who = sid \<and>
       who_role who = u_role u \<and> who_caps who = u_capabilities u"
  by (auto simp: principal_for_def user_def dest: find_row_SomeD split: sum.splits option.splits if_splits)

end
