(* ===== verification/Accounts.thy ===== *)
theory Accounts
  imports Plane
begin

text \<open>
  Sessions, users, invites and grants (sirosid_service/service.py). Operations that touch
  only the database are functions of it.
\<close>

section \<open>Unlocking\<close>

definition set_user :: "string \<Rightarrow> (user_row \<Rightarrow> user_row) \<Rightarrow> db \<Rightarrow> db" where
  "set_user user_id f d = d\<lparr>users := update_where (\<lambda>u. u_id u = user_id) f (users d)\<rparr>"

text \<open>The key check: store it on the first unlock, afterwards the key must open it.\<close>

definition check_key :: "'w plane \<Rightarrow> string \<Rightarrow> sealer \<Rightarrow> time \<Rightarrow> draws \<Rightarrow> user_row \<Rightarrow> db \<Rightarrow> (db, unit) outcome" where
  "check_key cf user_id k now r u d =
     (let a = aad user_id ''keycheck'' [] in
      case u_key_check u of
        None \<Rightarrow> (Inr (), set_user user_id
                  (u_key_check_update (\<lambda>_. Some (seal (cp_aead cf) k (d_nonce r 0) KEY_CHECK_PLAINTEXT a))) d)
      | Some blob \<Rightarrow>
          if open_blob (cp_aead cf) k blob a = Inr KEY_CHECK_PLAINTEXT then (Inr (), d)
          else (Inl (Forbidden ''that key does not open this account's data''),
                audit now user_id ''unlock_refused'' user_id [] d))"

definition begin_session ::
  "'w plane \<Rightarrow> string \<Rightarrow> bytes \<Rightarrow> time option \<Rightarrow> time \<Rightarrow> draws \<Rightarrow> 'w cp \<Rightarrow> ('w cp, principal) outcome" where
  "begin_session cf user_id main_key ttl now r s =
     (case user user_id (database s) of
        Inl e \<Rightarrow> (Inl e, s)
      | Inr u \<Rightarrow>
          if u_disabled u then (Inl account_disabled, s)
          else (case make_sealer main_key of
             Inl e \<Rightarrow> (Inl e, s)
           | Inr k \<Rightarrow>
               (case on_db (check_key cf user_id k now r u) s of
                  (Inl e, s1) \<Rightarrow> (Inl e, s1)
                | (Inr _, s1) \<Rightarrow>
                    (case on_keys (keys_put user_id main_key ttl now (d_token r)) s1 of
                       (Inl e, s2) \<Rightarrow> (Inl e, s2)
                     | (Inr sid, s2) \<Rightarrow>
                         let s3 = s2\<lparr>database := audit now user_id ''unlock'' user_id [] (database s2)\<rparr>
                         in (principal_for user_id sid (database s3), s3)))))"

definition end_session :: "principal \<Rightarrow> 'w cp \<Rightarrow> 'w cp" where
  "end_session who s = s\<lparr>keys := keys_drop (who_session who) (keys s)\<rparr>"

definition share_session :: "principal \<Rightarrow> time \<Rightarrow> time \<Rightarrow> draws \<Rightarrow> 'w cp \<Rightarrow> ('w cp, string) outcome" where
  "share_session who ttl now r = on_keys (keys_clone (who_session who) (who_user who) ttl now (d_token r))"

definition drop_session :: "string \<Rightarrow> 'w cp \<Rightarrow> 'w cp" where
  "drop_session session_id s = s\<lparr>keys := keys_drop session_id (keys s)\<rparr>"

text \<open>\<open>get\<close> raises \<open>Locked\<close> only, so its failure is the value \<open>False\<close>.\<close>

definition session_alive :: "string \<Rightarrow> string \<Rightarrow> time \<Rightarrow> 'w cp \<Rightarrow> bool \<times> 'w cp" where
  "session_alive session_id user_id now s =
     (case on_keys (keys_get session_id user_id now) s of (r, s') \<Rightarrow> (\<not> is_err r, s'))"

definition session_expiry :: "string \<Rightarrow> string \<Rightarrow> time \<Rightarrow> 'w cp \<Rightarrow> ('w cp, time) outcome" where
  "session_expiry session_id user_id now = on_keys (keys_expires_at session_id user_id now)"

definition is_unlocked :: "principal \<Rightarrow> time \<Rightarrow> 'w cp \<Rightarrow> bool \<times> 'w cp" where
  "is_unlocked who now s = (case sealer_of who now s of (r, s') \<Rightarrow> (\<not> is_err r, s'))"

definition set_privatedata :: "principal \<Rightarrow> bytes \<Rightarrow> time \<Rightarrow> db \<Rightarrow> (db, unit) outcome" where
  "set_privatedata who container now d =
     (if \<not> (0 < length container \<and> length container \<le> 64 * 1024)
      then (Inl (ServiceError ''the container must be 1 byte to 64 KB''), d)
      else (Inr (), audit now (who_user who) ''set_privatedata'' (who_user who)
              [(''bytes'', JInt (int (length container)))]
              (set_user (who_user who) (u_privatedata_update (\<lambda>_. Some container)) d)))"

definition get_privatedata :: "principal \<Rightarrow> db \<Rightarrow> exn + bytes option" where
  "get_privatedata who d = map_sum id u_privatedata (user (who_user who) d)"

section \<open>The first admin\<close>

definition has_admin :: "db \<Rightarrow> bool" where
  "has_admin d = list_ex (\<lambda>u. u_role u = ''admin'') (users d)"

definition admin_exists :: exn where
  "admin_exists = Forbidden ''an admin already exists; admins create further invites''"

definition bootstrap_admin :: "'w plane \<Rightarrow> string \<Rightarrow> string \<Rightarrow> time \<Rightarrow> draws \<Rightarrow> db \<Rightarrow> (db, principal) outcome" where
  "bootstrap_admin cf name email now r d =
     (if has_admin d then (Inl admin_exists, d)
      else
        let uid = ''u_'' @ d_hex r in
        case insert_row u_id
               \<lparr>u_id = uid, u_name = name, u_email = email, u_role = ''admin'', u_capabilities = CAPABILITIES,
                u_max_concurrent = l_default_max_concurrent (cp_limits cf), u_max_kept = 5, u_kept_until = None,
                u_disabled = False, u_privatedata = None, u_key_check = None, u_created_at = now\<rparr> (users d) of
          Inl e \<Rightarrow> (Inl e, d)
        | Inr us \<Rightarrow>
            let d' = audit now uid ''bootstrap_admin'' uid [] (d\<lparr>users := us\<rparr>) in (principal_for uid [] d', d'))"

definition bootstrap_invite :: "'w plane \<Rightarrow> time \<Rightarrow> time \<Rightarrow> draws \<Rightarrow> db \<Rightarrow> (db, string) outcome" where
  "bootstrap_invite cf days_valid now r d =
     (if has_admin d then (Inl admin_exists, d)
      else
        let token = d_token r; h = cp_hash cf token in
        case insert_row v_token_hash
               \<lparr>v_token_hash = h, v_created_by = ''system'', v_role = ''admin'', v_capabilities = CAPABILITIES,
                v_max_concurrent = l_default_max_concurrent (cp_limits cf), v_max_kept = 5, v_kept_for_days = None,
                v_email = [], v_expires_at = now + days_valid * DAY, v_used_by = None, v_used_at = None,
                v_revoked = False, v_created_at = now\<rparr> (invites d) of
          Inl e \<Rightarrow> (Inl e, d)
        | Inr vs \<Rightarrow> (Inr token, audit now ''system'' ''bootstrap_invite'' (take 12 h) [] (d\<lparr>invites := vs\<rparr>)))"

section \<open>Invites\<close>

definition unknown_caps :: "string list \<Rightarrow> string list" where
  "unknown_caps caps = filter (\<lambda>c. c \<notin> set CAPABILITIES) caps"

record invite_args =
  ia_capabilities :: "string list"
  ia_role :: string
  ia_email :: string
  ia_days_valid :: time
  ia_max_concurrent :: "int option"
  ia_max_kept :: int
  ia_kept_for_days :: "time option"

definition create_invite ::
  "'w plane \<Rightarrow> principal \<Rightarrow> invite_args \<Rightarrow> time \<Rightarrow> draws \<Rightarrow> db \<Rightarrow> (db, string) outcome" where
  "create_invite cf who x now r d =
     (case require_admin who of
        Inl e \<Rightarrow> (Inl e, d)
      | Inr _ \<Rightarrow>
          let caps = sort (remdups (ia_capabilities x)); bad = unknown_caps caps; lim = cp_limits cf in
          if bad \<noteq> [] then (Inl (ServiceError (''unknown capability: '' @ join_with '', '' bad)), d)
          else if ia_role x \<notin> {''member'', ''admin''}
          then (Inl (ServiceError (''role must be '' @ py_repr ''member'' @ '' or '' @ py_repr ''admin'')), d)
          else if \<not> (0 < ia_days_valid x \<and> ia_days_valid x \<le> l_invite_max_days lim)
          then (Inl (ServiceError (''an invite is valid for 1 to '' @ cp_show_float cf (l_invite_max_days lim) @ '' days'')), d)
          else
            let token = d_token r; h = cp_hash cf token in
            case insert_row v_token_hash
                   \<lparr>v_token_hash = h, v_created_by = who_user who, v_role = ia_role x, v_capabilities = caps,
                    v_max_concurrent = (case ia_max_concurrent x of None \<Rightarrow> l_default_max_concurrent lim | Some m \<Rightarrow> m),
                    v_max_kept = ia_max_kept x, v_kept_for_days = ia_kept_for_days x,
                    v_email = py_lower (py_strip (ia_email x)), v_expires_at = now + ia_days_valid x * DAY,
                    v_used_by = None, v_used_at = None, v_revoked = False, v_created_at = now\<rparr> (invites d) of
              Inl e \<Rightarrow> (Inl e, d)
            | Inr vs \<Rightarrow>
                (Inr token, audit now (who_user who) ''create_invite'' (take 12 h)
                   [(''role'', JStr (ia_role x)), (''capabilities'', JList (map JStr caps)), (''email'', JStr (ia_email x))]
                   (d\<lparr>invites := vs\<rparr>)))"

text \<open>SQL \<open>LIKE\<close>: \<open>%\<close> is any run of characters, \<open>_\<close> any one; ASCII letters match in either case.\<close>

fun sql_like :: "string \<Rightarrow> string \<Rightarrow> bool" where
  "sql_like [] s = (s = [])"
| "sql_like (p # ps) [] = (p = CHR ''%'' \<and> sql_like ps [])"
| "sql_like (p # ps) (c # s) =
     (if p = CHR ''%'' then sql_like ps (c # s) \<or> sql_like (p # ps) s
      else (p = CHR ''_'' \<or> p = c \<or> (is_upper p \<and> lower_char p = c) \<or> (is_upper c \<and> lower_char c = p)) \<and> sql_like ps s)"

definition revoke_invite :: "'w plane \<Rightarrow> principal \<Rightarrow> string \<Rightarrow> time \<Rightarrow> db \<Rightarrow> (db, unit) outcome" where
  "revoke_invite cf who token_or_prefix now d =
     (case require_admin who of
        Inl e \<Rightarrow> (Inl e, d)
      | Inr _ \<Rightarrow>
          (case filter (\<lambda>v. v_token_hash v = cp_hash cf token_or_prefix \<or>
                            sql_like (token_or_prefix @ ''%'') (v_token_hash v)) (invites d) of
             [v] \<Rightarrow>
               (Inr (), audit now (who_user who) ''revoke_invite'' (take 12 (v_token_hash v)) []
                  (d\<lparr>invites := update_where (\<lambda>x. v_token_hash x = v_token_hash v) (v_revoked_update (\<lambda>_. True)) (invites d)\<rparr>))
           | _ \<Rightarrow> (Inl (NotFound ''no unique invite matches''), d)))"

definition list_invites :: "principal \<Rightarrow> db \<Rightarrow> exn + invite_row list" where
  "list_invites who d =
     map_sum id (\<lambda>_. map (\<lambda>v. v\<lparr>v_token_hash := take 12 (v_token_hash v)\<rparr>)
                        (sort_key (\<lambda>v. - v_created_at v) (invites d))) (require_admin who)"

text \<open>The test that \<open>check_invite\<close> and \<open>redeem_invite\<close> share.\<close>

definition invite_problem :: "'w plane \<Rightarrow> string \<Rightarrow> string \<Rightarrow> time \<Rightarrow> db \<Rightarrow> exn + invite_row" where
  "invite_problem cf token email now d =
     (case find_row v_token_hash (cp_hash cf token) (invites d) of
        None \<Rightarrow> Inl (InvalidInvite ''this invite is not valid (unknown, revoked, already used or expired)'')
      | Some v \<Rightarrow>
          if v_revoked v \<or> truthy_str (v_used_by v) \<or> v_expires_at v < now
          then Inl (InvalidInvite ''this invite is not valid (unknown, revoked, already used or expired)'')
          else if v_email v \<noteq> [] \<and> v_email v \<noteq> py_lower (py_strip email)
          then Inl (InvalidInvite ''this invite is bound to a different email address'')
          else Inr v)"

definition check_invite :: "'w plane \<Rightarrow> string \<Rightarrow> string \<Rightarrow> time \<Rightarrow> db \<Rightarrow> exn + unit" where
  "check_invite cf token email now d = map_sum id (\<lambda>_. ()) (invite_problem cf token email now d)"

text \<open>The account an invite creates.\<close>

definition invited_user :: "invite_row \<Rightarrow> string \<Rightarrow> string \<Rightarrow> string \<Rightarrow> time \<Rightarrow> user_row" where
  "invited_user v uid name email now =
     (let shown = take 80 (py_strip name) in
      \<lparr>u_id = uid, u_name = (if shown = [] then ''user'' else shown), u_email = py_lower (py_strip email),
       u_role = v_role v, u_capabilities = v_capabilities v, u_max_concurrent = v_max_concurrent v,
       u_max_kept = v_max_kept v,
       u_kept_until = (case v_kept_for_days v of None \<Rightarrow> None | Some k \<Rightarrow> if k = 0 then None else Some (now + k * DAY)),
       u_disabled = False, u_privatedata = None, u_key_check = None, u_created_at = now\<rparr>)"

definition redeem_invite ::
  "'w plane \<Rightarrow> string \<Rightarrow> string \<Rightarrow> string \<Rightarrow> time \<Rightarrow> draws \<Rightarrow> db \<Rightarrow> (db, principal) outcome" where
  "redeem_invite cf token name email now r d =
     (case invite_problem cf token email now d of
        Inl e \<Rightarrow> (Inl e, d)
      | Inr v \<Rightarrow>
          let uid = ''u_'' @ d_hex r in
          case insert_row u_id (invited_user v uid name email now) (users d) of
            Inl e \<Rightarrow> (Inl e, d)
          | Inr us \<Rightarrow>
              let d' = audit now uid ''redeem_invite'' (take 12 (v_token_hash v)) []
                         (d\<lparr>users := us,
                            invites := update_where (\<lambda>x. v_token_hash x = v_token_hash v)
                                         (\<lambda>x. x\<lparr>v_used_by := Some uid, v_used_at := Some now\<rparr>) (invites d)\<rparr>)
              in (principal_for uid [] d', d'))"

section \<open>Administration\<close>

text \<open>\<open>MIN(COALESCE(expires_at, ?), ?)\<close>\<close>

definition expire_by :: "time \<Rightarrow> instance_row \<Rightarrow> instance_row" where
  "expire_by soon i =
     i\<lparr>i_kept := False, i_expires_at := Some (case i_expires_at i of None \<Rightarrow> soon | Some t \<Rightarrow> min t soon)\<rparr>"

definition disable_user :: "'w plane \<Rightarrow> principal \<Rightarrow> string \<Rightarrow> time \<Rightarrow> 'w cp \<Rightarrow> ('w cp, unit) outcome" where
  "disable_user cf who user_id now s =
     (case require_admin who of
        Inl e \<Rightarrow> (Inl e, s)
      | Inr _ \<Rightarrow>
          (case user user_id (database s) of
             Inl e \<Rightarrow> (Inl e, s)
           | Inr _ \<Rightarrow>
               let d = set_user user_id (u_disabled_update (\<lambda>_. True)) (database s);
                   soon = now + l_lapse_grace_days (cp_limits cf) * DAY;
                   d = d\<lparr>instances := update_where (\<lambda>i. i_owner i = user_id \<and> i_status i \<in> set LIVE) (expire_by soon) (instances d)\<rparr>
               in (Inr (), s\<lparr>keys := keys_drop_user user_id (keys s),
                             database := audit now (who_user who) ''disable_user'' user_id [] d\<rparr>)))"

record grant_args =
  ga_capabilities :: "string list option"
  ga_max_concurrent :: "int option"
  ga_max_kept :: "int option"
  ga_kept_for_days :: "time option"

definition opt_json :: "('a \<Rightarrow> json) \<Rightarrow> 'a option \<Rightarrow> json" where
  "opt_json f x = (case x of None \<Rightarrow> JNull | Some a \<Rightarrow> f a)"

definition granted :: "grant_args \<Rightarrow> time \<Rightarrow> user_row \<Rightarrow> user_row" where
  "granted g now u =
     u\<lparr>u_capabilities := (case ga_capabilities g of None \<Rightarrow> u_capabilities u | Some c \<Rightarrow> sort (remdups c)),
       u_max_concurrent := (case ga_max_concurrent g of None \<Rightarrow> u_max_concurrent u | Some m \<Rightarrow> m),
       u_max_kept := (case ga_max_kept g of None \<Rightarrow> u_max_kept u | Some m \<Rightarrow> m),
       u_kept_until := (case ga_kept_for_days g of None \<Rightarrow> u_kept_until u | Some k \<Rightarrow> Some (now + k * DAY))\<rparr>"

definition grant :: "principal \<Rightarrow> string \<Rightarrow> grant_args \<Rightarrow> time \<Rightarrow> db \<Rightarrow> (db, unit) outcome" where
  "grant who user_id g now d =
     (case require_admin who of
        Inl e \<Rightarrow> (Inl e, d)
      | Inr _ \<Rightarrow>
          (case user user_id d of
             Inl e \<Rightarrow> (Inl e, d)
           | Inr _ \<Rightarrow>
               let bad = (case ga_capabilities g of None \<Rightarrow> [] | Some c \<Rightarrow> unknown_caps c) in
               if bad \<noteq> [] then (Inl (ServiceError (''unknown capability: '' @ join_with '', '' bad)), d)
               else (Inr (), audit now (who_user who) ''grant'' user_id
                       [(''capabilities'', opt_json (\<lambda>c. JList (map JStr c)) (ga_capabilities g)),
                        (''max_concurrent'', opt_json JInt (ga_max_concurrent g)),
                        (''max_kept'', opt_json JInt (ga_max_kept g)),
                        (''kept_for_days'', opt_json JFloat (ga_kept_for_days g))]
                       (set_user user_id (granted g now) d))))"


section \<open>Facts\<close>

interpretation granted: key_update u_id "granted g now" for g now
  by unfold_locales (simp add: granted_def)

interpretation disabled: key_update u_id "u_disabled_update (\<lambda>_. True)"
  by unfold_locales simp

interpretation checked: key_update u_id "u_key_check_update (\<lambda>_. b)" for b
  by unfold_locales simp

interpretation wrapped: key_update u_id "u_privatedata_update (\<lambda>_. b)" for b
  by unfold_locales simp

interpretation used: key_update v_token_hash "\<lambda>x. x\<lparr>v_used_by := Some uid, v_used_at := Some now\<rparr>" for uid now
  by unfold_locales simp

interpretation revoked: key_update v_token_hash "v_revoked_update (\<lambda>_. True)"
  by unfold_locales simp

interpretation expired: key_update i_id "expire_by soon" for soon
  by unfold_locales (simp add: expire_by_def)

lemma invited_user_fields [simp]:
  "u_id (invited_user v uid name email now) = uid" "u_role (invited_user v uid name email now) = v_role v"
  "u_capabilities (invited_user v uid name email now) = v_capabilities v"
  "\<not> u_disabled (invited_user v uid name email now)"
  "u_email (invited_user v uid name email now) = py_lower (py_strip email)"
  by (simp_all add: invited_user_def Let_def)

lemma invite_problem_Inr:
  "invite_problem cf token email now d = Inr v \<Longrightarrow>
   find_row v_token_hash (cp_hash cf token) (invites d) = Some v \<and> v_token_hash v = cp_hash cf token \<and>
   \<not> v_revoked v \<and> \<not> truthy_str (v_used_by v) \<and> now \<le> v_expires_at v \<and>
   (v_email v = [] \<or> v_email v = py_lower (py_strip email))"
  by (auto simp: invite_problem_def dest: find_row_SomeD split: option.splits if_splits)

lemma principal_for_new:
  assumes "u_id u \<notin> u_id ` set us" and "\<not> u_disabled u" and "users d = us @ [u]"
  shows "principal_for (u_id u) sid d = Inr \<lparr>who_user = u_id u, who_role = u_role u, who_caps = u_capabilities u, who_session = sid\<rparr>"
  using assms find_row_None_iff [of u_id "u_id u" us]
  by (simp add: principal_for_def user_def row_simps)

text \<open>What a redemption does when it succeeds, and that the only other failure is a taken id.\<close>

lemma redeem_invite_cases:
  assumes "invite_problem cf token email now d = Inr v"
  shows "redeem_invite cf token name email now r d =
     (let uid = ''u_'' @ d_hex r in
      if uid \<in> u_id ` set (users d) then (Inl integrity_error, d)
      else (Inr \<lparr>who_user = uid, who_role = v_role v, who_caps = v_capabilities v, who_session = []\<rparr>,
            audit now uid ''redeem_invite'' (take 12 (v_token_hash v)) []
              (d\<lparr>users := users d @ [invited_user v uid name email now],
                 invites := update_where (\<lambda>x. v_token_hash x = v_token_hash v)
                              (\<lambda>x. x\<lparr>v_used_by := Some uid, v_used_at := Some now\<rparr>) (invites d)\<rparr>)))"
  using assms principal_for_new [of "invited_user v (''u_'' @ d_hex r) name email now" "users d"]
  by (simp add: redeem_invite_def insert_row_def find_row_None_iff Let_def)

lemma redeemed_invite_dead:
  assumes "redeem_invite cf token name email now r d = (Inr p, d')"
  shows "\<exists>m. invite_problem cf token email' now' d' = Inl (InvalidInvite m)"
proof -
  obtain v where v: "invite_problem cf token email now d = Inr v"
    using assms by (auto simp: redeem_invite_def split: sum.splits)
  from invite_problem_Inr [OF v]
  have "find_row v_token_hash (cp_hash cf token) (invites d) = Some v" and h: "v_token_hash v = cp_hash cf token" by auto
  then have "find_row v_token_hash (cp_hash cf token) (invites d')
      = Some (v\<lparr>v_used_by := Some (''u_'' @ d_hex r), v_used_at := Some now\<rparr>)"
    using assms by (auto simp: redeem_invite_cases [OF v] Let_def used.find_update split: if_splits)
  then show ?thesis by (simp add: invite_problem_def truthy_str_def)
qed

text \<open>The key check: once one key has been used, no other key opens a session.\<close>

lemma check_key_first:
  assumes "u_key_check u = None"
  shows "check_key cf uid k now r u d = (Inr (), set_user uid
     (u_key_check_update (\<lambda>_. Some (seal (cp_aead cf) k (d_nonce r 0) KEY_CHECK_PLAINTEXT (aad uid ''keycheck'' [])))) d)"
  using assms by (simp add: check_key_def)

lemma check_key_other:
  assumes "aead_correct (cp_aead cf)" "aead_binding (cp_aead cf)" and "length nonce = NONCE_BYTES"
    and "u_key_check u = Some (seal (cp_aead cf) k nonce KEY_CHECK_PLAINTEXT (aad uid ''keycheck'' []))"
  shows "check_key cf uid k' now r u d =
     (if k' = k then (Inr (), d)
      else (Inl (Forbidden ''that key does not open this account's data''), audit now uid ''unlock_refused'' uid [] d))"
proof (cases "k' = k")
  case True
  then show ?thesis using assms by (simp add: check_key_def Let_def open_seal)
next
  case False
  with open_other [OF assms(1-3), of k' k, where p = KEY_CHECK_PLAINTEXT and a = "aad uid ''keycheck'' []" and a' = "aad uid ''keycheck'' []"]
  show ?thesis using assms(4) by (auto simp: check_key_def Let_def)
qed

end
