(* ===== verification/Configs.thy ===== *)
theory Configs
  imports Accounts
begin

text \<open>
  Saved configs (sirosid_service/service.py). The document is sealed under the owner's key
  with the owner and the config name as associated data; listing needs no key.
\<close>

definition MAX_CONFIGS :: int where "MAX_CONFIGS = 50"

definition problem_text :: "problem \<Rightarrow> string" where
  "problem_text p = p_path p @ '': '' @ p_message p"

definition validate_config :: "'w plane \<Rightarrow> principal \<Rightarrow> json \<Rightarrow> string list" where
  "validate_config cf who doc = map problem_text (validate doc (who_caps who) (cp_platform cf))"

definition config_aad :: "principal \<Rightarrow> string \<Rightarrow> bytes" where
  "config_aad who name = aad (who_user who) ''config'' name"

definition is_config :: "principal \<Rightarrow> string \<Rightarrow> config_row \<Rightarrow> bool" where
  "is_config who name c = (c_owner c = who_user who \<and> c_cname c = name)"

text \<open>The database half of \<open>save_config\<close>: update in place, or insert below the quota.\<close>

definition store_config ::
  "principal \<Rightarrow> string \<Rightarrow> bytes \<Rightarrow> time \<Rightarrow> draws \<Rightarrow> db \<Rightarrow> (db, string \<times> string) outcome" where
  "store_config who name sealed now r d =
     (case find (is_config who name) (configs d) of
        Some c \<Rightarrow>
          (Inr (c_id c, name), audit now (who_user who) ''save_config'' (c_id c) [(''name'', JStr name)]
             (d\<lparr>configs := update_where (\<lambda>x. c_id x = c_id c) (\<lambda>x. x\<lparr>c_doc := sealed, c_updated_at := now\<rparr>) (configs d)\<rparr>))
      | None \<Rightarrow>
          if MAX_CONFIGS \<le> count_where (\<lambda>c. c_owner c = who_user who) (configs d)
          then (Inl (QuotaExceeded (''at most '' @ show_int MAX_CONFIGS @ '' saved configs'')), d)
          else
            let cid = ''c_'' @ d_hex r in
            case insert_row c_id
                   \<lparr>c_id = cid, c_owner = who_user who, c_cname = name, c_doc = sealed, c_created_at = now, c_updated_at = now\<rparr>
                   (configs d) of
              Inl e \<Rightarrow> (Inl e, d)
            | Inr cs \<Rightarrow>
                (Inr (cid, name), audit now (who_user who) ''save_config'' cid [(''name'', JStr name)] (d\<lparr>configs := cs\<rparr>)))"

definition save_config ::
  "'w plane \<Rightarrow> principal \<Rightarrow> string \<Rightarrow> json \<Rightarrow> time \<Rightarrow> draws \<Rightarrow> 'w cp \<Rightarrow> ('w cp, string \<times> string) outcome" where
  "save_config cf who name doc now r s =
     (if name = [] \<or> 64 < length name
      then (Inl (ServiceError ''a config needs a name of at most 64 characters''), s)
      else case sealer_of who now s of
        (Inl e, s1) \<Rightarrow> (Inl e, s1)
      | (Inr k, s1) \<Rightarrow>
          (let problems = validate doc (who_caps who) (cp_platform cf) in
           if problems \<noteq> [] then (Inl (PolicyError problems), s1)
           else on_db (store_config who name
                  (seal (cp_aead cf) k (d_nonce r 0) (PDoc doc) (config_aad who name)) now r) s1))"

definition list_configs :: "principal \<Rightarrow> db \<Rightarrow> (string \<times> string \<times> time) list" where
  "list_configs who d =
     map (\<lambda>c. (c_id c, c_cname c, c_updated_at c))
       (sort_key c_cname (filter (\<lambda>c. c_owner c = who_user who) (configs d)))"

definition get_config :: "'w plane \<Rightarrow> principal \<Rightarrow> string \<Rightarrow> time \<Rightarrow> 'w cp \<Rightarrow> ('w cp, json) outcome" where
  "get_config cf who name now s =
     (case find (is_config who name) (configs (database s)) of
        None \<Rightarrow> (Inl (NotFound ''no such saved config''), s)
      | Some c \<Rightarrow>
          (case sealer_of who now s of
             (Inl e, s1) \<Rightarrow> (Inl e, s1)
           | (Inr k, s1) \<Rightarrow> (open_doc (cp_aead cf) k (c_doc c) (config_aad who name), s1)))"

definition delete_config :: "principal \<Rightarrow> string \<Rightarrow> time \<Rightarrow> db \<Rightarrow> db" where
  "delete_config who name now d =
     audit now (who_user who) ''delete_config'' name [] (d\<lparr>configs := delete_where (is_config who name) (configs d)\<rparr>)"

section \<open>Facts\<close>

interpretation resaved: key_update c_id "\<lambda>x. x\<lparr>c_doc := b, c_updated_at := now\<rparr>" for b now
  by unfold_locales simp

interpretation renamed: key_update "\<lambda>c. (c_owner c, c_cname c)" "\<lambda>x. x\<lparr>c_doc := b, c_updated_at := now\<rparr>" for b now
  by unfold_locales simp

text \<open>A key live at \<open>now\<close> is found, and looking it up changes nothing.\<close>

lemma sealer_of_Inr:
  "sealer_of who now s = (Inr k, s') \<Longrightarrow>
   s' = s \<and> (\<exists>e. map_of (keys s) (who_session who) = Some e \<and> now < e_expires e \<and> e_user e = who_user who \<and> e_sealer e = k)"
  by (auto simp: sealer_of_def on_keys_def keys_get_Inr_iff split: prod.splits)

lemma sealer_of_locked:
  "\<not> key_live (keys s) (who_session who) (who_user who) now \<Longrightarrow>
   \<exists>m ks. sealer_of who now s = (Inl (Locked m), s\<lparr>keys := ks\<rparr>)"
  using keys_get_live [of "who_session who" "who_user who" now "keys s"]
    keys_get_err_Locked [of "who_session who" "who_user who" now "keys s"]
  by (cases "keys_get (who_session who) (who_user who) now (keys s)")
    (auto simp: sealer_of_def on_keys_def is_err_iff)

lemma sealer_of_frame:
  "sealer_of who now s = (r, s') \<Longrightarrow> database s' = database s \<and> world s' = world s \<and> jobs s' = jobs s"
  unfolding sealer_of_def using on_keys_frame by blast

lemma find_append_None: "find P xs = None \<Longrightarrow> find P (xs @ [y]) = (if P y then Some y else None)"
  by (induction xs) (auto split: if_splits)

text \<open>What was saved last is what is read, by the same user in a session with the same key.\<close>

lemma find_store_config:
  assumes "store_config who name sealed now r d = (Inr x, d')" and "distinct (map c_id (configs d))"
  shows "\<exists>c. find (is_config who name) (configs d') = Some c \<and> c_doc c = sealed"
proof (cases "find (is_config who name) (configs d)")
  case None
  then have "find (is_config who name) (configs d @ [c]) = (if is_config who name c then Some c else None)" for c
    by (simp add: find_append_None)
  with None assms(1) show ?thesis
    by (auto simp: store_config_def Let_def insert_row_Inr_iff is_config_def split: if_splits sum.splits)
next
  case (Some c)
  then have c: "is_config who name c" "c \<in> set (configs d)"
    by (auto simp: find_Some_iff)
  let ?f = "\<lambda>x. x\<lparr>c_doc := sealed, c_updated_at := now\<rparr>"
  have "find (is_config who name) (update_where (\<lambda>x. c_id x = c_id c) ?f cs) = Some (?f c)"
    if "find (is_config who name) cs = Some c" for cs
    using that by (induction cs) (auto simp: update_where_def is_config_def split: if_splits)
  with Some assms(1) show ?thesis by (auto simp: store_config_def)
qed

lemma save_get_config:
  assumes "save_config cf who name doc now r s = (Inr x, s')"
    and "aead_correct (cp_aead cf)" and "nonces_ok (d_nonce r)"
    and "distinct (map c_id (configs (database s)))"
    and "key_live (keys s) (who_session who) (who_user who) later"
  shows "get_config cf who name later s' = (Inr doc, s')"
proof -
  obtain k s1 where k: "sealer_of who now s = (Inr k, s1)"
    using assms(1) by (auto simp: save_config_def split: if_splits prod.splits sum.splits)
  from sealer_of_Inr [OF k] obtain e where s1: "s1 = s"
    and e: "map_of (keys s) (who_session who) = Some e" "e_sealer e = k" by auto
  let ?b = "seal (cp_aead cf) k (d_nonce r 0) (PDoc doc) (config_aad who name)"
  from assms(1) have st: "on_db (store_config who name ?b now r) s = (Inr x, s')"
    by (auto simp: save_config_def k s1 Let_def split: if_splits)
  from on_db_frame [OF st] have f: "keys s' = keys s"
    and d: "store_config who name ?b now r (database s) = (Inr x, database s')" by auto
  from find_store_config [OF d assms(4)] obtain c
    where c: "find (is_config who name) (configs (database s')) = Some c" "c_doc c = ?b" by auto
  have "keys_get (who_session who) (who_user who) later (keys s') = (Inr k, keys s')"
    using assms(5) e by (auto simp: keys_get_Inr_iff f key_live_def)
  then have "sealer_of who later s' = (Inr k, s')" by (simp add: sealer_of_def on_keys_def)
  with c assms(2,3) show ?thesis by (simp add: get_config_def open_doc_seal nonces_ok_def)
qed

end
