(* ===== verification/Instances.thy ===== *)
theory Instances
  imports Configs
begin

text \<open>
  Instances (sirosid_service/service.py): creation under quotas, ownership, the views, stop,
  start, destroy, reset, reconfigure and keep. Slow work is a job that is queued here and run
  in Jobs. Stop and start are split where the code lets go of the database: the check reads
  the row, the Fly call follows, and the outcome is written afterwards.
\<close>

section \<open>Access\<close>

text \<open>Somebody else's instance and no instance look the same.\<close>

definition instance_row :: "principal \<Rightarrow> string \<Rightarrow> bool \<Rightarrow> db \<Rightarrow> exn + instance_row" where
  "instance_row who iid allow_admin d =
     (case find_row i_id iid (instances d) of
        None \<Rightarrow> Inl (NotFound ''no such instance'')
      | Some r \<Rightarrow>
          if i_owner r \<noteq> who_user who \<and> \<not> (allow_admin \<and> is_admin who)
          then Inl (NotFound ''no such instance'') else Inr r)"

record public_view =
  pv_id :: string
  pv_name :: string
  pv_status :: string
  pv_created_at :: time
  pv_expires_at :: "time option"
  pv_kept :: bool
  pv_urls :: "string dict"
  pv_error :: string
  pv_config_name :: "string option"
  pv_layout :: string
  pv_reconfigurable :: bool

definition public :: "instance_row \<Rightarrow> public_view" where
  "public r =
     \<lparr>pv_id = i_id r, pv_name = i_name r, pv_status = status_name (i_status r), pv_created_at = i_created_at r,
      pv_expires_at = i_expires_at r, pv_kept = i_kept r, pv_urls = i_urls r, pv_error = i_error r,
      pv_config_name = i_config_name r, pv_layout = get_default (i_naming r) ''layout'' ''apps'',
      pv_reconfigurable = (i_status r \<in> set RECONFIGURABLE)\<rparr>"

definition list_instances :: "principal \<Rightarrow> bool \<Rightarrow> db \<Rightarrow> exn + public_view list" where
  "list_instances who all_users d =
     (let newest = sort_key (\<lambda>r. - i_created_at r) in
      if all_users then
        map_sum id (\<lambda>_. map public (newest (filter (\<lambda>r. i_status r \<noteq> Destroyed) (instances d)))) (require_admin who)
      else Inr (map public (newest (filter (\<lambda>r. i_owner r = who_user who \<and> i_status r \<noteq> Destroyed) (instances d)))))"

definition get_instance :: "principal \<Rightarrow> string \<Rightarrow> db \<Rightarrow> exn + public_view" where
  "get_instance who iid d = map_sum id public (instance_row who iid True d)"

definition get_own_instance :: "principal \<Rightarrow> string \<Rightarrow> db \<Rightarrow> exn + public_view" where
  "get_own_instance who iid d = map_sum id public (instance_row who iid False d)"

definition admin_token :: "blobs \<Rightarrow> string" where
  "admin_token blobs = py_strip (case map_of blobs ''adminToken'' of None \<Rightarrow> [] | Some b \<Rightarrow> b)"

definition instance_credentials ::
  "'w plane \<Rightarrow> principal \<Rightarrow> string \<Rightarrow> time \<Rightarrow> 'w cp \<Rightarrow> ('w cp, string dict \<times> string) outcome" where
  "instance_credentials cf who iid now s =
     (case instance_row who iid False (database s) of
        Inl e \<Rightarrow> (Inl e, s)
      | Inr r \<Rightarrow>
          if i_status r \<notin> {Running, Stopped}
          then (Inl (InvalidState (''the instance is '' @ status_name (i_status r))), s)
          else (case sealer_of who now s of
             (Inl e, s1) \<Rightarrow> (Inl e, s1)
           | (Inr k, s1) \<Rightarrow>
               (map_sum id (\<lambda>b. (i_urls r, admin_token b))
                  (sealed_load (cp_aead cf) k (i_owner r) (state_rows (database s1)) iid), s1)))"

section \<open>Row updates\<close>

definition touch :: "time \<Rightarrow> (instance_row \<Rightarrow> instance_row) \<Rightarrow> instance_row \<Rightarrow> instance_row" where
  "touch now f r = (f r)\<lparr>i_updated_at := now\<rparr>"

text \<open>\<open>UPDATE instances SET .., updated_at=? WHERE id=? AND ..\<close>\<close>

definition update_instance ::
  "string \<Rightarrow> (status \<Rightarrow> bool) \<Rightarrow> time \<Rightarrow> (instance_row \<Rightarrow> instance_row) \<Rightarrow> db \<Rightarrow> db" where
  "update_instance iid p now f d =
     d\<lparr>instances := update_where (\<lambda>r. i_id r = iid \<and> p (i_status r)) (touch now f) (instances d)\<rparr>"

definition set_row :: "string \<Rightarrow> time \<Rightarrow> (instance_row \<Rightarrow> instance_row) \<Rightarrow> db \<Rightarrow> db" where
  "set_row iid now f d = update_instance iid (\<lambda>_. True) now f d"

lemma update_instance_frame [frame_simps, simp]:
  "users (update_instance i p t f d) = users d" "invites (update_instance i p t f d) = invites d"
  "configs (update_instance i p t f d) = configs d" "state_rows (update_instance i p t f d) = state_rows d"
  "audit_rows (update_instance i p t f d) = audit_rows d" "orphans (update_instance i p t f d) = orphans d"
  by (simp_all add: update_instance_def)

section \<open>Creation\<close>

definition live_count :: "(instance_row \<Rightarrow> bool) \<Rightarrow> db \<Rightarrow> int" where
  "live_count p d = count_where (\<lambda>r. p r \<and> i_status r \<in> set LIVE) (instances d)"

definition check_keep :: "user_row \<Rightarrow> time \<Rightarrow> db \<Rightarrow> exn + unit" where
  "check_keep u now d =
     (if u_max_kept u \<le> 0 then Inl (QuotaExceeded ''your account has no allowance to keep instances'')
      else if (case u_kept_until u of None \<Rightarrow> False | Some t \<Rightarrow> t < now)
      then Inl (QuotaExceeded ''your keep allowance has expired'')
      else
        let kept = live_count (\<lambda>r. i_owner r = u_id u \<and> i_kept r) d in
        if u_max_kept u \<le> kept
        then Inl (QuotaExceeded (''you already keep '' @ show_int kept @ '' instance(s); your allowance is '' @ show_int (u_max_kept u)))
        else Inr ())"

text \<open>Up to fifty draws; \<open>n\<close> counts those that are left.\<close>

fun unused_id :: "(nat \<Rightarrow> string) \<Rightarrow> nat \<Rightarrow> db \<Rightarrow> exn + string" where
  "unused_id ids 0 d = Inl (ServiceError ''could not allocate an instance id'')"
| "unused_id ids (Suc n) d =
     (let iid = ids (49 - n) in
      if iid \<in> set RESERVED_IDS \<or> find_row i_id iid (instances d) \<noteq> None then unused_id ids n d else Inr iid)"

definition spec_doc :: "spec \<Rightarrow> plaintext" where
  "spec_doc sp = PDoc (JObj (spec_to_dict True sp))"

text \<open>The transaction of \<open>create_instance\<close>: quotas, expiry, id, spec, row.\<close>

definition new_instance ::
  "'w plane \<Rightarrow> principal \<Rightarrow> user_row \<Rightarrow> sealer \<Rightarrow> json \<Rightarrow> string option \<Rightarrow> string \<Rightarrow> bool \<Rightarrow> time \<Rightarrow> draws \<Rightarrow> db
   \<Rightarrow> exn + (instance_row \<times> spec)" where
  "new_instance cf who u k config config_name name keep now r d =
     (let live = live_count (\<lambda>x. i_owner x = who_user who) d; total = live_count (\<lambda>_. True) d in
      if u_max_concurrent u \<le> live
      then Inl (QuotaExceeded (''you already have '' @ show_int live @ '' instance(s); your limit is '' @ show_int (u_max_concurrent u)))
      else if l_global_max_instances (cp_limits cf) \<le> total
      then Inl (QuotaExceeded ''the service is at capacity; try again later'')
      else bind_sum (if keep then check_keep u now d else Inr ()) (\<lambda>_.
        bind_sum (unused_id (d_id r) 50 d) (\<lambda>iid.
        bind_sum (build_spec config iid (u_capabilities u) (cp_platform cf)) (\<lambda>sp.
        bind_sum (spec_naming sp) (\<lambda>n.
          Inr (\<lparr>i_id = iid, i_owner = who_user who, i_name = take 64 name, i_status = Creating, i_naming = to_dict n,
                i_spec = seal (cp_aead cf) k (d_nonce r 0) (spec_doc sp) (aad (who_user who) ''spec'' iid),
                i_config = seal (cp_aead cf) k (d_nonce r 1) (PDoc config) (aad (who_user who) ''config-snapshot'' iid),
                i_created_at = now, i_updated_at = now,
                i_expires_at = (if keep then None else Some (now + l_ttl_days (cp_limits cf) * DAY)),
                i_kept = keep, i_urls = [], i_error = [], i_config_name = config_name,
                i_pending_spec = None, i_pending_config = None\<rparr>, sp))))))"

text \<open>The config of a request: inline, or a saved one by name; a falsy name means none.\<close>

definition requested_config ::
  "'w plane \<Rightarrow> principal \<Rightarrow> json option \<Rightarrow> string option \<Rightarrow> time \<Rightarrow> 'w cp \<Rightarrow> ('w cp, json \<times> string option) outcome" where
  "requested_config cf who config config_name now s =
     (case config of
        Some c \<Rightarrow> (Inr (c, None), s)
      | None \<Rightarrow>
          (case config_name of
             None \<Rightarrow> (Inr (JObj [], None), s)
           | Some name \<Rightarrow>
               if name = [] then (Inr (JObj [], None), s)
               else (case get_config cf who name now s of
                  (Inl e, s1) \<Rightarrow> (Inl e, s1)
                | (Inr c, s1) \<Rightarrow> (Inr (c, Some name), s1))))"

lemma requested_config_frame:
  "requested_config cf who config cname now s = (r, s') \<Longrightarrow>
   database s' = database s \<and> world s' = world s \<and> jobs s' = jobs s"
  by (auto simp: requested_config_def get_config_def dest: sealer_of_frame
      split: option.splits if_splits prod.splits sum.splits)

definition create_instance ::
  "'w plane \<Rightarrow> principal \<Rightarrow> json option \<Rightarrow> string option \<Rightarrow> string \<Rightarrow> bool \<Rightarrow> time \<Rightarrow> draws
   \<Rightarrow> 'w cp \<Rightarrow> ('w cp, public_view) outcome" where
  "create_instance cf who config config_name name keep now r s =
     (case sealer_of who now s of
        (Inl e, s1) \<Rightarrow> (Inl e, s1)
      | (Inr k, s1) \<Rightarrow>
          (case requested_config cf who config config_name now s1 of
             (Inl e, s2) \<Rightarrow> (Inl e, s2)
           | (Inr (cfg, cname), s2) \<Rightarrow>
               (case user (who_user who) (database s2) of
                  Inl e \<Rightarrow> (Inl e, s2)
                | Inr u \<Rightarrow>
                    if u_disabled u then (Inl account_disabled, s2)
                    else (case new_instance cf who u k cfg cname name keep now r (database s2) of
                       Inl e \<Rightarrow> (Inl e, s2)
                     | Inr (row, sp) \<Rightarrow>
                         let iid = i_id row;
                             d = audit now (who_user who) ''create_instance'' iid
                                   [(''kept'', JBool keep), (''images'', JList (map JStr (sort (map fst (s_images sp))))),
                                    (''config_name'', opt_json JStr cname)]
                                   ((database s2)\<lparr>instances := instances (database s2) @ [row]\<rparr>)
                         in (get_instance who iid d, submit (Deploy_job iid k) (s2\<lparr>database := d\<rparr>))))))"

section \<open>Power\<close>

definition naming_of :: "instance_row \<Rightarrow> exn + naming" where
  "naming_of r = from_dict (i_naming r)"

definition machines_for :: "'w plane \<Rightarrow> naming \<Rightarrow> 'w machines option" where
  "machines_for cf n = (if single_machine n then Some (cp_machines cf) else None)"

text \<open>\<open>str(report.failed)\<close>: the text of a list of pairs of strings.\<close>

definition failed_text :: "(string \<times> string) list \<Rightarrow> string" where
  "failed_text fs = ''['' @ join_with '', '' (map (\<lambda>(a, m). ''('' @ py_repr a @ '', '' @ py_repr m @ '')'') fs) @ '']''"

definition state_guard :: "string \<Rightarrow> status list \<Rightarrow> instance_row \<Rightarrow> exn + instance_row" where
  "state_guard verb allowed r =
     (if i_status r \<in> set allowed then Inr r
      else Inl (InvalidState (''cannot '' @ verb @ '' an instance that is '' @ status_name (i_status r))))"

definition stop_check :: "principal \<Rightarrow> string \<Rightarrow> db \<Rightarrow> exn + instance_row" where
  "stop_check who iid d = bind_sum (instance_row who iid False d) (state_guard ''stop'' [Running, Failed])"

definition start_check :: "principal \<Rightarrow> string \<Rightarrow> db \<Rightarrow> exn + instance_row" where
  "start_check who iid d = bind_sum (instance_row who iid False d) (state_guard ''start'' [Stopped, Failed])"

definition power_commit ::
  "principal \<Rightarrow> string \<Rightarrow> status \<Rightarrow> string \<Rightarrow> power_report \<Rightarrow> time \<Rightarrow> db \<Rightarrow> (db, public_view) outcome" where
  "power_commit who iid target action report now d =
     (let d' = audit now (who_user who) action iid []
                 (set_row iid now (\<lambda>r. r\<lparr>i_status := (if power_ok report then target else Failed),
                    i_error := (if power_ok report then [] else take 300 (failed_text (pr_failed report)))\<rparr>) d)
      in (get_instance who iid d', d'))"

definition stop_instance_op :: "'w plane \<Rightarrow> principal \<Rightarrow> string \<Rightarrow> time \<Rightarrow> 'w cp \<Rightarrow> ('w cp, public_view) outcome" where
  "stop_instance_op cf who iid now s =
     (case bind_sum (stop_check who iid (database s)) naming_of of
        Inl e \<Rightarrow> (Inl e, s)
      | Inr n \<Rightarrow>
          (case on_world (stop_instance (cp_fly cf) n (machines_for cf n)) s of
             (Inl e, s1) \<Rightarrow> (Inl e, s1)
           | (Inr report, s1) \<Rightarrow> on_db (power_commit who iid Stopped ''stop_instance'' report now) s1))"

definition start_instance_op :: "'w plane \<Rightarrow> principal \<Rightarrow> string \<Rightarrow> time \<Rightarrow> 'w cp \<Rightarrow> ('w cp, public_view) outcome" where
  "start_instance_op cf who iid now s =
     (case bind_sum (start_check who iid (database s)) naming_of of
        Inl e \<Rightarrow> (Inl e, s)
      | Inr n \<Rightarrow>
          (case on_world (start_instance (cp_fly cf) n (machines_for cf n) 900) s of
             (Inl e, s1) \<Rightarrow> (Inl e, s1)
           | (Inr report, s1) \<Rightarrow> on_db (power_commit who iid Running ''start_instance'' report now) s1))"

section \<open>Destroy\<close>

definition destroy_commit :: "string \<Rightarrow> string \<Rightarrow> destroy_report \<Rightarrow> time \<Rightarrow> db \<Rightarrow> db" where
  "destroy_commit actor iid report now d =
     (if destroy_ok report then
        (let d1 = set_row iid now (\<lambda>r. r\<lparr>i_status := Destroyed, i_urls := []\<rparr>) d
         in audit now actor ''destroy_instance'' iid [] (d1\<lparr>state_rows := delete_state iid (state_rows d1)\<rparr>))
      else audit now actor ''destroy_failed'' iid [(''failed'', JList (map (JStr \<circ> fst) (dr_failed report)))]
             (set_row iid now (\<lambda>r. r\<lparr>i_status := Failed,
                i_error := take 500 (''could not destroy: '' @ failed_text (dr_failed report))\<rparr>) d))"

text \<open>\<open>_destroy\<close> of a row that was read before; no intermediate status.\<close>

definition destroy_row :: "'w plane \<Rightarrow> instance_row \<Rightarrow> string \<Rightarrow> time \<Rightarrow> 'w cp \<Rightarrow> ('w cp, public_view) outcome" where
  "destroy_row cf r actor now s =
     (if i_status r = Destroyed then (Inr (public r), s)
      else case naming_of r of
        Inl e \<Rightarrow> (Inl e, s)
      | Inr n \<Rightarrow>
          (case on_world (destroy_instance (cp_fly cf) n False (machines_for cf n)) s of
             (Inl e, s1) \<Rightarrow> (Inl e, s1)
           | (Inr report, s1) \<Rightarrow>
               let d = destroy_commit actor (i_id r) report now (database s1) in
               (case find_row i_id (i_id r) (instances d) of
                  None \<Rightarrow> Inl (TypeError ''no row'')
                | Some x \<Rightarrow> Inr (public x), s1\<lparr>database := d\<rparr>)))"

definition destroy_instance_op :: "'w plane \<Rightarrow> principal \<Rightarrow> string \<Rightarrow> time \<Rightarrow> 'w cp \<Rightarrow> ('w cp, public_view) outcome" where
  "destroy_instance_op cf who iid now s =
     (case instance_row who iid True (database s) of
        Inl e \<Rightarrow> (Inl e, s)
      | Inr r \<Rightarrow> destroy_row cf r (who_user who) now s)"

section \<open>Reset\<close>

text \<open>The data of the apps layout: the machines and volumes of the Mongo app.\<close>

fun destroy_volumes :: "'w fly \<Rightarrow> string \<Rightarrow> fly_volume list \<Rightarrow> 'w \<Rightarrow> ('w, unit) outcome" where
  "destroy_volumes f a [] w = (Inr (), w)"
| "destroy_volumes f a (v # vs) w =
     (if fv_state v \<noteq> Some ''destroyed'' then
        (case destroy_volume f a (fv_id v) w of
           (Inl e, w') \<Rightarrow> (Inl e, w') | (Inr _, w') \<Rightarrow> destroy_volumes f a vs w')
      else destroy_volumes f a vs w)"

definition wipe_mongo :: "'w fly \<Rightarrow> naming \<Rightarrow> 'w \<Rightarrow> ('w, unit) outcome" where
  "wipe_mongo f n =
     (let a = app n ''mongodb'' in
      and_then (stop_instance f n None) (\<lambda>_.
      and_then (app_exists f a) (\<lambda>there.
        if there then
          and_then (destroy_machines f a) (\<lambda>_. and_then (list_volumes f a) (destroy_volumes f a))
        else (\<lambda>w. (Inr (), w)))))"

definition mark_resetting :: "string \<Rightarrow> time \<Rightarrow> db \<Rightarrow> db" where
  "mark_resetting iid now d = set_row iid now (\<lambda>r. r\<lparr>i_status := Resetting, i_error := []\<rparr>) d"

definition reset_instance_op :: "'w plane \<Rightarrow> principal \<Rightarrow> string \<Rightarrow> time \<Rightarrow> 'w cp \<Rightarrow> ('w cp, public_view) outcome" where
  "reset_instance_op cf who iid now s =
     (case sealer_of who now s of
        (Inl e, s1) \<Rightarrow> (Inl e, s1)
      | (Inr k, s1) \<Rightarrow>
          (case bind_sum (bind_sum (instance_row who iid False (database s1))
                  (state_guard ''reset'' [Running, Stopped, Failed])) naming_of of
             Inl e \<Rightarrow> (Inl e, s1)
           | Inr n \<Rightarrow>
               let s2 = s1\<lparr>database := mark_resetting iid now (database s1)\<rparr>;
                   logged = (\<lambda>d. audit now (who_user who) ''reset_instance'' iid [] d)
               in if single_machine n then
                    (let d = logged (database s2) in
                     (get_instance who iid d, submit (Reset_single_job iid k) (s2\<lparr>database := d\<rparr>)))
                  else
                    (case on_world (wipe_mongo (cp_fly cf) n) s2 of
                       (Inl e, s3) \<Rightarrow> (Inl e, s3)
                     | (Inr _, s3) \<Rightarrow>
                         (let d = logged (database s3) in
                          (get_instance who iid d, submit (Deploy_job iid k) (s3\<lparr>database := d\<rparr>))))))"

section \<open>Reconfigure\<close>

definition spec_of_row :: "'w plane \<Rightarrow> instance_row \<Rightarrow> sealer \<Rightarrow> exn + spec" where
  "spec_of_row cf r k =
     bind_sum (open_doc (cp_aead cf) k (i_spec r) (aad (i_owner r) ''spec'' (i_id r))) spec_from_dict"

definition config_of_row :: "'w plane \<Rightarrow> instance_row \<Rightarrow> sealer \<Rightarrow> exn + json" where
  "config_of_row cf r k = open_doc (cp_aead cf) k (i_config r) (aad (i_owner r) ''config-snapshot'' (i_id r))"

definition get_instance_config :: "'w plane \<Rightarrow> principal \<Rightarrow> string \<Rightarrow> time \<Rightarrow> 'w cp \<Rightarrow> ('w cp, json) outcome" where
  "get_instance_config cf who iid now s =
     (case sealer_of who now s of
        (Inl e, s1) \<Rightarrow> (Inl e, s1)
      | (Inr k, s1) \<Rightarrow>
          (case instance_row who iid False (database s1) of
             Inl e \<Rightarrow> (Inl e, s1)
           | Inr r \<Rightarrow> (config_of_row cf r k, s1)))"

definition changed_keys :: "json \<Rightarrow> json \<Rightarrow> string list" where
  "changed_keys old new =
     sort (filter (\<lambda>k. case (json_get old k, json_get new k) of
                         (Some a, Some b) \<Rightarrow> \<not> json_eq a b
                       | (Some a, None) \<Rightarrow> \<not> json_eq a JNull
                       | (None, Some b) \<Rightarrow> \<not> json_eq b JNull
                       | (None, None) \<Rightarrow> False)
             (remdups (json_keys old @ json_keys new)))"

text \<open>The check-and-set transaction.\<close>

definition set_pending ::
  "string \<Rightarrow> bytes \<Rightarrow> bytes \<Rightarrow> time \<Rightarrow> db \<Rightarrow> (db, unit) outcome" where
  "set_pending iid sp c now d =
     (case find_row i_id iid (instances d) of
        None \<Rightarrow> (Inl (InvalidState ''cannot reconfigure an instance that is gone''), d)
      | Some r \<Rightarrow>
          if i_status r \<in> set RECONFIGURABLE then
            (Inr (), set_row iid now (\<lambda>r. r\<lparr>i_status := Reconfiguring, i_error := [],
                       i_pending_spec := Some sp, i_pending_config := Some c\<rparr>) d)
          else (Inl (InvalidState (''cannot reconfigure an instance that is '' @ status_name (i_status r))), d))"

definition reconfigure_guard :: "instance_row \<Rightarrow> exn + unit" where
  "reconfigure_guard r =
     (if i_status r = Stopped
      then Inl (InvalidState ''the instance is stopped: start it first, then reconfigure it'')
      else if i_status r \<notin> set RECONFIGURABLE
      then Inl (InvalidState (''cannot reconfigure an instance that is '' @ status_name (i_status r)))
      else Inr ())"

definition reconfigure_instance ::
  "'w plane \<Rightarrow> principal \<Rightarrow> string \<Rightarrow> json option \<Rightarrow> string option \<Rightarrow> time \<Rightarrow> draws
   \<Rightarrow> 'w cp \<Rightarrow> ('w cp, public_view) outcome" where
  "reconfigure_instance cf who iid config config_name now r s =
     (case sealer_of who now s of
        (Inl e, s1) \<Rightarrow> (Inl e, s1)
      | (Inr k, s1) \<Rightarrow>
          (case instance_row who iid False (database s1) of
             Inl e \<Rightarrow> (Inl e, s1)
           | Inr row \<Rightarrow>
               if config = None \<and> \<not> truthy_str config_name
               then (Inl (ServiceError ''give a config or the name of a saved config''), s1)
               else (case requested_config cf who config config_name now s1 of
                  (Inl e, s2) \<Rightarrow> (Inl e, s2)
                | (Inr (cfg, cname), s2) \<Rightarrow>
                    (case bind_sum (reconfigure_guard row) (\<lambda>_.
                          bind_sum (user (who_user who) (database s2)) (\<lambda>u.
                          if u_disabled u then Inl account_disabled
                          else bind_sum (spec_of_row cf row k) (\<lambda>deployed.
                               bind_sum (rebuild_spec cfg deployed (u_capabilities u) (cp_platform cf)) (\<lambda>sp.
                               bind_sum (config_of_row cf row k) (\<lambda>old. Inr (sp, changed_keys old cfg)))))) of
                       Inl e \<Rightarrow> (Inl e, s2)
                     | Inr (sp, changed) \<Rightarrow>
                         (case on_db (set_pending iid
                                 (seal (cp_aead cf) k (d_nonce r 0) (spec_doc sp) (aad (i_owner row) ''spec-pending'' iid))
                                 (seal (cp_aead cf) k (d_nonce r 1) (PDoc cfg) (aad (i_owner row) ''config-pending'' iid)) now) s2 of
                            (Inl e, s3) \<Rightarrow> (Inl e, s3)
                          | (Inr _, s3) \<Rightarrow>
                              let d = audit now (who_user who) ''reconfigure_instance'' iid
                                        [(''config_name'', opt_json JStr cname), (''changed'', JList (map JStr changed))]
                                        (database s3)
                              in (get_instance who iid d,
                                  submit (Reconfigure_job iid k cname) (s3\<lparr>database := d\<rparr>)))))))"

section \<open>Keep\<close>

definition set_keep :: "'w plane \<Rightarrow> principal \<Rightarrow> string \<Rightarrow> bool \<Rightarrow> time \<Rightarrow> db \<Rightarrow> (db, public_view) outcome" where
  "set_keep cf who iid keep now d =
     (case bind_sum (instance_row who iid False d) (\<lambda>r. map_sum id (Pair r) (user (who_user who) d)) of
        Inl e \<Rightarrow> (Inl e, d)
      | Inr (r, u) \<Rightarrow>
          (case (if keep \<and> \<not> i_kept r then
                   map_sum id (\<lambda>_. set_row iid now (\<lambda>x. x\<lparr>i_kept := True, i_expires_at := None\<rparr>) d) (check_keep u now d)
                 else if \<not> keep \<and> i_kept r then
                   Inr (set_row iid now (\<lambda>x. x\<lparr>i_kept := False, i_expires_at := Some (now + l_ttl_days (cp_limits cf) * DAY)\<rparr>) d)
                 else Inr d) of
             Inl e \<Rightarrow> (Inl e, d)
           | Inr d1 \<Rightarrow>
               let d2 = audit now (who_user who) ''set_keep'' iid [(''keep'', JBool keep)] d1
               in (get_instance who iid d2, d2)))"

section \<open>Activity\<close>

definition INSTANCE_ACTIONS :: "string list" where
  "INSTANCE_ACTIONS =
     [''create_instance'', ''deployed'', ''deploy_failed'', ''stop_instance'', ''start_instance'', ''reset_instance'',
      ''reset_done'', ''reset_failed'', ''destroy_instance'', ''destroy_failed'', ''set_keep'', ''keep_lapsed'',
      ''reconfigure_instance'', ''reconfigured'', ''reconfigure_failed'']"

definition ACTIVITY_DETAIL_KEYS :: "string list" where
  "ACTIVITY_DETAIL_KEYS = [''kept'', ''keep'', ''images'', ''error'', ''failed'', ''config_name'', ''changed'']"

definition SYSTEM_ACTORS :: "string list" where
  "SYSTEM_ACTORS = [''system'', ''reaper'', ''sweeper'']"

record activity =
  ac_ts :: time
  ac_action :: string
  ac_by :: string
  ac_detail :: "json dict"

definition activity_of :: "principal \<Rightarrow> audit_row \<Rightarrow> activity" where
  "activity_of who a =
     \<lparr>ac_ts = au_ts a, ac_action = au_action a,
      ac_by = (if au_actor a = who_user who then ''you''
               else if au_actor a \<in> set SYSTEM_ACTORS then ''system'' else ''admin''),
      ac_detail = filter (\<lambda>(k, v). k \<in> set ACTIVITY_DETAIL_KEYS \<and> v \<notin> {JNull, JStr [], JList []}) (au_detail a)\<rparr>"

definition instance_activity :: "principal \<Rightarrow> string \<Rightarrow> int \<Rightarrow> db \<Rightarrow> exn + activity list" where
  "instance_activity who iid limit d =
     (case instance_row who iid False d of
        Inl e \<Rightarrow> Inl e
      | Inr r \<Rightarrow>
          Inr (map (activity_of who)
            (take (nat (max 1 (min limit 200)))
              (rev (filter (\<lambda>a. au_target a = iid \<and> i_created_at r \<le> au_ts a \<and> au_action a \<in> set INSTANCE_ACTIONS)
                      (audit_rows d))))))"

end
