(* ===== verification/Jobs.thy ===== *)
theory Jobs
  imports Instances
begin

text \<open>
  The jobs a runner executes (sirosid_service/service.py): deploy, in-place reset,
  reconfigure. A job first reads its row and opens what it needs (\<open>job_start\<close>), then
  deploys for minutes, then writes its result (\<open>job_finish\<close>); other operations run between
  the two. \<open>run_job\<close> is both in a row, as \<open>SyncRunner\<close> has it.
\<close>

fun is_deploy_failure :: "exn \<Rightarrow> bool" where
  "is_deploy_failure (DeployError _) = True"
| "is_deploy_failure (FlyError _) = True"
| "is_deploy_failure (MachinesError _ _) = True"
| "is_deploy_failure (PolicyError _) = True"
| "is_deploy_failure (VaultError _) = True"
| "is_deploy_failure _ = False"

definition failure :: "exn \<Rightarrow> string \<Rightarrow> string" where
  "failure e what =
     take 500 (if is_deploy_failure e then exn_text e
               else ''internal error during '' @ what @ '' ('' @ exn_class e @ '': '' @ exn_text e @ '')'')"

section \<open>Writing a result\<close>

definition job_status :: "status \<Rightarrow> bool" where
  "job_status s = (s = Creating \<or> s = Resetting)"

definition finish_job ::
  "string \<Rightarrow> status \<Rightarrow> (instance_row \<Rightarrow> instance_row) \<Rightarrow> time \<Rightarrow> db \<Rightarrow> bool \<times> db" where
  "finish_job iid wanted f now d =
     (if list_ex (\<lambda>r. i_id r = iid \<and> job_status (i_status r)) (instances d)
      then (True, update_instance iid job_status now (\<lambda>r. (f r)\<lparr>i_status := wanted\<rparr>) d)
      else (False, audit now ''system'' ''job_result_discarded'' iid [(''wanted'', JStr (status_name wanted))] d))"

text \<open>\<open>if self._finish_job(..): self.db.audit(..)\<close>\<close>

definition finish_audited ::
  "string \<Rightarrow> status \<Rightarrow> (instance_row \<Rightarrow> instance_row) \<Rightarrow> string \<Rightarrow> json dict \<Rightarrow> time \<Rightarrow> db \<Rightarrow> db" where
  "finish_audited iid wanted f action detail now d =
     (case finish_job iid wanted f now d of
        (True, d') \<Rightarrow> audit now ''system'' action iid detail d'
      | (False, d') \<Rightarrow> d')"

section \<open>Deploying\<close>

definition deployer :: "'w plane \<Rightarrow> spec \<Rightarrow> 'w deployer" where
  "deployer cf sp = (if s_layout sp = LAYOUT_SINGLE_MACHINE then cp_deploy_single cf else cp_deploy_apps cf)"

definition deploy_body ::
  "'w plane \<Rightarrow> spec \<Rightarrow> files \<Rightarrow> 'w \<Rightarrow> (exn + string dict) \<times> files \<times> 'w" where
  "deploy_body cf sp fs w =
     (case spec_naming sp of
        Inl e \<Rightarrow> (Inl e, fs, w)
      | Inr n \<Rightarrow> deployer cf sp sp n (cp_scratch cf) fs w)"

definition fly_dir :: "string \<Rightarrow> string" where
  "fly_dir iid = ''fly-'' @ iid"

text \<open>
  \<open>_deploy\<close>: in a scratch directory seeded with the instance's state, saved back on success
  only. \<open>seed\<close> is what the store returned when the job started.
\<close>

definition deploy ::
  "'w plane \<Rightarrow> instance_row \<Rightarrow> spec \<Rightarrow> sealer \<Rightarrow> exn + blobs \<Rightarrow> draws \<Rightarrow> 'w cp \<Rightarrow> ('w cp, string dict) outcome" where
  "deploy cf r sp k seed x s =
     (case workdir (\<lambda>_ _. seed) (sealed_save (cp_aead cf) k (i_owner r) (\<lambda>n. d_nonce x (n + 2)))
             (cp_scratch cf) (fly_dir (i_id r)) (deploy_body cf sp) (i_id r) (state_rows (database s)) (world s) of
        (res, rows, w) \<Rightarrow> (res, s\<lparr>database := (database s)\<lparr>state_rows := rows\<rparr>, world := w\<rparr>))"

section \<open>Starting a job\<close>

datatype running =
    Deploying instance_row sealer "exn + spec" "exn + blobs"
  | Resetting_single instance_row sealer
  | Redeploying instance_row sealer "string option" "exn + spec \<times> json" "exn + blobs"

definition load_seed :: "'w plane \<Rightarrow> instance_row \<Rightarrow> sealer \<Rightarrow> db \<Rightarrow> exn + blobs" where
  "load_seed cf r k d = sealed_load (cp_aead cf) k (i_owner r) (state_rows d) (i_id r)"

definition pending_of_row :: "'w plane \<Rightarrow> instance_row \<Rightarrow> bytes \<Rightarrow> sealer \<Rightarrow> exn + spec \<times> json" where
  "pending_of_row cf r ps k =
     bind_sum (bind_sum (open_doc (cp_aead cf) k ps (aad (i_owner r) ''spec-pending'' (i_id r))) spec_from_dict) (\<lambda>sp.
     (case i_pending_config r of
        None \<Rightarrow> Inl (TypeError ''cannot convert NoneType to bytes'')
      | Some pc \<Rightarrow> map_sum id (Pair sp) (open_doc (cp_aead cf) k pc (aad (i_owner r) ''config-pending'' (i_id r)))))"

fun job_start :: "'w plane \<Rightarrow> job \<Rightarrow> db \<Rightarrow> running option" where
  "job_start cf (Deploy_job iid k) d =
     (case find_row i_id iid (instances d) of
        None \<Rightarrow> None
      | Some r \<Rightarrow> if job_status (i_status r) then Some (Deploying r k (spec_of_row cf r k) (load_seed cf r k d)) else None)"
| "job_start cf (Reset_single_job iid k) d =
     (case find_row i_id iid (instances d) of
        None \<Rightarrow> None
      | Some r \<Rightarrow> if i_status r = Resetting then Some (Resetting_single r k) else None)"
| "job_start cf (Reconfigure_job iid k cname) d =
     (case find_row i_id iid (instances d) of
        None \<Rightarrow> None
      | Some r \<Rightarrow>
          (case i_pending_spec r of
             None \<Rightarrow> None
           | Some ps \<Rightarrow>
               if i_status r = Reconfiguring
               then Some (Redeploying r k cname (pending_of_row cf r ps k) (load_seed cf r k d)) else None))"

section \<open>Finishing a job\<close>

definition deploy_failed :: "string \<Rightarrow> exn \<Rightarrow> time \<Rightarrow> db \<Rightarrow> db" where
  "deploy_failed iid e now d =
     (let msg = failure e ''deploy'' in
      finish_audited iid Failed (i_error_update (\<lambda>_. msg)) ''deploy_failed'' [(''error'', JStr (take 200 msg))] now d)"

definition finish_deploy ::
  "'w plane \<Rightarrow> instance_row \<Rightarrow> sealer \<Rightarrow> exn + spec \<Rightarrow> exn + blobs \<Rightarrow> time \<Rightarrow> draws \<Rightarrow> 'w cp \<Rightarrow> 'w cp" where
  "finish_deploy cf r k sp seed now x s =
     (case sp of
        Inl e \<Rightarrow> s\<lparr>database := deploy_failed (i_id r) e now (database s)\<rparr>
      | Inr sp \<Rightarrow>
          (case deploy cf r sp k seed x s of
             (Inl e, s1) \<Rightarrow> s1\<lparr>database := deploy_failed (i_id r) e now (database s1)\<rparr>
           | (Inr urls, s1) \<Rightarrow>
               s1\<lparr>database := finish_audited (i_id r) Running (\<lambda>y. y\<lparr>i_urls := urls, i_error := []\<rparr>) ''deployed'' [] now
                                (database s1)\<rparr>))"

text \<open>The registration at the end of an in-place reset.\<close>

definition register_again :: "'w plane \<Rightarrow> instance_row \<Rightarrow> sealer \<Rightarrow> naming \<Rightarrow> 'w cp \<Rightarrow> ('w cp, unit) outcome" where
  "register_again cf r k n s =
     (case cp_register cf of
        None \<Rightarrow> (Inr (), s)
      | Some reg \<Rightarrow>
          (case bind_sum (spec_of_row cf r k) (\<lambda>sp. map_sum id (Pair sp) (load_seed cf r k (database s))) of
             Inl e \<Rightarrow> (Inl e, s)
           | Inr (sp, blobs) \<Rightarrow>
               on_world (reg n (admin_token blobs)
                 (if s_public_ips sp then ''https://'' @ machine_app n @ ''.fly.dev'' else [])) s))"

definition reset_error :: "exn \<Rightarrow> string" where
  "reset_error e =
     take 500 (case e of
         DeployError m \<Rightarrow> exn_text e
       | VaultError m \<Rightarrow> exn_text e
       | _ \<Rightarrow> ''internal error during reset ('' @ exn_class e @ '': '' @ exn_text e @ '')'')"

definition finish_reset :: "'w plane \<Rightarrow> instance_row \<Rightarrow> sealer \<Rightarrow> time \<Rightarrow> 'w cp \<Rightarrow> 'w cp" where
  "finish_reset cf r k now s =
     (case naming_of r of
        Inl e \<Rightarrow> s
      | Inr n \<Rightarrow>
          (case reset_single_machine (cp_fly cf) (cp_machines cf) n (cp_reset_script cf) 900 (world s) of
             (report, w) \<Rightarrow>
               let s1 = s\<lparr>world := w\<rparr> in
               if \<not> power_ok report then
                 s1\<lparr>database := finish_audited (i_id r) Failed
                      (i_error_update (\<lambda>_. take 500 (''reset failed: '' @ failed_text (pr_failed report))))
                      ''reset_failed'' [] now (database s1)\<rparr>
               else (case register_again cf r k n s1 of
                  (Inl e, s2) \<Rightarrow>
                    s2\<lparr>database := snd (finish_job (i_id r) Failed (i_error_update (\<lambda>_. reset_error e)) now (database s2))\<rparr>
                | (Inr _, s2) \<Rightarrow>
                    s2\<lparr>database := finish_audited (i_id r) Running (i_error_update (\<lambda>_. [])) ''reset_done'' [] now (database s2)\<rparr>)))"

definition is_reconfiguring :: "status \<Rightarrow> bool" where
  "is_reconfiguring s = (s = Reconfiguring)"

definition reconfigure_failed :: "string \<Rightarrow> exn \<Rightarrow> time \<Rightarrow> db \<Rightarrow> db" where
  "reconfigure_failed iid e now d =
     (let msg = take 600 (''reconfigure failed: '' @ failure e ''reconfigure'' @
            ''. The previous config is still this instance's config; reconfigure '' @
            ''again with it (get_instance_config) or with a fixed one.'')
      in audit now ''system'' ''reconfigure_failed'' iid [(''error'', JStr (take 200 msg))]
           (update_instance iid is_reconfiguring now
              (\<lambda>r. r\<lparr>i_status := Failed, i_error := msg, i_pending_spec := None, i_pending_config := None\<rparr>) d))"

definition reconfigured ::
  "'w plane \<Rightarrow> instance_row \<Rightarrow> sealer \<Rightarrow> string option \<Rightarrow> spec \<Rightarrow> json \<Rightarrow> string dict \<Rightarrow> time \<Rightarrow> draws \<Rightarrow> db \<Rightarrow> db" where
  "reconfigured cf r k cname sp cfg urls now x d =
     audit now ''system'' ''reconfigured'' (i_id r) [(''config_name'', opt_json JStr cname)]
       (update_instance (i_id r) is_reconfiguring now
          (\<lambda>y. y\<lparr>i_status := Running, i_error := [], i_urls := urls,
              i_spec := seal (cp_aead cf) k (d_nonce x 0) (spec_doc sp) (aad (i_owner r) ''spec'' (i_id r)),
              i_config := seal (cp_aead cf) k (d_nonce x 1) (PDoc cfg) (aad (i_owner r) ''config-snapshot'' (i_id r)),
              i_config_name := cname, i_pending_spec := None, i_pending_config := None\<rparr>) d)"

definition finish_reconfigure ::
  "'w plane \<Rightarrow> instance_row \<Rightarrow> sealer \<Rightarrow> string option \<Rightarrow> exn + spec \<times> json \<Rightarrow> exn + blobs \<Rightarrow> time \<Rightarrow> draws
   \<Rightarrow> 'w cp \<Rightarrow> 'w cp" where
  "finish_reconfigure cf r k cname pend seed now x s =
     (case pend of
        Inl e \<Rightarrow> s\<lparr>database := reconfigure_failed (i_id r) e now (database s)\<rparr>
      | Inr (sp, cfg) \<Rightarrow>
          (case deploy cf r sp k seed x s of
             (Inl e, s1) \<Rightarrow> s1\<lparr>database := reconfigure_failed (i_id r) e now (database s1)\<rparr>
           | (Inr urls, s1) \<Rightarrow>
               s1\<lparr>database := reconfigured cf r k cname sp cfg urls now x (database s1)\<rparr>))"

fun job_finish :: "'w plane \<Rightarrow> running \<Rightarrow> time \<Rightarrow> draws \<Rightarrow> 'w cp \<Rightarrow> 'w cp" where
  "job_finish cf (Deploying r k sp seed) now x s = finish_deploy cf r k sp seed now x s"
| "job_finish cf (Resetting_single r k) now x s = finish_reset cf r k now s"
| "job_finish cf (Redeploying r k cname pend seed) now x s = finish_reconfigure cf r k cname pend seed now x s"

definition run_job :: "'w plane \<Rightarrow> job \<Rightarrow> time \<Rightarrow> draws \<Rightarrow> 'w cp \<Rightarrow> 'w cp" where
  "run_job cf j now x s =
     (case job_start cf j (database s) of None \<Rightarrow> s | Some rj \<Rightarrow> job_finish cf rj now x s)"

end
