(* ===== verification/Background.thy ===== *)
theory Background
  imports Jobs
begin

text \<open>
  The periodic work (sirosid_service/service.py): the reaper, the lapse of kept instances
  and the sweep of orphaned Fly apps.
\<close>

section \<open>The reaper\<close>

definition due :: "time \<Rightarrow> instance_row \<Rightarrow> bool" where
  "due now r = ((case i_expires_at r of None \<Rightarrow> False | Some t \<Rightarrow> t \<le> now) \<and> i_status r \<in> set LIVE)"

fun reap_loop :: "'w plane \<Rightarrow> instance_row list \<Rightarrow> time \<Rightarrow> 'w cp \<Rightarrow> ('w cp, unit) outcome" where
  "reap_loop cf [] now s = (Inr (), s)"
| "reap_loop cf (r # rs) now s =
     (case destroy_row cf r ''reaper'' now s of
        (Inl e, s') \<Rightarrow> (Inl e, s') | (Inr _, s') \<Rightarrow> reap_loop cf rs now s')"

definition reap :: "'w plane \<Rightarrow> time \<Rightarrow> 'w cp \<Rightarrow> ('w cp, string list) outcome" where
  "reap cf now s =
     (let rows = filter (due now) (instances (database s)) in
      case reap_loop cf rows now s of
        (Inl e, s') \<Rightarrow> (Inl e, s') | (Inr _, s') \<Rightarrow> (Inr (map i_id rows), s'))"

section \<open>Kept instances whose allowance ran out\<close>

definition lapsed :: "time \<Rightarrow> db \<Rightarrow> instance_row \<Rightarrow> bool" where
  "lapsed now d r =
     (i_kept r \<and> i_status r \<noteq> Destroyed \<and>
      (case find_row u_id (i_owner r) (users d) of
         None \<Rightarrow> False
       | Some u \<Rightarrow> (case u_kept_until u of None \<Rightarrow> False | Some t \<Rightarrow> t < now) \<or> u_disabled u))"

definition lapse_one :: "'w plane \<Rightarrow> time \<Rightarrow> string \<Rightarrow> db \<Rightarrow> db" where
  "lapse_one cf now iid d =
     audit now ''system'' ''keep_lapsed'' iid []
       (set_row iid now (\<lambda>r. r\<lparr>i_kept := False, i_expires_at := Some (now + l_lapse_grace_days (cp_limits cf) * DAY)\<rparr>) d)"

definition lapse_kept :: "'w plane \<Rightarrow> time \<Rightarrow> db \<Rightarrow> string list \<times> db" where
  "lapse_kept cf now d =
     (let ids = map i_id (filter (lapsed now d) (instances d)) in (ids, fold (lapse_one cf now) ids d))"

section \<open>Orphans\<close>

definition is_id_char :: "char \<Rightarrow> bool" where
  "is_id_char c = (is_lower c \<or> c \<in> set ''234567'')"

text \<open>
  The two app patterns. The result is the id and the layout; a \<open>$\<close> lets one final newline
  through. An app cannot match both: after the id either nothing or a hyphen follows.
\<close>

definition match_app :: "string \<Rightarrow> string \<Rightarrow> (string \<times> string) option" where
  "match_app pfx a =
     (let p = pfx @ ''-'' in
      if \<not> starts_with p a then None
      else
        let rest = before_dollar (drop (length p) a); iid = take ID_LENGTH rest; tl = drop ID_LENGTH rest in
        if length iid \<noteq> ID_LENGTH \<or> \<not> list_all is_id_char iid then None
        else if tl = [] then Some (iid, LAYOUT_SINGLE_MACHINE)
        else if list_ex (\<lambda>c. tl = ''-'' @ c) component_names then Some (iid, LAYOUT_APPS)
        else None)"

record orphan_group =
  og_id :: string
  og_apps :: "string list"
  og_layouts :: "string list"

definition add_app :: "string \<Rightarrow> string \<times> string \<Rightarrow> orphan_group list \<Rightarrow> orphan_group list" where
  "add_app a m gs =
     (case m of (iid, layout) \<Rightarrow>
        if find_row og_id iid gs = None
        then gs @ [\<lparr>og_id = iid, og_apps = [a], og_layouts = [layout]\<rparr>]
        else update_where (\<lambda>g. og_id g = iid)
               (\<lambda>g. g\<lparr>og_apps := og_apps g @ [a], og_layouts := og_layouts g @ [layout]\<rparr>) gs)"

definition live_ids :: "db \<Rightarrow> string list" where
  "live_ids d = map i_id (filter (\<lambda>r. i_status r \<in> set LIVE) (instances d))"

fun orphan_groups :: "string \<Rightarrow> string list \<Rightarrow> string list \<Rightarrow> orphan_group list \<Rightarrow> orphan_group list" where
  "orphan_groups pfx live [] gs = gs"
| "orphan_groups pfx live (a # as) gs =
     (case match_app pfx a of
        None \<Rightarrow> orphan_groups pfx live as gs
      | Some m \<Rightarrow>
          if fst m \<in> set live then orphan_groups pfx live as gs
          else orphan_groups pfx live as (add_app a m gs))"

definition forget_apps :: "string list \<Rightarrow> db \<Rightarrow> db" where
  "forget_apps as d = d\<lparr>orphans := filter (\<lambda>(a, t). a \<notin> set as) (orphans d)\<rparr>"

text \<open>\<open>INSERT OR IGNORE\<close> of each app.\<close>

definition note_apps :: "string list \<Rightarrow> time \<Rightarrow> db \<Rightarrow> db" where
  "note_apps as now d =
     d\<lparr>orphans := fold (\<lambda>a os. if map_of os a = None then os @ [(a, now)] else os) as (orphans d)\<rparr>"

definition first_seen :: "string list \<Rightarrow> db \<Rightarrow> time option" where
  "first_seen as d =
     (case those (map (map_of (orphans d)) as) of
        None \<Rightarrow> None | Some [] \<Rightarrow> None | Some (t # ts) \<Rightarrow> Some (fold min ts t))"

fun destroy_layouts ::
  "'w plane \<Rightarrow> string \<Rightarrow> string list \<Rightarrow> bool \<Rightarrow> 'w cp \<Rightarrow> ('w cp, bool) outcome" where
  "destroy_layouts cf iid [] ok s = (Inr ok, s)"
| "destroy_layouts cf iid (l # ls) ok s =
     (case make_naming iid (pp_app_prefix (cp_platform cf)) ''{app}.fly.dev'' l of
        Inl e \<Rightarrow> (Inl e, s)
      | Inr n \<Rightarrow>
          (case on_world (destroy_instance (cp_fly cf) n False (machines_for cf n)) s of
             (Inl e, s') \<Rightarrow> (Inl e, s')
           | (Inr report, s') \<Rightarrow> destroy_layouts cf iid ls (destroy_ok report \<and> ok) s'))"

definition sweep_group :: "'w plane \<Rightarrow> orphan_group \<Rightarrow> time \<Rightarrow> 'w cp \<Rightarrow> ('w cp, bool) outcome" where
  "sweep_group cf g now s =
     (let s1 = s\<lparr>database := note_apps (og_apps g) now (database s)\<rparr> in
      case first_seen (og_apps g) (database s1) of
        None \<Rightarrow> (Inl (TypeError ''no orphan row''), s1)
      | Some first \<Rightarrow>
          if now - first < l_sweep_grace_seconds (cp_limits cf) then (Inr False, s1)
          else (case destroy_layouts cf (og_id g) (filter (\<lambda>l. l \<in> set (og_layouts g)) LAYOUTS) True s1 of
             (Inl e, s2) \<Rightarrow> (Inl e, s2)
           | (Inr ok, s2) \<Rightarrow>
               let d = audit now ''sweeper'' ''destroy_orphan'' (og_id g)
                         [(''apps'', JList (map JStr (og_apps g))), (''ok'', JBool ok)] (database s2)
               in (Inr ok, s2\<lparr>database := (if ok then forget_apps (og_apps g) d else d)\<rparr>)))"

fun sweep_loop :: "'w plane \<Rightarrow> orphan_group list \<Rightarrow> time \<Rightarrow> string list \<Rightarrow> 'w cp \<Rightarrow> ('w cp, string list) outcome" where
  "sweep_loop cf [] now done_ids s = (Inr done_ids, s)"
| "sweep_loop cf (g # gs) now done_ids s =
     (case sweep_group cf g now s of
        (Inl e, s') \<Rightarrow> (Inl e, s')
      | (Inr gone, s') \<Rightarrow> sweep_loop cf gs now (if gone then done_ids @ [og_id g] else done_ids) s')"

definition sweep_orphans :: "'w plane \<Rightarrow> time \<Rightarrow> 'w cp \<Rightarrow> ('w cp, string list \<times> string list) outcome" where
  "sweep_orphans cf now s =
     (case on_world (list_apps (cp_fly cf)) s of
        (Inl e, s1) \<Rightarrow> (Inl e, s1)
      | (Inr as, s1) \<Rightarrow>
          let gs = orphan_groups (pp_app_prefix (cp_platform cf)) (live_ids (database s)) as [];
              current = concat (map og_apps gs);
              gone = filter (\<lambda>a. a \<notin> set current) (map fst (orphans (database s1)))
          in (case sweep_loop cf gs now [] (s1\<lparr>database := forget_apps gone (database s1)\<rparr>) of
                (Inl e, s2) \<Rightarrow> (Inl e, s2)
              | (Inr destroyed, s2) \<Rightarrow> (Inr (sort (map og_id gs), destroyed), s2)))"

section \<open>One pass\<close>

record tick_result =
  t_lapsed :: "string list"
  t_reaped :: "string list"
  t_sweep :: "string list \<times> string list"

definition tick :: "'w plane \<Rightarrow> time \<Rightarrow> 'w cp \<Rightarrow> ('w cp, tick_result) outcome" where
  "tick cf now s =
     (case lapse_kept cf now (database s) of (ls, d) \<Rightarrow>
       (case reap cf now (s\<lparr>database := d\<rparr>) of
          (Inl e, s1) \<Rightarrow> (Inl e, s1)
        | (Inr rs, s1) \<Rightarrow>
            (case sweep_orphans cf now s1 of
               (Inl e, s2) \<Rightarrow> (Inl e, s2)
             | (Inr sw, s2) \<Rightarrow> (Inr \<lparr>t_lapsed = ls, t_reaped = rs, t_sweep = sw\<rparr>, s2))))"

end
