(* ===== verification/Invariants.thy ===== *)
theory Invariants
  imports Background
begin

text \<open>
  The invariant of the control plane's database and the one-way changes of its rows, with
  one lemma per kind of statement. The operations are treated in Reach.
\<close>

section \<open>What every reachable database satisfies\<close>

definition row_ok :: "'w plane \<Rightarrow> instance_row \<Rightarrow> bool" where
  "row_ok cf r \<longleftrightarrow>
     (i_kept r \<longleftrightarrow> i_expires_at r = None) \<and>
     (i_status r = Reconfiguring \<longrightarrow> i_pending_spec r \<noteq> None \<and> i_pending_config r \<noteq> None) \<and>
     (\<exists>n. naming_of r = Inr n \<and> n_env n = i_id r \<and> n_app_prefix n = pp_app_prefix (cp_platform cf))"

definition instances_ok :: "'w plane \<Rightarrow> db \<Rightarrow> bool" where
  "instances_ok cf d \<longleftrightarrow>
     distinct (map i_id (instances d)) \<and> (\<forall>r \<in> set (instances d). row_ok cf r) \<and>
     live_count (\<lambda>_. True) d \<le> max 0 (l_global_max_instances (cp_limits cf))"

definition users_ok :: "db \<Rightarrow> bool" where
  "users_ok d \<longleftrightarrow> distinct (map u_id (users d)) \<and> (\<forall>u \<in> set (users d). set (u_capabilities u) \<subseteq> set CAPABILITIES)"

definition invites_ok :: "db \<Rightarrow> bool" where
  "invites_ok d \<longleftrightarrow> distinct (map v_token_hash (invites d)) \<and>
     (\<forall>v \<in> set (invites d). set (v_capabilities v) \<subseteq> set CAPABILITIES \<and>
        (\<forall>u. v_used_by v = Some u \<longrightarrow> u \<noteq> [] \<and> u \<in> u_id ` set (users d)))"

definition configs_ok :: "db \<Rightarrow> bool" where
  "configs_ok d \<longleftrightarrow> distinct (map c_id (configs d)) \<and> distinct (map (\<lambda>c. (c_owner c, c_cname c)) (configs d))"

definition owners_ok :: "db \<Rightarrow> bool" where
  "owners_ok d \<longleftrightarrow> (\<forall>r \<in> set (instances d). i_owner r \<in> u_id ` set (users d))"

definition db_ok :: "'w plane \<Rightarrow> db \<Rightarrow> bool" where
  "db_ok cf d \<longleftrightarrow> instances_ok cf d \<and> users_ok d \<and> invites_ok d \<and> configs_ok d \<and> owners_ok d"

section \<open>What never changes back\<close>

definition row_evolves :: "instance_row \<Rightarrow> instance_row \<Rightarrow> bool" where
  "row_evolves r r' \<longleftrightarrow>
     i_id r' = i_id r \<and> i_owner r' = i_owner r \<and> i_name r' = i_name r \<and> i_naming r' = i_naming r \<and>
     i_created_at r' = i_created_at r \<and> (i_status r = Destroyed \<longrightarrow> i_status r' = Destroyed)"

definition user_evolves :: "user_row \<Rightarrow> user_row \<Rightarrow> bool" where
  "user_evolves u u' \<longleftrightarrow> u_id u' = u_id u \<and> u_role u' = u_role u \<and> u_disabled u' = u_disabled u"

text \<open>Only \<open>disable_user\<close> changes the flag, and only in one direction.\<close>

definition user_ages :: "user_row \<Rightarrow> user_row \<Rightarrow> bool" where
  "user_ages u u' \<longleftrightarrow> u_id u' = u_id u \<and> u_role u' = u_role u \<and> (u_disabled u \<longrightarrow> u_disabled u')"

definition invite_evolves :: "invite_row \<Rightarrow> invite_row \<Rightarrow> bool" where
  "invite_evolves v v' \<longleftrightarrow>
     v_token_hash v' = v_token_hash v \<and> v_email v' = v_email v \<and> v_role v' = v_role v \<and>
     v_capabilities v' = v_capabilities v \<and> v_expires_at v' = v_expires_at v \<and>
     (v_revoked v \<longrightarrow> v_revoked v') \<and> (v_used_by v \<noteq> None \<longrightarrow> v_used_by v' = v_used_by v)"

definition rows_evolve :: "('r \<Rightarrow> 'r \<Rightarrow> bool) \<Rightarrow> 'r list \<Rightarrow> 'r list \<Rightarrow> bool" where
  "rows_evolve E rows rows' \<longleftrightarrow> (\<forall>r \<in> set rows. \<exists>r' \<in> set rows'. E r r')"

definition db_evolves :: "db \<Rightarrow> db \<Rightarrow> bool" where
  "db_evolves d d' \<longleftrightarrow> rows_evolve row_evolves (instances d) (instances d') \<and>
     rows_evolve user_evolves (users d) (users d') \<and> rows_evolve invite_evolves (invites d) (invites d')"

definition db_ages :: "db \<Rightarrow> db \<Rightarrow> bool" where
  "db_ages d d' \<longleftrightarrow> rows_evolve row_evolves (instances d) (instances d') \<and>
     rows_evolve user_ages (users d) (users d') \<and> rows_evolve invite_evolves (invites d) (invites d')"

lemma evolves_refl [simp]: "row_evolves r r" "user_evolves u u" "user_ages u u" "invite_evolves v v"
  by (simp_all add: row_evolves_def user_evolves_def user_ages_def invite_evolves_def)

lemma evolves_trans:
  "row_evolves r r' \<Longrightarrow> row_evolves r' r'' \<Longrightarrow> row_evolves r r''"
  "user_evolves u u' \<Longrightarrow> user_evolves u' u'' \<Longrightarrow> user_evolves u u''"
  "user_ages u u' \<Longrightarrow> user_ages u' u'' \<Longrightarrow> user_ages u u''"
  "invite_evolves v v' \<Longrightarrow> invite_evolves v' v'' \<Longrightarrow> invite_evolves v v''"
  by (auto simp: row_evolves_def user_evolves_def user_ages_def invite_evolves_def)

text \<open>Any reflexive and transitive row relation lifts to tables, whatever is appended.\<close>

locale row_order =
  fixes E :: "'r \<Rightarrow> 'r \<Rightarrow> bool"
  assumes E_refl: "E r r" and E_trans: "E r r' \<Longrightarrow> E r' r'' \<Longrightarrow> E r r''"
begin

lemma evolve_refl: "rows_evolve E rows rows"
  by (auto simp: rows_evolve_def intro: E_refl)

lemma evolve_trans: "rows_evolve E a b \<Longrightarrow> rows_evolve E b c \<Longrightarrow> rows_evolve E a c"
  unfolding rows_evolve_def using E_trans by blast

lemma evolve_append: "rows_evolve E rows (rows @ new)"
  by (auto simp: rows_evolve_def intro: E_refl)

lemma evolve_update:
  assumes "\<And>r. r \<in> set rows \<Longrightarrow> p r \<Longrightarrow> E r (f r)"
  shows "rows_evolve E rows (update_where p f rows)"
  unfolding rows_evolve_def
proof
  fix r assume "r \<in> set rows"
  then have "(if p r then f r else r) \<in> set (update_where p f rows)"
    by (auto simp: update_where_def)
  moreover have "E r (if p r then f r else r)"
    using assms [OF \<open>r \<in> set rows\<close>] E_refl by simp
  ultimately show "\<exists>r' \<in> set (update_where p f rows). E r r'" ..
qed

end

interpretation rows: row_order row_evolves
  by unfold_locales (auto intro: evolves_trans)

interpretation accounts: row_order user_evolves
  by unfold_locales (auto intro: evolves_trans)

interpretation aging: row_order user_ages
  by unfold_locales (auto intro: evolves_trans)

interpretation tokens: row_order invite_evolves
  by unfold_locales (auto intro: evolves_trans)

section \<open>Safe changes\<close>

definition safe :: "'w plane \<Rightarrow> db \<Rightarrow> db \<Rightarrow> bool" where
  "safe cf d d' \<longleftrightarrow> (db_ok cf d \<longrightarrow> db_ok cf d' \<and> db_evolves d d')"

lemma safe_refl [simp, intro]: "safe cf d d"
  by (simp add: safe_def db_evolves_def rows.evolve_refl accounts.evolve_refl tokens.evolve_refl)

lemma safe_trans: "safe cf a b \<Longrightarrow> safe cf b c \<Longrightarrow> safe cf a c"
  unfolding safe_def db_evolves_def
  by (blast intro: rows.evolve_trans accounts.evolve_trans tokens.evolve_trans)

text \<open>Changes outside the four tables.\<close>

lemma safe_same:
  "instances d' = instances d \<Longrightarrow> users d' = users d \<Longrightarrow> invites d' = invites d \<Longrightarrow> configs d' = configs d
   \<Longrightarrow> safe cf d d'"
  by (simp add: safe_def db_ok_def db_evolves_def instances_ok_def users_ok_def invites_ok_def configs_ok_def
      owners_ok_def live_count_def rows.evolve_refl accounts.evolve_refl tokens.evolve_refl)

lemma safe_audit [simp, intro]: "safe cf d (audit t a b c e d)"
  by (rule safe_same) simp_all

lemma safe_audit_after: "safe cf d d' \<Longrightarrow> safe cf d (audit t a b c e d')"
  by (rule safe_trans [OF _ safe_audit])

lemma safe_then_audit: "safe cf d d' \<Longrightarrow> safe cf (audit t a b c e d) (audit t a b c e d')"
  by (rule safe_audit_after) (rule safe_trans [OF safe_same], simp_all)

text \<open>An update of instance rows that keeps each row well-formed and moves it forward.\<close>

lemma safe_rows:
  assumes "\<And>r. r \<in> set (instances d) \<Longrightarrow> p r \<Longrightarrow> row_ok cf r \<Longrightarrow> row_ok cf (f r) \<and> row_evolves r (f r)"
  shows "safe cf d (d\<lparr>instances := update_where p f (instances d)\<rparr>)"
  unfolding safe_def
proof
  assume ok: "db_ok cf d"
  then have rows: "\<forall>r \<in> set (instances d). row_ok cf r" by (simp add: db_ok_def instances_ok_def)
  let ?is = "update_where p f (instances d)"
  have step: "row_ok cf (f r) \<and> row_evolves r (f r)" if "r \<in> set (instances d)" "p r" for r
    using assms that rows by blast
  have ids: "map i_id ?is = map i_id (instances d)"
    using step by (auto simp: update_where_def row_evolves_def)
  have "count_where (\<lambda>r. i_status r \<noteq> Destroyed) ?is \<le> count_where (\<lambda>r. i_status r \<noteq> Destroyed) (instances d)"
    using step by (intro count_where_update_le) (auto simp: row_evolves_def)
  with ok have "live_count (\<lambda>_. True) (d\<lparr>instances := ?is\<rparr>) \<le> max 0 (l_global_max_instances (cp_limits cf))"
    by (simp add: db_ok_def instances_ok_def live_count_def)
  moreover have "\<forall>r \<in> set ?is. row_ok cf r" using rows step by (auto simp: row_simps)
  moreover have "\<forall>r \<in> set ?is. i_owner r \<in> u_id ` set (users d)"
    using ok step by (fastforce simp: row_simps db_ok_def owners_ok_def row_evolves_def)
  moreover have "rows_evolve row_evolves (instances d) ?is"
    using step by (intro rows.evolve_update) blast
  ultimately show "db_ok cf (d\<lparr>instances := ?is\<rparr>) \<and> db_evolves d (d\<lparr>instances := ?is\<rparr>)"
    using ok ids
    by (simp add: db_ok_def instances_ok_def users_ok_def invites_ok_def configs_ok_def owners_ok_def
        db_evolves_def accounts.evolve_refl tokens.evolve_refl)
qed

lemma safe_update_instance:
  assumes "\<And>r. r \<in> set (instances d) \<Longrightarrow> i_id r = iid \<Longrightarrow> p (i_status r) \<Longrightarrow> row_ok cf r \<Longrightarrow>
     row_ok cf (touch now f r) \<and> row_evolves r (touch now f r)"
  shows "safe cf d (update_instance iid p now f d)"
  unfolding update_instance_def by (rule safe_rows) (use assms in blast)

text \<open>By the primary key, an update by id changes the one row that was looked up.\<close>

lemma safe_set_row:
  assumes "find_row i_id iid (instances d) = Some r"
    and "row_ok cf r \<Longrightarrow> row_ok cf (touch now f r) \<and> row_evolves r (touch now f r)"
  shows "safe cf d (set_row iid now f d)"
  unfolding safe_def
proof
  assume ok: "db_ok cf d"
  then have dist: "distinct (map i_id (instances d))" by (simp add: db_ok_def instances_ok_def)
  have "safe cf d (set_row iid now f d)"
    unfolding set_row_def
  proof (rule safe_update_instance)
    fix x assume "x \<in> set (instances d)" "i_id x = iid" "row_ok cf x"
    with find_row_distinct [OF dist, of x] assms show "row_ok cf (touch now f x) \<and> row_evolves x (touch now f x)"
      by simp
  qed
  with ok show "db_ok cf (set_row iid now f d) \<and> db_evolves d (set_row iid now f d)" by (simp add: safe_def)
qed

lemma safe_new_row:
  assumes "i_id r \<notin> i_id ` set (instances d)" and "row_ok cf r" and "i_owner r \<in> u_id ` set (users d)"
    and "live_count (\<lambda>_. True) d < l_global_max_instances (cp_limits cf)"
  shows "safe cf d (d\<lparr>instances := instances d @ [r]\<rparr>)"
  using assms
  by (auto simp: safe_def db_ok_def instances_ok_def users_ok_def invites_ok_def configs_ok_def owners_ok_def
      live_count_def row_simps db_evolves_def rows.evolve_append accounts.evolve_refl tokens.evolve_refl)

text \<open>Users and invites.\<close>

lemma users_update_ok:
  assumes "db_ok cf d"
    and "\<And>u. u \<in> set (users d) \<Longrightarrow> p u \<Longrightarrow> u_id (f u) = u_id u \<and>
     (set (u_capabilities u) \<subseteq> set CAPABILITIES \<longrightarrow> set (u_capabilities (f u)) \<subseteq> set CAPABILITIES)"
  shows "db_ok cf (d\<lparr>users := update_where p f (users d)\<rparr>)"
proof -
  have ids: "map u_id (update_where p f (users d)) = map u_id (users d)"
    using assms(2) by (auto simp: update_where_def)
  then have img: "u_id ` set (update_where p f (users d)) = u_id ` set (users d)"
    by (metis list.set_map)
  have "users_ok (d\<lparr>users := update_where p f (users d)\<rparr>)"
    unfolding users_ok_def
  proof (intro conjI ballI)
    fix x assume "x \<in> set (users (d\<lparr>users := update_where p f (users d)\<rparr>))"
    then obtain q where q: "q \<in> set (users d)" "x = (if p q then f q else q)" by (auto simp: row_simps)
    with assms(1) have "set (u_capabilities q) \<subseteq> set CAPABILITIES" by (simp add: db_ok_def users_ok_def)
    with assms(2) [OF q(1)] q(2) show "set (u_capabilities x) \<subseteq> set CAPABILITIES" by simp
  qed (use ids assms(1) in \<open>simp add: db_ok_def users_ok_def\<close>)
  with img assms(1) show ?thesis
    by (simp add: db_ok_def instances_ok_def invites_ok_def configs_ok_def owners_ok_def live_count_def)
qed

lemma safe_users:
  assumes "\<And>u. u \<in> set (users d) \<Longrightarrow> p u \<Longrightarrow> user_evolves u (f u) \<and>
     (set (u_capabilities u) \<subseteq> set CAPABILITIES \<longrightarrow> set (u_capabilities (f u)) \<subseteq> set CAPABILITIES)"
  shows "safe cf d (d\<lparr>users := update_where p f (users d)\<rparr>)"
proof -
  have "rows_evolve user_evolves (users d) (update_where p f (users d))"
    using assms by (intro accounts.evolve_update) blast
  moreover have "db_ok cf d \<Longrightarrow> db_ok cf (d\<lparr>users := update_where p f (users d)\<rparr>)"
    by (rule users_update_ok) (use assms user_evolves_def in auto)
  ultimately show ?thesis
    by (simp add: safe_def db_evolves_def rows.evolve_refl tokens.evolve_refl)
qed

lemma safe_new_user:
  assumes "u_id u \<notin> u_id ` set (users d)" and "set (u_capabilities u) \<subseteq> set CAPABILITIES"
  shows "safe cf d (d\<lparr>users := users d @ [u]\<rparr>)"
  using assms
  by (auto simp: safe_def db_ok_def instances_ok_def users_ok_def invites_ok_def configs_ok_def owners_ok_def
      live_count_def db_evolves_def rows.evolve_refl accounts.evolve_append tokens.evolve_refl)

lemma safe_invites:
  assumes "\<And>v. v \<in> set (invites d) \<Longrightarrow> p v \<Longrightarrow> invite_evolves v (f v) \<and>
     (\<forall>u. v_used_by (f v) = Some u \<longrightarrow> v_used_by v = Some u \<or> (u \<noteq> [] \<and> u \<in> u_id ` set (users d)))"
  shows "safe cf d (d\<lparr>invites := update_where p f (invites d)\<rparr>)"
proof -
  have ids: "map v_token_hash (update_where p f (invites d)) = map v_token_hash (invites d)"
    using assms by (auto simp: update_where_def invite_evolves_def)
  have "rows_evolve invite_evolves (invites d) (update_where p f (invites d))"
    using assms by (intro tokens.evolve_update) blast
  moreover have "invites_ok d \<Longrightarrow> invites_ok (d\<lparr>invites := update_where p f (invites d)\<rparr>)"
    unfolding invites_ok_def
  proof (intro conjI ballI)
    fix v assume ok: "distinct (map v_token_hash (invites d)) \<and>
      (\<forall>v \<in> set (invites d). set (v_capabilities v) \<subseteq> set CAPABILITIES \<and>
        (\<forall>u. v_used_by v = Some u \<longrightarrow> u \<noteq> [] \<and> u \<in> u_id ` set (users d)))"
      and "v \<in> set (invites (d\<lparr>invites := update_where p f (invites d)\<rparr>))"
    then obtain q where q: "q \<in> set (invites d)" "v = (if p q then f q else q)" by (auto simp: row_simps)
    with ok assms [OF q(1)] show "set (v_capabilities v) \<subseteq> set CAPABILITIES"
      and "\<forall>u. v_used_by v = Some u \<longrightarrow> u \<noteq> [] \<and> u \<in> u_id ` set (users (d\<lparr>invites := update_where p f (invites d)\<rparr>))"
      by (auto simp: invite_evolves_def split: if_splits)
  qed (use ids in simp)
  ultimately show ?thesis
    by (simp add: safe_def db_ok_def instances_ok_def users_ok_def configs_ok_def owners_ok_def live_count_def
        db_evolves_def rows.evolve_refl accounts.evolve_refl)
qed

lemma safe_new_invite:
  assumes "v_token_hash v \<notin> v_token_hash ` set (invites d)" and "set (v_capabilities v) \<subseteq> set CAPABILITIES"
    and "v_used_by v = None"
  shows "safe cf d (d\<lparr>invites := invites d @ [v]\<rparr>)"
  using assms
  by (auto simp: safe_def db_ok_def instances_ok_def users_ok_def invites_ok_def configs_ok_def owners_ok_def
      live_count_def db_evolves_def rows.evolve_refl accounts.evolve_refl tokens.evolve_append)

lemma safe_configs:
  assumes "configs_ok d \<Longrightarrow> configs_ok d'" and "instances d' = instances d" "users d' = users d" "invites d' = invites d"
  shows "safe cf d d'"
  using assms
  by (auto simp: safe_def db_ok_def instances_ok_def users_ok_def invites_ok_def owners_ok_def live_count_def
      db_evolves_def rows.evolve_refl accounts.evolve_refl tokens.evolve_refl)

section \<open>Aging\<close>

text \<open>The weaker notion that covers \<open>disable_user\<close> too.\<close>

definition ages :: "'w plane \<Rightarrow> db \<Rightarrow> db \<Rightarrow> bool" where
  "ages cf d d' \<longleftrightarrow> (db_ok cf d \<longrightarrow> db_ok cf d' \<and> db_ages d d')"

lemma evolves_ages: "db_evolves d d' \<Longrightarrow> db_ages d d'"
  by (fastforce simp: db_evolves_def db_ages_def rows_evolve_def user_evolves_def user_ages_def)

lemma safe_ages: "safe cf d d' \<Longrightarrow> ages cf d d'"
  by (simp add: safe_def ages_def evolves_ages)

lemma ages_refl [simp]: "ages cf d d"
  by (simp add: safe_ages)

lemma db_ages_trans: "db_ages a b \<Longrightarrow> db_ages b c \<Longrightarrow> db_ages a c"
  unfolding db_ages_def by (blast intro: rows.evolve_trans aging.evolve_trans tokens.evolve_trans)

lemma ages_trans: "ages cf a b \<Longrightarrow> ages cf b c \<Longrightarrow> ages cf a c"
  unfolding ages_def by (blast intro: db_ages_trans)

lemma ages_disabled: "ages cf d (set_user uid (u_disabled_update (\<lambda>_. True)) d)"
  unfolding ages_def set_user_def
proof
  assume ok: "db_ok cf d"
  have "rows_evolve user_ages (users d) (update_where (\<lambda>u. u_id u = uid) (u_disabled_update (\<lambda>_. True)) (users d))"
    by (rule aging.evolve_update) (simp add: user_ages_def)
  with users_update_ok [OF ok] show "db_ok cf (d\<lparr>users := update_where (\<lambda>u. u_id u = uid) (u_disabled_update (\<lambda>_. True)) (users d)\<rparr>) \<and>
      db_ages d (d\<lparr>users := update_where (\<lambda>u. u_id u = uid) (u_disabled_update (\<lambda>_. True)) (users d)\<rparr>)"
    by (simp add: db_ages_def rows.evolve_refl tokens.evolve_refl)
qed

end
