(* ===== verification/Steps.thy ===== *)
theory Steps
  imports Invariants
begin

text \<open>
  Every operation of the control plane is a safe change of the database: it keeps the
  invariant and moves each row forward only.
\<close>

definition cp_safe :: "'w plane \<Rightarrow> 'w cp \<Rightarrow> 'w cp \<Rightarrow> bool" where
  "cp_safe cf s s' \<longleftrightarrow> safe cf (database s) (database s') \<and> set (keys s') \<subseteq> set (keys s)"

lemma cp_safe_refl [simp, intro]: "cp_safe cf s s"
  by (simp add: cp_safe_def)

lemma cp_safe_trans: "cp_safe cf a b \<Longrightarrow> cp_safe cf b c \<Longrightarrow> cp_safe cf a c"
  unfolding cp_safe_def by (blast intro: safe_trans)

lemma cp_safe_db: "safe cf (database s) d \<Longrightarrow> cp_safe cf s (s\<lparr>database := d\<rparr>)"
  by (simp add: cp_safe_def)

lemma cp_safe_eq: "database s' = database s \<Longrightarrow> set (keys s') \<subseteq> set (keys s) \<Longrightarrow> cp_safe cf s s'"
  by (simp add: cp_safe_def)

lemma cp_safe_submit [simp]: "cp_safe cf s (submit j s') \<longleftrightarrow> cp_safe cf s s'"
  by (simp add: cp_safe_def submit_def)

text \<open>One introduction rule per control structure of an operation.\<close>

lemma cp_bind:
  "cp_safe cf s (snd m) \<Longrightarrow> (\<And>r s'. m = (r, s') \<Longrightarrow> cp_safe cf s' (snd (g r s'))) \<Longrightarrow>
   cp_safe cf s (snd (case m of (r, s') \<Rightarrow> g r s'))"
  by (cases m) (auto intro: cp_safe_trans)

lemma cp_let: "cp_safe cf s (snd (f x)) \<Longrightarrow> cp_safe cf s (snd (let y = x in f y))"
  by simp

lemma cp_if:
  "(b \<Longrightarrow> cp_safe cf s (snd t)) \<Longrightarrow> (\<not> b \<Longrightarrow> cp_safe cf s (snd u)) \<Longrightarrow> cp_safe cf s (snd (if b then t else u))"
  by simp

lemma cp_sum:
  "(\<And>e. x = Inl e \<Longrightarrow> cp_safe cf s (snd (f e))) \<Longrightarrow> (\<And>a. x = Inr a \<Longrightarrow> cp_safe cf s (snd (g a))) \<Longrightarrow>
   cp_safe cf s (snd (case x of Inl e \<Rightarrow> f e | Inr a \<Rightarrow> g a))"
  by (cases x) auto

lemma cp_option:
  "(x = None \<Longrightarrow> cp_safe cf s (snd u)) \<Longrightarrow> (\<And>a. x = Some a \<Longrightarrow> cp_safe cf s (snd (g a))) \<Longrightarrow>
   cp_safe cf s (snd (case x of None \<Rightarrow> u | Some a \<Rightarrow> g a))"
  by (cases x) auto

lemma cp_prod:
  "(\<And>a b. x = (a, b) \<Longrightarrow> cp_safe cf s (snd (g a b))) \<Longrightarrow> cp_safe cf s (snd (case x of (a, b) \<Rightarrow> g a b))"
  by (cases x) auto

lemma cp_pair: "cp_safe cf s s' \<Longrightarrow> cp_safe cf s (snd (r, s'))"
  by simp

lemma cp_on_db: "safe cf (database s) (snd (f (database s))) \<Longrightarrow> cp_safe cf s (snd (on_db f s))"
  by (auto simp: on_db_def cp_safe_def split: prod.splits)

lemma keys_get_subset: "set (snd (keys_get sid u now ks)) \<subseteq> set ks"
  by (auto simp: keys_get_def AList.delete_eq split: option.splits)

lemma cp_on_world: "cp_safe cf s s' \<Longrightarrow> cp_safe cf s (snd (on_world f s'))"
  by (auto simp: on_world_def cp_safe_def split: prod.splits)

lemma cp_sealer: "cp_safe cf s s' \<Longrightarrow> cp_safe cf s (snd (sealer_of who now s'))"
  using keys_get_subset [of "who_session who" "who_user who" now "keys s'"]
  by (auto simp: sealer_of_def on_keys_def cp_safe_def split: prod.splits)

lemmas cp_rules = cp_on_db cp_on_world cp_sealer cp_pair cp_bind cp_let cp_if cp_sum cp_option cp_prod

text \<open>The same for functions of the database.\<close>

lemma db_let: "safe cf d (snd (f x)) \<Longrightarrow> safe cf d (snd (let y = x in f y))"
  by simp

lemma db_if: "(b \<Longrightarrow> safe cf d (snd t)) \<Longrightarrow> (\<not> b \<Longrightarrow> safe cf d (snd u)) \<Longrightarrow> safe cf d (snd (if b then t else u))"
  by simp

lemma db_sum:
  "(\<And>e. x = Inl e \<Longrightarrow> safe cf d (snd (f e))) \<Longrightarrow> (\<And>a. x = Inr a \<Longrightarrow> safe cf d (snd (g a))) \<Longrightarrow>
   safe cf d (snd (case x of Inl e \<Rightarrow> f e | Inr a \<Rightarrow> g a))"
  by (cases x) auto

lemma db_option:
  "(x = None \<Longrightarrow> safe cf d (snd u)) \<Longrightarrow> (\<And>a. x = Some a \<Longrightarrow> safe cf d (snd (g a))) \<Longrightarrow>
   safe cf d (snd (case x of None \<Rightarrow> u | Some a \<Rightarrow> g a))"
  by (cases x) auto

lemma db_prod:
  "(\<And>a b. x = (a, b) \<Longrightarrow> safe cf d (snd (g a b))) \<Longrightarrow> safe cf d (snd (case x of (a, b) \<Rightarrow> g a b))"
  by (cases x) auto

lemma db_pair: "safe cf d d' \<Longrightarrow> safe cf d (snd (r, d'))"
  by simp

lemmas db_rules = db_pair db_let db_if db_sum db_option db_prod safe_refl safe_audit_after

section \<open>Accounts\<close>

lemma safe_set_user:
  assumes "\<And>u. user_evolves u (f u) \<and>
     (set (u_capabilities u) \<subseteq> set CAPABILITIES \<longrightarrow> set (u_capabilities (f u)) \<subseteq> set CAPABILITIES)"
  shows "safe cf d (set_user uid f d)"
  unfolding set_user_def by (rule safe_users) (use assms in blast)

lemma safe_check_key: "safe cf d (snd (check_key cf' uid k now r u d))"
  unfolding check_key_def
  by (intro db_rules) (auto simp: user_evolves_def intro!: safe_set_user)

lemma safe_set_privatedata: "safe cf d (snd (set_privatedata who b now d))"
  unfolding set_privatedata_def by (intro db_rules safe_set_user) (simp_all add: user_evolves_def)

lemma safe_bootstrap_admin: "safe cf d (snd (bootstrap_admin cf name email now r d))"
  unfolding bootstrap_admin_def
  by (intro db_rules) (auto simp: insert_row_Inr_iff intro!: safe_new_user)

lemma safe_bootstrap_invite: "safe cf d (snd (bootstrap_invite cf days now r d))"
  unfolding bootstrap_invite_def
  by (intro db_rules) (auto simp: insert_row_Inr_iff intro!: safe_new_invite)

lemma unknown_caps_Nil: "unknown_caps caps = [] \<longleftrightarrow> set caps \<subseteq> set CAPABILITIES"
  by (auto simp: unknown_caps_def filter_empty_conv)

lemma safe_create_invite: "safe cf d (snd (create_invite cf who x now r d))"
  unfolding create_invite_def
  by (intro db_rules) (auto simp: insert_row_Inr_iff unknown_caps_Nil intro!: safe_new_invite)

lemma safe_revoke: "safe cf d (d\<lparr>invites := update_where p (v_revoked_update (\<lambda>_. True)) (invites d)\<rparr>)"
  by (rule safe_invites) (simp add: invite_evolves_def)

lemma safe_revoke_invite: "safe cf d (snd (revoke_invite cf who t now d))"
  unfolding revoke_invite_def
  by (auto split: sum.splits list.splits intro!: safe_audit_after safe_revoke)

lemma safe_if_ok: "(db_ok cf d \<Longrightarrow> safe cf d d') \<Longrightarrow> safe cf d d'"
  by (simp add: safe_def)

text \<open>An invite that can be redeemed is unused, not only "not used by a named user".\<close>

lemma redeemable_unused:
  assumes "invite_problem cf token email now d = Inr v" and "db_ok cf' d" and "x \<in> set (invites d)"
    and "v_token_hash x = v_token_hash v"
  shows "v_used_by x = None \<and> set (v_capabilities v) \<subseteq> set CAPABILITIES"
proof -
  from invite_problem_Inr [OF assms(1)] have v: "find_row v_token_hash (v_token_hash v) (invites d) = Some v"
    and unused: "\<not> truthy_str (v_used_by v)" by auto
  from assms(2) have ok: "invites_ok d" by (simp add: db_ok_def)
  then have "find_row v_token_hash (v_token_hash v) (invites d) = Some x"
    using find_row_distinct [of v_token_hash "invites d" x] assms(3,4) by (simp add: invites_ok_def)
  with v have "x = v" by simp
  with ok assms(3) unused show ?thesis
    by (cases "v_used_by v") (auto simp: invites_ok_def truthy_str_def)
qed

lemma safe_redeem_invite: "safe cf d (snd (redeem_invite cf token name email now r d))"
proof (rule safe_if_ok)
  assume ok: "db_ok cf d"
  show "safe cf d (snd (redeem_invite cf token name email now r d))"
  proof (cases "invite_problem cf token email now d")
    case (Inr v)
    let ?uid = "''u_'' @ d_hex r"
    let ?d = "d\<lparr>users := users d @ [invited_user v ?uid name email now]\<rparr>"
    have "safe cf d (d\<lparr>users := users d @ [invited_user v ?uid name email now],
        invites := update_where (\<lambda>x. v_token_hash x = v_token_hash v)
                     (\<lambda>x. x\<lparr>v_used_by := Some ?uid, v_used_at := Some now\<rparr>) (invites d)\<rparr>)"
      if fresh: "?uid \<notin> u_id ` set (users d)"
    proof -
      have "set (v_capabilities v) \<subseteq> set CAPABILITIES"
        using redeemable_unused [OF Inr ok, of v] invite_problem_Inr [OF Inr] by (auto dest: find_row_SomeD)
      with fresh have "safe cf d ?d" by (intro safe_new_user) simp_all
      moreover have "safe cf ?d (?d\<lparr>invites := update_where (\<lambda>x. v_token_hash x = v_token_hash v)
          (\<lambda>x. x\<lparr>v_used_by := Some ?uid, v_used_at := Some now\<rparr>) (invites ?d)\<rparr>)"
        by (rule safe_invites) (auto simp: invite_evolves_def dest: redeemable_unused [OF Inr ok])
      ultimately have "safe cf d (?d\<lparr>invites := update_where (\<lambda>x. v_token_hash x = v_token_hash v)
          (\<lambda>x. x\<lparr>v_used_by := Some ?uid, v_used_at := Some now\<rparr>) (invites ?d)\<rparr>)"
        by (rule safe_trans)
      then show ?thesis by simp
    qed
    then show ?thesis by (simp add: redeem_invite_cases [OF Inr] Let_def safe_audit_after)
  qed (simp add: redeem_invite_def)
qed

lemma safe_grant: "safe cf d (snd (grant who uid g now d))"
  unfolding grant_def
  by (intro db_rules safe_set_user)
    (auto simp: user_evolves_def granted_def unknown_caps_Nil split: option.splits)

lemma safe_expire: "safe cf d (d\<lparr>instances := update_where p (expire_by soon) (instances d)\<rparr>)"
  by (rule safe_rows) (auto simp: row_ok_def row_evolves_def expire_by_def naming_of_def)

lemma ages_disable_user: "ages cf (database s) (database (snd (disable_user cf' who uid now s)))"
  by (auto simp: disable_user_def Let_def split: sum.splits
      intro!: ages_trans [OF ages_disabled safe_ages] safe_audit_after safe_expire)

section \<open>Configs\<close>

lemma safe_store_config: "safe cf d (snd (store_config who name b now r d))"
proof (cases "find (is_config who name) (configs d)")
  case None
  then have "(who_user who, name) \<notin> (\<lambda>c. (c_owner c, c_cname c)) ` set (configs d)"
    by (auto simp: find_None_iff is_config_def)
  with None show ?thesis
    unfolding store_config_def
    by (auto simp: insert_row_Inr_iff configs_ok_def Let_def split: sum.splits intro!: safe_audit_after safe_configs)
next
  case (Some c)
  with Some show ?thesis
    unfolding store_config_def
    by (auto simp: configs_ok_def resaved.keys_update renamed.keys_update intro!: safe_audit_after safe_configs)
qed

lemma cp_safe_save_config: "cp_safe cf s (snd (save_config cf' who name doc now r s))"
  unfolding save_config_def by (intro cp_rules cp_safe_refl safe_store_config)

lemma cp_safe_get_config: "cp_safe cf s (snd (get_config cf' who name now s))"
  unfolding get_config_def by (intro cp_rules cp_safe_refl)

lemma safe_delete_config: "safe cf d (delete_config who name now d)"
  unfolding delete_config_def
  by (auto simp: configs_ok_def delete_where_def distinct_map_filter intro!: safe_audit_after safe_configs)

lemma map_sum_Inr_elim:
  assumes "map_sum f g x = Inr b" obtains a where "x = Inr a" "b = g a"
  using assms by (cases x) auto

section \<open>Instances\<close>

lemma cp_safe_requested_config: "cp_safe cf s (snd (requested_config cf' who c n now s))"
  unfolding requested_config_def by (intro cp_rules cp_safe_refl cp_safe_get_config)

lemma unused_id_Inr: "unused_id ids n d = Inr iid \<Longrightarrow> iid \<notin> i_id ` set (instances d) \<and> iid \<notin> set RESERVED_IDS"
  by (induction ids n d rule: unused_id.induct) (auto simp: Let_def find_row_None_iff split: if_splits)

text \<open>What a new instance is, when the transaction allows one.\<close>

lemma new_instance_Inr:
  assumes "new_instance cf who u k config cname name keep now r d = Inr (row, sp)"
  shows "i_id row \<notin> i_id ` set (instances d)" and "i_id row \<notin> set RESERVED_IDS"
    and "i_owner row = who_user who" and "i_status row = Creating"
    and "row_ok cf row"
    and "live_count (\<lambda>x. i_owner x = who_user who) d < u_max_concurrent u"
    and "live_count (\<lambda>_. True) d < l_global_max_instances (cp_limits cf)"
    and "i_kept row = keep" and "keep \<Longrightarrow> check_keep u now d = Inr ()"
    and "\<not> keep \<Longrightarrow> i_expires_at row = Some (now + l_ttl_days (cp_limits cf) * DAY)"
    and "build_spec config (i_id row) (u_capabilities u) (cp_platform cf) = Inr sp"
  using assms
  by (auto simp: new_instance_def Let_def row_ok_def naming_of_def naming_roundtrip
      dest!: unused_id_Inr dest: build_spec_naming split: if_splits)

lemma user_Inr: "user uid d = Inr u \<Longrightarrow> find_row u_id uid (users d) = Some u \<and> u \<in> set (users d) \<and> u_id u = uid"
  by (auto simp: user_def dest: find_row_SomeD split: option.splits)

lemma cp_safe_create_instance: "cp_safe cf s (snd (create_instance cf who c n name keep now r s))"
  unfolding create_instance_def
proof (intro cp_rules cp_safe_refl cp_safe_requested_config)
  fix s2 :: "'a cp" and u k cfg cname p row sp
  assume u: "user (who_user who) (database s2) = Inr u"
    and "new_instance cf who u k cfg cname name keep now r (database s2) = Inr p" and "p = (row, sp)"
  then have new: "new_instance cf who u k cfg cname name keep now r (database s2) = Inr (row, sp)" by simp
  have owner: "i_owner row \<in> u_id ` set (users (database s2))"
    using user_Inr [OF u] new_instance_Inr(3) [OF new] by (metis image_eqI)
  have "safe cf (database s2) ((database s2)\<lparr>instances := instances (database s2) @ [row]\<rparr>)"
    by (intro safe_new_row owner new_instance_Inr(1,5,7) [OF new])
  then show "cp_safe cf s2 (submit (Deploy_job (i_id row) k) (s2\<lparr>database := audit now (who_user who) ''create_instance'' (i_id row)
      [(''kept'', JBool keep), (''images'', JList (map JStr (sort (map fst (s_images sp))))), (''config_name'', opt_json JStr cname)]
      ((database s2)\<lparr>instances := instances (database s2) @ [row]\<rparr>)\<rparr>))"
    by (simp add: cp_safe_db safe_audit_after)
qed

text \<open>Access.\<close>

lemma instance_row_Inr:
  "instance_row who iid adm d = Inr r \<Longrightarrow>
   find_row i_id iid (instances d) = Some r \<and> (i_owner r = who_user who \<or> (adm \<and> is_admin who))"
  by (auto simp: instance_row_def split: option.splits if_splits)

lemma state_guard_Inr: "state_guard verb allowed r = Inr r' \<longleftrightarrow> r' = r \<and> i_status r \<in> set allowed"
  by (auto simp: state_guard_def)

lemma safe_power_commit:
  assumes "find_row i_id iid (instances d) = Some r" and "i_status r \<noteq> Destroyed" and "target \<noteq> Reconfiguring"
  shows "safe cf d (snd (power_commit who iid target action report now d))"
proof -
  have "safe cf d (set_row iid now (\<lambda>r. r\<lparr>i_status := (if power_ok report then target else Failed),
          i_error := (if power_ok report then [] else take 300 (failed_text (pr_failed report)))\<rparr>) d)"
    using assms by (intro safe_set_row [OF assms(1)]) (auto simp: row_ok_def row_evolves_def touch_def naming_of_def)
  then show ?thesis by (simp add: power_commit_def Let_def safe_audit_after)
qed

lemma cp_safe_stop: "cp_safe cf s (snd (stop_instance_op cf' who iid now s))"
  unfolding stop_instance_op_def
  by (intro cp_rules cp_safe_refl)
    (auto dest!: on_world_frame instance_row_Inr simp: stop_check_def state_guard_Inr intro!: safe_power_commit)

lemma cp_safe_start: "cp_safe cf s (snd (start_instance_op cf' who iid now s))"
  unfolding start_instance_op_def
  by (intro cp_rules cp_safe_refl)
    (auto dest!: on_world_frame instance_row_Inr simp: start_check_def state_guard_Inr intro!: safe_power_commit)

lemma safe_destroy_commit: "safe cf d (destroy_commit actor iid report now d)" if "find_row i_id iid (instances d) = Some r" and "i_status r \<noteq> Destroyed \<or> destroy_ok report"
proof -
  have "safe cf d (set_row iid now (\<lambda>r. r\<lparr>i_status := Destroyed, i_urls := []\<rparr>) d)"
    by (intro safe_set_row [OF that(1)]) (auto simp: row_ok_def row_evolves_def touch_def naming_of_def)
  moreover have "safe cf e (e\<lparr>state_rows := x\<rparr>)" for e x by (rule safe_same) simp_all
  moreover have "safe cf d (set_row iid now (\<lambda>r. r\<lparr>i_status := Failed, i_error := m\<rparr>) d)" if "i_status r \<noteq> Destroyed" for m
    using that \<open>find_row i_id iid (instances d) = Some r\<close>
    by (intro safe_set_row) (auto simp: row_ok_def row_evolves_def touch_def naming_of_def)
  ultimately show ?thesis
    using that(2) by (auto simp: destroy_commit_def Let_def intro!: safe_audit_after intro: safe_trans)
qed

text \<open>An update of one row leaves the look-up of the others alone.\<close>

lemma find_set_row:
  assumes "\<And>r. i_id (f r) = i_id r"
  shows "find_row i_id j (instances (set_row iid now f d)) =
    (if j = iid then map_option (touch now f) (find_row i_id j (instances d)) else find_row i_id j (instances d))"
proof -
  have "key_update i_id (touch now f)" by unfold_locales (simp add: touch_def assms)
  from key_update.find_update [OF this] show ?thesis
    by (cases "find_row i_id j (instances d)")
      (auto simp: set_row_def update_instance_def dest: find_row_SomeD)
qed

lemma find_destroy_commit:
  "j \<noteq> iid \<Longrightarrow> find_row i_id j (instances (destroy_commit actor iid report now d)) = find_row i_id j (instances d)"
  by (simp add: destroy_commit_def Let_def find_set_row)

lemma cp_safe_destroy_row:
  assumes "find_row i_id iid (instances (database s)) = Some r"
  shows "cp_safe cf s (snd (destroy_row cf' r actor now s))"
proof -
  from find_row_SomeD [OF assms] have "i_id r = iid" by simp
  with assms show ?thesis
    unfolding destroy_row_def
    by (intro cp_rules cp_safe_refl) (auto simp: cp_safe_def dest!: on_world_frame intro!: safe_destroy_commit [where r = r])
qed

lemma cp_safe_destroy: "cp_safe cf s (snd (destroy_instance_op cf' who iid now s))"
  unfolding destroy_instance_op_def
  by (intro cp_rules cp_safe_refl) (auto dest!: instance_row_Inr intro!: cp_safe_destroy_row)

lemma safe_mark_resetting:
  assumes "find_row i_id iid (instances d) = Some r" and "i_status r \<noteq> Destroyed"
  shows "safe cf d (mark_resetting iid now d)"
  unfolding mark_resetting_def
  by (intro safe_set_row [OF assms(1)]) (use assms(2) in \<open>auto simp: row_ok_def row_evolves_def touch_def naming_of_def\<close>)

lemma safe_reset_mark:
  assumes "bind_sum (bind_sum (instance_row who iid False d) (state_guard ''reset'' [Running, Stopped, Failed])) naming_of = Inr n"
  shows "safe cf d (mark_resetting iid now d)"
  using assms by (auto simp: state_guard_Inr dest!: instance_row_Inr intro!: safe_mark_resetting)

lemma cp_safe_reset: "cp_safe cf s (snd (reset_instance_op cf' who iid now s))"
  unfolding reset_instance_op_def
  by (intro cp_rules cp_safe_refl)
    (simp_all add: cp_safe_db safe_reset_mark safe_audit_after del: bind_sum_Inr_iff)

lemma cp_safe_get_instance_config: "cp_safe cf s (snd (get_instance_config cf' who iid now s))"
  unfolding get_instance_config_def by (intro cp_rules cp_safe_refl)

lemma cp_safe_credentials: "cp_safe cf s (snd (instance_credentials cf' who iid now s))"
  unfolding instance_credentials_def by (intro cp_rules cp_safe_refl)

lemma safe_set_pending: "safe cf d (snd (set_pending iid sp c now d))"
  unfolding set_pending_def
  by (intro db_rules safe_set_row) (auto simp: row_ok_def row_evolves_def touch_def naming_of_def)

lemma cp_safe_reconfigure: "cp_safe cf s (snd (reconfigure_instance cf' who iid c n now r s))"
  unfolding reconfigure_instance_def
  by (intro cp_rules cp_safe_refl cp_safe_requested_config safe_set_pending)
    (simp_all add: cp_safe_db)

lemma safe_set_keep: "safe cf d (snd (set_keep cf' who iid keep now d))"
proof -
  have "safe cf d d1"
    if "find_row i_id iid (instances d) = Some r"
      and "(if keep \<and> \<not> i_kept r then
                   map_sum id (\<lambda>_. set_row iid now (\<lambda>x. x\<lparr>i_kept := True, i_expires_at := None\<rparr>) d) (check_keep u now d)
                 else if \<not> keep \<and> i_kept r then
                   Inr (set_row iid now (\<lambda>x. x\<lparr>i_kept := False, i_expires_at := Some (now + l_ttl_days (cp_limits cf') * DAY)\<rparr>) d)
                 else Inr d) = Inr d1" for r u d1
    using that(2)
    by (auto split: if_splits simp: row_ok_def row_evolves_def touch_def naming_of_def intro!: safe_set_row [OF that(1)]
        elim!: map_sum_Inr_elim)
  then show ?thesis
    unfolding set_keep_def
    by (auto split: sum.splits prod.splits simp: Let_def dest!: instance_row_Inr intro!: safe_audit_after)
qed

section \<open>Jobs\<close>

lemma safe_finish_job:
  assumes "wanted \<noteq> Reconfiguring" and "\<And>r. row_ok cf r \<Longrightarrow> row_ok cf (f r) \<and> row_evolves r (f r)"
  shows "safe cf d (snd (finish_job iid wanted f now d))"
proof -
  have "row_ok cf (touch now (\<lambda>r. (f r)\<lparr>i_status := wanted\<rparr>) r) \<and> row_evolves r (touch now (\<lambda>r. (f r)\<lparr>i_status := wanted\<rparr>) r)"
    if "row_ok cf r" "job_status (i_status r)" for r
    using assms(2) [OF that(1)] assms(1) that(2)
    by (auto simp: row_ok_def row_evolves_def touch_def naming_of_def job_status_def)
  then show ?thesis
    unfolding finish_job_def by (intro db_rules safe_update_instance)
qed

lemma safe_finish_audited:
  assumes "wanted \<noteq> Reconfiguring" and "\<And>r. row_ok cf r \<Longrightarrow> row_ok cf (f r) \<and> row_evolves r (f r)"
  shows "safe cf d (finish_audited iid wanted f action detail now d)"
  using safe_finish_job [where cf = cf and f = f and d = d and iid = iid and wanted = wanted and now = now, OF assms]
  by (auto simp: finish_audited_def split: prod.splits bool.splits intro: safe_audit_after)

lemma row_result [simp]:
  "row_ok cf r \<Longrightarrow> row_ok cf (r\<lparr>i_error := m\<rparr>) \<and> row_evolves r (r\<lparr>i_error := m\<rparr>)"
  "row_ok cf r \<Longrightarrow> row_ok cf (r\<lparr>i_urls := us, i_error := m\<rparr>) \<and> row_evolves r (r\<lparr>i_urls := us, i_error := m\<rparr>)"
  by (auto simp: row_ok_def row_evolves_def naming_of_def)

lemma safe_deploy_failed: "safe cf d (deploy_failed iid e now d)"
  unfolding deploy_failed_def Let_def by (rule safe_finish_audited) auto

lemma cp_safe_deploy: "cp_safe cf s (snd (deploy cf' r sp k seed x s))"
  unfolding deploy_def by (auto simp: cp_safe_def split: prod.splits intro!: safe_same)

lemma cp_safe_db_after: "cp_safe cf s s1 \<Longrightarrow> safe cf (database s1) d \<Longrightarrow> cp_safe cf s (s1\<lparr>database := d\<rparr>)"
  by (auto simp: cp_safe_def intro: safe_trans)

lemma cp_safe_finish_deploy: "cp_safe cf s (finish_deploy cf' r k sp seed now x s)"
proof (cases sp)
  case (Inr sp')
  obtain res s1 where d: "deploy cf' r sp' k seed x s = (res, s1)" by fastforce
  with cp_safe_deploy [of cf s cf' r sp' k seed x] have "cp_safe cf s s1" by simp
  with Inr d show ?thesis
    by (auto simp: finish_deploy_def split: sum.splits
        intro!: cp_safe_db_after safe_deploy_failed safe_finish_audited)
qed (simp add: finish_deploy_def cp_safe_db safe_deploy_failed)

lemma cp_safe_register: "cp_safe cf s (snd (register_again cf' r k n s))"
  unfolding register_again_def by (intro cp_rules cp_safe_refl)

lemma cp_safe_finish_reset: "cp_safe cf s (finish_reset cf' r k now s)"
proof (cases "naming_of r")
  case (Inr n)
  obtain report w where w: "reset_single_machine (cp_fly cf') (cp_machines cf') n (cp_reset_script cf') 900 (world s) = (report, w)"
    by fastforce
  let ?s1 = "s\<lparr>world := w\<rparr>"
  obtain res s2 where r: "register_again cf' r k n ?s1 = (res, s2)" by fastforce
  have s1: "cp_safe cf s ?s1" by (rule cp_safe_eq) simp_all
  moreover have "cp_safe cf ?s1 s2" using cp_safe_register [of cf ?s1 cf' r k n] r by simp
  ultimately have "cp_safe cf s s2" by (rule cp_safe_trans)
  with s1 Inr w r show ?thesis
    by (auto simp: finish_reset_def Let_def split: sum.splits
        intro!: cp_safe_db_after safe_finish_audited safe_finish_job)
qed (simp add: finish_reset_def)

lemma safe_reconfigure_failed: "safe cf d (reconfigure_failed iid e now d)"
  unfolding reconfigure_failed_def Let_def
  by (intro safe_audit_after safe_update_instance)
    (auto simp: row_ok_def row_evolves_def touch_def naming_of_def is_reconfiguring_def)

lemma safe_reconfigured: "safe cf d (reconfigured cf' r k cname sp cfg urls now x d)"
  unfolding reconfigured_def
  by (intro safe_audit_after safe_update_instance)
    (auto simp: row_ok_def row_evolves_def touch_def naming_of_def is_reconfiguring_def)

lemma cp_safe_finish_reconfigure: "cp_safe cf s (finish_reconfigure cf' r k cname pend seed now x s)"
proof (cases pend)
  case (Inr p)
  obtain sp cfg where p: "p = (sp, cfg)" by fastforce
  obtain res s1 where d: "deploy cf' r sp k seed x s = (res, s1)" by fastforce
  with cp_safe_deploy [of cf s cf' r sp k seed x] have "cp_safe cf s s1" by simp
  with Inr p d show ?thesis
    by (auto simp: finish_reconfigure_def split: sum.splits
        intro!: cp_safe_db_after safe_reconfigure_failed safe_reconfigured)
qed (simp add: finish_reconfigure_def cp_safe_db safe_reconfigure_failed)

lemma cp_safe_job_finish: "cp_safe cf s (job_finish cf' rj now x s)"
  by (cases rj) (simp_all add: cp_safe_finish_deploy cp_safe_finish_reset cp_safe_finish_reconfigure)

section \<open>Background work\<close>

lemma safe_lapse_one: "safe cf d (lapse_one cf' now iid d)"
  unfolding lapse_one_def set_row_def
  by (intro safe_audit_after safe_update_instance) (auto simp: row_ok_def row_evolves_def touch_def naming_of_def)

lemma safe_lapse_kept: "safe cf d (snd (lapse_kept cf' now d))"
proof -
  have "safe cf d (fold (lapse_one cf' now) ids d)" for ids
    by (induction ids arbitrary: d) (auto intro: safe_trans [OF safe_lapse_one])
  then show ?thesis by (simp add: lapse_kept_def Let_def)
qed

text \<open>The reaper works on rows it read at the start; destroying one leaves the rows of the others.\<close>

lemma destroy_row_keeps_others:
  "destroy_row cf r actor now s = (res, s') \<Longrightarrow> j \<noteq> i_id r \<Longrightarrow>
   find_row i_id j (instances (database s')) = find_row i_id j (instances (database s))"
  by (auto simp: destroy_row_def Let_def find_destroy_commit split: if_splits sum.splits prod.splits dest!: on_world_frame)

lemma cp_safe_reap_loop:
  assumes "distinct (map i_id rs)" and "\<forall>r \<in> set rs. find_row i_id (i_id r) (instances (database s)) = Some r"
  shows "cp_safe cf s (snd (reap_loop cf' rs now s))"
  using assms
proof (induction rs arbitrary: s)
  case (Cons r rs)
  obtain res s1 where d: "destroy_row cf' r ''reaper'' now s = (res, s1)" by fastforce
  from Cons.prems have "find_row i_id (i_id r) (instances (database s)) = Some r" by simp
  from cp_safe_destroy_row [OF this, of cf cf' "''reaper''" now] have "cp_safe cf s s1" by (simp add: d)
  moreover have "\<forall>x \<in> set rs. find_row i_id (i_id x) (instances (database s1)) = Some x"
  proof
    fix x assume "x \<in> set rs"
    moreover have "i_id r \<notin> i_id ` set rs" using Cons.prems(1) by simp
    ultimately have "i_id x \<noteq> i_id r" by (metis image_eqI)
    moreover have "find_row i_id (i_id x) (instances (database s)) = Some x"
      using Cons.prems(2) \<open>x \<in> set rs\<close> by simp
    ultimately show "find_row i_id (i_id x) (instances (database s1)) = Some x"
      using destroy_row_keeps_others [OF d] by simp
  qed
  with Cons have "cp_safe cf s1 (snd (reap_loop cf' rs now s1))" by simp
  ultimately show ?case
    unfolding reap_loop.simps d prod.case by (cases res) (simp_all add: cp_safe_trans [of cf s s1])
qed simp

lemma cp_safe_if_ok:
  "(db_ok cf (database s) \<Longrightarrow> cp_safe cf s s') \<Longrightarrow> set (keys s') \<subseteq> set (keys s) \<Longrightarrow> cp_safe cf s s'"
  unfolding cp_safe_def by (simp add: safe_if_ok)

lemma destroy_row_keys: "keys (snd (destroy_row cf r actor now s)) = keys s"
  by (auto simp: destroy_row_def Let_def split: sum.splits prod.splits dest!: on_world_frame)

lemma reap_keys: "keys (snd (reap cf now s)) = keys s"
proof -
  have "keys (snd (reap_loop cf rs now s)) = keys s" for rs
  proof (induction rs arbitrary: s)
    case (Cons r rs)
    obtain res s1 where d: "destroy_row cf r ''reaper'' now s = (res, s1)" by fastforce
    with destroy_row_keys [of cf r "''reaper''" now s] have "keys s1 = keys s" by simp
    with Cons d show ?case by (cases res) simp_all
  qed simp
  then show ?thesis by (auto simp: reap_def Let_def split: sum.splits prod.splits) (metis snd_conv)+
qed

lemma cp_safe_reap: "cp_safe cf s (snd (reap cf' now s))"
proof (rule cp_safe_if_ok)
  assume "db_ok cf (database s)"
  then have dist: "distinct (map i_id (instances (database s)))" by (simp add: db_ok_def instances_ok_def)
  have "cp_safe cf s (snd (reap_loop cf' (filter (due now) (instances (database s))) now s))"
    by (rule cp_safe_reap_loop) (auto simp: distinct_map_filter dist intro: find_row_distinct [OF dist])
  then show "cp_safe cf s (snd (reap cf' now s))"
    by (auto simp: reap_def Let_def split: sum.splits prod.splits)
qed (simp add: reap_keys)

lemma cp_safe_destroy_layouts: "cp_safe cf s (snd (destroy_layouts cf' iid ls ok s))"
proof (induction ls arbitrary: ok s)
  case (Cons l ls)
  show ?case unfolding destroy_layouts.simps by (intro cp_rules cp_safe_refl Cons.IH)
qed simp

lemma safe_orphans [simp, intro]: "safe cf d (note_apps as now d)" "safe cf d (forget_apps as d)"
  by (auto simp: note_apps_def forget_apps_def intro!: safe_same)

lemma safe_forget: "safe cf d d' \<Longrightarrow> safe cf d (if b then forget_apps as d' else d')"
  by (auto intro: safe_trans)

lemma cp_safe_sweep_group: "cp_safe cf s (snd (sweep_group cf' g now s))"
proof -
  let ?s1 = "s\<lparr>database := note_apps (og_apps g) now (database s)\<rparr>"
  have "cp_safe cf ?s1 (snd (sweep_group cf' g now s))"
    unfolding sweep_group_def Let_def
    by (intro cp_rules cp_safe_refl cp_safe_destroy_layouts cp_safe_db safe_forget safe_audit)
  moreover have "cp_safe cf s ?s1" by (intro cp_safe_db safe_orphans)
  ultimately show ?thesis by (blast intro: cp_safe_trans)
qed

lemma cp_safe_sweep_loop: "cp_safe cf s (snd (sweep_loop cf' gs now ids s))"
proof (induction gs arbitrary: ids s)
  case (Cons g gs)
  show ?case unfolding sweep_loop.simps by (intro cp_rules cp_safe_refl cp_safe_sweep_group Cons.IH)
qed simp

lemma cp_safe_sweep_from: "safe cf (database s) d \<Longrightarrow> cp_safe cf s (snd (sweep_loop cf' gs now ids (s\<lparr>database := d\<rparr>)))"
  by (rule cp_safe_trans [OF cp_safe_db cp_safe_sweep_loop])

lemma cp_safe_sweep: "cp_safe cf s (snd (sweep_orphans cf' now s))"
  unfolding sweep_orphans_def by (intro cp_rules cp_safe_refl cp_safe_sweep_from safe_orphans)

lemma cp_safe_tick: "cp_safe cf s (snd (tick cf' now s))"
proof -
  obtain ls d where l: "lapse_kept cf' now (database s) = (ls, d)" by fastforce
  with safe_lapse_kept [of cf "database s" cf' now] have "cp_safe cf s (s\<lparr>database := d\<rparr>)" by (simp add: cp_safe_db)
  moreover have "cp_safe cf (s\<lparr>database := d\<rparr>) (snd (tick cf' now s))"
    unfolding tick_def l prod.case by (intro cp_rules cp_safe_refl cp_safe_reap cp_safe_sweep)
  ultimately show ?thesis by (rule cp_safe_trans)
qed

end
