(* ===== verification/Reach.thy ===== *)
theory Reach
  imports Steps
begin

text \<open>
  The control plane as a transition system: a request of an authenticated principal, a pass
  of the background work, the start of a queued job or the end of a running one. Jobs run
  between other steps. The invariant and the one-way changes hold along every run.
\<close>

section \<open>Steps\<close>

definition authenticated :: "principal \<Rightarrow> 'w cp \<Rightarrow> bool" where
  "authenticated who s \<longleftrightarrow> principal_for (who_user who) (who_session who) (database s) = Inr who"

inductive request :: "'w plane \<Rightarrow> 'w cp \<Rightarrow> 'w cp \<Rightarrow> bool" for cf where
  unlock: "request cf s (snd (begin_session cf uid key ttl now r s))"
| lock: "authenticated who s \<Longrightarrow> request cf s (end_session who s)"
| share: "authenticated who s \<Longrightarrow> request cf s (snd (share_session who ttl now r s))"
| drop: "request cf s (drop_session sid s)"
| look: "request cf s (snd (session_alive sid uid now s))"
| look_expiry: "request cf s (snd (session_expiry sid uid now s))"
| look_unlocked: "request cf s (snd (is_unlocked who now s))"
| privatedata: "authenticated who s \<Longrightarrow> request cf s (snd (on_db (set_privatedata who b now) s))"
| first_admin: "request cf s (snd (on_db (bootstrap_admin cf name email now r) s))"
| first_invite: "request cf s (snd (on_db (bootstrap_invite cf days now r) s))"
| invite: "authenticated who s \<Longrightarrow> request cf s (snd (on_db (create_invite cf who x now r) s))"
| revoke: "authenticated who s \<Longrightarrow> request cf s (snd (on_db (revoke_invite cf who t now) s))"
| redeem: "request cf s (snd (on_db (redeem_invite cf t name email now r) s))"
| disable: "authenticated who s \<Longrightarrow> request cf s (snd (disable_user cf who uid now s))"
| grant: "authenticated who s \<Longrightarrow> request cf s (snd (on_db (grant who uid g now) s))"
| save: "authenticated who s \<Longrightarrow> request cf s (snd (save_config cf who name doc now r s))"
| read: "authenticated who s \<Longrightarrow> request cf s (snd (get_config cf who name now s))"
| forget: "authenticated who s \<Longrightarrow> request cf s (s\<lparr>database := delete_config who name now (database s)\<rparr>)"
| create: "authenticated who s \<Longrightarrow> request cf s (snd (create_instance cf who c cn name keep now r s))"
| credentials: "authenticated who s \<Longrightarrow> request cf s (snd (instance_credentials cf who iid now s))"
| read_config: "authenticated who s \<Longrightarrow> request cf s (snd (get_instance_config cf who iid now s))"
| stop: "authenticated who s \<Longrightarrow> request cf s (snd (stop_instance_op cf who iid now s))"
| start: "authenticated who s \<Longrightarrow> request cf s (snd (start_instance_op cf who iid now s))"
| destroy: "authenticated who s \<Longrightarrow> request cf s (snd (destroy_instance_op cf who iid now s))"
| reset: "authenticated who s \<Longrightarrow> request cf s (snd (reset_instance_op cf who iid now s))"
| reconfigure: "authenticated who s \<Longrightarrow> request cf s (snd (reconfigure_instance cf who iid c cn now r s))"
| keep: "authenticated who s \<Longrightarrow> request cf s (snd (on_db (set_keep cf who iid k now) s))"
| tick: "request cf s (snd (tick cf now s))"

record 'w sys =
  sys_cp :: "'w cp"
  sys_running :: "running list"

text \<open>A queued job leaves the queue when a worker takes it; most then run, a stale one does nothing.\<close>

definition take_job :: "'w plane \<Rightarrow> job \<Rightarrow> 'w sys \<Rightarrow> 'w sys" where
  "take_job cf j s =
     s\<lparr>sys_cp := (sys_cp s)\<lparr>jobs := remove1 j (jobs (sys_cp s))\<rparr>,
       sys_running := sys_running s @ opt_list (job_start cf j (database (sys_cp s)))\<rparr>"

definition end_job :: "'w plane \<Rightarrow> running \<Rightarrow> time \<Rightarrow> draws \<Rightarrow> 'w sys \<Rightarrow> 'w sys" where
  "end_job cf rj now x s =
     s\<lparr>sys_cp := job_finish cf rj now x (sys_cp s), sys_running := remove1 rj (sys_running s)\<rparr>"

inductive step :: "'w plane \<Rightarrow> 'w sys \<Rightarrow> 'w sys \<Rightarrow> bool" for cf where
  by_request: "request cf (sys_cp s) c \<Longrightarrow> step cf s (s\<lparr>sys_cp := c\<rparr>)"
| by_start: "j \<in> set (jobs (sys_cp s)) \<Longrightarrow> step cf s (take_job cf j s)"
| by_end: "rj \<in> set (sys_running s) \<Longrightarrow> step cf s (end_job cf rj now x s)"

definition initial :: "'w \<Rightarrow> 'w sys" where
  "initial w = \<lparr>sys_cp = \<lparr>database = empty_db, keys = [], world = w, jobs = []\<rparr>, sys_running = []\<rparr>"

inductive reach :: "'w plane \<Rightarrow> 'w sys \<Rightarrow> 'w sys \<Rightarrow> bool" for cf where
  reach_refl: "reach cf s s"
| reach_step: "reach cf s s' \<Longrightarrow> step cf s' s'' \<Longrightarrow> reach cf s s''"

inductive_cases step_cases: "step cf s s'"

abbreviation sdb :: "'w sys \<Rightarrow> db" where
  "sdb s \<equiv> database (sys_cp s)"

section \<open>The invariant\<close>

text \<open>Every key in memory belongs to an account that is not disabled.\<close>

definition keys_ok :: "'w cp \<Rightarrow> bool" where
  "keys_ok s \<longleftrightarrow> (\<forall>(sid, e) \<in> set (keys s). \<exists>u \<in> set (users (database s)). u_id u = e_user e \<and> \<not> u_disabled u)"

definition cp_ok :: "'w plane \<Rightarrow> 'w cp \<Rightarrow> bool" where
  "cp_ok cf s \<longleftrightarrow> db_ok cf (database s) \<and> keys_ok s"

definition cp_step_ok :: "'w plane \<Rightarrow> 'w cp \<Rightarrow> 'w cp \<Rightarrow> bool" where
  "cp_step_ok cf s s' \<longleftrightarrow> (cp_ok cf s \<longrightarrow> cp_ok cf s' \<and> db_ages (database s) (database s'))"

lemma user_stays:
  assumes "db_evolves d d'" and "u \<in> set (users d)" and "\<not> u_disabled u"
  shows "\<exists>u' \<in> set (users d'). u_id u' = u_id u \<and> \<not> u_disabled u'"
  using assms by (fastforce simp: db_evolves_def rows_evolve_def user_evolves_def)

lemma step_ok_keys:
  assumes "safe cf (database s) (database s')"
    and "\<And>sid e. cp_ok cf s \<Longrightarrow> (sid, e) \<in> set (keys s') \<Longrightarrow> (sid, e) \<in> set (keys s) \<or>
           (\<exists>u \<in> set (users (database s)). u_id u = e_user e \<and> \<not> u_disabled u)"
  shows "cp_step_ok cf s s'"
  unfolding cp_step_ok_def
proof
  assume ok: "cp_ok cf s"
  with assms(1) have ev: "db_ok cf (database s')" "db_evolves (database s) (database s')"
    by (auto simp: cp_ok_def safe_def)
  have "keys_ok s'"
    unfolding keys_ok_def
  proof clarify
    fix sid e assume "(sid, e) \<in> set (keys s')"
    with assms(2) [OF ok] ok obtain u where "u \<in> set (users (database s))" "u_id u = e_user e" "\<not> u_disabled u"
      unfolding cp_ok_def keys_ok_def by blast
    with user_stays [OF ev(2)] show "\<exists>u \<in> set (users (database s')). u_id u = e_user e \<and> \<not> u_disabled u" by metis
  qed
  with ev show "cp_ok cf s' \<and> db_ages (database s) (database s')" by (simp add: cp_ok_def evolves_ages)
qed

lemma step_ok_safe: "cp_safe cf s s' \<Longrightarrow> cp_step_ok cf s s'"
  by (rule step_ok_keys) (auto simp: cp_safe_def)

lemma step_ok_db: "safe cf (database s) (snd (f (database s))) \<Longrightarrow> cp_step_ok cf s (snd (on_db f s))"
  by (rule step_ok_safe) (rule cp_on_db)

lemma step_ok_drop: "set (keys s') \<subseteq> set (keys s) \<Longrightarrow> database s' = database s \<Longrightarrow> cp_step_ok cf s s'"
  by (rule step_ok_safe) (simp add: cp_safe_def)

text \<open>The two operations that put a key in memory.\<close>

lemma update_entry: "p \<in> set (AList.update k v al) \<Longrightarrow> p \<in> set al \<or> p = (k, v)"
  by (induction al) (auto split: if_splits)

lemma keys_put_entries:
  "keys_put uid key ttl now fresh ks = (r, ks') \<Longrightarrow> (sid, e) \<in> set ks' \<Longrightarrow> (sid, e) \<in> set ks \<or> e_user e = uid"
  by (auto simp: keys_put_def Let_def keys_purge_def split: if_splits sum.splits dest!: update_entry)

lemma keys_clone_entries:
  assumes "keys_clone psid uid ttl now fresh ks = (r, ks')" and "(sid, e) \<in> set ks'"
  shows "(sid, e) \<in> set ks \<or> (e_user e = uid \<and> (\<exists>p. (psid, p) \<in> set ks \<and> e_user p = uid))"
proof (cases "keys_get psid uid now ks")
  case (Pair g ks1)
  show ?thesis
  proof (cases g)
    case (Inl x)
    with assms Pair keys_get_subset [of psid uid now ks] show ?thesis by (auto simp: keys_clone_def)
  next
    case (Inr k)
    with Pair have "ks1 = ks" and p: "\<exists>p. map_of ks psid = Some p \<and> e_user p = uid"
      by (auto simp: keys_get_Inr_iff)
    with assms Pair Inr show ?thesis
      by (auto simp: keys_clone_def Let_def split: if_splits dest!: update_entry dest: map_of_SomeD)
  qed
qed

lemma step_ok_unlock: "cp_step_ok cf s (snd (begin_session cf uid key ttl now r s))"
proof (cases "user uid (database s)")
  case (Inr u)
  note u = user_Inr [OF Inr]
  show ?thesis
  proof (cases "u_disabled u \<or> is_err (make_sealer key)")
    case True
    with Inr show ?thesis by (cases "make_sealer key") (auto simp: begin_session_def cp_step_ok_def db_ages_def
          rows.evolve_refl aging.evolve_refl tokens.evolve_refl)
  next
    case False
    then obtain k where k: "make_sealer key = Inr k" and en: "\<not> u_disabled u" by (cases "make_sealer key") auto
    obtain r1 s1 where s1: "on_db (check_key cf uid k now r u) s = (r1, s1)" by fastforce
    from on_db_frame [OF s1] have ks1: "keys s1 = keys s" and d1: "check_key cf uid k now r u (database s) = (r1, database s1)"
      by auto
    from safe_check_key [of cf "database s" cf uid k now r u] d1 have safe1: "safe cf (database s) (database s1)" by simp
    obtain r2 s2 where s2: "on_keys (keys_put uid key ttl now (d_token r)) s1 = (r2, s2)" by fastforce
    from on_keys_frame [OF s2] have d2: "database s2 = database s1"
      and ks2: "keys_put uid key ttl now (d_token r) (keys s1) = (r2, keys s2)" by auto
    show ?thesis
    proof (rule step_ok_keys)
      show "safe cf (database s) (database (snd (begin_session cf uid key ttl now r s)))"
        using Inr en k s1 s2 safe1
        by (auto simp: begin_session_def Let_def d2 split: sum.splits intro: safe_audit_after)
    next
      fix sid e
      assume "(sid, e) \<in> set (keys (snd (begin_session cf uid key ttl now r s)))"
      then have "(sid, e) \<in> set (keys s1) \<or> (sid, e) \<in> set (keys s2)"
        using Inr en k s1 s2 by (auto simp: begin_session_def Let_def ks1 split: sum.splits if_splits)
      with keys_put_entries [OF ks2] have "(sid, e) \<in> set (keys s) \<or> e_user e = uid" by (auto simp: ks1)
      with u en show "(sid, e) \<in> set (keys s) \<or> (\<exists>u \<in> set (users (database s)). u_id u = e_user e \<and> \<not> u_disabled u)"
        by auto
    qed
  qed
qed (simp add: begin_session_def cp_step_ok_def db_ages_def rows.evolve_refl aging.evolve_refl tokens.evolve_refl)

lemma step_ok_share: "cp_step_ok cf s (snd (share_session who ttl now r s))"
proof -
  obtain res s' where sh: "share_session who ttl now r s = (res, s')" by fastforce
  from on_keys_frame [OF this [unfolded share_session_def]] have d: "database s' = database s"
    and k: "keys_clone (who_session who) (who_user who) ttl now (d_token r) (keys s) = (res, keys s')" by auto
  show ?thesis
    unfolding sh snd_conv
  proof (rule step_ok_keys)
    fix sid e assume ok: "cp_ok cf s" and "(sid, e) \<in> set (keys s')"
    from keys_clone_entries [OF k this(2)]
    show "(sid, e) \<in> set (keys s) \<or> (\<exists>u \<in> set (users (database s)). u_id u = e_user e \<and> \<not> u_disabled u)"
      using ok unfolding cp_ok_def keys_ok_def by fastforce
  qed (simp add: d)
qed

text \<open>The one operation that disables an account drops its keys.\<close>

lemma step_ok_disable: "cp_step_ok cf s (snd (disable_user cf who uid now s))"
  unfolding cp_step_ok_def
proof
  assume ok: "cp_ok cf s"
  let ?s = "snd (disable_user cf who uid now s)"
  from ok ages_disable_user [of cf s cf who uid now]
  have ag: "db_ok cf (database ?s)" "db_ages (database s) (database ?s)"
    by (auto simp: cp_ok_def ages_def)
  have "keys_ok ?s"
  proof (cases "require_admin who = Inr () \<and> (\<exists>u. user uid (database s) = Inr u)")
    case True
    then have us: "users (database ?s) = update_where (\<lambda>u. u_id u = uid) (u_disabled_update (\<lambda>_. True)) (users (database s))"
      and ks: "keys ?s = keys_drop_user uid (keys s)"
      by (auto simp: disable_user_def Let_def set_user_def)
    show ?thesis
      unfolding keys_ok_def
    proof clarify
      fix sid e assume "(sid, e) \<in> set (keys ?s)"
      then have e: "(sid, e) \<in> set (keys s)" "e_user e \<noteq> uid" by (auto simp: ks keys_drop_user_def)
      with ok obtain u where "u \<in> set (users (database s))" "u_id u = e_user e" "\<not> u_disabled u"
        unfolding cp_ok_def keys_ok_def by blast
      with e(2) show "\<exists>u \<in> set (users (database ?s)). u_id u = e_user e \<and> \<not> u_disabled u"
        by (intro bexI [of _ u]) (auto simp: us update_where_def intro!: rev_image_eqI)
    qed
  next
    case False
    then have "?s = s" by (auto simp: disable_user_def split: sum.splits)
    with ok show ?thesis by (simp add: cp_ok_def)
  qed
  with ag show "cp_ok cf ?s \<and> db_ages (database s) (database ?s)" by (simp add: cp_ok_def)
qed

lemma session_keys_subset:
  "set (keys (snd (session_alive sid uid now s))) \<subseteq> set (keys s)"
  "set (keys (snd (session_expiry sid uid now s))) \<subseteq> set (keys s)"
  "database (snd (session_alive sid uid now s)) = database s"
  "database (snd (session_expiry sid uid now s)) = database s"
  using keys_get_subset [of sid uid now "keys s"]
  by (auto simp: session_alive_def session_expiry_def on_keys_def keys_expires_at_def split: prod.splits sum.splits option.splits)

lemma request_ok: "request cf s s' \<Longrightarrow> cp_step_ok cf s s'"
proof (induction rule: request.induct)
  case (unlock s uid key ttl now r) show ?case by (rule step_ok_unlock)
next
  case (share who s ttl now r) show ?case by (rule step_ok_share)
next
  case (disable who s uid now) show ?case by (rule step_ok_disable)
next
  case (look_unlocked s who now)
  have "snd (is_unlocked who now s) = snd (sealer_of who now s)" by (simp add: is_unlocked_def split: prod.splits)
  then show ?case using cp_sealer [OF cp_safe_refl, of cf s who now] by (simp add: step_ok_safe)
next
  case (forget who s name now)
  show ?case by (intro step_ok_safe cp_safe_db safe_delete_config)
next
  case (lock who s)
  show ?case by (rule step_ok_drop) (auto simp: end_session_def keys_drop_def AList.delete_eq)
next
  case (drop sid s)
  show ?case by (rule step_ok_drop) (auto simp: drop_session_def keys_drop_def AList.delete_eq)
next
  case (look s sid uid now)
  show ?case by (rule step_ok_drop) (rule session_keys_subset)+
next
  case (look_expiry s sid uid now)
  show ?case by (rule step_ok_drop) (rule session_keys_subset)+
qed (intro step_ok_db step_ok_safe safe_set_privatedata safe_bootstrap_admin safe_bootstrap_invite safe_create_invite
      safe_revoke_invite safe_redeem_invite safe_grant safe_set_keep cp_safe_save_config cp_safe_get_config
      cp_safe_create_instance cp_safe_credentials cp_safe_get_instance_config cp_safe_stop cp_safe_start
      cp_safe_destroy cp_safe_reset cp_safe_reconfigure cp_safe_tick)+

lemma step_ok: "step cf s s' \<Longrightarrow> cp_step_ok cf (sys_cp s) (sys_cp s')"
proof (erule step_cases)
  fix c assume "s' = s\<lparr>sys_cp := c\<rparr>" "request cf (sys_cp s) c"
  then show ?thesis using request_ok by simp
next
  fix j assume s': "s' = take_job cf j s"
  show ?thesis by (rule step_ok_drop) (simp_all add: s' take_job_def)
next
  fix rj now x assume s': "s' = end_job cf rj now x s"
  show ?thesis by (rule step_ok_safe) (simp add: s' end_job_def cp_safe_job_finish)
qed

lemma reach_ok:
  "reach cf s s' \<Longrightarrow> cp_ok cf (sys_cp s) \<Longrightarrow> cp_ok cf (sys_cp s') \<and> db_ages (sdb s) (sdb s')"
proof (induction rule: reach.induct)
  case (reach_refl s)
  then show ?case by (simp add: db_ages_def rows.evolve_refl aging.evolve_refl tokens.evolve_refl)
next
  case (reach_step s s' s'')
  then show ?case using step_ok [OF reach_step.hyps(2)] by (auto simp: cp_step_ok_def intro: db_ages_trans)
qed

lemma initial_ok: "cp_ok cf (sys_cp (initial w))"
  by (simp add: cp_ok_def initial_def keys_ok_def db_ok_def empty_db_def instances_ok_def users_ok_def invites_ok_def
      configs_ok_def owners_ok_def live_count_def)

lemma reach_initial_ok: "reach cf (initial w) s \<Longrightarrow> cp_ok cf (sys_cp s)"
  using reach_ok [of cf "initial w" s] by (simp add: initial_ok)

section \<open>Consequences along runs\<close>

lemma reach_trans: "reach cf b c \<Longrightarrow> reach cf a b \<Longrightarrow> reach cf a c"
  by (induction rule: reach.induct) (auto intro: reach.intros)

lemma reach_later:
  assumes "reach cf (initial w) s" and "reach cf s s'"
  shows "cp_ok cf (sys_cp s)" "cp_ok cf (sys_cp s')" "db_ages (sdb s) (sdb s')"
  using reach_initial_ok [OF assms(1)] reach_ok [OF assms(2)] by auto

text \<open>By the primary key, the later row is the one that a look-up finds.\<close>

lemma rows_evolve_find:
  assumes "rows_evolve E rows rows'" and "distinct (map key rows')" and "find_row key k rows = Some r"
    and "\<And>r r'. E r r' \<Longrightarrow> key r' = key r"
  shows "\<exists>r'. find_row key k rows' = Some r' \<and> E r r'"
proof -
  from find_row_SomeD [OF assms(3)] have "r \<in> set rows" "key r = k" by auto
  with assms(1) obtain r' where r': "r' \<in> set rows'" "E r r'" by (auto simp: rows_evolve_def)
  with find_row_distinct [OF assms(2) r'(1)] assms(4) \<open>key r = k\<close> show ?thesis by metis
qed

lemma evolves_key:
  "row_evolves r r' \<Longrightarrow> i_id r' = i_id r" "user_ages u u' \<Longrightarrow> u_id u' = u_id u"
  "invite_evolves v v' \<Longrightarrow> v_token_hash v' = v_token_hash v"
  by (simp_all add: row_evolves_def user_ages_def invite_evolves_def)

lemma row_survives:
  assumes "reach cf (initial w) s" and "reach cf s s'" and "find_row i_id iid (instances (sdb s)) = Some r"
  shows "\<exists>r'. find_row i_id iid (instances (sdb s')) = Some r' \<and> i_owner r' = i_owner r \<and> i_naming r' = i_naming r \<and>
    i_created_at r' = i_created_at r \<and> (i_status r = Destroyed \<longrightarrow> i_status r' = Destroyed)"
proof -
  note later = reach_later [OF assms(1,2)]
  have "\<exists>r'. find_row i_id iid (instances (sdb s')) = Some r' \<and> row_evolves r r'"
    by (rule rows_evolve_find [OF _ _ assms(3) evolves_key(1)])
      (use later in \<open>simp_all add: db_ages_def cp_ok_def db_ok_def instances_ok_def\<close>)
  then show ?thesis by (auto simp: row_evolves_def)
qed

lemma disabled_no_key:
  assumes "reach cf (initial w) s" and "reach cf s s'" and "find_row u_id uid (users (sdb s)) = Some u" and "u_disabled u"
  shows "\<not> key_live (keys (sys_cp s')) sid uid now"
proof
  assume "key_live (keys (sys_cp s')) sid uid now"
  then obtain e where e: "(sid, e) \<in> set (keys (sys_cp s'))" "e_user e = uid"
    by (auto simp: key_live_def split: option.splits dest: map_of_SomeD)
  note later = reach_later [OF assms(1,2)]
  from later(2) e obtain x where x: "x \<in> set (users (sdb s'))" "u_id x = uid" "\<not> u_disabled x"
    unfolding cp_ok_def keys_ok_def by fastforce
  have dist: "distinct (map u_id (users (sdb s')))"
    using later(2) by (simp add: cp_ok_def db_ok_def users_ok_def)
  have "\<exists>y. find_row u_id uid (users (sdb s')) = Some y \<and> user_ages u y"
    by (rule rows_evolve_find [OF _ dist assms(3) evolves_key(2)]) (use later(3) in \<open>simp add: db_ages_def\<close>)
  with find_row_distinct [OF dist x(1)] x assms(4) show False by (auto simp: user_ages_def)
qed

lemma redeemed_row:
  assumes "redeem_invite cf token name email now r d = (Inr p, d')"
  shows "\<exists>v. find_row v_token_hash (cp_hash cf token) (invites d') = Some v \<and> v_used_by v = Some (''u_'' @ d_hex r)"
proof -
  obtain v where v: "invite_problem cf token email now d = Inr v"
    using assms by (auto simp: redeem_invite_def split: sum.splits)
  with invite_problem_Inr [OF v] assms show ?thesis
    by (auto simp: redeem_invite_cases [OF v] Let_def used.find_update split: if_splits)
qed

lemma redeemed_for_good:
  assumes "reach cf (initial w) s" and "redeem_invite cf token name email now r (sdb s) = (Inr p, d)"
    and "reach cf (s\<lparr>sys_cp := (sys_cp s)\<lparr>database := d\<rparr>\<rparr>) s'"
  shows "\<exists>m. redeem_invite cf token name' email' now' r' (sdb s') = (Inl (InvalidInvite m), sdb s')"
proof -
  let ?s = "s\<lparr>sys_cp := (sys_cp s)\<lparr>database := d\<rparr>\<rparr>"
  have "snd (on_db (redeem_invite cf token name email now r) (sys_cp s)) = (sys_cp s)\<lparr>database := d\<rparr>"
    by (simp add: on_db_def assms(2))
  with request.redeem [of cf "sys_cp s" token name email now r] have "step cf s ?s"
    using step.by_request [of cf s] by metis
  with assms(1) have "reach cf (initial w) ?s" by (rule reach_step)
  note later = reach_later [OF this assms(3)]
  obtain v where v: "find_row v_token_hash (cp_hash cf token) (invites d) = Some v" "v_used_by v = Some (''u_'' @ d_hex r)"
    using redeemed_row [OF assms(2)] by blast
  have "\<exists>v'. find_row v_token_hash (cp_hash cf token) (invites (sdb s')) = Some v' \<and> invite_evolves v v'"
    by (rule rows_evolve_find [OF _ _ _ evolves_key(3)])
      (use later(2,3) v(1) in \<open>simp_all add: db_ages_def cp_ok_def db_ok_def invites_ok_def\<close>)
  with v(2) obtain v' where "find_row v_token_hash (cp_hash cf token) (invites (sdb s')) = Some v'"
    and "v_used_by v' = Some (''u_'' @ d_hex r)" by (auto simp: invite_evolves_def)
  then show ?thesis by (simp add: redeem_invite_def invite_problem_def truthy_str_def)
qed

end
