(* ===== verification/Demo.thy ===== *)
theory Demo
  imports Reach
begin

text \<open>
  A concrete control plane on which the properties are evaluated: flyctl is the list of the
  existing apps, the deployers create the instance's apps and the
  cipher is the one of Vault. The theorems use it to show that their hypotheses hold somewhere.
\<close>

type_synonym demo_world = "string list"

text \<open>The world is the list of the existing apps.\<close>

fun demo_run :: "string list \<Rightarrow> demo_world \<Rightarrow> cmd_result \<times> demo_world" where
  "demo_run args w =
     (case args of
        _ # a # b # rest \<Rightarrow>
          if a = ''apps'' \<and> b = ''list'' then (\<lparr>cr_code = 0, cr_out = join_with '','' w, cr_err = []\<rparr>, w)
          else if a = ''apps'' \<and> b = ''destroy''
          then (\<lparr>cr_code = 0, cr_out = [], cr_err = []\<rparr>, removeAll (hd rest) w)
          else (\<lparr>cr_code = 0, cr_out = [], cr_err = []\<rparr>, w)
      | _ \<Rightarrow> (\<lparr>cr_code = 1, cr_out = [], cr_err = []\<rparr>, w))"

definition demo_fly :: "demo_world fly" where
  "demo_fly =
     \<lparr>fly_org = ''sandbox'', fly_run = demo_run, fly_app_names = (\<lambda>out. Some (split_on CHR '','' out)),
      fly_machine_list = (\<lambda>out. Some []), fly_volume_list = (\<lambda>out. Some []), fly_check_states = (\<lambda>out. Some []),
      fly_token_rows = (\<lambda>out. []), fly_secret_names = (\<lambda>out. Some []),
      fly_mono = (\<lambda>w. 0), fly_sleep = (\<lambda>t w. w), fly_fuel = 100\<rparr>"

definition demo_machines :: "demo_world machines" where
  "demo_machines =
     \<lparr>ma_token = ''t'', ma_base_url = ''https://api.machines.dev'', ma_timeout = 60,
      ma_transport = (\<lambda>_ _ _ _ _ w. (Reply 200 [], w)), ma_machine_list = (\<lambda>_. Some []), ma_machine = (\<lambda>_. None),
      ma_exec_result = (\<lambda>_. None), ma_secret_version = (\<lambda>_. None), ma_clock = (\<lambda>w. 0),
      ma_sleep = (\<lambda>t w. w), ma_fuel = 100\<rparr>"

text \<open>The deployer creates the app and leaves one state file in the scratch directory.\<close>

definition demo_deploy :: "demo_world deployer" where
  "demo_deploy sp n dir fs w =
     (Inr [(''issuer'', ''https://x'')],
      AList.update (dir @ [fly_dir (s_env sp), ''adminToken'']) ''secret'' fs,
      w @ [app n ''mongodb''])"

text \<open>
  The cipher is a parameter: \<open>toy_aead\<close> has both hypotheses but is not executable, \<open>no_aead\<close>
  (which opens nothing) serves where no blob is opened.
\<close>

definition no_aead :: aead where
  "no_aead = \<lparr>a_enc = (\<lambda>k n p a. replicate 16 CHR ''#''), a_dec = (\<lambda>k n c a. None)\<rparr>"

definition demo_platform :: platform_policy where
  "demo_platform = default_policy\<lparr>pp_env_admin := False\<rparr>"

definition demo_plane :: "aead \<Rightarrow> demo_world plane" where
  "demo_plane A =
     \<lparr>cp_fly = demo_fly, cp_machines = demo_machines, cp_platform = demo_platform,
      cp_limits = default_limits, cp_aead = A, cp_hash = (\<lambda>t. CHR ''h'' # t), cp_show_float = (\<lambda>_. ''30''),
      cp_deploy_apps = demo_deploy, cp_deploy_single = demo_deploy, cp_register = None, cp_reset_script = [],
      cp_scratch = [''tmp'']\<rparr>"

definition demo_draws :: draws where
  "demo_draws = \<lparr>d_hex = ''0a0b0c'', d_token = ''tok'', d_nonce = (\<lambda>n. replicate 12 (char_of n)), d_id = (\<lambda>n. ''abcdefgh'')\<rparr>"

definition demo_key :: bytes where
  "demo_key = replicate 32 CHR ''k''"

section \<open>The first admin signs in\<close>

definition demo_boot :: "aead \<Rightarrow> demo_world cp" where
  "demo_boot A = snd (on_db (bootstrap_admin (demo_plane A) ''Ada'' [] 1 demo_draws) (sys_cp (initial [])))"

definition demo_cp :: "aead \<Rightarrow> demo_world cp" where
  "demo_cp A = snd (begin_session (demo_plane A) ''u_0a0b0c'' demo_key None 2 demo_draws (demo_boot A))"

definition ada :: "aead \<Rightarrow> user_row" where
  "ada A = \<lparr>u_id = ''u_0a0b0c'', u_name = ''Ada'', u_email = [], u_role = ''admin'', u_capabilities = CAPABILITIES,
     u_max_concurrent = 2, u_max_kept = 5, u_kept_until = None, u_disabled = False, u_privatedata = None,
     u_key_check = Some (seal A demo_key (d_nonce demo_draws 0) KEY_CHECK_PLAINTEXT (aad ''u_0a0b0c'' ''keycheck'' [])),
     u_created_at = 1\<rparr>"

definition who_ada :: principal where
  "who_ada = \<lparr>who_user = ''u_0a0b0c'', who_role = ''admin'', who_caps = CAPABILITIES, who_session = ''s_tok''\<rparr>"

definition who_bob :: principal where
  "who_bob = \<lparr>who_user = ''u_bob'', who_role = ''member'', who_caps = [], who_session = ''s_b''\<rparr>"

lemma demo_plane_fields [simp]:
  "cp_platform (demo_plane A) = demo_platform" "cp_limits (demo_plane A) = default_limits"
  "cp_aead (demo_plane A) = A" "cp_fly (demo_plane A) = demo_fly" "cp_register (demo_plane A) = None"
  "cp_machines (demo_plane A) = demo_machines" "cp_scratch (demo_plane A) = [''tmp'']"
  "cp_hash (demo_plane A) = (\<lambda>t. CHR ''h'' # t)"
  by (simp_all add: demo_plane_def)

lemma demo_who [simp]:
  "who_user who_ada = ''u_0a0b0c''" "who_session who_ada = ''s_tok''" "who_user who_bob = ''u_bob''"
  "is_admin who_ada" "\<not> is_admin who_bob" "u_id (ada A) = ''u_0a0b0c''" "\<not> u_disabled (ada A)"
  "u_capabilities (ada A) = CAPABILITIES" "u_role (ada A) = ''admin''"
  by (simp_all add: who_ada_def who_bob_def is_admin_def ada_def)

lemma demo_draws_fields [simp]:
  "d_hex demo_draws = ''0a0b0c''" "d_token demo_draws = ''tok''" "d_id demo_draws n = ''abcdefgh''"
  "make_sealer demo_key = Inr demo_key" "nonces_ok (d_nonce demo_draws)"
  by (simp_all add: demo_draws_def make_sealer_def demo_key_def KEY_BYTES_def nonces_ok_def NONCE_BYTES_def)

lemma demo_boot_fields [simp]:
  "users (database (demo_boot A)) = [(ada A)\<lparr>u_key_check := None\<rparr>]" "instances (database (demo_boot A)) = []"
  "invites (database (demo_boot A)) = []" "configs (database (demo_boot A)) = []" "state_rows (database (demo_boot A)) = []"
  "keys (demo_boot A) = []" "world (demo_boot A) = []" "jobs (demo_boot A) = []"
  by (simp_all add: demo_boot_def on_db_def bootstrap_admin_def has_admin_def initial_def empty_db_def insert_row_def
      ada_def Let_def default_limits_def demo_draws_def)

lemma demo_cp_fields [simp]:
  "users (database (demo_cp A)) = [ada A]" "instances (database (demo_cp A)) = []" "invites (database (demo_cp A)) = []"
  "configs (database (demo_cp A)) = []" "state_rows (database (demo_cp A)) = []" "world (demo_cp A) = []"
  "jobs (demo_cp A) = []"
  "keys (demo_cp A) = [(''s_tok'', \<lparr>e_sealer = demo_key, e_user = ''u_0a0b0c'', e_expires = 28802\<rparr>)]"
proof -
  have d: "on_db (check_key (demo_plane A) ''u_0a0b0c'' demo_key 2 demo_draws ((ada A)\<lparr>u_key_check := None\<rparr>)) (demo_boot A)
      = (Inr (), (demo_boot A)\<lparr>database := (database (demo_boot A))\<lparr>users := [ada A]\<rparr>\<rparr>)"
    by (simp add: on_db_def check_key_def set_user_def update_where_def Let_def)
      (simp add: ada_def)
  show "users (database (demo_cp A)) = [ada A]" "instances (database (demo_cp A)) = []" "invites (database (demo_cp A)) = []"
    "configs (database (demo_cp A)) = []" "state_rows (database (demo_cp A)) = []" "world (demo_cp A) = []"
    "jobs (demo_cp A) = []"
    "keys (demo_cp A) = [(''s_tok'', \<lparr>e_sealer = demo_key, e_user = ''u_0a0b0c'', e_expires = 28802\<rparr>)]"
    by (simp_all add: demo_cp_def begin_session_def user_def row_simps
        d on_keys_def keys_put_def keys_purge_def DEFAULT_SESSION_TTL_def Let_def)
qed

lemma demo_signed_in: "authenticated who_ada (demo_cp A)"
  by (simp add: authenticated_def principal_for_def user_def row_simps who_ada_def ada_def)

lemma demo_reach: "reach (demo_plane A) (initial []) \<lparr>sys_cp = demo_cp A, sys_running = []\<rparr>"
proof -
  have "step (demo_plane A) (initial []) ((initial [])\<lparr>sys_cp := demo_boot A\<rparr>)"
    unfolding demo_boot_def by (intro step.by_request request.first_admin)
  moreover have "step (demo_plane A) ((initial [])\<lparr>sys_cp := demo_boot A\<rparr>) ((initial [])\<lparr>sys_cp := demo_boot A, sys_cp := demo_cp A\<rparr>)"
    unfolding demo_cp_def by (intro step.by_request) (simp add: request.unlock)
  ultimately show ?thesis
    using reach_step [OF reach_step [OF reach_refl]] by (fastforce simp: initial_def)
qed

section \<open>One creation, evaluated\<close>

definition demo_naming :: naming where
  "demo_naming = \<lparr>n_env = ''abcdefgh'', n_app_prefix = ''sid'', n_host_pattern = ''{app}.fly.dev'', n_layout = ''apps''\<rparr>"

definition demo_spec :: spec where
  "demo_spec = spec_of_saved [] ''abcdefgh'' demo_platform"

definition demo_row :: "aead \<Rightarrow> bool \<Rightarrow> instance_row" where
  "demo_row A keep =
     \<lparr>i_id = ''abcdefgh'', i_owner = ''u_0a0b0c'', i_name = ''mine'', i_status = Creating, i_naming = to_dict demo_naming,
      i_spec = seal A demo_key (d_nonce demo_draws 0) (spec_doc demo_spec) (aad ''u_0a0b0c'' ''spec'' ''abcdefgh''),
      i_config = seal A demo_key (d_nonce demo_draws 1) (PDoc (JObj [])) (aad ''u_0a0b0c'' ''config-snapshot'' ''abcdefgh''),
      i_created_at = 10, i_updated_at = 10, i_expires_at = (if keep then None else Some 259210), i_kept = keep,
      i_urls = [], i_error = [], i_config_name = None, i_pending_spec = None, i_pending_config = None\<rparr>"

lemma demo_empty_config: "validate (JObj []) caps demo_platform = []"
  by (simp add: validate_def check_head_def check_list_def list_of_def check_android_def check_flags_def
     check_images_def check_values_def demo_platform_def default_policy_def dict_has_def json_eq_def SCHEMA_VERSION_def)

lemma demo_spec_valid: "validate_spec (Some component_names) demo_spec = Inr demo_spec"
  by (simp add: demo_spec_def validate_spec_def spec_problems_def spec_of_saved_def default_spec_def
      demo_platform_def default_policy_def str_field_def LAYOUTS_def LAYOUT_APPS_def
      channel_images_def dict_merge_def obj_field_def)

lemma demo_build: "build_spec (JObj []) ''abcdefgh'' caps demo_platform = Inr demo_spec"
  using demo_spec_valid by (simp add: demo_spec_def build_spec_def demo_empty_config)

lemma demo_spec_naming: "spec_naming demo_spec = Inr demo_naming"
  by (simp add: demo_spec_def demo_naming_def spec_naming_def make_naming_def spec_of_saved_def default_spec_def
      demo_platform_def default_policy_def LAYOUTS_def LAYOUT_APPS_def)

lemma demo_sealer: "sealer_of who_ada now (demo_cp A) = (if now < 28802 then (Inr demo_key, demo_cp A)
     else (Inl (Locked ''your session is locked: unlock it with your passkey''), (demo_cp A)\<lparr>keys := []\<rparr>))"
  by (simp add: sealer_of_def on_keys_def keys_get_def)

lemma demo_new: "new_instance (demo_plane A) who_ada (ada A) demo_key (JObj []) None ''mine'' keep 10 demo_draws (database (demo_cp A))
   = Inr (demo_row A keep, demo_spec)"
  by (simp add: new_instance_def demo_build demo_spec_naming demo_row_def live_count_def check_keep_def ada_def
      demo_draws_def RESERVED_IDS_def eval_nat_numeral default_limits_def DAY_def)

lemma demo_row_fields [simp]:
  "i_id (demo_row A keep) = ''abcdefgh''" "i_owner (demo_row A keep) = ''u_0a0b0c''" "i_kept (demo_row A keep) = keep"
  "i_status (demo_row A keep) = Creating" "i_naming (demo_row A keep) = to_dict demo_naming"
  "i_expires_at (demo_row A keep) = (if keep then None else Some 259210)" "i_created_at (demo_row A keep) = 10"
  "i_pending_spec (demo_row A keep) = None" "i_pending_config (demo_row A keep) = None"
  by (simp_all add: demo_row_def)

definition demo_created :: "aead \<Rightarrow> bool \<Rightarrow> demo_world cp" where
  "demo_created A keep = snd (create_instance (demo_plane A) who_ada None None ''mine'' keep 10 demo_draws (demo_cp A))"

lemma demo_create:
  "create_instance (demo_plane A) who_ada None None ''mine'' keep 10 demo_draws (demo_cp A)
   = (Inr (public (demo_row A keep)), demo_created A keep)"
  "instances (database (demo_created A keep)) = [demo_row A keep]" "users (database (demo_created A keep)) = [ada A]"
  "world (demo_created A keep) = []" "jobs (demo_created A keep) = [Deploy_job ''abcdefgh'' demo_key]"
  "keys (demo_created A keep) = keys (demo_cp A)" "state_rows (database (demo_created A keep)) = []"
  by (simp_all add: demo_created_def create_instance_def demo_sealer requested_config_def user_def row_simps demo_new
      get_instance_def instance_row_def submit_def Let_def)

section \<open>One destruction, evaluated\<close>

lemma demo_app_absent: "app_exists demo_fly a [] = (Inr False, [])"
  by (simp add: app_exists_def run_def demo_fly_def loads_or_def)

lemma demo_destroy_component: "destroy_component demo_fly n False name [] = (Inr Absent_app, [])"
  by (simp add: destroy_component_def demo_app_absent destroy_app_def Let_def)

lemma demo_destroy_loop:
  "destroy_loop demo_fly n False names r [] = (Inr (r\<lparr>dr_absent := dr_absent r @ map (app n) names\<rparr>), [])"
  by (induction names arbitrary: r) (simp_all add: demo_destroy_component)

lemma demo_destroy: "destroy_instance demo_fly demo_naming False mo [] =
   (Inr (empty_destroy_report\<lparr>dr_absent := map (app demo_naming) component_names\<rparr>), [])"
  by (simp add: destroy_instance_def single_machine_def demo_naming_def demo_destroy_loop LAYOUT_SINGLE_MACHINE_def
      empty_destroy_report_def)

lemma demo_naming_of: "naming_of (demo_row A keep) = Inr demo_naming"
  by (simp add: naming_of_def naming_roundtrip naming_ok_def demo_naming_def LAYOUTS_def LAYOUT_APPS_def)

definition demo_destroyed :: "aead \<Rightarrow> bool \<Rightarrow> demo_world cp" where
  "demo_destroyed A keep = snd (destroy_instance_op (demo_plane A) who_ada ''abcdefgh'' 20 (demo_created A keep))"

lemma demo_destroyed_rows:
  "instances (database (demo_destroyed A keep)) = [(demo_row A keep)\<lparr>i_status := Destroyed, i_urls := [], i_updated_at := 20\<rparr>]"
  "users (database (demo_destroyed A keep)) = [ada A]" "jobs (demo_destroyed A keep) = [Deploy_job ''abcdefgh'' demo_key]"
  "state_rows (database (demo_destroyed A keep)) = []" "world (demo_destroyed A keep) = []"
  by (simp_all add: demo_destroyed_def destroy_instance_op_def instance_row_def demo_create row_simps destroy_row_def
      demo_naming_of on_world_def demo_destroy destroy_commit_def destroy_ok_def empty_destroy_report_def Let_def
      set_row_def update_instance_def update_where_def touch_def delete_state_def delete_where_def)

section \<open>More reachable states\<close>

abbreviation idle :: "demo_world cp \<Rightarrow> demo_world sys" where
  "idle c \<equiv> \<lparr>sys_cp = c, sys_running = []\<rparr>"

lemma demo_request: "reach cf s (idle c) \<Longrightarrow> request cf c c' \<Longrightarrow> reach cf s (idle c')"
  using reach_step [of cf s "idle c" "idle c'"] step.by_request [of cf "idle c" c'] by simp

lemma demo_signed_in_later: "users (database c) = [ada A] \<Longrightarrow> authenticated who_ada c"
  by (simp add: authenticated_def principal_for_def user_def row_simps who_ada_def ada_def)

lemma demo_reach_created: "reach (demo_plane A) (initial []) (idle (demo_created A keep))"
  unfolding demo_created_def by (intro demo_request [OF demo_reach] request.create demo_signed_in)

lemma demo_reach_destroyed: "reach (demo_plane A) (idle (demo_created A keep)) (idle (demo_destroyed A keep))"
  unfolding demo_destroyed_def
  by (intro demo_request [OF reach_refl] request.destroy demo_signed_in_later) (simp add: demo_create)

definition demo_disabled :: "aead \<Rightarrow> demo_world cp" where
  "demo_disabled A = snd (disable_user (demo_plane A) who_ada ''u_0a0b0c'' 30 (demo_cp A))"

lemma demo_reach_disabled: "reach (demo_plane A) (initial []) (idle (demo_disabled A))"
  unfolding demo_disabled_def by (intro demo_request [OF demo_reach] request.disable demo_signed_in)

lemma demo_disabled_users: "users (database (demo_disabled A)) = [(ada A)\<lparr>u_disabled := True\<rparr>]"
  by (simp add: demo_disabled_def disable_user_def require_admin_def user_def row_simps set_user_def update_where_def Let_def)

definition demo_invite_args :: invite_args where
  "demo_invite_args = \<lparr>ia_capabilities = [], ia_role = ''member'', ia_email = [], ia_days_valid = 7,
     ia_max_concurrent = None, ia_max_kept = 0, ia_kept_for_days = None\<rparr>"

definition demo_invited :: "aead \<Rightarrow> demo_world cp" where
  "demo_invited A = snd (on_db (create_invite (demo_plane A) who_ada demo_invite_args 5 demo_draws) (demo_cp A))"

lemma demo_reach_invited: "reach (demo_plane A) (initial []) (idle (demo_invited A))"
  unfolding demo_invited_def by (intro demo_request [OF demo_reach] request.invite demo_signed_in)

definition demo_invite :: invite_row where
  "demo_invite = \<lparr>v_token_hash = ''htok'', v_created_by = ''u_0a0b0c'', v_role = ''member'', v_capabilities = [],
     v_max_concurrent = 2, v_max_kept = 0, v_kept_for_days = None, v_email = [], v_expires_at = 5 + 7 * DAY,
     v_used_by = None, v_used_at = None, v_revoked = False, v_created_at = 5\<rparr>"

lemma demo_invites: "invites (database (demo_invited A)) = [demo_invite]" "users (database (demo_invited A)) = [ada A]"
  by (simp_all add: demo_invited_def on_db_def create_invite_def require_admin_def demo_invite_args_def demo_invite_def
      unknown_caps_def default_limits_def insert_row_def Let_def py_strip_def py_lower_def lstrip_by_def rstrip_by_def)

definition other_draws :: draws where
  "other_draws = demo_draws\<lparr>d_hex := ''ffffff''\<rparr>"

lemma demo_redeem: "\<exists>p d. redeem_invite (demo_plane A) ''tok'' ''Bob'' [] 6 other_draws (database (demo_invited A)) = (Inr p, d)"
proof -
  have "invite_problem (demo_plane A) ''tok'' [] 6 (database (demo_invited A)) = Inr demo_invite"
    by (simp add: invite_problem_def demo_invites row_simps demo_invite_def truthy_str_def DAY_def)
  from redeem_invite_cases [OF this] show ?thesis
    by (simp add: demo_invites other_draws_def Let_def)
qed

end
