(* ===== verification/Effects.thy ===== *)
theory Effects
  imports Lifecycle "HOL-Library.Multiset" "HOL-Library.Sublist"
begin

text \<open>
  What the Fly and Machines clients and the lifecycle operations do to the outside world:
  the polling loops end, a write is sent once, a secret stays out of the errors, a destroy
  reports every component once and keeps what it must keep.
\<close>

section \<open>The polling loops end\<close>

text \<open>Time does not run backwards, and a sleep lasts as long as it was asked to.\<close>

definition fly_time_passes :: "'w fly \<Rightarrow> bool" where
  "fly_time_passes f \<longleftrightarrow>
     (\<forall>args w. fly_mono f w \<le> fly_mono f (snd (fly_run f args w))) \<and>
     (\<forall>p w. fly_mono f w + p \<le> fly_mono f (fly_sleep f p w))"

definition machines_time_passes :: "'w machines \<Rightarrow> bool" where
  "machines_time_passes m \<longleftrightarrow>
     (\<forall>a b c d e w. ma_clock m w \<le> ma_clock m (snd (ma_transport m a b c d e w))) \<and>
     (\<forall>p w. ma_clock m w + p \<le> ma_clock m (ma_sleep m p w))"

lemma run_world: "snd (run f args chk cap w) = snd (fly_run f (''flyctl'' # args) w)"
  by (auto simp: run_def split: prod.splits)

lemma run_unchecked:
  obtains r where "run f args False cap w = (Inr r, snd (fly_run f (''flyctl'' # args) w))"
  by (cases "fly_run f (''flyctl'' # args) w") (simp add: run_def)

lemma run_mono: "fly_time_passes f \<Longrightarrow> fly_mono f w \<le> fly_mono f (snd (run f args chk cap w))"
  by (simp add: run_world fly_time_passes_def)

lemma sleep_mono: "fly_time_passes f \<Longrightarrow> fly_mono f w + p \<le> fly_mono f (fly_sleep f p w)"
  by (simp add: fly_time_passes_def)

lemma settle_loop_total:
  assumes "fly_time_passes f" and "deadline - fly_mono f w \<le> of_nat n * poll"
  shows "fst (settle_loop (Suc n) f a deadline poll w) \<noteq> Inl out_of_fuel"
  using assms(2)
proof (induction n arbitrary: w)
  case (0 w)
  obtain r where r: "run f [''machine'', ''list'', ''-a'', a, ''--json''] False True w = (Inr r, snd (fly_run f (''flyctl'' # [''machine'', ''list'', ''-a'', a, ''--json'']) w))"
    (is "_ = (_, ?w)") by (rule run_unchecked)
  have "deadline \<le> fly_mono f ?w" using 0 run_mono [OF assms(1), of w "[''machine'', ''list'', ''-a'', a, ''--json'']" False True] r by simp
  then show ?case by (auto simp: r split: option.splits)
next
  case (Suc n w)
  obtain r where r: "run f [''machine'', ''list'', ''-a'', a, ''--json''] False True w = (Inr r, snd (fly_run f (''flyctl'' # [''machine'', ''list'', ''-a'', a, ''--json'']) w))"
    (is "_ = (_, ?w)") by (rule run_unchecked)
  have "fly_mono f w \<le> fly_mono f ?w" using run_mono [OF assms(1), of w "[''machine'', ''list'', ''-a'', a, ''--json'']" False True] r by simp
  moreover note sleep_mono [OF assms(1), of ?w poll]
  ultimately have "deadline - fly_mono f (fly_sleep f poll ?w) \<le> of_nat n * poll"
    using Suc.prems by (simp add: algebra_simps)
  from Suc.IH [OF this] show ?case
    by (subst settle_loop.simps) (auto simp: r out_of_fuel_def split: option.splits)
qed

lemma checks_loop_total:
  assumes "fly_time_passes f" and "deadline - fly_mono f w \<le> of_nat n * poll"
  shows "fst (checks_loop (Suc n) f a deadline poll w) \<noteq> Inl out_of_fuel"
  using assms(2)
proof (induction n arbitrary: w)
  case (0 w)
  then show ?case by (simp add: not_less)
next
  case (Suc n w)
  obtain r where r: "run f [''checks'', ''list'', ''-a'', a, ''--json''] False True w = (Inr r, snd (fly_run f (''flyctl'' # [''checks'', ''list'', ''-a'', a, ''--json'']) w))"
    (is "_ = (_, ?w)") by (rule run_unchecked)
  have "fly_mono f w \<le> fly_mono f ?w" using run_mono [OF assms(1), of w "[''checks'', ''list'', ''-a'', a, ''--json'']" False True] r by simp
  moreover note sleep_mono [OF assms(1), of ?w poll]
  ultimately have "deadline - fly_mono f (fly_sleep f poll ?w) \<le> of_nat n * poll"
    using Suc.prems by (simp add: algebra_simps)
  from Suc.IH [OF this] show ?case
    by (subst checks_loop.simps) (auto simp: r Let_def out_of_fuel_def)
qed

lemma run_each_total: "fst (run_each f p (cmd :: 'a \<Rightarrow> string list) xs w) = Inr ()"
proof (induction xs arbitrary: w)
  case (Cons x xs)
  obtain r where "run f (cmd x) False False w = (Inr r, snd (fly_run f (''flyctl'' # cmd x) w))" by (rule run_unchecked)
  with Cons show ?case by simp
qed simp

text \<open>More fuel changes nothing once the loop has ended.\<close>

lemma settle_loop_fuel:
  "fst (settle_loop n f a deadline poll w) \<noteq> Inl out_of_fuel \<Longrightarrow> n \<le> k \<Longrightarrow>
   settle_loop k f a deadline poll w = settle_loop n f a deadline poll w"
proof (induction n arbitrary: k w)
  case 0
  then show ?case by simp
next
  case (Suc n k w)
  then obtain k' where k: "k = Suc k'" "n \<le> k'" by (cases k) auto
  obtain r where r: "run f [''machine'', ''list'', ''-a'', a, ''--json''] False True w = (Inr r, snd (fly_run f (''flyctl'' # [''machine'', ''list'', ''-a'', a, ''--json'']) w))"
    by (rule run_unchecked)
  show ?case using Suc.prems Suc.IH [OF _ k(2)] by (auto simp: k(1) r split: option.splits if_splits)
qed

lemma checks_loop_fuel:
  "fst (checks_loop n f a deadline poll w) \<noteq> Inl out_of_fuel \<Longrightarrow> n \<le> k \<Longrightarrow>
   checks_loop k f a deadline poll w = checks_loop n f a deadline poll w"
proof (induction n arbitrary: k w)
  case 0
  then show ?case by simp
next
  case (Suc n k w)
  then obtain k' where k: "k = Suc k'" "n \<le> k'" by (cases k) auto
  obtain r where r: "run f [''checks'', ''list'', ''-a'', a, ''--json''] False True w = (Inr r, snd (fly_run f (''flyctl'' # [''checks'', ''list'', ''-a'', a, ''--json'']) w))"
    by (rule run_unchecked)
  show ?case using Suc.prems Suc.IH [OF _ k(2)] by (auto simp: k(1) r Let_def split: if_splits)
qed

lemma ensure_running_returns:
  assumes "fly_time_passes f" and "16 \<le> fly_fuel f"
  shows "fst (ensure_running f a w) = Inr ()"
proof -
  have fuel: "(16::nat) = Suc 15" by simp
  have t: "fst (settle_loop 16 f a (fly_mono f w + 30) 2 w) \<noteq> Inl out_of_fuel"
    unfolding fuel by (rule settle_loop_total [OF assms(1)]) simp
  have "Inl e \<noteq> fst (settle_loop n f a d p w)" if "e \<noteq> out_of_fuel" for n d p e w
  proof (induction n arbitrary: w)
    case 0
    then show ?case using that by simp
  next
    case (Suc n w)
    obtain r where r: "run f [''machine'', ''list'', ''-a'', a, ''--json''] False True w = (Inr r, snd (fly_run f (''flyctl'' # [''machine'', ''list'', ''-a'', a, ''--json'']) w))"
      by (rule run_unchecked)
    with Suc show ?case by (auto split: option.splits)
  qed
  then have "\<exists>x. fst (settle_loop (fly_fuel f) f a (fly_mono f w + 30) 2 w) = Inr x"
    using settle_loop_fuel [OF t assms(2)] t by (metis sum.exhaust)
  then show ?thesis
    by (auto simp: ensure_running_def run_each_total split: prod.splits sum.splits option.splits)
qed

lemma wait_for_checks_returns:
  assumes "fly_time_passes f" and "31 \<le> fly_fuel f"
  shows "fst (wait_for_checks f a w) = Inr ()"
proof -
  have fuel: "(31::nat) = Suc 30" by simp
  have t: "fst (checks_loop 31 f a (fly_mono f w + 90) 3 w) \<noteq> Inl out_of_fuel"
    unfolding fuel by (rule checks_loop_total [OF assms(1)]) simp
  have "Inl e \<noteq> fst (checks_loop n f a d p w)" if "e \<noteq> out_of_fuel" for n d p e w
  proof (induction n arbitrary: w)
    case 0
    then show ?case using that by simp
  next
    case (Suc n w)
    obtain r where r: "run f [''checks'', ''list'', ''-a'', a, ''--json''] False True w = (Inr r, snd (fly_run f (''flyctl'' # [''checks'', ''list'', ''-a'', a, ''--json'']) w))"
      by (rule run_unchecked)
    with Suc show ?case by (auto simp: Let_def)
  qed
  then have "\<exists>x. fst (checks_loop (fly_fuel f) f a (fly_mono f w + 90) 3 w) = Inr x"
    using checks_loop_fuel [OF t assms(2)] t by (metis sum.exhaust)
  then show ?thesis by (auto simp: wait_for_checks_def split: prod.splits sum.splits)
qed

text \<open>The same for the containers of one machine: a round per poll interval, and one more.\<close>

lemma call_cases:
  obtains hs tmo r w' where "call_attempts m meth path hs body tmo 0 (if meth = ''GET'' \<and> retry then 3 else 1) w = (r, w')"
    and "call m meth path body quiet timeout retry w =
      (case r of
         Inl e \<Rightarrow> (Inl e, w')
       | Inr (st, raw) \<Rightarrow>
           if st \<notin> set OK_STATUS then
             (Inl (MachinesError (meth @ '' '' @ path @ '': HTTP '' @ show_int st @
                (if quiet then [] else '': '' @ take 300 (py_strip raw))) (Some st)), w')
           else (Inr raw, w'))"
proof -
  let ?hs = "[(''Authorization'', authorization (ma_token m)), (''Accept'', ''application/json'')] @
               (if body \<noteq> None then [(''Content-Type'', ''application/json'')] else [])"
  let ?tmo = "(case timeout of None \<Rightarrow> ma_timeout m | Some t \<Rightarrow> if t = 0 then ma_timeout m else t)"
  let ?n = "if meth = ''GET'' \<and> retry then 3 else 1"
  obtain r w' where c: "call_attempts m meth path ?hs body ?tmo 0 ?n w = (r, w')" by fastforce
  show ?thesis
    by (rule that [OF c]) (simp only: call_def Let_def c prod.case split: sum.split)
qed

lemma call_clock:
  assumes "machines_time_passes m"
  shows "ma_clock m w \<le> ma_clock m (snd (call m meth path body quiet timeout retry w))"
proof -
  have "ma_clock m w \<le> ma_clock m (snd (call_attempts m meth path hs body tmo i n w))" for hs tmo i n
  proof (induction n arbitrary: i w)
    case (Suc n)
    obtain rep w' where t: "ma_transport m meth (ma_base_url m @ path) hs body tmo w = (rep, w')" by fastforce
    then have w': "ma_clock m w \<le> ma_clock m w'" using assms unfolding machines_time_passes_def by (metis snd_conv)
    show ?case
    proof (cases rep)
      case (NetError cls msg)
      have "ma_clock m w' \<le> ma_clock m (ma_sleep m (2 * (of_nat i + 1)) w')"
        using assms unfolding machines_time_passes_def by (metis add_increasing2 le_add_same_cancel1 of_nat_0_le_iff order_trans zero_le_mult_iff zero_le_numeral zero_less_one_class.zero_le_one)
      also have "\<dots> \<le> ma_clock m (snd (call_attempts m meth path hs body tmo (Suc i) n (ma_sleep m (2 * (of_nat i + 1)) w')))"
        by (rule Suc)
      finally show ?thesis using w' by (auto simp: t NetError)
    qed (simp add: t w')
  qed simp
  then have "ma_clock m w \<le> ma_clock m w'" if "call_attempts m meth path hs body tmo i n w = (r, w')" for hs tmo i n r w'
    using that by (metis snd_conv)
  moreover obtain hs tmo r w' where
    "call_attempts m meth path hs body tmo 0 (if meth = ''GET'' \<and> retry then 3 else 1) w = (r, w')"
    and c: "call m meth path body quiet timeout retry w =
      (case r of Inl e \<Rightarrow> (Inl e, w')
       | Inr (st, raw) \<Rightarrow> if st \<notin> set OK_STATUS then
             (Inl (MachinesError (meth @ '' '' @ path @ '': HTTP '' @ show_int st @
                (if quiet then [] else '': '' @ take 300 (py_strip raw))) (Some st)), w') else (Inr raw, w'))"
    by (rule call_cases)
  moreover have "snd (call m meth path body quiet timeout retry w) = w'"
    unfolding c by (simp split: sum.split)
  ultimately show ?thesis by metis
qed

lemma get_machine_clock:
  "machines_time_passes m \<Longrightarrow> m_get_machine m a i t retry w = (r, w') \<Longrightarrow> ma_clock m w \<le> ma_clock m w'"
  using call_clock [of m w "''GET''" "machine_path a i" None False t retry]
  by (auto simp: m_get_machine_def m_reply_def split: prod.splits sum.splits option.splits)

definition loop_fuel :: exn where
  "loop_fuel = OtherError ''OutOfFuel'' []"

lemma call_not_fuel: "fst (call m meth path body quiet timeout retry w) \<noteq> Inl loop_fuel"
proof -
  have "fst (call_attempts m meth path hs body tmo i n w) \<noteq> Inl loop_fuel" for hs tmo i n
    by (induction n arbitrary: i w) (auto simp: loop_fuel_def split: prod.splits net_reply.splits)
  then have e: "r \<noteq> Inl loop_fuel" if "call_attempts m meth path hs body tmo i n w = (r, w')" for hs tmo i n r w'
    using that by (metis fst_conv)
  obtain hs tmo r w' where
    a: "call_attempts m meth path hs body tmo 0 (if meth = ''GET'' \<and> retry then 3 else 1) w = (r, w')"
    and c: "call m meth path body quiet timeout retry w =
      (case r of Inl e \<Rightarrow> (Inl e, w')
       | Inr (st, raw) \<Rightarrow> if st \<notin> set OK_STATUS then
             (Inl (MachinesError (meth @ '' '' @ path @ '': HTTP '' @ show_int st @
                (if quiet then [] else '': '' @ take 300 (py_strip raw))) (Some st)), w') else (Inr raw, w'))"
    by (rule call_cases)
  show ?thesis unfolding c using e [OF a] by (auto simp: loop_fuel_def split: sum.split)
qed

lemma containers_loop_total:
  assumes "machines_time_passes m" and "deadline - ma_clock m w \<le> of_nat n * poll"
  shows "fst (containers_loop (Suc n) m a i want timeout deadline poll w) \<noteq> Inl loop_fuel"
  using assms(2)
proof (induction n arbitrary: w)
  case (0 w)
  obtain r w' where g: "m_get_machine m a i None True w = (r, w')" by fastforce
  then have "r \<noteq> Inl loop_fuel" using call_not_fuel [of m "''GET''" "machine_path a i" None False None True w]
    by (auto simp: m_get_machine_def m_reply_def loop_fuel_def split: prod.splits sum.splits option.splits)
  moreover have "deadline \<le> ma_clock m w'" using 0 get_machine_clock [OF assms(1) g] by simp
  ultimately show ?case by (auto simp: g Let_def loop_fuel_def split: sum.splits)
next
  case (Suc n w)
  obtain r w' where g: "m_get_machine m a i None True w = (r, w')" by fastforce
  then have r: "r \<noteq> Inl loop_fuel" using call_not_fuel [of m "''GET''" "machine_path a i" None False None True w]
    by (auto simp: m_get_machine_def m_reply_def loop_fuel_def split: prod.splits sum.splits option.splits)
  have "ma_clock m w \<le> ma_clock m w'" by (rule get_machine_clock [OF assms(1) g])
  moreover have "ma_clock m w' + poll \<le> ma_clock m (ma_sleep m poll w')" using assms(1) by (simp add: machines_time_passes_def)
  ultimately have "deadline - ma_clock m (ma_sleep m poll w') \<le> of_nat n * poll" using Suc.prems by (simp add: algebra_simps)
  from Suc.IH [OF this] r show ?case
    by (subst containers_loop.simps) (auto simp: g Let_def loop_fuel_def split: sum.splits)
qed

lemma wait_containers_returns:
  assumes "machines_time_passes m" and "timeout \<le> of_nat n * 5" and "ma_fuel m = Suc n"
  shows "fst (wait_containers m a i want timeout w) \<noteq> Inl loop_fuel"
  unfolding wait_containers_def assms(3) by (rule containers_loop_total [OF assms(1)]) (simp add: assms(2))

section \<open>A write is sent once\<close>

text \<open>\<open>sent\<close> counts the requests that reached the transport.\<close>

definition counts_requests :: "'w machines \<Rightarrow> ('w \<Rightarrow> nat) \<Rightarrow> bool" where
  "counts_requests m sent \<longleftrightarrow>
     (\<forall>a b c d e w. sent (snd (ma_transport m a b c d e w)) = Suc (sent w)) \<and> (\<forall>p w. sent (ma_sleep m p w) = sent w)"

lemma call_attempts_sent:
  assumes "counts_requests m sent"
  shows "sent (snd (call_attempts m meth path hs body tmo i n w)) \<le> sent w + n"
proof (induction n arbitrary: i w)
  case (Suc n)
  obtain rep w' where t: "ma_transport m meth (ma_base_url m @ path) hs body tmo w = (rep, w')" by fastforce
  then have w': "sent w' = Suc (sent w)" using assms unfolding counts_requests_def by (metis snd_conv)
  show ?case
  proof (cases rep)
    case (NetError cls msg)
    have "sent (ma_sleep m (2 * (of_nat i + 1)) w') = sent w'" using assms by (simp add: counts_requests_def)
    then show ?thesis using Suc [of "Suc i" "ma_sleep m (2 * (of_nat i + 1)) w'"] w' by (simp add: t NetError)
  qed (simp add: t w')
qed simp

lemma call_sent:
  assumes "counts_requests m sent"
  shows "sent (snd (call m meth path body quiet timeout retry w)) \<le> sent w + (if meth = ''GET'' \<and> retry then 3 else 1)"
proof -
  obtain hs tmo r w' where
    a: "call_attempts m meth path hs body tmo 0 (if meth = ''GET'' \<and> retry then 3 else 1) w = (r, w')"
    and c: "call m meth path body quiet timeout retry w =
      (case r of Inl e \<Rightarrow> (Inl e, w')
       | Inr (st, raw) \<Rightarrow> if st \<notin> set OK_STATUS then
             (Inl (MachinesError (meth @ '' '' @ path @ '': HTTP '' @ show_int st @
                (if quiet then [] else '': '' @ take 300 (py_strip raw))) (Some st)), w') else (Inr raw, w'))"
    by (rule call_cases)
  have "snd (call m meth path body quiet timeout retry w) = w'" unfolding c by (simp split: sum.split)
  with call_attempts_sent [OF assms, of meth path hs body tmo 0 _ w] a show ?thesis by (metis snd_conv)
qed

section \<open>A secret stays out of the errors\<close>

abbreviation secret_path :: "string \<Rightarrow> string \<Rightarrow> string" where
  "secret_path a name \<equiv> ''/apps/'' @ url_quote a @ ''/secrets/'' @ url_quote name"

lemma set_secret_refused:
  assumes "ma_transport m ''POST'' (ma_base_url m @ secret_path a name)
      [(''Authorization'', authorization (ma_token m)), (''Accept'', ''application/json''), (''Content-Type'', ''application/json'')]
      (Some (JObj [(''value'', JStr val)])) (ma_timeout m) w = (Reply st raw, w')"
    and "st \<notin> set OK_STATUS"
  shows "set_secret m a name val w =
    (Inl (MachinesError (''POST '' @ secret_path a name @ '': HTTP '' @ show_int st) (Some st)), w')"
  using assms by (simp add: set_secret_def call_def numeral_eq_Suc Let_def)

section \<open>What a destroy reports, and what it keeps\<close>

lemma destroy_loop_report:
  assumes "destroy_loop f n False names r w = (Inr r', w')"
  shows "dr_kept r' = dr_kept r \<and>
    mset (dr_destroyed r' @ dr_absent r' @ map fst (dr_failed r')) =
    mset (dr_destroyed r @ dr_absent r @ map fst (dr_failed r)) + mset (map (app n) names)"
  using assms
proof (induction names arbitrary: r w)
  case (Cons name names)
  obtain x w1 where d: "destroy_component f n False name w = (x, w1)" by fastforce
  have k: "x = Inr d \<Longrightarrow> d = Destroyed_app \<or> d = Absent_app" for d
    using d by (auto simp: destroy_component_def Let_def split: prod.splits sum.splits bool.splits if_splits)
  show ?case
  proof (cases x)
    case (Inl e)
    with Cons.prems d obtain msg where e: "e = FlyError msg" by (cases e) auto
    from Cons.IH [of "r\<lparr>dr_failed := dr_failed r @ [(app n name, msg)]\<rparr>" w1] Cons.prems show ?thesis by (simp add: d Inl e)
  next
    case (Inr o')
    from Cons.IH [of "add_destroy (app n name) o' r" w1] Cons.prems k [OF Inr] show ?thesis by (auto simp: d Inr)
  qed
qed simp

text \<open>With \<open>keep_data\<close> a component is reported at most once, and an app is kept only if it holds data.\<close>

lemma destroy_loop_report_keep:
  assumes "destroy_loop f n k names r w = (Inr r', w')"
  shows "mset (dr_destroyed r' @ dr_kept r' @ dr_absent r' @ map fst (dr_failed r')) \<subseteq>#
    mset (dr_destroyed r @ dr_kept r @ dr_absent r @ map fst (dr_failed r)) + mset (map (app n) names) \<and>
    set (dr_kept r') \<subseteq> set (dr_kept r) \<union> app n ` set STORAGE_APPS \<and>
    (k \<longrightarrow> set (dr_destroyed r') \<inter> app n ` set STORAGE_APPS \<subseteq> set (dr_destroyed r))"
  using assms
proof (induction names arbitrary: r w)
  case (Cons name names)
  obtain x w1 where d: "destroy_component f n k name w = (x, w1)" by fastforce
  show ?case
  proof (cases x)
    case (Inl e)
    with Cons.prems d obtain msg where e: "e = FlyError msg" by (cases e) auto
    from Cons.IH [of "r\<lparr>dr_failed := dr_failed r @ [(app n name, msg)]\<rparr>" w1] Cons.prems show ?thesis by (simp add: d Inl e)
  next
    case (Inr o')
    have o: "(o' = Kept_app \<longrightarrow> name \<in> set STORAGE_APPS) \<and> (o' = Destroyed_app \<longrightarrow> \<not> (k \<and> name \<in> set STORAGE_APPS))"
      using d Inr by (auto simp: destroy_component_def Let_def split: prod.splits sum.splits bool.splits if_splits)
    from Cons.IH [of "add_destroy (app n name) o' r" w1] Cons.prems o show ?thesis
      by (cases o') (auto simp: d Inr subset_mset.add_increasing2 intro: subset_mset.order_trans)
  qed
qed simp

text \<open>
  \<open>sent\<close> reads the flyctl commands run so far off the world. A destroy with \<open>keep_data\<close> runs
  neither \<open>apps destroy\<close> on a storage app nor any command on a volume.
\<close>

definition logs_commands :: "'w fly \<Rightarrow> ('w \<Rightarrow> string list list) \<Rightarrow> bool" where
  "logs_commands f sent \<longleftrightarrow>
     (\<forall>args w. sent (snd (fly_run f args w)) = sent w @ [args]) \<and> (\<forall>p w. sent (fly_sleep f p w) = sent w)"

text \<open>A flyctl that only keeps its log, and answers every listing with the given apps.\<close>

definition log_fly :: "string list \<Rightarrow> string list list fly" where
  "log_fly as =
     \<lparr>fly_org = ''sandbox'', fly_run = (\<lambda>args w. (\<lparr>cr_code = 0, cr_out = ''x'', cr_err = []\<rparr>, w @ [args])),
      fly_app_names = (\<lambda>out. Some as), fly_machine_list = (\<lambda>out. Some []), fly_volume_list = (\<lambda>out. Some []),
      fly_check_states = (\<lambda>out. Some []), fly_token_rows = (\<lambda>out. []), fly_secret_names = (\<lambda>out. Some []),
      fly_mono = of_nat \<circ> length, fly_sleep = (\<lambda>t w. w), fly_fuel = 100\<rparr>"

lemma log_fly_logs: "logs_commands (log_fly as) (\<lambda>w. w)"
  by (simp add: logs_commands_def log_fly_def)

definition loses_data :: "naming \<Rightarrow> string list \<Rightarrow> bool" where
  "loses_data n args \<longleftrightarrow> (\<exists>s \<in> set STORAGE_APPS. \<exists>more. args = [''flyctl'', ''apps'', ''destroy'', app n s] @ more) \<or>
     (\<exists>more. args = [''flyctl'', ''volumes''] @ more)"

definition only_adds :: "('w \<Rightarrow> string list list) \<Rightarrow> (string list \<Rightarrow> bool) \<Rightarrow> 'w \<Rightarrow> 'w \<Rightarrow> bool" where
  "only_adds sent P w w' \<longleftrightarrow> (\<exists>new. sent w' = sent w @ new \<and> list_all P new)"

lemma only_adds_refl [intro, simp]: "only_adds sent P w w"
  by (simp add: only_adds_def)

lemma only_adds_trans: "only_adds sent P w w1 \<Longrightarrow> only_adds sent P w1 w2 \<Longrightarrow> only_adds sent P w w2"
  unfolding only_adds_def by (elim exE conjE) (simp add: list_all_append)

lemma run_adds:
  assumes "logs_commands f sent" and "run f args chk cap w = (r, w')" and "P (''flyctl'' # args)"
  shows "only_adds sent P w w'"
  using assms run_world [of f args chk cap w] by (simp add: logs_commands_def only_adds_def)

lemma run_each_adds:
  assumes "logs_commands f sent" and "\<And>x. P (''flyctl'' # cmd x)"
  shows "run_each f p cmd xs w = (r, w') \<Longrightarrow> only_adds sent P w w'"
proof (induction xs arbitrary: w)
  case (Cons x xs)
  show ?case
  proof (cases "p x")
    case True
    obtain y w1 where y: "run f (cmd x) False False w = (y, w1)" by fastforce
    have a: "only_adds sent P w w1" by (rule run_adds [where P = P, OF assms(1) y assms(2)])
    show ?thesis
    proof (cases y)
      case (Inr z)
      then have "run_each f p cmd xs w1 = (r, w')" using Cons.prems True y by simp
      with a show ?thesis by (blast intro: only_adds_trans Cons.IH)
    qed (use Cons.prems True y a in simp)
  qed (use Cons in simp)
qed simp

text \<open>Commands other than those on apps and volumes.\<close>

definition harmless :: "(string list \<Rightarrow> bool) \<Rightarrow> bool" where
  "harmless P \<longleftrightarrow> (\<forall>more. P (''flyctl'' # ''machine'' # more) \<and> P (''flyctl'' # ''tokens'' # more) \<and> P (''flyctl'' # ''apps'' # ''list'' # more))"

lemma list_machines_adds:
  assumes "logs_commands f sent" and "harmless P" and "list_machines f a w = (r, w')"
  shows "only_adds sent P w w'"
proof -
  obtain x w1 where x: "run f [''machine'', ''list'', ''-a'', a, ''--json''] False True w = (x, w1)" by fastforce
  then have "w' = w1" using assms(3) by (auto simp: list_machines_def split: sum.splits if_splits option.splits)
  with run_adds [OF assms(1) x, of P] assms(2) show ?thesis by (simp add: harmless_def)
qed

lemma app_exists_adds:
  assumes "logs_commands f sent" and "harmless P" and "app_exists f a w = (r, w')"
  shows "only_adds sent P w w'"
proof -
  obtain x w1 where x: "run f [''apps'', ''list'', ''--json''] False True w = (x, w1)" by fastforce
  then have "w' = w1" using assms(3) by (auto simp: app_exists_def split: sum.splits if_splits option.splits)
  with run_adds [OF assms(1) x, of P] assms(2) show ?thesis by (simp add: harmless_def)
qed

lemma stop_machines_adds:
  assumes "logs_commands f sent" and "harmless P" and "stop_machines f a w = (r, w')"
  shows "only_adds sent P w w'"
proof -
  obtain x w1 where x: "list_machines f a w = (x, w1)" by fastforce
  note a = list_machines_adds [OF assms(1,2) x]
  show ?thesis
  proof (cases x)
    case (Inr ms)
    with assms(3) x have "run_each f (\<lambda>m. fm_state m \<notin> {Some ''stopped'', Some ''destroyed''})
        (\<lambda>m. [''machine'', ''stop'', fm_id m, ''-a'', a]) ms w1 = (r, w')" by (simp add: stop_machines_def)
    have "only_adds sent P w1 w'"
      by (rule run_each_adds [OF assms(1) _ \<open>run_each _ _ _ _ _ = _\<close>]) (use assms(2) in \<open>simp add: harmless_def\<close>)
    with a show ?thesis by (rule only_adds_trans)
  next
    case (Inl e)
    then show ?thesis using assms(3) x a by (simp add: stop_machines_def)
  qed
qed

lemma revoke_tokens_adds:
  assumes "logs_commands f sent" and "harmless P" and "revoke_tokens f a name w = (r, w')"
  shows "only_adds sent P w w'"
proof -
  obtain x w1 where x: "run f [''tokens'', ''list'', ''-a'', a] False True w = (Inr x, w1)" by (metis run_unchecked)
  have ax: "only_adds sent P w w1" using run_adds [OF assms(1) x, of P] assms(2) by (simp add: harmless_def)
  define ids where "ids = map fst (filter (\<lambda>(i, n). n = name) (fly_token_rows f (cr_out x)))"
  obtain y w2 where y: "run f ([''tokens'', ''revoke''] @ ids) False False w1 = (Inr y, w2)" by (metis run_unchecked)
  have ay: "only_adds sent P w1 w2" using run_adds [OF assms(1) y, of P] assms(2) by (simp add: harmless_def)
  have "w' = (if cr_code x \<noteq> 0 \<or> ids = [] then w1 else w2)"
    using assms(3) x y by (simp add: revoke_tokens_def Let_def ids_def [symmetric] split: if_splits)
  with only_adds_trans [OF ax ay] ax show ?thesis by simp
qed

lemma destroy_app_adds:
  assumes "logs_commands f sent" and "harmless P" and "P [''flyctl'', ''apps'', ''destroy'', a, ''--yes'']"
    and "destroy_app f a w = (r, w')"
  shows "only_adds sent P w w'"
proof -
  obtain x w1 where x: "app_exists f a w = (x, w1)" by fastforce
  note ax = app_exists_adds [OF assms(1,2) x]
  obtain y w2 where y: "run f [''apps'', ''destroy'', a, ''--yes''] True False w1 = (y, w2)" by fastforce
  note ay = run_adds [OF assms(1) y, of P]
  have "w' = (if x = Inr True then w2 else w1)"
    using assms(4) x y by (auto simp: destroy_app_def split: sum.splits bool.splits)
  with only_adds_trans [OF ax ay] ax assms(3) show ?thesis by simp
qed

lemma destroy_component_adds:
  assumes l: "logs_commands f sent" and "harmless P"
    and P: "\<not> (k \<and> name \<in> set STORAGE_APPS) \<Longrightarrow> P [''flyctl'', ''apps'', ''destroy'', app n name, ''--yes'']"
    and "destroy_component f n k name w = (r, w')"
  shows "only_adds sent P w w'"
proof (cases "k \<and> name \<in> set STORAGE_APPS")
  case True
  obtain x w1 where x: "app_exists f (app n name) w = (x, w1)" by fastforce
  note ax = app_exists_adds [OF l assms(2) x]
  obtain y w2 where y: "stop_machines f (app n name) w1 = (y, w2)" by fastforce
  note ay = stop_machines_adds [OF l assms(2) y]
  have "w' = (if x = Inr True then w2 else w1)"
    using assms(4) x y True by (auto simp: destroy_component_def split: sum.splits bool.splits)
  with only_adds_trans [OF ax ay] ax show ?thesis by simp
next
  case False
  define pre where "pre = (if name \<noteq> ''env-admin'' then
                 (case app_exists f (app n name) w of
                    (Inl e, w') \<Rightarrow> (Inl e, w')
                  | (Inr False, w') \<Rightarrow> (Inr (), w')
                  | (Inr True, w') \<Rightarrow>
                      (case revoke_tokens f (app n name) ''sirosid-env-admin'' w' of
                         (Inl e, w'') \<Rightarrow> (Inl e, w'') | (Inr _, w'') \<Rightarrow> (Inr (), w'')))
               else (Inr (), w))"
  obtain u w1 where u: "pre = (u, w1)" by fastforce
  have au: "only_adds sent P w w1"
  proof (cases "name = ''env-admin''")
    case False
    obtain x w2 where x: "app_exists f (app n name) w = (x, w2)" by fastforce
    note ax = app_exists_adds [OF l assms(2) x]
    obtain y w3 where y: "revoke_tokens f (app n name) ''sirosid-env-admin'' w2 = (y, w3)" by fastforce
    note ay = revoke_tokens_adds [OF l assms(2) y]
    have "w1 = (if x = Inr True then w3 else w2)"
      using u x y False by (auto simp: pre_def split: sum.splits bool.splits)
    with only_adds_trans [OF ax ay] ax show ?thesis by simp
  qed (use u in \<open>simp add: pre_def\<close>)
  obtain z w2 where z: "destroy_app f (app n name) w1 = (z, w2)" by fastforce
  note az = destroy_app_adds [OF l assms(2) P [OF False] z]
  have "(r, w') = (case pre of (Inl e, w') \<Rightarrow> (Inl e, w') | (Inr _, w') \<Rightarrow>
      (case destroy_app f (app n name) w' of
         (Inl e, w'') \<Rightarrow> (Inl e, w'') | (Inr d, w'') \<Rightarrow> (Inr (if d then Destroyed_app else Absent_app), w'')))"
    using assms(4) False by (simp add: destroy_component_def pre_def [symmetric])
  then have "w' = w1 \<or> w' = w2" using u z by (auto split: sum.splits)
  with only_adds_trans [OF au az] au show ?thesis by auto
qed

lemma destroy_loop_adds:
  assumes "logs_commands f sent" and "harmless P"
    and "\<And>name. name \<in> set names \<Longrightarrow> \<not> (k \<and> name \<in> set STORAGE_APPS) \<Longrightarrow> P [''flyctl'', ''apps'', ''destroy'', app n name, ''--yes'']"
  shows "destroy_loop f n k names r w = (r', w') \<Longrightarrow> only_adds sent P w w'"
  using assms(3)
proof (induction names arbitrary: r w)
  case (Cons name names)
  obtain x w1 where d: "destroy_component f n k name w = (x, w1)" by fastforce
  have a: "only_adds sent P w w1" using Cons.prems(2) by (intro destroy_component_adds [OF assms(1,2) _ d]) auto
  have ih: "destroy_loop f n k names r w1 = (r', w') \<Longrightarrow> only_adds sent P w1 w'" for r
    using Cons.IH Cons.prems(2) by simp
  show ?case
  proof (cases x)
    case (Inr o')
    with Cons.prems(1) d ih a show ?thesis by (auto intro: only_adds_trans)
  next
    case (Inl e)
    show ?thesis
    proof (cases "\<exists>m. e = FlyError m")
      case True
      with Cons.prems(1) d Inl ih a show ?thesis by (auto intro: only_adds_trans)
    next
      case False
      with Cons.prems(1) d Inl a show ?thesis by (cases e) auto
    qed
  qed
qed simp

lemma destroy_keeps_data:
  assumes "logs_commands f sent" and "\<not> single_machine n" and "destroy_instance f n True mo w = (r, w')"
  shows "only_adds sent (\<lambda>args. \<not> loses_data n args) w w'"
proof -
  have "destroy_loop f n True component_names empty_destroy_report w = (r, w')"
    using assms(2,3) by (simp add: destroy_instance_def)
  then show ?thesis
    by (rule destroy_loop_adds [OF assms(1), rotated 2]) (auto simp: harmless_def loses_data_def)
qed

section \<open>A stop undoes a start in the opposite order\<close>

lemma power_loop_report:
  assumes "power_loop one n names r w = (Inr r', w')"
  shows "\<exists>changed. subseq changed names \<and> pr_changed r' = pr_changed r @ map (app n) changed \<and>
    mset (pr_changed r' @ pr_absent r' @ map fst (pr_failed r')) =
    mset (pr_changed r @ pr_absent r @ map fst (pr_failed r)) + mset (map (app n) names)"
  using assms
proof (induction names arbitrary: r w)
  case (Cons name names)
  obtain x w1 where d: "one name w = (x, w1)" by fastforce
  show ?case
  proof (cases x)
    case (Inl e)
    with Cons.prems d obtain msg where e: "e = FlyError msg" by (cases e) auto
    with Cons.IH [of "r\<lparr>pr_failed := pr_failed r @ [(app n name, msg)]\<rparr>" w1] Cons.prems d Inl obtain changed
      where "subseq changed names" "pr_changed r' = pr_changed r @ map (app n) changed"
        "mset (pr_changed r' @ pr_absent r' @ map fst (pr_failed r')) =
         mset (pr_changed r @ pr_absent r @ map fst (pr_failed r)) + mset (map (app n) (name # names))" by auto
    then show ?thesis by (intro exI [of _ changed]) auto
  next
    case (Inr o')
    show ?thesis
    proof (cases o')
      case Changed
      with Cons.IH [of "add_power (app n name) o' r" w1] Cons.prems d Inr obtain changed
        where c: "subseq changed names" "pr_changed r' = (pr_changed r @ [app n name]) @ map (app n) changed"
          and m: "mset (pr_changed r' @ pr_absent r' @ map fst (pr_failed r')) =
           mset (pr_changed r @ pr_absent r @ map fst (pr_failed r)) + mset (map (app n) (name # names))" by auto
      from m c(2) show ?thesis by (intro exI [of _ "name # changed"]) (auto simp: c(1))
    next
      case Not_there
      with Cons.IH [of "add_power (app n name) o' r" w1] Cons.prems d Inr obtain changed
        where "subseq changed names" "pr_changed r' = pr_changed r @ map (app n) changed"
          "mset (pr_changed r' @ pr_absent r' @ map fst (pr_failed r')) =
           mset (pr_changed r @ pr_absent r @ map fst (pr_failed r)) + mset (map (app n) (name # names))" by auto
      then show ?thesis by (intro exI [of _ changed]) auto
    qed
  qed
qed simp

end
