(* ===== verification/Custody.thy ===== *)
theory Custody
  imports Demo Effects
begin

text \<open>
  What the control plane (sirosid_service/service.py) promises to the owner of an instance:
  nobody else sees or moves it, nothing happens without the owner's key, its spec and config
  open under that key only, quotas hold at creation, and the periodic work touches exactly the
  instances it is meant to.
\<close>

section \<open>Ownership\<close>

abbreviation no_such_instance :: exn where
  "no_such_instance \<equiv> NotFound ''no such instance''"

lemma instance_row_refused:
  assumes "\<And>r. find_row i_id iid (instances d) = Some r \<Longrightarrow> i_owner r \<noteq> who_user who" and "\<not> is_admin who"
  shows "instance_row who iid b d = Inl no_such_instance"
  using assms by (auto simp: instance_row_def split: option.splits)

text \<open>
  C19. An instance of somebody else and an instance that does not exist cannot be told apart: every operation of a
  user who is neither its owner nor an admin answers that there is no such instance and leaves the control plane, Fly included,
  as it was (an operation that needs the caller's own key may answer that this key is locked first).
\<close>

theorem others_see_nothing:
  assumes "\<And>r. find_row i_id iid (instances (database s)) = Some r \<Longrightarrow> i_owner r \<noteq> who_user who" and "\<not> is_admin who"
  shows "get_instance who iid (database s) = Inl no_such_instance \<and>
    instance_activity who iid limit (database s) = Inl no_such_instance \<and>
    instance_credentials cf who iid now s = (Inl no_such_instance, s) \<and>
    stop_instance_op cf who iid now s = (Inl no_such_instance, s) \<and>
    start_instance_op cf who iid now s = (Inl no_such_instance, s) \<and>
    destroy_instance_op cf who iid now s = (Inl no_such_instance, s) \<and>
    set_keep cf who iid keep now (database s) = (Inl no_such_instance, database s) \<and>
    (case sealer_of who now s of
       (Inl e, s') \<Rightarrow> get_instance_config cf who iid now s = (Inl e, s') \<and> reset_instance_op cf who iid now s = (Inl e, s') \<and>
         reconfigure_instance cf who iid config cname now r s = (Inl e, s')
     | (Inr k, s') \<Rightarrow> get_instance_config cf who iid now s = (Inl no_such_instance, s) \<and>
         reset_instance_op cf who iid now s = (Inl no_such_instance, s) \<and>
         reconfigure_instance cf who iid config cname now r s = (Inl no_such_instance, s))"
proof -
  have e: "instance_row who iid b (database s) = Inl no_such_instance" for b
    by (rule instance_row_refused [OF assms])
  have "s' = s" if "sealer_of who now s = (Inr k, s')" for k s' using sealer_of_Inr [OF that] by simp
  then show ?thesis
    by (auto simp: get_instance_def instance_activity_def instance_credentials_def stop_instance_op_def start_instance_op_def
      stop_check_def start_check_def destroy_instance_op_def set_keep_def get_instance_config_def reset_instance_op_def
      reconfigure_instance_def e split: prod.splits sum.splits)
qed

theorem others_see_nothing_witness:
  "destroy_instance_op (demo_plane no_aead) who_bob ''abcdefgh'' 20 (demo_created no_aead True) =
     (Inl no_such_instance, demo_created no_aead True)"
proof -
  have "i_owner r \<noteq> who_user who_bob"
    if "find_row i_id ''abcdefgh'' (instances (database (demo_created no_aead True))) = Some r" for r
    using that by (auto simp: demo_create row_simps)
  then have "(\<And>r. find_row i_id ''abcdefgh'' (instances (database (demo_created no_aead True))) = Some r \<Longrightarrow> i_owner r \<noteq> who_user who_bob)"
    by blast
  from others_see_nothing [OF this, where cf = "demo_plane no_aead" and now = 20] show ?thesis by simp
qed

section \<open>Nothing without the key\<close>

text \<open>
  Without a live key in the caller's session nothing that reads or writes sealed data runs: creating, saving
  a config, reading an instance's config, resetting and reconfiguring answer that the session is locked, and neither the database nor
  Fly nor the queue of jobs changes.
\<close>

theorem nothing_without_the_key:
  assumes "\<not> key_live (keys s) (who_session who) (who_user who) now"
  shows "\<exists>m ks. create_instance cf who config cname name keep now r s = (Inl (Locked m), s\<lparr>keys := ks\<rparr>) \<and>
    (name \<noteq> [] \<and> length name \<le> 64 \<longrightarrow> save_config cf who name doc now r s = (Inl (Locked m), s\<lparr>keys := ks\<rparr>)) \<and>
    get_instance_config cf who iid now s = (Inl (Locked m), s\<lparr>keys := ks\<rparr>) \<and>
    reset_instance_op cf who iid now s = (Inl (Locked m), s\<lparr>keys := ks\<rparr>) \<and>
    reconfigure_instance cf who iid config cname now r s = (Inl (Locked m), s\<lparr>keys := ks\<rparr>)"
proof -
  obtain m ks where "sealer_of who now s = (Inl (Locked m), s\<lparr>keys := ks\<rparr>)" using sealer_of_locked [OF assms] by blast
  then show ?thesis
    by (intro exI [of _ m] exI [of _ ks])
      (simp add: create_instance_def save_config_def get_instance_config_def reset_instance_op_def reconfigure_instance_def)
qed

theorem nothing_without_the_key_witness:
  "\<exists>m ks. reset_instance_op (demo_plane no_aead) who_ada ''abcdefgh'' 30000 (demo_created no_aead True) =
     (Inl (Locked m), (demo_created no_aead True)\<lparr>keys := ks\<rparr>)"
proof -
  have "\<not> key_live (keys (demo_created no_aead True)) (who_session who_ada) (who_user who_ada) 30000"
    by (simp add: demo_create key_live_def)
  from nothing_without_the_key [OF this, of "demo_plane no_aead" None None "''mine''" True demo_draws JNull "''abcdefgh''"]
  show ?thesis by blast
qed

section \<open>Creation\<close>

lemma create_instance_Inr:
  assumes "create_instance cf who config cname name keep now r s = (Inr v, s')"
  obtains k cfg cn u row sp where "sealer_of who now s = (Inr k, s)"
    and "user (who_user who) (database s) = Inr u" "\<not> u_disabled u"
    and "new_instance cf who u k cfg cn name keep now r (database s) = Inr (row, sp)"
    and "get_instance who (i_id row) (database s') = Inr v"
    and "instances (database s') = instances (database s) @ [row]" "users (database s') = users (database s)"
    and "jobs s' = jobs s @ [Deploy_job (i_id row) k]" "world s' = world s"
proof -
  obtain k s1 where k: "sealer_of who now s = (Inr k, s1)"
    using assms by (auto simp: create_instance_def split: prod.splits sum.splits)
  have s1: "s1 = s" using sealer_of_Inr [OF k] by simp
  obtain cfg cn s2 where c: "requested_config cf who config cname now s = (Inr (cfg, cn), s2)"
    using assms k s1 by (auto simp: create_instance_def split: prod.splits sum.splits)
  note f = requested_config_frame [OF c]
  obtain u where u: "user (who_user who) (database s) = Inr u" "\<not> u_disabled u"
    using assms k s1 c f by (auto simp: create_instance_def split: sum.splits if_splits)
  obtain row sp where row: "new_instance cf who u k cfg cn name keep now r (database s) = Inr (row, sp)"
    using assms k s1 c f u by (auto simp: create_instance_def split: sum.splits)
  let ?d = "audit now (who_user who) ''create_instance'' (i_id row)
      [(''kept'', JBool keep), (''images'', JList (map JStr (sort (map fst (s_images sp))))), (''config_name'', opt_json JStr cn)]
      ((database s)\<lparr>instances := instances (database s) @ [row]\<rparr>)"
  have "get_instance who (i_id row) ?d = Inr v" and "s' = submit (Deploy_job (i_id row) k) (s2\<lparr>database := ?d\<rparr>)"
    using assms k s1 c f u row by (simp_all add: create_instance_def Let_def)
  with k s1 u row f show ?thesis by (intro that) (simp_all add: submit_def)
qed

text \<open>
  A creation that succeeds found the account enabled and below its own limit and the service below its global
  one, and a kept instance found an allowance; the new instance has a fresh id, belongs to the caller, waits for its
  deploy job, and expires after the time to live unless it is kept.
\<close>

theorem creation_within_quota:
  assumes "create_instance cf who config cname name keep now r s = (Inr v, s')"
  shows "\<exists>row u k. instances (database s') = instances (database s) @ [row] \<and> v = public row \<and>
    i_owner row = who_user who \<and> i_status row = Creating \<and> i_id row \<notin> i_id ` set (instances (database s)) \<and>
    i_expires_at row = (if keep then None else Some (now + l_ttl_days (cp_limits cf) * DAY)) \<and>
    jobs s' = jobs s @ [Deploy_job (i_id row) k] \<and>
    find_row u_id (who_user who) (users (database s)) = Some u \<and> \<not> u_disabled u \<and>
    live_count (\<lambda>x. i_owner x = who_user who) (database s) < u_max_concurrent u \<and>
    live_count (\<lambda>_. True) (database s) < l_global_max_instances (cp_limits cf) \<and>
    (keep \<longrightarrow> check_keep u now (database s) = Inr ())"
  using assms
proof (rule create_instance_Inr)
  fix k cfg cn u row sp
  assume u: "user (who_user who) (database s) = Inr u" "\<not> u_disabled u"
    and n: "new_instance cf who u k cfg cn name keep now r (database s) = Inr (row, sp)"
    and v: "get_instance who (i_id row) (database s') = Inr v"
    and rows: "instances (database s') = instances (database s) @ [row]"
    and j: "jobs s' = jobs s @ [Deploy_job (i_id row) k]"
  note new = new_instance_Inr [OF n]
  have "find_row i_id (i_id row) (instances (database s')) = Some row"
    using new(1) rows by (simp add: row_simps find_row_None_iff [THEN iffD2])
  then have "v = public row" using v new(3) by (simp add: get_instance_def instance_row_def)
  moreover have "i_expires_at row = (if keep then None else Some (now + l_ttl_days (cp_limits cf) * DAY))"
    using new(5,8,10) by (auto simp: row_ok_def)
  ultimately show ?thesis
    using u n rows j new user_Inr [OF u(1)] by (intro exI [of _ row] exI [of _ u] exI [of _ k]) simp
qed

theorem creation_within_quota_witness:
  "live_count (\<lambda>x. i_owner x = ''u_0a0b0c'') (database (demo_cp no_aead)) < 2 \<and>
   instances (database (demo_created no_aead False)) = instances (database (demo_cp no_aead)) @ [demo_row no_aead False]"
  using creation_within_quota [OF demo_create(1) [of no_aead False]] by (auto simp: demo_create row_simps ada_def)

lemma new_instance_sealed:
  assumes "new_instance cf who u k cfg cn name keep now r d = Inr (row, sp)"
  shows "i_spec row = seal (cp_aead cf) k (d_nonce r 0) (spec_doc sp) (aad (i_owner row) ''spec'' (i_id row))"
    and "i_config row = seal (cp_aead cf) k (d_nonce r 1) (PDoc cfg) (aad (i_owner row) ''config-snapshot'' (i_id row))"
  using assms by (auto simp: new_instance_def bind_sum_Inr_iff Let_def split: if_splits)

text \<open>
  C20. The spec and the config of a new instance are stored sealed: the key of the session that created it opens
  both, and opens the spec to the one that is deployed; any other key opens neither.
\<close>

theorem creation_sealed:
  assumes "create_instance cf who config cname name keep now r s = (Inr v, s')"
    and "aead_correct (cp_aead cf)" and "aead_binding (cp_aead cf)" and "nonces_ok (d_nonce r)"
  shows "\<exists>row k sp. find_row i_id (i_id row) (instances (database s')) = Some row \<and> v = public row \<and>
    sealer_of who now s = (Inr k, s) \<and>
    spec_of_row cf row k = Inr sp \<and> s_env sp = i_id row \<and> (\<exists>cfg. config_of_row cf row k = Inr cfg) \<and>
    (\<forall>k'. k' = k \<or> is_err (spec_of_row cf row k') \<and> is_err (config_of_row cf row k'))"
  using assms(1)
proof (rule create_instance_Inr)
  fix k cfg cn u row sp
  assume k: "sealer_of who now s = (Inr k, s)"
    and n: "new_instance cf who u k cfg cn name keep now r (database s) = Inr (row, sp)"
    and v: "get_instance who (i_id row) (database s') = Inr v"
    and rows: "instances (database s') = instances (database s) @ [row]"
  note new = new_instance_Inr [OF n] new_instance_sealed [OF n]
  have nonce: "length (d_nonce r m) = NONCE_BYTES" for m using assms(4) by (simp add: nonces_ok_def)
  have row: "find_row i_id (i_id row) (instances (database s')) = Some row"
    using new(1) rows by (simp add: row_simps find_row_None_iff [THEN iffD2])
  have "v = public row" using v row new(3) by (simp add: get_instance_def instance_row_def)
  moreover have "spec_of_row cf row k = Inr sp"
    by (simp add: spec_of_row_def new(12) spec_doc_def open_doc_seal [OF assms(2) nonce] spec_roundtrip)
  moreover have "config_of_row cf row k = Inr cfg"
    by (simp add: config_of_row_def new(13) open_doc_seal [OF assms(2) nonce])
  moreover have "is_err (spec_of_row cf row k') \<and> is_err (config_of_row cf row k')" if "k' \<noteq> k" for k'
    using open_doc_other [OF assms(2,3) nonce [of 0] disjI1 [OF that]] open_doc_other [OF assms(2,3) nonce [of 1] disjI1 [OF that]]
    unfolding spec_of_row_def config_of_row_def new(12,13) by (metis bind_sum.simps(1) is_err.simps(1))
  ultimately show ?thesis using k row build_spec_platform [OF new(11)] by blast
qed

theorem creation_sealed_witness:
  "\<exists>row k sp. find_row i_id (i_id row) (instances (database (demo_created toy_aead True))) = Some row \<and>
     spec_of_row (demo_plane toy_aead) row k = Inr sp \<and> s_env sp = i_id row"
  using creation_sealed [OF demo_create(1) [of toy_aead True]] by (simp add: toy_correct toy_binding) blast

section \<open>The reaper and the lapse of kept instances\<close>






lemma lapse_fold:
  "instances (fold (lapse_one cf now) ids d) =
   map (\<lambda>r. if i_id r \<in> set ids
            then r\<lparr>i_kept := False, i_expires_at := Some (now + l_lapse_grace_days (cp_limits cf) * DAY), i_updated_at := now\<rparr>
            else r) (instances d)"
proof (induction ids arbitrary: d)
  case (Cons iid ids)
  show ?case
    unfolding fold_simps comp_apply Cons.IH
    by (auto simp: lapse_one_def set_row_def update_instance_def update_where_def touch_def)
qed simp

text \<open>
  The lapse ends the keeping of exactly the live kept instances whose owner's allowance ran out or whose owner is
  disabled: each gets the grace period to live, and every other row stays as it is.
\<close>

theorem lapse_is_exact:
  assumes "reach cf (initial w) st" and "lapse_kept cf now (sdb st) = (ids, d')"
  shows "instances d' = map (\<lambda>r. if lapsed now (sdb st) r
      then r\<lparr>i_kept := False, i_expires_at := Some (now + l_lapse_grace_days (cp_limits cf) * DAY), i_updated_at := now\<rparr>
      else r) (instances (sdb st))"
proof -
  have dist: "distinct (map i_id (instances (sdb st)))"
    using reach_initial_ok [OF assms(1)] by (simp add: cp_ok_def db_ok_def instances_ok_def)
  have ids: "ids = map i_id (filter (lapsed now (sdb st)) (instances (sdb st)))" and d': "d' = fold (lapse_one cf now) ids (sdb st)"
    using assms(2) by (auto simp: lapse_kept_def Let_def)
  have "i_id r \<in> set ids \<longleftrightarrow> lapsed now (sdb st) r" if "r \<in> set (instances (sdb st))" for r
    using that inj_onD [OF conjunct2 [OF distinct_map [THEN iffD1, OF dist]]] by (auto simp: ids)
  then show ?thesis by (simp add: d' lapse_fold)
qed

definition demo_granted :: "aead \<Rightarrow> demo_world cp" where
  "demo_granted A = snd (on_db (grant who_ada ''u_0a0b0c'' \<lparr>ga_capabilities = None, ga_max_concurrent = None,
     ga_max_kept = None, ga_kept_for_days = Some 1\<rparr> 30) (demo_created A True))"

lemma demo_reach_granted: "reach (demo_plane A) (initial []) (idle (demo_granted A))"
proof -
  have "authenticated who_ada (demo_created A True)" by (rule demo_signed_in_later) (simp add: demo_create)
  then show ?thesis unfolding demo_granted_def by (intro demo_request [OF demo_reach_created [of A True]] request.grant)
qed

lemma demo_granted_rows:
  "instances (database (demo_granted A)) = [demo_row A True]"
  "users (database (demo_granted A)) = [(ada A)\<lparr>u_kept_until := Some (30 + DAY)\<rparr>]"
  by (simp_all add: demo_granted_def on_db_def grant_def require_admin_def user_def demo_create row_simps set_user_def
      update_where_def Let_def)
    (simp add: granted_def ada_def)

theorem lapse_is_exact_witness:
  "map i_kept (instances (snd (lapse_kept (demo_plane no_aead) (40 + DAY) (database (demo_granted no_aead))))) = [False]"
  using lapse_is_exact [OF demo_reach_granted [of no_aead] prod.collapse [symmetric], of "40 + DAY"]
  by (simp add: demo_granted_rows lapsed_def row_simps)

section \<open>The sweep\<close>

text \<open>\<open>aims_at n args\<close>: the command destroys an app, and it is one of the instance \<open>n\<close> names.\<close>

definition aims_at :: "naming \<Rightarrow> string list \<Rightarrow> bool" where
  "aims_at n args \<longleftrightarrow> (\<exists>a. args = [''flyctl'', ''apps'', ''destroy'', a, ''--yes''] \<and> (a = machine_app n \<or> (\<exists>c. a = app n c)))"

definition destroys :: "string list \<Rightarrow> bool" where
  "destroys args \<longleftrightarrow> (\<exists>more. args = ''flyctl'' # ''apps'' # ''destroy'' # more)"

lemma destroy_instance_aims:
  assumes "logs_commands f sent" and "destroy_instance f n False mo w = (r, w')"
  shows "only_adds sent (\<lambda>args. destroys args \<longrightarrow> aims_at n args) w w'"
proof -
  have h: "harmless (\<lambda>args. destroys args \<longrightarrow> aims_at n args)" by (simp add: harmless_def destroys_def)
  show ?thesis
  proof (cases "single_machine n")
    case False
    then have "destroy_loop f n False component_names empty_destroy_report w = (r, w')"
      using assms(2) by (simp add: destroy_instance_def)
    then show ?thesis by (rule destroy_loop_adds [OF assms(1) h, rotated]) (auto simp: aims_at_def)
  next
    case True
    obtain x w1 where x: "destroy_app f (machine_app n) w = (x, w1)" by fastforce
    have "w' = w1" using assms(2) True x
      by (auto simp: destroy_instance_def destroy_single_machine_def Let_def split: prod.splits sum.splits bool.splits)
    moreover have "only_adds sent (\<lambda>args. destroys args \<longrightarrow> aims_at n args) w w1"
      by (rule destroy_app_adds [OF assms(1) h _ x]) (simp add: aims_at_def)
    ultimately show ?thesis by simp
  qed
qed

lemma only_adds_mono: "only_adds sent P w w' \<Longrightarrow> (\<And>c. P c \<Longrightarrow> Q c) \<Longrightarrow> only_adds sent Q w w'"
  unfolding only_adds_def by (elim exE conjE) (auto intro: list.pred_mono_strong)

text \<open>The apps a sweep may destroy: those of an id, under the platform's prefix.\<close>

definition swept :: "'w plane \<Rightarrow> (string \<Rightarrow> bool) \<Rightarrow> string list \<Rightarrow> bool" where
  "swept cf may args \<longleftrightarrow> (destroys args \<longrightarrow>
     (\<exists>n. n_app_prefix n = pp_app_prefix (cp_platform cf) \<and> may (n_env n) \<and> aims_at n args))"

lemma destroy_layouts_aims:
  assumes "logs_commands (cp_fly cf) sent" and "may iid"
  shows "destroy_layouts cf iid ls ok s = (r, s') \<Longrightarrow>
    only_adds sent (swept cf may) (world s) (world s') \<and> database s' = database s"
proof (induction ls arbitrary: ok s)
  case (Cons l ls)
  show ?case
  proof (cases "make_naming iid (pp_app_prefix (cp_platform cf)) ''{app}.fly.dev'' l")
    case (Inl e)
    with Cons.prems show ?thesis by simp
  next
    case (Inr n)
    then have n: "n_env n = iid" "n_app_prefix n = pp_app_prefix (cp_platform cf)"
      by (auto simp: make_naming_def split: if_splits)
    obtain x s1 where x: "on_world (destroy_instance (cp_fly cf) n False (machines_for cf n)) s = (x, s1)" by fastforce
    note f = on_world_frame [OF x]
    have a: "only_adds sent (swept cf may) (world s) (world s1)"
      by (rule only_adds_mono [OF destroy_instance_aims [OF assms(1), of n "machines_for cf n" "world s" x "world s1"]])
        (use f n assms(2) in \<open>auto simp: swept_def\<close>)
    show ?thesis
    proof (cases x)
      case (Inl e)
      with Cons.prems Inr x f a show ?thesis by simp
    next
      case (Inr rep)
      then have "destroy_layouts cf iid ls (destroy_ok rep \<and> ok) s1 = (r, s')"
        using Cons.prems \<open>make_naming _ _ _ _ = _\<close> x by simp
      with Cons.IH [OF this] f a show ?thesis by (auto intro: only_adds_trans)
    qed
  qed
qed simp

lemma fold_min_in: "fold min ts (t :: 'a :: linorder) \<in> set (t # ts)"
proof (induction ts arbitrary: t)
  case (Cons x ts)
  from Cons [of "min x t"] show ?case by (auto simp: min_def split: if_splits)
qed simp

lemma first_seen_in:
  assumes "first_seen as d = Some t"
  shows "\<exists>a \<in> set as. map_of (orphans d) a = Some t"
proof -
  obtain ts where ts: "those (map (map_of (orphans d)) as) = Some ts" and t: "\<exists>x xs. ts = x # xs \<and> t = fold min xs x"
    using assms by (auto simp: first_seen_def split: option.splits list.splits)
  have "map Some ts = map (map_of (orphans d)) as"
    using ts by (induction as arbitrary: ts) (auto split: option.splits)
  moreover have "t \<in> set ts" using t fold_min_in by fastforce
  ultimately have "Some t \<in> set (map (map_of (orphans d)) as)" by (metis imageI image_set)
  then show ?thesis by auto
qed

text \<open>Noting an app keeps the time it was first seen; a new one is seen now.\<close>

lemma note_apps_seen:
  "map_of (orphans (note_apps as now d)) a = Some t \<Longrightarrow> map_of (orphans d) a = Some t \<or> t = now"
proof -
  have "map_of (fold (\<lambda>a os. if map_of os a = None then os @ [(a, now)] else os) as os) a = Some t \<Longrightarrow>
      map_of os a = Some t \<or> t = now" for os
  proof (induction as arbitrary: os)
    case (Cons b as)
    from Cons.IH [OF Cons.prems [unfolded fold_simps comp_apply]] show ?case
      by (auto simp: map_add_def split: if_splits option.splits)
  qed simp
  then show "map_of (orphans (note_apps as now d)) a = Some t \<Longrightarrow> map_of (orphans d) a = Some t \<or> t = now"
    by (simp add: note_apps_def)
qed

definition only_new :: "time \<Rightarrow> db \<Rightarrow> db \<Rightarrow> bool" where
  "only_new now d d' \<longleftrightarrow> (\<forall>a t. map_of (orphans d') a = Some t \<longrightarrow> map_of (orphans d) a = Some t \<or> t = now)"

lemma only_new_note: "only_new now d d1 \<Longrightarrow> only_new now d (note_apps as now d1)"
  unfolding only_new_def using note_apps_seen by blast

lemma only_new_forget: "only_new now d d1 \<Longrightarrow> only_new now d (forget_apps as d1)"
proof -
  have "map_of (filter (\<lambda>(a, t). a \<notin> set as) os) a = Some t \<Longrightarrow> map_of os a = Some t" for os :: "(string \<times> time) list" and a t
  proof -
    assume m: "map_of (filter (\<lambda>(a, t). a \<notin> set as) os) a = Some t"
    then have "a \<notin> set as" by (auto dest: map_of_SomeD)
    then have "map_of (filter (\<lambda>(a, t). a \<notin> set as) os) a = map_of os a" by (induction os) auto
    with m show "map_of os a = Some t" by simp
  qed
  moreover have "orphans (forget_apps as d1) = filter (\<lambda>(a, t). a \<notin> set as) (orphans d1)" by (simp add: forget_apps_def)
  ultimately show "only_new now d d1 \<Longrightarrow> only_new now d (forget_apps as d1)"
    unfolding only_new_def by metis
qed

lemma only_new_audit: "only_new now d d1 \<Longrightarrow> only_new now d (audit t a b c e d1)"
  by (auto simp: only_new_def)

definition group_ok :: "string \<Rightarrow> string list \<Rightarrow> orphan_group \<Rightarrow> bool" where
  "group_ok pfx live g \<longleftrightarrow> og_id g \<notin> set live \<and> (\<forall>a \<in> set (og_apps g). \<exists>l. match_app pfx a = Some (og_id g, l))"

lemma orphan_groups_ok:
  "\<forall>g \<in> set gs. group_ok pfx live g \<Longrightarrow> \<forall>g \<in> set (orphan_groups pfx live as gs). group_ok pfx live g"
proof (induction as arbitrary: gs)
  case (Cons a as)
  show ?case
  proof (cases "match_app pfx a")
    case None
    with Cons show ?thesis by simp
  next
    case (Some m)
    obtain iid l where m: "m = (iid, l)" by fastforce
    show ?thesis
    proof (cases "iid \<in> set live")
      case True
      with Cons Some m show ?thesis by simp
    next
      case False
      have "\<forall>g \<in> set (add_app a m gs). group_ok pfx live g"
        using Cons.prems Some m False by (auto simp: add_app_def group_ok_def row_simps split: if_splits)
      from Cons.IH [OF this] False m Some show ?thesis by simp
    qed
  qed
qed simp

text \<open>An app of the id was first seen at least the grace period ago.\<close>

definition old_orphan :: "'w plane \<Rightarrow> time \<Rightarrow> db \<Rightarrow> string \<Rightarrow> bool" where
  "old_orphan cf now d iid \<longleftrightarrow> (\<exists>a t l. map_of (orphans d) a = Some t \<and> l_sweep_grace_seconds (cp_limits cf) \<le> now - t \<and>
     match_app (pp_app_prefix (cp_platform cf)) a = Some (iid, l))"

lemma sweep_group_aims:
  assumes l: "logs_commands (cp_fly cf) sent" and g: "group_ok (pp_app_prefix (cp_platform cf)) live g"
    and grace: "0 < l_sweep_grace_seconds (cp_limits cf)" and d: "only_new now d (database s)"
    and "sweep_group cf g now s = (r, s')"
  shows "only_adds sent (swept cf (\<lambda>i. i \<notin> set live \<and> old_orphan cf now d i)) (world s) (world s') \<and> only_new now d (database s')"
proof -
  define s1 where "s1 = s\<lparr>database := note_apps (og_apps g) now (database s)\<rparr>"
  have n1: "only_new now d (database s1)" "world s1 = world s" using only_new_note [OF d] by (simp_all add: s1_def)
  show ?thesis
  proof (cases "first_seen (og_apps g) (database s1)")
    case None
    then have "s' = s1" using assms(5) by (simp add: sweep_group_def s1_def Let_def)
    with n1 show ?thesis by simp
  next
    case (Some first)
    show ?thesis
    proof (cases "now - first < l_sweep_grace_seconds (cp_limits cf)")
      case True
      with Some have "s' = s1" using assms(5) by (simp add: sweep_group_def s1_def Let_def)
      with n1 show ?thesis by simp
    next
      case False
      obtain a where a: "a \<in> set (og_apps g)" "map_of (orphans (database s1)) a = Some first"
        using first_seen_in [OF Some] by blast
      have "first \<noteq> now" using False grace by auto
      then have "map_of (orphans d) a = Some first" using n1(1) a(2) by (auto simp: only_new_def)
      moreover obtain l where "match_app (pp_app_prefix (cp_platform cf)) a = Some (og_id g, l)" using g a(1) by (auto simp: group_ok_def)
      ultimately have may: "og_id g \<notin> set live \<and> old_orphan cf now d (og_id g)"
        using g False unfolding old_orphan_def group_ok_def by (metis linorder_not_less)
      obtain x s2 where x: "destroy_layouts cf (og_id g) (filter (\<lambda>l. l \<in> set (og_layouts g)) LAYOUTS) True s1 = (x, s2)" by fastforce
      from destroy_layouts_aims [where may = "\<lambda>i. i \<notin> set live \<and> old_orphan cf now d i", OF l may x] n1
      have b: "only_adds sent (swept cf (\<lambda>i. i \<notin> set live \<and> old_orphan cf now d i)) (world s) (world s2)" "only_new now d (database s2)"
        by simp_all
      with assms(5) False Some x show ?thesis
        by (cases x) (auto simp: sweep_group_def s1_def [symmetric] Let_def only_new_forget only_new_audit)
    qed
  qed
qed

lemma sweep_loop_aims:
  assumes l: "logs_commands (cp_fly cf) sent" and grace: "0 < l_sweep_grace_seconds (cp_limits cf)"
  shows "\<forall>g \<in> set gs. group_ok (pp_app_prefix (cp_platform cf)) live g \<Longrightarrow> only_new now d (database s) \<Longrightarrow>
    sweep_loop cf gs now ids s = (r, s') \<Longrightarrow>
    only_adds sent (swept cf (\<lambda>i. i \<notin> set live \<and> old_orphan cf now d i)) (world s) (world s')"
proof (induction gs arbitrary: ids s)
  case (Cons g gs)
  obtain x s1 where x: "sweep_group cf g now s = (x, s1)" by fastforce
  have g: "group_ok (pp_app_prefix (cp_platform cf)) live g" using Cons.prems(1) by simp
  note a = sweep_group_aims [OF l g grace Cons.prems(2) x]
  show ?case
  proof (cases x)
    case (Inl e)
    with Cons.prems(3) x a show ?thesis by simp
  next
    case (Inr gone)
    with Cons.prems x a Cons.IH [of s1] show ?thesis by (auto intro: only_adds_trans)
  qed
qed simp

text \<open>
  C22. Whatever apps Fly lists, the sweep destroys only apps of ids that no live instance has and that the service
  first saw at least the grace period ago; a command that destroys any other app is never issued.
\<close>

theorem sweep_spares:
  assumes "logs_commands (cp_fly cf) sent" and "0 < l_sweep_grace_seconds (cp_limits cf)"
    and "sweep_orphans cf now s = (r, s')"
  shows "only_adds sent
    (swept cf (\<lambda>i. i \<notin> set (live_ids (database s)) \<and> old_orphan cf now (database s) i)) (world s) (world s')"
proof -
  obtain x s1 where x: "on_world (list_apps (cp_fly cf)) s = (x, s1)" by fastforce
  note f = on_world_frame [OF x]
  obtain y w1 where y: "run (cp_fly cf) [''apps'', ''list'', ''-o'', fly_org (cp_fly cf), ''--json''] False True (world s) = (y, w1)" by fastforce
  have "world s1 = w1" using f y by (auto simp: list_apps_def split: sum.splits if_splits option.splits)
  with run_adds [OF assms(1) y, of "swept cf (\<lambda>i. i \<notin> set (live_ids (database s)) \<and> old_orphan cf now (database s) i)"]
  have a: "only_adds sent (swept cf (\<lambda>i. i \<notin> set (live_ids (database s)) \<and> old_orphan cf now (database s) i)) (world s) (world s1)"
    by (simp add: swept_def destroys_def)
  show ?thesis
  proof (cases x)
    case (Inl e)
    with assms(3) x a show ?thesis by (simp add: sweep_orphans_def)
  next
    case (Inr as)
    define gs where "gs = orphan_groups (pp_app_prefix (cp_platform cf)) (live_ids (database s)) as []"
    define s2 where "s2 = s1\<lparr>database := forget_apps (filter (\<lambda>a. a \<notin> set (concat (map og_apps gs)))
       (map fst (orphans (database s1)))) (database s1)\<rparr>"
    obtain z s3 where z: "sweep_loop cf gs now [] s2 = (z, s3)" by fastforce
    have "s' = s3" using assms(3) x Inr z by (auto simp: sweep_orphans_def gs_def s2_def Let_def split: sum.splits)
    moreover have "only_new now (database s) (database s2)"
      using f by (simp add: s2_def only_new_forget only_new_def [of _ "database s" "database s"])
    moreover have "\<forall>g \<in> set gs. group_ok (pp_app_prefix (cp_platform cf)) (live_ids (database s)) g"
      unfolding gs_def by (rule orphan_groups_ok) simp
    ultimately have "only_adds sent (swept cf (\<lambda>i. i \<notin> set (live_ids (database s)) \<and> old_orphan cf now (database s) i)) (world s2) (world s')"
      using sweep_loop_aims [OF assms(1,2) _ _ z] by blast
    moreover have "world s2 = world s1" by (simp add: s2_def)
    ultimately show ?thesis using a by (auto intro: only_adds_trans)
  qed
qed

definition log_plane :: "string list \<Rightarrow> string list list plane" where
  "log_plane as =
     \<lparr>cp_fly = log_fly as,
      cp_machines = \<lparr>ma_token = [], ma_base_url = [], ma_timeout = 60, ma_transport = (\<lambda>_ _ _ _ _ w. (Reply 200 [], w)),
        ma_machine_list = (\<lambda>_. Some []), ma_machine = (\<lambda>_. None), ma_exec_result = (\<lambda>_. None), ma_secret_version = (\<lambda>_. None),
        ma_clock = (\<lambda>w. 0), ma_sleep = (\<lambda>t w. w), ma_fuel = 100\<rparr>,
      cp_platform = demo_platform, cp_limits = default_limits, cp_aead = no_aead, cp_hash = (\<lambda>t. CHR ''h'' # t),
      cp_show_float = (\<lambda>_. ''30''), cp_deploy_apps = (\<lambda>_ _ _ fs w. (Inr [], fs, w)),
      cp_deploy_single = (\<lambda>_ _ _ fs w. (Inr [], fs, w)), cp_register = None, cp_reset_script = [], cp_scratch = [''tmp'']\<rparr>"

definition log_start :: "string list list cp" where
  "log_start = \<lparr>database = empty_db\<lparr>orphans := [(''sid-abcdefgh-mongodb'', 0)]\<rparr>, keys = [], world = [], jobs = []\<rparr>"

theorem sweep_spares_witness:
  "only_adds (\<lambda>w. w) (swept (log_plane [''sid-abcdefgh-mongodb''])
       (\<lambda>i. i \<notin> set (live_ids (database log_start)) \<and> old_orphan (log_plane [''sid-abcdefgh-mongodb'']) 5000 (database log_start) i))
     [] (world (snd (sweep_orphans (log_plane [''sid-abcdefgh-mongodb'']) 5000 log_start))) \<and>
   old_orphan (log_plane [''sid-abcdefgh-mongodb'']) 5000 (database log_start) ''abcdefgh''"
proof -
  have f: "cp_fly (log_plane as) = log_fly as" "l_sweep_grace_seconds (cp_limits (log_plane as)) = 3600" "world log_start = []" for as
    by (simp_all add: log_plane_def default_limits_def log_start_def)
  have "match_app ''sid'' ''sid-abcdefgh-mongodb'' = Some (''abcdefgh'', LAYOUT_APPS)"
    by (simp add: match_app_def Let_def before_dollar_def ID_LENGTH_def is_id_char_def is_lower_def component_names_eq starts_with_def)
  then have "old_orphan (log_plane [''sid-abcdefgh-mongodb'']) 5000 (database log_start) ''abcdefgh''"
    unfolding old_orphan_def
    by (intro exI [of _ "''sid-abcdefgh-mongodb''"] exI [of _ 0] exI [of _ LAYOUT_APPS])
      (simp add: f log_start_def, simp add: log_plane_def demo_platform_def default_policy_def)
  with sweep_spares [OF _ _ prod.collapse [symmetric], of "log_plane [''sid-abcdefgh-mongodb'']" "\<lambda>w. w" log_start 5000]
  show ?thesis by (simp add: f log_fly_logs)
qed

section \<open>Jobs\<close>

lemma update_instance_find:
  assumes "\<And>r. i_id (f r) = i_id r"
  shows "find_row i_id iid (instances (update_instance iid p now f d)) =
    map_option (\<lambda>r. if p (i_status r) then touch now f r else r) (find_row i_id iid (instances d))"
proof -
  have "find_row i_id iid (update_where (\<lambda>r. i_id r = iid \<and> p (i_status r)) (touch now f) rows) =
    map_option (\<lambda>r. if p (i_status r) then touch now f r else r) (find_row i_id iid rows)" for rows
    using assms by (induction rows) (auto simp: update_where_def row_simps touch_def)
  then show ?thesis by (simp add: update_instance_def)
qed

lemma deploy_state:
  assumes "aead_correct (cp_aead cf)" and "nonces_ok (d_nonce x)" and "deploy cf r sp k seed x s = (res, s')"
  shows "is_err res \<Longrightarrow> state_rows (database s') = state_rows (database s)"
    and "instances (database s') = instances (database s)"
    and "j \<noteq> i_id r \<Longrightarrow> load_seed cf (r\<lparr>i_id := j\<rparr>) k (database s') = load_seed cf (r\<lparr>i_id := j\<rparr>) k (database s)"
proof -
  have n: "nonces_ok (\<lambda>n. d_nonce x (n + 2))" using assms(2) by (simp add: nonces_ok_def)
  note st = sealed_state_store [OF assms(1) n, of k "i_owner r"]
  obtain rows w where w: "workdir (\<lambda>_ _. seed) (sealed_save (cp_aead cf) k (i_owner r) (\<lambda>n. d_nonce x (n + 2)))
             (cp_scratch cf) (fly_dir (i_id r)) (deploy_body cf sp) (i_id r) (state_rows (database s)) (world s) = (res, rows, w)"
    and s': "s' = s\<lparr>database := (database s)\<lparr>state_rows := rows\<rparr>, world := w\<rparr>"
    using assms(3) by (auto simp: deploy_def split: prod.splits)
  show "is_err res \<Longrightarrow> state_rows (database s') = state_rows (database s)"
    using w by (auto simp: s' workdir_def Let_def split: sum.splits prod.splits)
  show "instances (database s') = instances (database s)" by (simp add: s')
  show "j \<noteq> i_id r \<Longrightarrow> load_seed cf (r\<lparr>i_id := j\<rparr>) k (database s') = load_seed cf (r\<lparr>i_id := j\<rparr>) k (database s)"
    using w state_store.load_other [OF st, of "i_id r" j]
    by (auto simp: s' load_seed_def workdir_def Let_def split: sum.splits prod.splits)
qed

text \<open>
  C23. When a reconfiguration ends, a row that is still waiting for it either runs with exactly the pending spec and
  config, sealed again under the same key, or is failed with the spec and config it had before; in both cases nothing
  is pending any more. A row that is not waiting (destroyed meanwhile, say) stays as it is.
\<close>

theorem reconfigure_commits_or_keeps:
  assumes "aead_correct (cp_aead cf)" and "nonces_ok (d_nonce x)"
    and "find_row i_id (i_id r) (instances (database s)) = Some r0" and "i_owner r = i_owner r0"
    and "finish_reconfigure cf r k cname pend seed now x s = s'"
  shows "\<exists>r'. find_row i_id (i_id r) (instances (database s')) = Some r' \<and>
    (if i_status r0 \<noteq> Reconfiguring then r' = r0
     else i_pending_spec r' = None \<and> i_pending_config r' = None \<and>
      (if i_status r' = Running
       then (\<exists>sp cfg. pend = Inr (sp, cfg) \<and> spec_of_row cf r' k = Inr sp \<and> config_of_row cf r' k = Inr cfg)
       else i_status r' = Failed \<and> i_spec r' = i_spec r0 \<and> i_config r' = i_config r0))"
proof -
  have id: "i_id r0 = i_id r" using assms(3) by (auto dest: find_row_SomeD)
  have nonce: "length (d_nonce x m) = NONCE_BYTES" for m using assms(2) by (simp add: nonces_ok_def)
  have failed: ?thesis if "instances (database s1) = instances (database s)"
    and "s' = s1\<lparr>database := reconfigure_failed (i_id r) e now (database s1)\<rparr>" for e s1
    using assms(3) that by (simp add: reconfigure_failed_def Let_def update_instance_find is_reconfiguring_def touch_def)
  show ?thesis
  proof (cases pend)
    case (Inl e)
    with assms(5) show ?thesis by (intro failed [of s e]) (simp_all add: finish_reconfigure_def)
  next
    case (Inr p)
    obtain sp cfg where p: "p = (sp, cfg)" by fastforce
    obtain res s1 where d: "deploy cf r sp k seed x s = (res, s1)" by fastforce
    note same = deploy_state(2) [OF assms(1,2) d]
    show ?thesis
    proof (cases res)
      case (Inl e)
      with assms(5) Inr p d same show ?thesis by (intro failed [of s1 e]) (simp_all add: finish_reconfigure_def)
    next
      case (Inr urls)
      then have "s' = s1\<lparr>database := reconfigured cf r k cname sp cfg urls now x (database s1)\<rparr>"
        using assms(5) \<open>pend = Inr p\<close> p d by (simp add: finish_reconfigure_def)
      then show ?thesis using assms(3,4) same \<open>pend = Inr p\<close> p id
        by (simp add: reconfigured_def update_instance_find is_reconfiguring_def touch_def spec_of_row_def config_of_row_def
            spec_doc_def open_doc_seal [OF assms(1) nonce] spec_roundtrip)
    qed
  qed
qed

definition demo_redeploying :: "demo_world cp" where
  "demo_redeploying = (demo_created toy_aead True)\<lparr>database := (database (demo_created toy_aead True))
     \<lparr>instances := [(demo_row toy_aead True)\<lparr>i_status := Reconfiguring, i_pending_spec := Some [], i_pending_config := Some []\<rparr>]\<rparr>\<rparr>"

theorem reconfigure_commits_or_keeps_witness:
  "\<exists>r'. find_row i_id ''abcdefgh'' (instances (database (finish_reconfigure (demo_plane toy_aead) (demo_row toy_aead True) demo_key
     None (Inr (demo_spec, JObj [])) (Inr []) 50 demo_draws demo_redeploying))) = Some r' \<and> i_pending_spec r' = None \<and>
     i_status r' \<in> {Running, Failed}"
proof -
  have "find_row i_id (i_id (demo_row toy_aead True)) (instances (database demo_redeploying)) =
      Some ((demo_row toy_aead True)\<lparr>i_status := Reconfiguring, i_pending_spec := Some [], i_pending_config := Some []\<rparr>)"
    by (simp add: demo_redeploying_def row_simps)
  from reconfigure_commits_or_keeps [OF _ _ this _ refl, of "demo_plane toy_aead" demo_draws demo_key None "Inr (demo_spec, JObj [])" "Inr []" 50]
  show ?thesis by (auto simp: toy_correct split: if_splits)
qed

section \<open>One key per account\<close>

text \<open>
  Once an account has a key check, no other key unlocks it: the attempt is refused, it is audited, and no session
  key and no other part of the state changes.
\<close>

theorem one_key_per_account:
  assumes "aead_correct (cp_aead cf)" and "aead_binding (cp_aead cf)" and "length nonce = NONCE_BYTES"
    and "find_row u_id uid (users (database s)) = Some u" and "\<not> u_disabled u"
    and "u_key_check u = Some (seal (cp_aead cf) k nonce KEY_CHECK_PLAINTEXT (aad uid ''keycheck'' []))"
    and "length k' = KEY_BYTES" and "k' \<noteq> k"
  shows "begin_session cf uid k' ttl now r s =
    (Inl (Forbidden ''that key does not open this account's data''),
     s\<lparr>database := audit now uid ''unlock_refused'' uid [] (database s)\<rparr>)"
  using assms(4,5,7,8) check_key_other [OF assms(1-3,6), of k' now r "database s"]
  by (simp add: begin_session_def user_def make_sealer_def on_db_def)

theorem one_key_per_account_witness:
  "begin_session (demo_plane toy_aead) ''u_0a0b0c'' (replicate 32 CHR ''z'') None 5 demo_draws (demo_cp toy_aead) =
    (Inl (Forbidden ''that key does not open this account's data''),
     (demo_cp toy_aead)\<lparr>database := audit 5 ''u_0a0b0c'' ''unlock_refused'' ''u_0a0b0c'' [] (database (demo_cp toy_aead))\<rparr>)"
  using one_key_per_account [of "demo_plane toy_aead" "d_nonce demo_draws 0" "''u_0a0b0c''" "demo_cp toy_aead" "ada toy_aead" demo_key
      "replicate 32 CHR ''z''" None 5 demo_draws]
  by (simp add: toy_correct toy_binding row_simps ada_def demo_key_def KEY_BYTES_def NONCE_BYTES_def demo_draws_def eval_nat_numeral)

section \<open>What is saved is read again\<close>

text \<open>
  A saved config is read back exactly as it was saved, by the same user in any later session moment at which the
  key is still live, and reading it changes nothing.
\<close>

theorem config_save_then_get:
  assumes "reach cf (initial w) st" and "save_config cf who name doc now r (sys_cp st) = (Inr x, s')"
    and "aead_correct (cp_aead cf)" and "nonces_ok (d_nonce r)"
    and "key_live (keys (sys_cp st)) (who_session who) (who_user who) later"
  shows "get_config cf who name later s' = (Inr doc, s')"
proof -
  have "distinct (map c_id (configs (database (sys_cp st))))"
    using reach_initial_ok [OF assms(1)] by (simp add: cp_ok_def db_ok_def configs_ok_def)
  then show ?thesis by (rule save_get_config [OF assms(2-4) _ assms(5)])
qed

lemma demo_save: "\<exists>x s'. save_config (demo_plane toy_aead) who_ada ''c'' (JObj []) 12 demo_draws (demo_cp toy_aead) = (Inr x, s')"
  by (simp add: save_config_def demo_sealer demo_empty_config on_db_def store_config_def MAX_CONFIGS_def insert_row_def Let_def)

theorem config_save_then_get_witness:
  "\<exists>x s'. save_config (demo_plane toy_aead) who_ada ''c'' (JObj []) 12 demo_draws (demo_cp toy_aead) = (Inr x, s') \<and>
     get_config (demo_plane toy_aead) who_ada ''c'' 100 s' = (Inr (JObj []), s')"
proof -
  obtain x s' where s: "save_config (demo_plane toy_aead) who_ada ''c'' (JObj []) 12 demo_draws (sys_cp (idle (demo_cp toy_aead))) = (Inr x, s')"
    using demo_save by auto
  moreover have "key_live (keys (sys_cp (idle (demo_cp toy_aead)))) (who_session who_ada) (who_user who_ada) 100"
    by (simp add: key_live_def)
  ultimately show ?thesis using config_save_then_get [OF demo_reach [of toy_aead] s, of 100] by (simp add: toy_correct)
qed

definition reads_as :: "aead \<Rightarrow> sealer \<Rightarrow> string \<Rightarrow> state_row list \<Rightarrow> memory_store \<Rightarrow> bool" where
  "reads_as A k owner rows m \<longleftrightarrow> (\<forall>j. sealed_load A k owner rows j = mem_load m j)"

text \<open>
  C24. The sealed store implements the plain in-memory store: read through the owner's key, saving and deleting the
  state of an instance do to the sealed rows what they do to the reference store.
\<close>

theorem sealed_store_refines:
  assumes "aead_correct A" and "nonces_ok nonce" and "reads_as A k owner rows m" and "distinct (map fst b)"
  shows "reads_as A k owner (sealed_save A k owner nonce rows i b) (mem_save m i b) \<and>
    reads_as A k owner (delete_state i rows) (mem_delete m i)"
proof -
  have st: "state_store (sealed_load A k owner) (sealed_save A k owner nonce)"
    by (rule sealed_state_store [OF assms(1,2)])
  have "sealed_load A k owner (sealed_save A k owner nonce rows i b) j = mem_load (mem_save m i b) j" for j
    using assms(3) state_store.load_save [OF st assms(4)] state_store.load_other [OF st, of i j]
    by (cases "i = j") (simp_all add: reads_as_def mem.load_save [OF assms(4)] mem.load_other)
  moreover have "sealed_load A k owner (delete_state i rows) j = mem_load (mem_delete m i) j" for j
    using assms(3) by (cases "i = j")
      (simp_all add: reads_as_def sealed_load_delete sealed_load_delete_other mem_delete_load mem_load_def mem_delete_def delete_conv')
  ultimately show ?thesis by (simp add: reads_as_def)
qed

theorem sealed_store_refines_witness:
  "reads_as toy_aead demo_key ''u'' (sealed_save toy_aead demo_key ''u'' (d_nonce demo_draws) [] ''i'' [(''adminToken'', ''x'')])
     (mem_save [] ''i'' [(''adminToken'', ''x'')])"
proof -
  have "reads_as toy_aead demo_key ''u'' [] []" by (simp add: reads_as_def sealed_load_def mem_load_def)
  from sealed_store_refines [OF toy_correct _ this, of "d_nonce demo_draws" "[(''adminToken'', ''x'')]" "''i''"]
  show ?thesis by simp
qed

section \<open>A deploy that outlives its instance\<close>

text \<open>
  Destroying an instance deletes its sealed state, but a deploy job that is still running saves the state again when it
  ends: the rows of a destroyed instance come back, and nothing deletes them any more.
\<close>

definition demo_started :: "demo_world sys" where
  "demo_started = take_job (demo_plane toy_aead) (Deploy_job ''abcdefgh'' demo_key) (idle (demo_created toy_aead False))"

lemma demo_started_fields:
  "sys_cp demo_started = (demo_created toy_aead False)\<lparr>jobs := []\<rparr>"
  "sys_running demo_started = [Deploying (demo_row toy_aead False) demo_key (Inr demo_spec) (Inr [])]"
proof -
  have "length (d_nonce demo_draws 0) = NONCE_BYTES" by (simp add: demo_draws_def NONCE_BYTES_def)
  then have "spec_of_row (demo_plane toy_aead) (demo_row toy_aead False) demo_key = Inr demo_spec"
    by (simp add: spec_of_row_def demo_row_def spec_doc_def open_doc_seal toy_correct spec_roundtrip)
  moreover have "load_seed (demo_plane toy_aead) (demo_row toy_aead False) demo_key (database (demo_created toy_aead False)) = Inr []"
    by (simp add: load_seed_def demo_create sealed_load_def)
  ultimately show "sys_cp demo_started = (demo_created toy_aead False)\<lparr>jobs := []\<rparr>"
    "sys_running demo_started = [Deploying (demo_row toy_aead False) demo_key (Inr demo_spec) (Inr [])]"
    by (simp_all add: demo_started_def take_job_def demo_create row_simps job_status_def opt_list_def)
qed

definition demo_gone :: "demo_world sys" where
  "demo_gone = demo_started\<lparr>sys_cp := snd (destroy_instance_op (demo_plane toy_aead) who_ada ''abcdefgh'' 20 (sys_cp demo_started))\<rparr>"

definition demo_back :: "demo_world sys" where
  "demo_back = end_job (demo_plane toy_aead) (Deploying (demo_row toy_aead False) demo_key (Inr demo_spec) (Inr [])) 40 demo_draws demo_gone"

lemma demo_gone_rows:
  "instances (sdb demo_gone) = [(demo_row toy_aead False)\<lparr>i_status := Destroyed, i_urls := [], i_updated_at := 20\<rparr>]"
  "state_rows (sdb demo_gone) = []" "world (sys_cp demo_gone) = []"
  by (simp_all add: demo_gone_def demo_started_fields destroy_instance_op_def instance_row_def demo_create row_simps destroy_row_def
      demo_naming_of on_world_def demo_destroy destroy_commit_def destroy_ok_def empty_destroy_report_def Let_def
      set_row_def update_instance_def update_where_def touch_def delete_state_def delete_where_def)

lemma demo_export:
  "export_state [''tmp'', ''fly-abcdefgh''] [([''tmp'', ''fly-abcdefgh'', ''adminToken''], ''secret'')] = [(''adminToken'', ''secret'')]"
  by (simp add: export_state_def strictly_below_def posix_rel_def is_state_def STATE_FILES_def lstrip_by_def Let_def)

lemma demo_spec_env: "s_env demo_spec = ''abcdefgh''"
  using build_spec_platform [OF demo_build] by simp

theorem deploy_outlives_destroy:
  "reach (demo_plane toy_aead) (initial []) demo_back \<and>
   (\<exists>r. find_row i_id ''abcdefgh'' (instances (sdb demo_back)) = Some r \<and> i_status r = Destroyed) \<and>
   map (\<lambda>x. (st_instance x, st_path x)) (state_rows (sdb demo_back)) = [(''abcdefgh'', ''adminToken'')]"
proof -
  have s: "step (demo_plane toy_aead) (idle (demo_created toy_aead False)) demo_started"
    unfolding demo_started_def by (rule step.by_start) (simp add: demo_create)
  have a: "authenticated who_ada (sys_cp demo_started)"
    by (rule demo_signed_in_later) (simp add: demo_started_fields demo_create)
  have g: "step (demo_plane toy_aead) demo_started demo_gone"
    unfolding demo_gone_def by (intro step.by_request request.destroy a)
  have b: "step (demo_plane toy_aead) demo_gone demo_back"
    unfolding demo_back_def by (rule step.by_end) (simp add: demo_gone_def demo_started_fields)
  have r: "reach (demo_plane toy_aead) (initial []) demo_back"
    by (rule reach_step [OF reach_step [OF reach_step [OF demo_reach_created s] g] b])
  have "deploy (demo_plane toy_aead) (demo_row toy_aead False) demo_spec demo_key (Inr []) demo_draws (sys_cp demo_gone) =
    (Inr [(''issuer'', ''https://x'')], (sys_cp demo_gone)\<lparr>database := (sdb demo_gone)\<lparr>state_rows :=
       sealed_save toy_aead demo_key ''u_0a0b0c'' (\<lambda>n. d_nonce demo_draws (n + 2)) [] ''abcdefgh'' [(''adminToken'', ''secret'')]\<rparr>,
       world := [app demo_naming ''mongodb'']\<rparr>)"
    by (simp add: deploy_def workdir_def deploy_body_def demo_spec_naming deployer_def demo_plane_def demo_deploy_def demo_gone_rows
        fly_dir_def join_resolve_def Let_def starts_with_def demo_spec_env demo_export)
  then have "instances (sdb demo_back) = instances (sdb demo_gone)"
    "state_rows (sdb demo_back) = sealed_save toy_aead demo_key ''u_0a0b0c'' (\<lambda>n. d_nonce demo_draws (n + 2)) [] ''abcdefgh'' [(''adminToken'', ''secret'')]"
    by (simp_all add: demo_back_def end_job_def finish_deploy_def finish_audited_def finish_job_def demo_gone_rows job_status_def)
  with r show ?thesis by (simp add: demo_gone_rows row_simps sealed_save_def delete_state_def delete_where_def)
qed

end
