(* ===== verification/Knowledge.thy ===== *)
theory Knowledge
  imports Json Naming
begin

text \<open>
  What the platform knows, as topics and example prompts (sirosid_core/knowledge). Reading the
  package files and parsing YAML are outside the model: a \<open>library\<close> holds the Markdown files
  (id and text, in the order of the file names), the text of examples.yaml, the YAML parser,
  \<open>str\<close> and \<open>int\<close> of a value that is not a string, and the ellipsis, which is the one
  character that is not a Latin-1 code point.
\<close>

record library =
  kb_files :: "(string \<times> string) list"
  kb_examples :: string
  kb_yaml :: "string \<Rightarrow> exn + json"
  kb_str :: "json \<Rightarrow> string"
  kb_int :: "json \<Rightarrow> exn + int"
  kb_ellipsis :: string


text \<open>\<open>str(v)\<close>.\<close>

definition text_of :: "(json \<Rightarrow> string) \<Rightarrow> json \<Rightarrow> string" where
  "text_of p j = (case j of JStr s \<Rightarrow> s | _ \<Rightarrow> p j)"

section \<open>Topics\<close>

record topic =
  tp_id :: string
  tp_title :: string
  tp_summary :: string
  tp_digest :: string
  tp_order :: int
  tp_tags :: "string list"
  tp_body :: string

definition topic_dict :: "bool \<Rightarrow> topic \<Rightarrow> json" where
  "topic_dict with_body t = JObj
     ([(''id'', JStr (tp_id t)), (''title'', JStr (tp_title t)), (''summary'', JStr (tp_summary t)),
       (''tags'', JList (map JStr (tp_tags t)))] @
      (if with_body then [(''body'', JStr (tp_body t))] else []))"

text \<open>
  The front matter: the text after an opening rule up to the first rule on a line start, and
  the body after that rule and one line end.
\<close>

definition rule_line :: string where "rule_line = ''---''"

fun until_rule :: "string \<Rightarrow> (string \<times> string) option" where
  "until_rule [] = None"
| "until_rule (c # s) =
     (if starts_with (newline # rule_line) (c # s)
      then Some ([], case drop 3 s of [] \<Rightarrow> [] | x # r \<Rightarrow> if x = newline then r else x # r)
      else map_option (\<lambda>(a, b). (c # a, b)) (until_rule s))"

definition front_matter :: "string \<Rightarrow> (string \<times> string) option" where
  "front_matter s = (if starts_with (rule_line @ [newline]) s then until_rule (drop 4 s) else None)"

definition meta_get :: "json \<Rightarrow> string \<Rightarrow> json \<Rightarrow> json" where
  "meta_get meta k otherwise = (case json_get meta k of None \<Rightarrow> otherwise | Some v \<Rightarrow> v)"

definition parse_topic :: "library \<Rightarrow> string \<times> string \<Rightarrow> exn + topic" where
  "parse_topic lb f =
     (case f of (stem, s) \<Rightarrow>
        case front_matter s of
          None \<Rightarrow> Inl (ValueError (stem @ ''.md: missing YAML front matter''))
        | Some (front, body) \<Rightarrow>
            bind_sum (kb_yaml lb front) (\<lambda>m.
              let meta = (if json_truthy m then m else JObj []) in
              if \<not> is_JObj meta \<or> \<not> json_truthy (meta_get meta ''title'' JNull) \<or> \<not> json_truthy (meta_get meta ''summary'' JNull)
              then Inl (ValueError (stem @ ''.md: front matter needs title and summary''))
              else bind_sum (kb_int lb (meta_get meta ''order'' (JInt 100))) (\<lambda>ord.
                   map_sum id (\<lambda>tags.
                     \<lparr>tp_id = stem, tp_title = text_of (kb_str lb) (meta_get meta ''title'' JNull),
                      tp_summary = py_strip (text_of (kb_str lb) (meta_get meta ''summary'' JNull)),
                      tp_digest = py_strip (text_of (kb_str lb) (meta_get meta ''digest'' (JStr []))),
                      tp_order = ord, tp_tags = map (text_of (kb_str lb)) tags, tp_body = py_strip body\<rparr>)
                   (as_list (meta_get meta ''tags'' JNull)))))"

fun all_Inr :: "(exn + 'a) list \<Rightarrow> exn + 'a list" where
  "all_Inr [] = Inr []"
| "all_Inr (r # rs) = bind_sum r (\<lambda>a. map_sum id ((#) a) (all_Inr rs))"

definition list_topics :: "library \<Rightarrow> exn + topic list" where
  "list_topics lb =
     map_sum id (sort_key (\<lambda>t. (tp_order t, tp_id t))) (all_Inr (map (parse_topic lb) (kb_files lb)))"

definition is_lower_alnum_char :: "char \<Rightarrow> bool" where
  "is_lower_alnum_char c = (is_lower c \<or> is_digit c)"

definition topic_id_ok :: "string \<Rightarrow> bool" where
  "topic_id_ok s = (case s of
      [] \<Rightarrow> False
    | c # r \<Rightarrow> is_lower_alnum_char c \<and> list_all (\<lambda>x. is_lower_alnum_char x \<or> x = CHR ''-'') r)"

definition get_topic :: "library \<Rightarrow> string \<Rightarrow> exn + topic option" where
  "get_topic lb topic_id =
     (if \<not> topic_id_ok topic_id then Inr None
      else map_sum id (find (\<lambda>t. tp_id t = topic_id)) (list_topics lb))"

section \<open>Search\<close>

text \<open>The words of a query: maximal runs that start with a letter or a digit.\<close>

definition word_char :: "char \<Rightarrow> bool" where
  "word_char c = (is_lower_alnum_char c \<or> c \<in> {CHR ''_'', CHR ''.'', CHR ''-''})"

fun word_scan :: "string option \<Rightarrow> string \<Rightarrow> string list" where
  "word_scan None [] = []"
| "word_scan (Some w) [] = [rev w]"
| "word_scan None (c # s) = word_scan (if is_lower_alnum_char c then Some [c] else None) s"
| "word_scan (Some w) (c # s) = (if word_char c then word_scan (Some (c # w)) s else rev w # word_scan None s)"

definition query_terms :: "string \<Rightarrow> string list" where
  "query_terms q = word_scan None (py_lower q)"

text \<open>\<open>s.find(w)\<close> and \<open>s.count(w)\<close>; occurrences do not overlap, and \<open>w\<close> is not empty here.\<close>

fun find_sub :: "string \<Rightarrow> string \<Rightarrow> nat option" where
  "find_sub w [] = (if w = [] then Some 0 else None)"
| "find_sub w (c # s) = (if starts_with w (c # s) then Some 0 else map_option Suc (find_sub w s))"

fun count_sub :: "string \<Rightarrow> nat \<Rightarrow> string \<Rightarrow> nat" where
  "count_sub w skip [] = 0"
| "count_sub w (Suc k) (c # s) = count_sub w k s"
| "count_sub w 0 (c # s) =
     (if starts_with w (c # s) then Suc (count_sub w (length w - 1) s) else count_sub w 0 s)"

definition topic_score :: "string list \<Rightarrow> topic \<Rightarrow> nat" where
  "topic_score terms t =
     (let head = py_lower (tp_title t @ '' '' @ tp_summary t @ '' '' @ join_with '' '' (tp_tags t));
          body = py_lower (tp_body t)
      in sum_list (map (\<lambda>w. 5 * count_sub w 0 head + min (count_sub w 0 body) 10) terms))"

definition snippet :: "library \<Rightarrow> string \<Rightarrow> string list \<Rightarrow> string" where
  "snippet lb body terms =
     (let low = py_lower body;
          hits = concat (map (\<lambda>w. case find_sub w low of None \<Rightarrow> [] | Some p \<Rightarrow> [p]) terms);
          pos = (case hits of [] \<Rightarrow> 0 | h # hs \<Rightarrow> foldl min h hs);
          start = pos - 60;
          s = py_strip (map (\<lambda>c. if c = newline then CHR '' '' else c) (take 220 (drop start body)))
      in (if 0 < start then kb_ellipsis lb else []) @ s @
         (if start + 220 < length body then kb_ellipsis lb else []))"

definition search_topics :: "library \<Rightarrow> string \<Rightarrow> int \<Rightarrow> exn + (topic \<times> string) list" where
  "search_topics lb q limit =
     (let terms = query_terms q in
      if terms = [] then Inr []
      else map_sum id (\<lambda>topics.
             let scored = filter (\<lambda>(n, t). n \<noteq> 0) (map (\<lambda>t. (topic_score terms t, t)) topics);
                 best = take (nat (max 1 limit)) (sort_key (\<lambda>(n, t). (- int n, tp_order t, tp_id t)) scored)
             in map (\<lambda>(n, t). (t, snippet lb (tp_body t) terms)) best)
           (list_topics lb))"

section \<open>The digest and the examples\<close>

definition overview :: "library \<Rightarrow> exn + string" where
  "overview lb =
     map_sum id (\<lambda>topics.
       join_with [newline]
         ([''What you know about SIROS ID Dev (call get_knowledge(topic) for the full text of any topic):''] @
          map (\<lambda>t. ''- '' @ tp_title t @ '': '' @ tp_digest t) (filter (\<lambda>t. tp_digest t \<noteq> []) topics) @
          [''Topics: '' @ join_with '', '' (map (\<lambda>t. tp_id t @ '' ('' @ tp_title t @ '')'') topics)]))
     (list_topics lb)"

text \<open>\<open>e[k]\<close> of a YAML value; the examples are mappings.\<close>

definition item :: "json \<Rightarrow> string \<Rightarrow> exn + json" where
  "item e k =
     (case e of
        JObj kvs \<Rightarrow> (case map_of kvs k of None \<Rightarrow> Inl (KeyError k) | Some v \<Rightarrow> Inr v)
      | _ \<Rightarrow> Inl (TypeError ''indices must be integers''))"

definition example_of :: "library \<Rightarrow> json \<Rightarrow> exn + json" where
  "example_of lb e =
     (let str = text_of (kb_str lb) in
      bind_sum (item e ''id'') (\<lambda>i. bind_sum (item e ''title'') (\<lambda>t. map_sum id (\<lambda>p.
        JObj [(''id'', JStr (str i)), (''title'', JStr (str t)), (''prompt'', JStr (py_strip (str p))),
              (''category'', JStr (str (meta_get e ''category'' (JStr ''general''))))]) (item e ''prompt''))))"

definition examples :: "library \<Rightarrow> exn + json list" where
  "examples lb =
     bind_sum (kb_yaml lb (kb_examples lb)) (\<lambda>j. bind_sum (as_list j) (\<lambda>es. all_Inr (map (example_of lb) es)))"

section \<open>Facts\<close>

lemma all_Inr_Inr: "all_Inr rs = Inr as \<longleftrightarrow> rs = map Inr as"
proof (induction rs arbitrary: as)
  case (Cons r rs)
  then show ?case by (cases as) auto
qed auto

lemma list_topics_Inr:
  assumes "list_topics lb = Inr ts"
  shows "sorted (map (\<lambda>t. (tp_order t, tp_id t)) ts)" and "length ts = length (kb_files lb)"
proof -
  from assms obtain us where us: "all_Inr (map (parse_topic lb) (kb_files lb)) = Inr us"
    and ts: "ts = sort_key (\<lambda>t. (tp_order t, tp_id t)) us"
    by (cases "all_Inr (map (parse_topic lb) (kb_files lb))") (auto simp: list_topics_def)
  from us have "map (parse_topic lb) (kb_files lb) = map Inr us" by (simp add: all_Inr_Inr)
  then have "length us = length (kb_files lb)" by (metis length_map)
  then show "length ts = length (kb_files lb)" by (simp add: ts)
  show "sorted (map (\<lambda>t. (tp_order t, tp_id t)) ts)" by (simp add: ts)
qed

text \<open>A topic that is found has the id that was asked for.\<close>

lemma get_topic_id: "get_topic lb i = Inr (Some t) \<Longrightarrow> tp_id t = i \<and> topic_id_ok i"
  by (auto simp: get_topic_def find_Some_iff2 split: if_splits)

text \<open>The front matter ends at the first rule, and nothing of the text is lost before it.\<close>

lemma until_rule_Some:
  assumes "until_rule s = Some (a, b)"
  shows "\<exists>r. s = a @ newline # rule_line @ r \<and> (r = b \<or> r = newline # b)"
  using assms
proof (induction s arbitrary: a b)
  case (Cons c s)
  show ?case
  proof (cases "starts_with (newline # rule_line) (c # s)")
    case True
    then obtain r where r: "c # s = (newline # rule_line) @ r" by (auto simp: starts_with_iff)
    then have "drop 3 s = r" by (simp add: rule_line_def)
    with Cons.prems True r show ?thesis by (auto split: list.splits if_splits)
  next
    case False
    with Cons.prems obtain a' where "until_rule s = Some (a', b)" "a = c # a'" by auto
    with Cons.IH [of a' b] show ?thesis by auto
  qed
qed simp

text \<open>Every term of a query starts with a letter or a digit, so it is never empty.\<close>

lemma word_scan_nonempty:
  assumes "w \<in> set (word_scan acc s)" and "\<And>u. acc = Some u \<Longrightarrow> u \<noteq> []"
  shows "w \<noteq> []"
  using assms
  by (induction acc s rule: word_scan.induct) (auto split: if_splits)


end
