(* ===== verification/Skills.thy ===== *)
theory Skills
  imports Knowledge Android Policy
begin

text \<open>
  The runbooks offered as MCP prompts (sirosid_service/skills.py): their arguments with the
  checks, their texts, and the rendering. A text is written line by line, as the f-strings of
  the source are; \<open>arg a k\<close> is \<open>a.get(k, "")\<close>.
\<close>

definition MAX_ARG :: nat where "MAX_ARG = 500"

text \<open>\<open>PromptArgumentError\<close>, and \<open>repr\<close> of a list of strings.\<close>

definition prompt_argument_error :: "string \<Rightarrow> exn" where
  "prompt_argument_error m = OtherError ''PromptArgumentError'' m"

definition repr_list :: "string list \<Rightarrow> string" where
  "repr_list ss = ''['' @ join_with '', '' (map py_repr ss) @ '']''"

text \<open>\<open>_CONTROL.sub(" ", v)\<close>: control characters other than tab and line feed.\<close>

definition is_control :: "char \<Rightarrow> bool" where
  "is_control c = (let n = (of_char c :: nat) in n \<le> 8 \<or> (11 \<le> n \<and> n \<le> 31) \<or> n = 127)"

definition blank_controls :: "string \<Rightarrow> string" where
  "blank_controls s = map (\<lambda>c. if is_control c then CHR '' '' else c) s"

record prompt_arg =
  ag_name :: string
  ag_description :: string
  ag_required :: bool
  ag_check :: "string \<Rightarrow> string"

record prompt =
  pm_name :: string
  pm_title :: string
  pm_description :: string
  pm_args :: "prompt_arg list"
  pm_body :: "string dict \<Rightarrow> string"
  pm_topics :: "string list"
  pm_query :: string

definition listing :: "prompt \<Rightarrow> json" where
  "listing p = JObj
     [(''name'', JStr (pm_name p)), (''title'', JStr (pm_title p)), (''description'', JStr (pm_description p)),
      (''arguments'', JList (map (\<lambda>a. JObj [(''name'', JStr (ag_name a)), (''description'', JStr (ag_description a)),
         (''required'', JBool (ag_required a))]) (pm_args p)))]"

section \<open>Which knowledge to read first\<close>

definition unlines :: "string list \<Rightarrow> string" where
  "unlines ls = concat (map (\<lambda>l. l @ [newline]) ls)"

definition read_first :: "library \<Rightarrow> string list \<Rightarrow> string \<Rightarrow> exn + string" where
  "read_first lb topic_ids q =
     map_sum id (\<lambda>topics.
       let named = filter (\<lambda>t. t \<in> tp_id ` set topics) topic_ids in
       join_with [newline]
         ([''Before you act, read what the platform knows:''] @
          map (\<lambda>t. ''- `get_knowledge`(topic='' @ quoted t @ '')'') named @
          (if q \<noteq> [] then [''- `get_knowledge`(query='' @ quoted q @ '') and read the best match in full'' @
             (if named \<noteq> [] then '' if the topics above do not cover it'' else [])] else []) @
          [''Follow what the knowledge says where it is more specific than this runbook.'']))
     (list_topics lb)"

section \<open>Checks of the arguments\<close>

definition is_base32 :: "char \<Rightarrow> bool" where
  "is_base32 c = (is_lower c \<or> c \<in> set ''234567'')"

definition check_instance :: "string \<Rightarrow> string" where
  "check_instance v = (let b = before_dollar v in
     if length b = 8 \<and> list_all is_base32 b then []
     else ''must be an environment id (8 characters, as list_instances shows)'')"

definition check_kind :: "string \<Rightarrow> string" where
  "check_kind v = (if v \<in> {''issuer'', ''verifier''} then [] else ''must be 'issuer' or 'verifier'' @ [CHR 0x27])"

definition is_package_part :: "string \<Rightarrow> bool" where
  "is_package_part s = (case s of
      [] \<Rightarrow> False
    | c # r \<Rightarrow> (is_lower c \<or> is_upper c) \<and> list_all (\<lambda>x. is_lower x \<or> is_upper x \<or> is_digit x \<or> x = CHR ''_'') r)"

definition is_package :: "string \<Rightarrow> bool" where
  "is_package v = (let ps = split_on CHR ''.'' (before_dollar v) in 2 \<le> length ps \<and> list_all is_package_part ps)"

definition check_package :: "string \<Rightarrow> string" where
  "check_package v = (if is_package v then [] else ''must be an Android package name such as org.example.app'')"

definition check_fingerprint :: "string \<Rightarrow> string" where
  "check_fingerprint v =
     (if is_err (identities_from_entries [''org.example.check='' @ v])
      then ''must be the signing certificate's SHA-256 fingerprint (32 colon-separated hex bytes, as keytool prints it)''
      else [])"

definition INSTANCE :: prompt_arg where
  "INSTANCE = \<lparr>ag_name = ''instance'', ag_description = ''the environment's id'', ag_required = True, ag_check = check_instance\<rparr>"

definition free_arg :: "string \<Rightarrow> string \<Rightarrow> bool \<Rightarrow> prompt_arg" where
  "free_arg n d req = \<lparr>ag_name = n, ag_description = d, ag_required = req, ag_check = (\<lambda>_. [])\<rparr>"

definition checked_arg :: "string \<Rightarrow> string \<Rightarrow> (string \<Rightarrow> string) \<Rightarrow> prompt_arg" where
  "checked_arg n d c = \<lparr>ag_name = n, ag_description = d, ag_required = True, ag_check = c\<rparr>"

section \<open>The texts\<close>

definition arg :: "string dict \<Rightarrow> string \<Rightarrow> string" where
  "arg a k = (case map_of a k of None \<Rightarrow> [] | Some v \<Rightarrow> v)"

definition POLL :: string where
  "POLL =
     ''Poll `get_instance_health` (it is cheap) every 20 to 30 seconds and `get_instance` for the status, '' @
     ''until the status is '' @ quoted ''running'' @ '' - or '' @ quoted ''failed'' @
     '': then read `get_instance_activity` and the instance's error, explain it plainly, and stop.''"

definition spin_up_body :: "string dict \<Rightarrow> string" where
  "spin_up_body a =
     (let label = arg a ''label'';
         pick = (if arg a ''template'' \<noteq> [] then
            ''Use the template with id '' @ quoted (arg a ''template'') @
            ''. If it is not listed, say so, list the ids that are, and ask which to use.''
          else
            ''Pick the template that fits what the user asked for; '' @ quoted ''standard'' @ '' when they did not say.'')
     in [newline] @ unlines [
      ''Goal: create a new SIROS ID Dev environment'' @
        (if label \<noteq> [] then '' labelled '' @ quoted label else []) @ '' and give the user its wallet URL.'',
      [],
      ''1. Call `get_account` (limits) and `list_instances`. If the user is already at max_concurrent, '' @
        ''stop: say which'',
      ''   environments they could stop or destroy and let them choose. Never destroy anything to make room '' @
        ''yourself.'',
      ''2. Call `list_config_templates`. '' @ pick,
      ''3. If the user asked for changes (trusted issuers or verifiers, Android apps, credential '' @
        ''registries, ...), copy the'',
      ''   template's config, apply exactly those changes and call `validate_config`. Fix every problem it '' @
        ''reports before'',
      ''   going on; `get_config_schema` lists every key.'',
      ''4. Optionally `save_config` under a short name so the config can be re-used, then `create_instance` '' @
        ''with that'',
      ''   config_name (or with the config inline)'' @
        (if label \<noteq> [] then '', name='' @ quoted label else []) @ ''. It returns at once with status '' @
        quoted ''creating'' @ ''.'',
      ''5. Tell the user this takes a few minutes. '' @ POLL,
      ''6. When it is running, give the wallet URL (urls['' @ quoted ''wallet-frontend'' @
        ''] from `get_instance`) and the other public URLs,'',
      ''   say when it expires (expires_at) and that `set_keep` keeps it longer if their allowance permits.''])"

definition reconfigure_body :: "string dict \<Rightarrow> string" where
  "reconfigure_body a =
     ([newline] @ unlines [
      ''Goal: change environment '' @ arg a ''instance'' @ '' as follows: '' @ arg a ''change'',
      [],
      ''1. `get_instance` id='' @ quoted (arg a ''instance'') @ ''. Its status must be '' @ quoted ''running'' @
        '' or '' @ quoted ''failed'' @ '' (reconfigurable is true). If it is'',
      ''   '' @ quoted ''stopped'' @
        '', ask the user whether to start it (`start_instance`): a stopped environment cannot be '' @
        ''reconfigured. If it is'',
      ''   '' @ quoted ''creating'' @ '', '' @ quoted ''resetting'' @ '' or '' @ quoted ''reconfiguring'' @
        '', wait for it with `get_instance_health`.'',
      ''2. `get_instance_config` id='' @ quoted (arg a ''instance'') @
        '': the config it runs now. Keep it - it is the way back.'',
      ''3. Build the new config: the current one with ONLY the requested change applied. Keep every other '' @
        ''key as it is.'',
      ''   `get_config_schema` names every key; never invent one.'',
      ''4. `validate_config` with the new config and fix every problem it reports.'',
      ''5. Tell the user which keys change, and that reconfiguring redeploys the environment: its '' @
        ''components restart (a few'',
      ''   minutes; data, accounts and secrets are kept). Then call `reconfigure_instance` id='' @
        quoted (arg a ''instance'') @ '' with the'',
      ''   complete new config. The user may have to approve it.'',
      ''6. '' @ POLL @
        '' A failed reconfigure leaves the previous config in place: offer `reconfigure_instance` with the '' @
        ''config from'',
      ''   step 2 to go back.''])"

definition trusted_body :: "string dict \<Rightarrow> string" where
  "trusted_body a =
     (let rule = (if arg a ''kind'' = ''issuer'' then
            ''Add '' @ quoted (arg a ''url_or_identity'') @
            '' to `trusted_issuers`. It must be the issuer's https URL as it appears in its credentials (their '' @
            ''iss claim: the credential issuer's public URL) - not an internal address.''
          else
            ''Add '' @ quoted (arg a ''url_or_identity'') @
            '' to `trusted_verifiers`. Accepted forms: an https URL, or x509_hash:..., x509_san_dns:<host>, '' @
            ''x509_san_uri:<uri>. The trust service compares x509_san_dns:<host> as https://<host>, so prefer the '' @
            ''https form for those. If the verifier's request-signing certificate is issued by a private reader '' @
            ''CA, its CA certificate (PEM) must also go in `trusted_verifier_roots`: ask the user for it.'')
     in [newline] @ unlines [
      ''Goal: make environment '' @ arg a ''instance'' @ '' trust the external '' @ arg a ''kind'' @ '' '' @
        arg a ''url_or_identity'' @ ''.'',
      [],
      ''1. `get_instance` id='' @ quoted (arg a ''instance'') @ '': it must be '' @ quoted ''running'' @ '' or '' @
        quoted ''failed'' @ '' (start a stopped one first, with the user's agreement).'',
      ''2. `get_instance_config` id='' @ quoted (arg a ''instance'') @ ''.'',
      ''3. '' @ rule @ '' Do not add a duplicate; keep every other key as it is.'',
      ''4. `validate_config` with the new config; fix every problem.'',
      ''5. `reconfigure_instance` id='' @ quoted (arg a ''instance'') @
        '' with the new config (it restarts the environment's components; the user'',
      ''   may have to approve it). '' @ POLL,
      ''6. Tell the user it is in place. Trust applies to new issuance and presentations, and the trust '' @
        ''service can take'',
      ''   several minutes to become ready when an issuer publishes no JWKS.''])"

definition android_body :: "string dict \<Rightarrow> string" where
  "android_body a =
     (let entry = arg a ''package'' @ ''='' @ arg a ''fingerprint''
     in [newline] @ unlines [
      ''Goal: let the Android app '' @ arg a ''package'' @ '' use passkeys against environment '' @
        arg a ''instance'' @ ''.'',
      [],
      ''1. `get_instance` id='' @ quoted (arg a ''instance'') @ '': it must be '' @ quoted ''running'' @ '' or '' @
        quoted ''failed'' @ '' (start a stopped one first, with the user's agreement).'',
      ''2. `get_instance_config` id='' @ quoted (arg a ''instance'') @ ''.'',
      ''3. Add '' @ quoted entry @
        '' to `android_apps` (replace an existing entry for the same package; keep every other key). The'',
      ''   fingerprint is the SHA-256 of the APK's signing certificate as keytool prints it - for a debug '' @
        ''build, the debug'',
      ''   keystore's, which differs from the release key.'',
      ''4. `validate_config`; fix every problem. Then `reconfigure_instance` id='' @ quoted (arg a ''instance'') @
        '' with the new config (the'',
      ''   user may have to approve it). '' @ POLL,
      ''5. When it is running, tell the user: the environment's wallet URL (urls['' @ quoted ''wallet-frontend'' @
        '']) now serves'',
      ''   /.well-known/assetlinks.json listing the app; point the app at that environment; Android caches '' @
        ''assetlinks, so'',
      ''   reinstall the app (or clear its data) if it still refuses the passkey.''])"

definition diagnose_body :: "string dict \<Rightarrow> string" where
  "diagnose_body a =
     ([newline] @ unlines [
      ''Goal: find out why environment '' @ arg a ''instance'' @ '' is not working, and say what to do about it.'',
      [],
      ''1. `get_instance` id='' @ quoted (arg a ''instance'') @ '': status, error, urls, expires_at.'',
      ''2. `get_instance_health` id='' @ quoted (arg a ''instance'') @
        '': which components are not healthy and their detail. An error there'',
      ''   means Fly did not answer; try once more before drawing conclusions.'',
      ''3. `get_instance_activity` id='' @ quoted (arg a ''instance'') @
        '': what happened last (failed deploys, resets, reconfigures) and who did it.'',
      ''4. `get_instance_config` id='' @ quoted (arg a ''instance'') @
        '': what it runs; compare with what the user expects.'',
      ''5. Search the knowledge base (`get_knowledge` with a query) for the symptom and the failing '' @
        ''component.'',
      ''6. Explain plainly what is wrong, the likely cause and the safest next step. In order of '' @
        ''preference: wait (still'',
      ''   creating), `start_instance` (stopped), `reconfigure_instance` with a fixed or the previous '' @
        ''config (failed'',
      ''   reconfigure), `reset_instance` (erases the environment's data), `destroy_instance` and create a '' @
        ''new one (last'',
      ''   resort). Never run reset or destroy unless the user explicitly agrees.''])"

definition clean_up_body :: "string dict \<Rightarrow> string" where
  "clean_up_body a =
     ([newline] @ unlines [
      ''Goal: help the user tidy up their environments.'',
      [],
      ''1. `get_account` (limits, keep allowance) and `list_instances`.'',
      ''2. Show a short table: id, label, status, expires_at, kept. Flag failed ones, stopped ones, ones '' @
        ''expiring within a'',
      ''   day and kept ones using the keep allowance.'',
      ''3. Suggest per environment, and wait for the user to confirm each by id: `stop_instance` (data '' @
        ''kept, only storage is'',
      ''   billed), `set_keep` with keep=false (back on the normal expiry clock), or `destroy_instance` '' @
        ''(irreversible).'',
      ''   Never destroy without an explicit yes for that id.'',
      ''4. Saved configs are separate from environments: `list_configs`; `delete_config` only when the user '' @
        ''asks.''])"


definition PROMPTS :: "prompt list" where
  "PROMPTS = [
    \<lparr>pm_name = ''spin-up-environment'', pm_title = ''Spin up an environment'',
     pm_description = ''Create a new environment from a template, wait until it is running and hand over its URLs.'',
     pm_args = [free_arg ''template'' (''a template id from list_config_templates (default: the one that fits, '' @
                  ''else 'standard')'') False,
                free_arg ''label'' ''a short label for the environment'' False],
     pm_body = spin_up_body, pm_topics = [''overview'', ''templates'', ''lifecycle''],
     pm_query = ''create an environment from a template''\<rparr>,
    \<lparr>pm_name = ''reconfigure-environment'', pm_title = ''Reconfigure an environment'',
     pm_description = ''Change one environment's config and redeploy it, keeping its data.'',
     pm_args = [INSTANCE, free_arg ''change'' ''what to change, in plain words'' True],
     pm_body = reconfigure_body, pm_topics = [''config-reference'', ''reconfigure'', ''lifecycle''],
     pm_query = ''reconfigure an environment config''\<rparr>,
    \<lparr>pm_name = ''add-trusted-party'', pm_title = ''Trust an external issuer or verifier'',
     pm_description = ''Make an environment's trust service accept a partner's issuer or verifier.'',
     pm_args = [INSTANCE, checked_arg ''kind'' ([CHR 0x27] @ ''issuer' or 'verifier'' @ [CHR 0x27]) check_kind,
                free_arg ''url_or_identity'' ''the issuer's https URL, or the verifier's identity'' True],
     pm_body = trusted_body, pm_topics = [''trust'', ''config-reference''],
     pm_query = ''trusted issuers verifiers trust''\<rparr>,
    \<lparr>pm_name = ''test-android-passkeys'', pm_title = ''Test an Android app's passkeys'',
     pm_description = ''Let an Android app (package + signing certificate fingerprint) use passkeys against an environment.'',
     pm_args = [INSTANCE, checked_arg ''package'' ''the Android package name'' check_package,
                checked_arg ''fingerprint'' ''SHA-256 fingerprint of the app's signing certificate'' check_fingerprint],
     pm_body = android_body, pm_topics = [''android'', ''android-passkeys'', ''config-reference''],
     pm_query = ''android passkeys assetlinks''\<rparr>,
    \<lparr>pm_name = ''diagnose-environment'', pm_title = ''Diagnose an environment'',
     pm_description = ''Find out why an environment is failing or misbehaving and what to do about it.'',
     pm_args = [INSTANCE], pm_body = diagnose_body, pm_topics = [''troubleshooting'', ''lifecycle''],
     pm_query = ''troubleshooting a failed environment''\<rparr>,
    \<lparr>pm_name = ''clean-up-environments'', pm_title = ''Clean up environments'',
     pm_description = ''Review the user's environments and stop, release or destroy the ones they no longer need.'',
     pm_args = [], pm_body = clean_up_body, pm_topics = [''lifecycle''],
     pm_query = ''expiry keep stop destroy''\<rparr>]"

section \<open>Rendering\<close>

definition one_argument :: "prompt \<Rightarrow> json dict \<Rightarrow> prompt_arg \<Rightarrow> exn + string dict" where
  "one_argument p given a =
     (case map_of given (ag_name a) of
        Some (JStr (c # s)) \<Rightarrow>
          (let v = py_strip (blank_controls (c # s)) in
           if MAX_ARG < length v
           then Inl (prompt_argument_error (''argument '' @ py_repr (ag_name a) @ '' is longer than '' @ show_nat MAX_ARG @ '' characters''))
           else if ag_check a v \<noteq> []
           then Inl (prompt_argument_error (''argument '' @ py_repr (ag_name a) @ '': '' @ ag_check a v))
           else Inr [(ag_name a, v)])
      | v \<Rightarrow>
          if v \<in> {None, Some JNull, Some (JStr [])} then
            (if ag_required a
             then Inl (prompt_argument_error (pm_name p @ '' needs the argument '' @ py_repr (ag_name a)))
             else Inr [])
          else Inl (prompt_argument_error (''argument '' @ py_repr (ag_name a) @ '' must be a string'')))"

fun prompt_arguments :: "prompt \<Rightarrow> json dict \<Rightarrow> prompt_arg list \<Rightarrow> exn + string dict" where
  "prompt_arguments p given [] = Inr []"
| "prompt_arguments p given (a # as) =
     bind_sum (one_argument p given a) (\<lambda>x. map_sum id ((@) x) (prompt_arguments p given as))"

definition render_prompt :: "library \<Rightarrow> prompt \<Rightarrow> json dict \<Rightarrow> exn + json" where
  "render_prompt lb p given =
     (let unknown = sort (remdups (filter (\<lambda>k. k \<notin> ag_name ` set (pm_args p)) (map fst given))) in
      if unknown \<noteq> []
      then Inl (prompt_argument_error (''unknown arguments for '' @ pm_name p @ '': '' @ repr_list unknown))
      else bind_sum (prompt_arguments p given (pm_args p)) (\<lambda>args.
        map_sum id (\<lambda>first.
          JObj [(''description'', JStr (pm_description p)),
                (''messages'', JList [JObj [(''role'', JStr ''user''),
                   (''content'', JObj [(''type'', JStr ''text''),
                      (''text'', JStr (first @ [newline, newline] @ py_strip (pm_body p args)))])]])])
        (read_first lb (pm_topics p) (pm_query p))))"

section \<open>What reaches a runbook\<close>

text \<open>An argument in the text was checked, is short and has no control characters.\<close>

definition argument_ok :: "prompt \<Rightarrow> string \<times> string \<Rightarrow> bool" where
  "argument_ok p kv = (\<exists>a \<in> set (pm_args p). fst kv = ag_name a \<and> ag_check a (snd kv) = [] \<and>
     length (snd kv) \<le> MAX_ARG \<and> (\<forall>c \<in> set (snd kv). \<not> is_control c))"

lemma blank_controls_clean: "c \<in> set (blank_controls s) \<Longrightarrow> \<not> is_control c"
  by (auto simp: blank_controls_def is_control_def split: if_splits)

lemma set_py_strip: "set (py_strip s) \<subseteq> set s"
  by (fastforce simp: py_strip_def rstrip_by_def lstrip_by_def dest: set_dropWhileD)

lemma one_argument_ok:
  assumes "one_argument p given a = Inr d" and "a \<in> set (pm_args p)" and "kv \<in> set d"
  shows "argument_ok p kv"
proof -
  from assms(1,3) obtain c s where "kv = (ag_name a, py_strip (blank_controls (c # s)))"
    and "\<not> MAX_ARG < length (py_strip (blank_controls (c # s)))" "ag_check a (py_strip (blank_controls (c # s))) = []"
    by (auto simp: one_argument_def Let_def split: option.splits json.splits list.splits if_splits)
  moreover have "\<not> is_control x" if "x \<in> set (py_strip (blank_controls (c # s)))" for x
    using that set_py_strip blank_controls_clean by blast
  ultimately show ?thesis using assms(2) unfolding argument_ok_def by auto
qed

lemma prompt_arguments_ok:
  assumes "prompt_arguments p given as = Inr d" and "set as \<subseteq> set (pm_args p)" and "kv \<in> set d"
  shows "argument_ok p kv"
  using assms
proof (induction as arbitrary: d)
  case (Cons a as)
  then obtain x y where "one_argument p given a = Inr x" "prompt_arguments p given as = Inr y" "d = x @ y" by auto
  with Cons one_argument_ok [of p given a x kv] show ?case by auto
qed simp

lemma required_argument_given:
  assumes "prompt_arguments p given as = Inr d" and "a \<in> set as" and "ag_required a"
  shows "ag_name a \<in> fst ` set d"
  using assms
proof (induction as arbitrary: d)
  case (Cons b as)
  then obtain x y where x: "one_argument p given b = Inr x" and "prompt_arguments p given as = Inr y" "d = x @ y" by auto
  moreover have "ag_name b \<in> fst ` set x" if "ag_required b"
    using x that by (auto simp: one_argument_def Let_def split: option.splits json.splits list.splits if_splits)
  ultimately show ?case using Cons by auto
qed simp

section \<open>The names in a runbook\<close>

text \<open>The identifiers that follow a backtick, as the repository's test collects them.\<close>

abbreviation backtick :: char where "backtick \<equiv> CHR 0x60"

definition name_char :: "char \<Rightarrow> bool" where
  "name_char c = (is_lower c \<or> is_digit c \<or> c = CHR ''_'')"

fun ticked :: "string \<Rightarrow> string list" where
  "ticked [] = []"
| "ticked (c # s) =
     (if c = backtick \<and> s \<noteq> [] \<and> is_lower (hd s) then takeWhile name_char s # ticked s else ticked s)"

lemma ticked_none: "backtick \<notin> set s \<Longrightarrow> ticked s = []"
  by (induction s) auto

text \<open>A piece of text can be read on its own when no identifier runs over its end.\<close>

definition closed_end :: "string \<Rightarrow> bool" where
  "closed_end s = (s = [] \<or> \<not> name_char (last s) \<and> last s \<noteq> backtick)"

lemma takeWhile_closed:
  "s \<noteq> [] \<Longrightarrow> \<not> name_char (last s) \<Longrightarrow> takeWhile name_char (s @ t) = takeWhile name_char s"
  by (induction s) (auto split: if_splits)

lemma ticked_append:
  "closed_end s \<Longrightarrow> ticked (s @ t) = ticked s @ ticked t"
proof (induction s)
  case (Cons c s)
  show ?case
  proof (cases "s = []")
    case True
    with Cons.prems show ?thesis by (auto simp: closed_end_def)
  next
    case False
    with Cons.prems have "closed_end s" "\<not> name_char (last s)" by (auto simp: closed_end_def)
    with False Cons.IH show ?thesis by (simp add: takeWhile_closed)
  qed
qed simp

lemma ticked_plain: "backtick \<notin> set s \<Longrightarrow> ticked (s @ t) = ticked t"
  by (induction s) auto

lemma ticked_line [simp]: "ticked (s @ newline # t) = ticked s @ ticked t"
proof (induction s)
  case (Cons c s)
  have "takeWhile name_char (s @ newline # t) = takeWhile name_char s"
    by (induction s) (auto simp: name_char_def is_lower_def is_digit_def)
  moreover have "hd (s @ newline # t) = hd s" if "s \<noteq> []" using that by simp
  moreover have "\<not> is_lower newline" by (simp add: is_lower_def)
  ultimately show ?case using Cons by (cases "s = []") auto
qed simp

lemma ticked_unlines: "ticked (unlines ls) = concat (map ticked ls)"
proof (induction ls)
  case (Cons l ls)
  have "unlines (l # ls) = l @ newline # unlines ls" by (simp add: unlines_def)
  with Cons show ?case by simp
qed (simp add: unlines_def)

text \<open>The identifiers of every runbook, whatever the arguments are, as long as those hold no backtick.\<close>

definition runbook_names :: "string list" where
  "runbook_names = [''get_account'', ''list_instances'', ''list_config_templates'', ''validate_config'', ''get_config_schema'',
     ''save_config'', ''create_instance'', ''set_keep'', ''get_instance'', ''start_instance'', ''get_instance_health'',
     ''get_instance_config'', ''reconfigure_instance'', ''get_instance_activity'', ''get_knowledge'', ''reset_instance'',
     ''destroy_instance'', ''stop_instance'', ''list_configs'', ''delete_config'', ''trusted_issuers'', ''trusted_verifiers'',
     ''trusted_verifier_roots'', ''android_apps'']"

lemmas scan_simps = ticked_unlines quoted_def is_lower_def is_digit_def name_char_def

lemma ticked_poll: "ticked POLL = [''get_instance_health'', ''get_instance'', ''get_instance_activity'']"
  by (simp add: POLL_def scan_simps)

lemma ticked_poll_append: "ticked (POLL @ t) = ticked POLL @ ticked t"
  by (rule ticked_append) (simp add: POLL_def closed_end_def name_char_def is_lower_def is_digit_def)

lemmas runbook_simps = scan_simps ticked_poll ticked_poll_append ticked_none ticked_plain runbook_names_def Let_def

lemma ticked_spin_up:
  assumes "\<And>k. backtick \<notin> set (arg a k)"
  shows "set (ticked (spin_up_body a)) \<subseteq> set runbook_names"
  using assms by (simp add: spin_up_body_def runbook_simps)

lemma ticked_reconfigure:
  assumes "\<And>k. backtick \<notin> set (arg a k)"
  shows "set (ticked (reconfigure_body a)) \<subseteq> set runbook_names"
  using assms by (simp add: reconfigure_body_def runbook_simps)

lemma ticked_trusted:
  assumes "\<And>k. backtick \<notin> set (arg a k)"
  shows "set (ticked (trusted_body a)) \<subseteq> set runbook_names"
  using assms by (simp add: trusted_body_def runbook_simps)

lemma ticked_android:
  assumes "\<And>k. backtick \<notin> set (arg a k)"
  shows "set (ticked (android_body a)) \<subseteq> set runbook_names"
  using assms by (simp add: android_body_def runbook_simps)

lemma ticked_diagnose:
  assumes "\<And>k. backtick \<notin> set (arg a k)"
  shows "set (ticked (diagnose_body a)) \<subseteq> set runbook_names"
  using assms by (simp add: diagnose_body_def runbook_simps)

lemma ticked_clean_up: "set (ticked (clean_up_body a)) \<subseteq> set runbook_names"
  by (simp add: clean_up_body_def runbook_simps)

lemma runbooks_name:
  assumes "p \<in> set PROMPTS" and "\<And>k. backtick \<notin> set (arg a k)"
  shows "set (ticked (pm_body p a)) \<subseteq> set runbook_names"
  using assms(1) ticked_spin_up [OF assms(2)] ticked_reconfigure [OF assms(2)] ticked_trusted [OF assms(2)]
    ticked_android [OF assms(2)] ticked_diagnose [OF assms(2)] ticked_clean_up [of a]
  by (auto simp: PROMPTS_def)

end
