(* ===== verification/Templates.thy ===== *)
theory Templates
  imports Policy
begin

text \<open>
  The starting-point configs (sirosid_core/templates.py) and the image pin that one of them
  reads (sirosid_core/resources.py). Reading and parsing values-fly.yaml is outside the
  model: its outcome is an argument.
\<close>

definition REGISTRY_URL :: string where "REGISTRY_URL = ''https://registry.siros.org''"

definition WALLET_BACKEND_FALLBACK :: string where
  "WALLET_BACKEND_FALLBACK = ''ghcr.io/sirosfoundation/go-wallet-backend:main''"

record template =
  tm_id :: string
  tm_title :: string
  tm_description :: string
  tm_config :: "json dict"
  tm_hints :: "string list"
  tm_requires :: "string list"

definition template_dict :: "template \<Rightarrow> json dict" where
  "template_dict t =
     [(''id'', JStr (tm_id t)), (''title'', JStr (tm_title t)), (''description'', JStr (tm_description t)),
      (''config'', JObj (tm_config t)), (''hints'', JList (map JStr (tm_hints t))),
      (''requires'', JList (map JStr (tm_requires t)))]"

section \<open>The image pin\<close>

text \<open>\<open>values_fly\<close> is what \<open>yaml.safe_load(read_text())\<close> gives; an \<open>OSError\<close> means no file.\<close>

definition or_else :: "json \<Rightarrow> json \<Rightarrow> json" where
  "or_else a b = (if json_truthy a then a else b)"

definition image_pin :: "exn + json \<Rightarrow> string \<Rightarrow> json \<Rightarrow> exn + json" where
  "image_pin values_fly key otherwise =
     (case values_fly of
        Inl (OtherError cls m) \<Rightarrow> if cls = ''OSError'' then Inr otherwise else Inl (OtherError cls m)
      | Inl e \<Rightarrow> Inl e
      | Inr j \<Rightarrow>
          bind_sum (get_attr (or_else j (JObj [])) ''images'') (\<lambda>images.
            map_sum id (\<lambda>v. or_else v otherwise) (get_attr (or_else images (JObj [])) key)))"

section \<open>The templates\<close>

definition template_list :: "json \<Rightarrow> template list" where
  "template_list pin = [
    \<lparr>tm_id = ''standard'', tm_title = ''Standard test stack'',
     tm_description = (''The whole SIROS ID stack at the current released versions: wallet (web), wallet backend, '' @
                       ''issuer, verifier, credential registry, trust service and a test OIDC login. Credential '' @
                       ''types come from the definitions shipped with the platform. The right place to start when '' @
                       ''you just need a working wallet, issuer and verifier.''),
     tm_config = [(''schema_version'', JInt 1)],
     tm_hints = [(''Add `android_apps` entries ('package=SHA-256 cert fingerprint', as printed by keytool) to '' @
                      ''let an Android app use passkeys against this instance.''), 
                 (''Add `trusted_issuers` / `trusted_verifiers` to make this instance's trust service accept a '' @
                      ''partner's issuer or verifier.'')],
     tm_requires = []\<rparr>,
    \<lparr>tm_id = ''siros-registry'', tm_title = ''Credential types from the SIROS registry'',
     tm_description = (''As the standard stack, but every SD-JWT credential type is resolved from registry.siros.org '' @
                       ''instead of the definitions shipped with the platform. The issuer then advertises each '' @
                       ''type's real `vct` (for example urn:eudi:pid:arf-1.8:1), which wallets that check the type '' @
                       ''against the registry require. Use it to test against the same metadata as production-like '' @
                       ''wallets.''),
     tm_config = [(''schema_version'', JInt 1), (''credential_registries'', JList [JStr REGISTRY_URL])],
     tm_hints = [(''mdoc credential types stay on the platform's own definitions; only SD-JWT types come from '' @
                      ''the registry.'')],
     tm_requires = []\<rparr>,
    \<lparr>tm_id = ''wallet-attestation'', tm_title = ''Wallet attestation'',
     tm_description = (''Turns on wallet-attestation based client authentication (a wallet instance attestation, '' @
                       ''WIA) between the wallet and the issuer. Use it to test a wallet app that proves what it is '' @
                       ''before it is issued credentials.''),
     tm_config = [(''schema_version'', JInt 1), (''wallet_attestation'', JBool True)],
     tm_hints = [(''This path is newer and less validated than the standard stack; expect to read the logs of '' @
                      ''the wallet backend and issuer when something does not line up.'')],
     tm_requires = []\<rparr>,
    \<lparr>tm_id = ''dc-api'', tm_title = ''W3C Digital Credentials API on'',
     tm_description = (''Explicitly enables the browser Digital Credentials API on the verifier, for testing '' @
                       ''presentation from a browser or a platform wallet.''),
     tm_config = [(''schema_version'', JInt 1), (''dc_api_enable'', JStr ''true'')],
     tm_hints = [''Set `dc_api_enable` to \"false\" to test the fallback without it.''],
     tm_requires = []\<rparr>,
    \<lparr>tm_id = ''interop'', tm_title = ''Interop: registry, attestation and Digital Credentials API'',
     tm_description = (''The three optional features together: credential types from registry.siros.org, wallet '' @
                       ''attestation and the Digital Credentials API. A good base for interoperability events and '' @
                       ''for checking a partner's wallet or verifier against the most demanding configuration.''),
     tm_config = [(''schema_version'', JInt 1), (''credential_registries'', JList [JStr REGISTRY_URL]), (''wallet_attestation'', JBool True), (''dc_api_enable'', JStr ''true'')],
     tm_hints = [(''Add the partner's issuer or verifier under `trusted_issuers` / `trusted_verifiers` before '' @
                      ''testing against them.'')],
     tm_requires = []\<rparr>,
    \<lparr>tm_id = ''custom-wallet-backend'', tm_title = ''Run my own wallet backend build'',
     tm_description = (''The standard stack, with the wallet backend replaced by an image you name. It starts from '' @
                       ''the version this platform currently deploys, so change the tag (or the whole reference) to '' @
                       ''your own build. Needs permission to run custom images; ask an admin if this is refused.''),
     tm_config = [(''schema_version'', JInt 1), (''images'', JObj [(''wallet-backend'', pin)])],
     tm_hints = [(''Other components can be replaced the same way: add `\"vc-apigw\": \"ghcr.io/you/image:tag\"` '' @
                      ''and so on.''), 
                 (''Use a tag or digest that exists in a public registry; the platform does not check that it '' @
                      ''boots.'')],
     tm_requires = [CAP_CUSTOM_IMAGES]\<rparr>
  ]"

definition config_templates :: "(exn + json) option \<Rightarrow> exn + template list" where
  "config_templates resources =
     map_sum id template_list
       (case resources of
          None \<Rightarrow> Inr (JStr WALLET_BACKEND_FALLBACK)
        | Some f \<Rightarrow> image_pin f ''walletBackend'' (JStr WALLET_BACKEND_FALLBACK))"

definition available_templates :: "string list \<Rightarrow> (exn + json) option \<Rightarrow> exn + json dict list" where
  "available_templates caps resources =
     map_sum id (\<lambda>ts. map template_dict (filter (\<lambda>t. set (tm_requires t) \<subseteq> set caps) ts)) (config_templates resources)"

definition get_template :: "string \<Rightarrow> string list \<Rightarrow> (exn + json) option \<Rightarrow> exn + json dict option" where
  "get_template template_id caps resources =
     map_sum id (\<lambda>ts. find (\<lambda>t. map_of t ''id'' = Some (JStr template_id)) ts) (available_templates caps resources)"

section \<open>Every template passes the policy\<close>

lemma registry_url_ok [simp]: "check_https_url (JStr REGISTRY_URL) p = None"
proof -
  have "check_https_url (JStr ''https://registry.siros.org'') p = None"
    by code_simp
  then show ?thesis by (simp add: REGISTRY_URL_def)
qed

lemma template_parts:
  "t \<in> set (template_list pin) \<Longrightarrow>
   \<exists>rest. tm_config t = (''schema_version'', JInt 1) # rest \<and>
     rest \<in> {[], [(''credential_registries'', JList [JStr REGISTRY_URL])], [(''wallet_attestation'', JBool True)],
             [(''dc_api_enable'', JStr ''true'')],
             [(''credential_registries'', JList [JStr REGISTRY_URL]), (''wallet_attestation'', JBool True), (''dc_api_enable'', JStr ''true'')],
             [(''images'', JObj [(''wallet-backend'', pin)])]} \<and>
     (rest = [(''images'', JObj [(''wallet-backend'', pin)])] \<longrightarrow> CAP_CUSTOM_IMAGES \<in> set (tm_requires t))"
  by (auto simp: template_list_def)

text \<open>A key that is absent raises no problem.\<close>

lemma absent_keys:
  "map_of d key = None \<Longrightarrow> check_list d key limit chk = []"
  "map_of d ''android_apps'' = None \<Longrightarrow> check_android d = []"
  "map_of d ''images'' = None \<Longrightarrow> check_images d caps pol = []"
  "map_of d ''values'' = None \<Longrightarrow> check_values d caps = []"
  by (simp_all add: check_list_def list_of_def check_android_def check_images_def check_values_def)

lemma head_ok:
  assumes "set (map fst d) \<subseteq> set SAVED_CONFIG_KEYS" and "map_of d ''schema_version'' = Some (JInt SCHEMA_VERSION)"
    and "map_of d ''name'' = None" and "map_of d ''channel'' = None" and "dict_has (pp_channels pol) ''default''"
  shows "check_head d pol = []"
proof -
  have "filter (\<lambda>k. k \<notin> set SAVED_CONFIG_KEYS) (map fst d) = []"
    using assms(1) by (auto simp: filter_empty_conv)
  with assms show ?thesis unfolding check_head_def by (simp del: filter_map map_eq_conv)
qed

lemma flags_ok:
  assumes "map_of d ''wallet_attestation'' \<in> {None, Some (JBool True)}" and "map_of d ''conformance'' = None"
    and "map_of d ''dc_api_enable'' \<in> {None, Some (JStr ''true'')}"
  shows "check_flags d pol = []"
  using assms by (auto simp: check_flags_def)

lemma registries_ok:
  "map_of d k = Some (JList [JStr REGISTRY_URL]) \<Longrightarrow> check_list d k MAX_LIST check_https_url = []"
  by (simp add: check_list_def list_of_def MAX_LIST_def opt_list_def)

lemma images_ok:
  assumes "map_of d ''images'' = Some (JObj [(''wallet-backend'', pin)])" and "CAP_CUSTOM_IMAGES \<in> set caps"
    and "\<And>p. check_image pin p pol = None"
  shows "check_images d caps pol = []"
proof -
  have "''wallet-backend'' \<in> set component_names" by (simp add: component_names_eq)
  with assms show ?thesis by (simp add: check_images_def opt_list_def)
qed

lemma template_validates:
  assumes "t \<in> set (template_list pin)" and "set (tm_requires t) \<subseteq> set caps" and "dict_has (pp_channels pol) ''default''"
    and "\<And>p. check_image pin p pol = None"
  shows "validate (JObj (tm_config t)) caps pol = []"
proof -
  obtain rest where t: "tm_config t = (''schema_version'', JInt 1) # rest"
    and rest: "rest \<in> {[], [(''credential_registries'', JList [JStr REGISTRY_URL])], [(''wallet_attestation'', JBool True)],
             [(''dc_api_enable'', JStr ''true'')],
             [(''credential_registries'', JList [JStr REGISTRY_URL]), (''wallet_attestation'', JBool True), (''dc_api_enable'', JStr ''true'')],
             [(''images'', JObj [(''wallet-backend'', pin)])]}"
    and cap: "rest = [(''images'', JObj [(''wallet-backend'', pin)])] \<longrightarrow> CAP_CUSTOM_IMAGES \<in> set (tm_requires t)"
    using template_parts [OF assms(1)] by (elim exE conjE)
  have cap: "CAP_CUSTOM_IMAGES \<in> set caps" if "rest = [(''images'', JObj [(''wallet-backend'', pin)])]"
    using cap that assms(2) by (simp add: subset_iff)
  let ?d = "(''schema_version'', JInt 1) # rest"
  have keys: "set (map fst ?d) \<subseteq> set SAVED_CONFIG_KEYS" using rest by (auto simp: SAVED_CONFIG_KEYS_def)
  have version: "map_of ?d ''schema_version'' = Some (JInt SCHEMA_VERSION)" by (simp add: SCHEMA_VERSION_def)
  have used: "fst ` set ?d \<subseteq> {''schema_version'', ''credential_registries'', ''wallet_attestation'', ''dc_api_enable'', ''images''}"
    using rest by auto
  have absent: "map_of ?d k = None"
    if "k \<notin> {''schema_version'', ''credential_registries'', ''wallet_attestation'', ''dc_api_enable'', ''images''}" for k
    using used that unfolding map_of_eq_None_iff by blast
  have flags: "map_of ?d ''wallet_attestation'' \<in> {None, Some (JBool True)}" "map_of ?d ''dc_api_enable'' \<in> {None, Some (JStr ''true'')}"
    using rest by auto
  have "map_of ?d ''credential_registries'' \<in> {None, Some (JList [JStr REGISTRY_URL])}"
    using rest by auto
  then have regs: "check_list ?d ''credential_registries'' MAX_LIST check_https_url = []"
    by (auto intro: absent_keys registries_ok)
  have "map_of ?d ''images'' = None \<or> rest = [(''images'', JObj [(''wallet-backend'', pin)])]"
    using rest by auto
  then have imgs: "check_images ?d caps pol = []"
    using cap assms(4) by (auto intro: absent_keys images_ok)
  have "check_head ?d pol = []" by (rule head_ok [OF keys version absent absent assms(3)]) simp_all
  moreover have "check_flags ?d pol = []" by (rule flags_ok [OF flags(1) absent flags(2)]) simp
  moreover have "check_list ?d k n chk = []" if "k \<in> {''trusted_issuers'', ''trusted_verifiers'', ''trusted_verifier_roots''}" for k n chk
    using that by (intro absent_keys(1) absent) auto
  moreover have "check_android ?d = []" by (intro absent_keys(2) absent) simp
  moreover have "check_values ?d caps = []" by (intro absent_keys(4) absent) simp
  ultimately show ?thesis using regs imgs unfolding t validate_def by simp
qed

end
