(* ===== verification/Health.thy ===== *)
theory Health
  imports Instances
begin

text \<open>
  The health probe of an instance (sirosid_core/health.py) and the operation of the control
  plane that reports it. The per-component probes of the apps layout run in a thread pool
  with a deadline: which of them finished in time, and in which order the pool hands them
  back, is the argument \<open>finished\<close>.
\<close>

definition DEFAULT_TIMEOUT :: time where "DEFAULT_TIMEOUT = 5"

record health_entry =
  he_name :: string
  he_state :: string
  he_healthy :: bool
  he_detail :: string

record health_report =
  hr_components :: "health_entry list"
  hr_error :: string

definition report_healthy :: "health_report \<Rightarrow> bool" where
  "report_healthy r = (hr_components r \<noteq> [] \<and> hr_error r = [] \<and> list_all he_healthy (hr_components r))"

definition health_error :: "string \<Rightarrow> health_report" where
  "health_error m = \<lparr>hr_components = [], hr_error = m\<rparr>"

definition mk_entry :: "string \<Rightarrow> string \<Rightarrow> bool \<Rightarrow> string \<Rightarrow> health_entry" where
  "mk_entry n st ok detail =
     \<lparr>he_name = n, he_state = (if st = [] then ''unknown'' else st), he_healthy = ok, he_detail = detail\<rparr>"

text \<open>\<open>str(e).splitlines()[0] if str(e) else type(e).__name__\<close>, cut at 200 characters.\<close>

definition is_line_end :: "char \<Rightarrow> bool" where
  "is_line_end c = ((of_char c :: nat) \<in> {10, 11, 12, 13, 28, 29, 30, 133})"

definition short_text :: "exn \<Rightarrow> string" where
  "short_text e =
     (let t = (if exn_text e \<noteq> [] then takeWhile (\<lambda>c. \<not> is_line_end c) (exn_text e) else exn_class e)
      in take 200 (''could not reach Fly: '' @ t))"

definition state_text :: "mc_machine \<Rightarrow> string" where
  "state_text m = (case mm_state m of None \<Rightarrow> [] | Some st \<Rightarrow> st)"

definition or_unknown :: "string \<Rightarrow> string" where
  "or_unknown st = (if st = [] then ''unknown'' else st)"

definition not_destroyed :: "mc_machine list \<Rightarrow> mc_machine list" where
  "not_destroyed ms = filter (\<lambda>m. mm_state m \<noteq> Some ''destroyed'') ms"

section \<open>One machine\<close>

definition wanted :: "mc_machine \<Rightarrow> (string \<times> string) list" where
  "wanted m = (case readiness (mm_config m) of Inl _ \<Rightarrow> [] | Inr w \<Rightarrow> w)"

definition container_entry :: "string \<Rightarrow> (string \<times> string) list \<Rightarrow> string option \<times> string \<Rightarrow> health_entry" where
  "container_entry st want nc =
     (case nc of (on, cstate) \<Rightarrow>
        let n = (case on of None \<Rightarrow> ''?'' | Some x \<Rightarrow> x);
            kind = (case map_of (rev want) n of None \<Rightarrow> ''healthy'' | Some k \<Rightarrow> k) in
        if st \<noteq> ''started'' then mk_entry n cstate False (''the machine is '' @ or_unknown st)
        else if kind = ''exited'' then
          let finished = cstate \<in> {''stopped'', ''exited''}
          in mk_entry n cstate finished (if finished then ''setup step: runs once at boot'' else ''setup step still running'')
        else
          let ok = (cstate = ''healthy'' \<or> (map_of (rev want) n = None \<and> cstate = ''started''))
          in mk_entry n cstate ok (if ok then [] else ''not healthy yet''))"

definition containers_report :: "mc_machine \<Rightarrow> health_report" where
  "containers_report m =
     (let st = state_text m; out = map (container_entry st (wanted m)) (mm_containers m) in
      if out = [] then health_error (''the machine is '' @ or_unknown st @ '' and reports no containers'')
      else \<lparr>hr_components = out, hr_error = []\<rparr>)"

definition single_machine_health :: "'w machines \<Rightarrow> naming \<Rightarrow> time \<Rightarrow> 'w \<Rightarrow> ('w, health_report) outcome" where
  "single_machine_health mc n timeout w =
     (case m_list_machines mc (machine_app n) (Some timeout) False w of
        (Inl (MachinesError t st), w1) \<Rightarrow>
          (if st = Some 404
           then Inr (health_error ''the instance has no app on Fly (it was never deployed, or was destroyed)'')
           else Inl (MachinesError t st), w1)
      | (Inl e, w1) \<Rightarrow> (Inl e, w1)
      | (Inr ms, w1) \<Rightarrow>
          (case not_destroyed ms of
             [] \<Rightarrow> (Inr (health_error ''the instance's app has no machine''), w1)
           | m # _ \<Rightarrow>
               (case m_get_machine mc (machine_app n) (mm_id m) (Some timeout) False w1 of
                  (Inl e, w2) \<Rightarrow> (Inl e, w2)
                | (Inr x, w2) \<Rightarrow> (Inr (containers_report x), w2))))"

section \<open>One app per component\<close>

definition machine_entry :: "string \<Rightarrow> mc_machine list \<Rightarrow> health_entry" where
  "machine_entry component ms =
     (if ms = [] then mk_entry component ''no machine'' False ''the app has no machine''
      else
        let states = sort (remdups (map state_text ms));
            checks = concat (map mm_checks ms);
            passing = filter (\<lambda>c. c = Some ''passing'') checks;
            started = (states = [''started'']);
            detail = (if \<not> started then ''machine '' @ join_with ''/'' (map or_unknown states)
                      else if checks \<noteq> []
                      then ''checks '' @ show_nat (length passing) @ ''/'' @ show_nat (length checks) @ '' passing''
                      else [])
        in mk_entry component (if length states = 1 then hd states else ''mixed'')
             (started \<and> length passing = length checks) detail)"

definition app_status ::
  "'w machines \<Rightarrow> naming \<Rightarrow> string \<Rightarrow> time \<Rightarrow> 'w \<Rightarrow> ('w, health_entry option) outcome" where
  "app_status mc n component timeout w =
     (case m_list_machines mc (app n component) (Some timeout) False w of
        (Inl (MachinesError t st), w1) \<Rightarrow> (if st = Some 404 then Inr None else Inl (MachinesError t st), w1)
      | (Inl e, w1) \<Rightarrow> (Inl e, w1)
      | (Inr ms, w1) \<Rightarrow> (Inr (Some (machine_entry component (not_destroyed ms))), w1))"

text \<open>The answers of the finished probes, and their errors, in the order the pool returns them.\<close>

fun probe_apps ::
  "'w machines \<Rightarrow> naming \<Rightarrow> time \<Rightarrow> string list \<Rightarrow> 'w \<Rightarrow> (health_entry dict \<times> string list) \<times> 'w" where
  "probe_apps mc n timeout [] w = (([], []), w)"
| "probe_apps mc n timeout (c # cs) w =
     (case app_status mc n c timeout w of (r, w1) \<Rightarrow>
        case probe_apps mc n timeout cs w1 of ((found, errs), w2) \<Rightarrow>
          (case r of
             Inl e \<Rightarrow> (found, short_text e # errs)
           | Inr None \<Rightarrow> (found, errs)
           | Inr (Some h) \<Rightarrow> ((c, h) # found, errs), w2))"

definition apps_health ::
  "'w machines \<Rightarrow> naming \<Rightarrow> time \<Rightarrow> string list \<Rightarrow> 'w \<Rightarrow> health_report \<times> 'w" where
  "apps_health mc n timeout finished w =
     (case probe_apps mc n timeout finished w of ((found, errs), w1) \<Rightarrow>
        let pending = length component_names - length finished;
            err = (if 0 < pending then ''Fly did not answer for '' @ show_nat pending @ '' component(s) in time''
                   else case errs of [] \<Rightarrow> [] | e # _ \<Rightarrow> e);
            comps = List.map_filter (map_of found) component_names
        in (\<lparr>hr_components = comps,
             hr_error = (if comps = [] \<and> err = []
                         then ''the instance has no apps on Fly (it was never deployed, or was destroyed)'' else err)\<rparr>, w1))"

definition probe_health ::
  "'w machines \<Rightarrow> naming \<Rightarrow> time \<Rightarrow> string list \<Rightarrow> 'w \<Rightarrow> health_report \<times> 'w" where
  "probe_health mc n timeout finished w =
     (if single_machine n then
        (case single_machine_health mc n timeout w of
           (Inl e, w1) \<Rightarrow> (health_error (short_text e), w1)
         | (Inr r, w1) \<Rightarrow> (r, w1))
      else apps_health mc n timeout finished w)"

section \<open>The operation\<close>

record health_view =
  hv_instance :: public_view
  hv_components :: "health_entry list"
  hv_checked_at :: time
  hv_error :: "string option"

definition instance_health ::
  "'w plane \<Rightarrow> principal \<Rightarrow> string \<Rightarrow> string list \<Rightarrow> time \<Rightarrow> 'w cp \<Rightarrow> ('w cp, health_view) outcome" where
  "instance_health cf who iid finished now s =
     (case instance_row who iid False (database s) of
        Inl e \<Rightarrow> (Inl e, s)
      | Inr r \<Rightarrow>
          let out = \<lparr>hv_instance = public r, hv_components = [], hv_checked_at = now, hv_error = None\<rparr> in
          if i_status r = Destroyed then (Inr (out\<lparr>hv_error := Some ''the instance is destroyed''\<rparr>), s)
          else (case naming_of r of
             Inl e \<Rightarrow> (Inr (out\<lparr>hv_error := Some ''could not reach Fly''\<rparr>), s)
           | Inr n \<Rightarrow>
               (case probe_health (cp_machines cf) n DEFAULT_TIMEOUT finished (world s) of (rep, w) \<Rightarrow>
                  (Inr (out\<lparr>hv_components := hr_components rep,
                            hv_error := (if hr_error rep = [] then None else Some (hr_error rep))\<rparr>),
                   s\<lparr>world := w\<rparr>))))"

section \<open>What a report says\<close>

text \<open>A component is reported healthy only while its machine runs and its own check passes.\<close>

lemma container_entry_healthy:
  assumes "he_healthy (container_entry st want (on, cstate))"
  shows "st = ''started''" and "cstate \<in> {''healthy'', ''started'', ''stopped'', ''exited''}"
    and "map_of (rev want) (case on of None \<Rightarrow> ''?'' | Some x \<Rightarrow> x) = Some ''healthy'' \<Longrightarrow> cstate = ''healthy''"
  using assms by (auto simp: container_entry_def Let_def mk_entry_def split: if_splits)

lemma machine_entry_healthy:
  assumes "he_healthy (machine_entry c ms)"
  shows "ms \<noteq> []" and "\<forall>m \<in> set ms. mm_state m = Some ''started'' \<and> (\<forall>x \<in> set (mm_checks m). x = Some ''passing'')"
proof -
  let ?states = "sort (remdups (map state_text ms))"
  let ?checks = "concat (map mm_checks ms)"
  from assms have ms: "ms \<noteq> []" and st: "?states = [''started'']"
    and len: "length (filter (\<lambda>c. c = Some ''passing'') ?checks) = length ?checks"
    by (auto simp: machine_entry_def Let_def mk_entry_def split: if_splits)
  show "ms \<noteq> []" by (rule ms)
  have "set ?states = {''started''}" by (simp only: st) simp
  then have states: "state_text ` set ms = {''started''}" by simp
  have "filter (\<lambda>c. c = Some ''passing'') ?checks = ?checks"
    using len by (metis length_filter_less nat_neq_iff filter_True)
  then have passing: "\<forall>c \<in> set ?checks. c = Some ''passing''" by (simp only: filter_id_conv)
  show "\<forall>m \<in> set ms. mm_state m = Some ''started'' \<and> (\<forall>x \<in> set (mm_checks m). x = Some ''passing'')"
  proof (intro ballI conjI)
    fix m assume m: "m \<in> set ms"
    then have "state_text m = ''started''" using states by blast
    then show "mm_state m = Some ''started''" by (auto simp: state_text_def split: option.splits)
    fix x assume "x \<in> set (mm_checks m)"
    with m passing show "x = Some ''passing''" by auto
  qed
qed

text \<open>The probe changes nothing in the control plane, and its only failure is an unknown instance.\<close>

lemma instance_health_frame:
  "instance_health cf who iid finished now s = (r, s') \<Longrightarrow> database s' = database s \<and> keys s' = keys s \<and> jobs s' = jobs s"
  by (auto simp: instance_health_def Let_def split: sum.splits if_splits prod.splits)

lemma instance_health_total:
  "is_err (fst (instance_health cf who iid finished now s)) \<longleftrightarrow> is_err (instance_row who iid False (database s))"
  by (auto simp: instance_health_def Let_def split: sum.splits if_splits prod.splits)

end
