(* ===== verification/OAuth.thy ===== *)
theory OAuth
  imports Accounts Machines
begin

text \<open>
  The OAuth authorization server for MCP clients (sirosid_service/oauth.py): dynamic
  registration, parked authorization requests, codes, bearer tokens. Codes and tokens are
  stored by their hash, in memory; a token stands for a cloned key session of the control
  plane. SHA-256, of which the PKCE challenge is made, and \<open>str\<close> of a JSON value that is no
  string are in the configuration.
\<close>

definition SCOPE :: string where "SCOPE = ''sirosid''"
definition PENDING_TTL :: time where "PENDING_TTL = 600"
definition CODE_TTL :: time where "CODE_TTL = 60"
definition TOKEN_TTL :: time where "TOKEN_TTL = 8 * 3600"
definition MAX_CLIENTS :: int where "MAX_CLIENTS = 500"
definition MAX_REDIRECTS :: nat where "MAX_REDIRECTS = 5"
definition MAX_PENDING :: nat where "MAX_PENDING = 2000"
definition MAX_TOKENS_PER_USER :: nat where "MAX_TOKENS_PER_USER = 25"

record oauth_config =
  oc_issuer :: string
  oc_sha256 :: "string \<Rightarrow> nat list"
  oc_py_str :: "json \<Rightarrow> string"

definition make_issuer :: "string \<Rightarrow> string" where
  "make_issuer i = rstrip_by (\<lambda>c. c = CHR ''/'') i"

definition oc_resource :: "oauth_config \<Rightarrow> string" where
  "oc_resource o' = oc_issuer o' @ ''/mcp''"

section \<open>Redirect URIs and PKCE\<close>

definition is_loopback_host :: "string \<Rightarrow> bool" where
  "is_loopback_host h = (case ip_address h of None \<Rightarrow> False | Some ip \<Rightarrow> is_loopback ip)"

definition valid_redirect_uri :: "string \<Rightarrow> bool" where
  "valid_redirect_uri uri =
     (case urlsplit uri of
        None \<Rightarrow> False
      | Some u \<Rightarrow>
          if url_port u = None then False
          else if u_fragment u \<noteq> [] \<or> truthy_str (fst (userinfo u)) \<or> truthy_str (snd (userinfo u)) \<or> hostname u = [] \<or>
                  512 < length uri then False
          else if u_scheme u = ''https'' then True
          else if u_scheme u = ''http'' then hostname u = ''localhost'' \<or> is_loopback_host (hostname u)
          else False)"

text \<open>A \<open>ValueError\<close> of \<open>urlsplit\<close> ends the comparison as an exception.\<close>

definition same_redirect :: "string \<Rightarrow> string \<Rightarrow> exn + bool" where
  "same_redirect registered given =
     (if registered = given then Inr True
      else case (urlsplit registered, urlsplit given) of
        (Some a, Some b) \<Rightarrow>
          Inr (u_scheme a = ''http'' \<and> (hostname a = ''localhost'' \<or> is_loopback_host (hostname a)) \<and>
               u_scheme b = u_scheme a \<and> hostname b = hostname a \<and> u_path b = u_path a \<and> u_query b = u_query a)
      | _ \<Rightarrow> Inl (ValueError ''Invalid URL''))"

fun any_redirect :: "string list \<Rightarrow> string \<Rightarrow> exn + bool" where
  "any_redirect [] given = Inr False"
| "any_redirect (r # rs) given =
     (case same_redirect r given of
        Inl e \<Rightarrow> Inl e | Inr True \<Rightarrow> Inr True | Inr False \<Rightarrow> any_redirect rs given)"

definition pkce_challenge :: "oauth_config \<Rightarrow> string \<Rightarrow> string" where
  "pkce_challenge oc verifier = rstrip_by (\<lambda>c. c = CHR ''='') (b64_encode (oc_sha256 oc verifier))"

section \<open>Query strings\<close>

text \<open>
  \<open>parse_qsl\<close> and \<open>urlencode\<close>. A decoded value is the list of its UTF-8 bytes, which is what
  \<open>quote_plus\<close> encodes again (for valid UTF-8; Python replaces other bytes).
\<close>

fun percent_decode :: "string \<Rightarrow> nat list" where
  "percent_decode [] = []"
| "percent_decode (c # s) =
     (if c = CHR ''+'' then 32 # percent_decode s
      else if c = CHR ''%'' then
        (case s of
           a # b # s' \<Rightarrow>
             (case (hex_digit_val a, hex_digit_val b) of
                (Some x, Some y) \<Rightarrow> (16 * x + y) # percent_decode s'
              | _ \<Rightarrow> 37 # percent_decode s)
         | _ \<Rightarrow> 37 # percent_decode s)
      else utf8_bytes c @ percent_decode s)"

definition quote_byte :: "nat \<Rightarrow> string" where
  "quote_byte n =
     (let c = char_of n in
      if n = 32 then ''+''
      else if n < 128 \<and> (is_digit c \<or> is_lower c \<or> is_upper c \<or> c \<in> set ''_.-~'') then [c]
      else [CHR ''%'', upper_hex (n div 16), upper_hex (n mod 16)])"

definition quote_plus :: "nat list \<Rightarrow> string" where
  "quote_plus bs = concat (map quote_byte bs)"

definition text_bytes :: "string \<Rightarrow> nat list" where
  "text_bytes s = concat (map utf8_bytes s)"

definition parse_qsl :: "string \<Rightarrow> (nat list \<times> nat list) list" where
  "parse_qsl q =
     (if q = [] then []
      else map (\<lambda>f. case partition_at CHR ''='' f of (k, _, v) \<Rightarrow> (percent_decode k, percent_decode v))
             (filter (\<lambda>f. f \<noteq> []) (split_on CHR ''&'' q)))"

definition urlencode :: "(nat list \<times> nat list) list \<Rightarrow> string" where
  "urlencode kvs = join_with ''&'' (map (\<lambda>(k, v). quote_plus k @ ''='' @ quote_plus v) kvs)"

text \<open>\<open>urlunsplit\<close> without a fragment.\<close>

definition urlunsplit :: "string \<Rightarrow> string \<Rightarrow> string \<Rightarrow> string \<Rightarrow> string" where
  "urlunsplit scheme netloc path query =
     (let p = (if netloc \<noteq> [] then
                 ''//'' @ netloc @ (if path \<noteq> [] \<and> \<not> starts_with ''/'' path then CHR ''/'' # path else path)
               else path);
          q = (if scheme \<noteq> [] then scheme @ '':'' @ p else p)
      in if query \<noteq> [] then q @ ''?'' @ query else q)"

section \<open>State\<close>

record pending =
  pd_client :: string
  pd_redirect :: string
  pd_state :: string
  pd_challenge :: string
  pd_resource :: string
  pd_expires :: time

record code =
  cd_client :: string
  cd_redirect :: string
  cd_challenge :: string
  cd_resource :: string
  cd_user :: string
  cd_session :: string
  cd_expires :: time

record bearer =
  tk_client :: string
  tk_user :: string
  tk_session :: string
  tk_created :: time
  tk_expires :: time
  tk_code :: string

record oauth =
  oa_pending :: "pending dict"
  oa_codes :: "code dict"
  oa_used :: "string dict"
  oa_tokens :: "bearer dict"

record 'w web =
  web_cp :: "'w cp"
  web_oauth :: oauth

definition on_cp :: "('w cp \<Rightarrow> ('w cp, 'a) outcome) \<Rightarrow> 'w web \<Rightarrow> ('w web, 'a) outcome" where
  "on_cp f s = (case f (web_cp s) of (r, c) \<Rightarrow> (r, s\<lparr>web_cp := c\<rparr>))"

definition log_oauth :: "time \<Rightarrow> string \<Rightarrow> string \<Rightarrow> string \<Rightarrow> 'w web \<Rightarrow> 'w web" where
  "log_oauth now actor action target s =
     s\<lparr>web_cp := (web_cp s)\<lparr>database := audit now actor action target [] (database (web_cp s))\<rparr>\<rparr>"

section \<open>Registration\<close>

definition redirect_uris_ok :: "json option \<Rightarrow> bool" where
  "redirect_uris_ok j =
     (case j of
        Some (JList us) \<Rightarrow> 1 \<le> length us \<and> length us \<le> MAX_REDIRECTS \<and>
          list_all (\<lambda>u. case u of JStr s \<Rightarrow> valid_redirect_uri s | _ \<Rightarrow> False) us
      | _ \<Rightarrow> False)"

definition client_name :: "oauth_config \<Rightarrow> json option \<Rightarrow> string" where
  "client_name oc j =
     (let shown = (case j of
             None \<Rightarrow> []
           | Some (JStr s) \<Rightarrow> s
           | Some v \<Rightarrow> if json_truthy v then oc_py_str oc v else []);
          n = take 80 (join_with '' '' (py_words shown))
      in if n = [] then ''an application'' else n)"

definition register_client ::
  "oauth_config \<Rightarrow> json dict \<Rightarrow> time \<Rightarrow> draws \<Rightarrow> db \<Rightarrow> (db, client_row) outcome" where
  "register_client oc meta now r d =
     (let uris = map_of meta ''redirect_uris'' in
      if \<not> redirect_uris_ok uris
      then (Inl (OAuthError ''invalid_redirect_uri'' ''redirect_uris must be 1-5 https URLs or http loopback URLs'' 400), d)
      else if (case map_of meta ''token_endpoint_auth_method'' of None \<Rightarrow> False | Some m \<Rightarrow> m \<noteq> JStr ''none'')
      then (Inl (OAuthError ''invalid_client_metadata''
                  ''only public clients (token_endpoint_auth_method none) are supported'' 400), d)
      else if (case map_of meta ''grant_types'' of
                 None \<Rightarrow> False
               | Some (JList gs) \<Rightarrow> \<not> list_all (\<lambda>g. g = JStr ''authorization_code'') gs
               | Some _ \<Rightarrow> True)
      then (Inl (OAuthError ''invalid_client_metadata'' ''only the authorization_code grant is supported'' 400), d)
      else if MAX_CLIENTS \<le> int (length (oauth_clients d))
      then (Inl (OAuthError ''temporarily_unavailable'' ''too many registered applications'' 503), d)
      else
        let row = \<lparr>oc_id = ''c_'' @ d_token r, oc_name = client_name oc (map_of meta ''client_name''),
                   oc_redirect_uris = (case uris of Some (JList us) \<Rightarrow> map json_str us | _ \<Rightarrow> []), oc_created_at = now\<rparr> in
        case insert_row oc_id row (oauth_clients d) of
          Inl e \<Rightarrow> (Inl e, d)
        | Inr cs \<Rightarrow> (Inr row, d\<lparr>oauth_clients := cs\<rparr>))"

definition find_client :: "string \<Rightarrow> db \<Rightarrow> exn + client_row" where
  "find_client client_id d =
     (case find_row oc_id client_id (oauth_clients d) of
        None \<Rightarrow> Inl (OAuthError ''invalid_client'' ''unknown client'' 401)
      | Some r \<Rightarrow> Inr r)"

section \<open>Revocation and expiry\<close>

text \<open>\<open>_revoke_hash\<close>: the handle on the key dies with the token.\<close>

definition revoke_hash :: "string \<Rightarrow> 'w web \<Rightarrow> 'w web" where
  "revoke_hash h s =
     (case map_of (oa_tokens (web_oauth s)) h of
        None \<Rightarrow> s
      | Some t \<Rightarrow>
          s\<lparr>web_oauth := (web_oauth s)\<lparr>oa_tokens := AList.delete h (oa_tokens (web_oauth s))\<rparr>,
            web_cp := drop_session (tk_session t) (web_cp s)\<rparr>)"

definition purge :: "time \<Rightarrow> 'w web \<Rightarrow> 'w web" where
  "purge now s =
     (let s1 = s\<lparr>web_oauth := (web_oauth s)
                  \<lparr>oa_pending := filter (\<lambda>(k, p). \<not> pd_expires p \<le> now) (oa_pending (web_oauth s)),
                   oa_codes := filter (\<lambda>(k, c). \<not> cd_expires c \<le> now) (oa_codes (web_oauth s))\<rparr>\<rparr>
      in fold revoke_hash (map fst (filter (\<lambda>(h, t). tk_expires t \<le> now) (oa_tokens (web_oauth s1)))) s1)"

section \<open>The authorization request\<close>

definition param :: "string dict \<Rightarrow> string \<Rightarrow> string" where
  "param d k = get_default d k []"

definition authorization_problem :: "oauth_config \<Rightarrow> string dict \<Rightarrow> db \<Rightarrow> exn + client_row" where
  "authorization_problem oc ps d =
     (case find_client (param ps ''client_id'') d of
        Inl e \<Rightarrow> Inl e
      | Inr c \<Rightarrow>
          (case any_redirect (oc_redirect_uris c) (param ps ''redirect_uri'') of
             Inl e \<Rightarrow> Inl e
           | Inr False \<Rightarrow> Inl (OAuthError ''invalid_request'' ''redirect_uri is not registered for this client'' 400)
           | Inr True \<Rightarrow>
               if map_of ps ''response_type'' \<noteq> Some ''code''
               then Inl (OAuthError ''unsupported_response_type'' ''only response_type=code'' 400)
               else if map_of ps ''code_challenge_method'' \<noteq> Some ''S256'' \<or>
                       \<not> (43 \<le> length (param ps ''code_challenge'') \<and> length (param ps ''code_challenge'') \<le> 128)
               then Inl (OAuthError ''invalid_request'' ''PKCE with code_challenge_method=S256 is required'' 400)
               else if param ps ''resource'' \<noteq> [] \<and> param ps ''resource'' \<noteq> oc_resource oc
               then Inl (OAuthError ''invalid_target'' (''this server's resource is '' @ oc_resource oc) 400)
               else if list_ex (\<lambda>w. w \<noteq> SCOPE) (py_words (param ps ''scope''))
               then Inl (OAuthError ''invalid_scope'' (''the only scope is '' @ SCOPE) 400)
               else Inr c))"

definition begin_authorization ::
  "oauth_config \<Rightarrow> string dict \<Rightarrow> time \<Rightarrow> draws \<Rightarrow> 'w web \<Rightarrow> ('w web, string) outcome" where
  "begin_authorization oc ps now r s =
     (case authorization_problem oc ps (database (web_cp s)) of
        Inl e \<Rightarrow> (Inl e, s)
      | Inr c \<Rightarrow>
          let s1 = purge now s; o1 = web_oauth s1 in
          if MAX_PENDING \<le> length (oa_pending o1)
          then (Inl (OAuthError ''temporarily_unavailable'' ''too many pending requests'' 503), s1)
          else
            let p = \<lparr>pd_client = oc_id c, pd_redirect = param ps ''redirect_uri'', pd_state = take 512 (param ps ''state''),
                     pd_challenge = param ps ''code_challenge'', pd_resource = param ps ''resource'',
                     pd_expires = now + PENDING_TTL\<rparr>
            in (Inr (d_token r), s1\<lparr>web_oauth := o1\<lparr>oa_pending := AList.update (d_token r) p (oa_pending o1)\<rparr>\<rparr>))"

definition get_pending :: "string \<Rightarrow> time \<Rightarrow> oauth \<Rightarrow> (oauth, pending) outcome" where
  "get_pending pid now o' =
     (let gone = (Inl (NotFound ''this authorization request expired; start again from the application''),
                  o'\<lparr>oa_pending := AList.delete pid (oa_pending o')\<rparr>) in
      case map_of (oa_pending o') pid of
        None \<Rightarrow> gone
      | Some p \<Rightarrow> if pd_expires p \<le> now then gone else (Inr p, o'))"

definition on_oauth :: "(oauth \<Rightarrow> (oauth, 'a) outcome) \<Rightarrow> 'w web \<Rightarrow> ('w web, 'a) outcome" where
  "on_oauth f s = (case f (web_oauth s) of (r, o') \<Rightarrow> (r, s\<lparr>web_oauth := o'\<rparr>))"

text \<open>\<open>int(t)\<close> of a non-negative number of seconds.\<close>

definition whole_seconds :: "time \<Rightarrow> int" where
  "whole_seconds t = (if 0 \<le> t then \<lfloor>t\<rfloor> else \<lceil>t\<rceil>)"

record pending_view =
  pw_client_name :: string
  pw_redirect_host :: string
  pw_redirect_uri :: string
  pw_expires_in :: int

definition describe_pending :: "string \<Rightarrow> time \<Rightarrow> 'w web \<Rightarrow> ('w web, pending_view) outcome" where
  "describe_pending pid now s =
     (case on_oauth (get_pending pid now) s of
        (Inl e, s1) \<Rightarrow> (Inl e, s1)
      | (Inr p, s1) \<Rightarrow>
          (case find_client (pd_client p) (database (web_cp s1)) of
             Inl e \<Rightarrow> Inl e
           | Inr c \<Rightarrow>
               (case urlsplit (pd_redirect p) of
                  None \<Rightarrow> Inl (ValueError ''Invalid URL'')
                | Some u \<Rightarrow> Inr \<lparr>pw_client_name = oc_name c, pw_redirect_host = u_netloc u, pw_redirect_uri = pd_redirect p,
                                pw_expires_in = whole_seconds (pd_expires p - now)\<rparr>), s1))"

definition redirect_to :: "oauth_config \<Rightarrow> pending \<Rightarrow> string dict \<Rightarrow> exn + string" where
  "redirect_to oc p q =
     (case urlsplit (pd_redirect p) of
        None \<Rightarrow> Inl (ValueError ''Invalid URL'')
      | Some u \<Rightarrow>
          let q' = q @ (if pd_state p \<noteq> [] then [(''state'', pd_state p)] else []) @ [(''iss'', oc_issuer oc)]
          in Inr (urlunsplit (u_scheme u) (u_netloc u) (u_path u)
                   (urlencode (parse_qsl (u_query u) @ map (\<lambda>(k, v). (text_bytes k, text_bytes v)) q'))))"

definition approve ::
  "'w plane \<Rightarrow> oauth_config \<Rightarrow> principal \<Rightarrow> string \<Rightarrow> time \<Rightarrow> string \<Rightarrow> draws \<Rightarrow> 'w web \<Rightarrow> ('w web, string) outcome" where
  "approve cf oc who pid now fresh_code r s =
     (case on_oauth (get_pending pid now) s of
        (Inl e, s1) \<Rightarrow> (Inl e, s1)
      | (Inr p, s1) \<Rightarrow>
          (case on_cp (share_session who TOKEN_TTL now r) s1 of
             (Inl e, s2) \<Rightarrow> (Inl e, s2)
           | (Inr sid, s2) \<Rightarrow>
               let o2 = web_oauth s2;
                   c = \<lparr>cd_client = pd_client p, cd_redirect = pd_redirect p, cd_challenge = pd_challenge p,
                        cd_resource = pd_resource p, cd_user = who_user who, cd_session = sid, cd_expires = now + CODE_TTL\<rparr>;
                   o3 = o2\<lparr>oa_pending := AList.delete pid (oa_pending o2),
                           oa_codes := AList.update (cp_hash cf fresh_code) c (oa_codes o2)\<rparr>
               in (redirect_to oc p [(''code'', fresh_code)],
                   log_oauth now (who_user who) ''oauth_approve'' (pd_client p) (s2\<lparr>web_oauth := o3\<rparr>))))"

definition deny :: "oauth_config \<Rightarrow> principal \<Rightarrow> string \<Rightarrow> time \<Rightarrow> 'w web \<Rightarrow> ('w web, string) outcome" where
  "deny oc who pid now s =
     (case on_oauth (get_pending pid now) s of
        (Inl e, s1) \<Rightarrow> (Inl e, s1)
      | (Inr p, s1) \<Rightarrow>
          (redirect_to oc p [(''error'', ''access_denied'')],
           log_oauth now (who_user who) ''oauth_deny'' (pd_client p)
             (s1\<lparr>web_oauth := (web_oauth s1)\<lparr>oa_pending := AList.delete pid (oa_pending (web_oauth s1))\<rparr>\<rparr>)))"

section \<open>The token endpoint\<close>

definition grant_error :: "string \<Rightarrow> exn" where
  "grant_error m = OAuthError ''invalid_grant'' m 400"

text \<open>Popping the code: a replay also takes the token of the first use.\<close>

definition take_code :: "string \<Rightarrow> oauth \<Rightarrow> (oauth, code) outcome" where
  "take_code chash o' =
     (case map_of (oa_used o') chash of
        Some th \<Rightarrow>
          (Inl (grant_error ''this code was already used''),
           o'\<lparr>oa_used := AList.delete chash (oa_used o'), oa_tokens := AList.delete th (oa_tokens o')\<rparr>)
      | None \<Rightarrow>
          (case map_of (oa_codes o') chash of
             None \<Rightarrow> (Inl (grant_error ''the code is invalid or expired''), o')
           | Some c \<Rightarrow> (Inr c, o'\<lparr>oa_codes := AList.delete chash (oa_codes o')\<rparr>)))"

text \<open>\<open>hmac.compare_digest\<close> of two texts: both must be ASCII.\<close>

definition compare_digest :: "string \<Rightarrow> string \<Rightarrow> exn + bool" where
  "compare_digest a b =
     (if is_ascii a \<and> is_ascii b then Inr (a = b)
      else Inl (TypeError ''comparing strings with non-ASCII characters is not supported''))"

definition check_code :: "oauth_config \<Rightarrow> string dict \<Rightarrow> time \<Rightarrow> code \<Rightarrow> exn + unit" where
  "check_code oc form now c =
     (let verifier = param form ''code_verifier''; resource = param form ''resource'' in
      if cd_expires c \<le> now then Inl (grant_error ''the code is invalid or expired'')
      else bind_sum (compare_digest (param form ''client_id'') (cd_client c)) (\<lambda>same_client.
        if \<not> same_client then Inl (grant_error ''the code was issued to another client'')
        else if param form ''redirect_uri'' \<noteq> cd_redirect c
        then Inl (grant_error ''redirect_uri does not match the authorization request'')
        else if \<not> (43 \<le> length verifier \<and> length verifier \<le> 128) then Inl (grant_error ''PKCE verification failed'')
        else bind_sum (compare_digest (pkce_challenge oc verifier) (cd_challenge c)) (\<lambda>same.
          if \<not> same then Inl (grant_error ''PKCE verification failed'')
          else if resource \<noteq> [] \<and> resource \<noteq> oc_resource oc
          then Inl (OAuthError ''invalid_target'' (''this server's resource is '' @ oc_resource oc) 400)
          else Inr ())))"

definition tokens_of :: "string \<Rightarrow> oauth \<Rightarrow> (string \<times> bearer) list" where
  "tokens_of uid o' = filter (\<lambda>(h, t). tk_user t = uid) (oa_tokens o')"

definition cap_tokens :: "string \<Rightarrow> 'w web \<Rightarrow> 'w web" where
  "cap_tokens uid s =
     (let mine = sort (map (\<lambda>(h, t). (tk_created t, h)) (tokens_of uid (web_oauth s)))
      in fold revoke_hash (map snd (take (length mine + 1 - MAX_TOKENS_PER_USER) mine)) s)"

text \<open>Beyond 5000 remembered codes only the newest 2500 are kept.\<close>

definition remember_code :: "string \<Rightarrow> string \<Rightarrow> oauth \<Rightarrow> oauth" where
  "remember_code chash th o' =
     (let used = AList.update chash th (oa_used o')
      in o'\<lparr>oa_used := (if 5000 < length used then drop (length used - 2500) used else used)\<rparr>)"

record token_reply =
  tr_access_token :: string
  tr_expires_in :: int

definition token_op ::
  "'w plane \<Rightarrow> oauth_config \<Rightarrow> string dict \<Rightarrow> time \<Rightarrow> string \<Rightarrow> 'w web \<Rightarrow> ('w web, token_reply) outcome" where
  "token_op cf oc form now fresh s =
     (if map_of form ''grant_type'' \<noteq> Some ''authorization_code''
      then (Inl (OAuthError ''unsupported_grant_type'' ''only authorization_code'' 400), s)
      else
        let chash = cp_hash cf (param form ''code'') in
        case on_oauth (take_code chash) s of
          (Inl e, s1) \<Rightarrow> (Inl e, s1)
        | (Inr c, s1) \<Rightarrow>
            (case check_code oc form now c of
               Inl e \<Rightarrow> (Inl e, s1)
             | Inr _ \<Rightarrow>
                 (case on_cp (session_expiry (cd_session c) (cd_user c) now) s1 of
                    (Inl (Locked m), s2) \<Rightarrow> (Inl (grant_error ''the user's session ended before the code was redeemed''), s2)
                  | (Inl e, s2) \<Rightarrow> (Inl e, s2)
                  | (Inr until, s2) \<Rightarrow>
                      let expires = min until (now + TOKEN_TTL);
                          s3 = cap_tokens (cd_user c) s2;
                          th = cp_hash cf fresh;
                          t = \<lparr>tk_client = cd_client c, tk_user = cd_user c, tk_session = cd_session c, tk_created = now,
                               tk_expires = expires, tk_code = chash\<rparr>;
                          o4 = remember_code chash th
                                 ((web_oauth s3)\<lparr>oa_tokens := AList.update th t (oa_tokens (web_oauth s3))\<rparr>)
                      in (Inr \<lparr>tr_access_token = fresh, tr_expires_in = whole_seconds (expires - now)\<rparr>,
                          s3\<lparr>web_oauth := o4\<rparr>))))"

section \<open>Bearer tokens\<close>

definition token_error :: "string \<Rightarrow> exn" where
  "token_error m = OAuthError ''invalid_token'' m 401"

fun is_service_error :: "exn \<Rightarrow> bool" where
  "is_service_error (NotFound _) = True"
| "is_service_error (Forbidden _) = True"
| "is_service_error (NotSignedIn _) = True"
| "is_service_error (QuotaExceeded _) = True"
| "is_service_error (InvalidState _) = True"
| "is_service_error (InvalidInvite _) = True"
| "is_service_error (AuthError _) = True"
| "is_service_error (ServiceError _) = True"
| "is_service_error _ = False"

text \<open>An expired token skips the look at its session (\<open>or\<close> is lazy).\<close>

definition principal_for_token :: "'w plane \<Rightarrow> string \<Rightarrow> time \<Rightarrow> 'w web \<Rightarrow> ('w web, principal) outcome" where
  "principal_for_token cf tok now s =
     (let h = cp_hash cf tok in
      case map_of (oa_tokens (web_oauth s)) h of
        None \<Rightarrow> (Inl (token_error ''unknown or revoked token''), s)
      | Some t \<Rightarrow>
          (case (if tk_expires t \<le> now then (False, web_cp s) else session_alive (tk_session t) (tk_user t) now (web_cp s)) of
             (alive, c) \<Rightarrow>
               let s1 = s\<lparr>web_cp := c\<rparr> in
               if \<not> alive then (Inl (token_error ''the token expired''), revoke_hash h s1)
               else (case principal_for (tk_user t) (tk_session t) (database c) of
                  Inl e \<Rightarrow> (Inl (if is_service_error e then token_error ''the account is not available'' else e), s1)
                | Inr who \<Rightarrow> (Inr who, s1))))"

record grant_view =
  gv_id :: string
  gv_client_name :: string
  gv_created_at :: time
  gv_expires_at :: time

definition grants :: "principal \<Rightarrow> time \<Rightarrow> 'w web \<Rightarrow> grant_view list \<times> 'w web" where
  "grants who now s =
     (let s1 = purge now s in
      (sort_key (\<lambda>g. - gv_created_at g)
         (map (\<lambda>(h, t). \<lparr>gv_id = take 16 h,
                         gv_client_name = (case find_client (tk_client t) (database (web_cp s1)) of
                             Inl _ \<Rightarrow> ''unknown application'' | Inr c \<Rightarrow> oc_name c),
                         gv_created_at = tk_created t, gv_expires_at = tk_expires t\<rparr>)
            (tokens_of (who_user who) (web_oauth s1))), s1))"

definition revoke :: "principal \<Rightarrow> string \<Rightarrow> time \<Rightarrow> 'w web \<Rightarrow> ('w web, unit) outcome" where
  "revoke who grant_id now s =
     (let wanted = (if grant_id = [] then ''x'' else grant_id) in
      case filter (starts_with wanted) (map fst (tokens_of (who_user who) (web_oauth s))) of
        [h] \<Rightarrow> (Inr (), log_oauth now (who_user who) ''oauth_revoke'' grant_id (revoke_hash h s))
      | _ \<Rightarrow> (Inl (NotFound ''no such connected application''), s))"

definition revoke_user :: "string \<Rightarrow> 'w web \<Rightarrow> 'w web" where
  "revoke_user uid s = fold revoke_hash (map fst (tokens_of uid (web_oauth s))) s"

section \<open>A code works once\<close>

definition codes_ok :: "oauth \<Rightarrow> bool" where
  "codes_ok o' \<longleftrightarrow> (\<forall>h. map_of (oa_used o') h \<noteq> None \<longrightarrow> map_of (oa_codes o') h = None)"

definition code_armed :: "string \<Rightarrow> oauth \<Rightarrow> bool" where
  "code_armed h o' \<longleftrightarrow> map_of (oa_codes o') h \<noteq> None \<and> map_of (oa_used o') h = None"

lemma take_code_Inr:
  "take_code h o' = (Inr c, o'') \<longleftrightarrow>
   map_of (oa_used o') h = None \<and> map_of (oa_codes o') h = Some c \<and> o'' = o'\<lparr>oa_codes := AList.delete h (oa_codes o')\<rparr>"
  by (auto simp: take_code_def split: option.splits)

lemma take_code_ok: "codes_ok o' \<Longrightarrow> take_code h o' = (r, o'') \<Longrightarrow> codes_ok o'' \<and> \<not> code_armed h o''"
  by (auto simp: take_code_def codes_ok_def code_armed_def delete_conv' split: option.splits if_splits)

interpretation codes: one_shot "take_code h" "code_armed h" codes_ok for h
  by unfold_locales (auto simp: take_code_Inr code_armed_def dest: take_code_ok)

section \<open>Issuing a token\<close>

lemma compare_digest_True: "compare_digest a b = Inr x \<Longrightarrow> x \<longleftrightarrow> a = b"
  by (auto simp: compare_digest_def split: if_splits)

lemma check_code_Inr:
  assumes "check_code oc form now c = Inr u"
  shows "now < cd_expires c" "param form ''client_id'' = cd_client c" "param form ''redirect_uri'' = cd_redirect c"
    "pkce_challenge oc (param form ''code_verifier'') = cd_challenge c"
    "43 \<le> length (param form ''code_verifier'')" "length (param form ''code_verifier'') \<le> 128"
    "param form ''resource'' \<in> {[], oc_resource oc}"
  using assms by (auto simp: check_code_def Let_def split: if_splits dest!: compare_digest_True)

lemma keys_expires_at_Inr:
  "keys_expires_at sid u now ks = (Inr t, ks') \<Longrightarrow> ks' = ks \<and> key_live ks sid u now \<and> now < t"
  by (auto simp: keys_expires_at_def keys_get_Inr_iff key_live_def split: prod.splits sum.splits option.splits)

lemma session_expiry_Inr:
  "on_cp (session_expiry sid u now) s = (Inr t, s') \<Longrightarrow> s' = s \<and> key_live (keys (web_cp s)) sid u now \<and> now < t"
  by (auto simp: on_cp_def session_expiry_def on_keys_def split: prod.splits dest!: keys_expires_at_Inr)

lemma token_Inr:
  assumes "token_op cf oc form now fresh s = (Inr rep, s')"
  obtains c t s3 where "map_of (oa_codes (web_oauth s)) (cp_hash cf (param form ''code'')) = Some c"
    and "map_of (oa_used (web_oauth s)) (cp_hash cf (param form ''code'')) = None"
    and "check_code oc form now c = Inr ()"
    and "key_live (keys (web_cp s)) (cd_session c) (cd_user c) now"
    and "s3 = cap_tokens (cd_user c) (s\<lparr>web_oauth := (web_oauth s)
                      \<lparr>oa_codes := AList.delete (cp_hash cf (param form ''code'')) (oa_codes (web_oauth s))\<rparr>\<rparr>)"
    and "tk_client t = cd_client c" "tk_user t = cd_user c" "tk_session t = cd_session c"
    and "now < tk_expires t" "tk_expires t \<le> now + TOKEN_TTL"
    and "s' = s3\<lparr>web_oauth := remember_code (cp_hash cf (param form ''code'')) (cp_hash cf fresh)
                     ((web_oauth s3)\<lparr>oa_tokens := AList.update (cp_hash cf fresh) t (oa_tokens (web_oauth s3))\<rparr>)\<rparr>"
proof -
  let ?h = "cp_hash cf (param form ''code'')"
  obtain c s1 where t: "on_oauth (take_code ?h) s = (Inr c, s1)" and ck: "check_code oc form now c = Inr ()"
    using assms by (auto simp: token_op_def Let_def split: if_splits prod.splits sum.splits exn.splits)
  then have c: "map_of (oa_used (web_oauth s)) ?h = None" "map_of (oa_codes (web_oauth s)) ?h = Some c"
    and s1: "s1 = s\<lparr>web_oauth := (web_oauth s)\<lparr>oa_codes := AList.delete ?h (oa_codes (web_oauth s))\<rparr>\<rparr>"
    by (auto simp: on_oauth_def take_code_Inr split: prod.splits)
  obtain until s2 where u: "on_cp (session_expiry (cd_session c) (cd_user c) now) s1 = (Inr until, s2)"
    using assms t ck by (auto simp: token_op_def Let_def split: if_splits prod.splits sum.splits exn.splits)
  from session_expiry_Inr [OF u] have live: "s2 = s1" "key_live (keys (web_cp s)) (cd_session c) (cd_user c) now" "now < until"
    by (auto simp: s1)
  let ?s3 = "cap_tokens (cd_user c) s1"
  let ?t = "\<lparr>tk_client = cd_client c, tk_user = cd_user c, tk_session = cd_session c, tk_created = now,
             tk_expires = min until (now + TOKEN_TTL), tk_code = ?h\<rparr>"
  have s': "s' = ?s3\<lparr>web_oauth := remember_code ?h (cp_hash cf fresh)
      ((web_oauth ?s3)\<lparr>oa_tokens := AList.update (cp_hash cf fresh) ?t (oa_tokens (web_oauth ?s3))\<rparr>)\<rparr>"
    using assms t ck u live(1) by (auto simp: token_op_def Let_def split: if_splits)
  have "now < min until (now + TOKEN_TTL)" using live(3) by (simp add: TOKEN_TTL_def)
  with s' show ?thesis
    using that [of c ?s3 ?t, OF c(2) c(1) ck live(2)] by (simp add: s1)
qed

section \<open>Revocation\<close>

lemma revoke_hash_tokens:
  "oa_tokens (web_oauth (revoke_hash h s)) = filter (\<lambda>(k, t). k \<noteq> h) (oa_tokens (web_oauth s))"
proof (cases "map_of (oa_tokens (web_oauth s)) h")
  case None
  then have "\<forall>(k, t) \<in> set (oa_tokens (web_oauth s)). k \<noteq> h"
    by (force simp: map_of_eq_None_iff)
  then have "filter (\<lambda>(k, t). k \<noteq> h) (oa_tokens (web_oauth s)) = oa_tokens (web_oauth s)"
    by (simp add: filter_id_conv)
  with None show ?thesis by (simp add: revoke_hash_def)
next
  case (Some t)
  then show ?thesis
    by (simp add: revoke_hash_def AList.delete_eq) (rule filter_cong, auto)
qed

lemma fold_revoke_tokens:
  "oa_tokens (web_oauth (fold revoke_hash hs s)) = filter (\<lambda>(k, t). k \<notin> set hs) (oa_tokens (web_oauth s))"
  by (induction hs arbitrary: s) (auto simp: revoke_hash_tokens intro!: filter_cong)

text \<open>A revoked token no longer works, and neither does the key session behind it.\<close>

lemma revoke_hash_dead:
  assumes "map_of (oa_tokens (web_oauth s)) h = Some t"
  shows "map_of (oa_tokens (web_oauth (revoke_hash h s))) h = None"
    and "\<not> key_live (keys (web_cp (revoke_hash h s))) (tk_session t) u now"
  using assms by (simp_all add: revoke_hash_def delete_conv' drop_session_def keys_drop_dead)

section \<open>The cap\<close>

lemma length_without_keys:
  assumes d: "distinct (map fst xs)" and ks: "distinct ks" "set ks \<subseteq> set (map fst xs)"
  shows "length (filter (\<lambda>(k, t). k \<notin> set ks) xs) = length xs - length ks"
proof -
  let ?f = "filter (\<lambda>(k, t). k \<notin> set ks) xs"
  have "set (map fst ?f) = set (map fst xs) - set ks" by force
  moreover have "distinct (map fst ?f)" using d by (rule distinct_map_filter)
  ultimately have "length (map fst ?f) = card (set (map fst xs) - set ks)" by (metis distinct_card)
  also have "\<dots> = card (set (map fst xs)) - card (set ks)" using ks(2) by (rule card_Diff_subset [OF finite_set])
  also have "\<dots> = length (map fst xs) - length ks" by (simp only: distinct_card [OF d] distinct_card [OF ks(1)])
  finally show ?thesis by (simp only: length_map)
qed

lemma tokens_capped:
  assumes "distinct (map fst (oa_tokens (web_oauth s)))"
  shows "length (tokens_of uid (web_oauth (cap_tokens uid s))) < MAX_TOKENS_PER_USER"
proof -
  let ?ts = "tokens_of uid (web_oauth s)"
  let ?pairs = "map (\<lambda>(h, t). (tk_created t, h)) ?ts"
  let ?mine = "sort ?pairs"
  let ?n = "length ?mine + 1 - MAX_TOKENS_PER_USER"
  let ?old = "map snd (take ?n ?mine)"
  have fsts: "map snd ?pairs = map fst ?ts" by (simp add: comp_def split_def)
  have dist: "distinct (map fst ?ts)" using assms by (simp add: tokens_of_def distinct_map_filter)
  then have "distinct (map snd ?pairs)" by (simp only: fsts)
  then have dm: "distinct (map snd ?mine)"
    unfolding distinct_map [of snd] distinct_sort set_sort .
  have "set ?old \<subseteq> set (map snd ?mine)" unfolding set_map by (rule image_mono) (rule set_take_subset)
  also have "set (map snd ?mine) = set (map snd ?pairs)" unfolding set_map set_sort ..
  also have "\<dots> = set (map fst ?ts)" by (simp only: fsts)
  finally have sub: "set ?old \<subseteq> set (map fst ?ts)" .
  have "tokens_of uid (web_oauth (cap_tokens uid s)) = filter (\<lambda>(k, t). k \<notin> set ?old) ?ts"
    unfolding cap_tokens_def Let_def fold_revoke_tokens tokens_of_def
    by (auto intro!: filter_cong)
  then have "length (tokens_of uid (web_oauth (cap_tokens uid s))) = length (filter (\<lambda>(k, t). k \<notin> set ?old) ?ts)"
    by (rule arg_cong)
  also have "\<dots> = length ?ts - length ?old"
    using dist sub by (intro length_without_keys) (simp_all only: take_map [symmetric] dm distinct_take)
  also have "length ?old = min (length ?ts) ?n" by (simp only: length_map length_take length_sort)
  finally show ?thesis by (simp add: MAX_TOKENS_PER_USER_def)
qed

end
