(* ===== verification/Auth.thy ===== *)
theory Auth
  imports Accounts Android Machines
begin

text \<open>
  Passkey authentication (sirosid_service/auth.py): enrolment, login, more passkeys, web
  sessions and unlocking. The \<open>webauthn\<close> library is a record of parameters: its option
  builders return the options as JSON, its verifiers return what the code reads of their
  result. The hash is a parameter too.
\<close>

definition CHALLENGE_TTL :: time where "CHALLENGE_TTL = 300"
definition WEB_SESSION_TTL :: time where "WEB_SESSION_TTL = 12 * 3600"
definition MAX_PASSKEYS :: nat where "MAX_PASSKEYS = 10"

record verified =
  vf_credential_id :: bytes
  vf_public_key :: bytes
  vf_sign_count :: int

text \<open>
  Options: relying party, user handle, user name, display name, excluded credentials and
  challenge. Verifiers: credential, challenge, relying party id, origins, and for a login
  the stored key and sign count; user verification is required in both.
\<close>

record webauthn =
  wa_registration_options :: "string \<Rightarrow> string \<Rightarrow> bytes \<Rightarrow> string \<Rightarrow> string \<Rightarrow> bytes list \<Rightarrow> bytes \<Rightarrow> exn + json dict"
  wa_authentication_options :: "string \<Rightarrow> bytes \<Rightarrow> exn + json dict"
  wa_verify_registration :: "json \<Rightarrow> bytes \<Rightarrow> string \<Rightarrow> string list \<Rightarrow> exn + verified"
  wa_verify_authentication :: "json \<Rightarrow> bytes \<Rightarrow> string \<Rightarrow> string list \<Rightarrow> bytes \<Rightarrow> int \<Rightarrow> exn + int"

record auth_config =
  ac_rp_id :: string
  ac_rp_name :: string
  ac_origins :: "string list"
  ac_challenge_ttl :: time
  ac_web_session_ttl :: time
  ac_webauthn :: webauthn
  ac_sha256 :: "bytes \<Rightarrow> bytes"
  ac_sqlite_real :: "rat \<Rightarrow> string"

definition prf_salt :: "auth_config \<Rightarrow> bytes" where
  "prf_salt ac = ac_sha256 ac (''sirosid-prf-v1|'' @ ac_rp_id ac)"

definition bytes_to_base64url :: "bytes \<Rightarrow> string" where
  "bytes_to_base64url b = rstrip_by (\<lambda>c. c = CHR ''='') (b64_encode (map of_char b))"

definition base64url_to_bytes :: "string \<Rightarrow> exn + bytes" where
  "base64url_to_bytes s =
     (if \<not> is_ascii s then Inl (ValueError ''string argument should contain only ASCII characters'')
      else case b64_decode (s @ ''==='') of
        None \<Rightarrow> Inl (ValueError ''Incorrect padding'')
      | Some raw \<Rightarrow> Inr (map char_of raw))"

fun decode_ids :: "string list \<Rightarrow> exn + bytes list" where
  "decode_ids [] = Inr []"
| "decode_ids (s # ss) = bind_sum (base64url_to_bytes s) (\<lambda>b. map_sum id ((#) b) (decode_ids ss))"

section \<open>State\<close>

record ceremony =
  ce_kind :: string
  ce_challenge :: bytes
  ce_expires :: time
  ce_data :: "string dict"

record 'w auth =
  as_cp :: "'w cp"
  as_ceremonies :: "ceremony dict"
  as_unlocked :: "string dict"

abbreviation as_db :: "'w auth \<Rightarrow> db" where
  "as_db s \<equiv> database (as_cp s)"

definition with_cp :: "('w cp \<Rightarrow> ('w cp, 'a) outcome) \<Rightarrow> 'w auth \<Rightarrow> ('w auth, 'a) outcome" where
  "with_cp f s = (case f (as_cp s) of (r, c) \<Rightarrow> (r, s\<lparr>as_cp := c\<rparr>))"

definition with_db :: "(db \<Rightarrow> (db, 'a) outcome) \<Rightarrow> 'w auth \<Rightarrow> ('w auth, 'a) outcome" where
  "with_db f = with_cp (on_db f)"

definition log_auth :: "time \<Rightarrow> string \<Rightarrow> string \<Rightarrow> string \<Rightarrow> 'w auth \<Rightarrow> 'w auth" where
  "log_auth now actor action target s =
     s\<lparr>as_cp := (as_cp s)\<lparr>database := audit now actor action target [] (as_db s)\<rparr>\<rparr>"

section \<open>Ceremonies\<close>

definition open_ceremony ::
  "auth_config \<Rightarrow> string \<Rightarrow> bytes \<Rightarrow> string dict \<Rightarrow> time \<Rightarrow> string \<Rightarrow> ceremony dict \<Rightarrow> (ceremony dict, string) outcome" where
  "open_ceremony ac kind challenge kvs now cid cs =
     (let live = filter (\<lambda>(k, c). \<not> ce_expires c \<le> now) cs in
      if 5000 < length live then (Inl (AuthError ''too many ceremonies in flight; try again shortly''), live)
      else (Inr cid, AList.update cid
              \<lparr>ce_kind = kind, ce_challenge = challenge, ce_expires = now + ac_challenge_ttl ac, ce_data = kvs\<rparr> live))"

definition spent_ceremony :: exn where
  "spent_ceremony = AuthError ''this sign-in attempt expired or was already used; start again''"

definition take_ceremony :: "string \<Rightarrow> string \<Rightarrow> time \<Rightarrow> ceremony dict \<Rightarrow> (ceremony dict, ceremony) outcome" where
  "take_ceremony cid kind now cs =
     (case map_of cs cid of
        None \<Rightarrow> (Inl spent_ceremony, cs)
      | Some c \<Rightarrow>
          (if ce_kind c \<noteq> kind \<or> ce_expires c \<le> now then Inl spent_ceremony else Inr c, AList.delete cid cs))"

definition with_ceremonies ::
  "(ceremony dict \<Rightarrow> (ceremony dict, 'a) outcome) \<Rightarrow> 'w auth \<Rightarrow> ('w auth, 'a) outcome" where
  "with_ceremonies f s = (case f (as_ceremonies s) of (r, cs) \<Rightarrow> (r, s\<lparr>as_ceremonies := cs\<rparr>))"

definition ceremony_value :: "string \<Rightarrow> ceremony \<Rightarrow> exn + string" where
  "ceremony_value k c = (case map_of (ce_data c) k of None \<Rightarrow> Inl (KeyError (py_repr k)) | Some v \<Rightarrow> Inr v)"

text \<open>\<open>d.setdefault("extensions", {})["prf"] = ..\<close>\<close>

definition options :: "auth_config \<Rightarrow> json dict \<Rightarrow> exn + json dict" where
  "options ac d =
     (let prf = JObj [(''eval'', JObj [(''first'', JStr (bytes_to_base64url (prf_salt ac)))])] in
      case map_of d ''extensions'' of
        None \<Rightarrow> Inr (AList.update ''extensions'' (JObj [(''prf'', prf)]) d)
      | Some (JObj e) \<Rightarrow> Inr (AList.update ''extensions'' (JObj (AList.update ''prf'' prf e)) d)
      | Some _ \<Rightarrow> Inl (TypeError ''object does not support item assignment''))"

text \<open>Opening a ceremony and answering with its options.\<close>

definition start_ceremony ::
  "auth_config \<Rightarrow> string \<Rightarrow> exn + json dict \<Rightarrow> bytes \<Rightarrow> string dict \<Rightarrow> time \<Rightarrow> string \<Rightarrow> 'w auth
   \<Rightarrow> ('w auth, string \<times> json dict) outcome" where
  "start_ceremony ac kind opts challenge kvs now cid s =
     (case opts of
        Inl e \<Rightarrow> (Inl e, s)
      | Inr d \<Rightarrow>
          (case with_ceremonies (open_ceremony ac kind challenge kvs now cid) s of
             (Inl e, s1) \<Rightarrow> (Inl e, s1)
           | (Inr c, s1) \<Rightarrow> (map_sum id (\<lambda>o'. (c, o')) (options ac d), s1)))"

section \<open>Web sessions\<close>

definition create_web_session :: "'w plane \<Rightarrow> auth_config \<Rightarrow> string \<Rightarrow> time \<Rightarrow> string \<Rightarrow> db \<Rightarrow> (db, string) outcome" where
  "create_web_session cf ac user_id now token d =
     (let kept = delete_where (\<lambda>w. ws_expires_at w < now) (web_sessions d);
          d1 = d\<lparr>web_sessions := kept\<rparr>
      in case insert_row ws_token_hash
                \<lparr>ws_token_hash = cp_hash cf token, ws_user = user_id, ws_created_at = now,
                 ws_expires_at = now + ac_web_session_ttl ac\<rparr> kept of
           Inl e \<Rightarrow> (Inl e, d1)
         | Inr ws \<Rightarrow> (Inr token, d1\<lparr>web_sessions := ws\<rparr>))"

definition not_signed_in :: exn where
  "not_signed_in = NotSignedIn ''not signed in''"

definition principal_from_token :: "'w plane \<Rightarrow> string option \<Rightarrow> time \<Rightarrow> 'w auth \<Rightarrow> exn + principal" where
  "principal_from_token cf token now s =
     (case token of
        None \<Rightarrow> Inl not_signed_in
      | Some t \<Rightarrow>
          if t = [] then Inl not_signed_in
          else
            let h = cp_hash cf t in
            case find_row ws_token_hash h (web_sessions (as_db s)) of
              None \<Rightarrow> Inl not_signed_in
            | Some w \<Rightarrow>
                if ws_expires_at w \<le> now then Inl not_signed_in
                else
                  let sid = (case map_of (as_unlocked s) h of None \<Rightarrow> [] | Some i \<Rightarrow> i) in
                  case principal_for (ws_user w) sid (as_db s) of
                    Inl (NotFound _) \<Rightarrow> Inl not_signed_in
                  | Inl e \<Rightarrow> Inl e
                  | Inr who \<Rightarrow> Inr who)"

definition unlock ::
  "'w plane \<Rightarrow> string option \<Rightarrow> bytes \<Rightarrow> time option \<Rightarrow> time \<Rightarrow> draws \<Rightarrow> 'w auth \<Rightarrow> ('w auth, principal) outcome" where
  "unlock cf token main_key ttl now r s =
     (case principal_from_token cf token now s of
        Inl e \<Rightarrow> (Inl e, s)
      | Inr who \<Rightarrow>
          (case with_cp (begin_session cf (who_user who) main_key ttl now r) s of
             (Inl e, s1) \<Rightarrow> (Inl e, s1)
           | (Inr unlocked, s1) \<Rightarrow>
               (Inr unlocked, s1\<lparr>as_unlocked := AList.update (cp_hash cf (the token)) (who_session unlocked) (as_unlocked s1)\<rparr>)))"

definition logout :: "'w plane \<Rightarrow> string option \<Rightarrow> 'w auth \<Rightarrow> 'w auth" where
  "logout cf token s =
     (case token of
        None \<Rightarrow> s
      | Some t \<Rightarrow>
          if t = [] then s
          else
            let h = cp_hash cf t;
                sid = (case map_of (as_unlocked s) h of None \<Rightarrow> [] | Some i \<Rightarrow> i);
                c = (if sid \<noteq> [] then drop_session sid (as_cp s) else as_cp s);
                d = database c
            in s\<lparr>as_cp := c\<lparr>database := d\<lparr>web_sessions := delete_where (\<lambda>w. ws_token_hash w = h) (web_sessions d)\<rparr>\<rparr>,
                 as_unlocked := AList.delete h (as_unlocked s)\<rparr>)"

section \<open>Registering a passkey\<close>

definition unverified :: exn where
  "unverified = AuthError ''the passkey could not be verified''"

text \<open>The exceptions a verifier's failure is caught as.\<close>

fun refused_by_verifier :: "exn \<Rightarrow> bool" where
  "refused_by_verifier (ValueError _) = True"
| "refused_by_verifier (KeyError _) = True"
| "refused_by_verifier (TypeError _) = True"
| "refused_by_verifier (OtherError cls _) = (cls \<in> {''InvalidRegistrationResponse'', ''InvalidAuthenticationResponse''})"
| "refused_by_verifier _ = False"

definition verify_registration :: "auth_config \<Rightarrow> json \<Rightarrow> bytes \<Rightarrow> exn + verified" where
  "verify_registration ac credential challenge =
     (case wa_verify_registration (ac_webauthn ac) credential challenge (ac_rp_id ac) (ac_origins ac) of
        Inl e \<Rightarrow> Inl (if refused_by_verifier e then unverified else e)
      | Inr v \<Rightarrow> Inr v)"

text \<open>\<open>(credential.get("response") or {}).get("transports") or []\<close>, as a list.\<close>

definition transports :: "json \<Rightarrow> exn + json list" where
  "transports credential =
     bind_sum (get_attr credential ''response'') (\<lambda>resp.
       bind_sum (get_attr (if json_truthy resp then resp else JObj []) ''transports'') as_list)"

definition store_credential :: "string \<Rightarrow> verified \<Rightarrow> json \<Rightarrow> string \<Rightarrow> time \<Rightarrow> db \<Rightarrow> (db, unit) outcome" where
  "store_credential user_id v credential lbl now d =
     (let cid = bytes_to_base64url (vf_credential_id v) in
      if find_row k_id cid (credentials d) \<noteq> None then (Inl (AuthError ''this passkey is already registered''), d)
      else case transports credential of
        Inl e \<Rightarrow> (Inl e, d)
      | Inr ts \<Rightarrow>
          (case insert_row k_id
                  \<lparr>k_id = cid, k_user = user_id, k_public_key = vf_public_key v, k_sign_count = vf_sign_count v,
                   k_transports = ts, k_label = take 60 lbl, k_created_at = now, k_last_used = None\<rparr> (credentials d) of
             Inl e \<Rightarrow> (Inl e, d)
           | Inr ks \<Rightarrow> (Inr (), d\<lparr>credentials := ks\<rparr>)))"

section \<open>Enrolment\<close>

definition begin_enrollment ::
  "'w plane \<Rightarrow> auth_config \<Rightarrow> string \<Rightarrow> string \<Rightarrow> string \<Rightarrow> time \<Rightarrow> draws \<Rightarrow> 'w auth \<Rightarrow> ('w auth, string \<times> json dict) outcome" where
  "begin_enrollment cf ac invite name email now r s =
     (case check_invite cf invite email now (as_db s) of
        Inl e \<Rightarrow> (Inl e, s)
      | Inr _ \<Rightarrow>
          let stripped = take 80 (py_strip name);
              shown = (if stripped = [] then ''user'' else stripped);
              challenge = d_nonce r 0;
              handle = d_nonce r 1;
              opts = wa_registration_options (ac_webauthn ac) (ac_rp_id ac) (ac_rp_name ac) handle
                       (if email = [] then shown else email) shown [] challenge
          in start_ceremony ac ''enroll'' opts challenge
               [(''invite'', invite), (''name'', shown), (''email'', email), (''handle'', handle)] now (d_token r) s)"

text \<open>The invite is spent before the passkey is stored and the web session begins.\<close>

definition enroll_user ::
  "'w plane \<Rightarrow> auth_config \<Rightarrow> ceremony \<Rightarrow> verified \<Rightarrow> json \<Rightarrow> time \<Rightarrow> draws \<Rightarrow> db \<Rightarrow> (db, principal \<times> string) outcome" where
  "enroll_user cf ac c v credential now r =
     and_then (\<lambda>d. (bind_sum (ceremony_value ''invite'' c) (\<lambda>i.
                      bind_sum (ceremony_value ''email'' c) (\<lambda>m.
                        bind_sum (ceremony_value ''name'' c) (\<lambda>n.
                          map_sum id (\<lambda>_. (i, n, m)) (check_invite cf i m now d)))), d))
       (\<lambda>(i, n, m). and_then (redeem_invite cf i n m now r)
         (\<lambda>u. and_then (store_credential (who_user u) v credential ''first passkey'' now)
           (\<lambda>_. and_then (\<lambda>d. (Inr (), audit now (who_user u) ''enroll'' (who_user u) [] d))
             (\<lambda>_ d. case create_web_session cf ac (who_user u) now (d_token r) d of
                      (Inl e, d') \<Rightarrow> (Inl e, d') | (Inr tok, d') \<Rightarrow> (Inr (u, tok), d')))))"

definition finish_enrollment ::
  "'w plane \<Rightarrow> auth_config \<Rightarrow> string \<Rightarrow> json \<Rightarrow> time \<Rightarrow> draws \<Rightarrow> 'w auth \<Rightarrow> ('w auth, principal \<times> string) outcome" where
  "finish_enrollment cf ac ceremony_id credential now r s =
     (case with_ceremonies (take_ceremony ceremony_id ''enroll'' now) s of
        (Inl e, s1) \<Rightarrow> (Inl e, s1)
      | (Inr c, s1) \<Rightarrow>
          (case verify_registration ac credential (ce_challenge c) of
             Inl e \<Rightarrow> (Inl e, s1)
           | Inr v \<Rightarrow> with_db (enroll_user cf ac c v credential now r) s1))"

section \<open>Login\<close>

definition begin_login :: "auth_config \<Rightarrow> time \<Rightarrow> draws \<Rightarrow> 'w auth \<Rightarrow> ('w auth, string \<times> json dict) outcome" where
  "begin_login ac now r s =
     (let challenge = d_nonce r 0 in
      start_ceremony ac ''login'' (wa_authentication_options (ac_webauthn ac) (ac_rp_id ac) challenge)
        challenge [] now (d_token r) s)"

text \<open>
  \<open>credential["id"]\<close>: a missing key and a value that is not subscriptable by a string are
  caught. The value is compared with the \<open>TEXT\<close> column \<open>id\<close>, to which SQLite first converts
  a bound number; a list or an object cannot be bound.
\<close>

definition id_of_credential :: "json \<Rightarrow> exn + json" where
  "id_of_credential j =
     (case j of
        JObj kvs \<Rightarrow> (case map_of kvs ''id'' of None \<Rightarrow> Inl unverified | Some v \<Rightarrow> Inr v)
      | _ \<Rightarrow> Inl unverified)"

definition sql_text :: "auth_config \<Rightarrow> json \<Rightarrow> exn + string option" where
  "sql_text ac j =
     (case j of
        JNull \<Rightarrow> Inr None
      | JStr t \<Rightarrow> Inr (Some t)
      | JBool b \<Rightarrow> Inr (Some (if b then ''1'' else ''0''))
      | JInt i \<Rightarrow> Inr (Some (show_int i))
      | JFloat q \<Rightarrow> Inr (Some (ac_sqlite_real ac q))
      | _ \<Rightarrow> Inl (OtherError ''ProgrammingError'' ''type is not supported''))"

definition find_credential :: "auth_config \<Rightarrow> json \<Rightarrow> db \<Rightarrow> exn + credential_row" where
  "find_credential ac cid d =
     bind_sum (sql_text ac cid) (\<lambda>t.
       case t of
         None \<Rightarrow> Inl unverified
       | Some i \<Rightarrow> (case find_row k_id i (credentials d) of None \<Rightarrow> Inl unverified | Some k \<Rightarrow> Inr k))"

definition verify_login :: "auth_config \<Rightarrow> json \<Rightarrow> bytes \<Rightarrow> credential_row \<Rightarrow> exn + int" where
  "verify_login ac credential challenge k =
     wa_verify_authentication (ac_webauthn ac) credential challenge (ac_rp_id ac) (ac_origins ac)
       (k_public_key k) (k_sign_count k)"

text \<open>\<open>cid[:12]\<close> in the handler raises \<open>TypeError\<close> for a number.\<close>

definition login_refused :: "json \<Rightarrow> credential_row \<Rightarrow> time \<Rightarrow> exn \<Rightarrow> db \<Rightarrow> (db, 'a) outcome" where
  "login_refused cid k now e d =
     (if refused_by_verifier e then
        (case cid of
           JStr t \<Rightarrow> (Inl unverified, audit now (k_user k) ''login_refused'' (take 12 t) [] d)
         | _ \<Rightarrow> (Inl (TypeError ''object is not subscriptable''), d))
      else (Inl e, d))"

definition login_user ::
  "'w plane \<Rightarrow> auth_config \<Rightarrow> credential_row \<Rightarrow> int \<Rightarrow> time \<Rightarrow> draws \<Rightarrow> db \<Rightarrow> (db, principal \<times> string) outcome" where
  "login_user cf ac k new_count now r d =
     (case user (k_user k) d of
        Inl e \<Rightarrow> (Inl e, d)
      | Inr u \<Rightarrow>
          if u_disabled u then (Inl account_disabled, d)
          else
            let d1 = d\<lparr>credentials := update_where (\<lambda>x. k_id x = k_id k)
                          (\<lambda>x. x\<lparr>k_sign_count := new_count, k_last_used := Some now\<rparr>) (credentials d)\<rparr>;
                d2 = audit now (u_id u) ''login'' (u_id u) [] d1
            in case principal_for (u_id u) [] d2 of
                 Inl e \<Rightarrow> (Inl e, d2)
               | Inr who \<Rightarrow>
                   (case create_web_session cf ac (u_id u) now (d_token r) d2 of
                      (Inl e, d3) \<Rightarrow> (Inl e, d3) | (Inr tok, d3) \<Rightarrow> (Inr (who, tok), d3)))"

definition finish_login ::
  "'w plane \<Rightarrow> auth_config \<Rightarrow> string \<Rightarrow> json \<Rightarrow> time \<Rightarrow> draws \<Rightarrow> 'w auth \<Rightarrow> ('w auth, principal \<times> string) outcome" where
  "finish_login cf ac ceremony_id credential now r s =
     (case with_ceremonies (take_ceremony ceremony_id ''login'' now) s of
        (Inl e, s1) \<Rightarrow> (Inl e, s1)
      | (Inr c, s1) \<Rightarrow>
          (case id_of_credential credential of
             Inl e \<Rightarrow> (Inl e, s1)
           | Inr cid \<Rightarrow>
               (case find_credential ac cid (as_db s1) of
                  Inl e \<Rightarrow> (Inl e, s1)
                | Inr k \<Rightarrow>
                    (case verify_login ac credential (ce_challenge c) k of
                       Inl e \<Rightarrow> with_db (login_refused cid k now e) s1
                     | Inr n \<Rightarrow> with_db (login_user cf ac k n now r) s1))))"

section \<open>More passkeys\<close>

definition passkeys_of :: "string \<Rightarrow> db \<Rightarrow> credential_row list" where
  "passkeys_of user_id d = filter (\<lambda>k. k_user k = user_id) (credentials d)"

definition begin_add_passkey ::
  "auth_config \<Rightarrow> principal \<Rightarrow> time \<Rightarrow> draws \<Rightarrow> 'w auth \<Rightarrow> ('w auth, string \<times> json dict) outcome" where
  "begin_add_passkey ac who now r s =
     (case user (who_user who) (as_db s) of
        Inl e \<Rightarrow> (Inl e, s)
      | Inr u \<Rightarrow>
          let existing = map k_id (passkeys_of (who_user who) (as_db s)) in
          if MAX_PASSKEYS \<le> length existing then (Inl (AuthError (''at most '' @ show_nat MAX_PASSKEYS @ '' passkeys'')), s)
          else
            let challenge = d_nonce r 0;
                opts = bind_sum (decode_ids existing) (\<lambda>ids.
                         wa_registration_options (ac_webauthn ac) (ac_rp_id ac) (ac_rp_name ac)
                           (map char_of (concat (map utf8_bytes (who_user who))))
                           (if u_email u = [] then u_name u else u_email u) (u_name u) ids challenge)
            in start_ceremony ac ''add'' opts challenge [(''user'', who_user who)] now (d_token r) s)"

definition finish_add_passkey ::
  "auth_config \<Rightarrow> principal \<Rightarrow> string \<Rightarrow> json \<Rightarrow> string \<Rightarrow> time \<Rightarrow> 'w auth \<Rightarrow> ('w auth, string) outcome" where
  "finish_add_passkey ac who ceremony_id credential lbl now s =
     (case with_ceremonies (take_ceremony ceremony_id ''add'' now) s of
        (Inl e, s1) \<Rightarrow> (Inl e, s1)
      | (Inr c, s1) \<Rightarrow>
          (case ceremony_value ''user'' c of
             Inl e \<Rightarrow> (Inl e, s1)
           | Inr u \<Rightarrow>
               if u \<noteq> who_user who then (Inl (AuthError ''this sign-in attempt belongs to someone else''), s1)
               else (case verify_registration ac credential (ce_challenge c) of
                  Inl e \<Rightarrow> (Inl e, s1)
                | Inr v \<Rightarrow>
                    (case with_db (store_credential (who_user who) v credential
                                     (if lbl = [] then ''passkey'' else lbl) now) s1 of
                       (Inl e, s2) \<Rightarrow> (Inl e, s2)
                     | (Inr _, s2) \<Rightarrow>
                         (Inr (bytes_to_base64url (vf_credential_id v)),
                          log_auth now (who_user who) ''add_passkey'' (who_user who) s2)))))"

record passkey_view =
  pv_id :: string
  pv_label :: string
  pv_created_at :: time
  pv_last_used :: "time option"

definition list_passkeys :: "principal \<Rightarrow> db \<Rightarrow> passkey_view list" where
  "list_passkeys who d =
     map (\<lambda>k. \<lparr>pv_id = k_id k, pv_label = k_label k, pv_created_at = k_created_at k, pv_last_used = k_last_used k\<rparr>)
       (sort_key k_created_at (passkeys_of (who_user who) d))"

definition remove_passkey :: "principal \<Rightarrow> string \<Rightarrow> time \<Rightarrow> db \<Rightarrow> (db, unit) outcome" where
  "remove_passkey who credential_id now d =
     (let ids = map k_id (passkeys_of (who_user who) d) in
      if credential_id \<notin> set ids then (Inl (NotFound ''no such passkey''), d)
      else if length ids = 1 then (Inl (AuthError ''you cannot remove your only passkey''), d)
      else (Inr (), audit now (who_user who) ''remove_passkey'' (take 12 credential_id) []
              (d\<lparr>credentials := delete_where (\<lambda>k. k_id k = credential_id) (credentials d)\<rparr>)))"

section \<open>A ceremony works once\<close>

lemma take_ceremony_Inr:
  "take_ceremony cid kind now cs = (Inr c, cs') \<longleftrightarrow>
   map_of cs cid = Some c \<and> ce_kind c = kind \<and> now < ce_expires c \<and> cs' = AList.delete cid cs"
  by (auto simp: take_ceremony_def split: option.splits if_splits)

lemma take_ceremony_gone: "take_ceremony cid kind now cs = (r, cs') \<Longrightarrow> map_of cs' cid = None"
  by (auto simp: take_ceremony_def delete_conv' split: option.splits)

interpretation ceremonies: one_shot "take_ceremony cid kind now" "\<lambda>cs. map_of cs cid \<noteq> None" "\<lambda>_. True" for cid kind now
  by unfold_locales (auto simp: take_ceremony_Inr dest: take_ceremony_gone)

lemma with_ceremonies_Inr:
  "with_ceremonies f s = (Inr a, s1) \<longleftrightarrow> (\<exists>cs. f (as_ceremonies s) = (Inr a, cs) \<and> s1 = s\<lparr>as_ceremonies := cs\<rparr>)"
  by (auto simp: with_ceremonies_def split: prod.splits)

lemma with_db_Inr:
  "with_db f s = (r, s1) \<longleftrightarrow> (\<exists>d. f (as_db s) = (r, d) \<and> s1 = s\<lparr>as_cp := (as_cp s)\<lparr>database := d\<rparr>\<rparr>)"
  by (auto simp: with_db_def with_cp_def on_db_def split: prod.splits)

section \<open>Web sessions\<close>

lemma create_web_session_Inr:
  assumes "create_web_session cf ac uid now tok d = (Inr t, d')"
  shows "t = tok" and "users d' = users d" and "credentials d' = credentials d"
    and "find_row ws_token_hash (cp_hash cf tok) (web_sessions d') =
         Some \<lparr>ws_token_hash = cp_hash cf tok, ws_user = uid, ws_created_at = now, ws_expires_at = now + ac_web_session_ttl ac\<rparr>"
  using assms by (auto simp: create_web_session_def Let_def insert_row_def row_simps split: sum.splits if_splits)

lemma principal_from_token_Inr:
  assumes "principal_from_token cf token now s = Inr who"
  obtains t w u where "token = Some t" "t \<noteq> []"
    and "find_row ws_token_hash (cp_hash cf t) (web_sessions (as_db s)) = Some w" "now < ws_expires_at w" "ws_user w = who_user who"
    and "find_row u_id (who_user who) (users (as_db s)) = Some u" "\<not> u_disabled u" "who_role who = u_role u"
    and "who_session who = (case map_of (as_unlocked s) (cp_hash cf t) of None \<Rightarrow> [] | Some i \<Rightarrow> i)"
  using assms
  by (auto simp: principal_from_token_def Let_def not_signed_in_def split: option.splits if_splits sum.splits exn.splits
      dest!: principal_for_Inr)

lemma principal_from_token_new:
  assumes "create_web_session cf ac uid now tok d = (Inr t, d')" and "principal_for uid [] d = Inr who"
    and "tok \<noteq> []" and "now' < now + ac_web_session_ttl ac" and "map_of (as_unlocked s) (cp_hash cf tok) = None"
    and "as_db s = d'"
  shows "principal_from_token cf (Some tok) now' s = Inr who"
  using assms create_web_session_Inr [OF assms(1)]
  by (simp add: principal_from_token_def Let_def principal_for_def user_def)

lemma logout_signed_out: "principal_from_token cf tok now (logout cf tok s) = Inl not_signed_in"
proof (cases "tok = None \<or> tok = Some []")
  case False
  then obtain t where "tok = Some t" "t \<noteq> []" by auto
  then show ?thesis by (simp add: principal_from_token_def logout_def Let_def find_row_deleted)
qed (auto simp: principal_from_token_def)

lemma logout_locks:
  assumes "map_of (as_unlocked s) (cp_hash cf t) = Some sid" and "sid \<noteq> []" and "t \<noteq> []"
  shows "\<not> key_live (keys (as_cp (logout cf (Some t) s))) sid u now"
  using assms by (simp add: logout_def Let_def drop_session_def keys_drop_dead)

section \<open>Logins\<close>

lemma finish_login_Inr:
  assumes "finish_login cf ac cid credential now r s = (Inr (who, tok), s')"
  obtains c j k n u where "map_of (as_ceremonies s) cid = Some c" "ce_kind c = ''login''" "now < ce_expires c"
    and "id_of_credential credential = Inr j" "find_credential ac j (as_db s) = Inr k" "k \<in> set (credentials (as_db s))"
    and "verify_login ac credential (ce_challenge c) k = Inr n"
    and "find_row u_id (k_user k) (users (as_db s)) = Some u" "\<not> u_disabled u" "who_user who = k_user k" "who_session who = []"
    and "as_ceremonies s' = AList.delete cid (as_ceremonies s)" "as_unlocked s' = as_unlocked s"
    and "keys (as_cp s') = keys (as_cp s)" "tok = d_token r"
    and "find_row ws_token_hash (cp_hash cf tok) (web_sessions (as_db s')) =
         Some \<lparr>ws_token_hash = cp_hash cf tok, ws_user = k_user k, ws_created_at = now, ws_expires_at = now + ac_web_session_ttl ac\<rparr>"
    and "credentials (as_db s') = update_where (\<lambda>x. k_id x = k_id k)
           (\<lambda>x. x\<lparr>k_sign_count := n, k_last_used := Some now\<rparr>) (credentials (as_db s))"
proof -
  obtain c s1 j k n where c: "with_ceremonies (take_ceremony cid ''login'' now) s = (Inr c, s1)"
    and j: "id_of_credential credential = Inr j" and k: "find_credential ac j (as_db s1) = Inr k"
    and n: "verify_login ac credential (ce_challenge c) k = Inr n"
    and l: "with_db (login_user cf ac k n now r) s1 = (Inr (who, tok), s')"
    using assms by (auto simp: finish_login_def with_db_Inr login_refused_def split: prod.splits sum.splits if_splits json.splits)
  from c have cs: "map_of (as_ceremonies s) cid = Some c" "ce_kind c = ''login''" "now < ce_expires c"
    and s1: "s1 = s\<lparr>as_ceremonies := AList.delete cid (as_ceremonies s)\<rparr>"
    by (auto simp: with_ceremonies_Inr take_ceremony_Inr)
  have kin: "k \<in> set (credentials (as_db s))"
    using k by (auto simp: s1 find_credential_def dest: find_row_SomeD split: option.splits)
  from l obtain d where d: "login_user cf ac k n now r (as_db s) = (Inr (who, tok), d)"
    and s': "s' = s1\<lparr>as_cp := (as_cp s1)\<lparr>database := d\<rparr>\<rparr>" by (auto simp: with_db_Inr s1)
  from d obtain u d2 where u: "find_row u_id (k_user k) (users (as_db s)) = Some u" "\<not> u_disabled u"
    and d2: "create_web_session cf ac (u_id u) now (d_token r) d2 = (Inr tok, d)"
      "principal_for (u_id u) [] d2 = Inr who" "users d2 = users (as_db s)"
      "credentials d2 = update_where (\<lambda>x. k_id x = k_id k)
           (\<lambda>x. x\<lparr>k_sign_count := n, k_last_used := Some now\<rparr>) (credentials (as_db s))"
    by (auto simp: login_user_def user_def Let_def split: sum.splits option.splits if_splits prod.splits)
  have uid: "u_id u = k_user k" using u(1) by (rule find_row_SomeD [THEN conjunct2])
  from create_web_session_Inr [OF d2(1)] principal_for_Inr [OF d2(2)] uid d2 show ?thesis
    by (intro that [OF cs j _ kin n u]) (use k in \<open>auto simp: s1 s'\<close>)
qed

section \<open>Passkeys\<close>

lemma remove_passkey_keeps_one:
  assumes "remove_passkey who cid now d = (Inr (), d')" and "distinct (map k_id (credentials d))" and "passkeys_of uid d \<noteq> []"
  shows "passkeys_of uid d' \<noteq> []"
proof -
  have mine: "cid \<in> k_id ` set (passkeys_of (who_user who) d)" and two: "length (passkeys_of (who_user who) d) \<noteq> 1"
    and d': "credentials d' = delete_where (\<lambda>k. k_id k = cid) (credentials d)"
    using assms(1) by (auto simp: remove_passkey_def Let_def split: if_splits)
  have inj: "inj_on k_id (set (credentials d))" using assms(2) by (simp add: distinct_map)
  obtain k where k: "k \<in> set (credentials d)" "k_user k = uid" "k_id k \<noteq> cid"
  proof (cases "uid = who_user who")
    case True
    have dist: "distinct (map k_id (passkeys_of uid d))" unfolding passkeys_of_def by (rule distinct_map_filter [OF assms(2)])
    have "\<exists>k \<in> set (passkeys_of uid d). k_id k \<noteq> cid"
    proof (rule ccontr)
      assume "\<not> ?thesis"
      then have "k_id ` set (passkeys_of uid d) \<subseteq> {cid}" by auto
      then have "card (set (map k_id (passkeys_of uid d))) \<le> 1" by (metis card_mono finite.emptyI finite.insertI is_singletonI is_singleton_altdef set_map)
      then have "length (passkeys_of uid d) \<le> 1" using distinct_card [OF dist] by simp
      with two assms(3) True show False by (cases "passkeys_of uid d") auto
    qed
    then show thesis by (auto simp: passkeys_of_def intro: that)
  next
    case False
    from assms(3) obtain k where k: "k \<in> set (credentials d)" "k_user k = uid"
      by (auto simp: passkeys_of_def filter_empty_conv)
    from mine obtain k' where "k' \<in> set (credentials d)" "k_user k' = who_user who" "k_id k' = cid"
      by (auto simp: passkeys_of_def)
    with k False inj have "k_id k \<noteq> cid" by (auto dest: inj_onD)
    with k show thesis by (rule that)
  qed
  then show ?thesis by (auto simp: passkeys_of_def d' delete_where_def filter_empty_conv)
qed

lemma store_credential_keeps:
  assumes "store_credential uid' v credential lbl now d = (res, d')"
  shows "passkeys_of uid d \<noteq> [] \<Longrightarrow> passkeys_of uid d' \<noteq> []"
    and "distinct (map k_id (credentials d)) \<Longrightarrow> distinct (map k_id (credentials d'))"
  using assms by (auto simp: store_credential_def Let_def passkeys_of_def insert_row_Inr_iff find_row_None_iff split: if_splits sum.splits)

text \<open>
  An enrolment whose passkey is already registered fails after the account exists and the
  invite is spent.
\<close>

lemma enroll_duplicate:
  assumes "ce_data c = [(''invite'', i), (''name'', n), (''email'', m), (''handle'', h)]"
    and "redeem_invite cf i n m now r d = (Inr u, d1)"
    and "find_row k_id (bytes_to_base64url (vf_credential_id v)) (credentials d) \<noteq> None" and "credentials d1 = credentials d"
  shows "enroll_user cf ac c v credential now r d = (Inl (AuthError ''this passkey is already registered''), d1)"
proof -
  have "check_invite cf i m now d = Inr ()"
    using assms(2) by (auto simp: redeem_invite_def check_invite_def split: sum.splits)
  with assms show ?thesis
    by (simp add: enroll_user_def and_then_def ceremony_value_def store_credential_def)
qed

end
