(* ===== verification/Api.thy ===== *)
theory Api
  imports Auth
begin

text \<open>
  The HTTP layer (sirosid_service/api.py): the rate limiter, the mapping of exceptions to
  status codes, base64url in JSON, and the guard every route runs before its handler. A
  handler is an argument; decoding the request body as JSON is an argument too.
\<close>

definition COOKIE :: string where "COOKIE = ''__Host-sid''"
definition MAX_BODY :: nat where "MAX_BODY = 256 * 1024"
definition UNSAFE :: "string list" where "UNSAFE = [''POST'', ''PUT'', ''PATCH'', ''DELETE'']"

definition SECURITY_HEADERS :: "string dict" where
  "SECURITY_HEADERS =
     [(''Strict-Transport-Security'', ''max-age=63072000; includeSubDomains; preload''),
      (''Content-Security-Policy'', ''default-src 'none'; frame-ancestors 'none'; base-uri '' @ py_repr ''none''),
      (''X-Content-Type-Options'', ''nosniff''),
      (''X-Frame-Options'', ''DENY''),
      (''Referrer-Policy'', ''no-referrer''),
      (''Cross-Origin-Opener-Policy'', ''same-origin''),
      (''Cross-Origin-Resource-Policy'', ''same-origin''),
      (''Cache-Control'', ''no-store''),
      (''Permissions-Policy'', ''publickey-credentials-get=(self), publickey-credentials-create=(self)'')]"

section \<open>The rate limiter\<close>

type_synonym hits = "((string \<times> string) \<times> time list) list"

definition hits_of :: "string \<times> string \<Rightarrow> hits \<Rightarrow> time list" where
  "hits_of k H = (case map_of H k of None \<Rightarrow> [] | Some ts \<Rightarrow> ts)"

definition too_many :: exn where
  "too_many = RateLimited ''too many attempts; wait a moment''"

definition forget_idle :: "time \<Rightarrow> hits \<Rightarrow> hits" where
  "forget_idle since H = filter (\<lambda>(k, ts). ts \<noteq> [] \<and> since < last ts) H"

definition limiter_check :: "string \<times> string \<Rightarrow> nat \<Rightarrow> time \<Rightarrow> time \<Rightarrow> hits \<Rightarrow> (hits, unit) outcome" where
  "limiter_check k limit window now H =
     (let recent = filter (\<lambda>t. now - window < t) (hits_of k H) in
      if limit \<le> length recent then (Inl too_many, AList.update k recent H)
      else
        let H' = AList.update k (recent @ [now]) H
        in (Inr (), if 20000 < length H' then forget_idle (now - window) H' else H'))"

section \<open>Bytes in JSON\<close>

definition b64e :: "bytes \<Rightarrow> string" where
  "b64e b = rstrip_by (\<lambda>c. c = CHR ''='') (b64_encode (map of_char b))"

definition b64d :: "json \<Rightarrow> exn + bytes" where
  "b64d j =
     (case j of
        JStr s \<Rightarrow>
          if \<not> is_ascii s then Inl (ServiceError ''not valid base64url'')
          else (case b64_decode (s @ replicate (nat ((- int (length s)) mod 4)) CHR ''='') of
             None \<Rightarrow> Inl (ServiceError ''not valid base64url'')
           | Some raw \<Rightarrow> Inr (map char_of raw))
      | _ \<Rightarrow> Inl (ServiceError ''expected a base64url string''))"

section \<open>Status codes\<close>

definition error_body :: "string \<Rightarrow> string \<Rightarrow> json" where
  "error_body n m = JObj [(''error'', JStr n), (''message'', JStr m)]"

definition problem_json :: "problem \<Rightarrow> json" where
  "problem_json p = JObj [(''path'', JStr (p_path p)), (''message'', JStr (p_message p))]"

text \<open>The classes are tried in the order of the source; a subclass comes before its class.\<close>

fun status_for :: "exn \<Rightarrow> int \<times> json" where
  "status_for (PolicyError ps) = (422, JObj [(''error'', JStr ''invalid_config''), (''problems'', JList (map problem_json ps))])"
| "status_for (NotSignedIn m) = (401, error_body ''not_signed_in'' m)"
| "status_for (Locked m) = (423, error_body ''locked'' m)"
| "status_for (RateLimited m) = (429, error_body ''rate_limited'' m)"
| "status_for (AuthError m) = (401, error_body ''auth_failed'' m)"
| "status_for (InvalidInvite m) = (400, error_body ''invalid_invite'' m)"
| "status_for (NotFound m) = (404, error_body ''not_found'' m)"
| "status_for (Forbidden m) = (403, error_body ''forbidden'' m)"
| "status_for (QuotaExceeded m) = (409, error_body ''quota'' m)"
| "status_for (InvalidState m) = (409, error_body ''invalid_state'' m)"
| "status_for (ServiceError m) = (400, error_body ''bad_request'' m)"
| "status_for _ = (500, error_body ''internal'' ''something went wrong'')"

section \<open>Requests and responses\<close>

record request =
  rq_method :: string
  rq_origin :: "string option"
  rq_content_type :: string
  rq_body :: bytes
  rq_cookie :: "string option"
  rq_proxy_header :: "string option"
  rq_peer :: "string option"

record api_config =
  api_origins :: "string list"
  api_cookie_max_age :: time
  api_client_ip_header :: string
  api_json_loads :: "bytes \<Rightarrow> json option"

record result =
  rs_payload :: json
  rs_status :: int
  rs_set_session :: "string option"
  rs_clear_session :: bool

definition plain_result :: "json \<Rightarrow> int \<Rightarrow> result" where
  "plain_result j st = \<lparr>rs_payload = j, rs_status = st, rs_set_session = None, rs_clear_session = False\<rparr>"

record cookie =
  ck_value :: string
  ck_max_age :: int

record response =
  rp_status :: int
  rp_body :: json
  rp_headers :: "string dict"
  rp_set_cookie :: "cookie option"
  rp_delete_cookie :: bool

definition finish :: "api_config \<Rightarrow> result \<Rightarrow> response" where
  "finish ap r =
     \<lparr>rp_status = rs_status r, rp_body = (if rs_payload r = JNull then JObj [] else rs_payload r),
      rp_headers = SECURITY_HEADERS,
      rp_set_cookie = (case rs_set_session r of
          None \<Rightarrow> None
        | Some t \<Rightarrow> if t = [] then None else Some \<lparr>ck_value = t, ck_max_age = \<lfloor>api_cookie_max_age ap\<rfloor>\<rparr>),
      rp_delete_cookie = rs_clear_session r\<rparr>"

section \<open>The guard\<close>

text \<open>The proxy header is trusted only when it is configured and not empty.\<close>

definition client_of :: "api_config \<Rightarrow> request \<Rightarrow> string" where
  "client_of ap rq =
     (let proxied = (case rq_proxy_header rq of None \<Rightarrow> [] | Some v \<Rightarrow> v) in
      if api_client_ip_header ap \<noteq> [] \<and> proxied \<noteq> [] then py_strip (fst (partition_at CHR '','' proxied))
      else case rq_peer rq of None \<Rightarrow> ''unknown'' | Some p \<Rightarrow> p)"

definition origin_ok :: "api_config \<Rightarrow> request \<Rightarrow> exn + unit" where
  "origin_ok ap rq =
     (if rq_method rq \<notin> set UNSAFE then Inr ()
      else case rq_origin rq of
        None \<Rightarrow> Inl (Forbidden ''this request did not come from the console'')
      | Some ori \<Rightarrow> if ori \<in> set (api_origins ap) then Inr ()
                     else Inl (Forbidden ''this request did not come from the console''))"

definition body_of :: "api_config \<Rightarrow> request \<Rightarrow> exn + json dict" where
  "body_of ap rq =
     (if rq_method rq \<notin> set UNSAFE then Inr []
      else if MAX_BODY < length (rq_body rq) then Inl (ServiceError ''request too large'')
      else if rq_body rq = [] then Inr []
      else if \<not> has_sub ''application/json'' (rq_content_type rq) then Inl (ServiceError ''send application/json'')
      else case api_json_loads ap (rq_body rq) of
        None \<Rightarrow> Inl (ServiceError ''the body is not valid JSON'')
      | Some (JObj d) \<Rightarrow> Inr d
      | Some _ \<Rightarrow> Inl (ServiceError ''the body must be a JSON object''))"

record route =
  rt_path :: string
  rt_public :: bool
  rt_admin :: bool
  rt_rate :: "(nat \<times> time) option"

record 'w site =
  site_auth :: "'w auth"
  site_hits :: hits

type_synonym 'w handler = "principal option \<Rightarrow> json dict \<Rightarrow> 'w auth \<Rightarrow> ('w auth, result) outcome"

definition rate_limited :: "api_config \<Rightarrow> route \<Rightarrow> request \<Rightarrow> time \<Rightarrow> hits \<Rightarrow> (hits, unit) outcome" where
  "rate_limited ap rt rq now H =
     (case rt_rate rt of
        None \<Rightarrow> (Inr (), H)
      | Some (n, window) \<Rightarrow> limiter_check (rt_path rt, client_of ap rq) n window now H)"

definition caller :: "'w plane \<Rightarrow> route \<Rightarrow> request \<Rightarrow> time \<Rightarrow> 'w auth \<Rightarrow> exn + principal option" where
  "caller cf rt rq now a =
     (if rt_public rt then
        (if rt_admin rt then Inl (OtherError ''AttributeError'' (''object has no attribute '' @ py_repr ''is_admin'')) else Inr None)
      else case principal_from_token cf (rq_cookie rq) now a of
        Inl e \<Rightarrow> Inl e
      | Inr who \<Rightarrow> if rt_admin rt \<and> \<not> is_admin who then Inl (NotFound ''not found'') else Inr (Some who))"

text \<open>What the endpoint does before it calls the handler, in its order.\<close>

definition admit ::
  "'w plane \<Rightarrow> api_config \<Rightarrow> route \<Rightarrow> request \<Rightarrow> time \<Rightarrow> 'w site \<Rightarrow> ('w site, principal option \<times> json dict) outcome" where
  "admit cf ap rt rq now s =
     (case origin_ok ap rq of
        Inl e \<Rightarrow> (Inl e, s)
      | Inr _ \<Rightarrow>
          (case rate_limited ap rt rq now (site_hits s) of (r, H) \<Rightarrow>
             let s1 = s\<lparr>site_hits := H\<rparr> in
             case r of
               Inl e \<Rightarrow> (Inl e, s1)
             | Inr _ \<Rightarrow>
                 (case body_of ap rq of
                    Inl e \<Rightarrow> (Inl e, s1)
                  | Inr d \<Rightarrow>
                      (case caller cf rt rq now (site_auth s1) of
                         Inl e \<Rightarrow> (Inl e, s1)
                       | Inr who \<Rightarrow> (Inr (who, d), s1)))))"

definition endpoint ::
  "'w plane \<Rightarrow> api_config \<Rightarrow> route \<Rightarrow> 'w handler \<Rightarrow> request \<Rightarrow> time \<Rightarrow> 'w site \<Rightarrow> response \<times> 'w site" where
  "endpoint cf ap rt h rq now s =
     (case admit cf ap rt rq now s of
        (Inl e, s1) \<Rightarrow> (case status_for e of (code, j) \<Rightarrow> (finish ap (plain_result j code), s1))
      | (Inr (who, d), s1) \<Rightarrow>
          (case h who d (site_auth s1) of (r, a) \<Rightarrow>
             let s2 = s1\<lparr>site_auth := a\<rparr> in
             case r of
               Inl e \<Rightarrow> (case status_for e of (code, j) \<Rightarrow> (finish ap (plain_result j code), s2))
             | Inr out \<Rightarrow> (finish ap out, s2)))"

section \<open>The window really is a limit\<close>

text \<open>
  A run of the limiter: calls at the given times, each for some key, all with the same
  window. The second result lists the accepted calls.
\<close>

fun limiter_run :: "time \<Rightarrow> ((string \<times> string) \<times> nat \<times> time) list \<Rightarrow> hits \<Rightarrow> ((string \<times> string) \<times> time) list" where
  "limiter_run window [] H = []"
| "limiter_run window ((k, limit, now) # cs) H =
     (case limiter_check k limit window now H of
        (Inl _, H') \<Rightarrow> limiter_run window cs H'
      | (Inr _, H') \<Rightarrow> (k, now) # limiter_run window cs H')"

definition in_window :: "time \<Rightarrow> time \<Rightarrow> time list \<Rightarrow> time list" where
  "in_window window now ts = filter (\<lambda>t. now - window < t) ts"

definition hits_sorted :: "time \<Rightarrow> hits \<Rightarrow> bool" where
  "hits_sorted now H = (\<forall>k. sorted (hits_of k H) \<and> (\<forall>t \<in> set (hits_of k H). t \<le> now))"

lemma hits_of_update [simp]: "hits_of k (AList.update k' ts H) = (if k = k' then ts else hits_of k H)"
  by (simp add: hits_of_def update_conv')

lemma hits_of_forget:
  assumes "distinct (map fst H)" and "hits_sorted now H"
  shows "in_window window now (hits_of k (forget_idle (now - window) H)) = in_window window now (hits_of k H)"
proof (cases "map_of H k")
  case None
  then show ?thesis by (simp add: hits_of_def forget_idle_def map_of_filter_snd [OF assms(1)])
next
  case (Some ts)
  then have ts: "hits_of k H = ts" by (simp add: hits_of_def)
  moreover have "sorted (hits_of k H)" using assms(2) unfolding hits_sorted_def by blast
  then have "sorted ts" by (simp only: ts)
  moreover have "hits_of k (forget_idle (now - window) H) = (if ts \<noteq> [] \<and> now - window < last ts then ts else [])"
    using Some by (simp add: hits_of_def forget_idle_def map_of_filter_snd [OF assms(1)])
  moreover have "ts = [] \<or> last ts \<le> now - window \<Longrightarrow> \<forall>t \<in> set ts. t \<le> now - window"
    using \<open>sorted ts\<close> by (cases ts rule: rev_cases) (auto simp: sorted_append)
  ultimately show ?thesis by (auto simp: in_window_def filter_empty_conv not_less)
qed

lemma in_window_later:
  assumes "in_window window a xs = in_window window a ys" and "a \<le> b"
  shows "in_window window b xs = in_window window b ys"
proof -
  have "in_window window b zs = filter (\<lambda>t. b - window < t) (in_window window a zs)" for zs
    using assms(2) by (auto simp: in_window_def intro: filter_cong)
  then show ?thesis by (simp only: assms(1))
qed

lemma in_window_idem [simp]: "in_window window now (in_window window now ts) = in_window window now ts"
  by (simp add: in_window_def)

definition limiter_ok :: "time \<Rightarrow> hits \<Rightarrow> bool" where
  "limiter_ok now H \<longleftrightarrow> distinct (map fst H) \<and> hits_sorted now H"

lemma limiter_okD:
  assumes "limiter_ok now H"
  shows "sorted (hits_of k H)" and "\<forall>t \<in> set (hits_of k H). t \<le> now"
  using assms unfolding limiter_ok_def hits_sorted_def by blast+

lemma limiter_ok_recent:
  assumes "limiter_ok now H"
  shows "sorted (filter p (hits_of k H))" and "\<forall>t \<in> set (filter p (hits_of k H)). t \<le> now"
  using limiter_okD [OF assms, of k] by (auto intro: sorted_wrt_filter)

lemma limiter_ok_update:
  assumes "limiter_ok now H" and "sorted ts" "\<forall>t \<in> set ts. t \<le> now"
  shows "limiter_ok now (AList.update k ts H)"
  using assms by (auto simp: limiter_ok_def hits_sorted_def distinct_update)

lemma limiter_ok_forget:
  assumes "limiter_ok now H"
  shows "limiter_ok now (forget_idle since H)"
proof -
  have d: "distinct (map fst H)" using assms by (simp add: limiter_ok_def)
  have "sorted (hits_of k (forget_idle since H)) \<and> (\<forall>t \<in> set (hits_of k (forget_idle since H)). t \<le> now)" for k
  proof -
    have "hits_of k (forget_idle since H) \<in> {[], hits_of k H}"
      by (auto simp: hits_of_def forget_idle_def map_of_filter_snd [OF d] split: option.splits)
    moreover have "sorted (hits_of k H) \<and> (\<forall>t \<in> set (hits_of k H). t \<le> now)"
      using assms unfolding limiter_ok_def hits_sorted_def by blast
    ultimately show ?thesis by auto
  qed
  then have "hits_sorted now (forget_idle since H)" unfolding hits_sorted_def by blast
  then show ?thesis using d by (simp add: limiter_ok_def forget_idle_def distinct_map_filter)
qed

lemma limiter_check_ok:
  assumes "limiter_ok now H" and "limiter_check k limit window now H = (r, H')"
  shows "limiter_ok now H'"
proof -
  let ?recent = "filter (\<lambda>t. now - window < t) (hits_of k H)"
  have r: "sorted ?recent" "\<forall>t \<in> set ?recent. t \<le> now"
    by (rule limiter_ok_recent [OF assms(1)])+
  then have "limiter_ok now (AList.update k ?recent H)" "limiter_ok now (AList.update k (?recent @ [now]) H)"
    using assms(1) by (auto intro!: limiter_ok_update simp: sorted_append)
  then show ?thesis using assms(2) by (auto simp: limiter_check_def Let_def limiter_ok_forget split: if_splits)
qed

text \<open>What a call does to the recent hits of a key.\<close>

lemma limiter_check_window:
  assumes ok: "limiter_ok now H" and c: "limiter_check k' limit window now H = (r, H')" and "0 < window"
  shows "in_window window now (hits_of k H') = in_window window now (hits_of k H) @ (if k = k' \<and> \<not> is_err r then [now] else [])"
    and "\<not> is_err r \<Longrightarrow> length (in_window window now (hits_of k' H)) < limit"
proof -
  let ?recent = "in_window window now (hits_of k' H)"
  let ?H = "AList.update k' (?recent @ [now]) H"
  have "limiter_ok now ?H"
    using ok limiter_ok_recent [OF ok, of "\<lambda>t. now - window < t" k']
    by (intro limiter_ok_update) (auto simp: in_window_def sorted_append)
  then have f: "in_window window now (hits_of k (forget_idle (now - window) ?H)) = in_window window now (hits_of k ?H)"
    by (intro hits_of_forget) (simp_all add: limiter_ok_def)
  have n: "in_window window now (xs @ [now]) = in_window window now xs @ [now]" for xs
    using assms(3) by (simp add: in_window_def)
  show "in_window window now (hits_of k H') = in_window window now (hits_of k H) @ (if k = k' \<and> \<not> is_err r then [now] else [])"
    using c f n unfolding limiter_check_def Let_def in_window_def [symmetric] by (auto split: if_splits)
  show "\<not> is_err r \<Longrightarrow> length ?recent < limit"
    using c unfolding limiter_check_def Let_def in_window_def [symmetric] by (auto split: if_splits)
qed

definition counted :: "time \<Rightarrow> time \<Rightarrow> time list \<Rightarrow> nat" where
  "counted window T ts = length (filter (\<lambda>t. T - window < t \<and> t \<le> T) ts)"

lemma counted_append_new:
  assumes "\<forall>t \<in> set ts. t \<le> now" and "length (in_window window now ts) < n" and "\<forall>T. counted window T ts \<le> n"
  shows "counted window T (ts @ [now]) \<le> n"
proof (cases "now \<le> T \<and> T - window < now")
  case True
  have "filter (\<lambda>t. T - window < t \<and> t \<le> T) ts = filter (\<lambda>t. T - window < t) (in_window window now ts)"
    using True assms(1) by (auto simp: in_window_def intro!: filter_cong)
  then have "counted window T ts \<le> length (in_window window now ts)"
    by (simp only: counted_def length_filter_le)
  with True assms(2) show ?thesis by (simp add: counted_def)
next
  case False
  with assms(3) show ?thesis by (auto simp: counted_def)
qed

lemma limiter_run_bound:
  assumes "0 < window" and "limiter_ok now0 H" and "sorted (map (\<lambda>(k, n, t). t) cs)" and "\<forall>(k, n, t) \<in> set cs. now0 \<le> t"
    and "\<forall>(k', m, t) \<in> set cs. k' = k \<longrightarrow> m = n"
    and "in_window window now0 past = in_window window now0 (hits_of k H)" and "\<forall>t \<in> set past. t \<le> now0"
    and "\<forall>T. counted window T past \<le> n"
  shows "counted window T (past @ map snd (filter (\<lambda>c. fst c = k) (limiter_run window cs H))) \<le> n"
  using assms(2-)
proof (induction cs arbitrary: now0 H past)
  case Nil
  then show ?case by simp
next
  case (Cons c cs)
  obtain k' m now where c: "c = (k', m, now)" by (cases c)
  obtain r H' where l: "limiter_check k' m window now H = (r, H')" by fastforce
  from Cons.prems c have t: "now0 \<le> now" and later: "\<forall>(k, n, t) \<in> set cs. now \<le> t" by auto
  have ok: "limiter_ok now H"
    using Cons.prems(1) t unfolding limiter_ok_def hits_sorted_def by (meson order_trans)
  note ok' = limiter_check_ok [OF ok l]
  note win = limiter_check_window [OF ok l assms(1)]
  have old: "in_window window now past = in_window window now (hits_of k H)" by (rule in_window_later [OF Cons.prems(5) t])
  have past: "\<forall>t \<in> set past. t \<le> now" using Cons.prems(6) t by force
  have tails: "sorted (map (\<lambda>(k, n, t). t) cs)" "\<forall>(k', m, t) \<in> set cs. k' = k \<longrightarrow> m = n"
    using Cons.prems c by auto
  show ?case
  proof (cases "k' = k \<and> \<not> is_err r")
    case False
    then have "in_window window now past = in_window window now (hits_of k H')" using win(1) [of k] old by auto
    from Cons.IH [OF ok' tails(1) later tails(2) this past Cons.prems(7)] False show ?thesis
      by (auto simp: c l split: sum.splits)
  next
    case True
    then have m: "m = n" using Cons.prems(4) c by auto
    have eq: "in_window window now (past @ [now]) = in_window window now (hits_of k H')"
      using win(1) [of k] old True assms(1) by (simp add: in_window_def)
    have lt: "length (in_window window now past) < n" using win(2) True m old by simp
    have bound: "\<forall>T. counted window T (past @ [now]) \<le> n" using counted_append_new [OF past lt Cons.prems(7)] by blast
    have past': "\<forall>t \<in> set (past @ [now]). t \<le> now" using past by simp
    obtain u where "r = Inr u" using True by (cases r) auto
    with Cons.IH [OF ok' tails(1) later tails(2) eq past' bound] True l show ?thesis
      by (simp add: c)
  qed
qed

lemma rate_limit_holds:
  assumes "0 < window" and "sorted (map (\<lambda>(k, n, t). t) cs)" and "\<forall>(k', m, t) \<in> set cs. k' = k \<longrightarrow> m = n"
  shows "counted window T (map snd (filter (\<lambda>c. fst c = k) (limiter_run window cs []))) \<le> n"
proof (cases cs)
  case Nil
  then show ?thesis by (simp add: counted_def)
next
  case (Cons c rest)
  obtain k' m now where c: "c = (k', m, now)" by (cases c)
  have ok: "limiter_ok now []" by (simp add: limiter_ok_def hits_sorted_def hits_of_def)
  have ge: "\<forall>(k, n, t) \<in> set cs. now \<le> t" using assms(2) Cons c by auto
  have e: "in_window window now [] = in_window window now (hits_of k [])" by (simp add: hits_of_def)
  have z: "\<forall>T. counted window T [] \<le> n" by (simp add: counted_def)
  show ?thesis using limiter_run_bound [OF assms(1) ok assms(2) ge assms(3) e _ z] by simp
qed

section \<open>The guard\<close>

lemma b64_roundtrip: "b64d (JStr (b64e b)) = Inr b"
proof -
  have bytes: "byte_list (map of_char b)" by (simp add: byte_list_def list_all_iff)
  have "b64e b = b64_body (map of_char b)" by (simp add: b64e_def unpadded_body [OF bytes])
  then show ?thesis
    using b64_decode_body [OF bytes] b64_body_ascii [OF bytes] by (simp add: b64d_def b64_pad_def comp_def)
qed

text \<open>A request that reaches its handler carries an allowed origin if it can change anything, and its caller's rights.\<close>

lemma admit_Inr:
  assumes "admit cf ap rt rq now s = (Inr (who, d), s')"
  shows "rq_method rq \<in> set UNSAFE \<Longrightarrow> \<exists>ori. rq_origin rq = Some ori \<and> ori \<in> set (api_origins ap)"
    and "rq_method rq \<in> set UNSAFE \<Longrightarrow> length (rq_body rq) \<le> MAX_BODY"
    and "\<not> rt_public rt \<Longrightarrow> \<exists>p. who = Some p \<and> principal_from_token cf (rq_cookie rq) now (site_auth s) = Inr p \<and> (rt_admin rt \<longrightarrow> is_admin p)"
    and "site_auth s' = site_auth s"
  using assms
  by (auto simp: admit_def origin_ok_def body_of_def caller_def Let_def split: if_splits option.splits sum.splits prod.splits)

lemma endpoint_refused:
  assumes "fst (admit cf ap rt rq now s) = Inl e"
  shows "site_auth (snd (endpoint cf ap rt h rq now s)) = site_auth s"
    and "rp_status (fst (endpoint cf ap rt h rq now s)) = fst (status_for e)"
  using assms
  by (auto simp: endpoint_def admit_def finish_def plain_result_def Let_def split: sum.splits prod.splits)

lemma forged_request:
  assumes "rq_method rq \<in> set UNSAFE" and "\<And>ori. rq_origin rq = Some ori \<Longrightarrow> ori \<notin> set (api_origins ap)"
  shows "endpoint cf ap rt h rq now s = (finish ap (plain_result (error_body ''forbidden'' ''this request did not come from the console'') 403), s)"
proof -
  have "origin_ok ap rq = Inl (Forbidden ''this request did not come from the console'')"
    using assms by (auto simp: origin_ok_def split: option.splits)
  then show ?thesis by (simp add: endpoint_def admit_def)
qed

text \<open>An error the code did not foresee tells the client nothing.\<close>

lemma status_for_internal: "fst (status_for e) = 500 \<Longrightarrow> snd (status_for e) = error_body ''internal'' ''something went wrong''"
  by (cases e) (auto simp: error_body_def)

lemma headers_always: "rp_headers (fst (endpoint cf ap rt h rq now s)) = SECURITY_HEADERS"
  by (auto simp: endpoint_def finish_def Let_def split: sum.splits prod.splits)

end
