(* ===== verification/Admission.thy ===== *)
theory Admission
  imports Demo OAuth Auth Api
begin

text \<open>
  Who gets in: the promises of the OAuth server (oauth.py), of the passkey ceremonies
  (auth.py) and of the HTTP guard (api.py) of sirosid_service.
\<close>

section \<open>OAuth\<close>





lemma token_used:
  assumes "map_of (oa_used (web_oauth s)) (cp_hash cf (param form ''code'')) = Some th"
    and "map_of form ''grant_type'' = Some ''authorization_code''"
  shows "token_op cf oc form now fresh s = (Inl (grant_error ''this code was already used''),
    s\<lparr>web_oauth := (web_oauth s)\<lparr>oa_used := AList.delete (cp_hash cf (param form ''code'')) (oa_used (web_oauth s)),
       oa_tokens := AList.delete th (oa_tokens (web_oauth s))\<rparr>\<rparr>)"
  using assms by (simp add: token_op_def Let_def on_oauth_def take_code_def)


definition demo_oauth :: oauth_config where
  "demo_oauth = \<lparr>oc_issuer = ''https://a.b'', oc_sha256 = (\<lambda>_. []), oc_py_str = (\<lambda>_. [])\<rparr>"

definition demo_form :: "string dict" where
  "demo_form = [(''grant_type'', ''authorization_code''), (''code'', ''code''), (''client_id'', ''c_1''),
     (''redirect_uri'', ''https://c.d/''), (''code_verifier'', replicate 43 CHR ''v'')]"

definition demo_web :: "demo_world web" where
  "demo_web = \<lparr>web_cp = demo_cp no_aead,
     web_oauth = \<lparr>oa_pending = [],
       oa_codes = [(''hcode'', \<lparr>cd_client = ''c_1'', cd_redirect = ''https://c.d/'', cd_challenge = [], cd_resource = [],
          cd_user = ''u_0a0b0c'', cd_session = ''s_tok'', cd_expires = 60\<rparr>)],
       oa_used = [], oa_tokens = []\<rparr>\<rparr>"

lemma demo_token: "\<exists>s'. token_op (demo_plane no_aead) demo_oauth demo_form 10 ''bearer'' demo_web =
    (Inr \<lparr>tr_access_token = ''bearer'', tr_expires_in = 28792\<rparr>, s')"
proof -
  have p: "param demo_form ''code'' = ''code''" "param demo_form ''client_id'' = ''c_1''" "param demo_form ''redirect_uri'' = ''https://c.d/''"
    "param demo_form ''code_verifier'' = replicate 43 CHR ''v''" "param demo_form ''resource'' = []"
    "map_of demo_form ''grant_type'' = Some ''authorization_code''"
    by (simp_all add: demo_form_def param_def get_default_def)
  have a: "is_ascii ''c_1''" "is_ascii []" by (simp_all add: is_ascii_def)
  have "check_code demo_oauth demo_form 10 (snd (hd (oa_codes (web_oauth demo_web)))) = Inr ()"
    unfolding check_code_def Let_def p
    by (simp add: demo_web_def compare_digest_def a pkce_challenge_def demo_oauth_def b64_pad_def rstrip_by_def)
  then show ?thesis
    by (simp add: token_op_def Let_def p on_oauth_def take_code_def demo_web_def on_cp_def session_expiry_def on_keys_def
        keys_expires_at_def keys_get_def TOKEN_TTL_def whole_seconds_def)
qed


lemma length_filter_update: "length (filter P (AList.update k v xs)) \<le> Suc (length (filter P xs))"
  by (induction xs) auto

lemma distinct_fold_revoke:
  "distinct (map fst (oa_tokens (web_oauth s))) \<Longrightarrow> distinct (map fst (oa_tokens (web_oauth (fold revoke_hash hs s))))"
  by (simp add: fold_revoke_tokens distinct_map_filter)

text \<open>
  However many codes are redeemed, a user never has more than the maximum number of live tokens: an issue makes
  room first, oldest tokens out.
\<close>

theorem issue_keeps_cap:
  assumes "token_op cf oc form now fresh s = (Inr rep, s')" and "distinct (map fst (oa_tokens (web_oauth s)))"
  shows "\<exists>c. map_of (oa_codes (web_oauth s)) (cp_hash cf (param form ''code'')) = Some c \<and>
    length (tokens_of (cd_user c) (web_oauth s')) \<le> MAX_TOKENS_PER_USER \<and> distinct (map fst (oa_tokens (web_oauth s')))"
  using assms(1)
proof (rule token_Inr)
  fix c t s3
  let ?s = "s\<lparr>web_oauth := (web_oauth s)\<lparr>oa_codes := AList.delete (cp_hash cf (param form ''code'')) (oa_codes (web_oauth s))\<rparr>\<rparr>"
  assume c: "map_of (oa_codes (web_oauth s)) (cp_hash cf (param form ''code'')) = Some c" and s3: "s3 = cap_tokens (cd_user c) ?s"
    and s': "s' = s3\<lparr>web_oauth := remember_code (cp_hash cf (param form ''code'')) (cp_hash cf fresh)
                     ((web_oauth s3)\<lparr>oa_tokens := AList.update (cp_hash cf fresh) t (oa_tokens (web_oauth s3))\<rparr>)\<rparr>"
  have d: "distinct (map fst (oa_tokens (web_oauth ?s)))" using assms(2) by simp
  have tok: "oa_tokens (web_oauth s') = AList.update (cp_hash cf fresh) t (oa_tokens (web_oauth s3))"
    by (simp add: s' remember_code_def Let_def)
  have "distinct (map fst (oa_tokens (web_oauth s3)))"
    unfolding s3 cap_tokens_def Let_def by (rule distinct_fold_revoke [OF d])
  then have "distinct (map fst (oa_tokens (web_oauth s')))" unfolding tok by (rule distinct_update)
  moreover have "length (tokens_of (cd_user c) (web_oauth s3)) < MAX_TOKENS_PER_USER"
    unfolding s3 by (rule tokens_capped [OF d])
  then have "length (tokens_of (cd_user c) (web_oauth s')) \<le> MAX_TOKENS_PER_USER"
    using length_filter_update [of "\<lambda>(h, t). tk_user t = cd_user c" "cp_hash cf fresh" t "oa_tokens (web_oauth s3)"]
    by (simp add: tokens_of_def tok)
  ultimately show ?thesis using c by blast
qed

theorem issue_keeps_cap_witness:
  "\<exists>s'. fst (token_op (demo_plane no_aead) demo_oauth demo_form 10 ''bearer'' demo_web) = Inr \<lparr>tr_access_token = ''bearer'', tr_expires_in = 28792\<rparr> \<and>
     snd (token_op (demo_plane no_aead) demo_oauth demo_form 10 ''bearer'' demo_web) = s' \<and> distinct (map fst (oa_tokens (web_oauth s')))"
proof -
  obtain s' where t: "token_op (demo_plane no_aead) demo_oauth demo_form 10 ''bearer'' demo_web =
      (Inr \<lparr>tr_access_token = ''bearer'', tr_expires_in = 28792\<rparr>, s')" using demo_token by blast
  have "distinct (map fst (oa_tokens (web_oauth demo_web)))" by (simp add: demo_web_def)
  from issue_keeps_cap [OF t this] have "distinct (map fst (oa_tokens (web_oauth s')))" by blast
  with t show ?thesis by simp
qed

lemma revoke_hash_keeps_dead:
  "key_live (keys (web_cp (revoke_hash h s))) sid u now \<Longrightarrow> key_live (keys (web_cp s)) sid u now"
  by (auto simp: revoke_hash_def drop_session_def keys_drop_def key_live_def delete_conv' split: option.splits if_splits)

lemma fold_revoke_keeps_dead:
  "key_live (keys (web_cp (fold revoke_hash hs s))) sid u now \<Longrightarrow> key_live (keys (web_cp s)) sid u now"
  by (induction hs arbitrary: s) (auto dest: revoke_hash_keeps_dead)

lemma fold_revoke_dead:
  "h \<in> set hs \<Longrightarrow> map_of (oa_tokens (web_oauth s)) h = Some t \<Longrightarrow> \<not> key_live (keys (web_cp (fold revoke_hash hs s))) (tk_session t) u now"
proof (induction hs arbitrary: s)
  case (Cons g hs)
  show ?case
  proof (cases "g = h")
    case True
    then show ?thesis using revoke_hash_dead(2) [OF Cons.prems(2)] fold_revoke_keeps_dead by fastforce
  next
    case False
    have "map_of (filter (\<lambda>(k, t). k \<noteq> g) xs) h = map_of xs h" for xs :: "(string \<times> bearer) list"
      using False by (induction xs) auto
    then have "map_of (oa_tokens (web_oauth (revoke_hash g s))) h = Some t"
      using Cons.prems(2) by (simp add: revoke_hash_tokens)
    with Cons False show ?thesis by simp
  qed
qed simp

text \<open>
  C26. Revoking all grants of a user leaves no token of that user, and the key sessions behind the tokens are dead for
  everybody and at any time.
\<close>

theorem revoke_user_is_final:
  assumes "map_of (oa_tokens (web_oauth s)) (cp_hash cf tok) = Some t" and "tk_user t = uid"
  shows "tokens_of uid (web_oauth (revoke_user uid s)) = [] \<and>
    principal_for_token cf tok now (revoke_user uid s) = (Inl (token_error ''unknown or revoked token''), revoke_user uid s) \<and>
    \<not> key_live (keys (web_cp (revoke_user uid s))) (tk_session t) u now"
proof -
  have h: "cp_hash cf tok \<in> set (map fst (tokens_of uid (web_oauth s)))"
    using map_of_SomeD [OF assms(1)] assms(2) by (force simp: tokens_of_def)
  have t: "oa_tokens (web_oauth (revoke_user uid s)) = filter (\<lambda>(k, t). k \<notin> fst ` set (tokens_of uid (web_oauth s))) (oa_tokens (web_oauth s))"
    by (simp add: revoke_user_def fold_revoke_tokens)
  then have "tokens_of uid (web_oauth (revoke_user uid s)) = []"
    by (force simp: tokens_of_def filter_empty_conv)
  moreover have "\<not> key_live (keys (web_cp (revoke_user uid s))) (tk_session t) u now"
    unfolding revoke_user_def by (rule fold_revoke_dead [OF h assms(1)])
  moreover have "map_of (oa_tokens (web_oauth (revoke_user uid s))) (cp_hash cf tok) = None"
    using h by (force simp: t map_of_eq_None_iff)
  ultimately show ?thesis by (simp add: principal_for_token_def Let_def)
qed

definition demo_connected :: "demo_world web" where
  "demo_connected = demo_web\<lparr>web_oauth := (web_oauth demo_web)\<lparr>oa_tokens :=
     [(''hbearer'', \<lparr>tk_client = ''c_1'', tk_user = ''u_0a0b0c'', tk_session = ''s_tok'', tk_created = 10, tk_expires = 28810, tk_code = ''hcode''\<rparr>)]\<rparr>\<rparr>"

theorem revoke_user_is_final_witness:
  "key_live (keys (web_cp demo_connected)) ''s_tok'' ''u_0a0b0c'' 20 \<and>
   \<not> key_live (keys (web_cp (revoke_user ''u_0a0b0c'' demo_connected))) ''s_tok'' ''u_0a0b0c'' 20"
proof -
  have "map_of (oa_tokens (web_oauth demo_connected)) (cp_hash (demo_plane no_aead) ''bearer'') =
      Some \<lparr>tk_client = ''c_1'', tk_user = ''u_0a0b0c'', tk_session = ''s_tok'', tk_created = 10, tk_expires = 28810, tk_code = ''hcode''\<rparr>"
    by (simp add: demo_connected_def)
  from revoke_user_is_final [OF this, of "''u_0a0b0c''" 20 "''u_0a0b0c''"]
  have "\<not> key_live (keys (web_cp (revoke_user ''u_0a0b0c'' demo_connected))) ''s_tok'' ''u_0a0b0c'' 20" by simp
  then show ?thesis by (simp add: demo_connected_def demo_web_def key_live_def)
qed

text \<open>
  A replayed code removes the token of its first use, but not the key session behind that token: contrary to the comment
  on revocation, the cloned session stays live until it expires.
\<close>

lemma replay_leaves_session:
  assumes "map_of (oa_used (web_oauth s)) (cp_hash cf (param form ''code'')) = Some th"
    and "map_of form ''grant_type'' = Some ''authorization_code''"
  shows "web_cp (snd (token_op cf oc form now fresh s)) = web_cp s"
  by (simp add: token_used [OF assms])

section \<open>Passkeys\<close>

lemma spent_ceremony_refused:
  assumes "map_of (as_ceremonies s) cid = None"
  shows "finish_login cf ac cid credential now r s = (Inl spent_ceremony, s)"
    and "finish_enrollment cf ac cid credential now r s = (Inl spent_ceremony, s)"
  using assms by (simp_all add: finish_login_def finish_enrollment_def with_ceremonies_def take_ceremony_def)

text \<open>
  C27. A login succeeds only in an open, unexpired login ceremony, with a credential the verifier accepts for that
  ceremony's challenge and for a stored passkey of an enabled account; the account is that passkey's, it comes locked,
  the session it begins is found under its token, and the ceremony cannot be used a second time.
\<close>

theorem login_needs_its_passkey:
  assumes "finish_login cf ac cid credential now r s = (Inr (who, tok), s')"
  shows "(\<exists>c k n u. map_of (as_ceremonies s) cid = Some c \<and> ce_kind c = ''login'' \<and> now < ce_expires c \<and>
      k \<in> set (credentials (as_db s)) \<and> verify_login ac credential (ce_challenge c) k = Inr n \<and>
      k_user k = who_user who \<and> find_row u_id (who_user who) (users (as_db s)) = Some u \<and> \<not> u_disabled u) \<and>
    who_session who = [] \<and> tok = d_token r \<and>
    find_row ws_token_hash (cp_hash cf tok) (web_sessions (as_db s')) = Some \<lparr>ws_token_hash = cp_hash cf tok,
      ws_user = who_user who, ws_created_at = now, ws_expires_at = now + ac_web_session_ttl ac\<rparr> \<and>
    finish_login cf ac cid credential' now' r' s' = (Inl spent_ceremony, s')"
  using assms
proof (rule finish_login_Inr)
  fix c j k n u
  assume "map_of (as_ceremonies s) cid = Some c" "ce_kind c = ''login''" "now < ce_expires c"
    "k \<in> set (credentials (as_db s))" "verify_login ac credential (ce_challenge c) k = Inr n"
    "find_row u_id (k_user k) (users (as_db s)) = Some u" "\<not> u_disabled u" "who_user who = k_user k"
    "who_session who = []" "tok = d_token r"
    and cs: "as_ceremonies s' = AList.delete cid (as_ceremonies s)"
    and "find_row ws_token_hash (cp_hash cf tok) (web_sessions (as_db s')) =
         Some \<lparr>ws_token_hash = cp_hash cf tok, ws_user = k_user k, ws_created_at = now, ws_expires_at = now + ac_web_session_ttl ac\<rparr>"
  moreover have "finish_login cf ac cid credential' now' r' s' = (Inl spent_ceremony, s')"
    by (rule spent_ceremony_refused) (simp add: cs delete_conv')
  ultimately show ?thesis by metis
qed

definition demo_auth_config :: auth_config where
  "demo_auth_config = \<lparr>ac_rp_id = ''a.b'', ac_rp_name = ''x'', ac_origins = [''https://a.b''], ac_challenge_ttl = 300,
     ac_web_session_ttl = 43200,
     ac_webauthn = \<lparr>wa_registration_options = (\<lambda>_ _ _ _ _ _ _. Inr []), wa_authentication_options = (\<lambda>_ _. Inr []),
       wa_verify_registration = (\<lambda>_ _ _ _. Inr \<lparr>vf_credential_id = ''k'', vf_public_key = [], vf_sign_count = 0\<rparr>),
       wa_verify_authentication = (\<lambda>_ _ _ _ _ n. Inr (n + 1))\<rparr>,
     ac_sha256 = (\<lambda>_. []), ac_sqlite_real = (\<lambda>_. [])\<rparr>"

definition demo_auth :: "demo_world auth" where
  "demo_auth = \<lparr>as_cp = (demo_cp no_aead)\<lparr>database := (database (demo_cp no_aead))\<lparr>credentials :=
       [\<lparr>k_id = ''k'', k_user = ''u_0a0b0c'', k_public_key = [], k_sign_count = 0, k_transports = [], k_label = [],
         k_created_at = 1, k_last_used = None\<rparr>], web_sessions := []\<rparr>\<rparr>,
     as_ceremonies = [(''cer'', \<lparr>ce_kind = ''login'', ce_challenge = ''ch'', ce_expires = 300, ce_data = []\<rparr>)], as_unlocked = []\<rparr>"

lemma demo_login: "\<exists>who s'. finish_login (demo_plane no_aead) demo_auth_config ''cer'' (JObj [(''id'', JStr ''k'')]) 10 demo_draws demo_auth
    = (Inr (who, ''tok''), s')"
  by (simp add: finish_login_def with_ceremonies_def take_ceremony_def demo_auth_def id_of_credential_def find_credential_def
      sql_text_def row_simps verify_login_def demo_auth_config_def with_db_def with_cp_def on_db_def login_user_def user_def
      principal_for_def create_web_session_def delete_where_def insert_row_def Let_def)

theorem login_needs_its_passkey_witness:
  "\<exists>who s'. finish_login (demo_plane no_aead) demo_auth_config ''cer'' (JObj [(''id'', JStr ''k'')]) 10 demo_draws demo_auth
      = (Inr (who, ''tok''), s') \<and>
    finish_login (demo_plane no_aead) demo_auth_config ''cer'' (JObj [(''id'', JStr ''k'')]) 11 demo_draws s' = (Inl spent_ceremony, s')"
proof -
  obtain who s' where l: "finish_login (demo_plane no_aead) demo_auth_config ''cer'' (JObj [(''id'', JStr ''k'')]) 10 demo_draws demo_auth
      = (Inr (who, ''tok''), s')" using demo_login by blast
  from login_needs_its_passkey [OF l, of "JObj [(''id'', JStr ''k'')]" 11 demo_draws] l show ?thesis by blast
qed

text \<open>
  Logging out ends the web session and, if it had been unlocked, the key session: the cookie is no longer accepted
  by anybody and the key is gone from memory at once.
\<close>

theorem logout_is_final:
  assumes "map_of (as_unlocked s) (cp_hash cf t) = Some sid" and "sid \<noteq> []" and "t \<noteq> []"
  shows "principal_from_token cf (Some t) now (logout cf (Some t) s) = Inl not_signed_in \<and>
    \<not> key_live (keys (as_cp (logout cf (Some t) s))) sid u now \<and>
    map_of (as_unlocked (logout cf (Some t) s)) (cp_hash cf t) = None"
  using logout_signed_out [of cf "Some t" now s] logout_locks [OF assms] assms(3)
  by (simp add: logout_def Let_def delete_conv')

definition demo_unlocked :: "demo_world auth" where
  "demo_unlocked = demo_auth\<lparr>as_cp := demo_cp no_aead, as_unlocked := [(''htok'', ''s_tok'')]\<rparr>"

theorem logout_is_final_witness:
  "key_live (keys (as_cp demo_unlocked)) ''s_tok'' ''u_0a0b0c'' 20 \<and>
   \<not> key_live (keys (as_cp (logout (demo_plane no_aead) (Some ''tok'') demo_unlocked))) ''s_tok'' ''u_0a0b0c'' 20"
  using logout_is_final [of demo_unlocked "demo_plane no_aead" "''tok''" "''s_tok''" 20 "''u_0a0b0c''"]
  by (simp add: demo_unlocked_def key_live_def)

text \<open>
  No user loses the last passkey: while every passkey has its own id, removing one leaves every user that had a
  passkey with at least one.
\<close>

theorem last_passkey_stays:
  assumes "remove_passkey who cid now d = (Inr (), d')" and "distinct (map k_id (credentials d))" and "passkeys_of uid d \<noteq> []"
  shows "passkeys_of uid d' \<noteq> [] \<and> length (credentials d') = length (credentials d) - 1"
proof -
  have d': "credentials d' = filter (\<lambda>k. k_id k \<noteq> cid) (credentials d)" and c: "cid \<in> k_id ` set (credentials d)"
    using assms(1) by (auto simp: remove_passkey_def Let_def delete_where_def passkeys_of_def split: if_splits)
  have "length (filter (\<lambda>k. k_id k \<noteq> cid) ks) = length ks - 1" if "distinct (map k_id ks)" "cid \<in> k_id ` set ks" for ks :: "credential_row list"
    using that
  proof (induction ks)
    case (Cons k ks)
    show ?case
    proof (cases "k_id k = cid")
      case True
      with Cons.prems(1) have "\<forall>x \<in> set ks. k_id x \<noteq> cid" by (metis distinct.simps(2) image_eqI list.simps(9) list.set_map)
      then have "filter (\<lambda>k. k_id k \<noteq> cid) ks = ks" by (simp add: filter_id_conv)
      with True show ?thesis by simp
    next
      case False
      with Cons have "length (filter (\<lambda>k. k_id k \<noteq> cid) ks) = length ks - 1" "ks \<noteq> []" by auto
      with False show ?thesis by (cases ks) auto
    qed
  qed simp
  with assms(2) c d' show ?thesis using remove_passkey_keeps_one [OF assms] by simp
qed

definition demo_passkey :: "string \<Rightarrow> credential_row" where
  "demo_passkey i = \<lparr>k_id = i, k_user = ''u_0a0b0c'', k_public_key = [], k_sign_count = 0, k_transports = [], k_label = [],
     k_created_at = 1, k_last_used = None\<rparr>"

theorem last_passkey_stays_witness:
  "passkeys_of ''u_0a0b0c'' (snd (remove_passkey who_ada ''a'' 5 (empty_db\<lparr>credentials := [demo_passkey ''a'', demo_passkey ''b'']\<rparr>))) \<noteq> [] \<and>
   fst (remove_passkey who_ada ''b'' 5 (empty_db\<lparr>credentials := [demo_passkey ''b'']\<rparr>)) = Inl (AuthError ''you cannot remove your only passkey'')"
proof -
  have "remove_passkey who_ada ''a'' 5 (empty_db\<lparr>credentials := [demo_passkey ''a'', demo_passkey ''b'']\<rparr>) =
    (Inr (), snd (remove_passkey who_ada ''a'' 5 (empty_db\<lparr>credentials := [demo_passkey ''a'', demo_passkey ''b'']\<rparr>)))"
    by (simp add: remove_passkey_def passkeys_of_def demo_passkey_def)
  from last_passkey_stays [OF this, of "''u_0a0b0c''"] show ?thesis
    by (simp add: demo_passkey_def passkeys_of_def) (simp add: remove_passkey_def passkeys_of_def)
qed

section \<open>The HTTP guard\<close>

text \<open>
  In any run of calls to the rate limiter in order of time, with one window and one limit per key, no window ever
  holds more accepted calls of a key than its limit, forgetting idle keys included.
\<close>

theorem window_never_exceeded:
  assumes "0 < window" and "sorted (map (\<lambda>(k, n, t). t) cs)" and "\<forall>(k', m, t) \<in> set cs. k' = k \<longrightarrow> m = n"
  shows "counted window T (map snd (filter (\<lambda>c. fst c = k) (limiter_run window cs []))) \<le> n"
  by (rule rate_limit_holds [OF assms])

theorem window_never_exceeded_witness:
  "counted 60 10 (map snd (filter (\<lambda>c. fst c = (''p'', ''ip''))
     (limiter_run 60 [((''p'', ''ip''), 1, 5), ((''p'', ''ip''), 1, 6), ((''q'', ''ip''), 2, 7)] []))) \<le> 1"
  by (rule window_never_exceeded) (simp_all add: split_def)

text \<open>
  A request that could change something and does not carry a console origin is refused before anything else: the
  answer is 403 and neither the rate limiter, the database, a session nor a handler sees it.
\<close>

theorem cross_site_refused:
  assumes "rq_method rq \<in> set UNSAFE" and "\<And>ori. rq_origin rq = Some ori \<Longrightarrow> ori \<notin> set (api_origins ap)"
  shows "endpoint cf ap rt h rq now s =
    (finish ap (plain_result (error_body ''forbidden'' ''this request did not come from the console'') 403), s)"
  by (rule forged_request [OF assms])

definition demo_api :: api_config where
  "demo_api = \<lparr>api_origins = [''https://console.x''], api_cookie_max_age = 43200, api_client_ip_header = [],
     api_json_loads = (\<lambda>_. None)\<rparr>"

definition demo_request_post :: request where
  "demo_request_post = \<lparr>rq_method = ''POST'', rq_origin = Some ''https://evil.x'', rq_content_type = [], rq_body = [],
     rq_cookie = Some ''tok'', rq_proxy_header = None, rq_peer = Some ''1.2.3.4''\<rparr>"

theorem cross_site_refused_witness:
  "rp_status (fst (endpoint (demo_plane no_aead) demo_api \<lparr>rt_path = ''/x'', rt_public = False, rt_admin = False, rt_rate = None\<rparr>
     (\<lambda>_ _ a. (Inl (NotFound []), a)) demo_request_post 5 \<lparr>site_auth = demo_auth, site_hits = []\<rparr>)) = 403"
  using cross_site_refused [of demo_request_post demo_api "demo_plane no_aead"
      "\<lparr>rt_path = ''/x'', rt_public = False, rt_admin = False, rt_rate = None\<rparr>" "\<lambda>_ _ a. (Inl (NotFound []), a)" 5
      "\<lparr>site_auth = demo_auth, site_hits = []\<rparr>"]
  by (simp add: demo_request_post_def demo_api_def UNSAFE_def finish_def plain_result_def)

text \<open>
  C28. A handler of a route that is not public runs only for the user of a web session that exists, has not expired and
  belongs to an enabled account, and on an admin route only for an admin; whoever is refused leaves sessions, keys and
  database untouched.
\<close>

theorem handlers_run_signed_in:
  assumes "admit cf ap rt rq now s = (r, s')" and "\<not> rt_public rt"
  shows "site_auth s' = site_auth s \<and>
    (case r of
       Inl e \<Rightarrow> True
     | Inr (who, d) \<Rightarrow> \<exists>p t w u. who = Some p \<and> rq_cookie rq = Some t \<and>
         find_row ws_token_hash (cp_hash cf t) (web_sessions (as_db (site_auth s))) = Some w \<and> now < ws_expires_at w \<and>
         find_row u_id (who_user p) (users (as_db (site_auth s))) = Some u \<and> \<not> u_disabled u \<and>
         ws_user w = who_user p \<and> (rt_admin rt \<longrightarrow> is_admin p))"
proof (cases r)
  case (Inl e)
  have "site_auth s' = site_auth s"
    using assms(1) by (auto simp: admit_def Let_def split: sum.splits prod.splits)
  with Inl show ?thesis by simp
next
  case (Inr q)
  obtain who d where q: "q = (who, d)" by fastforce
  note a = admit_Inr [OF assms(1) [unfolded Inr q]]
  from a(3) [OF assms(2)] obtain p where p: "who = Some p" "principal_from_token cf (rq_cookie rq) now (site_auth s) = Inr p"
    "rt_admin rt \<longrightarrow> is_admin p" by blast
  from p(2) show ?thesis
    by (rule principal_from_token_Inr) (use a(4) p(1,3) Inr q in auto)
qed

definition demo_site :: "demo_world site" where
  "demo_site = \<lparr>site_auth = demo_auth\<lparr>as_cp := (as_cp demo_auth)\<lparr>database := (as_db demo_auth)\<lparr>web_sessions :=
     [\<lparr>ws_token_hash = ''htok'', ws_user = ''u_0a0b0c'', ws_created_at = 1, ws_expires_at = 100\<rparr>]\<rparr>\<rparr>\<rparr>, site_hits = []\<rparr>"

definition demo_route :: route where
  "demo_route = \<lparr>rt_path = ''/x'', rt_public = False, rt_admin = True, rt_rate = None\<rparr>"

lemma demo_admit: "\<exists>p. admit (demo_plane no_aead) demo_api demo_route (demo_request_post\<lparr>rq_method := ''GET''\<rparr>) 50 demo_site = (Inr (Some p, []), demo_site)"
  by (simp add: admit_def origin_ok_def rate_limited_def body_of_def demo_request_post_def UNSAFE_def demo_route_def caller_def
      principal_from_token_def demo_site_def demo_auth_def row_simps principal_for_def user_def is_admin_def Let_def)

theorem handlers_run_signed_in_witness:
  "\<exists>p. admit (demo_plane no_aead) demo_api demo_route (demo_request_post\<lparr>rq_method := ''GET''\<rparr>) 50 demo_site = (Inr (Some p, []), demo_site) \<and>
     is_admin p"
proof -
  obtain p where p: "admit (demo_plane no_aead) demo_api demo_route (demo_request_post\<lparr>rq_method := ''GET''\<rparr>) 50 demo_site = (Inr (Some p, []), demo_site)"
    using demo_admit by blast
  from handlers_run_signed_in [OF p] p show ?thesis by (auto simp: demo_route_def)
qed

end
