(* ===== verification/McpWeb.thy ===== *)
theory McpWeb
  imports Mcp Admission
begin

text \<open>
  The HTTP routes of OAuth and MCP (sirosid_service/mcp_web.py): discovery, registration, the authorization request, the
  token endpoint, the MCP endpoint, and the console's routes for consent and connected applications. \<open>portal\<close> joins the
  state of the guard (Api) with that of the OAuth server, which share one control plane. A request that Starlette hands to
  a route has one of the methods the route is declared for; an exception that a route does not catch becomes Starlette's
  own answer. The conversion of UTF-8 bytes to text, which goes beyond 8-bit characters, is in the configuration.
\<close>

section \<open>State and requests\<close>

record 'w mcp_web =
  mw_api :: api_config
  mw_oauth :: oauth_config
  mw_server :: "'w mcp_server"
  mw_utf8 :: "nat list \<Rightarrow> string"

record 'w portal =
  po_site :: "'w site"
  po_oauth :: oauth

record web_request =
  wr_request :: request
  wr_authorization :: "string option"
  wr_query :: "string dict"

abbreviation po_cp :: "'w portal \<Rightarrow> 'w cp" where
  "po_cp s \<equiv> as_cp (site_auth (po_site s))"

definition web_of :: "'w portal \<Rightarrow> 'w web" where
  "web_of s = \<lparr>web_cp = po_cp s, web_oauth = po_oauth s\<rparr>"

definition put_web :: "'w web \<Rightarrow> 'w portal \<Rightarrow> 'w portal" where
  "put_web w s =
     s\<lparr>po_site := (po_site s)\<lparr>site_auth := (site_auth (po_site s))\<lparr>as_cp := web_cp w\<rparr>\<rparr>, po_oauth := web_oauth w\<rparr>"

definition on_web :: "('w web \<Rightarrow> ('w web, 'a) outcome) \<Rightarrow> 'w portal \<Rightarrow> ('w portal, 'a) outcome" where
  "on_web f s = (case f (web_of s) of (r, w) \<Rightarrow> (r, put_web w s))"

definition fails :: "exn \<Rightarrow> 'w portal \<Rightarrow> ('w portal, 'a) outcome" where
  "fails e s = (Inl e, s)"

section \<open>Answers\<close>

definition reply :: "'w mcp_web \<Rightarrow> json \<Rightarrow> int \<Rightarrow> string dict \<Rightarrow> response" where
  "reply mw payload status extra =
     (let p = finish (mw_api mw) (plain_result payload status)
      in p\<lparr>rp_headers := fold (\<lambda>(k, v). AList.update k v) extra (rp_headers p)\<rparr>)"

definition challenge :: "'w mcp_web \<Rightarrow> string \<Rightarrow> string" where
  "challenge mw code =
     (let meta = ''resource_metadata='' @ [quote_mark] @ oc_issuer (mw_oauth mw) @ ''/.well-known/oauth-protected-resource'' @
                 [quote_mark]
      in if code \<noteq> [] then ''Bearer error='' @ [quote_mark] @ code @ [quote_mark] @ '', '' @ meta else ''Bearer '' @ meta)"

definition oauth_error :: "'w mcp_web \<Rightarrow> string \<Rightarrow> string \<Rightarrow> int \<Rightarrow> response" where
  "oauth_error mw code description status =
     reply mw
       (JObj ((''error'', JStr code) # (if description \<noteq> [] then [(''error_description'', JStr description)] else [])))
       status
       (if status = 401 \<and> code = ''invalid_token'' then [(''WWW-Authenticate'', challenge mw code)] else [])"

text \<open>Starlette's answer to an exception nobody caught is plain text, with none of the headers of this service.\<close>

definition server_error :: response where
  "server_error = \<lparr>rp_status = 500, rp_body = JStr ''Internal Server Error'', rp_headers = [], rp_set_cookie = None,
     rp_delete_cookie = False\<rparr>"

text \<open>An empty body is \<open>JNull\<close>, which \<open>finish\<close> never makes.\<close>

definition finish_empty :: "int \<Rightarrow> response" where
  "finish_empty status = \<lparr>rp_status = status, rp_body = JNull, rp_headers = SECURITY_HEADERS, rp_set_cookie = None,
     rp_delete_cookie = False\<rparr>"

fun service_error :: "exn \<Rightarrow> bool" where
  "service_error (RateLimited _) = True"
| "service_error e = is_service_error e"

text \<open>The two \<open>except\<close> clauses every one of these routes ends with; \<open>busy\<close> is the body of the second.\<close>

definition answered :: "'w mcp_web \<Rightarrow> json \<Rightarrow> ('w portal, response) outcome \<Rightarrow> response \<times> 'w portal" where
  "answered mw busy x =
     (case x of (r, s) \<Rightarrow>
        (case r of
           Inr rep \<Rightarrow> rep
         | Inl (OAuthError code description status) \<Rightarrow> oauth_error mw code description status
         | Inl e \<Rightarrow> if service_error e then reply mw busy 429 [] else server_error, s))"

definition limited :: "'w mcp_web \<Rightarrow> string \<Rightarrow> nat \<Rightarrow> web_request \<Rightarrow> time \<Rightarrow> 'w portal \<Rightarrow> ('w portal, unit) outcome" where
  "limited mw bucket limit q now s =
     (case limiter_check (bucket, client_of (mw_api mw) (wr_request q)) limit 60 now (site_hits (po_site s)) of
        (r, H) \<Rightarrow> (r, s\<lparr>po_site := (po_site s)\<lparr>site_hits := H\<rparr>\<rparr>))"

definition raw :: "web_request \<Rightarrow> nat \<Rightarrow> exn + bytes" where
  "raw q cap =
     (let b = rq_body (wr_request q)
      in if cap < length b then Inl (OAuthError ''invalid_request'' ''request too large'' 413) else Inr b)"

section \<open>Discovery\<close>

definition strs :: "string list \<Rightarrow> json" where
  "strs ss = JList (map JStr ss)"

definition server_metadata :: "oauth_config \<Rightarrow> json" where
  "server_metadata oc = JObj
     [(''issuer'', JStr (oc_issuer oc)), (''authorization_endpoint'', JStr (oc_issuer oc @ ''/oauth/authorize'')),
      (''token_endpoint'', JStr (oc_issuer oc @ ''/oauth/token'')),
      (''registration_endpoint'', JStr (oc_issuer oc @ ''/oauth/register'')),
      (''response_types_supported'', strs [''code'']), (''grant_types_supported'', strs [''authorization_code'']),
      (''code_challenge_methods_supported'', strs [''S256'']), (''token_endpoint_auth_methods_supported'', strs [''none'']),
      (''scopes_supported'', strs [SCOPE])]"

definition resource_metadata :: "oauth_config \<Rightarrow> json" where
  "resource_metadata oc = JObj
     [(''resource'', JStr (oc_resource oc)), (''authorization_servers'', strs [oc_issuer oc]),
      (''scopes_supported'', strs [SCOPE]), (''bearer_methods_supported'', strs [''header''])]"

section \<open>Registration, authorization, token\<close>

definition client_json :: "client_row \<Rightarrow> json" where
  "client_json c = JObj
     [(''client_id'', JStr (oc_id c)), (''client_name'', JStr (oc_name c)), (''redirect_uris'', strs (oc_redirect_uris c)),
      (''token_endpoint_auth_method'', JStr ''none''), (''grant_types'', strs [''authorization_code'']),
      (''response_types'', strs [''code'']), (''scope'', JStr SCOPE)]"

definition unavailable :: "string dict \<Rightarrow> json" where
  "unavailable extra = strings_json ((''error'', ''temporarily_unavailable'') # extra)"

definition metadata_of :: "'w mcp_web \<Rightarrow> web_request \<Rightarrow> exn + json dict" where
  "metadata_of mw q =
     (case raw q (16 * 1024) of
        Inl e \<Rightarrow> Inl e
      | Inr b \<Rightarrow>
          (case api_json_loads (mw_api mw) b of
             None \<Rightarrow> Inl (OAuthError ''invalid_client_metadata'' ''the body must be JSON'' 400)
           | Some (JObj meta) \<Rightarrow> Inr meta
           | Some _ \<Rightarrow> Inl (OAuthError ''invalid_client_metadata'' ''the body must be a JSON object'' 400)))"

definition post_register :: "'w mcp_web \<Rightarrow> web_request \<Rightarrow> time \<Rightarrow> draws \<Rightarrow> 'w portal \<Rightarrow> response \<times> 'w portal" where
  "post_register mw q now r s =
     answered mw (unavailable [(''error_description'', ''too many attempts; wait a moment'')])
       (and_then (limited mw ''oauth-register'' 10 q now) (\<lambda>_ s1.
          case metadata_of mw q of
            Inl e \<Rightarrow> fails e s1
          | Inr meta \<Rightarrow>
              (case on_web (on_cp (on_db (register_client (mw_oauth mw) meta now r))) s1 of
                 (res, s2) \<Rightarrow> (map_sum id (\<lambda>c. reply mw (client_json c) 201 []) res, s2))) s)"

text \<open>The address of the console's consent page; the redirect URI of the client is not used.\<close>

definition to_console :: "string \<Rightarrow> response" where
  "to_console pid = \<lparr>rp_status = 302, rp_body = JNull, rp_headers = (''Location'', ''/#authorize='' @ pid) # SECURITY_HEADERS,
     rp_set_cookie = None, rp_delete_cookie = False\<rparr>"

definition authorize :: "'w mcp_web \<Rightarrow> web_request \<Rightarrow> time \<Rightarrow> draws \<Rightarrow> 'w portal \<Rightarrow> response \<times> 'w portal" where
  "authorize mw q now r s =
     answered mw (unavailable [])
       (and_then (limited mw ''oauth-authorize'' 30 q now) (\<lambda>_ s1.
          case on_web (begin_authorization (mw_oauth mw) (wr_query q) now r) s1 of
            (res, s2) \<Rightarrow> (map_sum id to_console res, s2)) s)"

text \<open>\<open>dict(parse_qsl(...))\<close>: of repeated names the last one counts.\<close>

definition form_of :: "'w mcp_web \<Rightarrow> bytes \<Rightarrow> string dict" where
  "form_of mw b =
     fold (\<lambda>(k, v). AList.update (mw_utf8 mw k) (mw_utf8 mw v)) (parse_qsl (mw_utf8 mw (map of_char b))) []"

definition token_json :: "token_reply \<Rightarrow> json" where
  "token_json t = JObj [(''access_token'', JStr (tr_access_token t)), (''token_type'', JStr ''Bearer''),
     (''expires_in'', JInt (tr_expires_in t)), (''scope'', JStr SCOPE)]"

definition posted_form :: "'w mcp_web \<Rightarrow> web_request \<Rightarrow> exn + string dict" where
  "posted_form mw q =
     (if \<not> has_sub ''application/x-www-form-urlencoded'' (rq_content_type (wr_request q))
      then Inl (OAuthError ''invalid_request'' ''send application/x-www-form-urlencoded'' 400)
      else map_sum id (form_of mw) (raw q (8 * 1024)))"

definition token_endpoint ::
  "'w mcp_web \<Rightarrow> web_request \<Rightarrow> time \<Rightarrow> string \<Rightarrow> 'w portal \<Rightarrow> response \<times> 'w portal" where
  "token_endpoint mw q now fresh s =
     answered mw (unavailable [])
       (and_then (limited mw ''oauth-token'' 30 q now) (\<lambda>_ s1.
          case posted_form mw q of
            Inl e \<Rightarrow> fails e s1
          | Inr form \<Rightarrow>
              (case on_web (token_op (mp_plane (mw_server mw)) (mw_oauth mw) form now fresh) s1 of
                 (res, s2) \<Rightarrow> (map_sum id (\<lambda>t. reply mw (token_json t) 200 [(''Pragma'', ''no-cache'')]) res, s2))) s)"

section \<open>The MCP endpoint\<close>

definition MAX_MESSAGE :: nat where "MAX_MESSAGE = 256 * 1024"

text \<open>What the client presents; \<open>None\<close> when it presents no bearer token.\<close>

definition bearer_of :: "web_request \<Rightarrow> string option" where
  "bearer_of q =
     (let auth = (case wr_authorization q of None \<Rightarrow> [] | Some a \<Rightarrow> a)
      in if starts_with ''bearer '' (py_lower auth) then Some (py_strip (drop 7 auth)) else None)"

definition foreign_origin :: "'w mcp_web \<Rightarrow> web_request \<Rightarrow> bool" where
  "foreign_origin mw q =
     (case rq_origin (wr_request q) of None \<Rightarrow> False | Some ori \<Rightarrow> ori \<notin> set (api_origins (mw_api mw)))"

definition unauthorized :: "'w mcp_web \<Rightarrow> response" where
  "unauthorized mw = reply mw
     (strings_json [(''error'', ''unauthorized''),
        (''error_description'', ''send a bearer token; see the WWW-Authenticate header'')])
     401 [(''WWW-Authenticate'', challenge mw [])]"

text \<open>One authenticated message; a body that is no JSON is answered without being handled.\<close>

definition mcp_message ::
  "'w mcp_web \<Rightarrow> principal \<Rightarrow> web_request \<Rightarrow> time \<Rightarrow> draws \<Rightarrow> 'w portal \<Rightarrow> ('w portal, response) outcome" where
  "mcp_message mw who q now r s =
     (case raw q MAX_MESSAGE of
        Inl e \<Rightarrow> fails e s
      | Inr b \<Rightarrow>
          (case api_json_loads (mw_api mw) b of
             None \<Rightarrow> (Inr (reply mw (rpc_error JNull (- 32700) ''parse error'') 400 []), s)
           | Some message \<Rightarrow>
               (case on_web (on_cp (mcp_handle (mw_server mw) who message now r)) s of
                  (res, s1) \<Rightarrow>
                    (map_sum id (\<lambda>out. case out of None \<Rightarrow> finish_empty 202 | Some j \<Rightarrow> reply mw j 200 []) res, s1))))"

definition mcp_post :: "'w mcp_web \<Rightarrow> web_request \<Rightarrow> time \<Rightarrow> draws \<Rightarrow> 'w portal \<Rightarrow> response \<times> 'w portal" where
  "mcp_post mw q now r s =
     (if foreign_origin mw q
      then (reply mw (error_body ''forbidden'' ''this origin may not call the MCP endpoint'') 403 [], s)
      else answered mw (strings_json [(''error'', ''rate_limited'')])
        (and_then (limited mw ''mcp'' 300 q now) (\<lambda>_ s1.
           case bearer_of q of
             None \<Rightarrow> (Inr (unauthorized mw), s1)
           | Some tok \<Rightarrow>
               and_then (on_web (principal_for_token (mp_plane (mw_server mw)) tok now))
                 (\<lambda>who. mcp_message mw who q now r) s1) s))"

definition mcp_other :: "'w mcp_web \<Rightarrow> response" where
  "mcp_other mw =
     reply mw (error_body ''method_not_allowed'' ''this MCP server only accepts POST'') 405 [(''Allow'', ''POST'')]"

section \<open>The console's routes\<close>

type_synonym 'w console = "principal \<Rightarrow> json dict \<Rightarrow> 'w web \<Rightarrow> ('w web, json) outcome"

definition failed :: "api_config \<Rightarrow> exn \<Rightarrow> response" where
  "failed ap e = (case status_for e of (code, j) \<Rightarrow> finish ap (plain_result j code))"

definition console_path :: "string \<Rightarrow> route" where
  "console_path p = \<lparr>rt_path = p, rt_public = False, rt_admin = False, rt_rate = None\<rparr>"

text \<open>\<open>Api.route\<close> over both halves of the state. The guard admits nobody without a principal to a route that is not public.\<close>

definition console_route ::
  "'w mcp_web \<Rightarrow> route \<Rightarrow> 'w console \<Rightarrow> web_request \<Rightarrow> time \<Rightarrow> 'w portal \<Rightarrow> response \<times> 'w portal" where
  "console_route mw rt h q now s =
     (case admit (mp_plane (mw_server mw)) (mw_api mw) rt (wr_request q) now (po_site s) of
        (Inl e, t) \<Rightarrow> (failed (mw_api mw) e, s\<lparr>po_site := t\<rparr>)
      | (Inr (None, d), t) \<Rightarrow> (failed (mw_api mw) not_signed_in, s\<lparr>po_site := t\<rparr>)
      | (Inr (Some who, d), t) \<Rightarrow>
          (case on_web (h who d) (s\<lparr>po_site := t\<rparr>) of
             (Inl e, s1) \<Rightarrow> (failed (mw_api mw) e, s1)
           | (Inr j, s1) \<Rightarrow> (finish (mw_api mw) (plain_result j 200), s1)))"

text \<open>\<open>_guard\<close>\<close>

definition guard_error :: "exn \<Rightarrow> exn" where
  "guard_error e =
     (case e of OAuthError code description status \<Rightarrow> ServiceError (if description \<noteq> [] then description else code) | _ \<Rightarrow> e)"

definition pending_json :: "pending_view \<Rightarrow> json" where
  "pending_json v = JObj
     [(''client_name'', JStr (pw_client_name v)), (''redirect_host'', JStr (pw_redirect_host v)),
      (''redirect_uri'', JStr (pw_redirect_uri v)), (''expires_in'', JInt (pw_expires_in v)), (''scope'', JStr SCOPE)]"

definition grant_json :: "grant_view \<Rightarrow> json" where
  "grant_json g = JObj
     [(''id'', JStr (gv_id g)), (''client_name'', JStr (gv_client_name g)), (''created_at'', JFloat (gv_created_at g)),
      (''expires_at'', JFloat (gv_expires_at g))]"

definition id_field :: "'w mcp_web \<Rightarrow> json dict \<Rightarrow> string" where
  "id_field mw d = (case map_of d ''id'' of None \<Rightarrow> [] | Some (JStr i) \<Rightarrow> i | Some v \<Rightarrow> oc_py_str (mw_oauth mw) v)"

definition redirected :: "('w web, string) outcome \<Rightarrow> ('w web, json) outcome" where
  "redirected x = (case x of (r, s) \<Rightarrow> (map_sum id (\<lambda>u. JObj [(''redirect'', JStr u)]) r, s))"

definition pending_page :: "string \<Rightarrow> time \<Rightarrow> 'w console" where
  "pending_page pid now who d w =
     (case describe_pending pid now w of (r, w1) \<Rightarrow> (map_sum guard_error pending_json r, w1))"

definition grants_page :: "time \<Rightarrow> 'w console" where
  "grants_page now who d w =
     (case grants who now w of (gs, w1) \<Rightarrow> (Inr (JObj [(''grants'', JList (map grant_json gs))]), w1))"

definition revoke_grant :: "string \<Rightarrow> time \<Rightarrow> 'w console" where
  "revoke_grant gid now who d w =
     (case revoke who gid now w of (r, w1) \<Rightarrow> (map_sum id (\<lambda>_. JObj [(''ok'', JBool True)]) r, w1))"

section \<open>The routes\<close>

datatype mcp_route =
    ServerMetadata
  | ResourceMetadata
  | RegisterClient
  | Authorize
  | TokenEndpoint
  | McpPost
  | McpOther
  | PendingPage string
  | Approve
  | Deny
  | GrantsPage
  | RevokeGrant string

fun methods_of :: "mcp_route \<Rightarrow> string list" where
  "methods_of RegisterClient = [''POST'']"
| "methods_of TokenEndpoint = [''POST'']"
| "methods_of McpPost = [''POST'']"
| "methods_of McpOther = [''GET'', ''DELETE'', ''PUT'', ''PATCH'']"
| "methods_of Approve = [''POST'']"
| "methods_of Deny = [''POST'']"
| "methods_of (RevokeGrant _) = [''DELETE'']"
| "methods_of _ = [''GET'']"

text \<open>Starlette answers HEAD with the route for GET.\<close>

definition accepts :: "mcp_route \<Rightarrow> web_request \<Rightarrow> bool" where
  "accepts rt q =
     (let m = rq_method (wr_request q) in m \<in> set (methods_of rt) \<or> m = ''HEAD'' \<and> ''GET'' \<in> set (methods_of rt))"

text \<open>A call: the route, the request, the time and what the random source gives.\<close>

record mcp_call =
  ca_route :: mcp_route
  ca_request :: web_request
  ca_now :: time
  ca_fresh :: string
  ca_draws :: draws

definition serve :: "'w mcp_web \<Rightarrow> mcp_call \<Rightarrow> 'w portal \<Rightarrow> response \<times> 'w portal" where
  "serve mw c s =
     (let q = ca_request c; now = ca_now c; oc = mw_oauth mw; cf = mp_plane (mw_server mw) in
      case ca_route c of
        ServerMetadata \<Rightarrow> (reply mw (server_metadata oc) 200 [], s)
      | ResourceMetadata \<Rightarrow> (reply mw (resource_metadata oc) 200 [], s)
      | RegisterClient \<Rightarrow> post_register mw q now (ca_draws c) s
      | Authorize \<Rightarrow> authorize mw q now (ca_draws c) s
      | TokenEndpoint \<Rightarrow> token_endpoint mw q now (ca_fresh c) s
      | McpPost \<Rightarrow> mcp_post mw q now (ca_draws c) s
      | McpOther \<Rightarrow> (mcp_other mw, s)
      | PendingPage pid \<Rightarrow> console_route mw (console_path ''/api/oauth/pending/{pid}'') (pending_page pid now) q now s
      | Approve \<Rightarrow> console_route mw (console_path ''/api/oauth/approve'')
          (\<lambda>who d w. redirected (approve cf oc who (id_field mw d) now (ca_fresh c) (ca_draws c) w)) q now s
      | Deny \<Rightarrow> console_route mw (console_path ''/api/oauth/deny'')
          (\<lambda>who d w. redirected (deny oc who (id_field mw d) now w)) q now s
      | GrantsPage \<Rightarrow> console_route mw (console_path ''/api/oauth/grants'') (grants_page now) q now s
      | RevokeGrant gid \<Rightarrow> console_route mw (console_path ''/api/oauth/grants/{gid}'') (revoke_grant gid now) q now s)"

section \<open>The two halves of the state\<close>

lemma put_web_simps [simp]:
  "web_of (put_web w s) = w" "put_web (web_of s) s = s" "po_oauth (put_web w s) = web_oauth w"
  "po_cp (put_web w s) = web_cp w" "site_hits (po_site (put_web w s)) = site_hits (po_site s)"
  "as_ceremonies (site_auth (po_site (put_web w s))) = as_ceremonies (site_auth (po_site s))"
  "as_unlocked (site_auth (po_site (put_web w s))) = as_unlocked (site_auth (po_site s))"
  "web_cp (web_of s) = po_cp s" "web_oauth (web_of s) = po_oauth s"
  by (simp_all add: put_web_def web_of_def)

lemma web_of_hits [simp]: "web_of (s\<lparr>po_site := (po_site s)\<lparr>site_hits := H\<rparr>\<rparr>) = web_of s"
  by (simp add: web_of_def)

lemma on_web_iff: "on_web f s = (r, s') \<longleftrightarrow> (\<exists>w. f (web_of s) = (r, w) \<and> s' = put_web w s)"
  by (auto simp: on_web_def split: prod.splits)

lemma put_web_same: "w = web_of s \<Longrightarrow> put_web w s = s"
  by simp

text \<open>The limiter touches its own table only.\<close>

lemma limited_frame:
  assumes "limited mw b n q now s = (x, s')"
  shows "site_auth (po_site s') = site_auth (po_site s)" and "po_oauth s' = po_oauth s" and "web_of s' = web_of s"
    and "limiter_check (b, client_of (mw_api mw) (wr_request q)) n 60 now (site_hits (po_site s)) = (x, site_hits (po_site s'))"
  using assms by (auto simp: limited_def web_of_def split: prod.splits)

section \<open>Bearer tokens\<close>

lemma principal_for_token_Inr:
  assumes "principal_for_token cf tok now w = (Inr who, w')"
  obtains t u where "w' = w" and "map_of (oa_tokens (web_oauth w)) (cp_hash cf tok) = Some t" and "now < tk_expires t"
    and "key_live (keys (web_cp w)) (tk_session t) (tk_user t) now"
    and "find_row u_id (tk_user t) (users (database (web_cp w))) = Some u" and "\<not> u_disabled u"
    and "who_user who = tk_user t" and "who_session who = tk_session t"
proof -
  from assms obtain t c where t: "map_of (oa_tokens (web_oauth w)) (cp_hash cf tok) = Some t" "now < tk_expires t"
    and a: "session_alive (tk_session t) (tk_user t) now (web_cp w) = (True, c)"
    and p: "principal_for (tk_user t) (tk_session t) (database c) = Inr who" and w': "w' = w\<lparr>web_cp := c\<rparr>"
    by (auto simp: principal_for_token_def Let_def not_le split: option.splits if_splits prod.splits sum.splits)
  from a obtain k where "on_keys (keys_get (tk_session t) (tk_user t) now) (web_cp w) = (Inr k, c)"
    by (auto simp: session_alive_def not_is_err_iff split: prod.splits)
  then have "c = web_cp w" and "key_live (keys (web_cp w)) (tk_session t) (tk_user t) now"
    by (auto simp: on_keys_def keys_get_Inr_iff key_live_def split: prod.splits)
  with t p w' principal_for_Inr [OF p] show ?thesis using that by simp blast
qed

lemma principal_for_Inl: "principal_for uid sid d = Inl e \<Longrightarrow> is_service_error e"
  by (auto simp: principal_for_def user_def account_disabled_def split: option.splits sum.splits if_splits)

definition loses_tokens :: "'w web \<Rightarrow> 'w web \<Rightarrow> bool" where
  "loses_tokens w w' \<longleftrightarrow> set (oa_tokens (web_oauth w')) \<subseteq> set (oa_tokens (web_oauth w)) \<and>
     set (oa_codes (web_oauth w')) \<subseteq> set (oa_codes (web_oauth w))"

text \<open>What an attempt without a valid token can touch: dead keys and dead tokens.\<close>

definition undisturbed_by :: "'w web \<Rightarrow> 'w web \<Rightarrow> bool" where
  "undisturbed_by w w' \<longleftrightarrow> database (web_cp w') = database (web_cp w) \<and> world (web_cp w') = world (web_cp w) \<and>
     jobs (web_cp w') = jobs (web_cp w) \<and> oa_pending (web_oauth w') = oa_pending (web_oauth w) \<and>
     oa_codes (web_oauth w') = oa_codes (web_oauth w) \<and> oa_used (web_oauth w') = oa_used (web_oauth w) \<and> loses_tokens w w'"

lemma undisturbed_refl [simp]: "undisturbed_by w w"
  by (simp add: undisturbed_by_def loses_tokens_def)

lemma revoke_hash_frame:
  "database (web_cp (revoke_hash h w)) = database (web_cp w)" "world (web_cp (revoke_hash h w)) = world (web_cp w)"
  "jobs (web_cp (revoke_hash h w)) = jobs (web_cp w)" "oa_pending (web_oauth (revoke_hash h w)) = oa_pending (web_oauth w)"
  "oa_codes (web_oauth (revoke_hash h w)) = oa_codes (web_oauth w)" "oa_used (web_oauth (revoke_hash h w)) = oa_used (web_oauth w)"
  by (simp_all add: revoke_hash_def drop_session_def split: option.split)

lemma principal_for_token_Inl:
  assumes "principal_for_token cf tok now w = (Inl e, w')"
  shows "\<exists>m. e = token_error m" and "undisturbed_by w w'"
proof -
  have frame: "undisturbed_by w (revoke_hash h (w\<lparr>web_cp := c\<rparr>))" "undisturbed_by w (w\<lparr>web_cp := c\<rparr>)"
    if "session_alive sid u now (web_cp w) = (x, c)" for sid u x c h
    using that by (auto simp: undisturbed_by_def loses_tokens_def revoke_hash_frame revoke_hash_tokens session_alive_def
        dest: on_keys_frame split: prod.splits)
  have "undisturbed_by w (revoke_hash h w)" for h
    by (auto simp: undisturbed_by_def loses_tokens_def revoke_hash_frame revoke_hash_tokens)
  with assms frame show "undisturbed_by w w'"
    by (auto simp: principal_for_token_def Let_def split: option.splits if_splits prod.splits sum.splits)
  show "\<exists>m. e = token_error m"
    using assms by (auto simp: principal_for_token_def Let_def dest!: principal_for_Inl
        split: option.splits if_splits prod.splits sum.splits)
qed


section \<open>The status of an answer\<close>

lemma update_others [simp]: "map_of (AList.update k v xs) k' = (if k' = k then Some v else map_of xs k')"
  by (simp add: update_conv')

lemma reply_simps [simp]: "rp_status (reply mw j st xs) = st" "rp_status (oauth_error mw c d st) = st"
  "rp_status (failed ap e) = fst (status_for e)" "rp_status server_error = 500" "rp_status (unauthorized mw) = 401"
  by (simp_all add: reply_def Let_def finish_def plain_result_def oauth_error_def failed_def server_error_def unauthorized_def
      split: prod.splits)

text \<open>A caller without a usable token is told where to find the authorization server.\<close>

lemma challenged:
  "map_of (rp_headers (unauthorized mw)) ''WWW-Authenticate'' = Some (challenge mw [])"
  "map_of (rp_headers (oauth_error mw ''invalid_token'' d 401)) ''WWW-Authenticate'' = Some (challenge mw ''invalid_token'')"
  by (simp_all add: unauthorized_def oauth_error_def reply_def Let_def)

text \<open>What \<open>answered\<close> makes of each exception.\<close>

lemma answered_Inr: "answered mw busy (Inr rep, s) = (rep, s)"
  by (simp add: answered_def)

lemma answered_token_error: "answered mw busy (Inl (token_error m), s) = (oauth_error mw ''invalid_token'' m 401, s)"
  by (simp add: answered_def token_error_def)

lemma answered_busy: "answered mw busy (Inl too_many, s) = (reply mw busy 429 [], s)"
  by (simp add: answered_def too_many_def)

lemma limiter_check_Inl: "limiter_check k n w now H = (Inl e, H') \<Longrightarrow> e = too_many"
  by (auto simp: limiter_check_def Let_def split: if_splits)

text \<open>
  A redirect URI that \<open>urlsplit\<close> cannot read, such as \<open>http://[\<close>, ends in an exception nobody catches: instead of the
  400 of an unregistered redirect the caller gets an answer without the security headers every response should carry.
\<close>

lemma authorize_crashes:
  assumes "find_client (OAuth.param (wr_query q) ''client_id'') (database (po_cp s)) = Inr c"
    and "oc_redirect_uris c = [u]" and "u \<noteq> OAuth.param (wr_query q) ''redirect_uri''"
    and "urlsplit (OAuth.param (wr_query q) ''redirect_uri'') = None"
    and "limited mw ''oauth-authorize'' 30 q now s = (Inr (), s1)"
  shows "authorize mw q now r s = (server_error, s1)"
proof -
  have "same_redirect u (OAuth.param (wr_query q) ''redirect_uri'') = Inl (ValueError ''Invalid URL'')"
    using assms(3,4) by (simp add: same_redirect_def split: option.split)
  moreover have "database (web_cp (web_of s1)) = database (po_cp s)" using limited_frame(3) [OF assms(5)] by simp
  ultimately show ?thesis
    using assms(1,2,5) by (simp add: authorize_def and_then_def on_web_def begin_authorization_def authorization_problem_def answered_def)
qed

section \<open>The MCP endpoint\<close>

lemma mcp_message_cases:
  assumes "mcp_message mw who q now r s = (x, s')"
  obtains (refused) "s' = s" and "x = Inl (OAuthError ''invalid_request'' ''request too large'' 413) \<or>
        x = Inr (reply mw (rpc_error JNull (- 32700) ''parse error'') 400 [])"
    | (handled) message where "api_json_loads (mw_api mw) (rq_body (wr_request q)) = Some message"
      and "length (rq_body (wr_request q)) \<le> MAX_MESSAGE"
      and "po_cp s' = snd (mcp_handle (mw_server mw) who message now r (po_cp s))" and "po_oauth s' = po_oauth s"
  using assms
  by (auto simp: mcp_message_def raw_def Let_def fails_def on_web_iff on_cp_def not_less split: if_splits option.splits prod.splits)

text \<open>A call of the MCP endpoint is either handled for the user of a live token, or it leaves everything but dead keys alone.\<close>

definition handled_for :: "'w mcp_web \<Rightarrow> web_request \<Rightarrow> time \<Rightarrow> draws \<Rightarrow> 'w portal \<Rightarrow> 'w portal \<Rightarrow> bearer \<Rightarrow> bool" where
  "handled_for mw q now r s s' t \<longleftrightarrow>
     \<not> foreign_origin mw q \<and>
     (\<exists>tok. bearer_of q = Some tok \<and> map_of (oa_tokens (po_oauth s)) (cp_hash (mp_plane (mw_server mw)) tok) = Some t) \<and>
     now < tk_expires t \<and> key_live (keys (po_cp s)) (tk_session t) (tk_user t) now \<and>
     (\<exists>u. find_row u_id (tk_user t) (users (database (po_cp s))) = Some u \<and> \<not> u_disabled u) \<and>
     (\<exists>who message. who_user who = tk_user t \<and> who_session who = tk_session t \<and>
        api_json_loads (mw_api mw) (rq_body (wr_request q)) = Some message \<and> length (rq_body (wr_request q)) \<le> MAX_MESSAGE \<and>
        po_cp s' = snd (mcp_handle (mw_server mw) who message now r (po_cp s)) \<and> po_oauth s' = po_oauth s)"

definition turned_away :: "'w mcp_web \<Rightarrow> response \<Rightarrow> 'w portal \<Rightarrow> 'w portal \<Rightarrow> bool" where
  "turned_away mw rep s s' \<longleftrightarrow> undisturbed_by (web_of s) (web_of s') \<and> rp_status rep \<in> {400, 401, 403, 413, 429} \<and>
     (rp_status rep = 401 \<longrightarrow>
       map_of (rp_headers rep) ''WWW-Authenticate'' \<in> {Some (challenge mw []), Some (challenge mw ''invalid_token'')})"

lemma mcp_post_cases:
  assumes "mcp_post mw q now r s = (rep, s')"
  shows "(\<exists>t. handled_for mw q now r s s' t) \<or> turned_away mw rep s s'"
proof (cases "foreign_origin mw q")
  case True
  with assms show ?thesis by (auto simp: mcp_post_def turned_away_def)
next
  case local: False
  obtain x s1 where l: "limited mw ''mcp'' 300 q now s = (x, s1)" by fastforce
  note f = limited_frame [OF l]
  show ?thesis
  proof (cases x)
    case (Inl e)
    with f(4) have "e = too_many" by (auto dest: limiter_check_Inl)
    with assms local l Inl f(3) show ?thesis by (auto simp: mcp_post_def and_then_def answered_busy turned_away_def)
  next
    case (Inr u)
    show ?thesis
    proof (cases "bearer_of q")
      case None
      with assms local l Inr f(3) show ?thesis
        by (auto simp: mcp_post_def and_then_def answered_Inr turned_away_def challenged)
    next
      case (Some tok)
      obtain y w where p: "principal_for_token (mp_plane (mw_server mw)) tok now (web_of s1) = (y, w)" by fastforce
      show ?thesis
      proof (cases y)
        case (Inl e)
        with p obtain m where "e = token_error m" "undisturbed_by (web_of s1) w" using principal_for_token_Inl by blast
        with assms local l Inr Some p Inl f(3) show ?thesis
          by (auto simp: mcp_post_def and_then_def on_web_def answered_token_error turned_away_def challenged)
      next
        case who: (Inr who)
        from p who obtain t u where t: "w = web_of s1" "map_of (oa_tokens (po_oauth s)) (cp_hash (mp_plane (mw_server mw)) tok) = Some t"
          "now < tk_expires t" "key_live (keys (po_cp s)) (tk_session t) (tk_user t) now"
          "find_row u_id (tk_user t) (users (database (po_cp s))) = Some u" "\<not> u_disabled u"
          "who_user who = tk_user t" "who_session who = tk_session t"
          using f(1,2) by (auto elim!: principal_for_token_Inr)
        obtain z s2 where z: "mcp_message mw who q now r s1 = (z, s2)" by fastforce
        with assms local l Inr Some p who t(1) have r: "(rep, s') = answered mw (strings_json [(''error'', ''rate_limited'')]) (z, s2)"
          by (simp add: mcp_post_def and_then_def on_web_def)
        from z show ?thesis
        proof (cases rule: mcp_message_cases)
          case refused
          with r f(3) have "turned_away mw rep s s'" by (auto simp: answered_def turned_away_def)
          then show ?thesis ..
        next
          case (handled message)
          from r have "s' = s2" by (simp add: answered_def)
          with handled local t Some f(1,2) have "handled_for mw q now r s s' t" by (auto simp: handled_for_def)
          then show ?thesis by blast
        qed
      qed
    qed
  qed
qed

text \<open>
  C29. The MCP endpoint handles a message only when the request brings no foreign browser origin and the bearer token of an
  enabled account that is known, not expired and has a live key behind it, for that account and on that key. Any other
  request is turned away with 400, 401, 403, 413 or 429, a 401 with the challenge that names the authorization server, and
  leaves database, jobs, world, codes and pending requests as they are; tokens can only disappear.
\<close>

theorem mcp_needs_a_live_token:
  assumes "mcp_post mw q now r s = (rep, s')"
  shows "(\<exists>t. handled_for mw q now r s s' t) \<or> turned_away mw rep s s'"
  by (rule mcp_post_cases [OF assms])


definition demo_mcp_web :: "demo_world mcp_web" where
  "demo_mcp_web = \<lparr>mw_api = demo_api\<lparr>api_json_loads := (\<lambda>b. if b = ''ping'' then Some (JObj [(''jsonrpc'', JStr ''2.0''),
       (''id'', JInt 1), (''method'', JStr ''ping'')]) else Some (JObj [(''id'', JStr ''p'')]))\<rparr>, mw_oauth = demo_oauth,
     mw_server = \<lparr>mp_plane = demo_plane no_aead, mp_library = \<lparr>kb_files = [], kb_examples = [],
       kb_yaml = (\<lambda>_. Inl (ValueError [])), kb_str = (\<lambda>_. []), kb_int = (\<lambda>_. Inr 0), kb_ellipsis = []\<rparr>,
       mp_resources = None, mp_finished = (\<lambda>_. []), mp_repr = (\<lambda>_. [])\<rparr>,
     mw_utf8 = map char_of\<rparr>"

definition demo_portal :: "demo_world web \<Rightarrow> demo_world portal" where
  "demo_portal w = put_web w \<lparr>po_site = \<lparr>site_auth = demo_auth, site_hits = []\<rparr>, po_oauth = web_oauth w\<rparr>"

definition demo_call :: "string \<Rightarrow> bytes \<Rightarrow> string option \<Rightarrow> web_request" where
  "demo_call content_type body auth =
     \<lparr>wr_request = demo_request_post\<lparr>rq_origin := None, rq_content_type := content_type, rq_body := body\<rparr>,
      wr_authorization = auth, wr_query = []\<rparr>"

lemma demo_mcp_web_fields [simp]:
  "mp_plane (mw_server demo_mcp_web) = demo_plane no_aead" "mw_oauth demo_mcp_web = demo_oauth"
  "api_json_loads (mw_api demo_mcp_web) ''ping'' = Some (JObj [(''jsonrpc'', JStr ''2.0''), (''id'', JInt 1), (''method'', JStr ''ping'')])"
  "rq_body (wr_request (demo_call ct b a)) = b" "rq_content_type (wr_request (demo_call ct b a)) = ct"
  by (simp_all add: demo_mcp_web_def demo_call_def)

theorem mcp_needs_a_live_token_witness:
  "(\<exists>rep s' t. mcp_post demo_mcp_web (demo_call [] ''ping'' (Some ''Bearer bearer'')) 20 demo_draws (demo_portal demo_connected) = (rep, s') \<and>
     rp_status rep = 200 \<and> handled_for demo_mcp_web (demo_call [] ''ping'' (Some ''Bearer bearer'')) 20 demo_draws
       (demo_portal demo_connected) s' t) \<and>
   rp_status (fst (mcp_post demo_mcp_web (demo_call [] ''ping'' None) 20 demo_draws (demo_portal demo_connected))) = 401"
proof -
  let ?q = "demo_call [] ''ping'' (Some ''Bearer bearer'')"
  have b: "bearer_of ?q = Some ''bearer''" "bearer_of (demo_call [] ''ping'' None) = None"
    by code_simp+
  have o: "\<not> foreign_origin demo_mcp_web q" if "q = demo_call [] ''ping'' a" for q a
    by (simp add: that foreign_origin_def demo_call_def)
  note steps = mcp_post_def o [OF refl] and_then_def limited_def limiter_check_def hits_of_def demo_portal_def
  have ok: "rp_status (fst (mcp_post demo_mcp_web ?q 20 demo_draws (demo_portal demo_connected))) = 200"
    using b(1) by (simp add: steps on_web_def principal_for_token_def demo_connected_def demo_web_def
        session_alive_def on_keys_def keys_get_def principal_for_def user_def row_simps mcp_message_def raw_def Let_def
        MAX_MESSAGE_def on_cp_def mcp_handle_def dispatch_def answered_Inr)
  have no: "rp_status (fst (mcp_post demo_mcp_web (demo_call [] ''ping'' None) 20 demo_draws (demo_portal demo_connected))) = 401"
    using b(2) by (simp add: steps answered_Inr)
  obtain rep s' where m: "mcp_post demo_mcp_web ?q 20 demo_draws (demo_portal demo_connected) = (rep, s')" by fastforce
  from mcp_needs_a_live_token [OF m] ok m have "\<exists>t. handled_for demo_mcp_web ?q 20 demo_draws (demo_portal demo_connected) s' t"
    by (auto simp: turned_away_def)
  with m ok no show ?thesis by auto
qed

section \<open>Guesses are bounded\<close>

text \<open>The bucket a call is counted in, with the limit of a minute; \<open>None\<close> for the calls that are not counted.\<close>

definition bucket_of :: "'w mcp_web \<Rightarrow> mcp_call \<Rightarrow> ((string \<times> string) \<times> nat) option" where
  "bucket_of mw c =
     (let bucket = (\<lambda>b n. Some ((b, client_of (mw_api mw) (wr_request (ca_request c))), n)) in
      case ca_route c of
        RegisterClient \<Rightarrow> bucket ''oauth-register'' 10
      | Authorize \<Rightarrow> bucket ''oauth-authorize'' 30
      | TokenEndpoint \<Rightarrow> bucket ''oauth-token'' 30
      | McpPost \<Rightarrow> if foreign_origin mw (ca_request c) then None else bucket ''mcp'' 300
      | _ \<Rightarrow> None)"

definition bucket_limit :: "string \<Rightarrow> nat" where
  "bucket_limit b = (if b = ''oauth-register'' then 10 else if b = ''mcp'' then 300 else 30)"

lemma bucket_of_limit: "bucket_of mw c = Some (k, n) \<Longrightarrow> n = bucket_limit (fst k)"
  by (auto simp: bucket_of_def bucket_limit_def Let_def split: mcp_route.splits if_splits)

definition too_fast :: "'w mcp_web \<Rightarrow> mcp_call \<Rightarrow> 'w portal \<Rightarrow> bool" where
  "too_fast mw c s =
     (case bucket_of mw c of
        None \<Rightarrow> False
      | Some (k, n) \<Rightarrow> is_err (fst (limiter_check k n 60 (ca_now c) (site_hits (po_site s)))))"

text \<open>The counted calls of a run that get past the limiter, with their buckets and times.\<close>

fun let_through :: "'w mcp_web \<Rightarrow> mcp_call list \<Rightarrow> 'w portal \<Rightarrow> ((string \<times> string) \<times> time) list" where
  "let_through mw [] s = []"
| "let_through mw (c # cs) s =
     (case bucket_of mw c of
        Some (k, n) \<Rightarrow> (if too_fast mw c s then [] else [(k, ca_now c)])
      | None \<Rightarrow> []) @ let_through mw cs (snd (serve mw c s))"

definition same_hits :: "'w portal \<Rightarrow> 'w portal \<Rightarrow> bool" where
  "same_hits s s' \<longleftrightarrow> site_hits (po_site s') = site_hits (po_site s)"

lemma same_hits_simps [simp]: "same_hits s s" "same_hits s (put_web w s)"
  by (simp_all add: same_hits_def)

lemma answered_state [simp]: "snd (answered mw busy x) = snd x"
  by (simp add: answered_def split: prod.split)

lemma admit_hits:
  "admit cf ap (console_path p) rq now t = (x, t') \<Longrightarrow> t' = t"
  by (auto simp: admit_def rate_limited_def console_path_def Let_def split: sum.splits prod.splits)

lemma console_hits: "same_hits s (snd (console_route mw (console_path p) h q now s))"
  by (auto simp: console_route_def same_hits_def on_web_def dest!: admit_hits split: prod.splits sum.splits option.splits)

lemma after_limiter:
  assumes "\<And>u s1. same_hits s1 (snd (k u s1))"
  shows "site_hits (po_site (snd (and_then (limited mw b n q now) k s))) =
    snd (limiter_check (b, client_of (mw_api mw) (wr_request q)) n 60 now (site_hits (po_site s)))"
proof -
  obtain x s1 where l: "limited mw b n q now s = (x, s1)" by fastforce
  with limited_frame(4) [OF l] assms show ?thesis
    by (auto simp: and_then_def same_hits_def split: sum.split)
qed

lemma mcp_message_hits: "same_hits s (snd (mcp_message mw who q now r s))"
  by (auto simp: mcp_message_def fails_def on_web_def split: sum.splits option.splits prod.splits)

lemma serve_hits:
  "site_hits (po_site (snd (serve mw c s))) =
     (case bucket_of mw c of
        None \<Rightarrow> site_hits (po_site s)
      | Some (k, n) \<Rightarrow> snd (limiter_check k n 60 (ca_now c) (site_hits (po_site s))))"
proof (cases "ca_route c")
  case RegisterClient
  then show ?thesis
    unfolding serve_def Let_def post_register_def bucket_of_def
    by (simp, subst after_limiter) (auto simp: fails_def on_web_def split: sum.splits prod.splits)
next
  case Authorize
  then show ?thesis
    unfolding serve_def Let_def authorize_def bucket_of_def
    by (simp, subst after_limiter) (auto simp: fails_def on_web_def split: sum.splits prod.splits)
next
  case TokenEndpoint
  then show ?thesis
    unfolding serve_def Let_def token_endpoint_def bucket_of_def
    by (simp, subst after_limiter) (auto simp: fails_def on_web_def split: sum.splits prod.splits)
next
  case McpPost
  have "same_hits s1 (snd (and_then (on_web (principal_for_token cf tok now)) (\<lambda>who. mcp_message mw who q now r) s1))" for cf tok now q r s1
    by (auto simp: and_then_def on_web_def mcp_message_hits [unfolded same_hits_def] same_hits_def split: sum.splits prod.splits)
  with McpPost show ?thesis
    unfolding serve_def Let_def mcp_post_def bucket_of_def
    by (simp, subst after_limiter) (auto split: option.splits)
qed (use console_hits in \<open>simp_all add: serve_def Let_def bucket_of_def same_hits_def\<close>)

text \<open>A run of the routes uses the limiter as \<open>limiter_run\<close> does.\<close>

definition counted_calls :: "'w mcp_web \<Rightarrow> mcp_call list \<Rightarrow> ((string \<times> string) \<times> nat \<times> time) list" where
  "counted_calls mw cs = concat (map (\<lambda>c. case bucket_of mw c of None \<Rightarrow> [] | Some (k, n) \<Rightarrow> [(k, n, ca_now c)]) cs)"

lemma let_through_run: "let_through mw cs s = limiter_run 60 (counted_calls mw cs) (site_hits (po_site s))"
proof (induction cs arbitrary: s)
  case (Cons c cs)
  show ?case
  proof (cases "bucket_of mw c")
    case None
    with Cons show ?thesis by (simp add: counted_calls_def serve_hits)
  next
    case (Some b)
    obtain k n where b: "b = (k, n)" by fastforce
    obtain x H where l: "limiter_check k n 60 (ca_now c) (site_hits (po_site s)) = (x, H)" by fastforce
    from Cons Some b l show ?thesis by (cases x) (simp_all add: counted_calls_def serve_hits too_fast_def)
  qed
qed (simp add: counted_calls_def)

lemma counted_calls_sorted: "sorted (map ca_now cs) \<Longrightarrow> sorted (map (\<lambda>(k, n, t). t) (counted_calls mw cs))"
  by (induction cs) (auto simp: counted_calls_def split: option.splits)

lemma too_fast_answer:
  assumes "too_fast mw c s"
  shows "rp_status (fst (serve mw c s)) = 429 \<and> po_oauth (snd (serve mw c s)) = po_oauth s \<and>
    site_auth (po_site (snd (serve mw c s))) = site_auth (po_site s)"
proof -
  from assms obtain b n where k: "bucket_of mw c = Some ((b, client_of (mw_api mw) (wr_request (ca_request c))), n)"
    by (auto simp: too_fast_def bucket_of_def Let_def split: option.splits mcp_route.splits if_splits)
  obtain x s1 where l: "limited mw b n (ca_request c) (ca_now c) s = (x, s1)" by fastforce
  note f = limited_frame [OF l]
  from assms k f(4) obtain e where "x = Inl e" by (auto simp: too_fast_def is_err_iff)
  with f(4) have x: "x = Inl too_many" by (auto dest: limiter_check_Inl)
  with k l f show ?thesis
    by (auto simp: bucket_of_def serve_def Let_def post_register_def authorize_def token_endpoint_def mcp_post_def and_then_def
        answered_busy split: mcp_route.splits if_splits)
qed


text \<open>
  C30. Over any run of these routes that starts with an empty limiter and whose times do not run backwards, no minute holds
  more registrations of one client address than 10, more authorization requests or token requests than 30, or more MCP
  calls than 300 that get past the limiter. A call that does not get past it is answered 429, and neither the OAuth
  server nor the control plane, its keys and its sessions change.
\<close>

theorem guesses_are_bounded:
  assumes "sorted (map ca_now cs)" and "site_hits (po_site s) = []"
  shows "counted 60 T (map snd (filter (\<lambda>a. fst a = (b, client)) (let_through mw cs s))) \<le> bucket_limit b \<and>
    (\<forall>c t. too_fast mw c t \<longrightarrow> rp_status (fst (serve mw c t)) = 429 \<and> po_oauth (snd (serve mw c t)) = po_oauth t \<and>
       site_auth (po_site (snd (serve mw c t))) = site_auth (po_site t))"
proof -
  have "counted 60 T (map snd (filter (\<lambda>a. fst a = (b, client)) (limiter_run 60 (counted_calls mw cs) []))) \<le> bucket_limit b"
  proof (rule rate_limit_holds)
    show "sorted (map (\<lambda>(k, n, t). t) (counted_calls mw cs))" by (rule counted_calls_sorted [OF assms(1)])
    show "\<forall>(k', m, t) \<in> set (counted_calls mw cs). k' = (b, client) \<longrightarrow> m = bucket_limit b"
      by (auto simp: counted_calls_def split: option.splits dest: bucket_of_limit [OF sym])
  qed simp
  then show ?thesis using too_fast_answer by (simp add: let_through_run assms(2)) blast
qed

theorem guesses_are_bounded_witness:
  "counted 60 9 (map snd (filter (\<lambda>a. fst a = (''oauth-token'', ''1.2.3.4'')) (let_through demo_mcp_web
     [\<lparr>ca_route = TokenEndpoint, ca_request = demo_call [] [] None, ca_now = 5, ca_fresh = [], ca_draws = demo_draws\<rparr>,
      \<lparr>ca_route = TokenEndpoint, ca_request = demo_call [] [] None, ca_now = 6, ca_fresh = [], ca_draws = demo_draws\<rparr>]
     (demo_portal demo_web)))) \<le> 30"
  using guesses_are_bounded [of "[\<lparr>ca_route = TokenEndpoint, ca_request = demo_call [] [] None, ca_now = 5, ca_fresh = [], ca_draws = demo_draws\<rparr>,
      \<lparr>ca_route = TokenEndpoint, ca_request = demo_call [] [] None, ca_now = 6, ca_fresh = [], ca_draws = demo_draws\<rparr>]"
      "demo_portal demo_web" 9 "''oauth-token''" "''1.2.3.4''" demo_mcp_web]
  by (simp add: demo_portal_def bucket_limit_def)

end
