(* ===== verification/Consent.thy ===== *)
theory Consent
  imports McpWeb
begin

text \<open>
  Who may hold a bearer token: over all histories of the OAuth and MCP routes a token belongs to a user who approved its
  application on the console. \<open>brings\<close> is what one call can add to the store, \<open>history\<close> any order of calls with the rest
  of the service in between.
\<close>

section \<open>Nobody is connected without consent\<close>

text \<open>The user of \<open>uid\<close> approves, signed in and unlocked on the console, the waiting request of the client.\<close>

definition consented :: "'w mcp_web \<Rightarrow> mcp_call \<Rightarrow> 'w portal \<Rightarrow> string \<Rightarrow> string \<Rightarrow> bool" where
  "consented mw c s uid client \<longleftrightarrow>
     ca_route c = Approve \<and>
     (\<exists>ori. rq_origin (wr_request (ca_request c)) = Some ori \<and> ori \<in> set (api_origins (mw_api mw))) \<and>
     (\<exists>who. principal_from_token (mp_plane (mw_server mw)) (rq_cookie (wr_request (ca_request c))) (ca_now c) (site_auth (po_site s)) =
          Inr who \<and> who_user who = uid \<and> key_live (keys (po_cp s)) (who_session who) uid (ca_now c)) \<and>
     (\<exists>p \<in> snd ` set (oa_pending (po_oauth s)). pd_client p = client \<and> ca_now c < pd_expires p)"

definition brings :: "'w mcp_web \<Rightarrow> mcp_call \<Rightarrow> 'w portal \<Rightarrow> oauth \<Rightarrow> bool" where
  "brings mw c s o' \<longleftrightarrow>
     (\<forall>(h, t) \<in> set (oa_tokens o'). (h, t) \<in> set (oa_tokens (po_oauth s)) \<or>
        (\<exists>d \<in> snd ` set (oa_codes (po_oauth s)). cd_user d = tk_user t \<and> cd_client d = tk_client t)) \<and>
     (\<forall>(h, d) \<in> set (oa_codes o'). (h, d) \<in> set (oa_codes (po_oauth s)) \<or> consented mw c s (cd_user d) (cd_client d))"

lemma brings_less: "loses_tokens (web_of s) w \<Longrightarrow> brings mw c s (web_oauth w)"
  by (auto simp: brings_def loses_tokens_def)

lemma loses_refl [simp]: "loses_tokens w w" "web_oauth w' = web_oauth w \<Longrightarrow> loses_tokens w w'"
  by (simp_all add: loses_tokens_def)

lemma loses_trans: "loses_tokens w w' \<Longrightarrow> loses_tokens w' w'' \<Longrightarrow> loses_tokens w w''"
  by (auto simp: loses_tokens_def)

lemma fold_revoke_codes: "oa_codes (web_oauth (fold revoke_hash hs w)) = oa_codes (web_oauth w)"
  by (induction hs arbitrary: w) (simp_all add: revoke_hash_frame)

lemma purge_loses: "loses_tokens w (purge now w)"
  by (auto simp: purge_def Let_def loses_tokens_def fold_revoke_tokens fold_revoke_codes)

lemma revoke_loses: "loses_tokens w (revoke_hash h w)" "loses_tokens w (log_oauth now a b d (revoke_hash h w))"
  by (auto simp: loses_tokens_def revoke_hash_tokens revoke_hash_frame log_oauth_def)

lemma get_pending_loses: "get_pending pid now o1 = (x, o2) \<Longrightarrow> oa_tokens o2 = oa_tokens o1 \<and> oa_codes o2 = oa_codes o1"
  by (auto simp: get_pending_def Let_def split: option.splits if_splits)

lemma get_pending_Inr:
  "get_pending pid now o1 = (Inr p, o2) \<Longrightarrow> o2 = o1 \<and> p \<in> snd ` set (oa_pending o1) \<and> now < pd_expires p"
  by (auto simp: get_pending_def Let_def not_le split: option.splits if_splits dest!: map_of_SomeD intro: rev_image_eqI)

lemma authorize_loses: "begin_authorization oc ps now r w = (x, w') \<Longrightarrow> loses_tokens w w'"
  using purge_loses [of w now]
  by (auto simp: begin_authorization_def Let_def loses_tokens_def split: sum.splits if_splits)

lemma describe_loses: "describe_pending pid now w = (x, w') \<Longrightarrow> loses_tokens w w'"
  by (auto simp: describe_pending_def on_oauth_def loses_tokens_def dest!: get_pending_loses split: prod.splits sum.splits)

lemma deny_loses: "deny oc who pid now w = (x, w') \<Longrightarrow> loses_tokens w w'"
  by (auto simp: deny_def on_oauth_def loses_tokens_def log_oauth_def dest!: get_pending_loses split: prod.splits sum.splits)

lemma grants_loses: "grants who now w = (x, w') \<Longrightarrow> loses_tokens w w'"
  using purge_loses [of w now] by (simp add: grants_def Let_def)

lemma revoke_grant_loses: "revoke who gid now w = (x, w') \<Longrightarrow> loses_tokens w w'"
  using revoke_loses by (auto simp: revoke_def Let_def split: list.splits)

lemma on_cp_loses: "on_cp f w = (x, w') \<Longrightarrow> loses_tokens w w'"
  by (auto simp: on_cp_def split: prod.splits)

lemma set_update_sub: "set (AList.update k v xs) \<subseteq> insert (k, v) (set xs)"
  by (induction xs) auto

lemma set_delete_sub: "set (AList.delete k xs) \<subseteq> set xs"
  by (auto simp: AList.delete_eq)

lemma session_expiry_oauth: "on_cp (session_expiry sid u now) w = (x, w') \<Longrightarrow> web_oauth w' = web_oauth w"
  by (auto simp: on_cp_def split: prod.splits)

lemma take_code_loses: "on_oauth (take_code h) w = (x, w') \<Longrightarrow> loses_tokens w w'"
  by (auto simp: on_oauth_def take_code_def loses_tokens_def AList.delete_eq split: prod.splits option.splits)

lemma cap_loses: "loses_tokens w (cap_tokens uid w)"
  by (auto simp: loses_tokens_def cap_tokens_def Let_def fold_revoke_tokens fold_revoke_codes)

text \<open>A token is made of a code, and takes its user and its client over.\<close>

lemma token_from_code:
  assumes "token_op cf oc form now fresh w = (x, w')"
  shows "set (oa_codes (web_oauth w')) \<subseteq> set (oa_codes (web_oauth w))"
    and "(h, t) \<in> set (oa_tokens (web_oauth w')) \<Longrightarrow> (h, t) \<in> set (oa_tokens (web_oauth w)) \<or>
      (\<exists>d \<in> snd ` set (oa_codes (web_oauth w)). cd_user d = tk_user t \<and> cd_client d = tk_client t)"
proof -
  have "set (oa_codes (web_oauth w')) \<subseteq> set (oa_codes (web_oauth w)) \<and> ((h, t) \<in> set (oa_tokens (web_oauth w')) \<longrightarrow>
      (h, t) \<in> set (oa_tokens (web_oauth w)) \<or> (\<exists>d \<in> snd ` set (oa_codes (web_oauth w)). cd_user d = tk_user t \<and> cd_client d = tk_client t))"
  proof (cases x)
    case (Inl e)
    with assms have "loses_tokens w w'"
      by (auto simp: token_op_def Let_def split: if_splits prod.splits sum.splits exn.splits
          dest!: take_code_loses session_expiry_oauth intro: loses_trans)
    then show ?thesis by (auto simp: loses_tokens_def)
  next
    case (Inr rep)
    from assms [unfolded Inr] show ?thesis
    proof (rule token_Inr)
      fix c b w3
      let ?h = "cp_hash cf (param form ''code'')"
      let ?w1 = "w\<lparr>web_oauth := (web_oauth w)\<lparr>oa_codes := AList.delete ?h (oa_codes (web_oauth w))\<rparr>\<rparr>"
      assume c: "map_of (oa_codes (web_oauth w)) ?h = Some c"
        and w3: "w3 = cap_tokens (cd_user c) ?w1"
        and b: "tk_client b = cd_client c" "tk_user b = cd_user c"
        and w': "w' = w3\<lparr>web_oauth := remember_code ?h (cp_hash cf fresh)
                     ((web_oauth w3)\<lparr>oa_tokens := AList.update (cp_hash cf fresh) b (oa_tokens (web_oauth w3))\<rparr>)\<rparr>"
      have "loses_tokens w w3"
        using cap_loses [of ?w1 "cd_user c"] set_delete_sub [of ?h "oa_codes (web_oauth w)"]
        by (auto simp: w3 loses_tokens_def)
      moreover have "oa_codes (web_oauth w') = oa_codes (web_oauth w3)"
        "set (oa_tokens (web_oauth w')) \<subseteq> insert (cp_hash cf fresh, b) (set (oa_tokens (web_oauth w3)))"
        using set_update_sub [of "cp_hash cf fresh" b "oa_tokens (web_oauth w3)"] by (simp_all add: w' remember_code_def Let_def)
      ultimately have less: "set (oa_codes (web_oauth w')) \<subseteq> set (oa_codes (web_oauth w))"
        "(h, t) \<in> set (oa_tokens (web_oauth w')) \<Longrightarrow> (h, t) \<in> set (oa_tokens (web_oauth w)) \<or> t = b"
        by (auto simp: loses_tokens_def)
      have "c \<in> snd ` set (oa_codes (web_oauth w))" using map_of_SomeD [OF c] by force
      with b have "\<exists>d \<in> snd ` set (oa_codes (web_oauth w)). cd_user d = tk_user b \<and> cd_client d = tk_client b" by (metis b)
      with less show ?thesis by blast
    qed
  qed
  then show "set (oa_codes (web_oauth w')) \<subseteq> set (oa_codes (web_oauth w))"
    and "(h, t) \<in> set (oa_tokens (web_oauth w')) \<Longrightarrow> (h, t) \<in> set (oa_tokens (web_oauth w)) \<or>
      (\<exists>d \<in> snd ` set (oa_codes (web_oauth w)). cd_user d = tk_user t \<and> cd_client d = tk_client t)" by blast+
qed

text \<open>A code is made by an approval, for its user and the client of the request.\<close>

lemma approve_brings:
  assumes "approve cf oc who pid now fresh r w = (x, w')"
  shows "set (oa_tokens (web_oauth w')) \<subseteq> set (oa_tokens (web_oauth w))"
    and "(h, d) \<in> set (oa_codes (web_oauth w')) \<Longrightarrow> (h, d) \<in> set (oa_codes (web_oauth w)) \<or>
      cd_user d = who_user who \<and> key_live (keys (web_cp w)) (who_session who) (who_user who) now \<and>
      (\<exists>p \<in> snd ` set (oa_pending (web_oauth w)). pd_client p = cd_client d \<and> now < pd_expires p)"
proof -
  obtain y w1 where g: "on_oauth (get_pending pid now) w = (y, w1)" by fastforce
  have "set (oa_tokens (web_oauth w')) \<subseteq> set (oa_tokens (web_oauth w)) \<and>
    ((h, d) \<in> set (oa_codes (web_oauth w')) \<longrightarrow> (h, d) \<in> set (oa_codes (web_oauth w)) \<or>
      cd_user d = who_user who \<and> key_live (keys (web_cp w)) (who_session who) (who_user who) now \<and>
      (\<exists>p \<in> snd ` set (oa_pending (web_oauth w)). pd_client p = cd_client d \<and> now < pd_expires p))"
  proof (cases y)
    case (Inl e)
    with assms g show ?thesis
      by (auto simp: approve_def on_oauth_def dest!: get_pending_loses split: prod.splits)
  next
    case p: (Inr p)
    from g p have w1: "w1 = w" "p \<in> snd ` set (oa_pending (web_oauth w))" "now < pd_expires p"
      by (auto simp: on_oauth_def dest!: get_pending_Inr split: prod.splits)
    obtain z w2 where z: "on_cp (share_session who TOKEN_TTL now r) w = (z, w2)" by fastforce
    then have o2: "web_oauth w2 = web_oauth w" by (auto simp: on_cp_def split: prod.splits)
    show ?thesis
    proof (cases z)
      case (Inl e)
      with assms g p w1(1) z o2 show ?thesis by (auto simp: approve_def)
    next
      case (Inr sid)
      from z Inr have live: "key_live (keys (web_cp w)) (who_session who) (who_user who) now"
        by (auto simp: on_cp_def share_session_def on_keys_def dest!: keys_clone_Inr(1) split: prod.splits)
      let ?d = "\<lparr>cd_client = pd_client p, cd_redirect = pd_redirect p, cd_challenge = pd_challenge p,
         cd_resource = pd_resource p, cd_user = who_user who, cd_session = sid, cd_expires = now + CODE_TTL\<rparr>"
      have "oa_tokens (web_oauth w') = oa_tokens (web_oauth w)"
        "oa_codes (web_oauth w') = AList.update (cp_hash cf fresh) ?d (oa_codes (web_oauth w))"
        using assms g p w1(1) z Inr o2 by (auto simp: approve_def Let_def log_oauth_def)
      moreover have "(h, d) \<in> set (AList.update (cp_hash cf fresh) ?d (oa_codes (web_oauth w))) \<Longrightarrow>
          (h, d) \<in> set (oa_codes (web_oauth w)) \<or> d = ?d"
        using set_update_sub [of "cp_hash cf fresh" ?d "oa_codes (web_oauth w)"] by auto
      moreover have "d = ?d \<Longrightarrow> cd_user d = who_user who \<and> (\<exists>p \<in> snd ` set (oa_pending (web_oauth w)). pd_client p = cd_client d \<and> now < pd_expires p)"
        using w1(2,3) by (intro conjI bexI [of _ p]) simp_all
      ultimately show ?thesis using live by (simp only:) blast
    qed
  qed
  then show "set (oa_tokens (web_oauth w')) \<subseteq> set (oa_tokens (web_oauth w))"
    and "(h, d) \<in> set (oa_codes (web_oauth w')) \<Longrightarrow> (h, d) \<in> set (oa_codes (web_oauth w)) \<or>
      cd_user d = who_user who \<and> key_live (keys (web_cp w)) (who_session who) (who_user who) now \<and>
      (\<exists>p \<in> snd ` set (oa_pending (web_oauth w)). pd_client p = cd_client d \<and> now < pd_expires p)" by blast+
qed


lemma brings_limited:
  assumes "\<And>u s1. web_of s1 = web_of s \<Longrightarrow> brings mw c s (po_oauth (snd (k u s1)))"
  shows "brings mw c s (po_oauth (snd (and_then (limited mw b n q now) k s)))"
proof -
  obtain x s1 where l: "limited mw b n q now s = (x, s1)" by fastforce
  have "brings mw c s (po_oauth s)" by (simp add: brings_def) blast
  with limited_frame(2,3) [OF l] l assms show ?thesis by (auto simp: and_then_def split: sum.split)
qed

lemma brings_eq: "web_of s1 = web_of s \<Longrightarrow> brings mw c s (po_oauth s1)"
  by (auto simp: web_of_def brings_def)

lemma brings_same: "po_oauth s' = po_oauth s \<Longrightarrow> brings mw c s (po_oauth s')"
  by (auto simp: brings_def)

lemma brings_console:
  assumes "\<And>who d x w. \<lbrakk>principal_from_token (mp_plane (mw_server mw)) (rq_cookie (wr_request q)) now (site_auth (po_site s)) = Inr who;
      rq_method (wr_request q) \<in> set UNSAFE \<Longrightarrow> \<exists>ori. rq_origin (wr_request q) = Some ori \<and> ori \<in> set (api_origins (mw_api mw));
      h who d (web_of s) = (x, w)\<rbrakk> \<Longrightarrow> brings mw c s (web_oauth w)"
  shows "brings mw c s (po_oauth (snd (console_route mw (console_path p) h q now s)))"
proof -
  obtain x t where a: "admit (mp_plane (mw_server mw)) (mw_api mw) (console_path p) (wr_request q) now (po_site s) = (x, t)" by fastforce
  have t: "t = po_site s" by (rule admit_hits [OF a])
  show ?thesis
  proof (cases "\<exists>who d. x = Inr (Some who, d)")
    case False
    then have "po_oauth (snd (console_route mw (console_path p) h q now s)) = po_oauth s"
      using a by (auto simp: console_route_def split: sum.splits prod.splits option.splits)
    then show ?thesis by (rule brings_same)
  next
    case True
    then obtain who d where x: "x = Inr (Some who, d)" by blast
    obtain y w where h: "h who d (web_of s) = (y, w)" by fastforce
    note adm = admit_Inr [OF a [unfolded x]]
    from adm(3) have "principal_from_token (mp_plane (mw_server mw)) (rq_cookie (wr_request q)) now (site_auth (po_site s)) = Inr who"
      by (simp add: console_path_def)
    from assms [OF this adm(1) h] show ?thesis
      using a x t h by (cases y) (simp_all add: console_route_def on_web_def)
  qed
qed

lemma redirected_eq: "redirected x = (r, w) \<Longrightarrow> \<exists>r'. x = (r', w)"
  by (auto simp: redirected_def split: prod.splits)

lemma brings_token: "token_op cf oc form now fresh (web_of s) = (x, w) \<Longrightarrow> brings mw c s (web_oauth w)"
  using token_from_code [of cf oc form now fresh "web_of s" x w] by (auto simp: brings_def)

lemma brings_approve:
  assumes "ca_route c = Approve" and "accepts Approve (ca_request c)"
    and who: "principal_from_token (mp_plane (mw_server mw)) (rq_cookie (wr_request (ca_request c))) (ca_now c) (site_auth (po_site s)) = Inr who"
    and ori: "rq_method (wr_request (ca_request c)) \<in> set UNSAFE \<Longrightarrow>
      \<exists>ori. rq_origin (wr_request (ca_request c)) = Some ori \<and> ori \<in> set (api_origins (mw_api mw))"
    and "approve cf oc who pid (ca_now c) fresh r (web_of s) = (x, w)"
  shows "brings mw c s (web_oauth w)"
proof -
  have "rq_method (wr_request (ca_request c)) \<in> set UNSAFE" using assms(2) by (auto simp: accepts_def Let_def UNSAFE_def)
  with ori obtain ori where ori: "rq_origin (wr_request (ca_request c)) = Some ori" "ori \<in> set (api_origins (mw_api mw))" by blast
  have "consented mw c s (cd_user d) (cd_client d)" if "(h, d) \<in> set (oa_codes (web_oauth w))" "(h, d) \<notin> set (oa_codes (po_oauth s))" for h d
  proof -
    from approve_brings(2) [OF assms(5) that(1)] that(2)
    have "cd_user d = who_user who" "key_live (keys (po_cp s)) (who_session who) (who_user who) (ca_now c)"
      "\<exists>p \<in> snd ` set (oa_pending (po_oauth s)). pd_client p = cd_client d \<and> ca_now c < pd_expires p" by simp_all
    with assms(1) ori who show ?thesis unfolding consented_def by metis
  qed
  with approve_brings(1) [OF assms(5)] show ?thesis by (auto simp: brings_def)
qed

lemma mcp_post_loses: "loses_tokens (web_of s) (web_of (snd (mcp_post mw q now r s)))"
proof -
  obtain rep s' where m: "mcp_post mw q now r s = (rep, s')" by fastforce
  from mcp_post_cases [OF m] m show ?thesis
    by (auto simp: handled_for_def turned_away_def undisturbed_by_def)
qed

lemma serve_brings:
  assumes "accepts (ca_route c) (ca_request c)"
  shows "brings mw c s (po_oauth (snd (serve mw c s)))"
proof (cases "ca_route c")
  case RegisterClient
  show ?thesis
    unfolding serve_def Let_def RegisterClient mcp_route.case post_register_def answered_state
    by (rule brings_limited) (auto simp: fails_def on_web_def intro!: brings_less intro: brings_eq dest!: on_cp_loses
        split: sum.splits prod.splits)
next
  case Authorize
  show ?thesis
    unfolding serve_def Let_def Authorize mcp_route.case authorize_def answered_state
    by (rule brings_limited) (auto simp: on_web_def intro!: brings_less dest!: authorize_loses split: prod.splits)
next
  case TokenEndpoint
  show ?thesis
    unfolding serve_def Let_def TokenEndpoint mcp_route.case token_endpoint_def answered_state
    by (rule brings_limited) (auto simp: fails_def on_web_def intro: brings_eq dest!: brings_token split: sum.splits prod.splits)
next
  case McpPost
  then show ?thesis
    using brings_less [OF mcp_post_loses] by (simp add: serve_def Let_def)
next
  case (PendingPage pid)
  show ?thesis
    unfolding serve_def Let_def PendingPage mcp_route.case
    by (rule brings_console) (auto simp: pending_page_def intro!: brings_less dest: describe_loses split: prod.splits)
next
  case Approve
  show ?thesis
    unfolding serve_def Let_def Approve mcp_route.case
    by (rule brings_console) (use Approve assms in \<open>auto dest!: redirected_eq intro: brings_approve\<close>)
next
  case Deny
  show ?thesis
    unfolding serve_def Let_def Deny mcp_route.case
    by (rule brings_console) (auto intro!: brings_less dest!: redirected_eq dest: deny_loses)
next
  case GrantsPage
  show ?thesis
    unfolding serve_def Let_def GrantsPage mcp_route.case
    by (rule brings_console) (auto simp: grants_page_def intro!: brings_less dest: grants_loses split: prod.splits)
next
  case (RevokeGrant gid)
  show ?thesis
    unfolding serve_def Let_def RevokeGrant mcp_route.case
    by (rule brings_console) (auto simp: revoke_grant_def intro!: brings_less dest: revoke_grant_loses split: prod.splits)
qed (simp_all add: serve_def Let_def brings_same [OF refl])

section \<open>Histories of the service\<close>

text \<open>
  A history: calls of these routes, each remembered with the state it met, and between them anything the rest of the
  service does, which never gives the OAuth server a token or a code (it only revokes, when an account is disabled).
\<close>

inductive history :: "'w mcp_web \<Rightarrow> 'w portal \<Rightarrow> (mcp_call \<times> 'w portal) list \<Rightarrow> 'w portal \<Rightarrow> bool" for mw s0 where
  begins: "history mw s0 [] s0"
| answers: "history mw s0 es s \<Longrightarrow> accepts (ca_route c) (ca_request c) \<Longrightarrow> history mw s0 (es @ [(c, s)]) (snd (serve mw c s))"
| elsewhere: "history mw s0 es s \<Longrightarrow> loses_tokens (web_of s) (web_of s') \<Longrightarrow> history mw s0 es s'"

lemma history_consent:
  assumes "history mw s0 es s" and "oa_codes (po_oauth s0) = []" and "oa_tokens (po_oauth s0) = []"
  shows "(\<forall>(h, d) \<in> set (oa_codes (po_oauth s)). \<exists>(c, s1) \<in> set es. consented mw c s1 (cd_user d) (cd_client d)) \<and>
    (\<forall>(h, t) \<in> set (oa_tokens (po_oauth s)). \<exists>(c, s1) \<in> set es. consented mw c s1 (tk_user t) (tk_client t))"
  using assms
proof (induction rule: history.induct)
  case begins
  then show ?case by simp
next
  case (answers es s c)
  from serve_brings [OF answers(2), of mw s] answers(3) [OF answers(4,5)] show ?case
    unfolding brings_def by fastforce
next
  case (elsewhere es s s')
  then show ?case by (auto simp: loses_tokens_def)
qed

text \<open>
  C31. Whatever calls arrive in whatever order, and whatever the rest of the service does in between, every bearer token
  the server knows belongs to a user who approved that very application: an earlier call of the approve route carried a
  console origin and the cookie of a web session of that user, whose key was unlocked, while a request of that
  application was waiting.
\<close>

theorem nobody_connected_unasked:
  assumes "history mw s0 es s" and "oa_codes (po_oauth s0) = []" and "oa_tokens (po_oauth s0) = []"
    and "(h, t) \<in> set (oa_tokens (po_oauth s))"
  shows "\<exists>(c, s1) \<in> set es. consented mw c s1 (tk_user t) (tk_client t)"
  using history_consent [OF assms(1,2,3)] assms(4) by blast


section \<open>A concrete history\<close>

text \<open>Ada, signed in and unlocked, approves the waiting request of an application, which then redeems its code.\<close>

definition demo_waiting :: "demo_world portal" where
  "demo_waiting = \<lparr>po_site = \<lparr>site_auth = (site_auth demo_site)\<lparr>as_unlocked := [(''htok'', ''s_tok'')]\<rparr>, site_hits = []\<rparr>,
     po_oauth = \<lparr>oa_pending = [(''p'', \<lparr>pd_client = ''c_1'', pd_redirect = ''https://c.d/'', pd_state = [], pd_challenge = [],
         pd_resource = [], pd_expires = 600\<rparr>)], oa_codes = [], oa_used = [], oa_tokens = []\<rparr>\<rparr>"

definition demo_approval :: mcp_call where
  "demo_approval = \<lparr>ca_route = Approve, ca_request = (demo_call ''application/json'' ''id'' None)
       \<lparr>wr_request := demo_request_post\<lparr>rq_origin := Some ''https://console.x'', rq_content_type := ''application/json'',
          rq_body := ''id''\<rparr>\<rparr>,
     ca_now = 10, ca_fresh = ''code'', ca_draws = other_draws\<rparr>"

definition demo_redemption :: mcp_call where
  "demo_redemption = \<lparr>ca_route = TokenEndpoint, ca_request = demo_call ''application/x-www-form-urlencoded''
       (''grant_type=authorization_code&code=code&client_id=c_1&redirect_uri=https://c.d/&code_verifier='' @ replicate 43 CHR ''v'') None,
     ca_now = 11, ca_fresh = ''bearer'', ca_draws = demo_draws\<rparr>"

lemma percent_plain:
  "list_all (\<lambda>c. of_char c < (128::nat) \<and> c \<noteq> CHR ''+'' \<and> c \<noteq> CHR ''%'') s \<Longrightarrow> percent_decode s = map of_char s"
  by (induction s) (auto simp: utf8_bytes_def)

lemma demo_utf8: "mw_utf8 demo_mcp_web (map of_char s) = s"
  by (simp add: demo_mcp_web_def comp_def)

lemma demo_text:
  "list_all (\<lambda>c. of_char c < (128::nat) \<and> c \<noteq> CHR ''+'' \<and> c \<noteq> CHR ''%'') s \<Longrightarrow> mw_utf8 demo_mcp_web (percent_decode s) = s"
  by (simp only: percent_plain demo_utf8)

lemma demo_form_read:
  "form_of demo_mcp_web (rq_body (wr_request (ca_request demo_redemption))) =
   [(''grant_type'', ''authorization_code''), (''code'', ''code''), (''client_id'', ''c_1''), (''redirect_uri'', ''https://c.d/''),
    (''code_verifier'', replicate 43 CHR ''v'')]"
  by (simp only: form_of_def demo_redemption_def mcp_call.select_convs demo_mcp_web_fields demo_utf8)
    (simp add: demo_text parse_qsl_def partition_at_def numeral_eq_Suc del: percent_decode.simps)

lemma demo_sends_json: "has_sub ''application/json'' ''application/json''"
  by code_simp

definition demo_code :: code where
  "demo_code = \<lparr>cd_client = ''c_1'', cd_redirect = ''https://c.d/'', cd_challenge = [], cd_resource = [], cd_user = ''u_0a0b0c'',
     cd_session = ''s_tok'', cd_expires = 70\<rparr>"

lemmas demo_console_defs = serve_def console_route_def console_path_def admit_def origin_ok_def rate_limited_def body_of_def
  caller_def demo_mcp_web_def demo_api_def demo_request_post_def UNSAFE_def MAX_BODY_def principal_from_token_def
  demo_waiting_def demo_site_def demo_auth_def principal_for_def user_def Let_def demo_sends_json

lemma demo_approved:
  "oa_codes (po_oauth (snd (serve demo_mcp_web demo_approval demo_waiting))) = [(''hcode'', demo_code)]"
  "oa_used (po_oauth (snd (serve demo_mcp_web demo_approval demo_waiting))) = []"
  "key_live (keys (po_cp (snd (serve demo_mcp_web demo_approval demo_waiting)))) ''s_tok'' ''u_0a0b0c'' 11"
  by (simp_all add: demo_approval_def demo_console_defs row_simps demo_code_def
      on_web_def redirected_def approve_def id_field_def on_oauth_def get_pending_def web_of_def on_cp_def share_session_def
      on_keys_def keys_clone_def keys_get_def TOKEN_TTL_def MAX_SESSION_TTL_def other_draws_def CODE_TTL_def log_oauth_def
      key_live_def del: has_sub.simps split: prod.splits sum.splits)

lemma demo_code_fits: "check_code demo_oauth [(''grant_type'', ''authorization_code''), (''code'', ''code''), (''client_id'', ''c_1''),
    (''redirect_uri'', ''https://c.d/''), (''code_verifier'', replicate 43 CHR ''v'')] 11 demo_code = Inr ()"
  by (simp add: check_code_def Let_def demo_code_def param_def get_default_def compare_digest_def is_ascii_def pkce_challenge_def
      demo_oauth_def b64_pad_def rstrip_by_def)

lemma key_live_expires: "key_live ks sid u now \<Longrightarrow> \<exists>e. keys_expires_at sid u now ks = (Inr e, ks)"
  by (auto simp: key_live_def keys_expires_at_def keys_get_def split: option.splits if_splits)

lemma demo_redeemed:
  "\<exists>t. (''hbearer'', t) \<in> set (oa_tokens (po_oauth (snd (serve demo_mcp_web demo_redemption
      (snd (serve demo_mcp_web demo_approval demo_waiting)))))) \<and> tk_user t = ''u_0a0b0c'' \<and> tk_client t = ''c_1''"
proof -
  let ?s = "snd (serve demo_mcp_web demo_approval demo_waiting)"
  let ?form = "form_of demo_mcp_web (rq_body (wr_request (ca_request demo_redemption)))"
  obtain x s1 where l: "limited demo_mcp_web ''oauth-token'' 30 (ca_request demo_redemption) 11 ?s = (x, s1)" by fastforce
  have "site_hits (po_site ?s) = []"
    by (simp add: serve_hits bucket_of_def demo_approval_def) (simp add: demo_waiting_def)
  with limited_frame(3,4) [OF l] have s1: "web_of s1 = web_of ?s" "x = Inr ()"
    by (auto simp: limiter_check_def hits_of_def)
  have f: "posted_form demo_mcp_web (ca_request demo_redemption) = Inr ?form"
  proof -
    have "has_sub ''application/x-www-form-urlencoded'' ''application/x-www-form-urlencoded''" by code_simp
    then show ?thesis by (simp add: posted_form_def raw_def demo_redemption_def Let_def del: has_sub.simps)
  qed
  obtain y w where t: "token_op (demo_plane no_aead) demo_oauth ?form 11 ''bearer'' (web_of ?s) = (y, w)" by fastforce
  have "param ?form ''code'' = ''code''" "map_of ?form ''grant_type'' = Some ''authorization_code''"
    by (simp_all add: demo_form_read param_def get_default_def)
  moreover have "check_code demo_oauth ?form 11 demo_code = Inr ()" using demo_code_fits by (simp only: demo_form_read)
  moreover obtain e where "keys_expires_at ''s_tok'' ''u_0a0b0c'' 11 (keys (po_cp ?s)) = (Inr e, keys (po_cp ?s))"
    using key_live_expires [OF demo_approved(3)] by blast
  ultimately obtain rep where y: "y = Inr rep"
    using t demo_approved(1,2)
    by (auto simp: token_op_def Let_def on_oauth_def take_code_def on_cp_def session_expiry_def on_keys_def demo_code_def)
  from t [unfolded y] have "\<exists>t. (''hbearer'', t) \<in> set (oa_tokens (web_oauth w)) \<and> tk_user t = ''u_0a0b0c'' \<and> tk_client t = ''c_1''"
  proof (rule token_Inr)
    fix c t s3
    assume "map_of (oa_codes (web_oauth (web_of ?s))) (cp_hash (demo_plane no_aead) (param ?form ''code'')) = Some c"
      and t: "tk_client t = cd_client c" "tk_user t = cd_user c"
      and w: "w = s3\<lparr>web_oauth := remember_code (cp_hash (demo_plane no_aead) (param ?form ''code'')) (cp_hash (demo_plane no_aead) ''bearer'')
                     ((web_oauth s3)\<lparr>oa_tokens := AList.update (cp_hash (demo_plane no_aead) ''bearer'') t (oa_tokens (web_oauth s3))\<rparr>)\<rparr>"
    then have "c = demo_code"
      using \<open>param ?form ''code'' = ''code''\<close> by (simp add: demo_approved(1))
    moreover have "map_of (oa_tokens (web_oauth w)) ''hbearer'' = Some t" by (simp add: w remember_code_def Let_def)
    ultimately show ?thesis using t map_of_SomeD by (fastforce simp: demo_code_def)
  qed
  moreover have "po_oauth (snd (serve demo_mcp_web demo_redemption ?s)) = web_oauth w"
    using l f t s1 by (simp add: serve_def demo_redemption_def token_endpoint_def and_then_def on_web_def)
  ultimately show ?thesis by simp
qed

theorem nobody_connected_unasked_witness:
  "\<exists>t (s :: demo_world portal). (''hbearer'', t) \<in> set (oa_tokens (po_oauth s)) \<and>
     (\<exists>(c, s1) \<in> {(demo_approval, demo_waiting), (demo_redemption, snd (serve demo_mcp_web demo_approval demo_waiting))}.
        consented demo_mcp_web c s1 (tk_user t) (tk_client t))"
proof -
  let ?s = "snd (serve demo_mcp_web demo_approval demo_waiting)"
  have "history demo_mcp_web demo_waiting ([] @ [(demo_approval, demo_waiting)]) ?s"
    by (intro history.answers history.begins) (simp add: demo_approval_def accepts_def demo_request_post_def)
  then have h: "history demo_mcp_web demo_waiting (([] @ [(demo_approval, demo_waiting)]) @ [(demo_redemption, ?s)])
      (snd (serve demo_mcp_web demo_redemption ?s))"
    by (rule history.answers) (simp add: demo_redemption_def accepts_def demo_call_def demo_request_post_def)
  obtain t where t: "(''hbearer'', t) \<in> set (oa_tokens (po_oauth (snd (serve demo_mcp_web demo_redemption ?s))))"
    using demo_redeemed by blast
  have "oa_codes (po_oauth demo_waiting) = []" "oa_tokens (po_oauth demo_waiting) = []" by (simp_all add: demo_waiting_def)
  from nobody_connected_unasked [OF h this t] have c: "\<exists>(c, s1) \<in> {(demo_approval, demo_waiting), (demo_redemption, ?s)}.
      consented demo_mcp_web c s1 (tk_user t) (tk_client t)"
    by (simp only: append.simps set_simps)
  show ?thesis by (rule exI [of _ t], rule exI [of _ "snd (serve demo_mcp_web demo_redemption ?s)"], rule conjI [OF t c])
qed

end
