(* ===== verification/Edge.thy ===== *)
theory Edge
  imports Naming
begin

text \<open>
  The shared edge (sirosid_core/edge.py): which Host header is replayed to which Fly app, the
  checks of its inputs, and the DNS records and certificate commands it prints. The texts of
  the generated nginx, fly.toml and HTML files are not modelled. Regular expressions are the
  recognisers below; Python's \<open>$\<close> also matches before a final newline.
\<close>

definition INSTANCE_APP_PREFIX :: string where "INSTANCE_APP_PREFIX = ''sid''"
definition EDGE_RESERVED_PREFIX :: string where "EDGE_RESERVED_PREFIX = INSTANCE_APP_PREFIX @ ''-''"

definition DEFAULT_COMPONENTS :: "string list" where
  "DEFAULT_COMPONENTS = [''wallet-frontend'', ''wallet-proxy'', ''vc-registry'', ''vc-verifier'', ''vc-apigw'', ''mini-oidc'']"

definition RESERVED_LABELS :: "string list" where "RESERVED_LABELS = [''console'', ''www'']"
definition REPLAY_TIMEOUT :: string where "REPLAY_TIMEOUT = ''10s''"

definition edge_error :: "string \<Rightarrow> exn" where
  "edge_error m = OtherError ''EdgeConfigError'' m"

section \<open>Patterns\<close>

definition drop_final_newline :: "string \<Rightarrow> string" where
  "drop_final_newline s = (if s \<noteq> [] \<and> last s = CHR 0x0A then butlast s else s)"

definition lower_alnum :: "char \<Rightarrow> bool" where
  "lower_alnum c = (is_lower c \<or> is_digit c)"

text \<open>\<open>_LABEL\<close>: at most 63 characters, hyphens inside only.\<close>

definition label_ok :: "string \<Rightarrow> bool" where
  "label_ok s = (s \<noteq> [] \<and> length s \<le> 63 \<and> lower_alnum (hd s) \<and> lower_alnum (last s) \<and>
                 list_all (\<lambda>c. lower_alnum c \<or> c = CHR ''-'') s)"

definition domain_match :: "string \<Rightarrow> bool" where
  "domain_match d =
     (let s = drop_final_newline d; ls = split_on CHR ''.'' s in
      1 \<le> length s \<and> length s \<le> 253 \<and> 2 \<le> length ls \<and> list_all label_ok ls)"

definition component_match :: "string \<Rightarrow> bool" where
  "component_match c =
     (let s = drop_final_newline c; ps = split_on CHR ''-'' s in
      s \<noteq> [] \<and> is_lower (hd s) \<and> list_all (\<lambda>p. p \<noteq> [] \<and> list_all lower_alnum p) ps)"

definition app_match :: "string \<Rightarrow> bool" where
  "app_match a = label_ok (drop_final_newline a)"

definition instance_id_ok :: "string \<Rightarrow> bool" where
  "instance_id_ok s = (length s = 8 \<and> list_all lower_alnum s)"

section \<open>Checks\<close>

definition check_domain :: "string \<Rightarrow> exn + string" where
  "check_domain d =
     (if \<not> domain_match d then
        Inl (edge_error (''domain '' @ py_repr d @ '': must be a lower-case DNS name of at least two labels '' @
             ''(letters, digits, inner hyphens; no trailing dot, port, wildcard or path)''))
      else if d \<in> {''fly.dev'', ''flycast'', ''internal''} \<or> ends_with ''.fly.dev'' d \<or> ends_with ''.internal'' d \<or>
              ends_with ''.flycast'' d then
        Inl (edge_error (''domain '' @ py_repr d @ '': Fly routes that name itself; the edge needs a domain we own''))
      else if fst (partition_at CHR ''.'' d) \<in> set RESERVED_LABELS then
        Inl (edge_error (''domain '' @ py_repr d @ '': its first label is reserved ('' @ join_with '', '' RESERVED_LABELS @ '')''))
      else Inr d)"

fun bad_component :: "string list \<Rightarrow> exn option" where
  "bad_component [] = None"
| "bad_component (c # cs) =
     (if \<not> component_match c \<or> c \<in> set RESERVED_LABELS
      then Some (edge_error (''component '' @ py_repr c @ '': must be lower-case [a-z0-9-] and not reserved''))
      else bad_component cs)"

definition check_components :: "string list \<Rightarrow> exn + string list" where
  "check_components comps =
     (if comps = [] then Inl (edge_error ''no components'')
      else case bad_component comps of
        Some e \<Rightarrow> Inl e
      | None \<Rightarrow> if \<not> distinct comps then Inl (edge_error ''duplicate component'') else Inr comps)"

definition check_edge_app :: "string \<Rightarrow> exn + string" where
  "check_edge_app a =
     (if \<not> app_match a then Inl (edge_error (''app '' @ py_repr a @ '': not a valid Fly app name''))
      else if starts_with EDGE_RESERVED_PREFIX a
      then Inl (edge_error (''app '' @ py_repr a @ '': the '' @ py_repr EDGE_RESERVED_PREFIX @ '' prefix is reserved for instances''))
      else Inr a)"

section \<open>Instance hosts\<close>

text \<open>
  Matching \<open>instance_host_regex(domain, components)\<close>: the alternatives are tried longest
  first, but the suffix fixes where the id stands, so at most one of them matches.
\<close>

definition regex_order :: "string list \<Rightarrow> string list" where
  "regex_order comps = sort_key (\<lambda>c. (- int (length c), c)) comps"

definition match_component :: "string \<Rightarrow> string \<Rightarrow> string \<Rightarrow> string option" where
  "match_component domain h c =
     (let rest = drop (length c) h; iid = take 8 (drop 1 rest) in
      if starts_with c h \<and> take 1 rest = ''-'' \<and> instance_id_ok iid \<and> drop 9 rest = ''.'' @ domain then Some iid else None)"

fun first_match :: "(string \<Rightarrow> string option) \<Rightarrow> string list \<Rightarrow> (string \<times> string) option" where
  "first_match f [] = None"
| "first_match f (c # cs) = (case f c of Some i \<Rightarrow> Some (c, i) | None \<Rightarrow> first_match f cs)"

definition instance_host :: "string \<Rightarrow> string list \<Rightarrow> string \<Rightarrow> exn + (string \<times> string) option" where
  "instance_host domain comps h =
     bind_sum (check_domain domain) (\<lambda>d.
       bind_sum (check_components comps) (\<lambda>cs.
         Inr (first_match (match_component d (drop_final_newline h)) (regex_order cs))))"

definition raw_char_ok :: "char \<Rightarrow> bool" where
  "raw_char_ok c = (is_lower c \<or> is_upper c \<or> is_digit c \<or> c = CHR ''-'')"

definition raw_host_ok :: "string \<Rightarrow> bool" where
  "raw_host_ok raw =
     (let ls = split_on CHR ''.'' (drop_final_newline raw) in
      2 \<le> length ls \<and> list_all (\<lambda>l. l \<noteq> [] \<and> length l \<le> 63 \<and> list_all raw_char_ok l) ls)"

definition replay_value :: "string \<Rightarrow> string" where
  "replay_value iid = ''app='' @ INSTANCE_APP_PREFIX @ ''-'' @ iid @ '';timeout='' @ REPLAY_TIMEOUT @ '';fallback=prefer_self''"

section \<open>Routing\<close>

datatype answer = Bad_request | Static | Not_found | Unavailable | Replay string

definition control_char :: "char \<Rightarrow> bool" where
  "control_char c = (let n = (of_char c :: nat) in n \<le> 32 \<or> n = 127)"

definition bad_host :: "string \<Rightarrow> bool" where
  "bad_host raw = (CHR ''/'' \<in> set raw \<or> CHR 0x5C \<in> set raw \<or> has_sub ''..'' raw \<or> list_ex control_char raw)"

text \<open>nginx's \<open>$host\<close>: lower case, no port, no final dot.\<close>

definition nginx_host :: "string \<Rightarrow> string" where
  "nginx_host raw =
     (let h = py_lower raw;
          h1 = (if CHR '':'' \<in> set h \<and> \<not> starts_with ''['' h then fst (partition_at CHR '':'' h) else h)
      in if ends_with ''.'' h1 then butlast h1 else h1)"

definition route :: "string option \<Rightarrow> string \<Rightarrow> string list \<Rightarrow> bool \<Rightarrow> exn + answer" where
  "route host_header domain comps replay_failed =
     (let raw = (case host_header of None \<Rightarrow> [] | Some h \<Rightarrow> h) in
      if bad_host raw then Inr Bad_request
      else
        let h = nginx_host raw in
        if h = domain \<or> h = ''www.'' @ domain then Inr Static
        else bind_sum (if raw_host_ok raw then instance_host domain comps h else Inr None) (\<lambda>m.
          case m of
            None \<Rightarrow> Inr Not_found
          | Some (c, iid) \<Rightarrow>
              if replay_failed then Inr Unavailable else Inr (Replay (INSTANCE_APP_PREFIX @ ''-'' @ iid))))"

section \<open>DNS and certificates\<close>

definition dns_records :: "string \<Rightarrow> string \<Rightarrow> string \<Rightarrow> string \<Rightarrow> exn + (string \<times> string \<times> string) list" where
  "dns_records domain a ipv4 ipv6 =
     bind_sum (check_domain domain) (\<lambda>_. bind_sum (check_edge_app a) (\<lambda>_.
       Inr (concat (map (\<lambda>n.
          (if ipv4 \<noteq> [] then [(n, ''A'', ipv4)] else []) @
          (if ipv6 \<noteq> [] then [(n, ''AAAA'', ipv6)] else []) @
          (if ipv4 = [] \<and> ipv6 = [] then
             [if n \<noteq> domain then (n, ''CNAME'', a @ ''.fly.dev'') else (n, ''A/AAAA'', ''<'' @ a @ [CHR 0x27] @ ''s IPs>'')]
           else []))
         [domain, ''*.'' @ domain, ''www.'' @ domain]))))"

definition cert_commands :: "string \<Rightarrow> string \<Rightarrow> exn + string list" where
  "cert_commands domain a =
     bind_sum (check_domain domain) (\<lambda>_. bind_sum (check_edge_app a) (\<lambda>_.
       Inr (map (\<lambda>n. ''flyctl certs add '' @ n @ '' -a '' @ a) [domain, ''www.'' @ domain, ''*.'' @ domain])))"

section \<open>The edge routes an instance host, and nothing else, to that instance\<close>

lemma split_on_nonempty [simp]: "split_on c s \<noteq> []"
  by (induction s) (auto split: list.splits)

lemma split_on_append: "c \<notin> set a \<Longrightarrow> split_on c (a @ c # b) = a # split_on c b"
  by (induction a) auto

lemma split_on_set: "x \<in> set s \<Longrightarrow> x \<noteq> c \<Longrightarrow> \<exists>w \<in> set (split_on c s). x \<in> set w"
  by (induction s) (auto split: list.splits)

lemma double_separator: "has_sub [c, c] s \<Longrightarrow> [] \<in> set (tl (split_on c s))"
proof (induction s)
  case (Cons x s)
  show ?case
  proof (cases "starts_with [c, c] (x # s)")
    case False
    with Cons have "[] \<in> set (tl (split_on c s))" by simp
    then show ?thesis by (cases "split_on c s") auto
  qed (auto simp: starts_with_iff)
qed simp

lemma last_split: "s \<noteq> [] \<Longrightarrow> last s = c \<Longrightarrow> [] \<in> set (tl (split_on c s))"
proof (induction s)
  case (Cons x s)
  then show ?case by (cases "s = []"; cases "split_on c s") auto
qed simp

text \<open>A header that passes the raw check holds letters, digits, hyphens and inner dots only.\<close>

lemma raw_host_chars:
  assumes "raw_host_ok raw" and "CHR 0x0A \<notin> set raw"
  shows "list_all (\<lambda>c. raw_char_ok c \<or> c = CHR ''.'') raw" and "raw \<noteq> []" and "last raw \<noteq> CHR ''.''"
proof -
  have d: "drop_final_newline raw = raw" using assms(2) by (metis drop_final_newline_def last_in_set)
  have ok: "\<And>l. l \<in> set (split_on CHR ''.'' raw) \<Longrightarrow> l \<noteq> [] \<and> list_all raw_char_ok l"
    and two: "2 \<le> length (split_on CHR ''.'' raw)"
    using assms(1) by (auto simp: raw_host_ok_def Let_def d list_all_iff)
  show ne: "raw \<noteq> []" using two by auto
  show "list_all (\<lambda>c. raw_char_ok c \<or> c = CHR ''.'') raw"
    using ok by (force simp: list_all_iff dest: split_on_set)
  show "last raw \<noteq> CHR ''.''" using ne ok last_split [of raw "CHR ''.''"] by (metis list.set_sel(2) split_on_nonempty)
qed

lemma of_char_inject_nat: "c = d \<longleftrightarrow> (of_char c :: nat) = of_char d"
  by (simp add: of_char_eq_iff)

lemma lower_char_nat:
  "of_char (lower_char c) = (let n = (of_char c :: nat) in
     if (65 \<le> n \<and> n \<le> 90) \<or> (192 \<le> n \<and> n \<le> 222 \<and> n \<noteq> 215) then n + 32 else n)"
  by (simp add: lower_char_def Let_def of_char_of)

lemma lower_raw_char:
  "raw_char_ok c \<or> c = CHR ''.'' \<Longrightarrow> lower_char c \<noteq> CHR 0x0A \<and> lower_char c \<noteq> CHR '':'' \<and> (lower_char c = CHR ''.'' \<longleftrightarrow> c = CHR ''.'')"
  unfolding raw_char_ok_def is_lower_def is_upper_def is_digit_def Let_def of_char_inject_nat lower_char_nat
  by simp presburger

lemma nginx_host_raw:
  assumes "raw_host_ok raw" and "CHR 0x0A \<notin> set raw"
  shows "nginx_host raw = py_lower raw"
proof -
  note chars = raw_host_chars [OF assms]
  have "\<forall>c \<in> set raw. lower_char c \<noteq> CHR '':''"
    using chars(1) lower_raw_char by (simp add: list_all_iff)
  then have no_colon: "CHR '':'' \<notin> set (py_lower raw)" by (auto simp: py_lower_def)
  have "lower_char (last raw) \<noteq> CHR ''.''"
    using chars lower_raw_char [of "last raw"] last_in_set [OF chars(2)] unfolding list_all_iff by blast
  then have "\<not> ends_with ''.'' (py_lower raw)"
    using chars(2) by (auto simp: ends_with_iff py_lower_def last_map map_eq_append_conv)
  with no_colon show ?thesis by (simp add: nginx_host_def Let_def)
qed

lemma first_match_Some:
  "first_match f cs = Some (c, i) \<Longrightarrow> c \<in> set cs \<and> f c = Some i"
  by (induction cs) (auto split: option.splits)

lemma match_component_iff:
  "match_component d h c = Some i \<longleftrightarrow> instance_id_ok i \<and> h = c @ ''-'' @ i @ ''.'' @ d"
proof
  assume m: "match_component d h c = Some i"
  let ?rest = "drop (length c) h"
  from m have "h = c @ ?rest" and r: "take 1 ?rest = ''-''" "instance_id_ok i" "i = take 8 (drop 1 ?rest)" "drop 9 ?rest = ''.'' @ d"
    by (auto simp: match_component_def Let_def starts_with_iff split: if_splits)
  moreover have "?rest = take 1 ?rest @ take 8 (drop 1 ?rest) @ drop 8 (drop 1 ?rest)"
    by (simp only: append_take_drop_id)
  moreover have "drop 8 (drop 1 ?rest) = drop 9 ?rest" by (simp only: drop_drop) simp
  ultimately show "instance_id_ok i \<and> h = c @ ''-'' @ i @ ''.'' @ d" by metis
next
  assume "instance_id_ok i \<and> h = c @ ''-'' @ i @ ''.'' @ d"
  then show "match_component d h c = Some i"
    by (auto simp: match_component_def Let_def instance_id_ok_def)
qed

text \<open>The suffix fixes the id, so the order of the alternatives is irrelevant.\<close>

lemma match_component_unique:
  assumes "match_component d h c = Some i" and "match_component d h c' = Some i'"
  shows "c = c' \<and> i = i'"
proof -
  from assms have h: "c @ ''-'' @ i @ ''.'' @ d = c' @ ''-'' @ i' @ ''.'' @ d"
    and len: "length (''-'' @ i @ ''.'' @ d) = length (''-'' @ i' @ ''.'' @ d)"
    by (auto simp: match_component_iff instance_id_ok_def)
  from append_eq_append_conv [THEN iffD1, OF disjI2 [OF len] h] show ?thesis by simp
qed

lemma first_match_member:
  assumes "f c = Some i" and "c \<in> set cs" and only: "\<And>x j. f x = Some j \<Longrightarrow> x = c"
  shows "first_match f cs = Some (c, i)"
  using assms(2)
proof (induction cs)
  case (Cons x xs)
  show ?case
  proof (cases "f x")
    case None
    with Cons assms(1) show ?thesis by auto
  next
    case (Some j)
    with only [OF Some] assms(1) show ?thesis by simp
  qed
qed simp

text \<open>A replay names an instance of the domain and one of its components, and only such hosts are replayed.\<close>

lemma route_replay:
  assumes "route (Some raw) domain comps failed = Inr (Replay a)"
  obtains c iid where "c \<in> set comps" "instance_id_ok iid" "py_lower raw = c @ ''-'' @ iid @ ''.'' @ domain"
    "a = INSTANCE_APP_PREFIX @ ''-'' @ iid" "\<not> failed"
proof -
  have nb: "\<not> bad_host raw" and ok: "raw_host_ok raw" and nf: "\<not> failed"
    using assms by (auto simp: route_def Let_def split: if_splits option.splits prod.splits)
  then have nl: "CHR 0x0A \<notin> set raw" by (auto simp: bad_host_def list_ex_iff control_char_def)
  obtain c iid where m: "instance_host domain comps (nginx_host raw) = Inr (Some (c, iid))" and a: "a = INSTANCE_APP_PREFIX @ ''-'' @ iid"
    using assms nb ok nf by (auto simp: route_def Let_def split: if_splits option.splits prod.splits)
  from m obtain d cs where d: "check_domain domain = Inr d" "check_components comps = Inr cs"
    and f: "first_match (match_component d (drop_final_newline (nginx_host raw))) (regex_order cs) = Some (c, iid)"
    by (auto simp: instance_host_def)
  have dc: "d = domain" "cs = comps"
    using d by (auto simp: check_domain_def check_components_def split: if_splits option.splits)
  have h: "nginx_host raw = py_lower raw" by (rule nginx_host_raw [OF ok nl])
  have "CHR 0x0A \<notin> set (py_lower raw)"
  proof
    assume "CHR 0x0A \<in> set (py_lower raw)"
    then obtain x where "x \<in> set raw" "lower_char x = CHR 0x0A" by (auto simp: py_lower_def)
    with raw_host_chars(1) [OF ok nl] lower_raw_char [of x] show False unfolding list_all_iff by blast
  qed
  then have "drop_final_newline (py_lower raw) = py_lower raw" by (metis drop_final_newline_def last_in_set)
  with f h dc first_match_Some [OF f] show thesis
    using that [of c iid] a nf by (auto simp: match_component_iff regex_order_def)
qed

text \<open>Conversely every component host of an instance is replayed to it.\<close>

lemma lower_alnum_raw: "lower_alnum c \<or> c = CHR ''-'' \<Longrightarrow> raw_char_ok c \<and> lower_char c = c \<and> c \<noteq> CHR ''.'' \<and> c \<noteq> CHR 0x0A"
  unfolding raw_char_ok_def lower_alnum_def is_lower_def is_upper_def is_digit_def Let_def of_char_inject_nat lower_char_nat
  by simp presburger

lemma raw_char_plain: "raw_char_ok c \<or> c = CHR ''.'' \<Longrightarrow> c \<noteq> CHR ''/'' \<and> c \<noteq> CHR 0x5C \<and> c \<noteq> CHR 0x0A \<and> \<not> control_char c"
  unfolding raw_char_ok_def control_char_def is_lower_def is_upper_def is_digit_def Let_def of_char_inject_nat
  by simp presburger

lemma label_raw: "label_ok l \<Longrightarrow> l \<noteq> [] \<and> length l \<le> 63 \<and> list_all raw_char_ok l \<and> map lower_char l = l"
  using lower_alnum_raw by (auto simp: label_ok_def list_all_iff intro: map_idI)

lemma map_fixed: "map f s = s \<longleftrightarrow> (\<forall>c \<in> set s. f c = c)"
  by (induction s) auto

lemma labels_of_host:
  assumes "list_all label_ok ls" "ls = split_on CHR ''.'' h" "2 \<le> length ls"
  shows "raw_host_ok h" and "\<not> bad_host h" and "py_lower h = h" and "CHR 0x0A \<notin> set h"
proof -
  have lab: "\<And>l. l \<in> set (split_on CHR ''.'' h) \<Longrightarrow> l \<noteq> [] \<and> length l \<le> 63 \<and> list_all raw_char_ok l \<and> map lower_char l = l"
    using assms(1,2) label_raw by (auto simp: list_all_iff)
  have ch: "raw_char_ok c \<and> lower_char c = c" if "c \<in> set h" "c \<noteq> CHR ''.''" for c
    using split_on_set [OF that] lab by (force simp: list_all_iff map_fixed)
  then have plain: "\<And>c. c \<in> set h \<Longrightarrow> raw_char_ok c \<or> c = CHR ''.''" by blast
  from raw_char_plain plain show nl: "CHR 0x0A \<notin> set h" by blast
  then have nn: "drop_final_newline h = h" by (metis drop_final_newline_def last_in_set)
  show "raw_host_ok h" using lab assms(2,3) by (auto simp: raw_host_ok_def Let_def nn list_all_iff)
  have "lower_char (CHR ''.'') = CHR ''.''" by code_simp
  with ch show "py_lower h = h" unfolding py_lower_def map_fixed by metis
  have "\<not> has_sub ''..'' h"
    using double_separator [of "CHR ''.''" h] lab by (auto dest!: list.set_sel(2) [OF split_on_nonempty])
  moreover have "CHR ''/'' \<notin> set h" "CHR 0x5C \<notin> set h" "\<not> list_ex control_char h"
    using raw_char_plain plain unfolding list_ex_iff by blast+
  ultimately show "\<not> bad_host h" by (simp add: bad_host_def)
qed

lemma check_domain_labels:
  assumes "check_domain d = Inr d'" and "CHR 0x0A \<notin> set d"
  shows "d' = d" and "list_all label_ok (split_on CHR ''.'' d)" and "2 \<le> length (split_on CHR ''.'' d)"
proof -
  have "drop_final_newline d = d" using assms(2) by (metis drop_final_newline_def last_in_set)
  with assms(1) show "d' = d" "list_all label_ok (split_on CHR ''.'' d)" "2 \<le> length (split_on CHR ''.'' d)"
    by (auto simp: check_domain_def domain_match_def Let_def split: if_splits)
qed

lemma route_instance:
  assumes d: "check_domain domain = Inr domain" "CHR 0x0A \<notin> set domain" and cs: "check_components comps = Inr comps"
    and c: "c \<in> set comps" "c \<noteq> []" "lower_alnum (hd c)" "list_all (\<lambda>x. lower_alnum x \<or> x = CHR ''-'') c" "length c + 9 \<le> 63"
    and iid: "instance_id_ok iid"
  shows "route (Some (c @ ''-'' @ iid @ ''.'' @ domain)) domain comps failed =
         Inr (if failed then Unavailable else Replay (INSTANCE_APP_PREFIX @ ''-'' @ iid))"
proof -
  let ?l = "c @ ''-'' @ iid" and ?h = "c @ ''-'' @ iid @ ''.'' @ domain"
  have chars: "list_all (\<lambda>x. lower_alnum x \<or> x = CHR ''-'') ?l" and iid8: "length iid = 8" "lower_alnum (last ?l)"
    using c(4) iid by (auto simp: instance_id_ok_def list_all_iff)
  then have lab: "label_ok ?l" using c by (simp add: label_ok_def)
  have "CHR ''.'' \<notin> set ?l" using chars lower_alnum_raw unfolding list_all_iff by blast
  then have sp: "split_on CHR ''.'' ?h = ?l # split_on CHR ''.'' domain"
    using split_on_append [of "CHR ''.''" ?l domain] by simp
  have "list_all label_ok (split_on CHR ''.'' ?h)" "2 \<le> length (split_on CHR ''.'' ?h)"
    using check_domain_labels [OF d] lab unfolding sp by auto
  note h = labels_of_host [OF this(1) refl this(2)]
  have nx: "nginx_host ?h = ?h" using nginx_host_raw [OF h(1,4)] h(3) by simp
  have fm: "first_match (match_component domain ?h) (regex_order comps) = Some (c, iid)"
  proof (rule first_match_member)
    show m: "match_component domain ?h c = Some iid" using iid by (simp add: match_component_iff)
    show "c \<in> set (regex_order comps)" using c(1) by (simp add: regex_order_def)
    show "x = c" if "match_component domain ?h x = Some j" for x j
      using match_component_unique [OF that m] by blast
  qed
  have "drop_final_newline ?h = ?h" using h(4) by (metis drop_final_newline_def last_in_set)
  with fm have ih: "instance_host domain comps ?h = Inr (Some (c, iid))"
    by (simp only: instance_host_def d(1) cs bind_sum.simps)
  have "length ?h \<noteq> length domain" "length ?h \<noteq> length (''www.'' @ domain)" using iid8(1) by simp_all
  then have "?h \<noteq> domain" "?h \<noteq> ''www.'' @ domain" by metis+
  with h(1,2) nx ih show ?thesis by (simp add: route_def Let_def)
qed

end
