(* ===== verification/Platform.thy ===== *)
theory Platform
  imports Templates Android State Edge Effects Health
begin

text \<open>
  The promises of sirosid_core towards the services: names and round trips (naming.py, spec.py,
  android.py), what a config may and may not change (policy.py, templates.py), where a host is
  routed (edge.py), what is written where (state.py) and what reaches Fly (fly.py, machines.py,
  lifecycle.py).
\<close>

section \<open>Names\<close>

text \<open>
  C32. Names are a faithful encoding: a naming is read back from its stored form, and under one prefix the app of a
  component determines the instance and the component, and is never the app of a single-machine instance (ids have no
  hyphen).
\<close>

theorem naming_is_faithful:
  assumes "naming_ok n" and "naming_ok m" and "n_app_prefix n = n_app_prefix m"
    and "CHR ''-'' \<notin> set (n_env n)" and "CHR ''-'' \<notin> set (n_env m)"
  shows "from_dict (to_dict n) = Inr n \<and> (app n c = app m d) = (n_env n = n_env m \<and> c = d) \<and>
    (machine_app n = machine_app m) = (n_env n = n_env m) \<and> machine_app n \<noteq> app m d"
  using naming_roundtrip [OF assms(1)] app_component_inject [of n c m d] machine_app_inject [OF assms(3)]
    machine_app_not_component_app [OF assms(3,4)] assms(3-5)
  by (auto simp: app_def)

theorem naming_is_faithful_witness:
  "\<exists>n m. from_dict (to_dict n) = Inr n \<and> app n ''issuer'' \<noteq> app m ''issuer''"
proof -
  let ?n = "\<lparr>n_env = ''aaaaaaaa'', n_app_prefix = ''sid'', n_host_pattern = ''{app}.fly.dev'', n_layout = LAYOUT_APPS\<rparr>"
  let ?m = "\<lparr>n_env = ''bbbbbbbb'', n_app_prefix = ''sid'', n_host_pattern = ''{app}.fly.dev'', n_layout = LAYOUT_APPS\<rparr>"
  have "naming_ok ?n" "naming_ok ?m" by (simp_all add: naming_ok_def LAYOUTS_def)
  from naming_is_faithful [OF this, of "''issuer''" "''issuer''"] show ?thesis by (intro exI [of _ ?n] exI [of _ ?m]) simp
qed

text \<open>
  A spec survives being stored: parsing its dictionary form gives back exactly the spec, secrets of the layout and
  all optional parts included.
\<close>

theorem spec_store_and_load: "spec_from_dict (JObj (spec_to_dict True s)) = Inr s"
  by (rule spec_roundtrip)

section \<open>What a config can change\<close>





text \<open>
  Granting capabilities never breaks a saved config: what validates under some capabilities validates under more.
\<close>

theorem more_capabilities_validate:
  assumes "validate saved caps pol = []" and "set caps \<subseteq> set caps'"
  shows "validate saved caps' pol = []"
  by (rule validate_mono [OF assms])

theorem more_capabilities_validate_witness: "validate (JObj []) CAPABILITIES default_policy = []"
  by (rule more_capabilities_validate [of _ "[]"])
    (simp_all add: validate_def check_head_def check_list_def list_of_def check_android_def check_flags_def
        check_images_def check_values_def default_policy_def dict_has_def json_eq_def SCHEMA_VERSION_def)

text \<open>
  Every template the console offers passes the policy for an account that has the capabilities it asks for, on any
  platform that has a default channel and accepts the pinned image.
\<close>

theorem templates_pass_policy:
  assumes "t \<in> set (template_list pin)" and "set (tm_requires t) \<subseteq> set caps" and "dict_has (pp_channels pol) ''default''"
    and "\<And>p. check_image pin p pol = None"
  shows "validate (JObj (tm_config t)) caps pol = []"
  by (rule template_validates [OF assms])

lemma fallback_allowed: "check_image (JStr WALLET_BACKEND_FALLBACK) p default_policy = None"
proof -
  have "parse_image (JStr WALLET_BACKEND_FALLBACK) =
    Inr \<lparr>ir_host = ''ghcr.io'', ir_repo = ''sirosfoundation/go-wallet-backend'', ir_tag = ''main'', ir_digest = []\<rparr>"
    by code_simp
  moreover have "before_colon ''ghcr.io'' = ''ghcr.io''" "''ghcr.io'' \<notin> set FORBIDDEN_REGISTRIES" "\<not> bad_suffix ''ghcr.io''"
    "ip_address ''ghcr.io'' = None" by code_simp+
  ultimately show ?thesis by (simp add: check_image_def default_policy_def)
qed

theorem templates_pass_policy_witness:
  "list_all (\<lambda>t. validate (JObj (tm_config t)) CAPABILITIES default_policy = []) (template_list (JStr WALLET_BACKEND_FALLBACK))"
proof -
  have "validate (JObj (tm_config t)) CAPABILITIES default_policy = []" if "t \<in> set (template_list (JStr WALLET_BACKEND_FALLBACK))" for t
  proof (rule templates_pass_policy [OF that])
    show "set (tm_requires t) \<subseteq> set CAPABILITIES" using that by (auto simp: template_list_def CAPABILITIES_def)
    show "dict_has (pp_channels default_policy) ''default''" by (simp add: default_policy_def dict_has_def)
  qed (rule fallback_allowed)
  then show ?thesis by (simp add: list_all_iff)
qed

text \<open>
  The two notations of an Android signing certificate agree: every fingerprint that is accepted, in any spelling, gives
  a key hash whose canonical fingerprint gives the same key hash again.
\<close>

theorem fingerprint_and_hash_agree:
  assumes "hex_to_apk_key_hash fp = Inr h"
  shows "\<exists>canonical. apk_key_hash_to_hex h = Inr canonical \<and> hex_to_apk_key_hash canonical = Inr h"
  by (rule apk_key_hash_roundtrip [OF assms])

theorem fingerprint_and_hash_agree_witness:
  "\<exists>h canonical. hex_to_apk_key_hash ''00:ff'' = Inr h \<and> apk_key_hash_to_hex h = Inr canonical \<and> hex_to_apk_key_hash canonical = Inr h"
proof -
  have h: "hex_to_apk_key_hash ''00:ff'' = Inr ''AP8''" by code_simp
  with fingerprint_and_hash_agree [OF h] show ?thesis by blast
qed

section \<open>Routing\<close>

text \<open>
  C34. The edge sends a request to an instance only if its host is one of the known components, the instance's id and the
  domain, and then to the one app of that id; no other host reaches any app.
\<close>

theorem edge_is_sound:
  assumes "route (Some raw) domain comps failed = Inr (Replay a)"
  shows "\<exists>c iid. c \<in> set comps \<and> instance_id_ok iid \<and> py_lower raw = c @ ''-'' @ iid @ ''.'' @ domain \<and>
    a = INSTANCE_APP_PREFIX @ ''-'' @ iid \<and> \<not> failed \<and>
    (\<forall>c' iid'. (c' \<in> set comps \<and> instance_id_ok iid' \<and> py_lower raw = c' @ ''-'' @ iid' @ ''.'' @ domain) = (c' = c \<and> iid' = iid))"
proof -
  obtain c iid where r: "c \<in> set comps" "instance_id_ok iid" "py_lower raw = c @ ''-'' @ iid @ ''.'' @ domain"
    "a = INSTANCE_APP_PREFIX @ ''-'' @ iid" "\<not> failed"
    by (rule route_replay [OF assms])
  have "c' = c \<and> iid' = iid" if "instance_id_ok iid'" "py_lower raw = c' @ ''-'' @ iid' @ ''.'' @ domain" for c' iid'
    using match_component_unique [of domain "py_lower raw" c' iid' c iid] r(2,3) that by (simp add: match_component_iff)
  with r show ?thesis by blast
qed

lemma demo_labels: "check_domain ''a.bc'' = Inr ''a.bc''" "check_components [''issuer''] = Inr [''issuer'']" "instance_id_ok ''abcdefgh''"
  by code_simp+

lemma demo_routed: "route (Some ''issuer-abcdefgh.a.bc'') ''a.bc'' [''issuer''] False = Inr (Replay ''sid-abcdefgh'')"
proof -
  have "lower_alnum (hd ''issuer'')" "list_all (\<lambda>x. lower_alnum x \<or> x = CHR ''-'') ''issuer''" by code_simp+
  with route_instance [OF demo_labels(1) _ demo_labels(2), of "''issuer''" "''abcdefgh''" False] demo_labels(3) show ?thesis
    by (simp add: INSTANCE_APP_PREFIX_def)
qed

theorem edge_is_sound_witness: "\<exists>c iid. ''issuer-abcdefgh.a.bc'' = c @ ''-'' @ iid @ ''.a.bc'' \<and> ''sid-abcdefgh'' = INSTANCE_APP_PREFIX @ ''-'' @ iid"
proof -
  have "py_lower ''issuer-abcdefgh.a.bc'' = ''issuer-abcdefgh.a.bc''" by code_simp
  moreover obtain c iid where "py_lower ''issuer-abcdefgh.a.bc'' = c @ ''-'' @ iid @ ''.'' @ ''a.bc''"
    "''sid-abcdefgh'' = INSTANCE_APP_PREFIX @ ''-'' @ iid"
    using edge_is_sound [OF demo_routed] by (elim exE conjE) (rule that)
  ultimately show ?thesis by (intro exI [of _ c] exI [of _ iid]) (simp only: append.assoc append.simps)
qed

text \<open>
  Names and edge agree: for a single-machine instance whose host pattern is the flat one of the edge's domain, the
  host the service publishes for a component is routed to the instance's own app.
\<close>

theorem published_host_is_routed:
  assumes "check_domain domain = Inr domain" and "CHR 0x0A \<notin> set domain" and "check_components comps = Inr comps"
    and "c \<in> set comps" "c \<noteq> []" "lower_alnum (hd c)" "list_all (\<lambda>x. lower_alnum x \<or> x = CHR ''-'') c" "length c + 9 \<le> 63"
    and "instance_id_ok (n_env n)" and "n_app_prefix n = INSTANCE_APP_PREFIX"
    and "n_host_pattern n = ''{component}-{id}.'' @ domain"
  shows "\<exists>h. host n c = Inr h \<and> route (Some h) domain comps False = Inr (Replay (machine_app n))"
proof -
  have l: "list_all label_ok (split_on CHR ''.'' domain)" by (rule check_domain_labels(2) [OF assms(1,2)])
  have "x \<notin> {CHR ''{'', CHR ''}''}" if "x \<in> set domain" for x
  proof (cases "x = CHR ''.''")
    case False
    from split_on_set [OF that this] l have "lower_alnum x \<or> x = CHR ''-''" by (auto simp: list_all_iff label_ok_def)
    then show ?thesis by (auto simp: lower_alnum_def is_lower_def is_digit_def)
  qed simp
  then have "format_from d None domain = Inr domain" for d by (intro format_literal) blast+
  then have "host n c = Inr (c @ ''-'' @ n_env n @ ''.'' @ domain)"
    using assms(11) by (simp add: host_def py_format_def format_field_def is_digit_def)
  with route_instance [OF assms(1-9), of False] assms(10) show ?thesis by (simp add: machine_app_def)
qed

theorem published_host_is_routed_witness:
  "\<exists>h. host \<lparr>n_env = ''abcdefgh'', n_app_prefix = ''sid'', n_host_pattern = ''{component}-{id}.a.bc'', n_layout = LAYOUT_SINGLE_MACHINE\<rparr> ''issuer'' = Inr h \<and>
     route (Some h) ''a.bc'' [''issuer''] False = Inr (Replay ''sid-abcdefgh'')"
proof -
  let ?n = "\<lparr>n_env = ''abcdefgh'', n_app_prefix = ''sid'', n_host_pattern = ''{component}-{id}.a.bc'', n_layout = LAYOUT_SINGLE_MACHINE\<rparr>"
  have "lower_alnum (hd ''issuer'')" "list_all (\<lambda>x. lower_alnum x \<or> x = CHR ''-'') ''issuer''" by code_simp+
  with published_host_is_routed [OF demo_labels(1) _ demo_labels(2), of "''issuer''" ?n] demo_labels(3) show ?thesis
    by (simp add: INSTANCE_APP_PREFIX_def machine_app_def)
qed

section \<open>Files\<close>

text \<open>
  C35. Unpacking an instance's saved state writes below the working directory only: whatever paths the blobs carry, a file
  that changed lies strictly below it, and if the import succeeds every blob was an instance state file.
\<close>

theorem import_stays_below:
  assumes "import_state dir bs fs = (r, fs')"
  shows "(map_of fs' p = map_of fs p \<or> strictly_below dir p) \<and>
    (is_err r \<or> list_all (\<lambda>(rel, b). is_state rel \<and> strictly_below dir (join_resolve dir rel)) bs)"
proof -
  have "is_state rel \<and> strictly_below dir (join_resolve dir rel)" if "\<not> is_err r" "(rel, b) \<in> set bs" for rel b
    using import_state_Inr_all [of dir bs fs "projr r" fs' rel b] assms that by (cases r) auto
  then show ?thesis using import_state_only_below [OF assms, of p] by (auto simp: list_all_iff)
qed

theorem import_stays_below_witness:
  "fst (import_state [''tmp''] [(''vc-pki/../../etc/passwd'', ''x'')] []) =
     Inl (ValueError (py_repr ''vc-pki/../../etc/passwd'' @ '' escapes the working directory'')) \<and>
   map_of (snd (import_state [''tmp''] [(''vc-pki/../../etc/passwd'', ''x'')] [])) [''etc'', ''passwd''] = None"
proof -
  have "fst (import_state [''tmp''] [(''vc-pki/../../etc/passwd'', ''x'')] []) =
     Inl (ValueError (py_repr ''vc-pki/../../etc/passwd'' @ '' escapes the working directory''))" by code_simp
  moreover have "\<not> strictly_below [''tmp''] [''etc'', ''passwd'']" by code_simp
  with import_stays_below [OF prod.collapse [symmetric], of "[''tmp'']" "[(''vc-pki/../../etc/passwd'', ''x'')]" "[]" "[''etc'', ''passwd'']"]
  have "map_of (snd (import_state [''tmp''] [(''vc-pki/../../etc/passwd'', ''x'')] [])) [''etc'', ''passwd''] = None" by simp
  ultimately show ?thesis ..
qed

section \<open>What reaches Fly\<close>


definition log_naming :: naming where
  "log_naming = \<lparr>n_env = ''abcdefgh'', n_app_prefix = ''sid'', n_host_pattern = ''{app}.fly.dev'', n_layout = LAYOUT_APPS\<rparr>"

lemma log_naming_apps [simp]: "\<not> single_machine log_naming"
  by (simp add: single_machine_def log_naming_def)


text \<open>
  A full destroy that returns reports every app of the instance exactly once, as destroyed, absent or failed, and
  keeps nothing.
\<close>

theorem destroy_reports_all:
  assumes "\<not> single_machine n" and "destroy_instance f n False mo w = (Inr r, w')"
  shows "mset (dr_destroyed r @ dr_absent r @ map fst (dr_failed r)) = mset (map (app n) component_names) \<and>
    dr_kept r = [] \<and> distinct (dr_destroyed r @ dr_absent r @ map fst (dr_failed r))"
proof -
  have l: "destroy_loop f n False component_names empty_destroy_report w = (Inr r, w')"
    using assms by (simp add: destroy_instance_def)
  have m: "mset (dr_destroyed r @ dr_absent r @ map fst (dr_failed r)) = mset (map (app n) component_names)" and k: "dr_kept r = []"
    using destroy_loop_report [OF l] by (simp_all add: empty_destroy_report_def)
  have "distinct (map (app n) component_names)" by (simp add: distinct_map inj_on_def)
  then have "distinct (dr_destroyed r @ dr_absent r @ map fst (dr_failed r))"
    using mset_eq_imp_distinct_iff [OF m] by simp
  with m k show ?thesis by simp
qed

lemma log_destroy_loop:
  "\<exists>w'. destroy_loop (log_fly []) n False names r w = (Inr (r\<lparr>dr_absent := dr_absent r @ map (app n) names\<rparr>), w')"
proof (induction names arbitrary: r w)
  case (Cons name names)
  have "\<exists>w1. destroy_component (log_fly []) n False name w = (Inr Absent_app, w1)"
    by (simp add: destroy_component_def app_exists_def destroy_app_def run_def log_fly_def loads_or_def Let_def)
  then obtain w1 where "destroy_component (log_fly []) n False name w = (Inr Absent_app, w1)" ..
  with Cons [of "r\<lparr>dr_absent := dr_absent r @ [app n name]\<rparr>" w1] show ?case by simp
qed simp

theorem destroy_reports_all_witness:
  "\<exists>r w'. destroy_instance (log_fly []) log_naming False None [] = (Inr r, w') \<and>
     mset (dr_destroyed r @ dr_absent r @ map fst (dr_failed r)) = mset (map (app log_naming) component_names)"
proof -
  obtain r w' where "destroy_instance (log_fly []) log_naming False None [] = (Inr r, w')"
    using log_destroy_loop [of log_naming component_names empty_destroy_report "[]"] by (auto simp: destroy_instance_def)
  with destroy_reports_all [OF log_naming_apps this] show ?thesis by blast
qed

text \<open>
  A secret value stays out of what is logged: when the API refuses to set a secret, the error names the app, the
  secret and the status, and is the same for every value and every answer body.
\<close>

theorem refused_secret_is_silent:
  assumes "ma_transport m ''POST'' (ma_base_url m @ secret_path a name)
      [(''Authorization'', authorization (ma_token m)), (''Accept'', ''application/json''), (''Content-Type'', ''application/json'')]
      (Some (JObj [(''value'', JStr val)])) (ma_timeout m) w = (Reply st raw, w1)"
    and "ma_transport m ''POST'' (ma_base_url m @ secret_path a name)
      [(''Authorization'', authorization (ma_token m)), (''Accept'', ''application/json''), (''Content-Type'', ''application/json'')]
      (Some (JObj [(''value'', JStr val')])) (ma_timeout m) w = (Reply st raw', w2)"
    and "st \<notin> set OK_STATUS"
  shows "fst (set_secret m a name val w) = fst (set_secret m a name val' w) \<and> is_err (fst (set_secret m a name val w))"
  using set_secret_refused [OF assms(1,3)] set_secret_refused [OF assms(2,3)] by simp

definition refusing :: "nat machines" where
  "refusing = \<lparr>ma_token = ''t'', ma_base_url = ''https://api.machines.dev/v1'', ma_timeout = 60,
     ma_transport = (\<lambda>_ _ _ b _ w. (Reply 403 (case b of Some (JObj [(k, JStr v)]) \<Rightarrow> v | _ \<Rightarrow> []), Suc w)),
     ma_machine_list = (\<lambda>_. None), ma_machine = (\<lambda>_. None), ma_exec_result = (\<lambda>_. None), ma_secret_version = (\<lambda>_. None),
     ma_clock = of_nat, ma_sleep = (\<lambda>t w. w + nat \<lceil>t\<rceil>), ma_fuel = 200\<rparr>"

theorem refused_secret_is_silent_witness:
  "fst (set_secret refusing ''app'' ''KEY'' ''s3cret'' 0) = fst (set_secret refusing ''app'' ''KEY'' ''other'' 0)"
  using refused_secret_is_silent [of refusing "''app''" "''KEY''" "''s3cret''" 0 403 "''s3cret''" 1 "''other''" "''other''" 1]
  by (simp add: refusing_def OK_STATUS_def)

text \<open>
  C37. The polling loops end: where time does not run backwards and a sleep lasts, sixteen rounds are enough to see a Fly
  app's machines settle, thirty-one for its checks, and a round per five seconds of the timeout (and one more) for the
  containers of a machine; with them the operations return instead of polling for ever.
\<close>

theorem polling_ends:
  assumes "fly_time_passes f" and "31 \<le> fly_fuel f" and "machines_time_passes m"
    and "ma_fuel m = Suc k" and "timeout \<le> of_nat k * 5"
  shows "fst (ensure_running f a w) = Inr () \<and> fst (wait_for_checks f a w) = Inr () \<and>
    fst (wait_containers m a i want timeout w') \<noteq> Inl loop_fuel"
  using ensure_running_returns [OF assms(1)] wait_for_checks_returns [OF assms(1,2)] assms(2)
    wait_containers_returns [OF assms(3,5,4)] by simp

text \<open>A clock that counts the commands and moves with every sleep.\<close>

definition clock_fly :: "rat fly" where
  "clock_fly = \<lparr>fly_org = [], fly_run = (\<lambda>args w. (\<lparr>cr_code = 0, cr_out = ''x'', cr_err = []\<rparr>, w + 1)),
     fly_app_names = (\<lambda>out. Some []), fly_machine_list = (\<lambda>out. Some [\<lparr>fm_id = ''m'', fm_state = Some ''starting'', fm_mounts = []\<rparr>]),
     fly_volume_list = (\<lambda>out. Some []), fly_check_states = (\<lambda>out. Some [None]), fly_token_rows = (\<lambda>out. []),
     fly_secret_names = (\<lambda>out. Some []), fly_mono = (\<lambda>w. w), fly_sleep = (\<lambda>t w. w + t), fly_fuel = 31\<rparr>"

theorem polling_ends_witness:
  "fst (ensure_running clock_fly ''a'' 0) = Inr () \<and> fst (wait_for_checks clock_fly ''a'' 0) = Inr ()"
proof -
  have "fly_time_passes clock_fly" "31 \<le> fly_fuel clock_fly" by (simp_all add: fly_time_passes_def clock_fly_def)
  moreover have "machines_time_passes refusing"
  proof -
    have "(of_nat w :: rat) + p \<le> of_nat (w + nat \<lceil>p\<rceil>)" for w p
      using of_nat_ceiling [of p] by simp
    then show ?thesis by (simp add: machines_time_passes_def refusing_def)
  qed
  moreover have "ma_fuel refusing = Suc 199" by (simp add: refusing_def)
  ultimately show ?thesis using polling_ends [of clock_fly refusing 199 900 "''a''" 0 "''i''" "[]" 0] by simp
qed

end
