(* ===== verification/Assistant.thy ===== *)
theory Assistant
  imports Demo Chat
begin

text \<open>
  What the assistant and the MCP server may do: calls fit the schema of their tool, only an
  approval of the user starts a call that destroys or restarts something, and every turn ends.
  The locale \<open>turn_relation\<close> states what a relation on states has to satisfy so that a whole
  turn respects it; it is interpreted for what happens to the database, to the conversations
  and to the events.
\<close>

section \<open>What a turn respects\<close>

definition gated :: "'w chat_service \<Rightarrow> tool_call \<Rightarrow> bool" where
  "gated ch c = (\<exists>t. chat_tool ch (tc_name c) = Some t \<and> needs_approval t)"

locale turn_relation =
  fixes ch :: "'w chat_service" and who :: principal and R :: "'w chat \<Rightarrow> 'w chat \<Rightarrow> bool"
  assumes refl: "R s s"
    and trans: "R s1 s2 \<Longrightarrow> R s2 s3 \<Longrightarrow> R s1 s3"
    and emits: "R s (emit e s)"
    and charges: "R s (charge ch (who_user who) n s)"
    and models: "on_world (f :: 'w \<Rightarrow> ('w, llm_out) outcome) (ct_cp s) = (x, p) \<Longrightarrow> R s (s\<lparr>ct_cp := p\<rparr>)"
    and performs: "perform ch who c s = (y, s') \<Longrightarrow> \<not> gated ch c \<Longrightarrow> R s s'"
begin

lemma executes:
  assumes "execute ch who c cv s = (x, cv', s')" and "\<not> gated ch c"
  shows "R s s'"
proof -
  let ?s = "emit (Ev_tool (tc_id c) (tc_name c) (args_json (call_args ch c))) s"
  obtain y s1 where p: "perform ch who c ?s = (y, s1)" by (meson surj_pair)
  have "R s s1" by (rule trans [OF emits performs [OF p assms(2)]])
  moreover have "R s1 s'" using assms(1) p
    by (auto simp: execute_def Let_def split: sum.splits prod.splits intro: refl trans [OF emits emits] emits)
  ultimately show ?thesis by (rule trans)
qed

lemma processes:
  "process_calls ch who cs p cv s = (x, cv', s') \<Longrightarrow> R s s'"
proof (induction cs arbitrary: p cv s)
  case Nil
  then show ?case by (simp add: refl)
next
  case (Cons c cs)
  show ?case
  proof (cases "gated ch c")
    case True
    with Cons.prems show ?thesis by (auto simp: gated_def emits)
  next
    case False
    obtain y cv1 s1 where e: "execute ch who c (cv\<lparr>cv_pending := Some p\<rparr>) s = (y, cv1, s1)" by (metis surj_pair)
    from executes [OF e False] have "R s s1" .
    moreover have "R s1 s'"
      using Cons.prems False e by (auto simp: gated_def refl split: option.splits sum.splits dest: Cons.IH)
    ultimately show ?thesis by (rule trans)
  qed
qed

lemma asks:
  assumes "ask_model ch who cv s = (x, s')"
  shows "R s s'"
proof -
  have m: "R s (s\<lparr>ct_cp := p\<rparr>)" if "on_world f (ct_cp s) = (y, p)" for f :: "'w \<Rightarrow> ('w, llm_out) outcome" and y p
    by (rule models [OF that])
  show ?thesis using assms
    by (auto simp: ask_model_def refl intro: m trans [OF m charges] split: sum.splits prod.splits)
qed

lemma runs:
  "run_turn ch who n cv s = (x, cv', s') \<Longrightarrow> R s s'"
proof (induction n arbitrary: cv s)
  case 0
  then show ?case by (auto simp: Let_def intro: trans [OF emits emits])
next
  case (Suc n)
  obtain y s1 where a: "ask_model ch who cv s = (y, s1)" by (meson surj_pair)
  from asks [OF a] have s1: "R s s1" .
  show ?case
  proof (cases y)
    case (Inl e)
    with Suc.prems a s1 show ?thesis by simp
  next
    case (Inr cc)
    obtain content calls where cc: "cc = (content, calls)" by force
    let ?s2 = "if json_truthy content then emit (Ev_message content) s1 else s1"
    let ?cv1 = "cv\<lparr>cv_messages := cv_messages cv @ [Assistant_msg (if json_truthy content then content else JNull) calls],
      cv_updated := chat_now ch s1\<rparr>"
    let ?p = "\<lparr>pe_calls = calls, pe_index = 0, pe_awaiting = JStr [], pe_asked_at = chat_now ch ?s2\<rparr>"
    have s2: "R s ?s2" using s1 trans [OF s1 emits] by simp
    obtain z cv2 s3 where p: "process_calls ch who calls ?p ?cv1 ?s2 = (z, cv2, s3)" by (metis surj_pair)
    from trans [OF s2 processes [OF p]] have s3: "R s s3" .
    show ?thesis
    proof (cases "calls = []")
      case True
      with Suc.prems a Inr cc show ?thesis by (auto simp: Let_def intro: trans [OF s2 emits])
    next
      case False
      with Suc.prems a Inr cc p s3 show ?thesis
        by (auto simp: Let_def intro: trans [OF s3 Suc.IH] split: sum.splits bool.splits)
    qed
  qed
qed

text \<open>Answering an approval: declining respects the relation, approving respects it after the approved call.\<close>

lemma declines:
  assumes "answer_call ch who False p cv s = (x, cv', s')"
  shows "R s s'"
proof (cases "drop (pe_index p) (pe_calls p)")
  case Nil
  with assms show ?thesis by (simp add: answer_call_def refl)
next
  case (Cons c rest)
  let ?p = "p\<lparr>pe_awaiting := JStr [], pe_index := Suc (pe_index p)\<rparr>"
  let ?cv = "tool_message c DECLINED (cv\<lparr>cv_pending := Some (p\<lparr>pe_awaiting := JStr []\<rparr>)\<rparr>)"
  let ?s = "emit (Ev_result (tc_id c) False ''declined'') s"
  obtain y cv1 s1 where y: "process_calls ch who rest ?p ?cv ?s = (y, cv1, s1)" by (metis surj_pair)
  from trans [OF emits processes [OF y]] have "R s s1" .
  with assms Cons y show ?thesis
    by (auto simp: answer_call_def Let_def intro: trans [OF \<open>R s s1\<close> runs] split: sum.splits bool.splits)
qed

lemma approves:
  assumes "answer_call ch who True p cv s = (x, cv', s')" and "pe_index p < length (pe_calls p)"
  shows "R (snd (snd (execute ch who (pe_calls p ! pe_index p) (cv\<lparr>cv_pending := Some (p\<lparr>pe_awaiting := JStr []\<rparr>)\<rparr>) s))) s'"
proof -
  let ?c = "pe_calls p ! pe_index p" and ?cv = "cv\<lparr>cv_pending := Some (p\<lparr>pe_awaiting := JStr []\<rparr>)\<rparr>"
  let ?p = "p\<lparr>pe_awaiting := JStr [], pe_index := Suc (pe_index p)\<rparr>"
  have d: "drop (pe_index p) (pe_calls p) = ?c # drop (Suc (pe_index p)) (pe_calls p)"
    using assms(2) by (simp add: Cons_nth_drop_Suc)
  obtain u cv2 s2 where e: "execute ch who ?c ?cv s = (u, cv2, s2)" by (metis surj_pair)
  obtain y cv3 s3 where y: "process_calls ch who (drop (Suc (pe_index p)) (pe_calls p)) ?p cv2 s2 = (y, cv3, s3)"
    by (metis surj_pair)
  from processes [OF y] have "R s2 s3" .
  with assms(1) d e y show ?thesis
    by (auto simp: answer_call_def Let_def refl intro: trans [OF \<open>R s2 s3\<close> runs] split: sum.splits bool.splits)
qed

end

section \<open>Sparing what exists\<close>

text \<open>
  From one database to the next: no instance was reset, reconfigured or destroyed, no sealed
  state was touched, no config deleted.
\<close>

definition ended :: "status list" where
  "ended = [Resetting, Reconfiguring, Destroyed]"

definition spares :: "db \<Rightarrow> db \<Rightarrow> bool" where
  "spares d d' \<longleftrightarrow> state_rows d' = state_rows d \<and> c_id ` set (configs d) \<subseteq> c_id ` set (configs d') \<and>
     (\<forall>r' \<in> set (instances d'). i_status r' \<in> set ended \<longrightarrow>
        (\<exists>r \<in> set (instances d). i_id r = i_id r' \<and> i_status r = i_status r'))"

lemma spares_refl [simp]: "spares d d"
  by (auto simp: spares_def)

lemma spares_trans:
  assumes "spares d1 d2" and "spares d2 d3"
  shows "spares d1 d3"
proof -
  have "\<exists>r \<in> set (instances d1). i_id r = i_id x \<and> i_status r = i_status x"
    if "x \<in> set (instances d3)" "i_status x \<in> set ended" for x
  proof -
    from assms(2) that obtain y where y: "y \<in> set (instances d2)" "i_id y = i_id x" "i_status y = i_status x"
      unfolding spares_def by blast
    with assms(1) that(2) show ?thesis unfolding spares_def by metis
  qed
  moreover have "c_id ` set (configs d1) \<subseteq> c_id ` set (configs d3)" "state_rows d3 = state_rows d1"
    using assms unfolding spares_def by (meson order_trans, simp)
  ultimately show ?thesis unfolding spares_def by blast
qed

lemma spares_append [simp]: "i_status row = Creating \<Longrightarrow> spares d (d\<lparr>instances := instances d @ [row]\<rparr>)"
  by (auto simp: spares_def ended_def)

lemma spares_audit [simp]: "spares d (audit t a b c e d') = spares d d'"
  by (simp add: spares_def)

lemma spares_set_row:
  assumes "\<And>r. i_id (f r) = i_id r" and "\<And>r. i_status (f r) \<in> set ended \<Longrightarrow> i_status (f r) = i_status r"
  shows "spares d (set_row iid now f d)"
proof -
  have "\<exists>r \<in> set (instances d). i_id r = i_id x \<and> i_status r = i_status x"
    if x: "x \<in> set (instances (set_row iid now f d))" "i_status x \<in> set ended" for x
  proof -
    from x(1) obtain q where "q \<in> set (instances d)" and "x = q \<or> x = touch now f q"
      by (auto simp: set_row_def update_instance_def in_update_where)
    moreover have "i_id (touch now f q) = i_id q" "i_status (touch now f q) = i_status (f q)"
      using assms(1) by (simp_all add: touch_def)
    ultimately show ?thesis using x(2) assms(2) by metis
  qed
  then show ?thesis unfolding spares_def by (simp add: set_row_def)
qed

lemma resaved_ids: "c_id ` set (update_where p (\<lambda>x. x\<lparr>c_doc := b, c_updated_at := now\<rparr>) cs) = c_id ` set cs"
  by (metis resaved.keys_update set_map)

lemma spares_store_config:
  assumes "store_config who n b now r d = (x, d')"
  shows "spares d d'"
proof -
  have "c_id ` set (configs d) \<subseteq> c_id ` set (configs d') \<and> state_rows d' = state_rows d \<and> instances d' = instances d"
  proof (cases "find (is_config who n) (configs d)")
    case (Some c)
    with assms show ?thesis by (fastforce simp: store_config_def resaved_ids simp del: image_subset_iff)
  next
    case None
    with assms show ?thesis by (auto simp: store_config_def Let_def insert_row_Inr_iff split: if_splits sum.splits)
  qed
  then show ?thesis unfolding spares_def by auto
qed

lemma spares_save_config:
  assumes "save_config cf who n doc now r s = (x, s')"
  shows "spares (database s) (database s')"
  using assms
  by (auto simp: save_config_def Let_def dest!: sealer_of_frame dest: on_db_frame spares_store_config
      split: if_splits prod.splits sum.splits) (metis on_db_frame spares_store_config)

lemma spares_create:
  assumes "create_instance cf who c cn n k now r s = (x, s')"
  shows "spares (database s) (database s')"
  using assms
  by (auto simp: create_instance_def submit_def Let_def dest!: sealer_of_frame requested_config_frame
      dest: new_instance_Inr(4) split: prod.splits sum.splits if_splits)

lemma spares_power_commit:
  assumes "power_commit who iid target action report now d = (x, d')" and "target \<notin> set ended"
  shows "spares d d'"
proof -
  have "spares d (set_row iid now f d)" if "f = (\<lambda>r. r\<lparr>i_status := (if power_ok report then target else Failed), i_error := m\<rparr>)" for f m
    using assms(2) that by (intro spares_set_row) (auto simp: ended_def)
  with assms(1) show ?thesis by (auto simp: power_commit_def Let_def)
qed

lemma spares_power:
  assumes "stop_instance_op cf who iid now s = (x, s') \<or> start_instance_op cf who iid now s = (x, s')"
  shows "spares (database s) (database s')"
proof -
  have *: "spares (database s1) (database s2)"
    if "on_db (power_commit who iid t act rep now) s1 = (y, s2)" "t \<notin> set ended" for t act rep y and s1 s2 :: "'a cp"
    using on_db_frame [OF that(1)] spares_power_commit that(2) by blast
  have "database s' = database s \<or> (\<exists>s1 t act rep. database s1 = database s \<and> t \<in> {Running, Stopped} \<and>
      on_db (power_commit who iid t act rep now) s1 = (x, s'))"
    using assms
    by (auto simp: stop_instance_op_def start_instance_op_def dest!: on_world_frame split: sum.splits prod.splits)
  then show ?thesis using * by (force simp: ended_def)
qed

lemma spares_set_keep:
  assumes "set_keep cf who iid k now d = (x, d')"
  shows "spares d d'"
  using assms
  by (auto simp: set_keep_def Let_def split: sum.splits if_splits intro!: spares_set_row)

lemma spares_keep_op:
  "on_db (set_keep cf who iid k now) s = (x, s') \<Longrightarrow> spares (database s) (database s')"
  using on_db_frame spares_set_keep by blast

text \<open>A tool that needs no approval spares everything.\<close>

lemma ungated_spares:
  assumes "t \<in> set (build_tools mp)" and "\<not> needs_approval t" and "tl_fn t who a now r s = (x, s')"
  shows "spares (database s) (database s')"
proof (cases "tl_read_only t")
  case True
  with read_only_reads [OF assms(1) True assms(3)] show ?thesis by simp
next
  case False
  with assms show ?thesis
    by (auto simp: build_tools_def Let_def mk_tool_def reads_def answer_def needs_approval_def REQUIRES_APPROVAL_def
        dest: spares_save_config spares_create spares_keep_op spares_power [OF disjI1] spares_power [OF disjI2]
        split: prod.splits)
qed

definition chat_spares :: "'w chat \<Rightarrow> 'w chat \<Rightarrow> bool" where
  "chat_spares s s' = spares (database (ct_cp s)) (database (ct_cp s'))"

lemma perform_world:
  assumes "perform ch who c s = (y, s')"
  shows "ct_cp s' = ct_cp s \<or>
    (\<exists>t a. chat_tool ch (tc_name c) = Some t \<and>
       snd (tl_fn t who a (chat_now ch s) (ch_draws ch (world (ct_cp s))) (ct_cp s)) = ct_cp s')"
proof (cases "chat_tool ch (tc_name c)")
  case None
  with assms show ?thesis
    by (auto simp: perform_def Let_def focus_def split: option.splits if_splits prod.splits sum.splits json.splits)
next
  case (Some t)
  show ?thesis
  proof (cases "tc_name c = ''focus_environment'' \<or> call_args ch c = None")
    case True
    with assms Some show ?thesis
      by (auto simp: perform_def Let_def focus_def split: option.splits if_splits prod.splits sum.splits json.splits)
  next
    case False
    then obtain a where a: "call_args ch c = Some a" by auto
    obtain z q where z: "call_safely (ch_mcp ch) who (tc_name c) a (chat_now ch s) (ch_draws ch (world (ct_cp s))) (ct_cp s) = (z, q)"
      by (meson surj_pair)
    from call_safely_cases [OF z] have q: "q = ct_cp s \<or> (\<exists>u \<in> set (build_tools (ch_mcp ch)). tl_name u = tc_name c \<and>
        snd (tl_fn u who a (chat_now ch s) (ch_draws ch (world (ct_cp s))) (ct_cp s)) = q)" by blast
    have "ct_cp s' = q" using assms Some False a z
      by (auto simp: perform_def split: sum.splits prod.splits)
    moreover have "u = t" if "u \<in> set (build_tools (ch_mcp ch))" "tl_name u = tc_name c" for u
      using that chat_tool_Some [OF Some] tool_names_distinct [of "ch_mcp ch"] by (auto simp: distinct_map inj_on_def)
    ultimately show ?thesis using q Some by blast
  qed
qed

lemma ask_world_frame:
  "on_world f s = (x, p) \<Longrightarrow> database p = database s"
  using on_world_frame by blast

lemma charge_frame [simp]:
  "ct_cp (charge ch u n s) = ct_cp s" "ct_convs (charge ch u n s) = ct_convs s"
  "ct_running (charge ch u n s) = ct_running s" "ct_events (charge ch u n s) = ct_events s"
  by (simp_all add: charge_def)

interpretation sparing: turn_relation ch who chat_spares for ch :: "'w chat_service" and who
proof unfold_locales
  fix c and s s' :: "'w chat" and y
  assume p: "perform ch who c s = (y, s')" and g: "\<not> gated ch c"
  show "chat_spares s s'"
  proof (cases "ct_cp s' = ct_cp s")
    case False
    with perform_world [OF p] obtain t a where t: "chat_tool ch (tc_name c) = Some t"
      and f: "snd (tl_fn t who a (chat_now ch s) (ch_draws ch (world (ct_cp s))) (ct_cp s)) = ct_cp s'" by blast
    from t g have "\<not> needs_approval t" by (auto simp: gated_def)
    with ungated_spares [OF chat_tool_Some(1) [OF t] _ surjective_pairing] f show ?thesis
      unfolding chat_spares_def by metis
  qed (simp add: chat_spares_def)
qed (auto simp: chat_spares_def ask_world_frame intro: spares_trans)

section \<open>The frame of a turn\<close>

lemma begin_turn_frame:
  assumes "begin_turn ch who s = (x, s1)"
  shows "database (ct_cp s1) = database (ct_cp s)" and "world (ct_cp s1) = world (ct_cp s)" and "ct_convs s1 = ct_convs s"
    and "ct_events s1 = ct_events s" and "ct_running s1 = (if is_err x then ct_running s else who_user who # ct_running s)"
    and "is_err x \<Longrightarrow> \<exists>m. \<exists>e. x = Inl e \<and> told e = Some m"
  using assms
  by (auto simp: begin_turn_def and_then_def precheck_def is_unlocked_def chat_error_def dest!: sealer_of_frame
      split: if_splits prod.splits sum.splits)

lemma tell_frame:
  assumes "tell r s = (r', s')"
  shows "ct_cp s' = ct_cp s" and "ct_convs s' = ct_convs s" and "ct_running s' = ct_running s"
    and "\<exists>es. ct_events s' = ct_events s @ es"
  using assms by (auto simp: tell_def split: sum.splits option.splits)

lemma end_turn_frame [simp]:
  "ct_cp (end_turn who s) = ct_cp s" "ct_convs (end_turn who s) = ct_convs s" "ct_events (end_turn who s) = ct_events s"
  "ct_running (end_turn who s) = removeAll (who_user who) (ct_running s)"
  by (simp_all add: end_turn_def)

lemma guarded_cases:
  assumes "guarded ch who body s = (r, s')"
  obtains (refused) e m s1 where "begin_turn ch who s = (Inl e, s1)" "told e = Some m" "tell (Inl e) s1 = (r, s')"
  | (ran) s1 r1 s2 s3 where "begin_turn ch who s = (Inr (), s1)" "body s1 = (r1, s2)" "tell r1 s2 = (r, s3)" "s' = end_turn who s3"
proof -
  obtain x s1 where b: "begin_turn ch who s = (x, s1)" by (meson surj_pair)
  obtain r1 s2 where body: "body s1 = (r1, s2)" by (meson surj_pair)
  obtain r' s3 where t: "tell r1 s2 = (r', s3)" by (meson surj_pair)
  show ?thesis
  proof (cases x)
    case (Inl e)
    with begin_turn_frame(6) [OF b] obtain m where "told e = Some m" by auto
    with Inl b assms refused show ?thesis by (auto simp: guarded_def)
  next
    case (Inr u)
    with b body t assms ran show ?thesis by (auto simp: guarded_def)
  qed
qed

lemma put_conv_frame [simp]:
  "ct_cp (put_conv c s) = ct_cp s" "ct_running (put_conv c s) = ct_running s" "ct_events (put_conv c s) = ct_events s"
  by (simp_all add: put_conv_def)

lemma get_conv_frame:
  assumes "get_conv ch who cid s = (x, s1)"
  shows "ct_cp s1 = ct_cp s" and "ct_running s1 = ct_running s" and "ct_events s1 = ct_events s"
    and "set (ct_convs s1) \<subseteq> set (ct_convs s)"
  using assms by (auto simp: get_conv_def purge_convs_def Let_def split: option.splits)

lemma get_conv_Inr:
  assumes "get_conv ch who cid s = (Inr c, s1)" and "distinct (map fst (ct_convs s))"
  shows "map_of (ct_convs s) cid = Some c" and "cv_user c = who_user who"
    and "chat_now ch s < cv_updated c + cc_conversation_ttl (ch_config ch)"
proof -
  from assms(1) have c: "map_of (filter (\<lambda>(k, c). \<not> cv_updated c + cc_conversation_ttl (ch_config ch) \<le> chat_now ch s) (ct_convs s)) cid = Some c"
    and u: "cv_user c = who_user who"
    by (auto simp: get_conv_def purge_convs_def Let_def split: option.splits if_splits)
  then have "(cid, c) \<in> set (ct_convs s)" and "\<not> cv_updated c + cc_conversation_ttl (ch_config ch) \<le> chat_now ch s"
    by (auto dest!: map_of_SomeD)
  with assms(2) u show "map_of (ct_convs s) cid = Some c" and "cv_user c = who_user who"
    and "chat_now ch s < cv_updated c + cc_conversation_ttl (ch_config ch)" by auto
qed

lemma new_conv_frame:
  assumes "new_conv ch who m s = (c, s1)"
  shows "ct_cp s1 = ct_cp s" and "ct_running s1 = ct_running s" and "ct_events s1 = ct_events s" and "cv_pending c = None"
  using assms by (auto simp: new_conv_def purge_convs_def Let_def)

section \<open>The conversations\<close>

text \<open>
  A stored conversation is free, or waits for the approval of one call that needs it. The
  identifiers of conversations are distinct.
\<close>

definition waits_for :: "'w chat_service \<Rightarrow> pending \<Rightarrow> tool_call \<Rightarrow> bool" where
  "waits_for ch p c \<longleftrightarrow> pe_index p < length (pe_calls p) \<and> c = pe_calls p ! pe_index p \<and> pe_awaiting p = tc_id c \<and> gated ch c"

definition pend_ok :: "'w chat_service \<Rightarrow> conversation \<Rightarrow> bool" where
  "pend_ok ch cv = (case cv_pending cv of None \<Rightarrow> True | Some p \<Rightarrow> (\<exists>c. waits_for ch p c))"

definition convs_ok :: "'w chat_service \<Rightarrow> 'w chat \<Rightarrow> bool" where
  "convs_ok ch s \<longleftrightarrow> distinct (map fst (ct_convs s)) \<and> (\<forall>(k, c) \<in> set (ct_convs s). k = cv_id c \<and> pend_ok ch c)"

text \<open>The last event of a turn tells the console that it ended or waits.\<close>

fun ends_turn :: "event \<Rightarrow> bool" where
  "ends_turn (Ev_done _ _ _) = True"
| "ends_turn (Ev_error _) = True"
| "ends_turn (Ev_confirm _ _ _ _ _) = True"
| "ends_turn _ = False"

definition ended_well :: "'w chat \<Rightarrow> bool" where
  "ended_well s = (ct_events s \<noteq> [] \<and> ends_turn (last (ct_events s)))"

lemma ended_well_emit [simp]: "ended_well (emit e s) = ends_turn e"
  by (simp add: ended_well_def)

lemma convs_ok_same: "ct_convs s' = ct_convs s \<Longrightarrow> convs_ok ch s \<Longrightarrow> convs_ok ch s'"
  by (simp add: convs_ok_def)

lemma convs_ok_filter: "ct_convs s' = filter f (ct_convs s) \<Longrightarrow> convs_ok ch s \<Longrightarrow> convs_ok ch s'"
  by (auto simp: convs_ok_def distinct_map_filter)

lemma convs_ok_update:
  assumes "ct_convs s' = AList.update (cv_id c) c (ct_convs s)" and "convs_ok ch s" and "pend_ok ch c"
  shows "convs_ok ch s'"
proof -
  have "set (AList.update k v al) \<subseteq> insert (k, v) (set al)" for k v and al :: "conversation dict"
    by (induction al) auto
  then have "set (ct_convs s') \<subseteq> insert (cv_id c, c) (set (ct_convs s))" by (metis assms(1))
  with assms show ?thesis unfolding convs_ok_def by (auto simp: distinct_update)
qed

lemma convs_ok_put: "convs_ok ch s \<Longrightarrow> pend_ok ch c \<Longrightarrow> convs_ok ch (put_conv c s)"
  by (rule convs_ok_update) (simp_all add: put_conv_def)

lemma get_conv_ok:
  assumes "get_conv ch who cid s = (x, s1)" and "convs_ok ch s"
  shows "convs_ok ch s1" and "x = Inr c \<Longrightarrow> pend_ok ch c"
proof -
  have f: "ct_convs s1 = filter (\<lambda>(k, c). \<not> cv_updated c + cc_conversation_ttl (ch_config ch) \<le> chat_now ch s) (ct_convs s)"
    using assms(1) by (auto simp: get_conv_def purge_convs_def Let_def split: option.splits)
  from convs_ok_filter [OF f assms(2)] show "convs_ok ch s1" .
  show "pend_ok ch c" if "x = Inr c"
  proof -
    from assms(2) have d: "distinct (map fst (ct_convs s))" by (simp add: convs_ok_def)
    from get_conv_Inr(1) [OF _ d] assms(1) that have "(cid, c) \<in> set (ct_convs s)" by (metis map_of_SomeD)
    with assms(2) show ?thesis unfolding convs_ok_def by auto
  qed
qed

lemma pend_ok_None: "cv_pending c = None \<Longrightarrow> pend_ok ch c"
  by (simp add: pend_ok_def)

lemma make_room_filter: "\<exists>f. make_room cc u cs = filter f cs"
  unfolding make_room_def Let_def by blast

lemma new_conv_ok:
  assumes "new_conv ch who m s = (c, s1)" and "convs_ok ch s"
  shows "convs_ok ch s1"
proof -
  let ?s0 = "purge_convs ch s"
  have 0: "convs_ok ch ?s0" by (rule convs_ok_filter [OF _ assms(2)]) (simp add: purge_convs_def)
  obtain f where f: "make_room (ch_config ch) (who_user who) (ct_convs ?s0) = filter f (ct_convs ?s0)"
    using make_room_filter by blast
  have 1: "convs_ok ch (?s0\<lparr>ct_convs := filter f (ct_convs ?s0)\<rparr>)" by (rule convs_ok_filter [OF _ 0]) simp
  have "ct_convs s1 = AList.update (cv_id c) c (filter f (ct_convs ?s0))" and "cv_pending c = None"
    using assms(1) f by (auto simp: new_conv_def Let_def)
  then show ?thesis using convs_ok_update [OF _ 1 pend_ok_None] by simp
qed

lemma call_safely_Inr: "\<exists>y q. call_safely mp who n a now r s = (Inr y, q)"
  by (metis call_safely_cases not_is_err_iff surj_pair)

lemma perform_Inr: "\<exists>y q. perform ch who c s = (Inr y, q)"
proof (cases "call_args ch c")
  case None
  then show ?thesis by (simp add: perform_def Let_def) blast
next
  case (Some a)
  obtain t err q where "call_safely (ch_mcp ch) who (tc_name c) a (chat_now ch s) (ch_draws ch (world (ct_cp s))) (ct_cp s) = (Inr (t, err), q)"
    using call_safely_Inr by (metis surj_pair)
  with Some show ?thesis by (simp add: perform_def Let_def split: prod.splits) blast
qed

lemma execute_ok:
  assumes "execute ch who c cv s = (x, cv', s')"
  shows "x = Inr ()" and "cv_pending cv' = cv_pending cv" and "cv_id cv' = cv_id cv" and "cv_user cv' = cv_user cv"
proof -
  obtain t ok mut s1 where "perform ch who c (emit (Ev_tool (tc_id c) (tc_name c) (args_json (call_args ch c))) s) = (Inr (t, ok, mut), s1)"
    using perform_Inr by (metis surj_pair)
  with assms show "x = Inr ()" and "cv_pending cv' = cv_pending cv" and "cv_id cv' = cv_id cv" and "cv_user cv' = cv_user cv"
    by (auto simp: execute_def Let_def tool_message_def)
qed

text \<open>Neither the stored conversations nor the running turns change inside a turn.\<close>

definition same_convs :: "'w chat \<Rightarrow> 'w chat \<Rightarrow> bool" where
  "same_convs s s' \<longleftrightarrow> ct_convs s' = ct_convs s \<and> ct_running s' = ct_running s"

lemma perform_same: "perform ch who c s = (y, s') \<Longrightarrow> same_convs s s'"
  by (auto simp: perform_def same_convs_def Let_def focus_def split: option.splits if_splits prod.splits sum.splits json.splits)

interpretation keeping: turn_relation ch who same_convs for ch :: "'w chat_service" and who
  by unfold_locales (auto simp: perform_same, auto simp: same_convs_def)

lemma execute_same: "execute ch who c cv s = (x, cv', s') \<Longrightarrow> same_convs s s'"
  by (auto simp: execute_def Let_def same_convs_def dest!: perform_same split: sum.splits prod.splits)

lemma runs_convs: "run_turn ch who n cv s = (x, cv', s') \<Longrightarrow> ct_convs s' = ct_convs s \<and> ct_running s' = ct_running s"
  using keeping.runs same_convs_def by blast

lemma answers_convs:
  assumes "answer_call ch who b p cv s = (x, cv', s')" and "pe_index p < length (pe_calls p)"
  shows "ct_convs s' = ct_convs s \<and> ct_running s' = ct_running s"
proof (cases b)
  case True
  obtain u cv2 s2 where "execute ch who (pe_calls p ! pe_index p) (cv\<lparr>cv_pending := Some (p\<lparr>pe_awaiting := JStr []\<rparr>)\<rparr>) s = (u, cv2, s2)"
    by (metis surj_pair)
  moreover from assms(1) True have "answer_call ch who True p cv s = (x, cv', s')" by simp
  ultimately show ?thesis using keeping.approves [OF _ assms(2)] execute_same by (fastforce simp: same_convs_def)
next
  case False
  with keeping.declines assms(1) show ?thesis unfolding same_convs_def by metis
qed

lemma process_ok:
  assumes "process_calls ch who cs p cv s = (x, cv', s')" and "cs = drop (pe_index p) (pe_calls p)"
  shows "cv_id cv' = cv_id cv \<and> cv_user cv' = cv_user cv \<and>
    (x = Inr True \<and> cv_pending cv' = None \<or>
     x = Inr False \<and> ended_well s' \<and> (\<exists>q c. cv_pending cv' = Some q \<and> waits_for ch q c))"
  using assms
proof (induction cs arbitrary: p cv s)
  case Nil
  then show ?case by auto
next
  case (Cons c cs)
  from Cons.prems(2) have i: "pe_index p < length (pe_calls p)" and c: "c = pe_calls p ! pe_index p"
    by (metis drop_eq_Nil list.distinct(1) not_le, metis Cons_nth_drop_Suc drop_eq_Nil list.distinct(1) list.inject not_le)
  from Cons.prems(2) have cs: "cs = drop (Suc (pe_index p)) (pe_calls p)" by (metis drop_Suc list.sel(3) tl_drop)
  show ?case
  proof (cases "gated ch c")
    case True
    then obtain t where "chat_tool ch (tc_name c) = Some t" "needs_approval t" by (auto simp: gated_def)
    with Cons.prems(1) i c True show ?thesis by (auto simp: waits_for_def)
  next
    case False
    obtain y cv1 s1 where e: "execute ch who c (cv\<lparr>cv_pending := Some p\<rparr>) s = (y, cv1, s1)" by (metis surj_pair)
    note f = execute_ok [OF e]
    from Cons.prems(1) False e f(1) have "process_calls ch who cs (p\<lparr>pe_index := Suc (pe_index p)\<rparr>) cv1 s1 = (x, cv', s')"
      by (auto simp: gated_def split: option.splits)
    from Cons.IH [OF this] cs f show ?thesis by simp
  qed
qed

lemma run_ok:
  assumes "run_turn ch who n cv s = (x, cv', s')" and "cv_pending cv = None"
  shows "cv_id cv' = cv_id cv \<and> cv_user cv' = cv_user cv \<and> pend_ok ch cv' \<and> (x = Inr () \<longrightarrow> ended_well s')"
  using assms
proof (induction n arbitrary: cv s)
  case 0
  then show ?case by (auto simp: Let_def pend_ok_def done_event_def)
next
  case (Suc n)
  obtain y s1 where a: "ask_model ch who cv s = (y, s1)" by (meson surj_pair)
  show ?case
  proof (cases y)
    case (Inl e)
    with Suc.prems a show ?thesis by (auto simp: pend_ok_def)
  next
    case (Inr cc)
    obtain content calls where cc: "cc = (content, calls)" by force
    let ?s2 = "if json_truthy content then emit (Ev_message content) s1 else s1"
    let ?cv1 = "cv\<lparr>cv_messages := cv_messages cv @ [Assistant_msg (if json_truthy content then content else JNull) calls],
      cv_updated := chat_now ch s1\<rparr>"
    let ?p = "\<lparr>pe_calls = calls, pe_index = 0, pe_awaiting = JStr [], pe_asked_at = chat_now ch ?s2\<rparr>"
    obtain z cv2 s3 where p: "process_calls ch who calls ?p ?cv1 ?s2 = (z, cv2, s3)" by (metis surj_pair)
    from process_ok [OF p] have z: "cv_id cv2 = cv_id cv \<and> cv_user cv2 = cv_user cv \<and>
      (z = Inr True \<and> cv_pending cv2 = None \<or>
       z = Inr False \<and> ended_well s3 \<and> (\<exists>q c. cv_pending cv2 = Some q \<and> waits_for ch q c))" by simp
    show ?thesis
    proof (cases "calls = []")
      case True
      with Suc.prems a Inr cc show ?thesis by (auto simp: Let_def pend_ok_def done_event_def)
    next
      case False
      with Suc.prems(1) a Inr cc p have s': "(case z of Inl e \<Rightarrow> (Inl e, cv2, s3) | Inr False \<Rightarrow> (Inr (), cv2, s3)
          | Inr True \<Rightarrow> run_turn ch who n cv2 s3) = (x, cv', s')"
        by (auto simp: Let_def split: sum.splits bool.splits)
      from z show ?thesis
      proof (elim conjE disjE exE)
        assume "z = Inr True" "cv_pending cv2 = None" "cv_id cv2 = cv_id cv" "cv_user cv2 = cv_user cv"
        with s' Suc.IH [of cv2 s3] show ?thesis by simp
      next
        fix q c assume "z = Inr False" "ended_well s3" "cv_pending cv2 = Some q" "waits_for ch q c"
          "cv_id cv2 = cv_id cv" "cv_user cv2 = cv_user cv"
        with s' show ?thesis by (auto simp: pend_ok_def)
      qed
    qed
  qed
qed

lemma answer_ok:
  assumes "answer_call ch who b p cv s = (x, cv', s')" and "pe_index p < length (pe_calls p)"
  shows "cv_id cv' = cv_id cv \<and> cv_user cv' = cv_user cv \<and> pend_ok ch cv' \<and> (x = Inr () \<longrightarrow> ended_well s')"
proof -
  let ?c = "pe_calls p ! pe_index p" and ?cv = "cv\<lparr>cv_pending := Some (p\<lparr>pe_awaiting := JStr []\<rparr>)\<rparr>"
  let ?p = "p\<lparr>pe_awaiting := JStr [], pe_index := Suc (pe_index p)\<rparr>"
  let ?first = "if b then execute ch who ?c ?cv s
    else (Inr (), tool_message ?c DECLINED ?cv, emit (Ev_result (tc_id ?c) False ''declined'') s)"
  have d: "drop (pe_index p) (pe_calls p) = ?c # drop (Suc (pe_index p)) (pe_calls p)"
    using assms(2) by (simp add: Cons_nth_drop_Suc)
  obtain u cv2 s2 where first: "?first = (u, cv2, s2)" by (metis surj_pair)
  then have f: "u = Inr ()" "cv_id cv2 = cv_id cv" "cv_user cv2 = cv_user cv"
    using execute_ok [of ch who ?c ?cv s u cv2 s2] by (auto simp: tool_message_def split: if_splits)
  obtain z cv3 s3 where y: "process_calls ch who (drop (Suc (pe_index p)) (pe_calls p)) ?p cv2 s2 = (z, cv3, s3)"
    by (metis surj_pair)
  from process_ok [OF y] f have z: "cv_id cv3 = cv_id cv \<and> cv_user cv3 = cv_user cv \<and>
      (z = Inr True \<and> cv_pending cv3 = None \<or>
       z = Inr False \<and> ended_well s3 \<and> (\<exists>q c. cv_pending cv3 = Some q \<and> waits_for ch q c))" by simp
  have x: "(case z of Inl e \<Rightarrow> (Inl e, cv3, s3) | Inr False \<Rightarrow> (Inr (), cv3, s3)
      | Inr True \<Rightarrow> run_turn ch who (cc_max_steps (ch_config ch)) cv3 s3) = (x, cv', s')"
    using assms(1) d first f(1) y by (auto simp: answer_call_def Let_def split: sum.splits bool.splits)
  from z show ?thesis
  proof (elim conjE disjE exE)
    assume "z = Inr True" "cv_pending cv3 = None" "cv_id cv3 = cv_id cv" "cv_user cv3 = cv_user cv"
    with x run_ok [of ch who "cc_max_steps (ch_config ch)" cv3 s3] show ?thesis by simp
  next
    fix q c assume "z = Inr False" "ended_well s3" "cv_pending cv3 = Some q" "waits_for ch q c"
      "cv_id cv3 = cv_id cv" "cv_user cv3 = cv_user cv"
    with x show ?thesis by (auto simp: pend_ok_def)
  qed
qed

text \<open>The body of a turn stops before the model is asked, or runs it on a conversation that is free.\<close>

lemma turn_body_cases:
  assumes "turn_body ch who cid msg model active s = (r, s')"
  obtains (refused) "is_err r" "ct_cp s' = ct_cp s" "ct_running s' = ct_running s" "convs_ok ch s \<longrightarrow> convs_ok ch s'"
  | (ran) cv s1 cv2 s2 where "run_turn ch who (cc_max_steps (ch_config ch)) cv s1 = (r, cv2, s2)" "s' = put_conv cv2 s2"
      "cv_pending cv = None" "ct_cp s1 = ct_cp s" "ct_running s1 = ct_running s" "convs_ok ch s \<longrightarrow> convs_ok ch s1"
proof -
  let ?said = "py_strip msg" and ?cc = "ch_config ch"
  show ?thesis
  proof (cases "?said = [] \<or> cc_max_message_chars ?cc < length ?said \<or> (truthy_str model \<and> the model \<notin> set (cc_models ?cc))")
    case True
    with assms show ?thesis by (intro refused) (auto simp: turn_body_def Let_def split: if_splits)
  next
    case False
    let ?open = "if truthy_str cid then get_conv ch who (the cid) s
      else (case new_conv ch who (if truthy_str model then the model else default_model ?cc) s of (c, s1) \<Rightarrow> (Inr c, s1))"
    obtain x s1 where x: "?open = (x, s1)" by (meson surj_pair)
    have s1: "ct_cp s1 = ct_cp s" "ct_running s1 = ct_running s" "convs_ok ch s \<longrightarrow> convs_ok ch s1"
    proof -
      consider "get_conv ch who (the cid) s = (x, s1)" | c m where "new_conv ch who m s = (c, s1)"
        using x by (auto split: if_splits prod.splits)
      then have "ct_cp s1 = ct_cp s \<and> ct_running s1 = ct_running s \<and> (convs_ok ch s \<longrightarrow> convs_ok ch s1)"
      proof cases
        case 1
        from get_conv_frame(1,2) [OF 1] get_conv_ok(1) [OF 1] show ?thesis by simp
      next
        case (2 c m)
        from new_conv_frame(1,2) [OF 2] new_conv_ok [OF 2] show ?thesis by simp
      qed
      then show "ct_cp s1 = ct_cp s" "ct_running s1 = ct_running s" "convs_ok ch s \<longrightarrow> convs_ok ch s1" by blast+
    qed
    show ?thesis
    proof (cases x)
      case (Inl e)
      with assms(1) False x s1 show ?thesis by (intro refused) (auto simp: turn_body_def Let_def)
    next
      case (Inr cv)
      let ?cv = "trim ?cc (cv\<lparr>cv_active := (case active of None \<Rightarrow> [] | Some a \<Rightarrow> a),
        cv_messages := cv_messages cv @ [User_msg ?said]\<rparr>)"
      obtain y cv2 s2 where y: "run_turn ch who (cc_max_steps ?cc) ?cv s1 = (y, cv2, s2)" by (metis surj_pair)
      have s': "(r, s') = (if cv_pending cv \<noteq> None then (Inl (chat_error ''answer the pending approval first''), s1)
          else (y, put_conv cv2 s2))"
        using assms(1) False x Inr y by (auto simp: turn_body_def Let_def)
      show ?thesis
      proof (cases "cv_pending cv")
        case None
        then have "cv_pending ?cv = None" by (simp add: trim_def)
        with ran y s' s1 None show ?thesis by simp
      next
        case (Some p)
        with s' s1 show ?thesis by (intro refused) auto
      qed
    qed
  qed
qed

lemma turn_body_ok:
  assumes "turn_body ch who cid msg model active s = (r, s')" and "convs_ok ch s"
  shows "convs_ok ch s'" and "r = Inr () \<Longrightarrow> ended_well s'" and "ct_running s' = ct_running s"
proof -
  have "convs_ok ch s' \<and> (r = Inr () \<longrightarrow> ended_well s') \<and> ct_running s' = ct_running s"
    using assms(1)
  proof (cases rule: turn_body_cases)
    case refused
    with assms(2) show ?thesis by (cases r) auto
  next
    case (ran cv s1 cv2 s2)
    from run_ok [OF ran(1,3)] have "pend_ok ch cv2" and "r = Inr () \<longrightarrow> ended_well s2" by blast+
    moreover have "convs_ok ch s2" using convs_ok_same runs_convs [OF ran(1)] ran(6) assms(2) by blast
    ultimately show ?thesis using ran runs_convs [OF ran(1)] by (simp add: convs_ok_put ended_well_def)
  qed
  then show "convs_ok ch s'" and "r = Inr () \<Longrightarrow> ended_well s'" and "ct_running s' = ct_running s" by blast+
qed

lemma turn_body_spares:
  assumes "turn_body ch who cid msg model active s = (r, s')"
  shows "chat_spares s s'"
  using assms
proof (cases rule: turn_body_cases)
  case refused
  then show ?thesis by (simp add: chat_spares_def)
next
  case (ran cv s1 cv2 s2)
  from sparing.runs [OF ran(1)] ran show ?thesis by (simp add: chat_spares_def)
qed

lemma confirm_body_ok:
  assumes "confirm_body ch who cid i b s = (r, s')" and "convs_ok ch s"
  shows "convs_ok ch s'" and "r = Inr () \<Longrightarrow> ended_well s'" and "ct_running s' = ct_running s"
proof -
  obtain x s1 where x: "get_conv ch who cid s = (x, s1)" by (meson surj_pair)
  note s1 = get_conv_ok [OF x assms(2)]
  have *: "convs_ok ch s' \<and> (r = Inr () \<longrightarrow> ended_well s') \<and> ct_running s' = ct_running s"
  proof (cases "\<exists>cv p. x = Inr cv \<and> cv_pending cv = Some p \<and> pe_awaiting p = JStr i \<and> \<not> APPROVAL_TTL < chat_now ch s1 - pe_asked_at p")
    case False
    with assms(1) x s1(1) get_conv_frame(2) [OF x] show ?thesis
      by (auto simp: confirm_body_def intro!: convs_ok_put pend_ok_None split: sum.splits option.splits if_splits)
  next
    case True
    then obtain cv p where cv: "x = Inr cv" and p: "cv_pending cv = Some p"
      and c: "pe_awaiting p = JStr i" "\<not> APPROVAL_TTL < chat_now ch s1 - pe_asked_at p" by blast
    from s1(2) [OF cv] p have l: "pe_index p < length (pe_calls p)" by (auto simp: pend_ok_def waits_for_def)
    obtain y cv2 s2 where y: "answer_call ch who b p cv s1 = (y, cv2, s2)" by (metis surj_pair)
    have s': "r = y" "s' = put_conv cv2 s2" using assms(1) x cv p c y by (auto simp: confirm_body_def)
    have "convs_ok ch s2" using convs_ok_same [OF _ s1(1)] answers_convs [OF y l] by simp
    with answer_ok [OF y l] answers_convs [OF y l] get_conv_frame(2) [OF x] s' show ?thesis by (simp add: convs_ok_put ended_well_def)
  qed
  then show "convs_ok ch s'" and "r = Inr () \<Longrightarrow> ended_well s'" and "ct_running s' = ct_running s" by blast+
qed

section \<open>The properties\<close>

text \<open>
  C38. A tool runs only when it exists and its arguments fit its schema, every required one given and none unknown;
  any other call is refused with no change of the state. A tool declared read-only leaves the database and the queue
  of jobs as they are, whatever its result.
\<close>

theorem tool_calls_are_typed:
  "(\<exists>e. call_tool mp who params now r s = (Inl e, s)) \<or>
   (\<exists>t a c s'. call_tool mp who params now r s = (Inr c, s') \<and> t \<in> set (build_tools mp) \<and>
      param params ''name'' = JStr (tl_name t) \<and> conforms t a \<and> s' = snd (tl_fn t who a now r s) \<and>
      (if tl_read_only t then database s' = database s \<and> jobs s' = jobs s else True))"
proof (cases "call_tool mp who params now r s")
  case (Pair x s')
  show ?thesis
  proof (cases x)
    case (Inl e)
    with Pair call_tool_Inl show ?thesis by blast
  next
    case (Inr c)
    with Pair call_tool_Inr obtain t a where t: "checked_call mp params = Inr (t, a)" and s': "snd (tl_fn t who a now r s) = s'"
      by blast
    note f = checked_call_Inr [OF t]
    have "tl_read_only t \<Longrightarrow> database s' = database s \<and> jobs s' = jobs s"
      using read_only_reads [OF f(1)] s' by (metis surjective_pairing)
    with Pair Inr f s' show ?thesis by auto
  qed
qed

lemma confirm_cases:
  assumes "confirm ch who cid i b s = (r, s')"
  shows "database (ct_cp s') = database (ct_cp s) \<or>
    (\<exists>cv p s1 cv' s2 y. (cid, cv) \<in> set (ct_convs s) \<and> cv_user cv = who_user who \<and> cv_pending cv = Some p \<and>
       pe_awaiting p = JStr i \<and> chat_now ch s - pe_asked_at p \<le> APPROVAL_TTL \<and>
       database (ct_cp s1) = database (ct_cp s) \<and>
       answer_call ch who b p cv s1 = (y, cv', s2) \<and> database (ct_cp s') = database (ct_cp s2))"
  using assms [unfolded confirm_def]
proof (cases rule: guarded_cases)
  case (refused e m s1)
  with begin_turn_frame(1) [OF refused(1)] tell_frame(1) [OF refused(3)] show ?thesis by simp
next
  case (ran s1 r1 s2 s3)
  note b = begin_turn_frame [OF ran(1)] and t = tell_frame(1) [OF ran(3)]
  obtain x s4 where g: "get_conv ch who cid s1 = (x, s4)" by (meson surj_pair)
  note f = get_conv_frame(1) [OF g]
  show ?thesis
  proof (cases "\<exists>cv p. x = Inr cv \<and> cv_pending cv = Some p \<and> pe_awaiting p = JStr i \<and> \<not> APPROVAL_TTL < chat_now ch s4 - pe_asked_at p")
    case False
    with ran(2) g have "ct_cp s2 = ct_cp s4"
      by (auto simp: confirm_body_def split: sum.splits option.splits if_splits)
    with b(1) t f ran(4) show ?thesis by simp
  next
    case True
    then obtain cv p where cv: "x = Inr cv" "cv_pending cv = Some p" "pe_awaiting p = JStr i"
      "\<not> APPROVAL_TTL < chat_now ch s4 - pe_asked_at p" by blast
    obtain y cv' s5 where a: "answer_call ch who b p cv s4 = (y, cv', s5)" by (metis surj_pair)
    with ran(2) g cv have "ct_cp s2 = ct_cp s5" by (auto simp: confirm_body_def)
    moreover have "chat_now ch s4 = chat_now ch s" using b(2) f by (simp add: chat_now_def)
    moreover have "(cid, cv) \<in> set (ct_convs s)" "cv_user cv = who_user who"
      using g cv(1) b(3) by (auto simp: get_conv_def purge_convs_def Let_def split: option.splits if_splits dest!: map_of_SomeD)
    ultimately show ?thesis using cv a b(1) t f ran(4) by (intro disjI2) (metis end_turn_frame(1) not_less)
  qed
qed

lemma turn_spares: "chat_spares s (snd (turn ch who cid msg model active s))"
proof -
  obtain r s' where t: "turn ch who cid msg model active s = (r, s')" by (meson surj_pair)
  from t [unfolded turn_def] have "chat_spares s s'"
  proof (cases rule: guarded_cases)
    case (refused e m s1)
    with begin_turn_frame(1) [OF refused(1)] tell_frame(1) [OF refused(3)] show ?thesis by (simp add: chat_spares_def)
  next
    case (ran s1 r1 s2 s3)
    from turn_body_spares [OF ran(2)] begin_turn_frame(1) [OF ran(1)] tell_frame(1) [OF ran(3)] ran(4)
    show ?thesis by (simp add: chat_spares_def)
  qed
  then show ?thesis by (simp add: t)
qed

text \<open>
  C39. Neither a message of the user nor a declined approval lets the assistant reset, reconfigure or destroy an
  instance, touch its sealed state or delete a config, whatever the model answers. An approval may, by running one
  call: the one this conversation of the same user waits for, asked for at most ten minutes ago; what follows it
  again spares everything.
\<close>

theorem only_approval_destroys:
  "chat_spares s (snd (turn ch who cid msg model active s)) \<and>
   chat_spares s (snd (confirm ch who conv i False s)) \<and>
   (chat_spares s (snd (confirm ch who conv i True s)) \<or>
    (\<exists>cv p s1 c cv1 s2. (conv, cv) \<in> set (ct_convs s) \<and> cv_user cv = who_user who \<and> cv_pending cv = Some p \<and>
       pe_awaiting p = JStr i \<and> chat_now ch s - pe_asked_at p \<le> APPROVAL_TTL \<and> c = pe_calls p ! pe_index p \<and>
       database (ct_cp s1) = database (ct_cp s) \<and> execute ch who c cv1 s1 = (Inr (), s2) \<and>
       chat_spares (snd s2) (snd (confirm ch who conv i True s))))"
proof (intro conjI)
  show "chat_spares s (snd (turn ch who cid msg model active s))"
    by (rule turn_spares)
  obtain r s' where d: "confirm ch who conv i False s = (r, s')" by (meson surj_pair)
  from confirm_cases [OF d] show "chat_spares s (snd (confirm ch who conv i False s))"
    using sparing.declines unfolding d chat_spares_def by fastforce
next
  obtain r s' where d: "confirm ch who conv i True s = (r, s')" by (meson surj_pair)
  from confirm_cases [OF d] show "chat_spares s (snd (confirm ch who conv i True s)) \<or>
    (\<exists>cv p s1 c cv1 s2. (conv, cv) \<in> set (ct_convs s) \<and> cv_user cv = who_user who \<and> cv_pending cv = Some p \<and>
       pe_awaiting p = JStr i \<and> chat_now ch s - pe_asked_at p \<le> APPROVAL_TTL \<and> c = pe_calls p ! pe_index p \<and>
       database (ct_cp s1) = database (ct_cp s) \<and> execute ch who c cv1 s1 = (Inr (), s2) \<and>
       chat_spares (snd s2) (snd (confirm ch who conv i True s)))"
  proof (elim disjE exE conjE)
    fix cv :: conversation and p :: pending and s1 cv' s2 y
    let ?cv = "cv\<lparr>cv_pending := Some (p\<lparr>pe_awaiting := JStr []\<rparr>)\<rparr>"
    assume p: "(conv, cv) \<in> set (ct_convs s)" "cv_user cv = who_user who" "cv_pending cv = Some p" "pe_awaiting p = JStr i"
        "chat_now ch s - pe_asked_at p \<le> APPROVAL_TTL" "database (ct_cp s1) = database (ct_cp s)"
      and a: "answer_call ch who True p cv s1 = (y, cv', s2)" and s': "database (ct_cp s') = database (ct_cp s2)"
    show ?thesis
    proof (cases "pe_index p < length (pe_calls p)")
      case True
      obtain u cv2 s3 where e: "execute ch who (pe_calls p ! pe_index p) ?cv s1 = (u, cv2, s3)" by (metis surj_pair)
      from sparing.approves [OF a True] e s' have "chat_spares s3 s'" by (simp add: chat_spares_def)
      with p e execute_ok(1) [OF e] show ?thesis unfolding d by (intro disjI2) (metis snd_conv)
    next
      case False
      with a s' p(6) show ?thesis unfolding d by (simp add: answer_call_def chat_spares_def)
    qed
  qed (simp add: d chat_spares_def)
qed

section \<open>Every turn ends\<close>

text \<open>
  The runs of the assistant: turns, approvals and ended conversations of any users in any order, and between
  them any change of the control plane by other requests, or of time.
\<close>

inductive chat_reach :: "'w chat_service \<Rightarrow> 'w chat \<Rightarrow> 'w chat \<Rightarrow> bool" for ch and s0 where
  chat_start: "chat_reach ch s0 s0"
| chat_turn: "chat_reach ch s0 s \<Longrightarrow> chat_reach ch s0 (stream (turn ch who cid msg model active) s)"
| chat_confirm: "chat_reach ch s0 s \<Longrightarrow> chat_reach ch s0 (stream (confirm ch who conv i b) s)"
| chat_end: "chat_reach ch s0 s \<Longrightarrow> chat_reach ch s0 (snd (end_conv ch who conv s))"
| chat_other: "chat_reach ch s0 s \<Longrightarrow> chat_reach ch s0 (s\<lparr>ct_cp := c, ct_usage := us\<rparr>)"

lemma guarded_ok:
  assumes "guarded ch who body s = (r, s')" and "convs_ok ch s" and "ct_running s = []"
    and body: "\<And>s r s'. body s = (r, s') \<Longrightarrow> convs_ok ch s \<Longrightarrow>
      convs_ok ch s' \<and> (r = Inr () \<longrightarrow> ended_well s') \<and> ct_running s' = ct_running s"
  shows "convs_ok ch s'" and "ct_running s' = []" and "r = Inr () \<Longrightarrow> ended_well s'"
proof -
  have "convs_ok ch s' \<and> ct_running s' = [] \<and> (r = Inr () \<longrightarrow> ended_well s')" using assms(1)
  proof (cases rule: guarded_cases)
    case (refused e m s1)
    note b = begin_turn_frame [OF refused(1)] and t = tell_frame [OF refused(3)]
    from refused(2,3) have "ended_well s'" by (auto simp: tell_def)
    with b t assms(2,3) convs_ok_same show ?thesis by (metis is_err.simps(1))
  next
    case (ran s1 r1 s2 s3)
    note b = begin_turn_frame [OF ran(1)] and t = tell_frame [OF ran(3)]
    have "convs_ok ch s1" using convs_ok_same [OF b(3) assms(2)] .
    from body [OF ran(2) this] have c: "convs_ok ch s2" "r1 = Inr () \<longrightarrow> ended_well s2" "ct_running s2 = ct_running s1" by blast+
    have "r = Inr () \<longrightarrow> ended_well s3" using ran(3) c(2) by (auto simp: tell_def split: sum.splits option.splits)
    moreover have "ended_well s' = ended_well s3" by (simp add: ran(4) ended_well_def)
    moreover have "convs_ok ch s'" using convs_ok_same [OF _ c(1)] t(2) ran(4) by simp
    moreover have "ct_running s' = []" using ran(4) t(3) c(3) b(5) assms(3) by simp
    ultimately show ?thesis by blast
  qed
  then show "convs_ok ch s'" and "ct_running s' = []" and "r = Inr () \<Longrightarrow> ended_well s'" by blast+
qed

lemma stream_ok:
  assumes "convs_ok ch s" and "ct_running s = []"
    and body: "\<And>s r s'. body s = (r, s') \<Longrightarrow> convs_ok ch s \<Longrightarrow>
      convs_ok ch s' \<and> (r = Inr () \<longrightarrow> ended_well s') \<and> ct_running s' = ct_running s"
  shows "convs_ok ch (stream (guarded ch who body) s) \<and> ct_running (stream (guarded ch who body) s) = [] \<and>
    ended_well (stream (guarded ch who body) s)"
proof -
  obtain r s' where g: "guarded ch who body s = (r, s')" by (meson surj_pair)
  note f = guarded_ok [OF g assms(1,2) body]
  show ?thesis
  proof (cases r)
    case (Inl e)
    with g f show ?thesis by (simp add: stream_def convs_ok_same)
  next
    case (Inr u)
    with g f show ?thesis by (simp add: stream_def)
  qed
qed

lemma turn_stream_ok:
  assumes "convs_ok ch s" and "ct_running s = []"
  shows "convs_ok ch (stream (turn ch who cid msg model active) s) \<and> ct_running (stream (turn ch who cid msg model active) s) = [] \<and>
    ended_well (stream (turn ch who cid msg model active) s)"
  unfolding turn_def
proof (rule stream_ok [OF assms])
  fix s s' :: "'a chat" and r
  assume "turn_body ch who cid msg model active s = (r, s')" and "convs_ok ch s"
  from turn_body_ok [OF this] show "convs_ok ch s' \<and> (r = Inr () \<longrightarrow> ended_well s') \<and> ct_running s' = ct_running s" by blast
qed

lemma confirm_stream_ok:
  assumes "convs_ok ch s" and "ct_running s = []"
  shows "convs_ok ch (stream (confirm ch who conv i b) s) \<and> ct_running (stream (confirm ch who conv i b) s) = [] \<and>
    ended_well (stream (confirm ch who conv i b) s)"
  unfolding confirm_def
proof (rule stream_ok [OF assms])
  fix s s' :: "'a chat" and r
  assume "confirm_body ch who conv i b s = (r, s')" and "convs_ok ch s"
  from confirm_body_ok [OF this] show "convs_ok ch s' \<and> (r = Inr () \<longrightarrow> ended_well s') \<and> ct_running s' = ct_running s" by blast
qed

lemma end_conv_ok:
  assumes "convs_ok ch s"
  shows "convs_ok ch (snd (end_conv ch who conv s))" and "ct_running (snd (end_conv ch who conv s)) = ct_running s"
proof -
  obtain x s1 where g: "get_conv ch who conv s = (x, s1)" by (meson surj_pair)
  have "AList.delete conv (ct_convs s1) = filter (\<lambda>(k, c). k \<noteq> conv) (ct_convs s1)"
    by (auto simp: AList.delete_eq intro: filter_cong)
  with g get_conv_ok(1) [OF g assms] get_conv_frame(2) [OF g]
  show "convs_ok ch (snd (end_conv ch who conv s))" and "ct_running (snd (end_conv ch who conv s)) = ct_running s"
    using convs_ok_filter [of "s1\<lparr>ct_convs := AList.delete conv (ct_convs s1)\<rparr>" _ s1 ch]
    by (auto simp: end_conv_def split: sum.splits)
qed

lemma chat_reach_ok:
  "chat_reach ch s0 s \<Longrightarrow> convs_ok ch s0 \<Longrightarrow> ct_running s0 = [] \<Longrightarrow> convs_ok ch s \<and> ct_running s = []"
proof (induction rule: chat_reach.induct)
  case (chat_turn s who cid msg model active)
  then show ?case using turn_stream_ok by blast
next
  case (chat_confirm s who conv i b)
  then show ?case using confirm_stream_ok by blast
next
  case (chat_end s who conv)
  then show ?case using end_conv_ok by metis
qed (auto simp: convs_ok_def)

text \<open>
  C40. Along every run of the assistant, no user is left marked as busy, every conversation either is free or waits
  for an answer to one call that needs approval, and whatever the model, the provider and the tools do, the events of
  a message and of an approval end with an end of the turn, an error or a request for approval.
\<close>

theorem every_turn_ends:
  assumes "chat_reach ch s0 s" and "ct_convs s0 = []" and "ct_running s0 = []"
  shows "ct_running s = [] \<and> convs_ok ch s \<and>
    ended_well (stream (turn ch who cid msg model active) s) \<and> ended_well (stream (confirm ch who conv i b) s)"
proof -
  have "convs_ok ch s0" using assms(2) by (simp add: convs_ok_def)
  from chat_reach_ok [OF assms(1) this assms(3)] show ?thesis
    using turn_stream_ok [of ch s who cid msg model active] confirm_stream_ok [of ch s who conv i b] by blast
qed

text \<open>A concrete assistant, whose model always answers with a call of \<open>destroy_instance\<close>.\<close>

definition demo_library :: library where
  "demo_library = \<lparr>kb_files = [], kb_examples = [], kb_yaml = (\<lambda>_. Inr JNull), kb_str = (\<lambda>_. []), kb_int = (\<lambda>_. Inr 0),
     kb_ellipsis = ''...''\<rparr>"

definition demo_mcp :: "demo_world mcp_server" where
  "demo_mcp = \<lparr>mp_plane = demo_plane no_aead, mp_library = demo_library, mp_resources = None, mp_finished = (\<lambda>_. []),
     mp_repr = (\<lambda>_. [])\<rparr>"

definition demo_call :: tool_call where
  "demo_call = \<lparr>tc_id = JStr ''call_1'', tc_name = ''destroy_instance'', tc_arguments = ''{}''\<rparr>"

definition demo_answer :: json where
  "demo_answer = JObj [(''choices'', JList [JObj [(''message'', JObj [(''tool_calls'', JList [call_record demo_call])])]])]"

definition demo_llm :: "demo_world llm" where
  "demo_llm = \<lparr>lm_key = ''k'', lm_base = ''https://llm.test'', lm_transport = (\<lambda>_ _ _ _ w. (Inr (200, ''{}''), w)), lm_timeout = 90,
     lm_referer = [], lm_title = [], lm_data_collection = ''deny'', lm_loads = (\<lambda>_. Some demo_answer), lm_int = (\<lambda>_. Inr 0),
     lm_show_float = (\<lambda>_. ''0.0'')\<rparr>"

definition demo_chat_service :: "demo_world chat_service" where
  "demo_chat_service = \<lparr>ch_mcp = demo_mcp, ch_llm = demo_llm, ch_config = default_chat_config [''m''], ch_clock = (\<lambda>_. 20),
     ch_draws = (\<lambda>_. demo_draws), ch_strftime = (\<lambda>_ _. ''2026-01-01''),
     ch_loads = (\<lambda>_. Some (JObj [(''id'', JStr ''abcdefgh'')])), ch_str = (\<lambda>_. [])\<rparr>"

definition demo_chat :: "demo_world chat" where
  "demo_chat = \<lparr>ct_cp = demo_created no_aead False, ct_convs = [], ct_running = [], ct_usage = [], ct_events = []\<rparr>"

theorem every_turn_ends_witness:
  "ended_well (stream (turn demo_chat_service who_ada None ''hello'' None None) demo_chat) \<and>
   ended_well (stream (confirm demo_chat_service who_ada ''c'' ''call_1'' True) demo_chat)"
  using every_turn_ends [where ch = demo_chat_service and s = demo_chat and s0 = demo_chat and who = who_ada and cid = None and msg = "''hello''"
      and model = None and active = None and conv = "''c''" and i = "''call_1''" and b = True, OF chat_start]
  by (simp add: demo_chat_def)

text \<open>
  In that run the message is answered with a request for approval and the instance is left alone; the approval
  destroys it.
\<close>

lemma demo_title: "default_title ''destroy_instance'' = ''Destroy instance''"
  by code_simp

lemma demo_tool:
  "\<exists>t. chat_tool demo_chat_service ''destroy_instance'' = Some t \<and> needs_approval t \<and> tl_name t = ''destroy_instance'' \<and>
     tl_title t = ''Destroy instance''"
  by (simp add: chat_tool_def chat_tools_def demo_chat_service_def demo_mcp_def build_tools_def mk_tool_def WITHHELD_TOOLS_def
      needs_approval_def demo_title Let_def)

lemma demo_prompt: "\<exists>p. system_prompt demo_chat_service who_ada a t = Inr p"
  by (simp add: system_prompt_def demo_chat_service_def demo_mcp_def overview_def list_topics_def demo_library_def)

lemma demo_complete:
  "llm_complete demo_llm m ms ts k w =
   (Inr \<lparr>lo_message = JObj [(''tool_calls'', JList [call_record demo_call])], lo_model = JStr m, lo_prompt_tokens = 0,
         lo_completion_tokens = 0\<rparr>, w)"
  by (simp add: llm_complete_def demo_llm_def read_completion_def demo_answer_def first_message_def token_count_def get_attr_def Let_def)

lemma demo_read: "read_answer demo_chat_service (JObj [(''tool_calls'', JList [call_record demo_call])]) = Inr (JNull, [demo_call])"
  by (simp add: read_answer_def get_attr_def as_list_def usable_call_def call_record_def demo_call_def text_of_def
      List.map_filter_def)

abbreviation demo_usage :: "((string \<times> string) \<times> int) list" where
  "demo_usage \<equiv> [((''2026-01-01'', ''u_0a0b0c''), 0)]"

lemma demo_day: "chat_day demo_chat_service s = ''2026-01-01''" and demo_now: "chat_now demo_chat_service s = 20"
  by (simp_all add: chat_day_def chat_now_def demo_chat_service_def)

lemma demo_ask:
  assumes "ct_usage s \<in> {[], demo_usage}"
  shows "ask_model demo_chat_service who_ada cv s = (Inr (JNull, [demo_call]), s\<lparr>ct_usage := demo_usage\<rparr>)"
proof -
  obtain p where p: "system_prompt demo_chat_service who_ada (cv_active cv) s = Inr p" using demo_prompt by blast
  have u: "used_today demo_chat_service ''u_0a0b0c'' s = 0" "global_today demo_chat_service s = 0"
    using assms by (auto simp: used_today_def global_today_def demo_day)
  then have "check_budget demo_chat_service (who_user who_ada) s = Inr ()"
    by (simp add: check_budget_def demo_chat_service_def default_chat_config_def)
  moreover have "on_world (llm_complete (ch_llm demo_chat_service) m ms ts k) c =
      (Inr \<lparr>lo_message = JObj [(''tool_calls'', JList [call_record demo_call])], lo_model = JStr m, lo_prompt_tokens = 0,
         lo_completion_tokens = 0\<rparr>, c)" for m ms ts k c
    by (simp add: on_world_def demo_chat_service_def demo_complete)
  ultimately show ?thesis using p u assms by (auto simp: ask_model_def demo_read charge_def demo_day used_today_def)
qed

definition demo_pending :: pending where
  "demo_pending = \<lparr>pe_calls = [demo_call], pe_index = 0, pe_awaiting = JStr ''call_1'', pe_asked_at = 20\<rparr>"

text \<open>A run of the model on a free conversation stops at the request.\<close>

lemma demo_run:
  assumes "ct_usage s \<in> {[], demo_usage}"
  shows "run_turn demo_chat_service who_ada (Suc n) cv s =
    (Inr (), cv\<lparr>cv_messages := cv_messages cv @ [Assistant_msg JNull [demo_call]], cv_updated := 20, cv_pending := Some demo_pending\<rparr>,
     s\<lparr>ct_usage := demo_usage, ct_events := ct_events s @
       [Ev_confirm (cv_id cv) (JStr ''call_1'') ''destroy_instance'' ''Destroy instance'' (JObj [(''id'', JStr ''abcdefgh'')])]\<rparr>)"
proof -
  obtain t where t: "chat_tool demo_chat_service ''destroy_instance'' = Some t" "needs_approval t" "tl_name t = ''destroy_instance''"
    "tl_title t = ''Destroy instance''" using demo_tool by blast
  have "args_json (call_args demo_chat_service demo_call) = JObj [(''id'', JStr ''abcdefgh'')]"
    by (simp add: args_json_def call_args_def demo_chat_service_def)
  moreover have "tc_name demo_call = ''destroy_instance''" "tc_id demo_call = JStr ''call_1''" by (simp_all add: demo_call_def)
  ultimately show ?thesis using demo_ask [OF assms] t by (simp add: Let_def emit_def demo_now demo_pending_def)
qed

lemma demo_begin:
  assumes "ct_cp s = demo_created no_aead False" and "ct_running s = []"
  shows "begin_turn demo_chat_service who_ada s = (Inr (), s\<lparr>ct_running := [''u_0a0b0c'']\<rparr>)"
proof -
  have "sealer_of who_ada 20 (demo_cp no_aead) = (Inr demo_key, demo_cp no_aead)" by (simp add: demo_sealer)
  then have "fst (keys_get ''s_tok'' ''u_0a0b0c'' 20 (keys (demo_cp no_aead))) = Inr demo_key"
    by (auto simp: sealer_of_def on_keys_def split: prod.splits)
  then have "keys_get ''s_tok'' ''u_0a0b0c'' 20 (keys (demo_created no_aead False)) = (Inr demo_key, keys (demo_created no_aead False))"
    by (metis demo_create(6) keys_get_Inr_iff prod.collapse)
  with assms show ?thesis
    by (simp add: begin_turn_def and_then_def precheck_def is_unlocked_def sealer_of_def on_keys_def demo_now chat_enabled_def)
      (simp add: demo_chat_service_def default_chat_config_def)
qed

definition demo_conv :: conversation where
  "demo_conv = \<lparr>cv_id = ''tok'', cv_user = ''u_0a0b0c'', cv_model = ''m'', cv_updated = 20,
     cv_messages = [User_msg ''hello'', Assistant_msg JNull [demo_call]], cv_pending = Some demo_pending, cv_active = []\<rparr>"

definition demo_waiting :: "demo_world chat" where
  "demo_waiting = demo_chat\<lparr>ct_convs := [(''tok'', demo_conv)], ct_usage := demo_usage,
     ct_events := [Ev_confirm ''tok'' (JStr ''call_1'') ''destroy_instance'' ''Destroy instance'' (JObj [(''id'', JStr ''abcdefgh'')])]\<rparr>"

lemma demo_turn: "turn demo_chat_service who_ada None ''hello'' None None demo_chat = (Inr (), demo_waiting)"
proof -
  have h: "py_strip ''hello'' = ''hello''" by code_simp
  have b: "begin_turn demo_chat_service who_ada demo_chat = (Inr (), demo_chat\<lparr>ct_running := [''u_0a0b0c'']\<rparr>)"
    by (rule demo_begin) (simp_all add: demo_chat_def)
  have cc: "ch_config demo_chat_service = default_chat_config [''m'']" "cc_max_message_chars (default_chat_config [''m'']) = 8000"
    "cc_max_steps (default_chat_config [''m'']) = Suc 7" "cc_max_history (default_chat_config [''m'']) = 60"
    "cc_models (default_chat_config [''m'']) = [''m'']"
    by (simp_all add: demo_chat_service_def default_chat_config_def)
  let ?cv = "\<lparr>cv_id = ''tok'', cv_user = ''u_0a0b0c'', cv_model = ''m'', cv_updated = 20, cv_messages = [], cv_pending = None, cv_active = []\<rparr>"
  have n: "new_conv demo_chat_service who_ada ''m'' (demo_chat\<lparr>ct_running := [''u_0a0b0c'']\<rparr>) =
      (?cv, demo_chat\<lparr>ct_running := [''u_0a0b0c''], ct_convs := [(''tok'', ?cv)]\<rparr>)"
    by (simp add: new_conv_def purge_convs_def demo_now make_room_def Let_def)
      (simp add: demo_chat_service_def demo_chat_def demo_draws_def)
  have u: "ct_usage demo_chat = []" "ct_events demo_chat = []" by (simp_all add: demo_chat_def)
  have body: "turn_body demo_chat_service who_ada None ''hello'' None None (demo_chat\<lparr>ct_running := [''u_0a0b0c'']\<rparr>) =
      (Inr (), demo_waiting\<lparr>ct_running := [''u_0a0b0c'']\<rparr>)"
    unfolding turn_body_def cc Let_def
    by (simp add: h n default_model_def truthy_str_def trim_def cc demo_run [of _ 7, simplified] u del: run_turn.simps)
      (simp add: put_conv_def demo_waiting_def demo_conv_def demo_chat_def)
  show ?thesis
    unfolding turn_def guarded_def b using body by (simp add: end_turn_def tell_def demo_waiting_def demo_chat_def)
qed

lemma demo_tool_fn:
  "\<exists>t. checked_call demo_mcp [(''name'', JStr ''destroy_instance''), (''arguments'', JObj [(''id'', JStr ''abcdefgh'')])] =
     Inr (t, [(''id'', JStr ''abcdefgh'')]) \<and>
     tl_fn t = (\<lambda>w a now r s. answer view_json (destroy_instance_op (demo_plane no_aead) w (str_arg a ''id'') now s))"
  by (simp add: checked_call_def find_tool_def as_key_def param_def demo_mcp_def build_tools_def mk_tool_def Let_def
      arguments_of_def extra_args_def missing_args_def wrong_args_def type_ok_def schema_of_def)

lemma demo_call_destroys:
  "\<exists>y. call_safely demo_mcp who_ada ''destroy_instance'' [(''id'', JStr ''abcdefgh'')] 20 r (demo_created no_aead False) =
     (Inr y, demo_destroyed no_aead False)"
proof -
  obtain t where t: "checked_call demo_mcp [(''name'', JStr ''destroy_instance''), (''arguments'', JObj [(''id'', JStr ''abcdefgh'')])] =
      Inr (t, [(''id'', JStr ''abcdefgh'')])"
    and f: "tl_fn t = (\<lambda>w a now r s. answer view_json (destroy_instance_op (demo_plane no_aead) w (str_arg a ''id'') now s))"
    using demo_tool_fn by blast
  have "snd (tl_fn t who_ada [(''id'', JStr ''abcdefgh'')] 20 r (demo_created no_aead False)) = demo_destroyed no_aead False"
    by (simp add: f answer_def demo_destroyed_def str_arg_def split: prod.splits)
  with t show ?thesis by (auto simp: call_safely_def call_tool_def split: prod.splits)
qed

lemma demo_execute:
  assumes "ct_cp s = demo_created no_aead False"
  shows "\<exists>cv' es. execute demo_chat_service who_ada demo_call cv s =
    (Inr (), cv', s\<lparr>ct_cp := demo_destroyed no_aead False, ct_events := es\<rparr>)"
proof -
  obtain t where t: "chat_tool demo_chat_service ''destroy_instance'' = Some t" using demo_tool by blast
  have a: "call_args demo_chat_service demo_call = Some [(''id'', JStr ''abcdefgh'')]"
    by (simp add: call_args_def demo_chat_service_def)
  have m: "ch_mcp demo_chat_service = demo_mcp" by (simp add: demo_chat_service_def)
  have n: "tc_name demo_call = ''destroy_instance''" by (simp add: demo_call_def)
  let ?s = "emit (Ev_tool (tc_id demo_call) ''destroy_instance'' (args_json (call_args demo_chat_service demo_call))) s"
  obtain x e where y: "call_safely demo_mcp who_ada ''destroy_instance'' [(''id'', JStr ''abcdefgh'')] 20
      (ch_draws demo_chat_service (world (ct_cp ?s))) (demo_created no_aead False) = (Inr (x, e), demo_destroyed no_aead False)"
    using demo_call_destroys by (metis surj_pair)
  have c: "ct_cp ?s = demo_created no_aead False" using assms by simp
  have "\<exists>u v. perform demo_chat_service who_ada demo_call ?s = (Inr (x, u, v), ?s\<lparr>ct_cp := demo_destroyed no_aead False\<rparr>)"
    unfolding perform_def n Let_def using t a y unfolding m demo_now c by (simp split: option.splits)
  then obtain u v where "perform demo_chat_service who_ada demo_call ?s = (Inr (x, u, v), ?s\<lparr>ct_cp := demo_destroyed no_aead False\<rparr>)"
    by blast
  then show ?thesis
    by (cases v) (auto simp: execute_def n Let_def emit_def intro!: exI)
qed

text \<open>The approval of the waiting call destroys the instance.\<close>

lemma demo_confirm:
  "map i_status (instances (database (ct_cp demo_waiting))) = [Creating] \<and>
   map i_status (instances (database (ct_cp (snd (confirm demo_chat_service who_ada ''tok'' ''call_1'' True demo_waiting))))) = [Destroyed]"
proof -
  have w: "ct_cp demo_waiting = demo_created no_aead False" "ct_running demo_waiting = []" "ct_usage demo_waiting = demo_usage"
    "ct_convs demo_waiting = [(''tok'', demo_conv)]"
    by (simp_all add: demo_waiting_def demo_chat_def)
  let ?s = "demo_waiting\<lparr>ct_running := [''u_0a0b0c'']\<rparr>"
  have b: "begin_turn demo_chat_service who_ada demo_waiting = (Inr (), ?s)" by (rule demo_begin) (simp_all add: w)
  have g: "get_conv demo_chat_service who_ada ''tok'' ?s = (Inr demo_conv, ?s)"
    by (simp add: get_conv_def purge_convs_def demo_now w) (simp add: demo_conv_def demo_chat_service_def default_chat_config_def)
  obtain cv1 es where e: "execute demo_chat_service who_ada demo_call (demo_conv\<lparr>cv_pending := Some (demo_pending\<lparr>pe_awaiting := JStr []\<rparr>)\<rparr>) ?s =
      (Inr (), cv1, ?s\<lparr>ct_cp := demo_destroyed no_aead False, ct_events := es\<rparr>)"
    using demo_execute [of ?s "demo_conv\<lparr>cv_pending := Some (demo_pending\<lparr>pe_awaiting := JStr []\<rparr>)\<rparr>"] w by force
  have pc: "cv_pending demo_conv = Some demo_pending" "pe_awaiting demo_pending = JStr ''call_1''" "pe_asked_at demo_pending = 20"
    by (simp_all add: demo_conv_def demo_pending_def)
  have k: "cc_max_steps (ch_config demo_chat_service) = Suc 7" by (simp add: demo_chat_service_def default_chat_config_def)
  have "ct_cp (snd (snd (answer_call demo_chat_service who_ada True demo_pending demo_conv ?s))) = demo_destroyed no_aead False"
    using e by (simp add: answer_call_def demo_pending_def k demo_run [of _ 7, simplified] w del: run_turn.simps)
  then have "ct_cp (snd (confirm_body demo_chat_service who_ada ''tok'' ''call_1'' True ?s)) = demo_destroyed no_aead False"
    by (auto simp: confirm_body_def g pc demo_now APPROVAL_TTL_def put_conv_def split: prod.splits)
  then have "ct_cp (snd (confirm demo_chat_service who_ada ''tok'' ''call_1'' True demo_waiting)) = demo_destroyed no_aead False"
    by (cases "confirm_body demo_chat_service who_ada ''tok'' ''call_1'' True ?s")
      (auto simp: confirm_def guarded_def b tell_def end_turn_def split: prod.splits sum.splits option.splits)
  with w show ?thesis by (simp add: demo_destroyed_rows demo_create demo_row_def)
qed

end
