(* ===== verification/Bench.thy ===== *)
theory Bench
  imports State Fly Json
begin

text \<open>
  The workbench of a deploy: the files below its working directory and the outside world,
  threaded through every step. A step (\<open>act\<close>) is a function from the state to a result
  and the state after it; an exception keeps what was done before it. A text is read and
  written as the sequence of its bytes.

  The locale \<open>frame\<close> is what a sequence of steps does to a reflexive and transitive relation
  on the state that each step respects; the deploy theories interpret it on their relations.
\<close>

section \<open>Steps\<close>

type_synonym ('s, 'e, 'a) act = "'s \<Rightarrow> ('e + 'a) \<times> 's"

definition seq :: "('s, 'e, 'a) act \<Rightarrow> ('a \<Rightarrow> ('s, 'e, 'b) act) \<Rightarrow> ('s, 'e, 'b) act" where
  "seq m k s = (case m s of (Inl e, s') \<Rightarrow> (Inl e, s') | (Inr a, s') \<Rightarrow> k a s')"

definition give :: "'a \<Rightarrow> ('s, 'e, 'a) act" where
  "give a s = (Inr a, s)"

definition refuse :: "'e \<Rightarrow> ('s, 'e, 'a) act" where
  "refuse e s = (Inl e, s)"

definition value_of :: "'e + 'a \<Rightarrow> ('s, 'e, 'a) act" where
  "value_of r s = (r, s)"

definition only_if :: "bool \<Rightarrow> ('s, 'e, unit) act \<Rightarrow> ('s, 'e, unit) act" where
  "only_if b m = (if b then m else give ())"

text \<open>\<open>for x in xs: ..\<close>, and the list of the results.\<close>

fun each :: "('a \<Rightarrow> ('s, 'e, 'b) act) \<Rightarrow> 'a list \<Rightarrow> ('s, 'e, 'b list) act" where
  "each f [] = give []"
| "each f (x # xs) = seq (f x) (\<lambda>y. seq (each f xs) (\<lambda>ys. give (y # ys)))"

text \<open>\<open>try: m except: h\<close>, where \<open>h\<close> tells which exceptions it catches and what it raises instead.\<close>

definition rethrow :: "('e \<Rightarrow> 'e') \<Rightarrow> ('s, 'e, 'a) act \<Rightarrow> ('s, 'e', 'a) act" where
  "rethrow h m s = (case m s of (Inl e, s') \<Rightarrow> (Inl (h e), s') | (Inr a, s') \<Rightarrow> (Inr a, s'))"

text \<open>\<open>try: m finally: f\<close>: an exception of \<open>f\<close> replaces the result of \<open>m\<close>.\<close>

definition ended_by :: "('s, 'e, 'a) act \<Rightarrow> ('s, 'e, unit) act \<Rightarrow> ('s, 'e, 'a) act" where
  "ended_by m f s = (case m s of (r, s') \<Rightarrow> (case f s' of (Inl e, s'') \<Rightarrow> (Inl e, s'') | (Inr _, s'') \<Rightarrow> (r, s'')))"

text \<open>\<open>try: m except: h\<close> with an action as handler; \<open>None\<close> is an exception it does not catch.\<close>

definition handled :: "('s, 'e, 'a) act \<Rightarrow> ('e \<Rightarrow> ('s, 'e, 'a) act option) \<Rightarrow> ('s, 'e, 'a) act" where
  "handled m h s = (case m s of
     (Inl e, s') \<Rightarrow> (case h e of None \<Rightarrow> (Inl e, s') | Some k \<Rightarrow> k s')
   | (Inr a, s') \<Rightarrow> (Inr a, s'))"

lemma seq_Inr_iff:
  "seq m k s = (Inr b, s'') \<longleftrightarrow> (\<exists>a s'. m s = (Inr a, s') \<and> k a s' = (Inr b, s''))"
  by (auto simp: seq_def split: prod.splits sum.splits)

lemma seq_Inl_iff:
  "seq m k s = (Inl e, s'') \<longleftrightarrow> m s = (Inl e, s'') \<or> (\<exists>a s'. m s = (Inr a, s') \<and> k a s' = (Inl e, s''))"
  by (auto simp: seq_def split: prod.splits sum.splits)

lemma rethrow_Inr_iff: "rethrow h m s = (Inr a, s') \<longleftrightarrow> m s = (Inr a, s')"
  by (auto simp: rethrow_def split: prod.splits sum.splits)

lemma rethrow_Inl_iff: "rethrow h m s = (Inl e, s') \<longleftrightarrow> (\<exists>x. m s = (Inl x, s') \<and> e = h x)"
  by (auto simp: rethrow_def split: prod.splits sum.splits)

lemma act_simps [simp]:
  "give a s = (Inr a, s)" "refuse e s = (Inl e, s)" "value_of r s = (r, s)"
  by (simp_all add: give_def refuse_def value_of_def)

section \<open>Frames\<close>

locale frame =
  fixes R :: "'s \<Rightarrow> 's \<Rightarrow> bool"
  assumes R_refl: "R s s"
    and R_trans: "R s t \<Longrightarrow> R t u \<Longrightarrow> R s u"
begin

definition keeps :: "('s, 'e, 'a) act \<Rightarrow> bool" where
  "keeps m \<longleftrightarrow> (\<forall>s. R s (snd (m s)))"

lemma keepsI: "(\<And>s r s'. m s = (r, s') \<Longrightarrow> R s s') \<Longrightarrow> keeps m"
  unfolding keeps_def by (metis prod.collapse)

lemma keepsD: "keeps m \<Longrightarrow> m s = (r, s') \<Longrightarrow> R s s'"
  unfolding keeps_def by (metis snd_conv)

lemma keeps_seq [intro]: "keeps m \<Longrightarrow> (\<And>a. keeps (k a)) \<Longrightarrow> keeps (seq m k)"
  unfolding keeps_def seq_def by (auto split: prod.splits sum.splits) (metis R_trans snd_conv)+

lemma keeps_seq_post: "keeps m \<Longrightarrow> (\<And>s a t. m s = (Inr a, t) \<Longrightarrow> keeps (k a)) \<Longrightarrow> keeps (seq m k)"
  unfolding keeps_def seq_def by (auto split: prod.splits sum.splits) (metis R_trans snd_conv)+

lemma keeps_simple [intro, simp]: "keeps (give a)" "keeps (refuse e)" "keeps (value_of r)"
  by (simp_all add: keeps_def R_refl)

lemma keeps_only_if [intro]: "(b \<Longrightarrow> keeps m) \<Longrightarrow> keeps (only_if b m)"
  by (cases b) (simp_all add: only_if_def)

lemma keeps_each [intro]: "(\<And>x. x \<in> set xs \<Longrightarrow> keeps (f x)) \<Longrightarrow> keeps (each f xs)"
  by (induction xs) (auto intro!: keeps_seq)

lemma keeps_rethrow [intro]: "keeps m \<Longrightarrow> keeps (rethrow h m)"
  unfolding keeps_def rethrow_def by (auto split: prod.splits sum.splits)  (metis snd_conv)+

lemma keeps_ended_by [intro]: "keeps m \<Longrightarrow> keeps f \<Longrightarrow> keeps (ended_by m f)"
  unfolding keeps_def ended_by_def by (auto split: prod.splits sum.splits) (metis R_trans snd_conv)+

lemma keeps_handled [intro]: "keeps m \<Longrightarrow> (\<And>e k. h e = Some k \<Longrightarrow> keeps k) \<Longrightarrow> keeps (handled m h)"
  unfolding keeps_def handled_def by (auto split: prod.splits sum.splits option.splits) (metis R_trans snd_conv)+

lemma keeps_if [intro]: "(b \<Longrightarrow> keeps m) \<Longrightarrow> (\<not> b \<Longrightarrow> keeps n) \<Longrightarrow> keeps (if b then m else n)"
  by simp

lemma keeps_prod [intro]: "(\<And>a b. keeps (f a b)) \<Longrightarrow> keeps (case p of (a, b) \<Rightarrow> f a b)"
  by (cases p) simp

lemma keeps_list [intro]:
  "(xs = [] \<Longrightarrow> keeps m) \<Longrightarrow> (\<And>y ys. xs = y # ys \<Longrightarrow> keeps (f y ys)) \<Longrightarrow>
   keeps (case xs of [] \<Rightarrow> m | y # ys \<Rightarrow> f y ys)"
  by (cases xs) auto

lemma keeps_option [intro]:
  "(x = None \<Longrightarrow> keeps m) \<Longrightarrow> (\<And>y. x = Some y \<Longrightarrow> keeps (f y)) \<Longrightarrow> keeps (case x of None \<Rightarrow> m | Some y \<Rightarrow> f y)"
  by (cases x) auto

end

section \<open>Files\<close>

record 'w bench =
  bn_files :: files
  bn_world :: 'w

definition path_text :: "abs_path \<Rightarrow> string" where
  "path_text p = concat (map (\<lambda>c. CHR ''/'' # c) p)"

definition no_file :: "abs_path \<Rightarrow> exn" where
  "no_file p = OtherError ''FileNotFoundError'' (''[Errno 2] No such file or directory: '' @ py_repr (path_text p))"

definition file_at :: "'w bench \<Rightarrow> abs_path \<Rightarrow> bytes option" where
  "file_at s p = map_of (bn_files s) p"

definition read_file :: "abs_path \<Rightarrow> ('w bench, exn, bytes) act" where
  "read_file p s = (case file_at s p of None \<Rightarrow> (Inl (no_file p), s) | Some b \<Rightarrow> (Inr b, s))"

definition has_file :: "abs_path \<Rightarrow> ('w bench, exn, bool) act" where
  "has_file p s = (Inr (file_at s p \<noteq> None), s)"

definition write_file :: "abs_path \<Rightarrow> bytes \<Rightarrow> ('w bench, exn, unit) act" where
  "write_file p b s = (Inr (), s\<lparr>bn_files := AList.update p b (bn_files s)\<rparr>)"

text \<open>The names of \<open>sorted(dir.glob("*"))\<close>; the directories read this way hold files only.\<close>

definition names_in :: "abs_path \<Rightarrow> files \<Rightarrow> string list" where
  "names_in dir fs = sort (remdups (map (last \<circ> fst)
     (filter (\<lambda>(p, b). length p = Suc (length dir) \<and> take (length dir) p = dir) fs)))"

definition list_dir :: "abs_path \<Rightarrow> ('w bench, exn, string list) act" where
  "list_dir dir s = (Inr (names_in dir (bn_files s)), s)"

definition at_world :: "('w \<Rightarrow> ('w, 'a) outcome) \<Rightarrow> ('w bench, exn, 'a) act" where
  "at_world m s = (case m (bn_world s) of (r, w) \<Rightarrow> (r, s\<lparr>bn_world := w\<rparr>))"

lemma file_steps [simp]:
  "snd (read_file p s) = s" "snd (has_file p s) = s" "snd (list_dir p s) = s"
  "bn_files (snd (at_world m s)) = bn_files s"
  "bn_world (snd (write_file p b s)) = bn_world s"
  by (simp_all add: read_file_def has_file_def list_dir_def at_world_def write_file_def split: option.splits prod.splits)

lemma at_world_iff:
  "at_world m s = (Inr a, s') \<longleftrightarrow> (\<exists>w. m (bn_world s) = (Inr a, w) \<and> s' = s\<lparr>bn_world := w\<rparr>)"
  "at_world m s = (Inl e, s') \<longleftrightarrow> (\<exists>w. m (bn_world s) = (Inl e, w) \<and> s' = s\<lparr>bn_world := w\<rparr>)"
  by (auto simp: at_world_def split: prod.splits)

lemma file_at_write: "file_at (snd (write_file p b s)) q = (if q = p then Some b else file_at s q)"
  by (simp add: write_file_def file_at_def update_conv')

lemma file_at_world: "file_at (snd (at_world m s)) q = file_at s q"
  by (simp add: file_at_def)

end
