(* ===== verification/Toolbox.thy ===== *)
theory Toolbox
  imports Bench Machines Android Naming
begin

text \<open>
  The rest of FlyClient (sirosid_core/fly.py): docker, deploys, execution on a machine,
  tokens and secrets; and the generated secrets of sirosid_core/state.py. What is outside
  the repository is in the record \<open>kit\<close>: flyctl and docker, with and without standard
  input, the PKI script, the decoders of flyctl's replies, the clock and the random source.
  \<open>CalledProcessError\<close> carries the exit code. The text of \<open>FlyDeployError\<close> is its return
  code here, the one thing its only handler uses.
\<close>

record 'w kit =
  kt_fly :: "'w fly"
  kt_stdin :: "string list \<Rightarrow> string \<Rightarrow> 'w \<Rightarrow> cmd_result \<times> 'w"
  kt_exec :: "string list \<Rightarrow> string dict \<Rightarrow> 'w bench \<Rightarrow> int \<times> 'w bench"
  kt_docker :: "string list \<Rightarrow> 'w \<Rightarrow> cmd_result option \<times> 'w"
  kt_authed :: "'w \<Rightarrow> bool"
  kt_set_authed :: "'w \<Rightarrow> 'w"
  kt_time :: "'w \<Rightarrow> time"
  kt_choice :: "nat \<Rightarrow> 'w \<Rightarrow> nat \<times> 'w"
  kt_token_field :: "string \<Rightarrow> string option"
  kt_private_ips :: "string \<Rightarrow> string option list option"

definition process_error :: "int \<Rightarrow> exn" where
  "process_error code = OtherError ''CalledProcessError'' (show_int code)"

definition fly_deploy_error :: "int \<Rightarrow> exn" where
  "fly_deploy_error code = OtherError ''FlyDeployError'' (show_int code)"

section \<open>Docker\<close>

text \<open>\<open>docker(.., check=True)\<close>; no docker at all is \<open>FileNotFoundError\<close>.\<close>

definition run_docker :: "'w kit \<Rightarrow> string list \<Rightarrow> 'w \<Rightarrow> ('w, unit) outcome" where
  "run_docker k args w =
     (case kt_docker k (''docker'' # args) w of
        (None, w') \<Rightarrow> (Inl (OtherError ''FileNotFoundError'' ''docker''), w')
      | (Some r, w') \<Rightarrow> (if cr_code r \<noteq> 0 then Inl (process_error (cr_code r)) else Inr (), w'))"

definition docker_ok :: "'w kit \<Rightarrow> string list \<Rightarrow> 'w \<Rightarrow> ('w, bool) outcome" where
  "docker_ok k args w =
     (case kt_docker k (''docker'' # args) w of
        (None, w') \<Rightarrow> (Inr False, w')
      | (Some r, w') \<Rightarrow> (Inr (cr_code r = 0), w'))"

definition image_pullable :: "'w kit \<Rightarrow> string \<Rightarrow> 'w \<Rightarrow> ('w, bool) outcome" where
  "image_pullable k ref = docker_ok k [''manifest'', ''inspect'', ref]"

definition is_local_docker_image :: "'w kit \<Rightarrow> string \<Rightarrow> 'w \<Rightarrow> ('w, bool) outcome" where
  "is_local_docker_image k ref =
     (if CHR ''/'' \<in> set ref then give False else docker_ok k [''image'', ''inspect'', ref])"

definition run_fly :: "'w kit \<Rightarrow> string list \<Rightarrow> bool \<Rightarrow> bool \<Rightarrow> 'w \<Rightarrow> ('w, cmd_result) outcome" where
  "run_fly k = run (kt_fly k)"

definition push_local_image :: "'w kit \<Rightarrow> string \<Rightarrow> string \<Rightarrow> 'w \<Rightarrow> ('w, string) outcome" where
  "push_local_image k a local_ref =
     seq (\<lambda>w. if kt_authed k w then (Inr (), w)
              else seq (run_fly k [''auth'', ''docker''] True False) (\<lambda>_ w'. (Inr (), kt_set_authed k w')) w) (\<lambda>_.
     seq (\<lambda>w. (Inr (''registry.fly.io/'' @ a @ '':local-'' @ show_int \<lfloor>kt_time k w\<rfloor>), w)) (\<lambda>remote_ref.
     seq (run_docker k [''tag'', local_ref, remote_ref]) (\<lambda>_.
     seq (run_docker k [''push'', remote_ref]) (\<lambda>_. give remote_ref))))"

section \<open>Machines and deploys\<close>

definition fly_deploy :: "'w kit \<Rightarrow> string list \<Rightarrow> 'w \<Rightarrow> ('w, unit) outcome" where
  "fly_deploy k args w =
     (case fly_run (kt_fly k) (''flyctl'' # args) w of
        (r, w') \<Rightarrow> (if cr_code r \<noteq> 0 then Inl (fly_deploy_error (cr_code r)) else Inr (), w'))"

text \<open>The command line does not hold the input, which is read from standard input.\<close>

definition machine_exec :: "'w kit \<Rightarrow> string \<Rightarrow> string \<Rightarrow> string \<Rightarrow> 'w \<Rightarrow> ('w, unit) outcome" where
  "machine_exec k a command input_text =
     seq (list_machines (kt_fly k) a) (\<lambda>ms w.
       case ms of
         [] \<Rightarrow> (Inl (FlyError (''cannot execute on '' @ a @ '': no machines'')), w)
       | m # _ \<Rightarrow>
           (case kt_stdin k [''flyctl'', ''machine'', ''exec'', fm_id m, ''-a'', a, command] input_text w of
              (r, w') \<Rightarrow>
                (if cr_code r \<noteq> 0
                 then Inl (FlyError (''machine exec on '' @ a @ '' failed (exit '' @ show_int (cr_code r) @ '')'' @ detail_text r))
                 else Inr (), w')))"

definition machine_private_ip :: "'w kit \<Rightarrow> string \<Rightarrow> 'w \<Rightarrow> ('w, string option) outcome" where
  "machine_private_ip k a =
     seq (run_fly k [''machine'', ''list'', ''-a'', a, ''--json''] False True) (\<lambda>r.
       if cr_code r \<noteq> 0 then give None
       else case loads_or (kt_private_ips k) (cr_out r) of
         None \<Rightarrow> give None
       | Some [] \<Rightarrow> give None
       | Some (None # _) \<Rightarrow> refuse (KeyError ''private_ip'')
       | Some (Some ip # _) \<Rightarrow> give (Some ip))"

text \<open>Empty on any failure.\<close>

definition read_machine_file :: "'w kit \<Rightarrow> string \<Rightarrow> string \<Rightarrow> 'w \<Rightarrow> ('w, string) outcome" where
  "read_machine_file k a path =
     seq (run_fly k [''ssh'', ''console'', ''-a'', a, ''-C'', ''cat '' @ path] False True) (\<lambda>r.
       give (if cr_code r = 0 then py_strip (cr_out r) else []))"

section \<open>Tokens and secrets\<close>

definition create_deploy_token :: "'w kit \<Rightarrow> string \<Rightarrow> string \<Rightarrow> string \<Rightarrow> 'w \<Rightarrow> ('w, string) outcome" where
  "create_deploy_token k a name expiry =
     seq (run_fly k [''tokens'', ''create'', ''deploy'', ''-a'', a, ''--name'', name, ''--expiry'', expiry, ''--json''] True True) (\<lambda>r.
       let first = (case kt_token_field k (if cr_out r = [] then ''{}'' else cr_out r) of None \<Rightarrow> [] | Some t \<Rightarrow> t);
           token = (if first \<noteq> [] then first else py_strip (last (text_lines (py_strip (cr_out r)))))
       in if token = [] then refuse (FlyError (''could not create a deploy token for '' @ a @ '': '' @ cr_err r)) else give token)"

definition std_b64_char :: "char \<Rightarrow> char" where
  "std_b64_char c = (if c = CHR ''-'' then CHR ''+'' else if c = CHR ''_'' then CHR ''/'' else c)"

definition base64_text :: "bytes \<Rightarrow> string" where
  "base64_text b = map std_b64_char (b64_encode (map of_char b))"

definition ensure_secret :: "'w kit \<Rightarrow> string \<Rightarrow> string \<Rightarrow> string \<Rightarrow> bool \<Rightarrow> 'w \<Rightarrow> ('w, unit) outcome" where
  "ensure_secret k a key val force =
     seq (if force then give [] else existing_secret_names (kt_fly k) a) (\<lambda>names.
       if key \<in> set names then give ()
       else seq (run_fly k [''secrets'', ''set'', key @ ''='' @ base64_text val, ''-a'', a, ''--stage''] True False) (\<lambda>_. give ()))"

definition importable :: "string \<times> string \<Rightarrow> bool" where
  "importable kv \<longleftrightarrow> fst kv \<noteq> [] \<and> CHR ''='' \<notin> set (fst kv) \<and> CHR 0x0A \<notin> set (fst kv) \<and> CHR 0x0A \<notin> set (snd kv)"

definition import_secrets :: "'w kit \<Rightarrow> string \<Rightarrow> string dict \<Rightarrow> bool \<Rightarrow> 'w \<Rightarrow> ('w, unit) outcome" where
  "import_secrets k a vals stage w =
     (case find (\<lambda>kv. \<not> importable kv) vals of
        Some (n, v) \<Rightarrow>
          (Inl (FlyError (''secret '' @ py_repr n @ '': names must not contain '' @ py_repr ''='' @ '' and values must be one line'')), w)
      | None \<Rightarrow>
          (case kt_stdin k ([''flyctl'', ''secrets'', ''import'', ''-a'', a] @ (if stage then [''--stage''] else []))
                  (concat (map (\<lambda>(n, v). n @ ''='' @ v @ [CHR 0x0A]) vals)) w of
             (r, w') \<Rightarrow>
               (if cr_code r \<noteq> 0
                then Inl (FlyError (''flyctl secrets import failed (exit '' @ show_int (cr_code r) @ '') for '' @
                       join_with '', '' (sort (map fst vals)) @ '' on '' @ a))
                else Inr (), w')))"

section \<open>Generated secrets\<close>

definition SECRET_ALPHABET :: string where
  "SECRET_ALPHABET = ''abcdefghijklmnopqrstuvwxyzABCDEFGHIJKLMNOPQRSTUVWXYZ0123456789''"

text \<open>\<open>secrets.choice\<close> is an index below the length of the alphabet.\<close>

fun draw_chars :: "'w kit \<Rightarrow> nat \<Rightarrow> 'w \<Rightarrow> string \<times> 'w" where
  "draw_chars k 0 w = ([], w)"
| "draw_chars k (Suc n) w =
     (case kt_choice k (length SECRET_ALPHABET) w of
        (i, w') \<Rightarrow> (case draw_chars k n w' of (s, w'') \<Rightarrow> (SECRET_ALPHABET ! (i mod length SECRET_ALPHABET) # s, w'')))"

definition random_secret :: "'w kit \<Rightarrow> nat \<Rightarrow> 'w \<Rightarrow> ('w, string) outcome" where
  "random_secret k n w = (case draw_chars k n w of (s, w') \<Rightarrow> (Inr s, w'))"

definition persistent_secret :: "'w kit \<Rightarrow> abs_path \<Rightarrow> string \<Rightarrow> ('w bench, exn, string) act" where
  "persistent_secret k dir name =
     (if name \<notin> set STATE_FILES
      then refuse (ValueError (py_repr name @ '' is not a declared state file (see STATE_FILES)''))
      else let path = dir @ [name] in
        seq (has_file path) (\<lambda>there.
          if there then seq (read_file path) (\<lambda>t. give (py_strip t))
          else seq (at_world (random_secret k 32)) (\<lambda>v. seq (write_file path v) (\<lambda>_. give v))))"

section \<open>Facts of the secrets\<close>

lemma alphabet_nonempty: "0 < length SECRET_ALPHABET"
  by (simp add: SECRET_ALPHABET_def)

lemma draw_chars_ok: "draw_chars k n w = (s, w') \<Longrightarrow> length s = n \<and> set s \<subseteq> set SECRET_ALPHABET"
proof (induction n arbitrary: w s w')
  case (Suc n)
  have "SECRET_ALPHABET ! (i mod length SECRET_ALPHABET) \<in> set SECRET_ALPHABET" for i
    by (rule nth_mem) (rule mod_less_divisor [OF alphabet_nonempty])
  with Suc show ?case by (fastforce split: prod.splits)
qed simp

end
