(* ===== verification/Assets.thy ===== *)
theory Assets
  imports Toolbox Spec
begin

text \<open>
  Files and settings a deploy gives its apps: fly.toml, the config of mini-oidc and the
  Digital Asset Links document (sirosid_core/assets.py), the environments of wallet-frontend
  and mini-oidc (sirosid_core/deploy.py), what is read from the rendered manifest
  (sirosid_core/helm.py), the secrets a rendered config names (sirosid_core/vc_render.py) and
  the identity of a certificate (sirosid_core/siros_verifier.py). The pages and nginx
  configs, which are long texts, are the record \<open>pages\<close>. Values of a ConfigMap are strings,
  as Kubernetes has them; any other value is refused with \<open>TypeError\<close>.
\<close>

section \<open>JSON documents\<close>

definition get_or :: "json \<Rightarrow> string \<Rightarrow> exn + json" where
  "get_or j k = get_attr (if json_truthy j then j else JObj []) k"

definition values_of :: "json \<Rightarrow> exn + json list" where
  "values_of j = (if \<not> json_truthy j then Inr [] else case j of JObj d \<Rightarrow> Inr (map snd d) | _ \<Rightarrow> Inl no_attribute)"

definition text_value :: "json \<Rightarrow> exn + string" where
  "text_value j = (case j of JStr s \<Rightarrow> Inr s | _ \<Rightarrow> Inl (TypeError ''not a string''))"

text \<open>\<open>d.get(k, "")\<close> of a ConfigMap.\<close>

definition data_text :: "json \<Rightarrow> string \<Rightarrow> exn + string" where
  "data_text d k = (case d of
      JObj kvs \<Rightarrow> (case map_of kvs k of None \<Rightarrow> Inr [] | Some v \<Rightarrow> text_value v)
    | _ \<Rightarrow> Inl no_attribute)"

text \<open>\<open>j[k]\<close>\<close>

definition item_of :: "json \<Rightarrow> string \<Rightarrow> exn + json" where
  "item_of j k =
     (case j of
        JObj d \<Rightarrow> (case map_of d k of None \<Rightarrow> Inl (KeyError k) | Some v \<Rightarrow> Inr v)
      | _ \<Rightarrow> Inl (TypeError ''object is not subscriptable by a string''))"

fun all_right :: "(exn + 'a) list \<Rightarrow> exn + 'a list" where
  "all_right [] = Inr []"
| "all_right (x # xs) = bind_sum x (\<lambda>a. map_sum id ((#) a) (all_right xs))"

section \<open>The rendered manifest\<close>

text \<open>\<open>doc.get("metadata", {})\<close>: a missing key is an empty object, a null has no \<open>get\<close>.\<close>

definition is_configmap :: "string \<Rightarrow> json \<Rightarrow> exn + bool" where
  "is_configmap name doc =
     (case doc of
        JObj d \<Rightarrow>
          (if map_of d ''kind'' \<noteq> Some (JStr ''ConfigMap'') then Inr False
           else map_sum id (\<lambda>n. n = JStr name)
             (get_attr (case map_of d ''metadata'' of None \<Rightarrow> JObj [] | Some m \<Rightarrow> m) ''name''))
      | _ \<Rightarrow> Inl no_attribute)"

fun extract_configmap_data :: "json list \<Rightarrow> string \<Rightarrow> exn + json" where
  "extract_configmap_data [] name = Inl (ValueError (''ConfigMap '' @ py_repr name @
     '' not found in rendered manifest - has the chart's template/ConfigMap naming changed upstream?''))"
| "extract_configmap_data (doc # docs) name =
     bind_sum (is_configmap name doc) (\<lambda>found.
       if found then (case json_get doc ''data'' of None \<Rightarrow> Inl (KeyError ''data'') | Some d \<Rightarrow> Inr d)
       else extract_configmap_data docs name)"

definition extract_image :: "json list \<Rightarrow> string \<Rightarrow> exn + string" where
  "extract_image docs key =
     bind_sum (extract_configmap_data docs ''images'') (\<lambda>images.
       case json_get images key of
         None \<Rightarrow> Inl (ValueError (''images.'' @ key @ '' is not defined - see chart/values.yaml''))
       | Some v \<Rightarrow> text_value v)"

section \<open>fly.toml\<close>

definition toml_line :: "string \<Rightarrow> string \<Rightarrow> string" where
  "toml_line k v = k @ '' = '' @ [CHR 0x27] @ v @ [CHR 0x27]"

definition toml_processes :: "string option \<Rightarrow> string list" where
  "toml_processes cmd = (case cmd of None \<Rightarrow> [] | Some c \<Rightarrow> [''[processes]'', toml_line ''  app'' c, []])"

definition toml_mounts :: "(string \<times> string) option \<Rightarrow> string list" where
  "toml_mounts mount = (case mount of None \<Rightarrow> []
     | Some (v, d) \<Rightarrow> [''[mounts]'', toml_line ''  source'' v, toml_line ''  destination'' d, []])"

definition toml_passthrough :: "nat option \<Rightarrow> string list" where
  "toml_passthrough pt = (case pt of None \<Rightarrow> []
     | Some p \<Rightarrow> [''[[services]]'', ''  internal_port = '' @ show_nat p, toml_line ''  protocol'' ''tcp'', [],
        ''  [[services.ports]]'', ''    port = 443'', ''    handlers = []'', [],
        ''  [[services.tcp_checks]]'', toml_line ''    interval'' ''10s'', toml_line ''    timeout'' ''5s'',
        toml_line ''    grace_period'' ''15s'', []])"

definition toml_http :: "nat option \<Rightarrow> string option \<Rightarrow> bool \<Rightarrow> string option \<Rightarrow> string list" where
  "toml_http pt cmd autostart path = (case pt of None \<Rightarrow> []
     | Some p \<Rightarrow>
        [''[http_service]'', ''  internal_port = '' @ show_nat p, ''  force_https = true'',
         toml_line ''  auto_stop_machines'' ''off'', ''  auto_start_machines = '' @ (if autostart then ''true'' else ''false''),
         ''  min_machines_running = 1''] @
        (if cmd \<noteq> None then [''  processes = ['' @ [CHR 0x27] @ ''app'' @ [CHR 0x27] @ '']''] else []) @ [[]] @
        (case path of None \<Rightarrow> []
         | Some u \<Rightarrow> if u = [] then [] else
             [''  [[http_service.checks]]'', toml_line ''    interval'' ''10s'', toml_line ''    timeout'' ''5s'',
              toml_line ''    grace_period'' ''15s'', toml_line ''    method'' ''GET'', toml_line ''    path'' u, []]))"

definition toml_check :: "internal_check option \<Rightarrow> string list" where
  "toml_check check = (case check of None \<Rightarrow> []
     | Some c \<Rightarrow>
        [''[checks]'', ''  [checks.internal]'',
         ''    port = '' @ show_nat (case c of TcpCheck p \<Rightarrow> p | HttpCheck p _ \<Rightarrow> p),
         toml_line ''    type'' (case c of TcpCheck _ \<Rightarrow> ''tcp'' | HttpCheck _ _ \<Rightarrow> ''http''),
         toml_line ''    interval'' ''10s'', toml_line ''    timeout'' ''5s'', toml_line ''    grace_period'' ''15s''] @
        (case c of TcpCheck _ \<Rightarrow> [] | HttpCheck _ u \<Rightarrow> [toml_line ''    method'' ''GET'', toml_line ''    path'' u]) @ [[]])"

record app_shape =
  sh_public_port :: "nat option"
  sh_process_cmd :: "string option"
  sh_check_path :: "string option"
  sh_memory_mb :: nat
  sh_cpus :: nat
  sh_internal_check :: "internal_check option"
  sh_passthrough_port :: "nat option"
  sh_mount :: "(string \<times> string) option"
  sh_autostart :: bool

definition fly_toml :: "string \<Rightarrow> string \<Rightarrow> app_shape \<Rightarrow> string" where
  "fly_toml a region sh = join_with [newline]
     ([toml_line ''app'' a, toml_line ''primary_region'' (if region \<noteq> [] then region else FLY_REGION_FALLBACK), []] @
      toml_processes (sh_process_cmd sh) @ toml_mounts (sh_mount sh) @ toml_passthrough (sh_passthrough_port sh) @
      toml_http (sh_public_port sh) (sh_process_cmd sh) (sh_autostart sh) (sh_check_path sh) @ toml_check (sh_internal_check sh) @
      (if sh_memory_mb sh = 256 then []
       else [''[[vm]]'', toml_line ''  cpu_kind'' ''shared'', ''  cpus = '' @ show_nat (sh_cpus sh),
             ''  memory_mb = '' @ show_nat (sh_memory_mb sh), []]))"

section \<open>mini-oidc\<close>

definition mini_oidc_config :: string where
  "mini_oidc_config =
    (''# Production / Docker configuration.'' @ [newline] @
    ''# Environment variables are expanded in string values: ${VAR_NAME}'' @ [newline] @ ''server:'' @
    [newline] @ ''  op_port: 9005'' @ [newline] @ ''  rp_port: 9006'' @ [newline] @ ''  issuer: '' @
    [quote_mark] @ ''${ISSUER}'' @ [quote_mark, newline] @ ''  scopes_supported:'' @ [newline] @
    ''    - openid'' @ [newline] @ ''    - profile'' @ [newline] @ ''    - email'' @ [newline] @
    ''    - organisation'' @ [newline] @ ''    - pid'' @ [newline] @ ''    - pid_1_5'' @ [newline] @
    ''    - pid_1_8'' @ [newline] @ ''    - ehic'' @ [newline] @ ''    - eucc'' @ [newline] @
    ''    - eu_poa'' @ [newline] @ ''    - ebw_oid'' @ [newline, newline] @ ''clients:'' @ [newline] @
    ''  - client_id: '' @ [quote_mark] @ ''${CLIENT_ID:-mini-oidc-rp}'' @ [quote_mark, newline] @
    ''    client_name: '' @ [quote_mark] @ ''Relying Party'' @ [quote_mark, newline] @
    ''    redirect_uris:'' @ [newline] @ ''      - '' @ [quote_mark] @ ''${RP_BASE_URL}/callback'' @
    [quote_mark, newline] @ ''    token_endpoint_auth_method: '' @ [quote_mark] @ ''none'' @
    [quote_mark, newline, newline] @ ''  - client_id: '' @ [quote_mark] @ ''${APIGW_CLIENT_ID}'' @
    [quote_mark, newline] @ ''    client_name: '' @ [quote_mark] @ ''VC API Gateway'' @
    [quote_mark, newline] @ ''    client_secret: '' @ [quote_mark] @ ''${APIGW_CLIENT_SECRET}'' @
    [quote_mark, newline] @ ''    redirect_uris:'' @ [newline] @ ''      - '' @ [quote_mark] @
    ''${APIGW_REDIRECT_URI:-http://localhost:8091/oidcrp/callback}'' @ [quote_mark, newline] @
    ''    token_endpoint_auth_method: '' @ [quote_mark] @ ''client_secret_basic'' @
    [quote_mark, newline, newline] @ ''rp:'' @ [newline] @ ''  base_url: '' @ [quote_mark] @
    ''${RP_BASE_URL}'' @ [quote_mark, newline] @ ''  client_id: '' @ [quote_mark] @
    ''${CLIENT_ID:-mini-oidc-rp}'' @ [quote_mark, newline] @ ''  op_issuer: '' @ [quote_mark] @
    ''${ISSUER}'' @ [quote_mark, newline])"

definition MINI_OIDC_APIGW_CLIENT_ID :: string where "MINI_OIDC_APIGW_CLIENT_ID = ''apigw-oidc-client''"
definition MINI_OIDC_APIGW_CLIENT_SECRET :: string where "MINI_OIDC_APIGW_CLIENT_SECRET = ''test-secret''"

definition mini_oidc_env :: "naming \<Rightarrow> exn + string dict" where
  "mini_oidc_env n =
     bind_sum (url n ''mini-oidc'') (\<lambda>oidc.
     bind_sum (url n ''vc-apigw'') (\<lambda>apigw. Inr
       [(''CONFIG_FILE'', ''/etc/mini-oidc/configs/config.production.yaml''), (''USERS_FILE'', ''/etc/mini-oidc/users.yaml''),
        (''ISSUER'', oidc), (''RP_BASE_URL'', oidc), (''CLIENT_ID'', ''mini-oidc-rp''),
        (''APIGW_REDIRECT_URI'', apigw @ ''/oidcrp/callback''), (''APIGW_CLIENT_ID'', MINI_OIDC_APIGW_CLIENT_ID),
        (''APIGW_CLIENT_SECRET'', MINI_OIDC_APIGW_CLIENT_SECRET)]))"

section \<open>Android identities\<close>

type_synonym signers = "string list dict"

text \<open>\<open>s.split("::", 1)\<close>.\<close>

fun cut_at :: "string \<Rightarrow> string \<Rightarrow> (string \<times> string) option" where
  "cut_at p [] = (if p = [] then Some ([], []) else None)"
| "cut_at p (c # s) =
     (if starts_with p (c # s) then Some ([], drop (length p) (c # s))
      else map_option (\<lambda>(a, b). (c # a, b)) (cut_at p s))"

definition signers_of :: "signers \<Rightarrow> string \<Rightarrow> string list" where
  "signers_of d p = (case map_of d p of None \<Rightarrow> [] | Some fs \<Rightarrow> fs)"

definition add_pair :: "string \<Rightarrow> signers \<Rightarrow> signers" where
  "add_pair part d =
     (case cut_at ''::'' (py_strip part) of
        None \<Rightarrow> d
      | Some (p, f) \<Rightarrow> AList.update p (signers_of d p @ [f]) d)"

definition add_extra :: "string \<times> string \<Rightarrow> signers \<Rightarrow> signers" where
  "add_extra pf d =
     (case pf of (p, f) \<Rightarrow> AList.update p (if f \<in> set (signers_of d p) then signers_of d p else signers_of d p @ [f]) d)"

definition merge_android_identities :: "string \<Rightarrow> (string \<times> string) list \<Rightarrow> signers" where
  "merge_android_identities wellknown extra = fold add_extra extra (fold add_pair (split_on CHR '','' wellknown) [])"

definition assetlinks :: "signers \<Rightarrow> json" where
  "assetlinks d = JList (map (\<lambda>(p, fs). JObj
     [(''relation'', JList [JStr ''delegate_permission/common.handle_all_urls'', JStr ''delegate_permission/common.get_login_creds'']),
      (''target'', JObj [(''namespace'', JStr ''android_app''), (''package_name'', JStr p),
         (''sha256_cert_fingerprints'', JList (map JStr fs))])]) d)"

definition assetlinks_json :: "string \<Rightarrow> (string \<times> string) list \<Rightarrow> string" where
  "assetlinks_json wellknown extra = dumps (\<lambda>_. []) (indented 2) 0 (assetlinks (merge_android_identities wellknown extra))"

section \<open>The environment of wallet-frontend\<close>

definition wellknown_android :: "signers \<Rightarrow> string" where
  "wellknown_android d = join_with '','' (concat (map (\<lambda>(p, fs). map (\<lambda>f. p @ ''::'' @ f) fs) d))"

definition wallet_frontend_env :: "naming \<Rightarrow> json list \<Rightarrow> bool \<Rightarrow> signers \<Rightarrow> exn + string dict" where
  "wallet_frontend_env n docs wallet_attestation signers =
     bind_sum (url n ''wallet-proxy'') (\<lambda>proxy.
     bind_sum (url n ''wallet-frontend'') (\<lambda>frontend.
     bind_sum (extract_configmap_data docs ''wallet-frontend-main'') (\<lambda>fe.
     bind_sum (host n ''wallet-frontend'') (\<lambda>rpid.
     bind_sum (data_text fe ''wellknownAppleAppIds'') (\<lambda>apple. Inr
       ([(''WALLET_BACKEND_URL'', frontend), (''WALLET_ENGINE_URL'', proxy), (''WEBAUTHN_RPID'', rpid),
         (''STATIC_PUBLIC_URL'', frontend),
         (''WELLKNOWN_ANDROID_PACKAGE_NAMES_AND_FINGERPRINTS'', wellknown_android signers),
         (''WELLKNOWN_APPLE_APPIDS'', apple), (''STATIC_NAME'', ''SIROS ID (fly-'' @ n_env n @ '')''),
         (''OPENID4VCI_REDIRECT_URI'', frontend @ ''/id/default/cb''),
         (''VCT_REGISTRY_URL'', proxy @ ''/registry/type-metadata''), (''TRANSPORT_PREFERENCE'', ''websocket''),
         (''ALLOWED_TRANSPORTS'', ''websocket,wmp''), (''LOG_LEVEL'', ''info''), (''DISPLAY_CONSOLE'', ''false''),
         (''LOGIN_WITH_PASSWORD'', ''false''), (''DID_KEY_VERSION'', ''jwk_jcs-pub''),
         (''OPENID4VCI_PROOF_TYPE_PRECEDENCE'', ''attestation,jwt''), (''OPENID4VP_SAN_DNS_CHECK'', ''false''),
         (''OPENID4VP_SAN_DNS_CHECK_SSL_CERTS'', ''false''), (''DELEGATE_TRUST_TO_BACKEND'', ''true''),
         (''MULTI_LANGUAGE_DISPLAY'', ''true''), (''DISPLAY_ISSUANCE_WARNINGS'', ''false''), (''BASE_PATH'', ''/id/default/'')] @
        (if wallet_attestation then [(''WIA_ENABLED'', ''true'')] else [])))))))"

section \<open>Secrets named by a rendered config\<close>

definition CREDENTIAL_ENCRYPTION_FILE :: string where "CREDENTIAL_ENCRYPTION_FILE = ''vcCredentialEncryption.pem''"
definition CREDENTIAL_ENCRYPTION_PATH :: string where "CREDENTIAL_ENCRYPTION_PATH = ''/credential-encryption/primary.pem''"
definition TWIN_DOCUMENT_SUFFIX :: string where "TWIN_DOCUMENT_SUFFIX = ''_offer.json''"

definition is_twin_document :: "string \<Rightarrow> bool" where
  "is_twin_document name = ends_with TWIN_DOCUMENT_SUFFIX name"

text \<open>\<open>part.capitalize()\<close> of the parts between characters that are no ASCII letter or digit.\<close>

definition ascii_alnum :: "char \<Rightarrow> bool" where
  "ascii_alnum c = (is_lower c \<or> is_upper c \<or> is_digit c)"

fun alnum_parts :: "string \<Rightarrow> string \<Rightarrow> string list" where
  "alnum_parts w [] = (if w = [] then [] else [rev w])"
| "alnum_parts w (c # s) =
     (if ascii_alnum c then alnum_parts (c # w) s
      else if w = [] then alnum_parts [] s else rev w # alnum_parts [] s)"

definition capitalized :: "string \<Rightarrow> string" where
  "capitalized s = (case s of [] \<Rightarrow> [] | c # r \<Rightarrow> (if is_lower c then char_of (of_char c - 32 :: nat) else c) # py_lower r)"

text \<open>\<open>Path(path).name.rsplit(".", 1)[0]\<close>.\<close>

definition path_stem :: "string \<Rightarrow> string" where
  "path_stem p =
     (let parts = filter (\<lambda>c. c \<noteq> [] \<and> c \<noteq> ''.'') (split_on CHR ''/'' p);
          name = (if parts = [] then [] else last parts)
      in case rpartition_at CHR ''.'' name of (a, found, b) \<Rightarrow> if found then a else name)"

definition opening_secret_file :: "string \<Rightarrow> string" where
  "opening_secret_file path = ''vcOpening'' @ concat (map capitalized (alnum_parts [] (path_stem path)))"

definition opening_paths :: "json \<Rightarrow> exn + string list" where
  "opening_paths derivation =
     bind_sum (get_or derivation ''hash_commitment'') (\<lambda>hc.
     bind_sum (get_or hc ''opening'') (\<lambda>opening.
     map_sum id concat (all_right (map (\<lambda>how.
       bind_sum (bind_sum (get_or opening how) (\<lambda>x. get_or x ''secret_path'')) (\<lambda>p.
         if json_truthy p then map_sum id (\<lambda>t. [t]) (text_value p) else Inr []))
       [''hkdf'', ''hmac'']))))"

definition opening_secret_paths :: "json \<Rightarrow> exn + string list" where
  "opening_secret_paths apigw =
     bind_sum (bind_sum (get_or apigw ''data_sources'') values_of) (\<lambda>kinds.
     bind_sum (map_sum id concat (all_right (map (\<lambda>kd. bind_sum (get_or kd ''scopes'') values_of) kinds))) (\<lambda>scopes.
     bind_sum (map_sum id concat (all_right (map (\<lambda>sc. bind_sum (get_or sc ''derivations'') as_list) scopes))) (\<lambda>ds.
     map_sum id (\<lambda>pss. sort (remdups (concat pss))) (all_right (map opening_paths ds)))))"

definition encryption_keys :: "json \<Rightarrow> exn + bool" where
  "encryption_keys apigw =
     bind_sum (get_or apigw ''issuer_metadata'') (\<lambda>im.
     bind_sum (get_or im ''credential_encryption'') (\<lambda>ce. map_sum id json_truthy (get_or ce ''keys'')))"

section \<open>Certificates\<close>

definition PEM_HEADER :: string where "PEM_HEADER = ''-----BEGIN CERTIFICATE-----''"
definition PEM_FOOTER :: string where "PEM_FOOTER = ''-----END CERTIFICATE-----''"

text \<open>
  \<open>ssl.PEM_cert_to_DER_cert\<close> of the standard library; \<open>b64_decode\<close> also reads the URL-safe
  alphabet, which \<open>base64.decodebytes\<close> skips.
\<close>

definition pem_to_der :: "string \<Rightarrow> exn + bytes" where
  "pem_to_der pem =
     (if \<not> starts_with PEM_HEADER pem
      then Inl (ValueError (''Invalid PEM encoding; must start with '' @ PEM_HEADER))
      else if \<not> ends_with PEM_FOOTER (py_strip pem)
      then Inl (ValueError (''Invalid PEM encoding; must end with '' @ PEM_FOOTER))
      else let s = py_strip pem;
               d = take (length s - length PEM_HEADER - length PEM_FOOTER) (drop (length PEM_HEADER) s)
           in case b64_decode (filter (\<lambda>c. c \<noteq> CHR ''-'' \<and> c \<noteq> CHR ''_'') d) of None \<Rightarrow> Inl (ValueError ''Incorrect padding'') | Some bs \<Rightarrow> Inr (map char_of bs))"

definition x509_hash_identity :: "(bytes \<Rightarrow> bytes) \<Rightarrow> string \<Rightarrow> exn + string" where
  "x509_hash_identity sha256 pem =
     map_sum id (\<lambda>der. ''x509_hash:'' @ rstrip_by (\<lambda>c. c = CHR ''='') (b64_encode (map of_char (sha256 der)))) (pem_to_der pem)"

section \<open>Pages\<close>

text \<open>
  The generators of sirosid_core/assets.py that are not modelled. Their arguments are those
  of the source (the naming includes the environment).
\<close>

record pages =
  pg_wallet_proxy :: "naming \<Rightarrow> bool \<Rightarrow> exn + string"
  pg_wallet_frontend :: "bool \<Rightarrow> naming \<Rightarrow> bool \<Rightarrow> exn + string"
  pg_dashboard :: "signers \<Rightarrow> string list \<Rightarrow> string option \<Rightarrow> naming \<Rightarrow> bool \<Rightarrow> exn + string"
  pg_front :: "naming \<Rightarrow> bool \<Rightarrow> exn + string"

section \<open>Facts\<close>

lemma all_right_Inr: "all_right xs = Inr ys \<longleftrightarrow> xs = map Inr ys"
  by (induction xs arbitrary: ys) auto

lemma data_after_update: "signers_of (AList.update p v d) q = (if p = q then v else signers_of d q)"
  by (simp add: signers_of_def update_conv')

text \<open>Every entry of the user is trusted, and a fingerprint of the chart stays.\<close>

lemma add_extra_in: "f \<in> set (signers_of (add_extra (p, f) d) p)"
  by (simp add: add_extra_def data_after_update)

lemma add_extra_mono: "set (signers_of d q) \<subseteq> set (signers_of (add_extra pf d) q)"
  by (cases pf) (auto simp: add_extra_def data_after_update)

lemma fold_extra_mono: "set (signers_of d q) \<subseteq> set (signers_of (fold add_extra es d) q)"
  by (induction es arbitrary: d) (auto dest: subsetD [OF add_extra_mono])

lemma merged_identities:
  "(p, f) \<in> set extra \<Longrightarrow> f \<in> set (signers_of (merge_android_identities w extra) p)"
  unfolding merge_android_identities_def
proof (induction extra arbitrary: w)
  case (Cons e es)
  have *: "(p, f) \<in> set es \<Longrightarrow> f \<in> set (signers_of (fold add_extra es d) p)" for d
  proof (induction es arbitrary: d)
    case (Cons x xs)
    then show ?case using add_extra_in subsetD [OF fold_extra_mono] by auto
  qed simp
  from Cons.prems show ?case using * add_extra_in subsetD [OF fold_extra_mono] by auto
qed simp

end
