(* ===== verification/Values.thy ===== *)
theory Values
  imports Assets
begin

text \<open>
  The pure half of sirosid_core/vc_render.py: what it does to the values before helm sees
  them and to the configs that come out. A dictionary that Python changes in place is a value
  that is returned changed here; the parsers build trees, so nothing is shared. Keys of
  objects are strings. Files of the repository are read through a function from a relative
  path to the content, or \<open>None\<close> where there is no file.
\<close>

section \<open>Dictionaries changed in place\<close>

definition system_exit :: "string \<Rightarrow> exn" where
  "system_exit m = OtherError ''SystemExit'' m"

text \<open>\<open>j[k] = v\<close>, \<open>j.pop(k, None)\<close>\<close>

definition set_item :: "string \<Rightarrow> json \<Rightarrow> json \<Rightarrow> exn + json" where
  "set_item k v j = (case j of JObj d \<Rightarrow> Inr (JObj (AList.update k v d))
     | _ \<Rightarrow> Inl (TypeError ''object does not support item assignment''))"

definition pop_item :: "string \<Rightarrow> json \<Rightarrow> exn + json" where
  "pop_item k j = (case j of JObj d \<Rightarrow> Inr (JObj (AList.delete k d)) | _ \<Rightarrow> Inl no_attribute)"

text \<open>A change of \<open>j[k]\<close>, and of \<open>j.setdefault(k, d)\<close>.\<close>

definition in_item :: "string \<Rightarrow> (json \<Rightarrow> exn + json) \<Rightarrow> json \<Rightarrow> exn + json" where
  "in_item k f j = bind_sum (item_of j k) (\<lambda>v. bind_sum (f v) (\<lambda>v'. set_item k v' j))"

definition in_default :: "string \<Rightarrow> json \<Rightarrow> (json \<Rightarrow> exn + json) \<Rightarrow> json \<Rightarrow> exn + json" where
  "in_default k d f j =
     (case j of
        JObj kvs \<Rightarrow> map_sum id (\<lambda>v. JObj (AList.update k v kvs)) (f (case map_of kvs k of None \<Rightarrow> d | Some v \<Rightarrow> v))
      | _ \<Rightarrow> Inl no_attribute)"

text \<open>
  A change of \<open>(((j or {}).get(k1) or {}).get(k2) ..) or {}\<close>: where one of the values on the
  way is false, the change is made to a fresh dictionary and lost.
\<close>

fun edit_at :: "string list \<Rightarrow> (json \<Rightarrow> exn + json) \<Rightarrow> json \<Rightarrow> exn + json" where
  "edit_at [] f j = (if json_truthy j then f j else Inr j)"
| "edit_at (k # ks) f j =
     (if \<not> json_truthy j then Inr j
      else case j of
        JObj d \<Rightarrow>
          (case map_of d k of
             None \<Rightarrow> Inr j
           | Some v \<Rightarrow> map_sum id (\<lambda>v'. JObj (AList.update k v' d)) (edit_at ks f v))
      | _ \<Rightarrow> Inl no_attribute)"

text \<open>\<open>for k, v in j.items(): j[k] = f(k, v)\<close>\<close>

definition map_items :: "(string \<Rightarrow> json \<Rightarrow> exn + json) \<Rightarrow> json \<Rightarrow> exn + json" where
  "map_items f j =
     (case j of
        JObj d \<Rightarrow> map_sum id JObj (all_right (map (\<lambda>(k, v). map_sum id (Pair k) (f k v)) d))
      | _ \<Rightarrow> Inl no_attribute)"

text \<open>\<open>k in j\<close>\<close>

definition contains :: "string \<Rightarrow> json \<Rightarrow> exn + bool" where
  "contains k j =
     (case j of
        JObj d \<Rightarrow> Inr (k \<in> fst ` set d)
      | JList l \<Rightarrow> Inr (JStr k \<in> set l)
      | JStr t \<Rightarrow> Inr (has_sub k t)
      | _ \<Rightarrow> Inl (TypeError ''argument is not iterable''))"

text \<open>\<open>j.get(k, {})\<close> has a \<open>get\<close> of its own.\<close>

definition get_is_dict :: "json \<Rightarrow> string \<Rightarrow> exn + unit" where
  "get_is_dict j k =
     (case j of
        JObj d \<Rightarrow> (case map_of d k of None \<Rightarrow> Inr () | Some (JObj _) \<Rightarrow> Inr () | Some _ \<Rightarrow> Inl no_attribute)
      | _ \<Rightarrow> Inl no_attribute)"

definition get_path :: "string list \<Rightarrow> json \<Rightarrow> exn + json" where
  "get_path ks j = fold (\<lambda>k r. bind_sum r (\<lambda>v. get_or v k)) ks (Inr j)"

section \<open>Values before helm\<close>

type_synonym reader = "string \<Rightarrow> bytes option"

definition read_ref :: "reader \<Rightarrow> json \<Rightarrow> exn + json" where
  "read_ref rd ref =
     (case ref of
        JObj d \<Rightarrow>
          (case map_of d ''file'' of
             None \<Rightarrow> Inr ref
           | Some f \<Rightarrow> bind_sum (text_value f) (\<lambda>p.
               case rd p of
                 None \<Rightarrow> Inl (system_exit (''values reference a missing file: '' @ p))
               | Some b \<Rightarrow> Inr (JObj [(''data'', JStr b)])))
      | _ \<Rightarrow> Inr ref)"

definition inline_key :: "reader \<Rightarrow> string \<Rightarrow> json \<Rightarrow> exn + json" where
  "inline_key rd key ctype = bind_sum (contains key ctype) (\<lambda>b. if b then in_item key (read_ref rd) ctype else Inr ctype)"

definition inline_file_refs :: "reader \<Rightarrow> json \<Rightarrow> exn + json" where
  "inline_file_refs rd vals =
     bind_sum (get_is_dict vals ''features'') (\<lambda>_.
     bind_sum (edit_at [''features'', ''credentialTypes'']
       (map_items (\<lambda>_ t. bind_sum (inline_key rd ''vctm'' t) (inline_key rd ''mdocSchema''))) vals) (\<lambda>v1.
     bind_sum (edit_at [''issuer'', ''identitymappingImport'', ''identities''] (map_items (\<lambda>_. read_ref rd)) v1) (\<lambda>v2.
     edit_at [''issuer'', ''datastoreImport'', ''documents''] (map_items (\<lambda>_. read_ref rd)) v2)))"

definition BRANDING_KEYS :: "(string \<times> string) list" where
  "BRANDING_KEYS = [(''logoDataUrl'', ''logo''), (''faviconDataUrl'', ''favicon'')]"

definition PNG_MAGIC :: bytes where
  "PNG_MAGIC = [CHR 0x89] @ ''PNG'' @ [CHR 0x0D, CHR 0x0A, CHR 0x1A, CHR 0x0A]"

definition resolve_branding_key :: "reader \<Rightarrow> string \<Rightarrow> json \<Rightarrow> exn + json" where
  "resolve_branding_key rd key branding =
     bind_sum (get_attr branding key) (\<lambda>ref.
     case json_get ref ''file'' of
       None \<Rightarrow> Inr branding
     | Some f \<Rightarrow> bind_sum (text_value f) (\<lambda>p.
         case rd p of
           None \<Rightarrow> Inl (system_exit (''features.branding.'' @ key @ '' references a missing file: '' @ p))
         | Some raw \<Rightarrow>
             if \<not> starts_with PNG_MAGIC raw then Inl (system_exit (''features.branding.'' @ key @ '': '' @ p @ '' is not a PNG''))
             else set_item key (JStr (''data:image/png;base64,'' @ base64_text raw)) branding))"

definition resolve_branding_refs :: "reader \<Rightarrow> json \<Rightarrow> exn + json" where
  "resolve_branding_refs rd vals =
     bind_sum (bind_sum (get_attr vals ''features'') (\<lambda>f. get_or f ''branding'')) (\<lambda>branding.
     if \<not> is_JObj branding then Inr vals
     else edit_at [''features'', ''branding'']
       (\<lambda>b. fold (\<lambda>key r. bind_sum r (resolve_branding_key rd key)) (map fst BRANDING_KEYS) (Inr b)) vals)"

text \<open>The templates of one file, keyed by id; the stem of the file stands in for a missing id.\<close>

definition template_items :: "string \<Rightarrow> json \<Rightarrow> exn + (string \<times> json) list" where
  "template_items stem doc0 =
     (let doc = (if json_truthy doc0 then doc0 else JObj []) in
      bind_sum (case doc of JObj d \<Rightarrow> Inr (map_of d ''templates'') | _ \<Rightarrow> Inl no_attribute) (\<lambda>ts.
      bind_sum (case ts of None \<Rightarrow> Inr [] | Some JNull \<Rightarrow> Inl (TypeError ''object is not iterable'') | Some t \<Rightarrow> as_list t) (\<lambda>es.
      all_right (map (\<lambda>e. case e of
          JObj d \<Rightarrow>
            (case map_of d ''id'' of
               None \<Rightarrow> Inr (stem, e)
             | Some i \<Rightarrow> bind_sum (if json_truthy i then text_value i else Inr stem) (\<lambda>tid. Inr (tid, JObj (AList.delete ''id'' d))))
        | _ \<Rightarrow> Inl (TypeError ''not a dictionary'')) es))))"

definition expand_presentation_request_templates ::
  "(string \<Rightarrow> (string \<times> string) list) \<Rightarrow> (string \<Rightarrow> exn + json) \<Rightarrow> json \<Rightarrow> exn + json" where
  "expand_presentation_request_templates listing yaml =
     edit_at [''verifier''] (\<lambda>v.
       bind_sum (get_attr v ''presentationRequestTemplatesFrom'') (\<lambda>src.
       bind_sum (pop_item ''presentationRequestTemplatesFrom'' v) (\<lambda>v1.
       if \<not> json_truthy src then Inr v1
       else bind_sum (text_value src) (\<lambda>dir.
       bind_sum (map_sum id concat (all_right (map (\<lambda>(stem, t). bind_sum (yaml t) (template_items stem)) (listing dir)))) (\<lambda>items.
       in_default ''presentationRequestTemplates'' (JObj [])
         (\<lambda>ts. fold (\<lambda>(k, e) r. bind_sum r (set_item k e)) items (Inr ts)) v1)))))"

text \<open>The offered twins of the base values: types with pre-authorized issuance and their documents.\<close>

definition preauthorized :: "json \<Rightarrow> exn + bool" where
  "preauthorized t =
     bind_sum (get_attr t ''issuance'') (\<lambda>i. map_sum id (\<lambda>a. a = JStr ''preauth'') (get_or i ''authProvider''))"

definition without :: "(string \<Rightarrow> json \<Rightarrow> exn + bool) \<Rightarrow> json \<Rightarrow> exn + json" where
  "without f j =
     (case j of
        JObj d \<Rightarrow> map_sum id (\<lambda>bs. JObj (map fst (filter (\<lambda>(kv, b). \<not> b) (zip d bs)))) (all_right (map (\<lambda>(k, v). f k v) d))
      | _ \<Rightarrow> Inl no_attribute)"

definition drop_offer_twins :: "json \<Rightarrow> exn + json" where
  "drop_offer_twins vals =
     bind_sum (get_is_dict vals ''features'') (\<lambda>_.
     bind_sum (edit_at [''features'', ''credentialTypes''] (without (\<lambda>_. preauthorized)) vals)
       (edit_at [''issuer'', ''datastoreImport'', ''documents''] (without (\<lambda>n _. Inr (ends_with ''_offer'' n)))))"

section \<open>Merging\<close>

fun merge_into :: "json dict \<Rightarrow> json dict \<Rightarrow> json dict" where
  "merge_into base [] = base"
| "merge_into base ((k, v) # overlay) =
     merge_into
       (AList.update k
         (case v of
            JObj o' \<Rightarrow> (case map_of base k of Some (JObj b) \<Rightarrow> JObj (merge_into b o') | _ \<Rightarrow> v)
          | _ \<Rightarrow> v) base)
       overlay"

definition deep_merge :: "json \<Rightarrow> json \<Rightarrow> exn + json" where
  "deep_merge base overlay =
     (case overlay of
        JObj o' \<Rightarrow> (case base of JObj b \<Rightarrow> Inr (JObj (merge_into b o')) | _ \<Rightarrow> if o' = [] then Inr base else Inl no_attribute)
      | _ \<Rightarrow> Inl no_attribute)"

section \<open>Configs that come out\<close>

definition COMPOSE_PLAIN_HTTP_HOSTS :: "string list" where
  "COMPOSE_PLAIN_HTTP_HOSTS =
     [''vc-apigw.localhost:9003'', ''vc-verifier.localhost:9001'', ''vc-registry.localhost:9004'', ''localhost:3000'', ''localhost:8080'']"

text \<open>The match of \<open>^https://([^/]+)(.*)$\<close>, whose last part stops before a final newline.\<close>

definition rewrite_url :: "string list \<Rightarrow> string \<Rightarrow> string" where
  "rewrite_url hosts u =
     (if \<not> starts_with ''https://'' u then u
      else let rest = drop 8 u; h = takeWhile (\<lambda>c. c \<noteq> CHR ''/'') rest; p0 = dropWhile (\<lambda>c. c \<noteq> CHR ''/'') rest;
               p = (if p0 \<noteq> [] \<and> last p0 = CHR 0x0A then butlast p0 else p0) in
           if h \<noteq> [] \<and> CHR 0x0A \<notin> set p \<and> h \<in> set hosts then ''http://'' @ h @ p else u)"

text \<open>A dictionary with the keys changed too; of two keys that become one the later value stays.\<close>

definition dict_of_pairs :: "(string \<times> 'v) list \<Rightarrow> 'v dict" where
  "dict_of_pairs ps = fold (\<lambda>(k, v). AList.update k v) ps []"

primrec rewrite_https :: "string list \<Rightarrow> json \<Rightarrow> json" where
  "rewrite_https hosts JNull = JNull"
| "rewrite_https hosts (JBool b) = JBool b"
| "rewrite_https hosts (JInt i) = JInt i"
| "rewrite_https hosts (JFloat q) = JFloat q"
| "rewrite_https hosts (JStr s) = JStr (rewrite_url hosts s)"
| "rewrite_https hosts (JList js) = JList (map (rewrite_https hosts) js)"
| "rewrite_https hosts (JObj d) = JObj (dict_of_pairs (map (map_prod (rewrite_url hosts) (rewrite_https hosts)) d))"

text \<open>\<open>list(dict.fromkeys(xs))\<close>: the first of each, of values that can be hashed.\<close>

fun first_of_each :: "json list \<Rightarrow> json list" where
  "first_of_each [] = []"
| "first_of_each (x # xs) = x # filter (\<lambda>y. \<not> json_eq x y) (first_of_each xs)"

definition hashable :: "json \<Rightarrow> bool" where
  "hashable j = (case j of JList _ \<Rightarrow> False | JObj _ \<Rightarrow> False | _ \<Rightarrow> True)"

definition patch_vc_compose :: "json \<Rightarrow> string list \<Rightarrow> exn + json" where
  "patch_vc_compose config hosts =
     edit_at [''apigw'', ''api_server'', ''cors''] (\<lambda>cors.
       bind_sum (get_attr cors ''allowed_origins'') (\<lambda>origins.
       if \<not> json_truthy origins then Inr cors
       else bind_sum (as_list origins) (\<lambda>xs.
         if list_all hashable xs then set_item ''allowed_origins'' (JList (first_of_each xs)) cors
         else Inl (TypeError ''unhashable type'')))) (rewrite_https hosts config)"

definition strip_unrenderable :: "json \<Rightarrow> json" where
  "strip_unrenderable config = config"

definition METADATA_SOURCES :: "string list" where
  "METADATA_SOURCES = [''vctm_file_path'', ''vctm_url'', ''mddl_file_path'', ''mddl_url'']"

definition unresolved_type :: "string \<Rightarrow> exn" where
  "unresolved_type scope = system_exit (''credential type '' @ py_repr scope @ '' has no vct in values-base.yaml, so it '' @
     ''cannot be resolved from a registry - add one, or leave this environment on REGISTRY=vendored'')"

definition registry_metadata :: "json \<Rightarrow> string \<Rightarrow> json \<Rightarrow> exn + json" where
  "registry_metadata types scope meta =
     (case meta of
        JObj d \<Rightarrow>
          if map_of d ''format'' \<in> {Some (JStr ''mso_mdoc''), Some (JStr ''ldp_vc''), Some (JStr ''vc+ld+json'')} then Inr meta
          else bind_sum (bind_sum (get_attr types scope) (\<lambda>t. get_or t ''vct'')) (\<lambda>vct.
            if \<not> json_truthy vct then Inl (unresolved_type scope)
            else Inr (JObj (AList.update ''vct'' vct (filter (\<lambda>kv. fst kv \<notin> set METADATA_SOURCES) d))))
      | _ \<Rightarrow> Inr meta)"

definition registry_block :: "json list \<Rightarrow> json" where
  "registry_block registries = JObj [(''enable'', JBool True),
     (''registries'', JList (map (\<lambda>u. JObj [(''mirrors'', JList [JObj [(''base_url'', u), (''timeout'', JStr ''10s'')]])]) registries)),
     (''refresh_interval'', JStr ''1h'')]"

definition use_credential_registry :: "json \<Rightarrow> json \<Rightarrow> json list \<Rightarrow> exn + json" where
  "use_credential_registry config types registries =
     bind_sum (get_attr config ''common'') (\<lambda>_.
     bind_sum (edit_at [''common'', ''credential_metadata''] (map_items (registry_metadata types)) config)
       (in_default ''common'' (JObj []) (set_item ''credential_registry'' (registry_block registries))))"

datatype target = Compose | OnFly

definition mongo_auth :: "string option \<Rightarrow> string" where
  "mongo_auth password = (case password of Some (c # s) \<Rightarrow> ''root:'' @ (c # s) @ ''@'' | _ \<Rightarrow> [])"

definition patch_vc_mongo :: "target \<Rightarrow> naming \<Rightarrow> string option \<Rightarrow> json \<Rightarrow> exn + json" where
  "patch_vc_mongo target n password config =
     bind_sum (case target of
         Compose \<Rightarrow> Inr ''mongodb://mongodb:27017''
       | OnFly \<Rightarrow> map_sum id (\<lambda>a. ''mongodb://'' @ mongo_auth password @ a @ ''/?authSource=admin'') (addr n ''mongodb'' [])) (\<lambda>uri.
     in_default ''common'' (JObj []) (set_item ''mongo'' (JObj [(''uri'', JStr uri)])) config)"

definition drop_twin_imports :: "json \<Rightarrow> exn + json" where
  "drop_twin_imports =
     edit_at [''apigw'', ''data_sources'', ''datastore'', ''import''] (\<lambda>paths.
       bind_sum (get_attr paths ''file_paths'') (\<lambda>fs.
       if \<not> json_truthy fs then Inr paths
       else bind_sum (as_list fs) (\<lambda>xs.
         bind_sum (all_right (map (\<lambda>x. case x of JStr p \<Rightarrow> Inr (is_twin_document p) | _ \<Rightarrow> Inl no_attribute) xs)) (\<lambda>bs.
         set_item ''file_paths'' (JList (map fst (filter (\<lambda>(x, b). \<not> b) (zip xs bs)))) paths))))"

definition integral :: "json \<Rightarrow> json" where
  "integral j = (case j of JFloat q \<Rightarrow> if snd (quotient_of q) = 1 then JInt \<lfloor>q\<rfloor> else j | _ \<Rightarrow> j)"

definition integral_entry :: "json \<Rightarrow> exn + json" where
  "integral_entry e =
     (case e of
        JObj d \<Rightarrow> Inr (JObj (map (\<lambda>(k, v). (k, if k \<in> {''artifact_bytes'', ''block_enc_hash'', ''block_enc_sig''} then integral v else v)) d))
      | _ \<Rightarrow> Inl no_attribute)"

definition integral_nym_auth_numbers :: "json \<Rightarrow> exn + json" where
  "integral_nym_auth_numbers =
     edit_at [''verifier'', ''nym_auth'', ''circuits'', ''allow''] (\<lambda>allow.
       case allow of
         JList es \<Rightarrow> map_sum id JList (all_right (map integral_entry es))
       | JStr _ \<Rightarrow> Inl no_attribute
       | JObj _ \<Rightarrow> Inl no_attribute
       | _ \<Rightarrow> Inl (TypeError ''object is not iterable''))"

section \<open>Placeholders\<close>

definition VC_SECRETS :: "string dict" where
  "VC_SECRETS = [(''OIDC_PROVIDER_SUBJECT_SALT'', ''vcOidcProviderSubjectSalt''), (''ADMIN_GUI_PASSWORD'', ''vcAdminGuiPassword''),
     (''OIDC_PROVIDER_CLIENT_SECRET'', ''vcOidcProviderClientSecret''), (''API_AUTH_OIDC_CLIENT_SECRET'', ''vcApiAuthOidcClientSecret'')]"

text \<open>\<open>re.sub(r"\$\{(\w+)\}", ..)\<close>: every \<open>${NAME}\<close> by its value, an unknown one by nothing.\<close>

definition name_char_ok :: "char \<Rightarrow> bool" where
  "name_char_ok c = (ascii_alnum c \<or> c = CHR ''_'')"

function substitute :: "string dict \<Rightarrow> string \<Rightarrow> string" where
  "substitute d s =
     (case s of
        [] \<Rightarrow> []
      | c # cs \<Rightarrow>
          let name = takeWhile name_char_ok (drop 2 s); after = drop (length name + 2) s in
          if starts_with ''${'' s \<and> name \<noteq> [] \<and> starts_with ''}'' after
          then (case map_of d name of None \<Rightarrow> [] | Some v \<Rightarrow> v) @ substitute d (drop 1 after)
          else c # substitute d cs)"
  by pat_completeness auto

termination
  by (relation "measure (\<lambda>(d, s). length s)") auto

declare substitute.simps [simp del]

end
