(* ===== verification/Tokens.thy ===== *)
theory Tokens
  imports Toolbox Auth OAuth
begin

text \<open>
  The tokens a deploy issues: the key and the admin token of the API gateway
  (sirosid_core/api_auth.py) and the bearer of the WMP engine
  (sirosid_core/engine_pdp_token.py). openssl, the elliptic-curve library, SHA-256, the clock
  and the random source are in the record \<open>signer\<close>: \<open>sg_openssl\<close> is a run of openssl on the
  files of the bench with a standard input, \<open>sg_load\<close> reads a PEM key as the name of its
  curve and its public point (\<open>None\<close> is a key of another kind), \<open>sg_sign\<close> is the pair of an
  ECDSA signature.
\<close>

record 'w signer =
  sg_openssl :: "string list \<Rightarrow> bytes \<Rightarrow> 'w bench \<Rightarrow> (int \<times> bytes) \<times> 'w"
  sg_load :: "string \<Rightarrow> exn + (string \<times> nat \<times> nat) option"
  sg_sign :: "string \<Rightarrow> bytes \<Rightarrow> 'w \<Rightarrow> (nat \<times> nat) \<times> 'w"
  sg_sha256 :: "bytes \<Rightarrow> bytes"
  sg_time :: "'w \<Rightarrow> time"
  sg_random :: "nat \<Rightarrow> 'w \<Rightarrow> bytes \<times> 'w"

section \<open>The admin API of the gateway\<close>

definition CURVE :: string where "CURVE = ''prime256v1''"
definition ALG :: string where "ALG = ''ES256''"
definition ISSUER :: string where "ISSUER = ''sirosid-dev''"
definition KEY_FILENAME :: string where "KEY_FILENAME = ''apiAuthKey.pem''"
definition DEFAULT_TTL :: int where "DEFAULT_TTL = 300"
definition IAT_LEEWAY :: int where "IAT_LEEWAY = 30"

text \<open>\<open>subprocess.run(.., check=True)\<close>\<close>

definition openssl :: "'w signer \<Rightarrow> string list \<Rightarrow> bytes \<Rightarrow> ('w bench, exn, bytes) act" where
  "openssl g args inp s =
     (case sg_openssl g (''openssl'' # args) inp s of
        ((code, out), w) \<Rightarrow> (if code \<noteq> 0 then Inl (process_error code) else Inr out, s\<lparr>bn_world := w\<rparr>))"

definition ensure_key :: "'w signer \<Rightarrow> abs_path \<Rightarrow> ('w bench, exn, abs_path) act" where
  "ensure_key g path =
     seq (has_file path) (\<lambda>there.
     if there then give path
     else seq (openssl g [''ecparam'', ''-name'', CURVE, ''-genkey'', ''-noout''] []) (\<lambda>pem.
          seq (write_file path pem) (\<lambda>_. give path)))"

definition last_bytes :: "nat \<Rightarrow> bytes \<Rightarrow> bytes" where
  "last_bytes k b = drop (length b - k) b"

definition index_error :: exn where
  "index_error = OtherError ''IndexError'' ''index out of range''"

text \<open>The public key ends with the point 04 X Y, 65 bytes for this curve.\<close>

definition point_of :: "abs_path \<Rightarrow> bytes \<Rightarrow> exn + bytes \<times> bytes" where
  "point_of path der =
     (let point = last_bytes 65 der in
      case point of
        [] \<Rightarrow> Inl index_error
      | c # rest \<Rightarrow>
          if c \<noteq> CHR 0x04 \<or> length point \<noteq> 65
          then Inl (ValueError (path_text path @ '': not an uncompressed P-256 public point''))
          else Inr (take 32 rest, take 32 (drop 32 rest)))"

definition public_point :: "'w signer \<Rightarrow> abs_path \<Rightarrow> ('w bench, exn, bytes \<times> bytes) act" where
  "public_point g path =
     seq (openssl g [''ec'', ''-in'', path_text path, ''-pubout'', ''-outform'', ''DER''] []) (\<lambda>der. value_of (point_of path der))"

text \<open>The required members of the key in the order of their names, and the thumbprint (RFC 7638) of them.\<close>

definition jwk_core :: "bytes \<Rightarrow> bytes \<Rightarrow> json dict" where
  "jwk_core x y = [(''crv'', JStr ''P-256''), (''kty'', JStr ''EC''), (''x'', JStr (bytes_to_base64url x)), (''y'', JStr (bytes_to_base64url y))]"

definition compact_text :: "json \<Rightarrow> string" where
  "compact_text = dumps (\<lambda>_. []) compact_json 0"

definition thumbprint :: "(bytes \<Rightarrow> bytes) \<Rightarrow> bytes \<Rightarrow> bytes \<Rightarrow> string" where
  "thumbprint sha256 x y = bytes_to_base64url (sha256 (compact_text (sorted_keys (JObj (jwk_core x y)))))"

definition jwk :: "'w signer \<Rightarrow> abs_path \<Rightarrow> ('w bench, exn, json) act" where
  "jwk g path =
     seq (public_point g path) (\<lambda>(x, y).
     give (JObj (jwk_core x y @ [(''kid'', JStr (thumbprint (sg_sha256 g) x y)), (''alg'', JStr ALG), (''use'', JStr ''sig'')])))"

definition jwks :: "'w signer \<Rightarrow> abs_path \<Rightarrow> ('w bench, exn, json) act" where
  "jwks g path = seq (jwk g path) (\<lambda>k. give (JObj [(''keys'', JList [k])]))"

subsection \<open>Signatures\<close>

definition byte_at :: "bytes \<Rightarrow> nat \<Rightarrow> exn + nat" where
  "byte_at b i = (if i < length b then Inr (of_char (b ! i)) else Inl index_error)"

definition right_justify :: "nat \<Rightarrow> bytes \<Rightarrow> bytes" where
  "right_justify width b = replicate (width - length b) (CHR 0x00) @ b"

fun der_integers :: "nat \<Rightarrow> nat \<Rightarrow> nat \<Rightarrow> bytes \<Rightarrow> exn + bytes" where
  "der_integers 0 width i sig = Inr []"
| "der_integers (Suc k) width i sig =
     bind_sum (byte_at sig i) (\<lambda>tag.
     if tag \<noteq> 2 then Inl (ValueError ''expected DER INTEGER'')
     else bind_sum (byte_at sig (i + 1)) (\<lambda>len.
     let v = lstrip_by (\<lambda>c. c = CHR 0x00) (take len (drop (i + 2) sig)) in
     map_sum id ((@) (right_justify width v)) (der_integers k width (i + 2 + len) sig)))"

definition der_to_raw :: "nat \<Rightarrow> bytes \<Rightarrow> exn + bytes" where
  "der_to_raw width sig =
     bind_sum (byte_at sig 0) (\<lambda>tag.
     if tag \<noteq> 48 then Inl (ValueError ''not a DER SEQUENCE'')
     else bind_sum (byte_at sig 1) (\<lambda>len.
     der_integers 2 width (if len < 128 then 2 else 2 + len mod 128) sig))"

definition jwt_part :: "json \<Rightarrow> string" where
  "jwt_part j = bytes_to_base64url (compact_text j)"

definition admin_claims :: "string \<Rightarrow> string \<Rightarrow> string \<Rightarrow> int \<Rightarrow> int \<Rightarrow> string \<Rightarrow> json" where
  "admin_claims iss audience subject now ttl jti =
     JObj [(''iss'', JStr iss), (''aud'', JStr audience), (''sub'', JStr subject), (''eppn'', JStr subject), (''iat'', JInt now),
       (''exp'', JInt (now + ttl)), (''jti'', JStr jti)]"

definition mint :: "'w signer \<Rightarrow> abs_path \<Rightarrow> string \<Rightarrow> string \<Rightarrow> string \<Rightarrow> int \<Rightarrow> ('w bench, exn, string) act" where
  "mint g path iss audience subject ttl =
     seq (\<lambda>s. (Inr (whole_seconds (sg_time g (bn_world s)) - IAT_LEEWAY), s)) (\<lambda>now.
     seq (jwk g path) (\<lambda>key.
     let kid = (case json_get key ''kid'' of Some k \<Rightarrow> k | None \<Rightarrow> JNull) in
     seq (at_world (\<lambda>w. case sg_random g 16 w of (b, w') \<Rightarrow> (Inr (bytes_to_base64url b), w'))) (\<lambda>jti.
     let signing_input = jwt_part (JObj [(''alg'', JStr ALG), (''typ'', JStr ''JWT''), (''kid'', kid)]) @ ''.'' @
           jwt_part (admin_claims iss audience subject now ttl jti) in
     seq (openssl g [''dgst'', ''-sha256'', ''-sign'', path_text path] signing_input) (\<lambda>der.
     seq (value_of (der_to_raw 32 der)) (\<lambda>raw. give (signing_input @ ''.'' @ bytes_to_base64url raw))))))"

section \<open>The bearer of the WMP engine\<close>

text \<open>\<open>n.to_bytes(len, "big")\<close>\<close>

fun big_endian :: "nat \<Rightarrow> nat \<Rightarrow> bytes" where
  "big_endian 0 n = []"
| "big_endian (Suc k) n = big_endian k (n div 256) @ [char_of (n mod 256)]"

definition to_bytes :: "nat \<Rightarrow> nat \<Rightarrow> exn + bytes" where
  "to_bytes k n = (if n < 256 ^ k then Inr (big_endian k n) else Inl (OtherError ''OverflowError'' ''int too big to convert''))"

text \<open>\<open>(n.bit_length() + 7) // 8\<close>: the bytes \<open>n\<close> needs.\<close>

fun byte_length :: "nat \<Rightarrow> nat" where
  "byte_length n = (if n = 0 then 0 else Suc (byte_length (n div 256)))"

declare byte_length.simps [simp del]

definition engine_kid :: "(bytes \<Rightarrow> bytes) \<Rightarrow> nat \<Rightarrow> nat \<Rightarrow> exn + string" where
  "engine_kid sha256 x y =
     (let len = byte_length x in
      bind_sum (to_bytes len x) (\<lambda>xb. bind_sum (to_bytes len y) (\<lambda>yb. Inr (thumbprint sha256 xb yb))))"

definition engine_claims :: "string \<Rightarrow> string \<Rightarrow> int \<Rightarrow> nat \<Rightarrow> json" where
  "engine_claims iss audience now ttl_hours =
     JObj [(''iss'', JStr iss), (''sub'', JStr ''engine-pdp''), (''aud'', JStr audience), (''tac'', JStr ''r''), (''iat'', JInt now),
       (''exp'', JInt (now + int ttl_hours * 3600))]"

definition mint_engine_pdp_token :: "'w signer \<Rightarrow> string \<Rightarrow> string \<Rightarrow> string \<Rightarrow> nat \<Rightarrow> 'w \<Rightarrow> ('w, string) outcome" where
  "mint_engine_pdp_token g pem iss audience ttl_hours =
     seq (value_of (sg_load g pem)) (\<lambda>key.
     case key of
       None \<Rightarrow> refuse (ValueError ''the AS signing key is not an EC P-256 key'')
     | Some (curve, x, y) \<Rightarrow>
         if curve \<noteq> ''secp256r1'' then refuse (ValueError ''the AS signing key is not an EC P-256 key'')
         else
         seq (value_of (engine_kid (sg_sha256 g) x y)) (\<lambda>kid.
         seq (\<lambda>w. (Inr (whole_seconds (sg_time g w)), w)) (\<lambda>now.
         let signing = jwt_part (JObj [(''alg'', JStr ALG), (''kid'', JStr kid), (''typ'', JStr ''JWT'')]) @ ''.'' @
               jwt_part (engine_claims iss audience now ttl_hours) in
         seq (\<lambda>w. case sg_sign g pem signing w of (rs, w') \<Rightarrow> (Inr rs, w')) (\<lambda>(r, s).
         seq (value_of (bind_sum (to_bytes 32 r) (\<lambda>rb. map_sum id ((@) rb) (to_bytes 32 s)))) (\<lambda>raw.
         give (signing @ ''.'' @ bytes_to_base64url raw))))))"

section \<open>Facts\<close>

lemma big_endian_length [simp]: "length (big_endian k n) = k"
  by (induction k arbitrary: n) simp_all

lemma byte_length_le: "byte_length n \<le> k \<longleftrightarrow> n < 256 ^ k"
proof (induction n arbitrary: k rule: byte_length.induct)
  case (1 n)
  show ?case
  proof (cases "n = 0")
    case True then show ?thesis by (simp add: byte_length.simps [of 0])
  next
    case False
    show ?thesis
    proof (cases k)
      case 0 with False show ?thesis by (simp add: byte_length.simps [of n])
    next
      case (Suc j)
      have "n < 256 ^ Suc j \<longleftrightarrow> n div 256 < 256 ^ j" by (simp add: less_mult_imp_div_less div_less_iff_less_mult mult.commute)
      with False 1 Suc show ?thesis by (simp add: byte_length.simps [of n])
    qed
  qed
qed

text \<open>A reference encoder of signatures: INTEGERs of DER, which are minimal and not negative.\<close>

definition der_magnitude :: "nat \<Rightarrow> bytes" where
  "der_magnitude n =
     (let b = big_endian (max 1 (byte_length n)) n in if 128 \<le> (of_char (hd b) :: nat) then CHR 0x00 # b else b)"

definition der_signature :: "nat \<Rightarrow> nat \<Rightarrow> bytes" where
  "der_signature r s =
     (let body = concat (map (\<lambda>n. [CHR 0x02, char_of (length (der_magnitude n))] @ der_magnitude n) [r, s])
      in [CHR 0x30, char_of (length body)] @ body)"


lemma byte_length_simps: "byte_length 0 = 0" "n \<noteq> 0 \<Longrightarrow> byte_length n = Suc (byte_length (n div 256))"
  by (subst byte_length.simps, simp)+

lemma zero_byte: "char_of (0 :: nat) = CHR 0x00" and zero_byte_iff: "char_of n = CHR 0x00 \<longleftrightarrow> n mod 256 = (0 :: nat)"
  by (simp_all add: char_of_eq_iff take_bit_eq_mod)

lemma big_endian_pad:
  "byte_length n \<le> k \<Longrightarrow> big_endian k n = replicate (k - byte_length n) (CHR 0x00) @ big_endian (byte_length n) n"
proof (induction k arbitrary: n)
  case 0
  then show ?case by simp
next
  case (Suc k)
  show ?case
  proof (cases "n = 0")
    case True
    have "big_endian k 0 = replicate k (CHR 0x00)" using Suc.IH [of 0] by (simp add: byte_length_simps)
    with True show ?thesis by (simp add: byte_length_simps zero_byte replicate_append_same)
  next
    case False
    with Suc show ?thesis by (simp add: byte_length_simps)
  qed
qed

lemma big_endian_head: "n \<noteq> 0 \<Longrightarrow> \<exists>c cs. big_endian (byte_length n) n = c # cs \<and> c \<noteq> CHR 0x00"
proof (induction n rule: byte_length.induct)
  case (1 n)
  show ?case
  proof (cases "n div 256 = 0")
    case True
    then have "n < 256" by simp
    with True 1 show ?thesis by (simp add: byte_length_simps zero_byte_iff)
  next
    case False
    with 1 show ?thesis by (fastforce simp: byte_length_simps(2) [of n])
  qed
qed

lemma dropWhile_zeros: "dropWhile (\<lambda>c. c = x) (replicate k x @ xs) = dropWhile (\<lambda>c. c = x) xs"
  by (induction k) simp_all

lemma strip_zero_bytes:
  assumes "n < 256 ^ k"
  shows "lstrip_by (\<lambda>c. c = CHR 0x00) (big_endian k n) = big_endian (byte_length n) n"
proof -
  have "dropWhile (\<lambda>c. c = CHR 0x00) (big_endian (byte_length n) n) = big_endian (byte_length n) n"
    using big_endian_head [of n] by (cases "n = 0") (auto simp: byte_length_simps)
  then show ?thesis
    using assms by (subst big_endian_pad) (simp_all add: byte_length_le lstrip_by_def dropWhile_zeros)
qed

lemma right_justify_magnitude:
  assumes "n < 256 ^ k"
  shows "right_justify k (lstrip_by (\<lambda>c. c = CHR 0x00) (der_magnitude n)) = big_endian k n"
proof -
  have "n < 256 ^ max 1 (byte_length n)" unfolding byte_length_le [symmetric] by simp
  then have "lstrip_by (\<lambda>c. c = CHR 0x00) (der_magnitude n) = big_endian (byte_length n) n"
    using strip_zero_bytes by (simp add: der_magnitude_def Let_def lstrip_by_def)
  then show ?thesis
    using assms by (simp add: right_justify_def big_endian_pad [of n k] byte_length_le)
qed

lemma magnitude_length: "n < 256 ^ 32 \<Longrightarrow> length (der_magnitude n) \<le> 33"
  unfolding byte_length_le [symmetric] by (simp add: der_magnitude_def Let_def)

lemma der_to_raw_signature:
  assumes "r < 256 ^ 32" and "s < 256 ^ 32"
  shows "der_to_raw 32 (der_signature r s) = Inr (big_endian 32 r @ big_endian 32 s)"
proof -
  let ?a = "der_magnitude r" and ?b = "der_magnitude s"
  have len: "length ?a \<le> 33" "length ?b \<le> 33" using assms magnitude_length by simp_all
  have sig: "der_signature r s = CHR 0x30 # char_of (4 + (length ?a + length ?b)) # CHR 0x02 # char_of (length ?a) # ?a @
      CHR 0x02 # char_of (length ?b) # ?b"
    by (simp add: der_signature_def)
  from len show ?thesis
    unfolding der_to_raw_def sig
    by (simp add: byte_at_def numeral_2_eq_2 Let_def nth_append right_justify_magnitude [OF assms(1)] right_justify_magnitude [OF assms(2)])
qed

end
