(* ===== verification/Render.thy ===== *)
theory Render
  imports Values Tokens
begin

text \<open>
  Rendering the configs of an instance (sirosid_core/render.py, the writing half of
  sirosid_core/vc_render.py and sirosid_core/helm.py): the values overlays, \<open>helm template\<close>,
  the patches of the wallet backend and the vc services, and the files that are written. The
  record \<open>renderer\<close> holds what is foreign: the files of the repository, YAML, helm, and the
  signer and random source of the keys. Directories appear with their files; permissions and
  progress messages are left out. \<open>render\<close> gets its arguments in the record \<open>render_args\<close>;
  \<open>ra_password\<close>, \<open>ra_bbs\<close> and the other texts are empty where the source has \<open>None\<close>.
\<close>

record 'w renderer =
  rn_signer :: "'w signer"
  rn_kit :: "'w kit"
  rn_root :: abs_path
  rn_chart :: abs_path
  rn_read :: reader
  rn_listing :: "string \<Rightarrow> (string \<times> string) list"
  rn_yaml :: "string \<Rightarrow> exn + json"
  rn_yaml_all :: "string \<Rightarrow> exn + json list"
  rn_yaml_dump :: "json \<Rightarrow> string"
  rn_helm :: "string list \<Rightarrow> 'w bench \<Rightarrow> cmd_result option \<times> 'w"

record render_args =
  ra_target :: target
  ra_naming :: naming
  ra_hashes :: "string list"
  ra_namespace :: string
  ra_out :: abs_path
  ra_secrets_dir :: abs_path
  ra_password :: string
  ra_conformance :: bool
  ra_trusted_issuers :: "json list"
  ra_attestation :: bool
  ra_trusted_verifiers :: "json list"
  ra_verifier_roots :: "json list"
  ra_rical_url :: string
  ra_rical_root :: string
  ra_zk_sources :: "json list"
  ra_dc_api :: string
  ra_hostnames :: "json dict"
  ra_mini_oidc_url :: string
  ra_registries :: "json list"
  ra_values :: "json dict"
  ra_bbs :: string

section \<open>Files\<close>

definition remove_file :: "abs_path \<Rightarrow> ('w bench, exn, unit) act" where
  "remove_file p s = (Inr (), s\<lparr>bn_files := AList.delete p (bn_files s)\<rparr>)"

text \<open>\<open>shutil.rmtree\<close>\<close>

definition remove_tree :: "abs_path \<Rightarrow> ('w bench, exn, unit) act" where
  "remove_tree dir s = (Inr (), s\<lparr>bn_files := filter (\<lambda>(p, b). take (length dir) p \<noteq> dir) (bn_files s)\<rparr>)"

text \<open>Every generated secret is drawn once and read ever after.\<close>

definition gen_secret :: "'w renderer \<Rightarrow> abs_path \<Rightarrow> nat \<Rightarrow> ('w bench, exn, string) act" where
  "gen_secret rn path len =
     seq (has_file path) (\<lambda>there.
     if there then seq (read_file path) (\<lambda>t. give (py_strip t))
     else seq (at_world (random_secret (rn_kit rn) len)) (\<lambda>v. seq (write_file path v) (\<lambda>_. give v)))"

definition dump_to :: "'w renderer \<Rightarrow> abs_path \<Rightarrow> json \<Rightarrow> ('w bench, exn, unit) act" where
  "dump_to rn path j = write_file path (rn_yaml_dump rn j)"

section \<open>helm\<close>

definition helm_template :: "'w renderer \<Rightarrow> abs_path list \<Rightarrow> string \<Rightarrow> ('w bench, exn, string) act" where
  "helm_template rn files namespace s =
     (case rn_helm rn ([''helm'', ''template'', ''siros-id-stack'', path_text (rn_chart rn), ''--namespace'', namespace] @
             concat (map (\<lambda>f. [''-f'', path_text f]) files)) s of
        (None, w) \<Rightarrow> (Inl (OtherError ''FileNotFoundError'' ''helm''), s\<lparr>bn_world := w\<rparr>)
      | (Some r, w) \<Rightarrow>
          (if cr_code r \<noteq> 0
           then Inl (OtherError ''HelmError'' (''helm template failed (exit '' @ show_int (cr_code r) @ '')'' @ [newline] @ py_strip (cr_err r)))
           else Inr (cr_out r), s\<lparr>bn_world := w\<rparr>))"

definition load_manifest_docs :: "'w renderer \<Rightarrow> string \<Rightarrow> exn + json list" where
  "load_manifest_docs rn manifest = map_sum id (filter json_truthy) (rn_yaml_all rn manifest)"

text \<open>A ConfigMap entry that is there, parsed.\<close>

definition parsed_entry :: "'w renderer \<Rightarrow> json list \<Rightarrow> string \<Rightarrow> string \<Rightarrow> exn + json" where
  "parsed_entry rn docs cm key =
     bind_sum (bind_sum (bind_sum (extract_configmap_data docs cm) (\<lambda>d. item_of d key)) text_value) (rn_yaml rn)"

definition entry_text :: "json list \<Rightarrow> string \<Rightarrow> string \<Rightarrow> exn + string option" where
  "entry_text docs cm key =
     bind_sum (bind_sum (extract_configmap_data docs cm) (\<lambda>d. get_attr d key)) (\<lambda>v.
     if json_truthy v then map_sum id Some (text_value v) else Inr None)"

section \<open>The wallet backend\<close>

definition steps :: "(json \<Rightarrow> exn + json) list \<Rightarrow> json \<Rightarrow> exn + json" where
  "steps fs j = fold (\<lambda>f r. bind_sum r f) fs (Inr j)"

abbreviation put :: "string \<Rightarrow> string \<Rightarrow> json \<Rightarrow> exn + json" where
  "put k v \<equiv> set_item k (JStr v)"

definition iterate :: "json \<Rightarrow> exn + json list" where
  "iterate j = (case j of JNull \<Rightarrow> Inl (TypeError ''object is not iterable'') | JBool _ \<Rightarrow> Inl (TypeError ''object is not iterable'')
     | JInt _ \<Rightarrow> Inl (TypeError ''object is not iterable'') | JFloat _ \<Rightarrow> Inl (TypeError ''object is not iterable'') | _ \<Rightarrow> as_list j)"

definition is_android :: "json \<Rightarrow> exn + bool" where
  "is_android j = (case j of JStr s \<Rightarrow> Inr (starts_with ''android:'' s)
     | _ \<Rightarrow> Inl (OtherError ''AttributeError'' (''object has no attribute '' @ py_repr ''startswith'')))"

fun add_origins :: "string list \<Rightarrow> json list \<Rightarrow> json list" where
  "add_origins [] os = os"
| "add_origins (h # hs) os =
     (let x = JStr (''android:apk-key-hash:'' @ h) in add_origins hs (if x \<in> set os then os else os @ [x]))"

text \<open>The Android origins the chart has and those of the caller, which come on top.\<close>

definition android_origins :: "string list \<Rightarrow> json \<Rightarrow> exn + json list" where
  "android_origins hashes server =
     bind_sum (bind_sum (item_of server ''rp_origins'') iterate) (\<lambda>os.
     map_sum id (\<lambda>bs. add_origins hashes (map fst (filter snd (zip os bs)))) (all_right (map is_android os)))"

definition set_origins :: "string \<Rightarrow> string list \<Rightarrow> json \<Rightarrow> exn + json" where
  "set_origins first hashes server =
     bind_sum (android_origins hashes server) (\<lambda>os. set_item ''rp_origins'' (JList (JStr first # os)) server)"

definition mongo_block :: "string \<Rightarrow> json" where
  "mongo_block uri = JObj [(''uri'', JStr uri), (''tls_enabled'', JBool False), (''database'', JStr ''wallet-backend'')]"

definition patch_wallet_backend_compose :: "string list \<Rightarrow> json \<Rightarrow> exn + json" where
  "patch_wallet_backend_compose hashes =
     (let base = ''http://localhost:8080'' in
      steps
        [in_item ''server'' (steps [put ''rp_id'' ''localhost'', set_origins ''http://localhost:3000'' hashes, put ''base_url'' base]),
         (\<lambda>j. bind_sum (get_attr j ''as'') (\<lambda>v. if json_truthy v
            then in_item ''as'' (steps [put ''external_url'' base, put ''issuer'' base]) j else Inr j)),
         in_item ''server'' (in_item ''cors'' (set_item ''allowed_origins'' (JList [JStr ''http://localhost:3000'']))),
         in_item ''trust'' (put ''registry_url'' ''http://localhost:8080/registry''),
         in_item ''storage'' (set_item ''mongodb'' (mongo_block ''mongodb://mongodb:27017/wallet-backend'')),
         in_default ''wallet_provider'' (JObj [])
           (steps [put ''private_key_path'' ''/app/fixtures/wallet_provider_ec_private.pem'',
              put ''certificate_path'' ''/app/fixtures/wallet_provider_ec.crt'', put ''ca_cert_path'' ''/app/fixtures/rootCA.crt'',
              in_default ''wia'' (JObj []) (steps [set_item ''enabled'' (JBool False), put ''wallet_provider_uri'' base])])])"

definition put_port :: "string \<Rightarrow> nat \<Rightarrow> json \<Rightarrow> exn + json" where
  "put_port k p = set_item k (JInt (int p))"

text \<open>The ports of the one machine, on its loopback address.\<close>

definition own_ports :: "naming \<Rightarrow> json \<Rightarrow> exn + json" where
  "own_ports n j =
     bind_sum (port n ''wallet-backend'' ''http'') (\<lambda>http.
     bind_sum (port n ''wallet-backend'' ''admin'') (\<lambda>admin.
     bind_sum (port n ''wallet-backend'' ''engine'') (\<lambda>engine.
     in_item ''server'' (steps [put_port ''port'' http, put_port ''admin_port'' admin, put_port ''engine_port'' engine,
       put ''host'' ''127.0.0.1'']) j)))"

text \<open>The public identities are those of wallet-proxy for the API and of wallet-frontend for passkeys.\<close>

definition fly_server :: "naming \<Rightarrow> string list \<Rightarrow> string \<Rightarrow> string \<Rightarrow> string \<Rightarrow> json \<Rightarrow> exn + json" where
  "fly_server n hashes proxy frontend rpid =
     steps
       [in_item ''server'' (steps [put ''rp_id'' rpid, set_origins frontend hashes, put ''base_url'' proxy,
          in_item ''cors'' (steps [set_item ''allowed_origins'' (JList [JStr frontend]), set_item ''allow_credentials'' (JBool True)])]),
        (if single_machine n then own_ports n else Inr)]"

definition fly_wallet_provider :: "bool \<Rightarrow> string \<Rightarrow> json \<Rightarrow> exn + json" where
  "fly_wallet_provider attestation proxy =
     in_default ''wallet_provider'' (JObj [])
       (steps [put ''private_key_path'' ''/main-secrets/walletProviderKey'', put ''certificate_path'' ''/main-config/walletProviderCert.pem'',
          put ''ca_cert_path'' ''/main-config/walletProviderCA.pem'',
          in_default ''wia'' (JObj []) (steps ([set_item ''enabled'' (JBool attestation), put ''wallet_provider_uri'' proxy] @
            (if attestation then [put ''issuer'' proxy, put ''mode'' ''ietf''] else [])))])"

definition patch_wallet_backend_fly :: "naming \<Rightarrow> string list \<Rightarrow> string \<Rightarrow> bool \<Rightarrow> json \<Rightarrow> exn + json" where
  "patch_wallet_backend_fly n hashes password attestation j =
     bind_sum (url n ''wallet-proxy'') (\<lambda>proxy.
     bind_sum (url n ''wallet-frontend'') (\<lambda>frontend.
     bind_sum (host n ''wallet-frontend'') (\<lambda>rpid.
     bind_sum (addr n ''pdp'' []) (\<lambda>pdp.
     bind_sum (addr n ''mongodb'' []) (\<lambda>mongo.
     steps
       [fly_server n hashes proxy frontend rpid,
        in_item ''trust'' (steps [put ''pdp_url'' (''http://'' @ pdp), put ''registry_url'' (proxy @ ''/registry'')]),
        in_item ''storage'' (set_item ''mongodb''
          (mongo_block (''mongodb://'' @ mongo_auth (Some password) @ mongo @ ''/wallet-backend?authSource=admin''))),
        fly_wallet_provider attestation proxy,
        in_default ''as'' (JObj []) (steps [put ''external_url'' proxy, put ''default_max_tac'' ''rwlidk''])] j)))))"

definition registry_source :: "json \<Rightarrow> exn + json" where
  "registry_source u = (case u of
     JStr s \<Rightarrow> Inr (JObj [(''url'', JStr (rstrip_by (\<lambda>c. c = CHR ''/'') s)), (''mode'', JStr ''ts11''), (''timeout'', JStr ''30s'')])
   | _ \<Rightarrow> Inl (OtherError ''AttributeError'' (''object has no attribute '' @ py_repr ''rstrip'')))"

definition patch_registry_sources :: "json list \<Rightarrow> json \<Rightarrow> exn + json" where
  "patch_registry_sources registries =
     steps [pop_item ''source'',
        (\<lambda>j. bind_sum (all_right (map registry_source registries)) (\<lambda>us. set_item ''sources'' (JList us) j)),
        in_default ''dynamic_cache'' (JObj []) (set_item ''enabled'' (JBool True))]"

section \<open>Values overlays\<close>

definition obj1 :: "string \<Rightarrow> json \<Rightarrow> json" where
  "obj1 k v = JObj [(k, v)]"

text \<open>The whitelist and its actions.\<close>

definition pid_issuers :: "naming \<Rightarrow> bool \<Rightarrow> json list \<Rightarrow> exn + json list" where
  "pid_issuers n conformance extra =
     bind_sum (url n ''vc-apigw'') (\<lambda>apigw.
     bind_sum (if conformance then map_sum id (\<lambda>u. [JStr (u @ ''/*'')]) (url n ''conformance'') else Inr []) (\<lambda>conf.
     Inr ([JStr apigw] @ conf @ extra)))"

definition whitelist_verifiers :: "naming \<Rightarrow> bool \<Rightarrow> json list \<Rightarrow> exn + json list" where
  "whitelist_verifiers n conformance extra =
     bind_sum (url n ''vc-apigw'') (\<lambda>apigw.
     bind_sum (url n ''vc-verifier'') (\<lambda>verifier.
     bind_sum (if conformance then map_sum id (\<lambda>u. [JStr (u @ ''/*'')]) (url n ''conformance'') else Inr []) (\<lambda>conf.
     Inr ([JStr apigw, JStr verifier] @ conf @ extra))))"

definition whitelist_config :: "naming \<Rightarrow> json list \<Rightarrow> json list \<Rightarrow> json list \<Rightarrow> json list \<Rightarrow> json" where
  "whitelist_config n pids verifiers providers roots = JObj (
     [(''enabled'', JBool True), (''name'', JStr (label n @ '' Fly whitelist'')),
      (''description'', JStr ''Fly-hosted vc-services URLs (rendered from siros-id-stack schema)''),
      (''lists'', JObj ([(''pid-issuers'', JList pids), (''verifiers'', JList verifiers)] @
         (if providers \<noteq> [] then [(''wallet-providers'', JList providers)] else []))),
      (''actions'', JObj ([(''pid-provider'', JStr ''pid-issuers''), (''credential-issuer'', JStr ''pid-issuers''),
         (''verifier'', JStr ''verifiers''), (''credential-verifier'', JStr ''verifiers'')] @
         (if providers \<noteq> [] then [(''wallet_provider'', JStr ''wallet-providers'')] else []))),
      (''trust_x509_via_system_ca'', JBool True)] @
     (if roots \<noteq> [] then [(''additional_trusted_roots'', JList roots)] else []))"

definition extra_registries :: "naming \<Rightarrow> json list \<Rightarrow> json \<Rightarrow> string \<Rightarrow> string \<Rightarrow> json" where
  "extra_registries n pids whitelist rical_url rical_root = JObj (
     [(''whitelist'', whitelist),
      (''mdociaca'', JObj [(''enabled'', JBool True), (''name'', JStr (label n @ '' mDOC IACA registry'')),
         (''description'', JStr ''IACA cert validation for mso_mdoc issuers (rendered from siros-id-stack schema)''),
         (''issuer_allowlist'', JList pids)])] @
     (if rical_url \<noteq> [] \<and> rical_root \<noteq> []
      then [(''mdocrical'', JObj [(''enabled'', JBool True), (''name'', JStr (label n @ '' RICAL registry'')),
              (''description'', JStr ''Reader-trust list for mdoc BLE/NFC proximity presentation (rendered from siros-id-stack schema)''),
              (''rical_provider_url'', JStr rical_url), (''rical_root_certificate_pem'', JStr rical_root)])]
      else []))"

definition E2E_SCOPES :: "string list" where
  "E2E_SCOPES = [''pid'', ''pid_1_5'', ''pid_1_8'', ''diploma'', ''ehic'', ''mdl'', ''mdl_zk4'', ''pid_mdoc'', ''pid_mdoc_id'', ''photoid'',
     ''ebw_oid'', ''eucc'', ''eu_poa'', ''iban_ov'', ''nym_auth'']"

definition plain_client :: "string \<Rightarrow> json" where
  "plain_client a = JObj [(''addr'', JStr a), (''tls'', JBool False)]"

definition e2e_client :: "string \<Rightarrow> json" where
  "e2e_client frontend = JObj [(''type'', JStr ''public''),
     (''redirect_uri'', JList [JStr ''siros-sample://callback'', JStr ''http://localhost:3000/id/default/cb'',
        JStr (frontend @ ''/id/default/cb'')]),
     (''scopes'', JList (map JStr E2E_SCOPES))]"

definition apigw_values :: "string \<Rightarrow> string \<Rightarrow> string \<Rightarrow> json" where
  "apigw_values issuer registry frontend =
     obj1 ''extraConfig'' (obj1 ''apigw'' (JObj
       [(''issuer_client'', plain_client issuer), (''registry_client'', plain_client registry),
        (''delivery'', obj1 ''openid4vci'' (obj1 ''clients'' (obj1 ''e2e-test-client'' (e2e_client frontend)))),
        (''credential_offers'', obj1 ''wallets'' (obj1 ''local'' (obj1 ''redirect_uri'' (JStr (frontend @ ''/id/default/cb'')))))]))"

definition hostname_values :: "naming \<Rightarrow> exn + json" where
  "hostname_values n = map_sum id JObj (all_right (map (\<lambda>(k, x). map_sum id (\<lambda>h. (k, JStr h)) (host n x))
     [(''issuer'', ''vc-apigw''), (''issuerRegistry'', ''vc-registry''), (''verifier'', ''vc-verifier''),
      (''walletFrontend'', ''wallet-frontend''), (''walletBackend'', ''wallet-proxy'')]))"

definition listen_at :: "naming \<Rightarrow> string \<Rightarrow> string \<Rightarrow> exn + json" where
  "listen_at n component kind = map_sum id (\<lambda>a. obj1 ''addr'' (JStr a)) (listen n component kind)"

definition single_machine_listeners :: "naming \<Rightarrow> exn + json" where
  "single_machine_listeners n =
     bind_sum (listen_at n ''vc-registry'' ''http'') (\<lambda>rh.
     bind_sum (listen_at n ''vc-registry'' ''grpc'') (\<lambda>rg.
     bind_sum (listen_at n ''vc-issuer'' ''http'') (\<lambda>ih.
     bind_sum (listen_at n ''vc-issuer'' ''grpc'') (\<lambda>ig.
     bind_sum (listen_at n ''vc-apigw'' ''http'') (\<lambda>ah.
     bind_sum (listen_at n ''vc-verifier'' ''http'') (\<lambda>vh.
     bind_sum (port n ''pdp'' []) (\<lambda>pdp. Inr (JObj
       [(''issuer'', JObj
          [(''registry'', obj1 ''extraConfig'' (obj1 ''registry'' (JObj [(''api_server'', rh), (''grpc_server'', rg)]))),
           (''core'', obj1 ''extraConfig'' (obj1 ''issuer'' (JObj [(''api_server'', ih), (''grpc_server'', ig)]))),
           (''apigw'', obj1 ''extraConfig'' (obj1 ''apigw'' (obj1 ''api_server'' ah)))]),
        (''verifier'', obj1 ''extraConfig'' (obj1 ''verifier'' (obj1 ''api_server'' vh))),
        (''pdp'', obj1 ''extraConfig'' (obj1 ''server'' (JObj [(''host'', JStr ''127.0.0.1''), (''port'', JInt (int pdp))])))]))))))))"

definition overlay_base ::
  "naming \<Rightarrow> json \<Rightarrow> string \<Rightarrow> string \<Rightarrow> string \<Rightarrow> string \<Rightarrow> string \<Rightarrow> bool \<Rightarrow> json \<Rightarrow> json dict" where
  "overlay_base n hostnames frontend oidc issuer registry pdp attestation registries =
     [(''tenant'', obj1 ''id'' (JStr (n_env n))),
      (''hostnames'', hostnames),
      (''walletFrontend'', obj1 ''basePath'' (JStr ''/id/default'')),
      (''issuer'', JObj
         [(''authProviders'', obj1 ''oidc'' (JObj [(''issuerUrl'', JStr oidc), (''clientId'', JStr MINI_OIDC_APIGW_CLIENT_ID)])),
          (''apigw'', case apigw_values issuer registry frontend of
             JObj kvs \<Rightarrow> JObj (kvs @ (if attestation then [(''walletAttestation'', obj1 ''enabled'' (JBool True))] else [])) | j \<Rightarrow> j),
          (''core'', obj1 ''extraConfig'' (obj1 ''issuer'' (obj1 ''registry_client'' (plain_client registry))))]),
      (''pdp'', JObj [(''default_whitelist'', JBool False), (''externalUrl'', JStr (''http://'' @ pdp)), (''extraRegistries'', registries)])] @
     (if attestation then [(''verifier'', obj1 ''walletAttestation'' (obj1 ''enabled'' (JBool True)))] else [])"

definition build_fly_values_overlay :: "render_args \<Rightarrow> exn + json" where
  "build_fly_values_overlay a =
     (let n = ra_naming a in
      bind_sum (pid_issuers n (ra_conformance a) (ra_trusted_issuers a)) (\<lambda>pids.
      bind_sum (whitelist_verifiers n (ra_conformance a) (ra_trusted_verifiers a)) (\<lambda>verifiers.
      bind_sum (if ra_attestation a then map_sum id (\<lambda>u. [JStr u]) (url n ''wallet-proxy'') else Inr []) (\<lambda>providers.
      bind_sum (url n ''wallet-frontend'') (\<lambda>frontend.
      bind_sum (hostname_values n) (\<lambda>hosts.
      bind_sum (url n ''mini-oidc'') (\<lambda>oidc.
      bind_sum (addr n ''vc-issuer'' ''grpc'') (\<lambda>issuer.
      bind_sum (addr n ''vc-registry'' ''grpc'') (\<lambda>registry.
      bind_sum (addr n ''pdp'' []) (\<lambda>pdp.
      let whitelist = whitelist_config n pids verifiers providers (ra_verifier_roots a);
          overlay = JObj (overlay_base n hosts frontend oidc issuer registry pdp (ra_attestation a)
            (extra_registries n pids whitelist (ra_rical_url a) (ra_rical_root a))) in
      if single_machine n then bind_sum (single_machine_listeners n) (deep_merge overlay) else Inr overlay))))))))))"

definition build_toggles_overlay :: "json list \<Rightarrow> string \<Rightarrow> json dict" where
  "build_toggles_overlay zk_sources dc_api =
     (let verifier = (if zk_sources \<noteq> [] then [(''zkCircuits'', obj1 ''sources'' (JList zk_sources))] else []) @
            (if dc_api \<noteq> [] then [(''digitalCredentials'', obj1 ''enabled'' (JBool (dc_api = ''true'')))] else [])
      in if verifier \<noteq> [] then [(''verifier'', JObj verifier)] else [])"

definition host_overlay :: "json dict \<Rightarrow> string \<Rightarrow> json dict" where
  "host_overlay hostnames oidc_url =
     (if hostnames \<noteq> [] then [(''hostnames'', JObj hostnames)] else []) @
     (if oidc_url \<noteq> [] then [(''issuer'', obj1 ''authProviders'' (obj1 ''oidc'' (obj1 ''issuerUrl'' (JStr oidc_url))))] else [])"

section \<open>Documents\<close>

text \<open>
  A ConfigMap as a directory, made anew. Keys of a ConfigMap have no slash, so a document
  lies in the directory.
\<close>

fun write_entries :: "abs_path \<Rightarrow> json dict \<Rightarrow> ('w bench, exn, unit) act" where
  "write_entries dir [] = give ()"
| "write_entries dir ((k, v) # kvs) =
     (if k = ''.empty'' then write_entries dir kvs
      else seq (value_of (text_value v)) (\<lambda>t. seq (write_file (join_resolve dir k) t) (\<lambda>_. write_entries dir kvs)))"

definition write_documents :: "json list \<Rightarrow> abs_path \<Rightarrow> string \<Rightarrow> string \<Rightarrow> ('w bench, exn, unit) act" where
  "write_documents docs out cm subdir =
     (let dir = out @ [subdir] in
      seq (remove_tree dir) (\<lambda>_.
      seq (value_of (extract_configmap_data docs cm)) (\<lambda>d.
      case d of JObj kvs \<Rightarrow> write_entries dir kvs | _ \<Rightarrow> refuse no_attribute)))"

definition write_as_rules :: "json list \<Rightarrow> abs_path \<Rightarrow> ('w bench, exn, unit) act" where
  "write_as_rules docs out = write_documents docs out ''wallet-backend-as-rules'' ''as-rules''"

definition is_assurance :: "json \<Rightarrow> exn + bool" where
  "is_assurance d =
     (case d of
        JObj kvs \<Rightarrow>
          (if map_of kvs ''kind'' \<noteq> Some (JStr ''ConfigMap'') then Inr False
           else bind_sum (get_attr d ''metadata'') (\<lambda>m. map_sum id (\<lambda>n. n = JStr ''wallet-backend-assurance'') (get_or m ''name'')))
      | _ \<Rightarrow> Inr False)"

fun any_right :: "(exn + bool) list \<Rightarrow> exn + bool" where
  "any_right [] = Inr False"
| "any_right (r # rs) = bind_sum r (\<lambda>b. if b then Inr True else any_right rs)"

definition write_assurance_rules :: "json list \<Rightarrow> abs_path \<Rightarrow> ('w bench, exn, unit) act" where
  "write_assurance_rules docs out =
     seq (value_of (any_right (map is_assurance docs))) (\<lambda>b.
     only_if b (write_documents docs out ''wallet-backend-assurance'' ''assurance''))"

text \<open>\<open>base64.b64decode\<close>, which skips what is no character of the alphabet.\<close>

definition b64_text_decode :: "string \<Rightarrow> exn + bytes" where
  "b64_text_decode t = (case b64_decode (filter (\<lambda>c. c \<noteq> CHR ''-'' \<and> c \<noteq> CHR ''_'') t) of
     None \<Rightarrow> Inl (ValueError ''Incorrect padding'') | Some bs \<Rightarrow> Inr (map char_of bs))"

definition write_branding_key :: "abs_path \<Rightarrow> json \<Rightarrow> string \<times> string \<Rightarrow> ('w bench, exn, unit) act" where
  "write_branding_key dir d kn =
     seq (value_of (bind_sum (get_attr d (fst kn)) (\<lambda>u. if json_truthy u then text_value u else Inr []))) (\<lambda>u.
     case partition_at CHR '','' u of (_, found, b) \<Rightarrow>
       only_if found (seq (value_of (b64_text_decode b)) (write_file (dir @ [snd kn @ ''.png'']))))"

definition write_branding_assets :: "json list \<Rightarrow> abs_path \<Rightarrow> ('w bench, exn, unit) act" where
  "write_branding_assets docs out =
     seq (value_of (extract_configmap_data docs ''branding'')) (\<lambda>d.
     only_if (json_truthy d) (seq (each (write_branding_key (out @ [''branding-assets'']) d) BRANDING_KEYS) (\<lambda>_. give ())))"

section \<open>The vc services\<close>

definition VC_CONFIGMAPS :: "string dict" where
  "VC_CONFIGMAPS = [(''issuer-apigw-main'', ''vc-apigw.yaml''), (''issuer-core-main'', ''vc-issuer.yaml''),
     (''issuer-registry-main'', ''vc-registry.yaml''), (''verifier-main'', ''vc-verifier.yaml'')]"

definition SEED_SECRET_LENGTH :: nat where "SEED_SECRET_LENGTH = 64"

text \<open>Compose mounts both files always: an empty placeholder stands where the feature is off.\<close>

definition placeholder :: "abs_path \<Rightarrow> bool \<Rightarrow> ('w bench, exn, unit) act" where
  "placeholder path needed s =
     (case file_at s path of
        Some b \<Rightarrow> if needed \<and> b = [] then remove_file path s else (Inr (), s)
      | None \<Rightarrow> if needed then (Inr (), s) else write_file path [] s)"

definition placeholders :: "abs_path \<Rightarrow> json \<Rightarrow> ('w bench, exn, unit) act" where
  "placeholders state_dir apigw =
     seq (value_of (opening_secret_paths apigw)) (\<lambda>paths.
     seq (value_of (encryption_keys apigw)) (\<lambda>keys.
     seq (placeholder (state_dir @ [opening_secret_file ''/seeds/nym_auth_seed.key'']) (paths \<noteq> [])) (\<lambda>_.
     placeholder (state_dir @ [CREDENTIAL_ENCRYPTION_FILE]) keys)))"

text \<open>The secrets a service names by file: never in the config, never rotated.\<close>

definition seed_secrets :: "'w renderer \<Rightarrow> abs_path \<Rightarrow> json \<Rightarrow> ('w bench, exn, unit) act" where
  "seed_secrets rn state_dir apigw =
     seq (value_of (opening_secret_paths apigw)) (\<lambda>paths.
     seq (each (\<lambda>p. gen_secret rn (state_dir @ [opening_secret_file p]) SEED_SECRET_LENGTH) paths) (\<lambda>_.
     seq (value_of (encryption_keys apigw)) (\<lambda>keys.
     only_if keys (seq (ensure_key (rn_signer rn) (state_dir @ [CREDENTIAL_ENCRYPTION_FILE])) (\<lambda>_. give ())))))"

text \<open>The template of a service with the generated secrets filled in, merged into its config.\<close>

definition merge_secrets :: "'w renderer \<Rightarrow> json list \<Rightarrow> string \<Rightarrow> string dict \<Rightarrow> json \<Rightarrow> exn + json" where
  "merge_secrets rn docs cm vals config =
     bind_sum (entry_text docs cm ''secrets.yaml.template'') (\<lambda>t.
     bind_sum (case t of
         None \<Rightarrow> Inr config
       | Some template \<Rightarrow> bind_sum (rn_yaml rn (substitute vals template)) (\<lambda>r.
           deep_merge config (if json_truthy r then r else JObj []))) (\<lambda>merged.
     edit_at [''common''] (pop_item ''secret_file_path'') merged))"

definition apply_secrets ::
  "'w renderer \<Rightarrow> target \<Rightarrow> json list \<Rightarrow> string \<Rightarrow> abs_path \<Rightarrow> abs_path \<Rightarrow> string dict \<Rightarrow> json \<Rightarrow> ('w bench, exn, json) act" where
  "apply_secrets rn target docs cm secrets_dir state_dir overrides config =
     seq (each (\<lambda>(var, name). seq (gen_secret rn (secrets_dir @ [name]) 32) (\<lambda>v. give (var, v))) VC_SECRETS) (\<lambda>generated.
     seq (value_of (get_attr config ''apigw'')) (\<lambda>apigw.
     seq (only_if (target = Compose \<and> apigw \<noteq> JNull) (placeholders state_dir apigw)) (\<lambda>_.
     seq (seed_secrets rn state_dir apigw) (\<lambda>_.
     value_of (merge_secrets rn docs cm (fold (\<lambda>(k, v). AList.update k v) overrides generated) config)))))"

definition patched_vc :: "render_args \<Rightarrow> json \<Rightarrow> exn + json" where
  "patched_vc a config0 =
     bind_sum (if ra_target a = Compose then patch_vc_compose config0 COMPOSE_PLAIN_HTTP_HOSTS else Inr config0) (\<lambda>config.
     bind_sum (bind_sum (get_attr config ''common'') (\<lambda>c. get_or c ''mongo'')) (\<lambda>mongo.
     if json_truthy mongo then patch_vc_mongo (ra_target a) (ra_naming a) (Some (ra_password a)) config else Inr config))"

definition finished_vc :: "render_args \<Rightarrow> json \<Rightarrow> json \<Rightarrow> exn + json" where
  "finished_vc a types config =
     bind_sum (if ra_target a = OnFly then drop_twin_imports config else Inr config) (\<lambda>c1.
     bind_sum (integral_nym_auth_numbers (strip_unrenderable c1)) (\<lambda>c2.
     if ra_registries a \<noteq> [] then use_credential_registry c2 types (ra_registries a) else Inr c2))"

definition secret_overrides :: "render_args \<Rightarrow> string dict" where
  "secret_overrides a = (''OIDC_PROVIDER_CLIENT_SECRET'', MINI_OIDC_APIGW_CLIENT_SECRET) #
     (if ra_bbs a \<noteq> [] then [(''BBS_SECRET_KEY'', ra_bbs a)] else [])"

definition render_service ::
  "'w renderer \<Rightarrow> render_args \<Rightarrow> abs_path \<Rightarrow> abs_path \<Rightarrow> json \<Rightarrow> json list \<Rightarrow> string \<times> string \<Rightarrow> ('w bench, exn, unit) act" where
  "render_service rn a out state_dir types docs cf =
     seq (value_of (bind_sum (parsed_entry rn docs (fst cf) ''config.yaml'') (patched_vc a))) (\<lambda>config.
     seq (apply_secrets rn (ra_target a) docs (fst cf) (ra_secrets_dir a) state_dir (secret_overrides a) config) (\<lambda>filled.
     seq (value_of (finished_vc a types filled)) (\<lambda>final.
     seq (dump_to rn (out @ [snd cf]) final) (\<lambda>_.
     seq (value_of (entry_text docs (fst cf) ''api_auth_jwks.json'')) (\<lambda>jwks_data.
     case jwks_data of None \<Rightarrow> give () | Some t \<Rightarrow> write_file (out @ [''api_auth_jwks.json'']) t)))))"

definition render_vc ::
  "'w renderer \<Rightarrow> render_args \<Rightarrow> abs_path \<Rightarrow> abs_path \<Rightarrow> json \<Rightarrow> json list \<Rightarrow> ('w bench, exn, unit) act" where
  "render_vc rn a out state_dir types docs =
     seq (each (render_service rn a out state_dir types docs) VC_CONFIGMAPS) (\<lambda>_.
     seq (write_documents docs out ''vctms'' ''vctms'') (\<lambda>_.
     seq (write_documents docs out ''issuer-documents'' ''documents'') (\<lambda>_.
     seq (write_documents docs out ''verifier-pres-reqs'' ''pres-reqs'') (\<lambda>_.
     write_branding_assets docs out))))"

section \<open>render\<close>

definition WALLET_BACKEND_SECRETS :: "string list" where
  "WALLET_BACKEND_SECRETS = [''jwtSecret'', ''adminToken'']"

definition need_file :: "'w renderer \<Rightarrow> string \<Rightarrow> exn + string" where
  "need_file rn p = (case rn_read rn p of None \<Rightarrow> Inl (no_file (rn_root rn @ [p])) | Some b \<Rightarrow> Inr b)"

text \<open>What is done to values before helm sees them.\<close>

definition preprocessed :: "'w renderer \<Rightarrow> json \<Rightarrow> exn + json" where
  "preprocessed rn vals =
     bind_sum (inline_file_refs (rn_read rn) vals) (\<lambda>v.
     bind_sum (resolve_branding_refs (rn_read rn) v) (expand_presentation_request_templates (rn_listing rn) (rn_yaml rn)))"

definition base_values :: "'w renderer \<Rightarrow> render_args \<Rightarrow> exn + json" where
  "base_values rn a =
     bind_sum (bind_sum (need_file rn ''values-base.yaml'') (rn_yaml rn)) (\<lambda>raw.
     bind_sum (preprocessed rn raw) (\<lambda>base.
     bind_sum (get_path [''issuer'', ''allowPreauthOffer''] (JObj (ra_values a))) (\<lambda>direct.
     if json_truthy direct then drop_offer_twins base else Inr base)))"

text \<open>A file of values, where there are some.\<close>

definition extra_values :: "'w renderer \<Rightarrow> abs_path \<Rightarrow> json dict \<Rightarrow> ('w bench, exn, abs_path list) act" where
  "extra_values rn path d = (if d = [] then give [] else seq (dump_to rn path (JObj d)) (\<lambda>_. give [path]))"

definition api_auth_values :: "string \<Rightarrow> json" where
  "api_auth_values ks = obj1 ''issuer'' (obj1 ''apiAuth'' (obj1 ''jwks''
     (JObj [(''enabled'', JBool True), (''issuer'', JStr ISSUER), (''jwksData'', JStr ks)])))"

definition write_values :: "'w renderer \<Rightarrow> render_args \<Rightarrow> abs_path \<Rightarrow> json \<Rightarrow> ('w bench, exn, abs_path list) act" where
  "write_values rn a out base =
     seq (dump_to rn (out @ [''values.base-inlined.yaml'']) base) (\<lambda>_.
     seq (if ra_target a = Compose then give [rn_root rn @ [''values-dev.yaml'']]
          else seq (value_of (build_fly_values_overlay a)) (\<lambda>overlay.
               let path = out @ [''values.generated.yaml''] in
               seq (dump_to rn path overlay) (\<lambda>_. give [rn_root rn @ [''values-fly.yaml''], path]))) (\<lambda>target_files.
     seq (extra_values rn (out @ [''values.hostnames.yaml'']) (host_overlay (ra_hostnames a) (ra_mini_oidc_url a))) (\<lambda>host_files.
     seq (extra_values rn (out @ [''values.toggles.yaml'']) (build_toggles_overlay (ra_zk_sources a) (ra_dc_api a))) (\<lambda>toggle_files.
     seq (ensure_key (rn_signer rn) ((if ra_target a = OnFly then out else ra_secrets_dir a) @ [KEY_FILENAME])) (\<lambda>key.
     seq (jwks (rn_signer rn) key) (\<lambda>keys.
     let auth_path = out @ [''values.api-auth.yaml''] in
     seq (dump_to rn auth_path (api_auth_values (compact_text keys))) (\<lambda>_.
     seq (if ra_values a = [] then give []
          else seq (value_of (preprocessed rn (JObj (ra_values a)))) (\<lambda>v.
               let path = out @ [''values.environment.yaml''] in seq (dump_to rn path v) (\<lambda>_. give [path]))) (\<lambda>env_files.
     give ([out @ [''values.base-inlined.yaml'']] @ target_files @ host_files @ toggle_files @ [auth_path] @ env_files)))))))))"

text \<open>
  The registry of the wallet backend: a block of its config in the integrated layout, a file
  of its own otherwise.
\<close>

definition registry_patches :: "render_args \<Rightarrow> bool \<Rightarrow> json \<Rightarrow> exn + json" where
  "registry_patches a integrated =
     steps
       ((if ra_target a = OnFly
         then [in_default ''cache'' (JObj []) (put ''path'' ''/tmp/vctm-cache.json''),
               (\<lambda>j. if single_machine (ra_naming a) \<and> \<not> integrated
                 then bind_sum (port (ra_naming a) ''wallet-backend'' ''http'') (\<lambda>p.
                      in_default ''server'' (JObj []) (put_port ''port'' p) j)
                 else Inr j)]
         else []) @
        (if ra_registries a \<noteq> [] then [patch_registry_sources (ra_registries a)] else []))"

definition integrated_refused :: exn where
  "integrated_refused = system_exit (''walletBackend.registryConfigLayout=integrated is not supported for the compose target yet: '' @
     ''docker-compose.helm-config.yml still passes --registry-config and mounts registry.yaml. '' @
     ''Add the overlay when the local go-wallet-backend build contains #431.'')"

definition render_wallet_backend :: "'w renderer \<Rightarrow> render_args \<Rightarrow> abs_path \<Rightarrow> json list \<Rightarrow> ('w bench, exn, unit) act" where
  "render_wallet_backend rn a out docs =
     (let registry_file = out @ [''wallet-backend-registry.yaml''] in
      seq (value_of (extract_configmap_data docs ''wallet-backend-main'')) (\<lambda>wb.
      seq (value_of (bind_sum (parsed_entry rn docs ''wallet-backend-main'' ''backend.yaml'')
        (if ra_target a = Compose then patch_wallet_backend_compose (ra_hashes a)
         else patch_wallet_backend_fly (ra_naming a) (ra_hashes a) (ra_password a) (ra_attestation a)))) (\<lambda>backend.
      seq (value_of (contains ''registry.yaml'' wb)) (\<lambda>separate.
      if \<not> separate \<and> ra_target a = Compose then refuse integrated_refused
      else if separate then
        seq (value_of (bind_sum (parsed_entry rn docs ''wallet-backend-main'' ''registry.yaml'') (registry_patches a False))) (\<lambda>registry.
        seq (dump_to rn (out @ [''wallet-backend.yaml'']) backend) (\<lambda>_. dump_to rn registry_file registry))
      else
        seq (value_of (in_default ''registry'' (JObj []) (registry_patches a True) backend)) (\<lambda>b.
        seq (dump_to rn (out @ [''wallet-backend.yaml'']) b) (\<lambda>_. remove_file registry_file))))))"

definition render_dir :: "render_args \<Rightarrow> abs_path" where
  "render_dir a = (if ra_target a = OnFly then ra_out a @ [''fly-'' @ n_env (ra_naming a)] else ra_out a)"

definition credential_types :: "json \<Rightarrow> exn + json" where
  "credential_types base =
     bind_sum (bind_sum (get_attr base ''features'') (\<lambda>f. get_or f ''credentialTypes'')) (\<lambda>t.
     Inr (if json_truthy t then t else JObj []))"

definition render_docs :: "'w renderer \<Rightarrow> render_args \<Rightarrow> json \<Rightarrow> json list \<Rightarrow> ('w bench, exn, unit) act" where
  "render_docs rn a base docs =
     (let out = render_dir a in
      seq (render_wallet_backend rn a out docs) (\<lambda>_.
      seq (write_as_rules docs out) (\<lambda>_.
      seq (write_assurance_rules docs out) (\<lambda>_.
      seq (value_of (bind_sum (bind_sum (extract_configmap_data docs ''pdp-main'') (\<lambda>d. item_of d ''config.yaml'')) text_value)) (\<lambda>pdp.
      seq (write_file (out @ [''pdp.yaml'']) pdp) (\<lambda>_.
      seq (value_of (credential_types base)) (\<lambda>types.
      seq (render_vc rn a out (if ra_target a = OnFly then out @ [VC_SECRETS_DIR] else ra_secrets_dir a) types docs) (\<lambda>_.
      only_if (ra_target a = Compose)
        (seq (each (\<lambda>x. gen_secret rn (ra_secrets_dir a @ [x]) 32) WALLET_BACKEND_SECRETS) (\<lambda>_. give ()))))))))))"

definition render :: "'w renderer \<Rightarrow> render_args \<Rightarrow> ('w bench, exn, json list) act" where
  "render rn a =
     (if ra_target a = OnFly \<and> n_env (ra_naming a) = [] then refuse (ValueError (''target '' @ py_repr ''fly'' @ '' requires env''))
      else
      seq (value_of (base_values rn a)) (\<lambda>base.
      seq (write_values rn a (render_dir a) base) (\<lambda>files.
      seq (helm_template rn files (if ra_target a = Compose then ra_namespace a else label (ra_naming a))) (\<lambda>manifest.
      seq (value_of (load_manifest_docs rn manifest)) (\<lambda>docs.
      seq (render_docs rn a base docs) (\<lambda>_. give docs))))))"

text \<open>What a deploy passes to \<open>render\<close> (deploy.py and singlemachine.py).\<close>

definition deploy_args :: "abs_path \<Rightarrow> abs_path \<Rightarrow> spec \<Rightarrow> naming \<Rightarrow> string list \<Rightarrow> json list \<Rightarrow> string \<Rightarrow> render_args" where
  "deploy_args dir secrets_dir sp n hashes verifiers password =
     \<lparr>ra_target = OnFly, ra_naming = n, ra_hashes = hashes, ra_namespace = ''sirosid-dev'', ra_out = dir, ra_secrets_dir = secrets_dir,
      ra_password = password, ra_conformance = s_conformance sp, ra_trusted_issuers = s_trusted_issuers sp,
      ra_attestation = s_wallet_attestation sp, ra_trusted_verifiers = verifiers, ra_verifier_roots = s_trusted_verifier_roots sp,
      ra_rical_url = s_rical_provider_url sp, ra_rical_root = s_rical_root_pem sp, ra_zk_sources = s_zk_circuits_sources sp,
      ra_dc_api = s_dc_api_enable sp, ra_hostnames = [], ra_mini_oidc_url = [], ra_registries = s_credential_registries sp,
      ra_values = s_values sp, ra_bbs = s_bbs_secret_key sp\<rparr>"

end
