(* ===== verification/Deploy.thy ===== *)
theory Deploy
  imports Assets Templates
begin

text \<open>
  Deploying an instance as one Fly app per component (sirosid_core/deploy.py): the checks
  before it, the files, secrets and flyctl arguments of each component, the order, the
  deploy itself and the registration. \<open>deploy_ctx\<close> is \<open>DeployContext\<close>. Rendering (helm, YAML
  rewriting), the parsers, SHA-256, JWT signing, the nginx and HTML pages and the caller's
  \<open>register\<close> are in the record \<open>builder\<close>; progress messages are left out. \<open>bd_render\<close> gets
  what the source passes to \<open>render\<close>: spec, naming, the key hashes of the Android
  identities, the trusted verifiers and the Mongo password.
\<close>

record 'w builder =
  bd_kit :: "'w kit"
  bd_pages :: pages
  bd_root :: abs_path
  bd_values_fly :: "exn + json"
  bd_yaml :: "string \<Rightarrow> exn + json"
  bd_yaml_dump :: "json \<Rightarrow> string"
  bd_json :: "string \<Rightarrow> exn + json"
  bd_sha256 :: "bytes \<Rightarrow> bytes"
  bd_mint :: "string \<Rightarrow> string \<Rightarrow> 'w \<Rightarrow> ('w, string) outcome"
  bd_render :: "spec \<Rightarrow> naming \<Rightarrow> string list \<Rightarrow> json list \<Rightarrow> string \<Rightarrow> ('w bench, exn, json list) act"
  bd_register :: "(string \<Rightarrow> string \<Rightarrow> string \<Rightarrow> string \<Rightarrow> (string \<times> string) list \<Rightarrow> 'w \<Rightarrow> ('w, unit) outcome) option"
  bd_sleep :: "time \<Rightarrow> 'w \<Rightarrow> 'w"

record 'w deploy_ctx =
  dc_builder :: "'w builder"
  dc_naming :: naming
  dc_spec :: spec
  dc_docs :: "json list"
  dc_mongo_version :: string
  dc_out_dir :: abs_path
  dc_pki_dir :: abs_path
  dc_assetlinks :: abs_path
  dc_mongo_password :: string

abbreviation dc_kit :: "'w deploy_ctx \<Rightarrow> 'w kit" where "dc_kit c \<equiv> bd_kit (dc_builder c)"
abbreviation dc_fly :: "'w deploy_ctx \<Rightarrow> 'w fly" where "dc_fly c \<equiv> kt_fly (dc_kit c)"

definition set_secret_on :: "'w deploy_ctx \<Rightarrow> string \<Rightarrow> string \<Rightarrow> string \<Rightarrow> bool \<Rightarrow> ('w bench, exn, unit) act" where
  "set_secret_on c a key val force = at_world (ensure_secret (dc_kit c) a key val force)"

definition with_url :: "'w deploy_ctx \<Rightarrow> string \<Rightarrow> (string \<Rightarrow> ('w bench, exn, 'a) act) \<Rightarrow> ('w bench, exn, 'a) act" where
  "with_url c name f = seq (value_of (url (dc_naming c) name)) f"

definition with_addr :: "'w deploy_ctx \<Rightarrow> string \<Rightarrow> string \<Rightarrow> (string \<Rightarrow> ('w bench, exn, 'a) act) \<Rightarrow> ('w bench, exn, 'a) act" where
  "with_addr c name kind f = seq (value_of (addr (dc_naming c) name kind)) f"

section \<open>Before a deploy\<close>

definition signing_key :: string where "signing_key = ''signing_ec_private.pem''"

definition check_pki_consistency :: "'w deploy_ctx \<Rightarrow> abs_path \<Rightarrow> ('w bench, exn, unit) act" where
  "check_pki_consistency c pki_dir =
     (let n = dc_naming c; a = app n ''vc-registry'' in
      seq (has_file (pki_dir @ [signing_key])) (\<lambda>there.
      if there then give ()
      else seq (at_world (app_exists (dc_fly c) a)) (\<lambda>ex.
      if \<not> ex then give ()
      else seq (at_world (existing_secret_names (dc_fly c) a)) (\<lambda>names.
      if ''vcSigningKey'' \<in> set names
      then refuse (DeployError (''Refusing to continue: no local PKI cache found at '' @ path_text pki_dir @ '', but '' @ a @
             '' already has a signing-key secret from a previous deploy. '' @
             ''Generating a fresh keypair now would deploy a mismatched rootCA/cert chain alongside the OLD private key '' @
             ''(Fly secrets can't be read back to keep them in sync), breaking verification of anything already issued by '' @
             ''this environment.'' @ [newline] @ ''Either restore the original fixtures/rendered/fly-'' @ n_env n @
             ''/vc-pki directory (e.g. from wherever this environment was first deployed), or fully rotate by tearing it '' @
             ''down first: make fly-down ENV='' @ n_env n))
      else give ()))))"

text \<open>\<open>((spec.values or {}).get("verifier") or {}).get("signingCertDnsSan")\<close>\<close>

definition wants_dns_san :: "spec \<Rightarrow> exn + bool" where
  "wants_dns_san sp =
     bind_sum (get_or (JObj (s_values sp)) ''verifier'') (\<lambda>v. map_sum id json_truthy (get_or v ''signingCertDnsSan''))"

definition generate_pki :: "'w deploy_ctx \<Rightarrow> ('w bench, exn, abs_path) act" where
  "generate_pki c =
     (let pki_dir = dc_out_dir c @ [''vc-pki''] in
      seq (check_pki_consistency c pki_dir) (\<lambda>_.
      with_url c ''vc-apigw'' (\<lambda>issuer.
      seq (value_of (wants_dns_san (dc_spec c))) (\<lambda>san.
      seq (if san then seq (value_of (host (dc_naming c) ''vc-verifier'')) (\<lambda>vh. give [(''SIGNING_CERT_VERIFIER_HOST'', vh)])
           else give []) (\<lambda>vv.
      seq (if dict_has (s_images (dc_spec c)) ''siros-verifier''
           then seq (value_of (host (dc_naming c) ''siros-verifier'')) (\<lambda>sh. give [(''SIROS_VERIFIER_HOST'', sh)]) else give []) (\<lambda>sv.
      seq (\<lambda>s. (case kt_exec (dc_kit c) [''bash'', ''./create-pki.sh'']
                  ([(''PKI_DIR_OVERRIDE'', path_text pki_dir), (''SIGNING_CERT_ISSUER_URL'', issuer)] @
                   vv @ sv) s of
                (code, s') \<Rightarrow> (if code \<noteq> 0 then Inl (process_error code) else Inr (), s'))) (\<lambda>_. give pki_dir)))))))"

definition generate_android_assets :: "'w deploy_ctx \<Rightarrow> identity list \<Rightarrow> ('w bench, exn, abs_path) act" where
  "generate_android_assets c ids =
     (let path = dc_out_dir c @ [''assetlinks.json''] in
      seq (value_of (extract_configmap_data (dc_docs c) ''wallet-frontend-main'')) (\<lambda>fe.
      seq (value_of (data_text fe ''wellknownAndroidPackageNamesAndFingerprints'')) (\<lambda>wellknown.
      seq (write_file path (assetlinks_json wellknown (map (\<lambda>i. (id_package i, id_fingerprint_hex i)) ids))) (\<lambda>_. give path))))"

text \<open>
  The password the Mongo volume was initialised with: from the cache, from the running
  machine, or a new one when there is neither volume nor secret.
\<close>

definition unread_password :: "string \<Rightarrow> string \<Rightarrow> exn" where
  "unread_password a env = DeployError ([newline] @ a @ '' has a data volume and a root password set, but this machine has no cached copy'' @ [newline] @
     ''and reading it back over `fly ssh console` failed. Deploying a new password would lock'' @ [newline] @
     ''every consumer out of the existing data. Either copy fixtures/rendered/fly-'' @ env @ ''/'' @ [newline] @
     ''from the machine that last deployed this environment, or clear its data first:'' @ [newline] @
     ''  make fly-storage-clear ENV='' @ env @ ''   (or: make fly-down ENV='' @ env @ '' without KEEP_DATA)'')"

definition live_volume :: "fly_volume \<Rightarrow> bool" where
  "live_volume v = (fv_state v \<noteq> Some ''destroyed'')"

definition resolve_mongo_password :: "'w kit \<Rightarrow> naming \<Rightarrow> abs_path \<Rightarrow> ('w bench, exn, string) act" where
  "resolve_mongo_password k n out_dir =
     (let cached = out_dir @ [''mongoRootPassword'']; a = app n ''mongodb'' in
      seq (has_file cached) (\<lambda>there.
      if there then seq (read_file cached) (\<lambda>t. give (py_strip t))
      else seq (at_world (app_exists (kt_fly k) a)) (\<lambda>ex.
      seq (if ex then seq (at_world (list_volumes (kt_fly k) a)) (\<lambda>vs. give (list_ex live_volume vs)) else give False) (\<lambda>has_volume.
      seq (if has_volume then seq (at_world (existing_secret_names (kt_fly k) a)) (\<lambda>ns. give (''mongoRootPassword'' \<in> set ns)) else give False)
        (\<lambda>initialised.
      if initialised then
        seq (at_world (ensure_running (kt_fly k) a)) (\<lambda>_.
        seq (at_world (read_machine_file k a ''/run/secrets/mongoRootPassword'')) (\<lambda>v.
        if v = [] then refuse (unread_password a (n_env n))
        else seq (write_file cached v) (\<lambda>_. give v)))
      else persistent_secret k out_dir ''mongoRootPassword'')))))"

text \<open>\<open>shlex.quote\<close>\<close>

definition shell_safe :: "char \<Rightarrow> bool" where
  "shell_safe ch \<longleftrightarrow> is_lower ch \<or> is_upper ch \<or> is_digit ch \<or> ch \<in> set ''@%+=:,./_-''"

definition shell_quote :: "string \<Rightarrow> string" where
  "shell_quote s =
     (if s = [] then [CHR 0x27, CHR 0x27]
      else if list_all shell_safe s then s
      else [CHR 0x27] @ concat (map (\<lambda>ch. if ch = CHR 0x27 then [CHR 0x27, CHR 0x22, CHR 0x27, CHR 0x22, CHR 0x27] else [ch]) s) @ [CHR 0x27])"

definition mongo_user_script :: string where
  "mongo_user_script =
      (''mongosh --quiet -u root -p '' @ [quote_mark] @ ''$(cat /run/secrets/mongoRootPassword)'' @
      [quote_mark] @ '' --authenticationDatabase admin --eval '' @ [CHR 0x27, newline] @
      ''const pwd = process.env.SIROS_VERIFIER_PASSWORD;'' @ [newline] @ ''const roles = [{role: '' @
      [quote_mark] @ ''readWrite'' @ [quote_mark] @ '', db: '' @ [quote_mark] @ ''siros_verifier'' @
      [quote_mark] @ ''}];'' @ [newline] @ ''const exists = db.adminCommand({usersInfo: '' @ [quote_mark] @
      ''siros_verifier'' @ [quote_mark] @ ''}).users.length > 0;'' @ [newline] @ ''const result = exists'' @
      [newline] @ ''  ? db.adminCommand({updateUser: '' @ [quote_mark] @ ''siros_verifier'' @ [quote_mark] @
      '', pwd: pwd, roles: roles})'' @ [newline] @ ''  : db.adminCommand({createUser: '' @ [quote_mark] @
      ''siros_verifier'' @ [quote_mark] @ '', pwd: pwd, roles: roles});'' @ [newline] @
      ''if (result.ok !== 1) { throw new Error('' @ [quote_mark] @ ''could not provision siros_verifier'' @
      [quote_mark] @ ''); }'' @ [newline, CHR 0x27] @ '' '')"

definition ensure_siros_verifier_mongo_user :: "'w kit \<Rightarrow> naming \<Rightarrow> string \<Rightarrow> 'w \<Rightarrow> ('w, unit) outcome" where
  "ensure_siros_verifier_mongo_user k n password =
     seq (ensure_running (kt_fly k) (app n ''mongodb'')) (\<lambda>_.
     machine_exec k (app n ''mongodb'')
       (''env SIROS_VERIFIER_PASSWORD='' @ shell_quote password @ '' sh -c '' @ shell_quote mongo_user_script) (password @ [newline]))"

section \<open>One component\<close>

text \<open>The files of a directory below the working directory, as \<open>--file-local\<close> arguments.\<close>

definition file_local :: "string \<Rightarrow> abs_path \<Rightarrow> string list" where
  "file_local target p = [''--file-local'', target @ ''='' @ path_text p]"

definition file_secret :: "string \<Rightarrow> string \<Rightarrow> string list" where
  "file_secret target name = [''--file-secret'', target @ ''='' @ name]"

definition env_arg :: "string \<Rightarrow> string \<Rightarrow> string list" where
  "env_arg k v = [''--env'', k @ ''='' @ v]"

definition env_args :: "string dict \<Rightarrow> string list" where
  "env_args d = concat (map (\<lambda>(k, v). env_arg k v) d)"

definition dir_args :: "string \<Rightarrow> abs_path \<Rightarrow> (string \<Rightarrow> bool) \<Rightarrow> ('w bench, exn, string list) act" where
  "dir_args target dir P =
     seq (list_dir dir) (\<lambda>names. give (concat (map (\<lambda>x. file_local (target @ ''/'' @ x) (dir @ [x])) (filter P names))))"

text \<open>\<open>_vc_service_files\<close>\<close>

definition secret_file :: "'w deploy_ctx \<Rightarrow> string \<Rightarrow> abs_path" where
  "secret_file c name = dc_out_dir c @ [VC_SECRETS_DIR, name]"

definition opening_args :: "'w deploy_ctx \<Rightarrow> string \<Rightarrow> string \<Rightarrow> ('w bench, exn, string list) act" where
  "opening_args c a secret_path =
     (let name = opening_secret_file secret_path in
      seq (read_file (secret_file c name)) (\<lambda>v.
      seq (set_secret_on c a name (py_strip v) False) (\<lambda>_. give (file_secret secret_path name))))"

definition apigw_secret_args :: "'w deploy_ctx \<Rightarrow> string \<Rightarrow> ('w bench, exn, string list) act" where
  "apigw_secret_args c a =
     seq (read_file (dc_out_dir c @ [''vc-apigw.yaml''])) (\<lambda>raw.
     seq (value_of (bind_sum (bd_yaml (dc_builder c) raw) (\<lambda>y. get_attr y ''apigw''))) (\<lambda>apigw.
     seq (value_of (opening_secret_paths apigw)) (\<lambda>paths.
     seq (each (opening_args c a) paths) (\<lambda>openings.
     seq (value_of (encryption_keys apigw)) (\<lambda>encrypted.
     seq (if encrypted
          then seq (read_file (secret_file c CREDENTIAL_ENCRYPTION_FILE)) (\<lambda>v.
               seq (set_secret_on c a ''vcCredentialEncryption'' v False) (\<lambda>_.
               give (file_secret CREDENTIAL_ENCRYPTION_PATH ''vcCredentialEncryption'')))
          else give []) (\<lambda>enc.
     give (concat openings @ enc)))))))"

definition vc_service_files ::
  "'w deploy_ctx \<Rightarrow> string \<Rightarrow> string \<Rightarrow> bool \<Rightarrow> bool \<Rightarrow> bool \<Rightarrow> ('w bench, exn, string list) act" where
  "vc_service_files c a service metadata presentation_requests bootstrapping =
     (let out = dc_out_dir c; pki = dc_pki_dir c in
      seq (read_file (pki @ [signing_key])) (\<lambda>key.
      seq (set_secret_on c a ''vcSigningKey'' key False) (\<lambda>_.
      seq (if metadata then dir_args ''/vctms'' (out @ [''vctms'']) (\<lambda>_. True) else give []) (\<lambda>vctms.
      seq (if presentation_requests then dir_args ''/pres-reqs'' (out @ [''pres-reqs'']) (\<lambda>_. True) else give []) (\<lambda>reqs.
      seq (dir_args ''/branding-assets'' (out @ [''branding-assets'']) (ends_with ''.png'')) (\<lambda>branding.
      seq (if service = ''vc-apigw'' then apigw_secret_args c a else give []) (\<lambda>secrets.
      seq (if bootstrapping
           then seq (dir_args ''/documents'' (out @ [''documents'']) (\<lambda>x. \<not> is_twin_document x)) (\<lambda>docs.
                give (docs @ file_local ''/main-config/api_auth_jwks.json'' (out @ [''api_auth_jwks.json''])))
           else give []) (\<lambda>boot.
      give (env_arg ''VC_CONFIG_YAML'' ''/config.yaml'' @ env_arg ''SSL_CERT_FILE'' ''/pki/rootCA.crt'' @
            file_local ''/config.yaml'' (out @ [service @ ''.yaml'']) @ file_local ''/pki/rootCA.crt'' (pki @ [''rootCA.crt'']) @
            file_secret ''/pki/signing_ec_private.pem'' ''vcSigningKey'' @
            file_local ''/pki/signing_ec_chain.pem'' (pki @ [''signing_ec_chain.pem'']) @
            vctms @ reqs @ branding @ secrets @ boot)))))))))"

subsection \<open>Image and shape\<close>

definition component_image :: "'w deploy_ctx \<Rightarrow> component \<Rightarrow> ('w bench, exn, string) act" where
  "component_image c x =
     (let k = dc_kit c; a = app (dc_naming c) (c_name x) in
      case map_of (s_images (dc_spec c)) (c_name x) of
        Some j \<Rightarrow>
          seq (value_of (text_value j)) (\<lambda>image.
          seq (at_world (is_local_docker_image k image)) (\<lambda>local.
          if local then at_world (push_local_image k a image) else give image))
      | None \<Rightarrow>
          (case c_image x of
             ImageFromValues key \<Rightarrow> value_of (extract_image (dc_docs c) key)
           | FixedImage img \<Rightarrow> value_of (py_format [(''mongo_version'', dc_mongo_version c)] img)
           | NoImage \<Rightarrow> refuse (KeyError ''image'')))"

definition process_cmd :: "bool \<Rightarrow> string \<Rightarrow> string option" where
  "process_cmd registry_integrated name = map_of
     [(''pdp'', ''--config /main-config/config.yaml''),
      (''wallet-backend'', ''--mode=all --config=/app/config.yaml'' @
         (if registry_integrated then [] else '' --registry-config=/app/registry.yaml'')),
      (''mongodb'', ''mongod --bind_ip_all --ipv6 --auth''), (''conformance-mongodb'', ''mongod --bind_ip_all --ipv6''),
      (''mini-oidc'', ''/usr/local/bin/op'')] name"

definition memory_mb :: "string \<Rightarrow> nat" where
  "memory_mb name = (case map_of
     [(''vc-registry'', 1024), (''mongodb'', 512), (''conformance-server'', 1024), (''conformance-runner'', 1024),
      (''vc-verifier'', 4096)] name of None \<Rightarrow> 256 | Some m \<Rightarrow> m)"

definition public_port :: "component \<Rightarrow> nat option" where
  "public_port x =
     (if c_name x = ''conformance'' then None
      else case filter snd (c_ports x) of [] \<Rightarrow> None | (p, _) # _ \<Rightarrow> Some p)"

definition passthrough_port :: "component \<Rightarrow> nat option" where
  "passthrough_port x = (if c_name x = ''conformance'' then Some 8443 else None)"

definition app_shape_of :: "spec \<Rightarrow> bool \<Rightarrow> component \<Rightarrow> app_shape" where
  "app_shape_of sp registry_integrated x =
     \<lparr>sh_public_port = public_port x, sh_process_cmd = process_cmd registry_integrated (c_name x), sh_check_path = c_checks x,
      sh_memory_mb = memory_mb (c_name x), sh_cpus = (if c_name x = ''vc-verifier'' then 2 else 1),
      sh_internal_check = c_internal_check x, sh_passthrough_port = passthrough_port x, sh_mount = c_mount x,
      sh_autostart = \<not> s_scale_to_zero sp\<rparr>"

subsection \<open>Arguments, files and secrets by name\<close>

definition mongodb_args :: "'w deploy_ctx \<Rightarrow> string \<Rightarrow> bool \<Rightarrow> ('w bench, exn, string list) act" where
  "mongodb_args c a fresh =
     seq (set_secret_on c a ''mongoRootPassword'' (dc_mongo_password c) fresh) (\<lambda>_.
     give (env_arg ''MONGO_INITDB_ROOT_USERNAME'' ''root'' @
           env_arg ''MONGO_INITDB_ROOT_PASSWORD_FILE'' ''/run/secrets/mongoRootPassword'' @
           file_secret ''/run/secrets/mongoRootPassword'' ''mongoRootPassword''))"

definition mini_oidc_args :: "'w deploy_ctx \<Rightarrow> ('w bench, exn, string list) act" where
  "mini_oidc_args c =
     (let path = dc_out_dir c @ [''mini-oidc-config.yaml''] in
      seq (write_file path mini_oidc_config) (\<lambda>_.
      seq (value_of (mini_oidc_env (dc_naming c))) (\<lambda>env.
      give (env_args env @ file_local ''/etc/mini-oidc/configs/config.production.yaml'' path))))"

definition pdp_args :: "'w deploy_ctx \<Rightarrow> string list" where
  "pdp_args c = env_arg ''GT_HOST'' ''0.0.0.0'' @ env_arg ''GT_PORT'' ''8080'' @
     file_local ''/main-config/config.yaml'' (dc_out_dir c @ [''pdp.yaml''])"

definition siros_verifier_args :: "'w deploy_ctx \<Rightarrow> string \<Rightarrow> ('w bench, exn, string list) act" where
  "siros_verifier_args c a =
     (let k = dc_kit c; out = dc_out_dir c; pki = dc_pki_dir c; previous = out @ [''sirosVerifierPreviousStateKey''];
          fixture = bd_root (dc_builder c) @ [''fixtures'', ''siros-verifier''] in
      seq (read_file (pki @ [''verifier_ec_private.pem''])) (\<lambda>key.
      seq (set_secret_on c a ''vcSigningKey'' key False) (\<lambda>_.
      seq (persistent_secret k out ''sirosVerifierMongoPassword'') (\<lambda>password.
      seq (at_world (ensure_siros_verifier_mongo_user k (dc_naming c) password)) (\<lambda>_.
      seq (persistent_secret k out ''sirosVerifierStateKey'') (\<lambda>state_key.
      seq (seq (has_file previous) (\<lambda>there.
           if there then seq (read_file previous) (\<lambda>t. give (py_strip t)) else give state_key)) (\<lambda>previous_key.
      with_addr c ''mongodb'' [] (\<lambda>mongo.
      seq (at_world (import_secrets k a
             [(''SIROS_VERIFIER_STATE_KEY'', state_key), (''SIROS_VERIFIER_PREVIOUS_STATE_KEY'', previous_key),
              (''SIROS_VERIFIER_MONGODB_URI'', ''mongodb://siros_verifier:'' @ password @ ''@'' @ mongo @ ''/?authSource=admin'')] True)) (\<lambda>_.
      with_url c ''siros-verifier'' (\<lambda>base.
      with_url c ''mini-oidc'' (\<lambda>oidc.
      with_addr c ''pdp'' [] (\<lambda>pdp.
      give (env_arg ''TUNNELBANA_BIND'' ''0.0.0.0:9001'' @ env_arg ''SIROS_VERIFIER_BASE_URL'' base @
            env_arg ''SIROS_VERIFIER_OIDC_REDIRECT_URI'' (oidc @ ''/callback'') @
            env_arg ''SIROS_VERIFIER_PDP_ENDPOINT'' (''http://'' @ pdp @ ''/evaluation'') @
            file_local ''/etc/siros-verifier/proxy.toml'' (fixture @ [''proxy.fly.toml'']) @
            file_local ''/etc/siros-verifier/attributes.toml'' (fixture @ [''attributes.toml'']) @
            file_secret ''/pki/verifier_ec_private.pem'' ''vcSigningKey'' @
            file_local ''/pki/verifier_ec_chain.pem'' (pki @ [''verifier_ec_chain.pem'']))))))))))))))"

definition wallet_backend_args :: "'w deploy_ctx \<Rightarrow> string \<Rightarrow> bool \<Rightarrow> ('w bench, exn, string list) act" where
  "wallet_backend_args c a registry_integrated =
     (let k = dc_kit c; out = dc_out_dir c; pki = dc_pki_dir c in
      seq (persistent_secret k out ''jwtSecret'') (\<lambda>jwt.
      seq (set_secret_on c a ''jwtSecret'' jwt False) (\<lambda>_.
      seq (persistent_secret k out ''adminToken'') (\<lambda>token.
      seq (set_secret_on c a ''adminToken'' token False) (\<lambda>_.
      seq (read_file (pki @ [''wallet_provider_ec_private.pem''])) (\<lambda>provider.
      seq (set_secret_on c a ''walletProviderKey'' provider False) (\<lambda>_.
      seq (read_file (pki @ [signing_key])) (\<lambda>key.
      seq (set_secret_on c a ''asSigningKey'' key False) (\<lambda>_.
      seq (dir_args ''/as-rules'' (out @ [''as-rules'']) (\<lambda>_. True)) (\<lambda>as_rules.
      seq (dir_args ''/etc/wallet/assurance'' (out @ [''assurance'']) (\<lambda>_. True)) (\<lambda>assurance.
      give (file_local ''/app/config.yaml'' (out @ [''wallet-backend.yaml'']) @
            (if registry_integrated then [] else file_local ''/app/registry.yaml'' (out @ [''wallet-backend-registry.yaml''])) @
            [''--file-literal'', ''/vctms/.keep=ok''] @ file_secret ''/main-secrets/jwtSecret'' ''jwtSecret'' @
            file_secret ''/main-secrets/adminToken'' ''adminToken'' @
            file_secret ''/main-secrets/walletProviderKey'' ''walletProviderKey'' @ file_secret ''/as-cert/tls.key'' ''asSigningKey'' @
            file_local ''/main-config/walletProviderCert.pem'' (pki @ [''wallet_provider_ec.crt'']) @
            file_local ''/main-config/walletProviderCA.pem'' (pki @ [''rootCA.crt'']) @ as_rules @ assurance))))))))))))"

definition wallet_proxy_args :: "'w deploy_ctx \<Rightarrow> ('w bench, exn, string list) act" where
  "wallet_proxy_args c =
     (let path = dc_out_dir c @ [''wallet-proxy.conf''] in
      seq (value_of (pg_wallet_proxy (bd_pages (dc_builder c)) (dc_naming c) (dict_has (s_images (dc_spec c)) ''wmp-engine''))) (\<lambda>conf.
      seq (write_file path conf) (\<lambda>_.
      give (file_local ''/etc/nginx/conf.d/default.conf'' path @
            file_local ''/etc/nginx/well-known/assetlinks.json'' (dc_assetlinks c)))))"

definition wmp_engine_args :: "'w deploy_ctx \<Rightarrow> string \<Rightarrow> ('w bench, exn, string list) act" where
  "wmp_engine_args c a =
     with_addr c ''wallet-backend'' ''http'' (\<lambda>backend.
     seq (read_file (dc_pki_dir c @ [signing_key])) (\<lambda>key.
     seq (value_of (host (dc_naming c) ''wallet-proxy'')) (\<lambda>proxy.
     seq (at_world (bd_mint (dc_builder c) key (''https://'' @ proxy))) (\<lambda>token.
     seq (write_file (dc_out_dir c @ [''enginePdpToken'']) token) (\<lambda>_.
     seq (at_world (import_secrets (dc_kit c) a [(''ENGINE_PDP_TOKEN'', token)] True)) (\<lambda>_.
     give (env_arg ''ENGINE_LISTEN_ADDR'' ''[::]:8780'' @ env_arg ''ENGINE_PDP_URL'' (''http://'' @ backend) @
           env_arg ''ENGINE_AS_JWKS_URL'' (''http://'' @ backend @ ''/auth/.well-known/jwks.json'') @
           env_arg ''ENGINE_AS_ISSUER'' (''https://'' @ proxy) @ env_arg ''ENGINE_AS_AUDIENCES'' [] @
           env_arg ''ENGINE_ALLOW_PLAINTEXT'' ''true'')))))))"

text \<open>\<open>json.loads(assetlinks_path.read_text())\<close>, as a dictionary.\<close>

definition entry_signers :: "json \<Rightarrow> exn + string \<times> string list" where
  "entry_signers e =
     bind_sum (item_of e ''target'') (\<lambda>t.
     bind_sum (bind_sum (item_of t ''package_name'') text_value) (\<lambda>p.
     bind_sum (bind_sum (item_of t ''sha256_cert_fingerprints'') as_list) (\<lambda>fs.
     map_sum id (Pair p) (all_right (map text_value fs)))))"

definition read_signers :: "'w deploy_ctx \<Rightarrow> ('w bench, exn, signers) act" where
  "read_signers c =
     seq (read_file (dc_assetlinks c)) (\<lambda>raw.
     seq (value_of (bind_sum (bd_json (dc_builder c) raw) as_list)) (\<lambda>es.
     seq (value_of (all_right (map entry_signers es))) (\<lambda>ps. give (fold (\<lambda>(p, fs). AList.update p fs) ps []))))"

definition apple_ids :: "string \<Rightarrow> string list" where
  "apple_ids v = filter (\<lambda>a. a \<noteq> []) (map py_strip (split_on CHR '','' v))"

definition wallet_frontend_args :: "'w deploy_ctx \<Rightarrow> ('w bench, exn, string list) act" where
  "wallet_frontend_args c =
     (let n = dc_naming c; sp = dc_spec c; out = dc_out_dir c; pages = bd_pages (dc_builder c);
          conf_path = out @ [''wallet-frontend.conf'']; dashboard_path = out @ [''wallet-frontend-dashboard.html''] in
      seq (value_of (pg_wallet_frontend pages (s_conformance sp) n (s_env_admin sp))) (\<lambda>conf.
      seq (write_file conf_path conf) (\<lambda>_.
      seq (read_signers c) (\<lambda>ids.
      seq (value_of (bind_sum (extract_configmap_data (dc_docs c) ''wallet-frontend-main'') (\<lambda>fe. data_text fe ''wellknownAppleAppIds''))) (\<lambda>apple.
      seq (if s_conformance sp then with_url c ''conformance'' (\<lambda>u. give (Some u)) else give None) (\<lambda>conformance_url.
      seq (value_of (pg_dashboard pages ids (apple_ids apple) conformance_url n (s_env_admin sp))) (\<lambda>dashboard.
      seq (write_file dashboard_path dashboard) (\<lambda>_.
      seq (value_of (wallet_frontend_env n (dc_docs c) (s_wallet_attestation sp) ids)) (\<lambda>env.
      give (file_local ''/etc/nginx/conf.d/default.conf'' conf_path @ file_local ''/usr/share/nginx/startup.html'' dashboard_path @
            (if s_env_admin sp
             then file_local ''/usr/share/nginx/storage-card.js'' (bd_root (dc_builder c) @ [''dashboard'', ''storage-card.js''])
             else []) @ env_args env))))))))))"

definition conformance_server_args :: "'w deploy_ctx \<Rightarrow> ('w bench, exn, string list) act" where
  "conformance_server_args c =
     with_url c ''conformance'' (\<lambda>u.
     give (env_arg ''BASE_URL'' u @ env_arg ''MONGODB_HOST'' (internal_addr (dc_naming c) ''conformance-mongodb'') @
           env_arg ''SPRING_PROFILES_ACTIVE'' [] @ env_arg ''FINTECHLABS_DEVMODE'' ''true'' @
           env_arg ''OIDC_GOOGLE_CLIENTID'' ''google-client'' @ env_arg ''OIDC_GOOGLE_SECRET'' ''google-secret'' @
           env_arg ''OIDC_GITLAB_CLIENTID'' ''gitlab-client'' @ env_arg ''OIDC_GITLAB_SECRET'' ''gitlab-secret''))"

definition conformance_args :: "'w deploy_ctx \<Rightarrow> ('w bench, exn, string list) act" where
  "conformance_args c =
     (let server = app (dc_naming c) ''conformance-server''; path = dc_out_dir c @ [''conformance-hosts''] in
      seq (at_world (machine_private_ip (dc_kit c) server)) (\<lambda>ip.
      case ip of
        Some (x # xs) \<Rightarrow> seq (write_file path ((x # xs) @ '' server'' @ [newline])) (\<lambda>_. give (file_local ''/etc/hosts'' path))
      | _ \<Rightarrow> refuse (DeployError (''Could not determine '' @ server @ [CHR 0x27] @ ''s private IP - '' @
               ''it must be deployed (and have a running machine) before '' @ py_repr ''conformance'' @ ''.''))))"

definition mongo_consumers :: "bool \<Rightarrow> string list" where
  "mongo_consumers conformance =
     [''wallet-backend'', ''vc-registry'', ''vc-issuer'', ''vc-verifier'', ''vc-apigw''] @
     (if conformance then [''conformance-server''] else [])"

definition consumer_token :: "'w deploy_ctx \<Rightarrow> string \<Rightarrow> ('w bench, exn, (string \<times> json) list) act" where
  "consumer_token c name =
     (let a = app (dc_naming c) name in
      seq (at_world (app_exists (dc_fly c) a)) (\<lambda>ex.
      if ex then seq (at_world (create_deploy_token (dc_kit c) a ''sirosid-env-admin'' ''8760h'')) (\<lambda>t. give [(a, JStr t)])
      else give []))"

abbreviation dump_line :: "json \<Rightarrow> string" where
  "dump_line \<equiv> dumps (\<lambda>_. []) one_line_json 0"

definition verifier_entry :: "string \<Rightarrow> json" where
  "verifier_entry u = JObj [(''name'', JStr ''SIROS Verifier''), (''url'', JStr u)]"

text \<open>The image of env-admin is built here when its pin cannot be pulled.\<close>

definition env_admin_image :: "'w deploy_ctx \<Rightarrow> string \<Rightarrow> string \<Rightarrow> ('w bench, exn, string) act" where
  "env_admin_image c a img =
     (let k = dc_kit c in
      if dict_has (s_images (dc_spec c)) ''env-admin'' then give img
      else seq (at_world (image_pullable k img)) (\<lambda>pullable.
      if pullable then give img
      else seq (at_world (run_docker k [''build'', ''-q'', ''-f'', ''env-admin/Dockerfile'', ''-t'', ''sirosid-env-admin:local'', ''.''])) (\<lambda>_.
           at_world (push_local_image k a ''sirosid-env-admin:local''))))"

definition env_admin_args :: "'w deploy_ctx \<Rightarrow> string \<Rightarrow> ('w bench, exn, string list) act" where
  "env_admin_args c a =
     (let n = dc_naming c; sp = dc_spec c; consumers = mongo_consumers (s_conformance sp) in
      seq (each (consumer_token c) consumers) (\<lambda>tokens.
      seq (set_secret_on c a ''flyApiTokens'' (dump_line (JObj (concat tokens))) True) (\<lambda>_.
      seq (persistent_secret (dc_kit c) (dc_out_dir c) ''adminToken'') (\<lambda>token.
      seq (set_secret_on c a ''envAdminToken'' token False) (\<lambda>_.
      with_addr c ''mongodb'' [] (\<lambda>mongo.
      seq (set_secret_on c a ''mongoUri'' (''mongodb://root:'' @ dc_mongo_password c @ ''@'' @ mongo @ ''/?authSource=admin'') True) (\<lambda>_.
      with_url c ''wallet-proxy'' (\<lambda>admin.
      with_url c ''vc-apigw'' (\<lambda>issuer.
      with_url c ''vc-verifier'' (\<lambda>verifier.
      seq (if dict_has (s_images sp) ''siros-verifier''
           then with_url c ''siros-verifier'' (\<lambda>u. give (env_arg ''ADDITIONAL_VERIFIERS'' (dump_line (JList [verifier_entry u]))))
           else give []) (\<lambda>additional.
      give (env_arg ''ENV_ADMIN_PLATFORM'' ''fly'' @ env_arg ''ENV_ADMIN_ENV_NAME'' (n_env n) @
            env_arg ''ENV_ADMIN_TOKEN_FILE'' ''/run/secrets/envAdminToken'' @ env_arg ''MONGO_URI_FILE'' ''/run/secrets/mongoUri'' @
            env_arg ''FLY_API_TOKENS_FILE'' ''/run/secrets/flyApiTokens'' @ env_arg ''MONGO_DATABASES'' ''*'' @
            env_arg ''CONSUMERS'' (dump_line (JList (map (\<lambda>x. JObj [(''name'', JStr x), (''target'', JStr (app n x))]) consumers))) @
            env_arg ''ADMIN_URL'' admin @ env_arg ''ISSUER_URL'' issuer @ env_arg ''VERIFIER_URL'' verifier @
            file_secret ''/run/secrets/envAdminToken'' ''envAdminToken'' @ file_secret ''/run/secrets/mongoUri'' ''mongoUri'' @
            file_secret ''/run/secrets/flyApiTokens'' ''flyApiTokens'' @ additional))))))))))))"

definition conformance_runner_args :: "'w deploy_ctx \<Rightarrow> string \<Rightarrow> ('w bench, exn, string list) act" where
  "conformance_runner_args c a =
     (let n = dc_naming c in
      seq (persistent_secret (dc_kit c) (dc_out_dir c) ''adminToken'') (\<lambda>token.
      seq (set_secret_on c a ''ADMIN_TOKEN'' token False) (\<lambda>_.
      with_url c ''conformance'' (\<lambda>conf.
      with_url c ''wallet-frontend'' (\<lambda>frontend.
      with_url c ''wallet-proxy'' (\<lambda>admin.
      give (env_arg ''CONFORMANCE_URL'' conf @ env_arg ''FRONTEND_URL'' frontend @ env_arg ''ADMIN_URL'' admin @
            env_arg ''VC_ISSUER_URL'' (''http://'' @ internal_addr n ''vc-issuer'' @ '':8080'') @
            env_arg ''VC_VERIFIER_URL'' (''http://'' @ internal_addr n ''vc-verifier'' @ '':8080'') @
            env_arg ''VC_APIGW_URL'' (''http://'' @ internal_addr n ''vc-apigw'' @ '':8080'') @
            env_arg ''NODE_TLS_REJECT_UNAUTHORIZED'' ''0'')))))))"

definition component_args ::
  "'w deploy_ctx \<Rightarrow> string \<Rightarrow> string \<Rightarrow> bool \<Rightarrow> bool \<Rightarrow> ('w bench, exn, string list) act" where
  "component_args c name a registry_integrated fresh_volume =
     (if name = ''mongodb'' then mongodb_args c a fresh_volume
      else if name = ''mini-oidc'' then mini_oidc_args c
      else if name = ''vc-registry'' then vc_service_files c a ''vc-registry'' False False False
      else if name = ''vc-issuer'' then vc_service_files c a ''vc-issuer'' True False False
      else if name = ''vc-verifier'' then vc_service_files c a ''vc-verifier'' True True False
      else if name = ''vc-apigw'' then vc_service_files c a ''vc-apigw'' True False True
      else if name = ''pdp'' then give (pdp_args c)
      else if name = ''siros-verifier'' then siros_verifier_args c a
      else if name = ''wallet-backend'' then wallet_backend_args c a registry_integrated
      else if name = ''wallet-proxy'' then wallet_proxy_args c
      else if name = ''wmp-engine'' then wmp_engine_args c a
      else if name = ''wallet-frontend'' then wallet_frontend_args c
      else if name = ''conformance-server'' then conformance_server_args c
      else if name = ''conformance'' then conformance_args c
      else if name = ''env-admin'' then env_admin_args c a
      else if name = ''conformance-runner'' then conformance_runner_args c a
      else give [])"

section \<open>Deploying a component\<close>

definition volume_size_gb :: nat where "volume_size_gb = 1"

definition prepare_volume :: "'w deploy_ctx \<Rightarrow> string \<Rightarrow> component \<Rightarrow> ('w bench, exn, bool) act" where
  "prepare_volume c a x =
     (case c_mount x of
        None \<Rightarrow> give False
      | Some (v, d) \<Rightarrow>
          seq (at_world (ensure_volume (dc_fly c) a v (s_region (dc_spec c)) volume_size_gb)) (\<lambda>r.
          seq (at_world (destroy_machines_without_mount (dc_fly c) a)) (\<lambda>_. give (snd r))))"

definition deploy_component :: "'w deploy_ctx \<Rightarrow> component \<Rightarrow> ('w bench, exn, unit) act" where
  "deploy_component c x =
     (let n = dc_naming c; name = c_name x; a = app n name; toml = dc_out_dir c @ [name @ ''.fly.toml''];
          f = dc_fly c in
      seq (at_world (ensure_app f a (Some (network n)) (name = ''conformance''))) (\<lambda>_.
      seq (component_image c x) (\<lambda>img0.
      seq (has_file (dc_out_dir c @ [''wallet-backend-registry.yaml''])) (\<lambda>separate_registry.
      seq (write_file toml (fly_toml a (s_region (dc_spec c)) (app_shape_of (dc_spec c) (\<not> separate_registry) x))) (\<lambda>_.
      seq (prepare_volume c a x) (\<lambda>fresh.
      seq (if name = ''env-admin'' then env_admin_image c a img0 else give img0) (\<lambda>img.
      seq (component_args c name a (\<not> separate_registry) fresh) (\<lambda>args.
      seq (at_world (fly_deploy (dc_kit c) ([''deploy'', ''-a'', a, ''-c'', path_text toml, ''-i'', img, ''--ha=false'',
             ''--strategy'', ''immediate'', ''--yes''] @ args))) (\<lambda>_.
      seq (case c_mount x of None \<Rightarrow> give () | Some (v, d) \<Rightarrow> at_world (assert_volume_mounted f a v)) (\<lambda>_.
      seq (at_world (ensure_running f a)) (\<lambda>_.
      seq (only_if (c_internal_check x \<noteq> None) (at_world (wait_for_checks f a))) (\<lambda>_.
      if public_port x \<noteq> None \<or> passthrough_port x \<noteq> None then with_url c name (\<lambda>_. give ()) else give ()))))))))))))"

section \<open>The order\<close>

definition deploy_order :: "component list \<Rightarrow> bool \<Rightarrow> bool \<Rightarrow> component list" where
  "deploy_order components conformance env_admin =
     (let cs = (if env_admin then components else filter (\<lambda>x. c_name x \<noteq> ''env-admin'') components) in
      if \<not> conformance then cs
      else filter (\<lambda>x. c_name x \<notin> {''wallet-frontend'', ''env-admin''}) cs @
           filter (\<lambda>x. c_name x \<noteq> ''conformance'') CONFORMANCE_COMPONENTS @
           filter (\<lambda>x. c_name x = ''env-admin'') cs @ filter (\<lambda>x. c_name x = ''wallet-frontend'') cs @
           filter (\<lambda>x. c_name x = ''conformance'') CONFORMANCE_COMPONENTS)"

definition resolve_image :: "component \<Rightarrow> spec \<Rightarrow> json list \<Rightarrow> string \<Rightarrow> exn + string" where
  "resolve_image x sp docs mongo_version =
     (case map_of (s_images sp) (c_name x) of
        Some j \<Rightarrow> text_value j
      | None \<Rightarrow>
          (case c_image x of
             ImageFromValues key \<Rightarrow> extract_image docs key
           | FixedImage img \<Rightarrow> py_format [(''mongo_version'', mongo_version)] img
           | NoImage \<Rightarrow> Inl (KeyError ''image'')))"

section \<open>Registration\<close>

text \<open>
  A register callable raises \<open>RegistrationError\<close> for "not ready yet"; it is tried 15 times,
  4 seconds apart, the last pause included.
\<close>

definition registration_error :: "string \<Rightarrow> exn" where
  "registration_error m = OtherError ''RegistrationError'' m"

definition gave_up :: "naming \<Rightarrow> string \<Rightarrow> string \<Rightarrow> string \<Rightarrow> string \<Rightarrow> exn" where
  "gave_up n proxy apigw verifier last_err = DeployError
     ([newline] @ ''ERROR: could not register VC services with wallet-backend after retries ('' @ last_err @ '').'' @ [newline] @
      ''  The environment is deployed but the wallet may have NO issuers or verifiers, so signup and'' @ [newline] @
      ''  credential issuance will fail. Check wallet-backend is actually serving:'' @ [newline] @
      ''    flyctl logs -a '' @ app n ''wallet-backend'' @ [newline] @
      ''  then re-run the deploy (idempotent), or register by hand:'' @ [newline] @
      ''    python3 scripts/bootstrap.py --admin-url '' @ proxy @ '' --admin-token <adminToken> '' @
      ''--issuer-url '' @ apigw @ '' --verifier-url '' @ verifier)"

fun register_loop ::
  "nat \<Rightarrow> ('w \<Rightarrow> ('w, unit) outcome) \<Rightarrow> (time \<Rightarrow> 'w \<Rightarrow> 'w) \<Rightarrow> (string \<Rightarrow> exn) \<Rightarrow> string \<Rightarrow> 'w \<Rightarrow> ('w, unit) outcome" where
  "register_loop 0 reg sleep fail err w = (Inl (fail err), w)"
| "register_loop (Suc n) reg sleep fail err w =
     (case reg w of
        (Inr _, w') \<Rightarrow> (Inr (), w')
      | (Inl (OtherError k m), w') \<Rightarrow>
          (if k = ''RegistrationError'' then register_loop n reg sleep fail m (sleep 4 w') else (Inl (OtherError k m), w'))
      | (Inl e, w') \<Rightarrow> (Inl e, w'))"

definition register_vc_services ::
  "'w builder \<Rightarrow> naming \<Rightarrow> (string \<Rightarrow> string \<Rightarrow> string \<Rightarrow> string \<Rightarrow> (string \<times> string) list \<Rightarrow> 'w \<Rightarrow> ('w, unit) outcome)
   \<Rightarrow> string \<Rightarrow> string \<Rightarrow> (string \<times> string) list \<Rightarrow> 'w \<Rightarrow> ('w, unit) outcome" where
  "register_vc_services b n register token admin_url additional =
     seq (value_of (if admin_url \<noteq> [] then Inr admin_url else url n ''wallet-proxy'')) (\<lambda>proxy.
     seq (value_of (url n ''vc-apigw'')) (\<lambda>apigw.
     seq (value_of (url n ''vc-verifier'')) (\<lambda>verifier.
     register_loop 15 (register proxy token apigw verifier additional) (bd_sleep b) (gave_up n proxy apigw verifier) ''None'')))"

section \<open>The deploy\<close>

text \<open>A \<open>DeployError\<close> with the component it stopped at and the components done, or another exception.\<close>

datatype stop =
    Halted (stop_message: string) (stop_component: "string option") (stop_deployed: "string list")
  | Escaped exn

record deploy_result =
  dr_images :: "string dict"
  dr_deployed :: "string list"
  dr_urls :: "string dict"
  dr_admin_token :: string
  dr_mongo_password :: string
  dr_machine :: "string option"
  dr_rendered_only :: bool

definition unplaced :: "exn \<Rightarrow> stop" where
  "unplaced e = (case e of DeployError m \<Rightarrow> Halted m None [] | _ \<Rightarrow> Escaped e)"

text \<open>The handlers around \<open>deploy_component\<close>.\<close>

definition component_failed :: "string \<Rightarrow> string list \<Rightarrow> exn \<Rightarrow> stop" where
  "component_failed name done e =
     (case e of
        FlyError m \<Rightarrow> Halted m (Some name) done
      | DeployError m \<Rightarrow> Halted m (Some name) done
      | OtherError k m \<Rightarrow>
          (if k = ''FlyDeployError''
           then Halted (''Deploy failed at '' @ [CHR 0x27] @ name @ [CHR 0x27] @ '' (exit '' @ m @ '')'') (Some name) done
           else Escaped e)
      | _ \<Rightarrow> Escaped e)"

fun deploy_all :: "'w deploy_ctx \<Rightarrow> component list \<Rightarrow> string list \<Rightarrow> ('w bench, stop, string list) act" where
  "deploy_all c [] done = give done"
| "deploy_all c (x # xs) done =
     seq (rethrow (component_failed (c_name x) done) (deploy_component c x)) (\<lambda>_. deploy_all c xs (done @ [c_name x]))"

definition spec_identities :: "spec \<Rightarrow> exn + identity list" where
  "spec_identities sp =
     bind_sum (all_right (map text_value (s_android_apps sp))) (\<lambda>entries.
     case identities_from_entries entries of Inl (ValueError m) \<Rightarrow> Inl (DeployError m) | r \<Rightarrow> r)"

definition pinned_components :: "exn + json \<Rightarrow> exn + component list" where
  "pinned_components values_fly =
     bind_sum (bind_sum (image_pin values_fly ''miniOidc'' (JStr ''ghcr.io/sirosfoundation/mini-oidc:0.0.4'')) text_value) (\<lambda>oidc.
     bind_sum (bind_sum (image_pin values_fly ''envAdmin'' (JStr ''ghcr.io/sirosfoundation/sirosid-env-admin:0.1.0'')) text_value) (\<lambda>ea.
     Inr (build_components oidc ea)))"

text \<open>\<open>HelmError\<close> becomes a \<open>DeployError\<close>.\<close>

definition helm_failed :: "exn \<Rightarrow> exn" where
  "helm_failed e = (case e of OtherError k m \<Rightarrow> if k = ''HelmError'' then DeployError m else e | _ \<Rightarrow> e)"

definition render_config ::
  "'w builder \<Rightarrow> spec \<Rightarrow> naming \<Rightarrow> identity list \<Rightarrow> json list \<Rightarrow> string \<Rightarrow> ('w bench, exn, json list) act" where
  "render_config b sp n ids verifiers password =
     rethrow helm_failed (bd_render b sp n (map id_apk_key_hash ids) verifiers password)"

definition verifier_identity :: "'w deploy_ctx \<Rightarrow> ('w bench, exn, abs_path option \<times> json list) act" where
  "verifier_identity c =
     (let sp = dc_spec c in
      if dict_has (s_images sp) ''siros-verifier'' then
        seq (generate_pki c) (\<lambda>pki.
        seq (read_file (pki @ [''verifier_ec.crt''])) (\<lambda>pem.
        seq (value_of (x509_hash_identity (bd_sha256 (dc_builder c)) pem)) (\<lambda>i.
        give (Some pki, if JStr i \<in> set (s_trusted_verifiers sp) then s_trusted_verifiers sp else s_trusted_verifiers sp @ [JStr i]))))
      else give (None, s_trusted_verifiers sp))"

definition images_of :: "component list \<Rightarrow> spec \<Rightarrow> json list \<Rightarrow> string \<Rightarrow> exn + string dict" where
  "images_of cs sp docs version =
     all_right (map (\<lambda>x. map_sum id (Pair (c_name x)) (resolve_image x sp docs version)) cs)"

definition urls_of :: "naming \<Rightarrow> string list \<Rightarrow> exn + string dict" where
  "urls_of n names = all_right (map (\<lambda>x. map_sum id (Pair x) (url n x)) names)"

text \<open>
  Everything before the first component: the context of the deploy and the components in
  order. \<open>dir\<close> is the directory of rendered output.
\<close>

definition prepare_deploy ::
  "'w builder \<Rightarrow> spec \<Rightarrow> naming \<Rightarrow> abs_path \<Rightarrow> ('w bench, exn, 'w deploy_ctx \<times> abs_path option \<times> identity list \<times> component list) act" where
  "prepare_deploy b sp n dir =
     (let out = dir @ [''fly-'' @ n_env n] in
      if s_region sp = [] then refuse (DeployError ''InstanceSpec.region is empty - resolve a region before deploying'')
      else
      seq (value_of (spec_identities sp)) (\<lambda>ids.
      seq (value_of (pinned_components (bd_values_fly b))) (\<lambda>pinned.
      seq (resolve_mongo_password (bd_kit b) n out) (\<lambda>password.
      let c0 = \<lparr>dc_builder = b, dc_naming = n, dc_spec = sp, dc_docs = [], dc_mongo_version = [], dc_out_dir = out, dc_pki_dir = [],
                dc_assetlinks = [], dc_mongo_password = password\<rparr> in
      seq (verifier_identity c0) (\<lambda>pv.
      seq (render_config b sp n ids (snd pv) password) (\<lambda>docs.
      seq (value_of (extract_image docs ''mongoCommunityVersion'')) (\<lambda>version.
      let cs = with_optional_components pinned (map (\<lambda>kv. (fst kv, [])) (s_images sp)) in
      give (c0\<lparr>dc_docs := docs, dc_mongo_version := version\<rparr>, fst pv, ids, deploy_order cs (s_conformance sp) (s_env_admin sp)))))))))"

definition finish_deploy_result ::
  "'w deploy_ctx \<Rightarrow> component list \<Rightarrow> string dict \<Rightarrow> string list \<Rightarrow> ('w bench, exn, deploy_result) act" where
  "finish_deploy_result c cs images done =
     (let b = dc_builder c; n = dc_naming c in
      seq (persistent_secret (dc_kit c) (dc_out_dir c) ''adminToken'') (\<lambda>token.
      seq (case bd_register b of
             None \<Rightarrow> give ()
           | Some register \<Rightarrow>
               seq (if dict_has (s_images (dc_spec c)) ''siros-verifier''
                    then with_url c ''siros-verifier'' (\<lambda>u. give [(''SIROS Verifier'', u)]) else give []) (\<lambda>additional.
               at_world (register_vc_services b n register token [] additional))) (\<lambda>_.
      seq (value_of (urls_of n (map c_name (filter (\<lambda>x. list_ex snd (c_ports x)) cs)))) (\<lambda>us.
      give \<lparr>dr_images = images, dr_deployed = done, dr_urls = us, dr_admin_token = token,
            dr_mongo_password = dc_mongo_password c, dr_machine = None, dr_rendered_only = False\<rparr>))))"

definition deploy_prepared ::
  "'w deploy_ctx \<Rightarrow> abs_path option \<Rightarrow> identity list \<Rightarrow> component list \<Rightarrow> bool \<Rightarrow> ('w bench, stop, deploy_result) act" where
  "deploy_prepared c pki ids cs render_only =
     seq (rethrow unplaced (value_of (images_of cs (dc_spec c) (dc_docs c) (dc_mongo_version c)))) (\<lambda>images.
     if render_only
     then give \<lparr>dr_images = images, dr_deployed = [], dr_urls = [], dr_admin_token = [],
                dr_mongo_password = dc_mongo_password c, dr_machine = None, dr_rendered_only = True\<rparr>
     else
       seq (rethrow unplaced (case pki of Some d \<Rightarrow> give d | None \<Rightarrow> generate_pki c)) (\<lambda>pki_dir.
       seq (rethrow unplaced (generate_android_assets c ids)) (\<lambda>links.
       let c1 = c\<lparr>dc_pki_dir := pki_dir, dc_assetlinks := links\<rparr> in
       seq (deploy_all c1 cs []) (\<lambda>done.
       rethrow unplaced (finish_deploy_result c1 cs images done)))))"

definition deploy_instance :: "'w builder \<Rightarrow> spec \<Rightarrow> naming \<Rightarrow> abs_path \<Rightarrow> bool \<Rightarrow> ('w bench, stop, deploy_result) act" where
  "deploy_instance b sp n dir render_only =
     seq (rethrow unplaced (prepare_deploy b sp n dir)) (\<lambda>(c, pki, ids, cs). deploy_prepared c pki ids cs render_only)"

text \<open>The deployer of the control plane, which renders and deploys and keeps the public URLs.\<close>

definition stop_exn :: "stop \<Rightarrow> exn" where
  "stop_exn t = (case t of Halted m _ _ \<Rightarrow> DeployError m | Escaped e \<Rightarrow> e)"

definition apps_deployer ::
  "'w builder \<Rightarrow> spec \<Rightarrow> naming \<Rightarrow> abs_path \<Rightarrow> files \<Rightarrow> 'w \<Rightarrow> (exn + string dict) \<times> files \<times> 'w" where
  "apps_deployer b sp n dir fs w =
     (case deploy_instance b sp n dir False \<lparr>bn_files = fs, bn_world = w\<rparr> of
        (r, s) \<Rightarrow> (case r of Inl t \<Rightarrow> Inl (stop_exn t) | Inr d \<Rightarrow> Inr (dr_urls d), bn_files s, bn_world s))"

end
