(* ===== verification/Oci.thy ===== *)
theory Oci
  imports Assets
begin

text \<open>
  Pushing the config bundle as an image of one layer (sirosid_core/oci.py). The entries of the
  tar file are built here; the encoders of the standard library (tar, gzip, SHA-256), the JSON
  decoder and the transport are in the record \<open>registry\<close>. The transport returns the status,
  the headers and the body. \<open>Registry\<close> keeps one thing between calls, the value of the
  Authorization header, so the state of its operations is \<open>session\<close>.
\<close>

section \<open>The image\<close>

datatype tar_entry = TarDir string | TarFile string bytes

definition MANIFEST_V2 :: string where "MANIFEST_V2 = ''application/vnd.docker.distribution.manifest.v2+json''"
definition CONFIG_V1 :: string where "CONFIG_V1 = ''application/vnd.docker.container.image.v1+json''"
definition LAYER_GZIP :: string where "LAYER_GZIP = ''application/vnd.docker.image.rootfs.diff.tar.gzip''"

record 'w registry =
  rg_transport :: "string \<Rightarrow> string \<Rightarrow> string dict \<Rightarrow> bytes option \<Rightarrow> 'w \<Rightarrow> ('w, int \<times> string dict \<times> bytes) outcome"
  rg_tar :: "tar_entry list \<Rightarrow> bytes"
  rg_gzip :: "bytes \<Rightarrow> bytes"
  rg_sha256 :: "bytes \<Rightarrow> bytes"
  rg_json :: "bytes \<Rightarrow> exn + json"

definition hex_text :: "bytes \<Rightarrow> string" where
  "hex_text b = concat (map (\<lambda>ch. [hex_char (of_char ch div 16), hex_char (of_char ch mod 16)]) b)"

definition digest_of :: "'w registry \<Rightarrow> bytes \<Rightarrow> string" where
  "digest_of g b = ''sha256:'' @ hex_text (rg_sha256 g b)"

definition inside_image :: "string \<Rightarrow> bool" where
  "inside_image path \<longleftrightarrow> \<not> starts_with ''/'' path \<and> ''..'' \<notin> set (split_on CHR ''/'' path)"

text \<open>The directories a path lies in, the outermost first.\<close>

definition parents :: "string \<Rightarrow> string list" where
  "parents path = (let parts = butlast (split_on CHR ''/'' path) in
     map (\<lambda>i. join_with ''/'' (take i parts)) [1..<Suc (length parts)])"

fun tar_entries :: "string list \<Rightarrow> (string \<times> bytes) list \<Rightarrow> exn + tar_entry list" where
  "tar_entries seen [] = Inr []"
| "tar_entries seen ((path, b) # fs) =
     (if \<not> inside_image path
      then Inl (ValueError (''bundle path '' @ py_repr path @ '' must be relative and stay inside the image''))
      else let new = filter (\<lambda>d. d \<notin> set seen) (parents path) in
        map_sum id (\<lambda>es. map TarDir new @ TarFile path b # es) (tar_entries (seen @ new) fs))"

definition build_layer :: "'w registry \<Rightarrow> bytes dict \<Rightarrow> exn + bytes \<times> bytes" where
  "build_layer g files =
     map_sum id (\<lambda>es. (rg_tar g es, rg_gzip g (rg_tar g es))) (tar_entries [] (sort_key fst files))"

record pushed_image =
  pi_blobs :: "(string \<times> bytes) list"
  pi_manifest :: bytes
  pi_digest :: string

definition config_blob :: "string \<Rightarrow> bytes" where
  "config_blob diff_id = dumps (\<lambda>_. []) compact_json 0 (sorted_keys (JObj
     [(''architecture'', JStr ''amd64''), (''os'', JStr ''linux''), (''config'', JObj []),
      (''rootfs'', JObj [(''type'', JStr ''layers''), (''diff_ids'', JList [JStr diff_id])])]))"

definition blob_entry :: "string \<Rightarrow> bytes \<Rightarrow> string \<Rightarrow> json" where
  "blob_entry mediaType b digest =
     JObj [(''mediaType'', JStr mediaType), (''size'', JInt (int (length b))), (''digest'', JStr digest)]"

definition manifest_blob :: "json \<Rightarrow> json \<Rightarrow> bytes" where
  "manifest_blob config layer = dumps (\<lambda>_. []) compact_json 0 (sorted_keys (JObj
     [(''schemaVersion'', JInt 2), (''mediaType'', JStr MANIFEST_V2), (''config'', config), (''layers'', JList [layer])]))"

definition image_blobs :: "'w registry \<Rightarrow> bytes dict \<Rightarrow> exn + pushed_image" where
  "image_blobs g files =
     map_sum id (\<lambda>(tar, gz).
       let layer_digest = digest_of g gz; config = config_blob (digest_of g tar); config_digest = digest_of g config;
           manifest = manifest_blob (blob_entry CONFIG_V1 config config_digest) (blob_entry LAYER_GZIP gz layer_digest)
       in \<lparr>pi_blobs = AList.update config_digest config [(layer_digest, gz)], pi_manifest = manifest, pi_digest = digest_of g manifest\<rparr>)
     (build_layer g files)"

section \<open>The registry\<close>

record 'w session =
  sn_auth :: "string option"
  sn_world :: 'w

definition registry_error :: "string \<Rightarrow> exn" where
  "registry_error m = OtherError ''RegistryError'' m"

definition basic_credential :: "string \<Rightarrow> string \<Rightarrow> string" where
  "basic_credential user password = base64_text (user @ '':'' @ password)"

definition lower_keys :: "string dict \<Rightarrow> string dict" where
  "lower_keys hs = fold (\<lambda>(k, v). AList.update (py_lower k) v) hs []"

definition send :: "'w registry \<Rightarrow> string \<Rightarrow> string \<Rightarrow> string dict \<Rightarrow> bytes option \<Rightarrow> ('w session, exn, int \<times> string dict \<times> bytes) act" where
  "send g meth u hs body s =
     (case rg_transport g meth u hs body (sn_world s) of
        (r, w) \<Rightarrow> (map_sum id (\<lambda>(st, rh, raw). (st, lower_keys rh, raw)) r, s\<lparr>sn_world := w\<rparr>))"

text \<open>\<open>urllib.parse.quote_plus\<close> and \<open>quote\<close> with a slash kept.\<close>

definition quote_plus :: "string \<Rightarrow> string" where
  "quote_plus s = concat (map (\<lambda>ch. if ch = CHR '' '' then ''+'' else url_quote_char ch) s)"

definition quote_path :: "string \<Rightarrow> string" where
  "quote_path s = concat (map (\<lambda>ch. if ch = CHR ''/'' then ''/'' else url_quote_char ch) s)"

definition urlencode :: "string dict \<Rightarrow> string" where
  "urlencode d = join_with ''&'' (map (\<lambda>(k, v). quote_plus k @ ''='' @ quote_plus v) d)"

definition challenge_param :: "string \<Rightarrow> string \<times> string" where
  "challenge_param part =
     (case partition_at CHR ''='' (py_strip part) of (k, _, v) \<Rightarrow>
        (py_strip k, rstrip_by (\<lambda>ch. ch = quote_mark) (lstrip_by (\<lambda>ch. ch = quote_mark) (py_strip v))))"

definition token_of :: "json \<Rightarrow> exn + string" where
  "token_of body =
     bind_sum (get_attr body ''token'') (\<lambda>t. if json_truthy t then text_value t
     else bind_sum (get_attr body ''access_token'') (\<lambda>a. if json_truthy a then text_value a else Inr []))"

definition answer :: "'w registry \<Rightarrow> string \<Rightarrow> string \<Rightarrow> string \<Rightarrow> ('w session, exn, unit) act" where
  "answer g basic challenge scope =
     (case partition_at CHR '' '' challenge of (kind, _, rest) \<Rightarrow>
        if py_lower kind = ''basic'' \<or> challenge = []
        then (\<lambda>s. (Inr (), s\<lparr>sn_auth := Some (''Basic '' @ basic)\<rparr>))
        else
          let params = map challenge_param (split_on CHR '','' rest);
              service = (case map_of (rev params) ''service'' of None \<Rightarrow> [] | Some v \<Rightarrow> v);
              q = [(''service'', service)] @ (if scope \<noteq> [] then [(''scope'', scope)] else [])
          in case map_of (rev params) ''realm'' of
               None \<Rightarrow> refuse (KeyError ''realm'')
             | Some realm \<Rightarrow>
                 seq (send g ''GET'' (realm @ ''?'' @ urlencode q) [(''Authorization'', ''Basic '' @ basic)] None) (\<lambda>(st, _, raw).
                 if st \<noteq> 200 then refuse (registry_error (''registry token request refused (HTTP '' @ show_int st @ '')''))
                 else seq (value_of (bind_sum (rg_json g (if raw = [] then ''{}'' else raw)) token_of)) (\<lambda>t s.
                   (Inr (), s\<lparr>sn_auth := Some (''Bearer '' @ t)\<rparr>))))"

definition send_signed :: "'w registry \<Rightarrow> string \<Rightarrow> string \<Rightarrow> string dict \<Rightarrow> bytes option \<Rightarrow> ('w session, exn, int \<times> string dict \<times> bytes) act" where
  "send_signed g meth u hs body s =
     send g meth u (hs @ (case sn_auth s of None \<Rightarrow> [] | Some a \<Rightarrow> [(''Authorization'', a)])) body s"

definition req ::
  "'w registry \<Rightarrow> string \<Rightarrow> string \<Rightarrow> string \<Rightarrow> string \<Rightarrow> bytes option \<Rightarrow> string dict \<Rightarrow> ('w session, exn, int \<times> string dict \<times> bytes) act" where
  "req g basic scope meth u body hs =
     seq (send_signed g meth u hs body) (\<lambda>(st, rh, raw).
     if st = 401
     then seq (answer g basic (case map_of rh ''www-authenticate'' of None \<Rightarrow> [] | Some c \<Rightarrow> c) scope) (\<lambda>_. send_signed g meth u hs body)
     else give (st, rh, raw))"

definition push_blob :: "'w registry \<Rightarrow> string \<Rightarrow> string \<Rightarrow> string \<Rightarrow> string \<times> bytes \<Rightarrow> ('w session, exn, unit) act" where
  "push_blob g basic hst repo blob =
     (case blob of (digest, b) \<Rightarrow>
        let base = ''https://'' @ hst @ ''/v2/'' @ repo; scope = ''repository:'' @ repo @ '':pull,push'' in
        seq (req g basic scope ''HEAD'' (base @ ''/blobs/'' @ digest) None []) (\<lambda>(st, _, _).
        if st = 200 then give ()
        else seq (req g basic scope ''POST'' (base @ ''/blobs/uploads/'') (Some []) []) (\<lambda>(st, h, _).
          let loc = (case map_of h ''location'' of None \<Rightarrow> [] | Some l \<Rightarrow> l) in
          if st \<noteq> 202 \<or> loc = []
          then refuse (registry_error (''starting a blob upload to '' @ hst @ ''/'' @ repo @ '' failed (HTTP '' @ show_int st @ '')''))
          else
            let loc = (if starts_with ''/'' loc then ''https://'' @ hst @ loc else loc);
                sep = (if CHR ''?'' \<in> set loc then ''&'' else ''?'')
            in seq (req g basic scope ''PUT'' (loc @ sep @ ''digest='' @ quote_path digest) (Some b)
                  [(''Content-Type'', ''application/octet-stream'')]) (\<lambda>(st, _, _).
               if st \<noteq> 201
               then refuse (registry_error (''uploading '' @ take 19 digest @ '' to '' @ hst @ ''/'' @ repo @ '' failed (HTTP '' @ show_int st @ '')''))
               else give ()))))"

definition push_image :: "'w registry \<Rightarrow> string \<Rightarrow> string \<Rightarrow> string \<Rightarrow> string \<Rightarrow> bytes dict \<Rightarrow> ('w session, exn, string) act" where
  "push_image g basic hst repo tag files =
     seq (value_of (image_blobs g files)) (\<lambda>img.
     seq (each (push_blob g basic hst repo) (pi_blobs img)) (\<lambda>_.
     seq (req g basic (''repository:'' @ repo @ '':pull,push'') ''PUT''
            (''https://'' @ hst @ ''/v2/'' @ repo @ ''/manifests/'' @ tag) (Some (pi_manifest img))
            [(''Content-Type'', MANIFEST_V2)]) (\<lambda>(st, _, _).
     if st \<notin> {200, 201}
     then refuse (registry_error (''pushing the manifest to '' @ hst @ ''/'' @ repo @ '':'' @ tag @ '' failed (HTTP '' @ show_int st @ '')''))
     else give (hst @ ''/'' @ repo @ ''@'' @ pi_digest img))))"

text \<open>\<open>Registry(host, username, password).push(repo, tag, files)\<close>.\<close>

definition registry_push ::
  "'w registry \<Rightarrow> string \<Rightarrow> string \<Rightarrow> string \<Rightarrow> string \<Rightarrow> string \<Rightarrow> bytes dict \<Rightarrow> 'w \<Rightarrow> ('w, string) outcome" where
  "registry_push g hst user password repo tag files w =
     (case push_image g (basic_credential user password) hst repo tag files \<lparr>sn_auth = None, sn_world = w\<rparr> of
        (r, s) \<Rightarrow> (r, sn_world s))"

end
