(* ===== verification/Single.thy ===== *)
theory Single
  imports Deploy Lifecycle Oci
begin

text \<open>
  The single-machine layout (sirosid_core/singlemachine.py): one Fly app with one machine of
  many containers. The machine config is a record with the fields the code fills; \<open>config_json\<close>
  is the dictionary that is sent. Besides what \<open>builder\<close> holds, outside are the image registry
  (sirosid_core/oci.py) and the decoder of the types of the app's IP addresses. A call of the
  registry gets the credential, the app, the tag and the files.
\<close>

section \<open>Tables\<close>

definition MAX_CONFIG_BYTES :: nat where "MAX_CONFIG_BYTES = 960 * 1024"
definition BUNDLE_DIR :: string where "BUNDLE_DIR = ''/sirosid/bundle''"
definition SECRETS_DIR :: string where "SECRETS_DIR = ''/run/sirosid-secrets''"

definition BUNDLE_DIRS :: "string dict" where
  "BUNDLE_DIRS = [(''vctms'', ''/vctms''), (''pres-reqs'', ''/pres-reqs''), (''documents'', ''/documents''),
     (''branding-assets'', ''/branding-assets'')]"

definition MAX_BLOCK_DEVICES :: nat where "MAX_BLOCK_DEVICES = 12"
definition MAX_DEVICES_WITH_TEMP_DIRS :: nat where "MAX_DEVICES_WITH_TEMP_DIRS = 14"

definition GUEST :: json where
  "GUEST = JObj [(''cpu_kind'', JStr ''shared''), (''cpus'', JInt 4), (''memory_mb'', JInt 8192)]"

definition CONTAINER_COMPONENTS :: "string list" where
  "CONTAINER_COMPONENTS = [''mongodb'', ''mini-oidc'', ''vc-registry'', ''vc-issuer'', ''vc-verifier'', ''vc-apigw'', ''pdp'',
     ''wallet-backend'', ''wallet-frontend'']"

definition PUBLIC_COMPONENTS :: "string list" where
  "PUBLIC_COMPONENTS = [''mini-oidc'', ''vc-registry'', ''vc-verifier'', ''vc-apigw'', ''wallet-proxy'', ''wallet-frontend'']"

definition VC_SERVICES :: "string list" where
  "VC_SERVICES = [''vc-registry'', ''vc-issuer'', ''vc-verifier'', ''vc-apigw'']"

text \<open>Fly secret: its source among the state files, and the (group, file) pairs it is decoded to.\<close>

definition SECRETS :: "(string \<times> string \<times> (string \<times> string) list) list" where
  "SECRETS =
     [(''SIROSID_MONGO_ROOT_PASSWORD'', ''mongoRootPassword'', [(''mongodb'', ''mongoRootPassword'')]),
      (''SIROSID_VC_SIGNING_KEY'', ''vc-pki/signing_ec_private.pem'',
        [(''vc'', ''signing_ec_private.pem''), (''wallet_backend'', ''asSigningKey'')]),
      (''SIROSID_VC_NYM_AUTH_SEED'', ''vc-secrets/vcOpeningNymAuthSeed'', [(''vc'', ''openingNymAuthSeed'')]),
      (''SIROSID_VC_CREDENTIAL_ENCRYPTION_KEY'', ''vc-secrets/vcCredentialEncryption.pem'', [(''vc'', ''credentialEncryption.pem'')]),
      (''SIROSID_JWT_SECRET'', ''jwtSecret'', [(''wallet_backend'', ''jwtSecret'')]),
      (''SIROSID_ADMIN_TOKEN'', ''adminToken'', [(''wallet_backend'', ''adminToken'')]),
      (''SIROSID_WALLET_PROVIDER_KEY'', ''vc-pki/wallet_provider_ec_private.pem'', [(''wallet_backend'', ''walletProviderKey'')])]"

definition SECRET_PATHS_VC :: "string dict" where
  "SECRET_PATHS_VC =
     [(''/pki/signing_ec_private.pem'', SECRETS_DIR @ ''/signing_ec_private.pem''),
      (''/seeds/nym_auth_seed.key'', SECRETS_DIR @ ''/openingNymAuthSeed''),
      (''/credential-encryption/primary.pem'', SECRETS_DIR @ ''/credentialEncryption.pem'')]"

definition SECRET_PATHS_WALLET :: "string dict" where
  "SECRET_PATHS_WALLET =
     [(''/main-secrets/jwtSecret'', SECRETS_DIR @ ''/jwtSecret''), (''/main-secrets/adminToken'', SECRETS_DIR @ ''/adminToken''),
      (''/main-secrets/walletProviderKey'', SECRETS_DIR @ ''/walletProviderKey''), (''/as-cert/tls.key'', SECRETS_DIR @ ''/asSigningKey'')]"

section \<open>What the rendered files ask for\<close>

text \<open>\<open>_OPTIONAL_SECRETS\<close>: a secret is needed unless it is optional and the config does not use it.\<close>

definition secret_needed :: "json \<Rightarrow> string \<Rightarrow> exn + bool" where
  "secret_needed apigw name =
     (if name = ''SIROSID_VC_NYM_AUTH_SEED''
      then map_sum id (\<lambda>ps. ''/seeds/nym_auth_seed.key'' \<in> set ps) (opening_secret_paths apigw)
      else if name = ''SIROSID_VC_CREDENTIAL_ENCRYPTION_KEY'' then encryption_keys apigw
      else Inr True)"

definition needed_secrets :: "json \<Rightarrow> exn + (string \<times> string \<times> (string \<times> string) list) list" where
  "needed_secrets apigw =
     map_sum id concat (all_right (map (\<lambda>e. map_sum id (\<lambda>b. if b then [e] else []) (secret_needed apigw (fst e))) SECRETS))"

definition active_secrets ::
  "'w builder \<Rightarrow> abs_path \<Rightarrow> ('w bench, exn, (string \<times> string \<times> (string \<times> string) list) list) act" where
  "active_secrets b out =
     seq (read_file (out @ [''vc-apigw.yaml''])) (\<lambda>raw.
     value_of (bind_sum (bind_sum (bd_yaml b raw) (\<lambda>y. get_or y ''apigw'')) needed_secrets))"

definition path_under :: "string \<Rightarrow> string \<Rightarrow> bool" where
  "path_under old s = (s = old \<or> starts_with (rstrip_by (\<lambda>ch. ch = CHR ''/'') old @ ''/'') s)"

definition rewrite_path :: "string dict \<Rightarrow> string \<Rightarrow> string" where
  "rewrite_path mapping s =
     (case find (\<lambda>on. path_under (fst on) s) mapping of None \<Rightarrow> s | Some (old, new) \<Rightarrow> new @ drop (length old) s)"

primrec rewrite_paths :: "string dict \<Rightarrow> json \<Rightarrow> json" where
  "rewrite_paths mp JNull = JNull"
| "rewrite_paths mp (JBool b) = JBool b"
| "rewrite_paths mp (JInt i) = JInt i"
| "rewrite_paths mp (JFloat r) = JFloat r"
| "rewrite_paths mp (JStr s) = JStr (rewrite_path mp s)"
| "rewrite_paths mp (JList js) = JList (map (rewrite_paths mp) js)"
| "rewrite_paths mp (JObj kvs) = JObj (map (map_prod id (rewrite_paths mp)) kvs)"

definition rewritten_yaml :: "'w builder \<Rightarrow> abs_path \<Rightarrow> string dict \<Rightarrow> ('w bench, exn, string) act" where
  "rewritten_yaml b p mp =
     seq (read_file p) (\<lambda>raw. value_of (map_sum id (\<lambda>j. bd_yaml_dump b (rewrite_paths mp j)) (bd_yaml b raw)))"

definition bundle_dir_files :: "abs_path \<Rightarrow> string \<Rightarrow> ('w bench, exn, bytes dict) act" where
  "bundle_dir_files out d =
     seq (list_dir (out @ [d])) (\<lambda>names.
     each (\<lambda>x. seq (read_file (out @ [d, x])) (\<lambda>b. give (d @ ''/'' @ x, b))) names)"

definition bundle_files :: "abs_path \<Rightarrow> ('w bench, exn, bytes dict) act" where
  "bundle_files out = seq (each (bundle_dir_files out) (map fst BUNDLE_DIRS)) (\<lambda>fss. give (concat fss))"

text \<open>\<open>text.splitlines(keepends=True)\<close>; CR LF is one end of line.\<close>

fun kept_lines :: "string \<Rightarrow> string list" where
  "kept_lines [] = []"
| "kept_lines [x] = [[x]]"
| "kept_lines (x # y # s) =
     (if x = CHR 0x0D \<and> y = CHR 0x0A then [x, y] # kept_lines s
      else if is_line_break x then [x] # kept_lines (y # s)
      else case kept_lines (y # s) of [] \<Rightarrow> [[x]] | l # ls \<Rightarrow> (x # l) # ls)"

definition strip_nginx_comments :: "string \<Rightarrow> string" where
  "strip_nginx_comments s = concat (filter (\<lambda>l. \<not> starts_with ''#'' (lstrip_by is_space l)) (kept_lines s))"

section \<open>The machine config\<close>

record health_check =
  hc_name :: string
  hc_port :: nat
  hc_path :: "string option"
  hc_grace :: nat

record container =
  cn_name :: string
  cn_image :: string
  cn_cmd :: "string list"
  cn_env :: "string dict"
  cn_files :: "(string \<times> bytes) list"
  cn_mounts :: "(string \<times> string) list"
  cn_depends :: "(string \<times> string) list"
  cn_checks :: "health_check list"
  cn_secrets :: "string list"
  cn_restart :: string

record machine_config =
  mg_image :: string
  mg_guest :: json
  mg_volume :: string
  mg_bundle :: string
  mg_groups :: "string list"
  mg_containers :: "container list"
  mg_front_port :: nat
  mg_autostart :: bool
  mg_env :: string
  mg_host_pattern :: string
  mg_public_ips :: bool

definition http_check :: "string \<Rightarrow> nat \<Rightarrow> string \<Rightarrow> nat \<Rightarrow> health_check" where
  "http_check name p path grace = \<lparr>hc_name = name, hc_port = p, hc_path = Some path, hc_grace = grace\<rparr>"

definition tcp_check :: "string \<Rightarrow> nat \<Rightarrow> nat \<Rightarrow> health_check" where
  "tcp_check name p grace = \<lparr>hc_name = name, hc_port = p, hc_path = None, hc_grace = grace\<rparr>"

text \<open>\<open>_container\<close>: a container that is always restarted, with the given fields.\<close>

definition a_container :: "string \<Rightarrow> string \<Rightarrow> container" where
  "a_container name img = \<lparr>cn_name = name, cn_image = img, cn_cmd = [], cn_env = [], cn_files = [], cn_mounts = [], cn_depends = [],
     cn_checks = [], cn_secrets = [], cn_restart = ''always''\<rparr>"

definition secret_volume :: "string \<Rightarrow> string" where "secret_volume g = ''sec_'' @ g"
definition secret_mount :: "string \<Rightarrow> (string \<times> string) list" where "secret_mount g = [(secret_volume g, SECRETS_DIR)]"
definition bundle_mount :: "(string \<times> string) list" where "bundle_mount = [(''bundle'', BUNDLE_DIR)]"
definition after_secrets :: "string \<times> string" where "after_secrets = (''secrets-init'', ''exited_successfully'')"

definition secret_groups :: "(string \<times> string \<times> (string \<times> string) list) list \<Rightarrow> string list" where
  "secret_groups ss = sort (remdups (concat (map (\<lambda>(n, src, ts). map fst ts) ss)))"

text \<open>The script of the init container writes each secret to its files.\<close>

definition decode_line :: "string \<Rightarrow> string \<times> string \<Rightarrow> string" where
  "decode_line name t = (case t of (g, file) \<Rightarrow>
     ''printf %s '' @ quoted (CHR ''$'' # name) @ '' | base64 -d > /out/'' @ g @ ''/'' @ file)"

definition init_script :: "(string \<times> string \<times> (string \<times> string) list) list \<Rightarrow> string" where
  "init_script ss = join_with [newline]
     ([''set -e''] @ concat (map (\<lambda>(n, src, ts). map (decode_line n) ts) ss) @ [''chmod -R a+rX /out'', ''echo secrets-init: done''])"

definition secrets_init :: "string \<Rightarrow> (string \<times> string \<times> (string \<times> string) list) list \<Rightarrow> container" where
  "secrets_init img ss = (a_container ''secrets-init'' img)
     \<lparr>cn_cmd := [''sh'', ''-c'', init_script ss], cn_secrets := map fst ss,
      cn_mounts := map (\<lambda>g. (secret_volume g, ''/out/'' @ g)) (secret_groups ss), cn_restart := ''no''\<rparr>"

definition mongodb_container :: "string \<Rightarrow> nat \<Rightarrow> container" where
  "mongodb_container img p = (a_container ''mongodb'' img)
     \<lparr>cn_cmd := [''mongod'', ''--bind_ip'', ''127.0.0.1'', ''--auth''],
      cn_env := [(''MONGO_INITDB_ROOT_USERNAME'', ''root''), (''MONGO_INITDB_ROOT_PASSWORD_FILE'', SECRETS_DIR @ ''/mongoRootPassword'')],
      cn_mounts := secret_mount ''mongodb'', cn_depends := [after_secrets], cn_checks := [tcp_check ''mongodb'' p 15]\<rparr>"

definition mini_oidc_container :: "string \<Rightarrow> nat \<Rightarrow> string dict \<Rightarrow> container" where
  "mini_oidc_container img p env = (a_container ''mini-oidc'' img)
     \<lparr>cn_cmd := [''/usr/local/bin/op''], cn_env := env,
      cn_files := [(''/etc/mini-oidc/configs/config.production.yaml'', mini_oidc_config)],
      cn_checks := [http_check ''mini-oidc'' p ''/health'' 10]\<rparr>"

definition vc_needs :: "string \<Rightarrow> (string \<times> string) list" where
  "vc_needs name =
     [(''mongodb'', ''healthy''), (''pdp'', ''healthy'')] @
     (if name = ''vc-issuer'' then [(''vc-registry'', ''healthy'')]
      else if name = ''vc-apigw'' then [(''vc-issuer'', ''healthy''), (''vc-registry'', ''healthy'')] else [])"

definition vc_container :: "string \<Rightarrow> string \<Rightarrow> nat \<Rightarrow> (string \<times> bytes) list \<Rightarrow> container" where
  "vc_container name img p files = (a_container name img)
     \<lparr>cn_env := [(''VC_CONFIG_YAML'', ''/config.yaml''), (''SSL_CERT_FILE'', ''/pki/rootCA.crt'')], cn_files := files,
      cn_mounts := bundle_mount @ secret_mount ''vc'', cn_depends := after_secrets # vc_needs name,
      cn_checks := [http_check name p ''/health'' 20]\<rparr>"

definition pdp_container :: "string \<Rightarrow> nat \<Rightarrow> bytes \<Rightarrow> container" where
  "pdp_container img p config = (a_container ''pdp'' img)
     \<lparr>cn_cmd := [''--config'', ''/main-config/config.yaml''], cn_env := [(''GT_HOST'', ''127.0.0.1''), (''GT_PORT'', show_nat p)],
      cn_files := [(''/main-config/config.yaml'', config)], cn_checks := [http_check ''pdp'' p ''/healthz'' 30]\<rparr>"

definition wallet_backend_container :: "string \<Rightarrow> nat \<Rightarrow> bool \<Rightarrow> (string \<times> bytes) list \<Rightarrow> container" where
  "wallet_backend_container img p registry_integrated files = (a_container ''wallet-backend'' img)
     \<lparr>cn_cmd := [''--mode=all'', ''--config=/app/config.yaml''] @ (if registry_integrated then [] else [''--registry-config=/app/registry.yaml'']),
      cn_files := files, cn_mounts := secret_mount ''wallet_backend'',
      cn_depends := [after_secrets, (''mongodb'', ''healthy''), (''pdp'', ''healthy'')],
      cn_checks := [http_check ''wallet-backend'' p ''/health'' 20]\<rparr>"

definition wallet_frontend_container :: "string \<Rightarrow> nat \<Rightarrow> nat \<Rightarrow> string dict \<Rightarrow> (string \<times> bytes) list \<Rightarrow> container" where
  "wallet_frontend_container img p proxy env files = (a_container ''wallet-frontend'' img)
     \<lparr>cn_env := env, cn_files := files,
      cn_checks := [http_check ''wallet-frontend'' p ''/'' 10, http_check ''front'' proxy ''/.well-known/assetlinks.json'' 5]\<rparr>"


section \<open>The dictionary that is sent\<close>

definition put_if :: "bool \<Rightarrow> string \<Rightarrow> json \<Rightarrow> json dict" where
  "put_if b k v = (if b then [(k, v)] else [])"

definition json_dict :: "string dict \<Rightarrow> json" where
  "json_dict d = JObj (map (map_prod id JStr) d)"

definition file_json :: "string \<times> bytes \<Rightarrow> json" where
  "file_json f = JObj [(''guest_path'', JStr (fst f)), (''raw_value'', JStr (base64_text (snd f)))]"

definition mount_json :: "string \<times> string \<Rightarrow> json" where
  "mount_json m = JObj [(''name'', JStr (fst m)), (''path'', JStr (snd m))]"

definition need_json :: "string \<times> string \<Rightarrow> json" where
  "need_json d = JObj [(''name'', JStr (fst d)), (''condition'', JStr (snd d))]"

definition check_json :: "health_check \<Rightarrow> json" where
  "check_json hc = JObj
     ([(''name'', JStr (hc_name hc)),
       (case hc_path hc of
          Some p \<Rightarrow> (''http'', JObj [(''port'', JInt (int (hc_port hc))), (''method'', JStr ''GET''), (''path'', JStr p)])
        | None \<Rightarrow> (''tcp'', JObj [(''port'', JInt (int (hc_port hc)))])),
       (''interval'', JInt 10), (''timeout'', JInt 5), (''grace_period'', JInt (int (hc_grace hc))),
       (''failure_threshold'', JInt 3), (''success_threshold'', JInt 1)])"

definition policy_json :: "string \<Rightarrow> json" where
  "policy_json p = JObj [(''policy'', JStr p)]"

text \<open>The init container is written out in the source, with its keys in an order of its own.\<close>

definition init_json :: "container \<Rightarrow> json" where
  "init_json x = JObj
     [(''name'', JStr (cn_name x)), (''image'', JStr (cn_image x)), (''cmd'', JList (map JStr (cn_cmd x))),
      (''secrets'', JList (map (\<lambda>n. JObj [(''env_var'', JStr n), (''name'', JStr n)]) (cn_secrets x))),
      (''mounts'', JList (map mount_json (cn_mounts x))), (''restart'', policy_json (cn_restart x))]"

definition container_json :: "container \<Rightarrow> json" where
  "container_json x = JObj
     ([(''name'', JStr (cn_name x)), (''image'', JStr (cn_image x)), (''restart'', policy_json (cn_restart x))] @
      put_if (cn_cmd x \<noteq> []) ''cmd'' (JList (map JStr (cn_cmd x))) @ put_if (cn_env x \<noteq> []) ''env'' (json_dict (cn_env x)) @
      put_if (cn_files x \<noteq> []) ''files'' (JList (map file_json (cn_files x))) @
      put_if (cn_mounts x \<noteq> []) ''mounts'' (JList (map mount_json (cn_mounts x))) @
      put_if (cn_depends x \<noteq> []) ''depends_on'' (JList (map need_json (cn_depends x))) @
      put_if (cn_checks x \<noteq> []) ''healthchecks'' (JList (map check_json (cn_checks x))))"

definition any_container_json :: "container \<Rightarrow> json" where
  "any_container_json x = (if cn_restart x = ''no'' then init_json x else container_json x)"

definition bool_text :: "bool \<Rightarrow> string" where
  "bool_text b = (if b then ''true'' else ''false'')"

text \<open>The dictionary with the given metadata entries after the four fixed ones.\<close>

definition config_with :: "json dict \<Rightarrow> machine_config \<Rightarrow> json" where
  "config_with extra m = JObj
     [(''image'', JStr (mg_image m)), (''guest'', mg_guest m),
      (''mounts'', JList [JObj [(''volume'', JStr (mg_volume m)), (''path'', JStr ''/data/db''), (''name'', JStr (volume_name ''mongodb''))]]),
      (''volumes'', JList (JObj [(''name'', JStr ''bundle''), (''image'', JStr (mg_bundle m))] #
         map (\<lambda>g. JObj [(''name'', JStr (secret_volume g)),
           (''temp_dir'', JObj [(''storage_type'', JStr ''memory''), (''size_mb'', JInt 1)])]) (mg_groups m))),
      (''containers'', JList (map any_container_json (mg_containers m))),
      (''services'', JList [JObj
         [(''protocol'', JStr ''tcp''), (''internal_port'', JInt (int (mg_front_port m))),
          (''ports'', JList
             [JObj [(''port'', JInt 443), (''handlers'', JList [JStr ''tls'', JStr ''http''])],
              JObj [(''port'', JInt 80), (''handlers'', JList [JStr ''http'']), (''force_https'', JBool True)]]),
          (''autostop'', JStr ''off''), (''autostart'', JBool (mg_autostart m)), (''min_machines_running'', JInt 1)]]),
      (''restart'', policy_json ''always''),
      (''metadata'', JObj ([(''sirosid_layout'', JStr LAYOUT_SINGLE_MACHINE), (''sirosid_env'', JStr (mg_env m)),
         (''sirosid_host_pattern'', JStr (mg_host_pattern m)),
         (''sirosid_public_ips'', JStr (bool_text (mg_public_ips m)))] @ extra))]"

definition config_hash :: "(bytes \<Rightarrow> bytes) \<Rightarrow> machine_config \<Rightarrow> string" where
  "config_hash sha256 m = take 20 (hex_text (sha256 (dumps (\<lambda>_. []) compact_json 0 (sorted_keys (config_with [] m)))))"

definition config_json :: "(bytes \<Rightarrow> bytes) \<Rightarrow> machine_config \<Rightarrow> json" where
  "config_json sha256 m = config_with [(''sirosid_config_hash'', JStr (config_hash sha256 m))] m"

definition request_size :: "json \<Rightarrow> string \<Rightarrow> int option \<Rightarrow> nat" where
  "request_size config region version = length (dumps (\<lambda>_. []) one_line_json 0
     (JObj ([(''config'', config), (''region'', JStr region)] @ version_field version)))"

section \<open>Limits and readiness\<close>

text \<open>Drives (distinct images, the image volume, the Fly volume) and memory directories.\<close>

definition block_devices :: "machine_config \<Rightarrow> nat \<times> nat" where
  "block_devices m = (card (set (map cn_image (mg_containers m))) + 1 + 1, length (mg_groups m))"

definition check_block_devices :: "machine_config \<Rightarrow> exn + unit" where
  "check_block_devices m =
     (case block_devices m of (drives, temps) \<Rightarrow>
        if MAX_BLOCK_DEVICES < drives \<or> MAX_DEVICES_WITH_TEMP_DIRS < drives + temps
        then Inl (DeployError (''the machine would need '' @ show_nat drives @ '' block devices (+'' @ show_nat temps @
          '' temp_dirs); a Fly machine boots with at most '' @ show_nat MAX_BLOCK_DEVICES @ '' ('' @
          show_nat MAX_DEVICES_WITH_TEMP_DIRS @ '' counting temp_dirs). Every distinct image '' @
          ''is one: an image override that splits a shared image costs a slot.''))
        else Inr ())"

definition container_configs :: "machine_config \<Rightarrow> container_config list" where
  "container_configs m = map (\<lambda>x. \<lparr>cc_name = cn_name x, cc_restart_policy = Some (cn_restart x), cc_healthchecks = (cn_checks x \<noteq> [])\<rparr>)
     (mg_containers m)"

section \<open>Building the config\<close>

definition with_port :: "'w deploy_ctx \<Rightarrow> string \<Rightarrow> string \<Rightarrow> (nat \<Rightarrow> ('w bench, exn, 'a) act) \<Rightarrow> ('w bench, exn, 'a) act" where
  "with_port c name kind f = seq (value_of (port (dc_naming c) name kind)) f"

definition with_image :: "string dict \<Rightarrow> string \<Rightarrow> (string \<Rightarrow> ('w bench, exn, 'a) act) \<Rightarrow> ('w bench, exn, 'a) act" where
  "with_image images name f = (case map_of images name of None \<Rightarrow> refuse (KeyError name) | Some i \<Rightarrow> f i)"

definition as_file :: "string \<Rightarrow> abs_path \<Rightarrow> ('w bench, exn, string \<times> bytes) act" where
  "as_file target p = seq (read_file p) (\<lambda>b. give (target, b))"

definition bundle_paths :: "string dict" where
  "bundle_paths = map (\<lambda>(d, old). (old, BUNDLE_DIR @ ''/'' @ d)) BUNDLE_DIRS"

definition vc_part :: "'w deploy_ctx \<Rightarrow> string dict \<Rightarrow> string \<Rightarrow> ('w bench, exn, container) act" where
  "vc_part c images name =
     (let out = dc_out_dir c; pki = dc_pki_dir c in
      seq (rewritten_yaml (dc_builder c) (out @ [name @ ''.yaml'']) (SECRET_PATHS_VC @ bundle_paths)) (\<lambda>cfg.
      seq (as_file ''/pki/rootCA.crt'' (pki @ [''rootCA.crt''])) (\<lambda>ca.
      seq (as_file ''/pki/signing_ec_chain.pem'' (pki @ [''signing_ec_chain.pem''])) (\<lambda>chain.
      seq (if name = ''vc-apigw''
           then seq (as_file ''/main-config/api_auth_jwks.json'' (out @ [''api_auth_jwks.json''])) (\<lambda>f. give [f]) else give []) (\<lambda>jwks.
      with_image images name (\<lambda>img.
      with_port c name [] (\<lambda>p. give (vc_container name img p ([(''/config.yaml'', cfg), ca, chain] @ jwks)))))))))"

definition dir_files :: "string \<Rightarrow> abs_path \<Rightarrow> ('w bench, exn, (string \<times> bytes) list) act" where
  "dir_files target dir = seq (list_dir dir) (each (\<lambda>x. as_file (target @ ''/'' @ x) (dir @ [x])))"

definition wallet_backend_part :: "'w deploy_ctx \<Rightarrow> string dict \<Rightarrow> ('w bench, exn, container) act" where
  "wallet_backend_part c images =
     (let out = dc_out_dir c; pki = dc_pki_dir c in
      seq (has_file (out @ [''wallet-backend-registry.yaml''])) (\<lambda>separate.
      seq (rewritten_yaml (dc_builder c) (out @ [''wallet-backend.yaml'']) SECRET_PATHS_WALLET) (\<lambda>cfg.
      seq (as_file ''/main-config/walletProviderCert.pem'' (pki @ [''wallet_provider_ec.crt''])) (\<lambda>cert.
      seq (as_file ''/main-config/walletProviderCA.pem'' (pki @ [''rootCA.crt''])) (\<lambda>ca.
      seq (if separate
           then seq (as_file ''/app/registry.yaml'' (out @ [''wallet-backend-registry.yaml''])) (\<lambda>f. give [f]) else give []) (\<lambda>registry.
      seq (dir_files ''/as-rules'' (out @ [''as-rules''])) (\<lambda>rules.
      seq (dir_files ''/etc/wallet/assurance'' (out @ [''assurance''])) (\<lambda>assurance.
      with_image images ''wallet-backend'' (\<lambda>img.
      with_port c ''wallet-backend'' ''http'' (\<lambda>p. give (wallet_backend_container img p (\<not> separate)
        ([(''/app/config.yaml'', cfg), (''/vctms/.keep'', ''ok''), cert, ca] @ registry @ rules @ assurance))))))))))))"

definition wallet_frontend_part :: "'w deploy_ctx \<Rightarrow> string dict \<Rightarrow> signers \<Rightarrow> ('w bench, exn, container) act" where
  "wallet_frontend_part c images ids =
     (let n = dc_naming c; sp = dc_spec c; pages = bd_pages (dc_builder c) in
      seq (value_of (bind_sum (extract_configmap_data (dc_docs c) ''wallet-frontend-main'') (\<lambda>fe. data_text fe ''wellknownAppleAppIds''))) (\<lambda>apple.
      with_image images ''wallet-frontend'' (\<lambda>img.
      seq (value_of (wallet_frontend_env n (dc_docs c) (s_wallet_attestation sp) ids)) (\<lambda>env.
      seq (value_of (pg_wallet_frontend pages False n False)) (\<lambda>conf.
      seq (value_of (pg_front pages n (\<not> s_public_ips sp))) (\<lambda>front.
      seq (as_file ''/etc/nginx/well-known/assetlinks.json'' (dc_assetlinks c)) (\<lambda>links.
      seq (value_of (pg_dashboard pages ids (apple_ids apple) None n False)) (\<lambda>dashboard.
      with_port c ''wallet-frontend'' [] (\<lambda>p.
      with_port c ''wallet-proxy'' [] (\<lambda>proxy. give (wallet_frontend_container img p proxy env
        [(''/etc/nginx/conf.d/default.conf'', strip_nginx_comments conf), (''/etc/nginx/conf.d/front.conf'', strip_nginx_comments front),
         links, (''/usr/share/nginx/startup.html'', dashboard)])))))))))))"

text \<open>\<open>guest\<close> is the guest the caller asks for; an empty one is the default one.\<close>

definition build_machine_config ::
  "'w deploy_ctx \<Rightarrow> string dict \<Rightarrow> string \<Rightarrow> string \<Rightarrow> signers \<Rightarrow> json option \<Rightarrow> ('w bench, exn, machine_config) act" where
  "build_machine_config c images bundle_ref volume_id ids guest =
     (let n = dc_naming c; sp = dc_spec c in
      seq (active_secrets (dc_builder c) (dc_out_dir c)) (\<lambda>ss.
      with_image images ''mongodb'' (\<lambda>mongo_img.
      with_port c ''mongodb'' [] (\<lambda>mongo_port.
      with_image images ''mini-oidc'' (\<lambda>oidc_img.
      seq (value_of (mini_oidc_env n)) (\<lambda>oidc_env.
      with_port c ''mini-oidc'' [] (\<lambda>oidc_port.
      seq (each (vc_part c images) VC_SERVICES) (\<lambda>vcs.
      with_image images ''pdp'' (\<lambda>pdp_img.
      with_port c ''pdp'' [] (\<lambda>pdp_port.
      seq (read_file (dc_out_dir c @ [''pdp.yaml''])) (\<lambda>pdp_config.
      seq (wallet_backend_part c images) (\<lambda>backend.
      seq (wallet_frontend_part c images ids) (\<lambda>frontend.
      with_port c ''front'' [] (\<lambda>front_port.
      give \<lparr>mg_image = cn_image frontend,
            mg_guest = (case guest of None \<Rightarrow> GUEST | Some g \<Rightarrow> if json_truthy g then g else GUEST),
            mg_volume = volume_id, mg_bundle = bundle_ref, mg_groups = secret_groups ss,
            mg_containers = [secrets_init mongo_img ss, mongodb_container mongo_img mongo_port,
                mini_oidc_container oidc_img oidc_port oidc_env] @ vcs @
              [pdp_container pdp_img pdp_port pdp_config, backend, frontend],
            mg_front_port = front_port, mg_autostart = \<not> s_scale_to_zero sp, mg_env = n_env n,
            mg_host_pattern = n_host_pattern n, mg_public_ips = s_public_ips sp\<rparr>))))))))))))))"

section \<open>The steps of the deploy\<close>

text \<open>
  What one deploy is given besides the spec: the builder, the Machines client, the registry
  client and the caller's own push, the caller's credential for the push, the guest, the time
  to wait for the containers, and the decoder of the types in \<open>ips list\<close>.
\<close>

record 'w single =
  sk_builder :: "'w builder"
  sk_machines :: "'w machines"
  sk_registry :: "'w registry"
  sk_push :: "(string \<Rightarrow> string \<Rightarrow> bytes dict \<Rightarrow> 'w \<Rightarrow> ('w, string) outcome) option"
  sk_credential :: string
  sk_guest :: "json option"
  sk_ready_timeout :: time
  sk_ip_types :: "string \<Rightarrow> string list option"

abbreviation sk_kit :: "'w single \<Rightarrow> 'w kit" where "sk_kit k \<equiv> bd_kit (sk_builder k)"
abbreviation sk_fly :: "'w single \<Rightarrow> 'w fly" where "sk_fly k \<equiv> kt_fly (sk_kit k)"

definition unsupported :: "spec \<Rightarrow> naming \<Rightarrow> string list" where
  "unsupported sp n =
     (if \<not> single_machine n then [''naming.layout must be '' @ py_repr ''single-machine''] else []) @
     (if s_env_admin sp then [''env-admin is not supported in the single-machine layout (it restarts per-app '' @
        ''machines with per-app deploy tokens; there is one machine here). Deploy with '' @
        ''env_admin=False (fly-up --no-env-admin, implied by --single-machine) and reset '' @
        ''the instance from outside (fly-storage-clear / ControlPlane.reset_instance)''] else []) @
     (if dict_has (s_images sp) ''siros-verifier'' then [''siros-verifier is supported only in the apps layout''] else []) @
     (if s_conformance sp then [''the conformance suite is not supported in the single-machine layout (its nginx '' @
        ''image hard-codes server:8080)''] else []) @
     (if flat_host_problem n \<noteq> [] then [flat_host_problem n] else []) @
     (if s_layout sp \<noteq> LAYOUT_SINGLE_MACHINE then [''spec.layout is '' @ py_repr (s_layout sp)] else [])"

definition check_unsupported :: "spec \<Rightarrow> naming \<Rightarrow> exn + unit" where
  "check_unsupported sp n =
     (if unsupported sp n \<noteq> []
      then Inl (DeployError (''cannot deploy a single-machine instance: '' @ join_with ''; '' (unsupported sp n))) else Inr ())"

text \<open>The password as the running container has it, read on every machine; the last answer counts.\<close>

fun password_in_container :: "'w machines \<Rightarrow> string \<Rightarrow> mc_machine list \<Rightarrow> string \<Rightarrow> 'w \<Rightarrow> ('w, string) outcome" where
  "password_in_container mc a [] found w = (Inr found, w)"
| "password_in_container mc a (m # ms) found w =
     (case m_exec mc a (mm_id m) [''cat'', SECRETS_DIR @ ''/mongoRootPassword''] ''mongodb'' 30 w of
        (Inr x, w') \<Rightarrow> password_in_container mc a ms (if ex_code x = Some 0 then py_strip (ex_stdout x) else found) w'
      | (Inl (MachinesError _ _), w') \<Rightarrow> password_in_container mc a ms found w'
      | (Inl e, w') \<Rightarrow> (Inl e, w'))"

definition unread_single :: "string \<Rightarrow> string \<Rightarrow> exn" where
  "unread_single a env = DeployError (a @ '' has a data volume but this machine has no cached Mongo root password and the mongodb '' @
     ''container could not be read. Deploying a new password would lock every consumer out of the '' @
     ''data: restore the instance's state (fly-'' @ env @ ''/mongoRootPassword), or destroy the '' @
     ''instance's data first (fly-down without --keep-data).'')"

definition resolve_mongo_password_single :: "'w single \<Rightarrow> naming \<Rightarrow> abs_path \<Rightarrow> ('w bench, exn, string) act" where
  "resolve_mongo_password_single k n out =
     (let cached = out @ [''mongoRootPassword'']; a = machine_app n; f = sk_fly k in
      seq (has_file cached) (\<lambda>there.
      if there then seq (read_file cached) (\<lambda>t. give (py_strip t))
      else seq (at_world (app_exists f a)) (\<lambda>ex.
      seq (if ex then seq (at_world (list_volumes f a)) (\<lambda>vs. give (list_ex live_volume vs)) else give False) (\<lambda>has_volume.
      if has_volume then
        seq (at_world (m_list_machines (sk_machines k) a None True)) (\<lambda>ms.
        seq (at_world (password_in_container (sk_machines k) a ms [])) (\<lambda>v.
        if v = [] then refuse (unread_single a (n_env n))
        else seq (write_file cached v) (\<lambda>_. give v)))
      else persistent_secret (sk_kit k) out ''mongoRootPassword''))))"

definition check_signing_key :: "'w single \<Rightarrow> naming \<Rightarrow> abs_path \<Rightarrow> ('w bench, exn, unit) act" where
  "check_signing_key k n pki_dir =
     (let a = machine_app n in
      seq (has_file (pki_dir @ [signing_key])) (\<lambda>there.
      if there then give ()
      else seq (at_world (app_exists (sk_fly k) a)) (\<lambda>ex.
      seq (if ex then at_world (existing_secret_names (sk_fly k) a) else give []) (\<lambda>names.
      if ex \<and> ''SIROSID_VC_SIGNING_KEY'' \<in> set names
      then refuse (DeployError (''Refusing to continue: no local PKI at '' @ path_text pki_dir @ '', but '' @ a @
             '' already has a signing key from an earlier deploy. Restore the instance's state (fly-'' @ n_env n @
             ''/vc-pki), or destroy it first.''))
      else give ()))))"

definition ensure_public_ips :: "'w single \<Rightarrow> string \<Rightarrow> 'w \<Rightarrow> ('w, unit) outcome" where
  "ensure_public_ips k a =
     (let f = sk_fly k in
      seq (run f [''ips'', ''list'', ''-a'', a, ''--json''] False True) (\<lambda>r.
      let kinds = map py_lower (if cr_code r = 0 then (case loads_or (sk_ip_types k) (cr_out r) of None \<Rightarrow> [] | Some ks \<Rightarrow> ks) else []) in
      seq (only_if (\<not> list_ex (\<lambda>t. starts_with ''v4'' t \<or> t = ''shared_v4'') kinds)
             (seq (run f [''ips'', ''allocate-v4'', ''--shared'', ''-a'', a] True False) (\<lambda>_. give ()))) (\<lambda>_.
      only_if (\<not> list_ex (starts_with ''v6'') kinds) (seq (run f [''ips'', ''allocate-v6'', ''-a'', a] True False) (\<lambda>_. give ())))))"

text \<open>\<open>for name in spec.images\<close>: an override that is an image of the local docker is pushed.\<close>

fun push_local_images :: "'w kit \<Rightarrow> string \<Rightarrow> string list \<Rightarrow> string dict \<Rightarrow> 'w \<Rightarrow> ('w, string dict) outcome" where
  "push_local_images kt a [] images = give images"
| "push_local_images kt a (x # xs) images =
     (case map_of images x of
        None \<Rightarrow> push_local_images kt a xs images
      | Some i \<Rightarrow>
          seq (is_local_docker_image kt i) (\<lambda>local.
          if local then seq (push_local_image kt a i) (\<lambda>r. push_local_images kt a xs (AList.update x r images))
          else push_local_images kt a xs images))"

text \<open>
  \<open>_set_secrets\<close>: what is not set yet, and the root password of a new volume. The result is
  the highest version written.
\<close>

definition secret_content :: "'w kit \<Rightarrow> abs_path \<Rightarrow> string \<Rightarrow> ('w bench, exn, bytes) act" where
  "secret_content kt out src =
     (if CHR ''/'' \<in> set src then read_file (out @ split_on CHR ''/'' src) else persistent_secret kt out src)"

definition later_version :: "int option \<Rightarrow> int \<Rightarrow> int option" where
  "later_version v x = Some (max (case v of None \<Rightarrow> 0 | Some y \<Rightarrow> y) x)"

fun set_each :: "'w single \<Rightarrow> string \<Rightarrow> abs_path \<Rightarrow> (string \<Rightarrow> bool) \<Rightarrow>
    (string \<times> string \<times> (string \<times> string) list) list \<Rightarrow> int option \<Rightarrow> ('w bench, exn, int option) act" where
  "set_each k a out skip [] v = give v"
| "set_each k a out skip ((name, src, ts) # ss) v =
     (if skip name then set_each k a out skip ss v
      else seq (secret_content (sk_kit k) out src) (\<lambda>content.
        seq (at_world (set_secret (sk_machines k) a name (base64_text content))) (\<lambda>x.
        set_each k a out skip ss (later_version v x))))"

definition keeps_secret :: "string list \<Rightarrow> bool \<Rightarrow> string \<Rightarrow> bool" where
  "keeps_secret names force_mongo name \<longleftrightarrow> name \<in> set names \<and> \<not> (force_mongo \<and> name = ''SIROSID_MONGO_ROOT_PASSWORD'')"

definition set_secrets :: "'w single \<Rightarrow> string \<Rightarrow> abs_path \<Rightarrow> bool \<Rightarrow> ('w bench, exn, int option) act" where
  "set_secrets k a out force_mongo =
     seq (at_world (existing_secret_names (sk_fly k) a)) (\<lambda>names.
     seq (active_secrets (sk_builder k) out) (\<lambda>ss.
     set_each k a out (keeps_secret names force_mongo) ss None))"

definition bundle_tag :: "(bytes \<Rightarrow> bytes) \<Rightarrow> bytes dict \<Rightarrow> string" where
  "bundle_tag sha256 files = ''cfg-'' @ take 16 (hex_text (sha256 (dumps (\<lambda>_. []) one_line_json 0
     (JList (map (\<lambda>(p, b). JList [JStr p, JStr (hex_text (sha256 b))]) (sort_key fst files))))))"

definition push_bundle :: "'w single \<Rightarrow> string \<Rightarrow> bytes dict \<Rightarrow> 'w \<Rightarrow> ('w, string) outcome" where
  "push_bundle k a files =
     (let tag = bundle_tag (bd_sha256 (sk_builder k)) files;
          push = (\<lambda>credential. registry_push (sk_registry k) ''registry.fly.io'' ''x'' credential a tag files);
          mint = create_deploy_token (sk_kit k) a ''sirosid-bundle-push'' ''1h'' in
      case sk_push k of
        Some p \<Rightarrow> p a tag files
      | None \<Rightarrow>
          if sk_credential k \<noteq> [] then push (sk_credential k)
          else seq (handled (seq mint (\<lambda>t. give (Some t)))
                 (\<lambda>e. case e of FlyError _ \<Rightarrow> Some (give None) | _ \<Rightarrow> None)) (\<lambda>minted.
               case minted of
                 None \<Rightarrow> push (ma_token (sk_machines k))
               | Some t \<Rightarrow> ended_by (push t) (seq (revoke_tokens (sk_fly k) a ''sirosid-bundle-push'') (\<lambda>_. give ()))))"

section \<open>The machine\<close>

text \<open>An unchanged config is not applied again, since an update restarts every container.\<close>

definition apply_config :: "'w machines \<Rightarrow> string \<Rightarrow> string \<Rightarrow> json \<Rightarrow> string \<Rightarrow> int option \<Rightarrow> 'w \<Rightarrow> ('w, mc_machine) outcome" where
  "apply_config mc a region config hash version =
     seq (m_list_machines mc a None True) (\<lambda>ms.
     case ms of
       [] \<Rightarrow> create_machine mc a config region (a @ ''-m'') version
     | m # rest \<Rightarrow>
         if rest \<noteq> [] then refuse (DeployError (a @ '' has '' @ show_nat (length ms) @ '' machines; the single-machine layout expects one. '' @
           ''Destroy the extra ones (flyctl machine list -a '' @ a @ '').''))
         else if mm_config_hash m = Some hash \<and> version = None
         then seq (only_if (mm_state m \<noteq> Some ''started'') (seq (start_machine mc a (mm_id m)) (\<lambda>_. give ()))) (\<lambda>_. give m)
         else seq (update_machine mc a (mm_id m) config version) (\<lambda>m'.
           seq (only_if (mm_state m \<noteq> Some ''started'')
                  (seq (wait_version mc a (mm_id m') ''stopped'' (mm_version m') 120) (\<lambda>_.
                   seq (start_machine mc a (mm_id m')) (\<lambda>_. give ())))) (\<lambda>_. give m')))"

definition await_machine :: "'w single \<Rightarrow> string \<Rightarrow> mc_machine \<Rightarrow> machine_config \<Rightarrow> 'w \<Rightarrow> ('w, unit) outcome" where
  "await_machine k a m config =
     (let mc = sk_machines k in
      seq (wait_version mc a (mm_id m) ''started'' (mm_version m) 300) (\<lambda>_.
      seq (value_of (readiness (Some (container_configs config)))) (\<lambda>want.
      seq (wait_containers mc a (mm_id m) want (sk_ready_timeout k)) (\<lambda>_.
      seq (uncordon mc a (mm_id m)) (\<lambda>_. give ())))))"

section \<open>The deploy\<close>

definition STEPS :: "string list" where
  "STEPS = [''render'', ''pki'', ''app'', ''volume'', ''secrets'', ''bundle'', ''machine'', ''containers'', ''register'']"

definition next_step :: "string list \<Rightarrow> string" where
  "next_step done = (case find (\<lambda>st. st \<notin> set done) STEPS of None \<Rightarrow> ''register'' | Some st \<Rightarrow> st)"

text \<open>The handlers of the deploy. \<open>where_at\<close> is the component the error names itself, if it does.\<close>

definition single_failed :: "string option \<Rightarrow> string list \<Rightarrow> exn \<Rightarrow> stop" where
  "single_failed where_at done e =
     (case e of
        DeployError m \<Rightarrow> Halted m (Some (case where_at of None \<Rightarrow> next_step done | Some x \<Rightarrow> x)) done
      | FlyError m \<Rightarrow> Halted m (Some (next_step done)) done
      | MachinesError m _ \<Rightarrow> Halted m (Some (next_step done)) done
      | OtherError c m \<Rightarrow> if c = ''RegistryError'' then Halted m (Some (next_step done)) done else Escaped e
      | _ \<Rightarrow> Escaped e)"

text \<open>\<open>m\<close> after the first \<open>j\<close> steps.\<close>

definition at_step :: "nat \<Rightarrow> ('w bench, exn, 'a) act \<Rightarrow> ('w bench, stop, 'a) act" where
  "at_step j = rethrow (single_failed None (take j STEPS))"

definition at_step_of :: "string \<Rightarrow> nat \<Rightarrow> ('w bench, exn, 'a) act \<Rightarrow> ('w bench, stop, 'a) act" where
  "at_step_of x j = rethrow (single_failed (Some x) (take j STEPS))"

definition single_images :: "component list \<Rightarrow> spec \<Rightarrow> json list \<Rightarrow> string \<Rightarrow> exn + string dict" where
  "single_images cs sp docs version = all_right (map (\<lambda>name.
     case find (\<lambda>x. c_name x = name) cs of
       None \<Rightarrow> Inl (KeyError name)
     | Some x \<Rightarrow> map_sum id (Pair name) (resolve_image x sp docs version)) CONTAINER_COMPONENTS)"

definition check_before :: "spec \<Rightarrow> naming \<Rightarrow> exn + identity list" where
  "check_before sp n =
     bind_sum (check_unsupported sp n) (\<lambda>_.
     if s_region sp = [] then Inl (DeployError ''InstanceSpec.region is empty - resolve a region before deploying'')
     else spec_identities sp)"

definition prepare_with_password ::
  "'w single \<Rightarrow> spec \<Rightarrow> naming \<Rightarrow> abs_path \<Rightarrow> identity list \<Rightarrow> component list \<Rightarrow> bool \<Rightarrow> string
   \<Rightarrow> ('w bench, stop, 'w deploy_ctx \<times> string dict \<times> signers \<times> bytes dict) act" where
  "prepare_with_password k sp n out ids cs render_only password =
     (let b = sk_builder k in
      seq (at_step 0 (render_config b sp n ids (s_trusted_verifiers sp) password)) (\<lambda>docs.
      seq (at_step 1 (value_of (extract_image docs ''mongoCommunityVersion''))) (\<lambda>version.
      seq (at_step 1 (value_of (single_images cs sp docs version))) (\<lambda>images.
      let c = \<lparr>dc_builder = b, dc_naming = n, dc_spec = sp, dc_docs = docs, dc_mongo_version = version, dc_out_dir = out,
               dc_pki_dir = [], dc_assetlinks = [], dc_mongo_password = password\<rparr> in
      seq (at_step_of ''pki'' 1 (only_if (\<not> render_only) (check_signing_key k n (out @ [''vc-pki''])))) (\<lambda>_.
      seq (at_step 1 (generate_pki c)) (\<lambda>pki.
      seq (at_step 1 (generate_android_assets c ids)) (\<lambda>links.
      let c1 = c\<lparr>dc_pki_dir := pki, dc_assetlinks := links\<rparr> in
      seq (at_step 1 (read_signers c1)) (\<lambda>sg.
      seq (at_step 2 (bundle_files out)) (\<lambda>files.
      give (c1, images, sg, files))))))))))"

definition prepare_single ::
  "'w single \<Rightarrow> spec \<Rightarrow> naming \<Rightarrow> abs_path \<Rightarrow> bool \<Rightarrow> ('w bench, stop, 'w deploy_ctx \<times> string dict \<times> signers \<times> bytes dict) act" where
  "prepare_single k sp n dir render_only =
     (let b = sk_builder k; out = dir @ [''fly-'' @ n_env n] in
      seq (rethrow unplaced (value_of (check_before sp n))) (\<lambda>ids.
      seq (rethrow unplaced (value_of (pinned_components (bd_values_fly b)))) (\<lambda>pinned.
      seq (at_step_of ''mongodb'' 0 (if render_only then persistent_secret (bd_kit b) out ''mongoRootPassword''
             else resolve_mongo_password_single k n out))
        (prepare_with_password k sp n out ids pinned render_only))))"

definition write_config :: "abs_path \<Rightarrow> json \<Rightarrow> ('w bench, exn, unit) act" where
  "write_config out config = write_file (out @ [''machine-config.json'']) (dumps (\<lambda>_. []) (indented 1) 0 (sorted_keys config))"

definition single_result :: "'w deploy_ctx \<Rightarrow> string dict \<Rightarrow> deploy_result" where
  "single_result c images = \<lparr>dr_images = images, dr_deployed = [], dr_urls = [], dr_admin_token = [],
     dr_mongo_password = dc_mongo_password c, dr_machine = None, dr_rendered_only = False\<rparr>"

text \<open>The config, written down and checked. \<open>version\<close> is the version the request asks for.\<close>

definition checked_config ::
  "'w single \<Rightarrow> 'w deploy_ctx \<Rightarrow> string dict \<Rightarrow> string \<Rightarrow> string \<Rightarrow> signers \<Rightarrow> nat \<Rightarrow> ('w bench, stop, machine_config) act" where
  "checked_config k c images bundle_ref volume_id sg j =
     seq (at_step j (build_machine_config c images bundle_ref volume_id sg (sk_guest k))) (\<lambda>config.
     seq (at_step j (write_config (dc_out_dir c) (config_json (bd_sha256 (sk_builder k)) config))) (\<lambda>_.
     seq (at_step_of ''config'' j (value_of (check_block_devices config))) (\<lambda>_. give config)))"

definition check_size :: "json \<Rightarrow> string \<Rightarrow> int option \<Rightarrow> exn + unit" where
  "check_size config region version =
     (let size = request_size config region version in
      if MAX_CONFIG_BYTES < size
      then Inl (DeployError (''machine config is '' @ show_nat size @ '' bytes; the Machines API refuses bodies near 1 MiB '' @
             ''(limit used here: '' @ show_nat MAX_CONFIG_BYTES @ ''). Move large files into the bundle.''))
      else Inr ())"

definition volume_id_of :: "string \<Rightarrow> fly_volume option \<Rightarrow> exn + string" where
  "volume_id_of a v = (case map_option fv_id v of
     Some (x # xs) \<Rightarrow> Inr (x # xs) | _ \<Rightarrow> Inl (DeployError (a @ '': could not determine the Mongo volume's id'')))"

definition finish_single ::
  "'w single \<Rightarrow> 'w deploy_ctx \<Rightarrow> string dict \<Rightarrow> string \<Rightarrow> ('w bench, stop, deploy_result) act" where
  "finish_single k c images machine_id =
     (let sp = dc_spec c; n = dc_naming c; b = sk_builder k; fly_url = ''https://'' @ machine_app n @ ''.fly.dev'' in
      seq (at_step 8 (persistent_secret (sk_kit k) (dc_out_dir c) ''adminToken'')) (\<lambda>token.
      seq (at_step 8 (case bd_register b of None \<Rightarrow> give ()
             | Some register \<Rightarrow> at_world (register_vc_services b n register token (if s_public_ips sp then fly_url else []) []))) (\<lambda>_.
      let steps = (if bd_register b = None then 8 else 9) in
      seq (at_step steps (value_of (urls_of n PUBLIC_COMPONENTS))) (\<lambda>us.
      give ((single_result c images)
        \<lparr>dr_deployed := take steps STEPS, dr_admin_token := token, dr_machine := Some machine_id,
         dr_urls := us @ (if s_public_ips sp then [(''fly.dev'', fly_url)] else [])\<rparr>)))))"

definition publish_single ::
  "'w single \<Rightarrow> 'w deploy_ctx \<Rightarrow> string dict \<Rightarrow> signers \<Rightarrow> bytes dict \<Rightarrow> ('w bench, stop, deploy_result) act" where
  "publish_single k c images0 sg files =
     (let sp = dc_spec c; n = dc_naming c; a = machine_app n; f = sk_fly k; sha = bd_sha256 (sk_builder k) in
      seq (at_step 2 (at_world (ensure_app f a (if s_public_ips sp then Some (network n) else None) False))) (\<lambda>_.
      seq (at_step 2 (only_if (s_public_ips sp) (at_world (ensure_public_ips k a)))) (\<lambda>_.
      seq (at_step 2 (at_world (push_local_images (sk_kit k) a (map fst (s_images sp)) images0))) (\<lambda>images.
      seq (at_step 3 (at_world (ensure_volume f a (volume_name ''mongodb'') (s_region sp) volume_size_gb))) (\<lambda>v.
      seq (at_step_of ''mongodb'' 3 (value_of (volume_id_of a (fst v)))) (\<lambda>vid.
      seq (at_step 4 (set_secrets k a (dc_out_dir c) (snd v))) (\<lambda>version.
      seq (at_step 5 (at_world (push_bundle k a files))) (\<lambda>bundle_ref.
      seq (checked_config k c images bundle_ref vid sg 6) (\<lambda>config.
      seq (at_step_of ''config'' 6 (value_of (check_size (config_json sha config) (s_region sp) version))) (\<lambda>_.
      seq (at_step 6 (at_world (apply_config (sk_machines k) a (s_region sp) (config_json sha config) (config_hash sha config) version))) (\<lambda>m.
      seq (at_step 7 (at_world (await_machine k a m config))) (\<lambda>_.
      finish_single k c images (mm_id m)))))))))))))"

definition render_only_ref :: string where
  "render_only_ref = ''registry.fly.io/<render-only>@sha256:'' @ replicate 64 CHR ''0''"

text \<open>The size of the request is left out of the result of a rendering.\<close>

definition deploy_single_machine :: "'w single \<Rightarrow> spec \<Rightarrow> naming \<Rightarrow> abs_path \<Rightarrow> bool \<Rightarrow> ('w bench, stop, deploy_result) act" where
  "deploy_single_machine k sp n dir render_only =
     seq (prepare_single k sp n dir render_only) (\<lambda>(c, images, sg, files).
     if render_only
     then seq (checked_config k c images render_only_ref ''vol_render_only'' sg 2) (\<lambda>_.
          give ((single_result c images)\<lparr>dr_rendered_only := True\<rparr>))
     else publish_single k c images sg files)"

definition single_deployer ::
  "'w single \<Rightarrow> spec \<Rightarrow> naming \<Rightarrow> abs_path \<Rightarrow> files \<Rightarrow> 'w \<Rightarrow> (exn + string dict) \<times> files \<times> 'w" where
  "single_deployer k sp n dir fs w =
     (case deploy_single_machine k sp n dir False \<lparr>bn_files = fs, bn_world = w\<rparr> of
        (r, s) \<Rightarrow> (case r of Inl t \<Rightarrow> Inl (stop_exn t) | Inr d \<Rightarrow> Inr (dr_urls d), bn_files s, bn_world s))"

end
