(* ===== verification/Rollout.thy ===== *)
theory Rollout
  imports Single Demo
begin

text \<open>
  Properties of the two deploys. What a deploy leaves of the generated state is a frame over
  all its steps: the secrets that are generated once stay as they are, whatever happens.
\<close>

section \<open>Generated secrets are kept\<close>

text \<open>The state files that no step writes again; the token of the WMP engine is issued anew.\<close>

definition ONCE :: "string list" where
  "ONCE = filter (\<lambda>x. x \<noteq> ''enginePdpToken'') STATE_FILES"

lemma ONCE_eq: "ONCE = [''mongoRootPassword'', ''jwtSecret'', ''adminToken'', ''apiAuthKey.pem'', ''sirosVerifierStateKey'',
    ''sirosVerifierPreviousStateKey'', ''sirosVerifierMongoPassword'']"
  by (simp add: ONCE_def STATE_FILES_def)

text \<open>Those, and the secrets of the vc services.\<close>

definition generated :: "abs_path \<Rightarrow> abs_path \<Rightarrow> bool" where
  "generated out p \<longleftrightarrow> (\<exists>x\<in>set ONCE. p = out @ [x]) \<or> (\<exists>x. p = out @ [VC_SECRETS_DIR, x])"

lemma generated_append [simp]:
  "generated out (out @ [x]) \<longleftrightarrow> x \<in> set ONCE" "generated out (out @ [d, x]) \<longleftrightarrow> d = VC_SECRETS_DIR"
  by (auto simp: generated_def)

definition once_kept :: "abs_path \<Rightarrow> 'w bench \<Rightarrow> 'w bench \<Rightarrow> bool" where
  "once_kept out s t \<longleftrightarrow> (\<forall>p v. generated out p \<longrightarrow> file_at s p = Some v \<longrightarrow> file_at t p = Some v)"

interpretation once: frame "once_kept out" for out
  by unfold_locales (auto simp: once_kept_def)

lemmas once_rules = once.keeps_seq once.keeps_simple once.keeps_only_if once.keeps_each once.keeps_rethrow once.keeps_if
  once.keeps_option once.keeps_prod once.keeps_list once.keeps_ended_by once.keeps_handled

lemma once_files [simp]:
  "once.keeps out (read_file p)" "once.keeps out (has_file p)" "once.keeps out (list_dir p)" "once.keeps out (at_world m)"
  by (simp_all add: once.keeps_def once_kept_def file_at_world)

lemma once_write_other: "\<not> generated out p \<Longrightarrow> once.keeps out (write_file p b)"
  by (auto simp: once.keeps_def once_kept_def file_at_write)

lemma once_write: "x \<notin> set ONCE \<Longrightarrow> once.keeps out (write_file (out @ [x]) b)"
  by (rule once_write_other) simp

lemma once_write_new: "file_at s p = None \<Longrightarrow> once_kept out s (snd (write_file p b s))"
  by (auto simp: once_kept_def file_at_write)

lemma once_persistent [simp]: "once.keeps out (persistent_secret k dir name)"
proof (rule once.keepsI)
  fix s :: "'a bench" and r s'
  assume "persistent_secret k dir name s = (r, s')"
  then show "once_kept out s s'"
    by (auto simp: persistent_secret_def seq_def has_file_def refuse_def read_file_def at_world_def random_secret_def write_file_def
        Let_def once_kept_def file_at_def update_conv' split: if_splits prod.splits option.splits)
qed

text \<open>What is assumed of the PKI script and the renderer: they leave the secrets that are there.\<close>

definition tidy :: "'w builder \<Rightarrow> abs_path \<Rightarrow> bool" where
  "tidy b out \<longleftrightarrow> (\<forall>args env s. once_kept out s (snd (kt_exec (bd_kit b) args env s))) \<and>
     (\<forall>sp n hs vs p s. last out = ''fly-'' @ n_env n \<longrightarrow> once_kept out s (snd (bd_render b sp n hs vs p s)))"

subsection \<open>The steps of the apps layout\<close>

lemmas once_unfold = Let_def with_url_def with_addr_def

lemma once_set_secret [simp]: "once.keeps out (set_secret_on c a key val force)"
  by (simp add: set_secret_on_def)

lemma once_pki_check [simp]: "once.keeps out (check_pki_consistency c dir)"
  unfolding check_pki_consistency_def once_unfold by (intro once_rules) simp_all

lemma once_exec: "tidy b out \<Longrightarrow> once.keeps out (\<lambda>s. case kt_exec (bd_kit b) args env s of (code, s') \<Rightarrow> (f code, s'))"
  by (auto simp: once.keeps_def tidy_def split: prod.splits) (metis snd_conv)

lemma once_generate_pki: "tidy (dc_builder c) out \<Longrightarrow> once.keeps out (generate_pki c)"
  unfolding generate_pki_def once_unfold
  by (intro once_rules once_exec) simp_all

lemma once_dir_args [simp]: "once.keeps out (dir_args target dir P)"
  unfolding dir_args_def by (intro once_rules) simp_all

lemma once_opening [simp]: "once.keeps out (opening_args c a path)"
  unfolding opening_args_def once_unfold by (intro once_rules) simp_all

lemma once_apigw [simp]: "once.keeps out (apigw_secret_args c a)"
  unfolding apigw_secret_args_def by (intro once_rules) simp_all

lemma once_vc_files [simp]: "once.keeps out (vc_service_files c a service m p bo)"
  unfolding vc_service_files_def once_unfold by (intro once_rules) simp_all

lemma once_image [simp]: "once.keeps out (component_image c x)"
  unfolding component_image_def once_unfold by (auto intro!: once_rules split: option.split image_source.split)

lemma once_read_signers [simp]: "once.keeps out (read_signers c)"
  unfolding read_signers_def by (intro once_rules) simp_all

lemma once_assets: "once.keeps (dc_out_dir c) (generate_android_assets c ids)"
  unfolding generate_android_assets_def once_unfold by (intro once_rules once_write) (simp_all add: ONCE_eq)

lemma once_env_admin_image [simp]: "once.keeps out (env_admin_image c a img)"
  unfolding env_admin_image_def once_unfold by (intro once_rules) simp_all

lemma once_consumer_token [simp]: "once.keeps out (consumer_token c name)"
  unfolding consumer_token_def once_unfold by (intro once_rules) simp_all

lemma once_register [simp]: "once.keeps out (prepare_volume c a x)"
  unfolding prepare_volume_def by (intro once_rules) simp_all

lemma once_mongodb_args: "once.keeps out (mongodb_args c a fresh)"
  unfolding mongodb_args_def by (intro once_rules) simp_all

lemma once_mini_oidc_args: "once.keeps (dc_out_dir c) (mini_oidc_args c)"
  unfolding mini_oidc_args_def once_unfold by (intro once_rules once_write) (simp_all add: ONCE_eq)

lemma once_siros_args: "once.keeps out (siros_verifier_args c a)"
  unfolding siros_verifier_args_def once_unfold by (intro once_rules) simp_all

lemma once_backend_args: "once.keeps out (wallet_backend_args c a ri)"
  unfolding wallet_backend_args_def once_unfold by (intro once_rules) simp_all

lemma once_proxy_args: "once.keeps (dc_out_dir c) (wallet_proxy_args c)"
  unfolding wallet_proxy_args_def once_unfold by (intro once_rules once_write) (simp_all add: ONCE_eq)

lemma once_wmp_args: "once.keeps (dc_out_dir c) (wmp_engine_args c a)"
  unfolding wmp_engine_args_def once_unfold by (intro once_rules once_write) (simp_all add: ONCE_eq)

lemma once_frontend_args: "once.keeps (dc_out_dir c) (wallet_frontend_args c)"
  unfolding wallet_frontend_args_def once_unfold by (intro once_rules once_write) (simp_all add: ONCE_eq)

lemma once_conformance_server_args: "once.keeps out (conformance_server_args c)"
  unfolding conformance_server_args_def once_unfold by (intro once_rules; simp)

lemma once_conformance_args: "once.keeps (dc_out_dir c) (conformance_args c)"
  unfolding conformance_args_def once_unfold by (intro once_rules once_write) (simp_all add: ONCE_eq)

lemma once_env_admin_args: "once.keeps out (env_admin_args c a)"
  unfolding env_admin_args_def once_unfold by (intro once_rules) simp_all

lemma once_runner_args: "once.keeps out (conformance_runner_args c a)"
  unfolding conformance_runner_args_def once_unfold by (intro once_rules) simp_all

lemmas once_args = once_mongodb_args once_mini_oidc_args once_siros_args once_backend_args once_proxy_args once_wmp_args
  once_frontend_args once_conformance_server_args once_conformance_args once_env_admin_args once_runner_args

lemma once_component_args: "once.keeps (dc_out_dir c) (component_args c name a ri fresh)"
  unfolding component_args_def by (intro once.keeps_if once_args once_vc_files once.keeps_simple)

text \<open>The name of a configuration file that ends like a fly.toml is no state file.\<close>

lemma toml_not_once: "name @ ''.fly.toml'' \<notin> set ONCE"
proof
  assume "name @ ''.fly.toml'' \<in> set ONCE"
  then have "last (name @ ''.fly.toml'') \<in> last ` set ONCE" by (rule imageI)
  then show False by (simp add: ONCE_eq)
qed

lemma once_deploy_component: "once.keeps (dc_out_dir c) (deploy_component c x)"
  unfolding deploy_component_def once_unfold
  by (intro once_rules once_write once_component_args toml_not_once) simp_all

lemma once_deploy_all: "once.keeps (dc_out_dir c) (deploy_all c xs done)"
  by (induction xs arbitrary: "done") (auto intro!: once_rules once_deploy_component)


subsection \<open>The password of the database\<close>

lemma alphabet_no_space: "c \<in> set SECRET_ALPHABET \<Longrightarrow> \<not> is_space c"
  unfolding SECRET_ALPHABET_def by (auto simp: is_space_def)

lemma drawn_keep: "set t \<subseteq> set SECRET_ALPHABET \<Longrightarrow> py_strip t = t"
  by (rule py_strip_keep) (auto dest: alphabet_no_space)

definition password_kept :: "abs_path \<Rightarrow> string \<Rightarrow> 'w bench \<Rightarrow> bool" where
  "password_kept out v s \<longleftrightarrow> (\<exists>t. file_at s (out @ [''mongoRootPassword'']) = Some t \<and> py_strip t = v)"

lemma password_stays: "once_kept out s t \<Longrightarrow> password_kept out v s \<Longrightarrow> password_kept out v t"
  by (auto simp: password_kept_def once_kept_def generated_def ONCE_eq)

lemma persistent_password: "persistent_secret k out ''mongoRootPassword'' s = (Inr v, s') \<Longrightarrow> password_kept out v s'"
  by (auto simp: persistent_secret_def STATE_FILES_def seq_def has_file_def read_file_def at_world_def random_secret_def write_file_def
      password_kept_def file_at_def update_conv' Let_def split: prod.splits if_splits option.splits
      dest!: draw_chars_ok simp: drawn_keep)

lemma read_machine_file_strip: "read_machine_file k a p w = (Inr v, w') \<Longrightarrow> py_strip v = v"
  by (auto simp: read_machine_file_def seq_Inr_iff split: if_splits)

lemma resolved_password: "resolve_mongo_password k n out s = (Inr v, s') \<Longrightarrow> password_kept out v s'"
  unfolding resolve_mongo_password_def Let_def
  by (auto simp: seq_Inr_iff has_file_def read_file_def write_file_def password_kept_def file_at_def update_conv' at_world_iff
      split: if_splits option.splits dest!: read_machine_file_strip persistent_password)


text \<open>A step that writes one file only, and only when it is missing.\<close>

definition others_kept :: "abs_path \<Rightarrow> 'w bench \<Rightarrow> 'w bench \<Rightarrow> bool" where
  "others_kept p s t \<longleftrightarrow> (\<forall>q. q \<noteq> p \<longrightarrow> file_at t q = file_at s q)"

interpretation others: frame "others_kept p" for p
  by unfold_locales (auto simp: others_kept_def)

lemma others_files [simp]:
  "others.keeps p (read_file q)" "others.keeps p (has_file q)" "others.keeps p (at_world m)" "others.keeps p (write_file p b)"
  by (simp_all add: others.keeps_def others_kept_def file_at_world file_at_write)

lemma others_persistent [simp]: "others.keeps (dir @ [name]) (persistent_secret k dir name)"
  unfolding persistent_secret_def Let_def by (intro others.keeps_seq others.keeps_if others.keeps_simple) simp_all

lemma new_file_kept: "others_kept p s t \<Longrightarrow> file_at s p = None \<Longrightarrow> once_kept out s t"
  by (auto simp: others_kept_def once_kept_def) (metis option.distinct(1))

lemma once_if_missing:
  assumes "others.keeps p m" and "once.keeps out k"
  shows "once.keeps out (seq (has_file p) (\<lambda>there. if there then k else m))"
  unfolding once.keeps_def
proof
  fix s
  show "once_kept out s (snd (seq (has_file p) (\<lambda>there. if there then k else m) s))"
    using assms new_file_kept [of p s "snd (m s)" out]
    by (cases "file_at s p") (auto simp: seq_def has_file_def once.keeps_def others.keeps_def)
qed

lemma once_resolve [simp]: "once.keeps out (resolve_mongo_password k n out)"
  unfolding resolve_mongo_password_def Let_def
  by (intro once_if_missing others.keeps_seq others.keeps_if others.keeps_simple once_rules) simp_all

subsection \<open>The whole deploy\<close>

definition out_dir :: "abs_path \<Rightarrow> naming \<Rightarrow> abs_path" where
  "out_dir dir n = dir @ [''fly-'' @ n_env n]"

lemma last_out_dir [simp]: "last (out_dir dir n) = ''fly-'' @ n_env n"
  by (simp add: out_dir_def)

lemma once_verifier [simp]: "tidy (dc_builder c) out \<Longrightarrow> once.keeps out (verifier_identity c)"
  unfolding verifier_identity_def once_unfold by (intro once_rules once_generate_pki) simp_all

lemma once_render [simp]: "tidy b out \<Longrightarrow> last out = ''fly-'' @ n_env n \<Longrightarrow> once.keeps out (render_config b sp n ids vs p)"
  unfolding render_config_def by (intro once_rules) (simp add: once.keeps_def tidy_def)

lemma once_prepare: "tidy b (out_dir dir n) \<Longrightarrow> once.keeps (out_dir dir n) (prepare_deploy b sp n dir)"
  unfolding prepare_deploy_def once_unfold out_dir_def by (intro once_rules) simp_all

lemma prepare_ctx:
  assumes "prepare_deploy b sp n dir s = (Inr (c, pki, ids, cs), t)" and "tidy b (out_dir dir n)"
  shows "dc_builder c = b \<and> dc_out_dir c = out_dir dir n \<and> dc_naming c = n \<and> dc_spec c = sp \<and>
    password_kept (out_dir dir n) (dc_mongo_password c) t"
proof -
  let ?out = "out_dir dir n"
  from assms(1) obtain v s1 c0 pv s2 docs where
    runs: "resolve_mongo_password (bd_kit b) n ?out s = (Inr v, s1)" "verifier_identity c0 s1 = (Inr pv, s2)"
      "render_config b sp n ids (snd pv) v s2 = (Inr docs, t)"
    and c: "dc_builder c0 = b" "dc_mongo_password c = v" "dc_builder c = b" "dc_out_dir c = ?out" "dc_naming c = n" "dc_spec c = sp"
    unfolding prepare_deploy_def Let_def out_dir_def [symmetric] by (auto simp: seq_Inr_iff split: if_splits)
  have "once_kept ?out s1 s2" "once_kept ?out s2 t"
    using once.keepsD [OF once_verifier runs(2)] once.keepsD [OF once_render [OF _ last_out_dir] runs(3)] assms(2) c(1) by auto
  with resolved_password [OF runs(1)] show ?thesis using c password_stays by blast
qed

lemma once_finish [simp]: "once.keeps out (finish_deploy_result c cs images done)"
  unfolding finish_deploy_result_def once_unfold by (intro once_rules) simp_all

lemma once_prepared:
  assumes "tidy (dc_builder c) (dc_out_dir c)"
  shows "once.keeps (dc_out_dir c) (deploy_prepared c pki ids cs render_only)"
  unfolding deploy_prepared_def once_unfold
  using once_deploy_all [of "c\<lparr>dc_pki_dir := _, dc_assetlinks := _\<rparr>"]
  by (intro once_rules once_generate_pki once_assets) (simp_all add: assms)

lemma prepared_password: "deploy_prepared c pki ids cs render_only s = (Inr d, t) \<Longrightarrow> dr_mongo_password d = dc_mongo_password c"
  by (auto simp: deploy_prepared_def finish_deploy_result_def seq_Inr_iff rethrow_Inr_iff Let_def split: if_splits)

text \<open>The deploy is its preparation, in a context with the password written down, and the rest.\<close>

lemma deploy_instance_cases:
  assumes "deploy_instance b sp n dir render_only s = (r, t)" and "tidy b (out_dir dir n)"
  obtains (unprepared) e where "prepare_deploy b sp n dir s = (Inl e, t)" "r = Inl (unplaced e)"
    | (prepared) c pki ids cs s1 where "prepare_deploy b sp n dir s = (Inr (c, pki, ids, cs), s1)"
        "deploy_prepared c pki ids cs render_only s1 = (r, t)" "dc_builder c = b" "dc_out_dir c = out_dir dir n"
        "password_kept (out_dir dir n) (dc_mongo_password c) s1"
proof (cases "prepare_deploy b sp n dir s")
  case (Pair x s1)
  show ?thesis
  proof (cases x)
    case (Inl e)
    with Pair assms(1) show ?thesis by (intro unprepared) (auto simp: deploy_instance_def seq_def rethrow_def)
  next
    case (Inr y)
    obtain c pki ids cs where y: "y = (c, pki, ids, cs)" by (cases y)
    with Pair Inr have p: "prepare_deploy b sp n dir s = (Inr (c, pki, ids, cs), s1)" by simp
    with assms(1) have "deploy_prepared c pki ids cs render_only s1 = (r, t)" by (simp add: deploy_instance_def seq_def rethrow_def)
    with p prepare_ctx [OF p assms(2)] show ?thesis by (intro prepared) auto
  qed
qed

lemma once_deploy_instance:
  assumes "deploy_instance b sp n dir render_only s = (r, t)" and "tidy b (out_dir dir n)"
  shows "once_kept (out_dir dir n) s t"
  using assms
proof (cases rule: deploy_instance_cases)
  case (unprepared e)
  then show ?thesis using once.keepsD [OF once_prepare] assms(2) by blast
next
  case (prepared c pki ids cs s1)
  then show ?thesis
    using once.R_trans once.keepsD [OF once_prepare [OF assms(2)] prepared(1)] once.keepsD [OF once_prepared prepared(2)] assms(2)
    by (metis (no_types))
qed

lemma deployed_password:
  assumes "deploy_instance b sp n dir render_only s = (Inr d, t)" and "tidy b (out_dir dir n)"
  shows "password_kept (out_dir dir n) (dr_mongo_password d) t"
  using assms
proof (cases rule: deploy_instance_cases)
  case (prepared c pki ids cs s1)
  then have "once_kept (out_dir dir n) s1 t" using once.keepsD [OF once_prepared] assms(2) by metis
  with prepared show ?thesis using password_stays by (simp add: prepared_password)
qed simp

subsection \<open>The single-machine layout\<close>

lemma once_active [simp]: "once.keeps out (active_secrets b dir)"
  unfolding active_secrets_def by (intro once_rules) simp_all

lemma once_bundle [simp]: "once.keeps out (bundle_files dir)"
  unfolding bundle_files_def bundle_dir_files_def by (intro once_rules) simp_all

lemma once_as_file [simp]: "once.keeps out (as_file target p)"
  unfolding as_file_def by (intro once_rules) simp_all

lemma once_dir_files [simp]: "once.keeps out (dir_files target dir)"
  unfolding dir_files_def by (intro once_rules) simp_all

lemma once_rewritten [simp]: "once.keeps out (rewritten_yaml b p mp)"
  unfolding rewritten_yaml_def by (intro once_rules) simp_all

lemma once_config [simp]: "once.keeps out (build_machine_config c images ref vol ids guest)"
  unfolding build_machine_config_def vc_part_def wallet_backend_part_def wallet_frontend_part_def with_image_def with_port_def once_unfold
  by (intro once_rules) simp_all

lemma once_single_password [simp]: "once.keeps out (resolve_mongo_password_single k n dir)"
  unfolding resolve_mongo_password_single_def Let_def
  by (intro once_if_missing others.keeps_seq others.keeps_if others.keeps_simple once_rules) simp_all

lemma once_signing_key [simp]: "once.keeps out (check_signing_key k n dir)"
  unfolding check_signing_key_def once_unfold by (intro once_rules) simp_all

lemma once_pair [simp]: "once.keeps out (Pair r)"
  by (simp add: once.keeps_def once_kept_def)

lemma once_set_each [simp]: "once.keeps out (set_each k a dir skip ss v)"
  by (induction k a dir skip ss v rule: set_each.induct) (auto simp: secret_content_def intro!: once_rules)

lemma once_set_secrets [simp]: "once.keeps out (set_secrets k a dir fm)"
  unfolding set_secrets_def by (intro once_rules) simp_all

lemma once_write_config: "once.keeps out (write_config out config)"
  unfolding write_config_def by (intro once_write) (simp add: ONCE_eq)

lemma once_at_step [intro]: "once.keeps out m \<Longrightarrow> once.keeps out (at_step j m)" "once.keeps out m \<Longrightarrow> once.keeps out (at_step_of x j m)"
  unfolding at_step_def at_step_of_def by (simp_all add: once.keeps_rethrow)

lemma once_checked_config: "once.keeps (dc_out_dir c) (checked_config k c images ref vol ids j)"
  unfolding checked_config_def by (intro once_rules once_at_step once_write_config) simp_all

lemma once_finish_single [simp]: "once.keeps out (finish_single k c images mid)"
  unfolding finish_single_def once_unfold by (intro once_rules once_at_step) simp_all

lemma once_publish: "once.keeps (dc_out_dir c) (publish_single k c images ids files)"
  unfolding publish_single_def once_unfold by (intro once_rules once_at_step once_checked_config) simp_all

lemma once_prepare_with:
  assumes "tidy (sk_builder k) out" and "last out = ''fly-'' @ n_env n"
  shows "once.keeps out (prepare_with_password k sp n out ids cs render_only password)"
  unfolding prepare_with_password_def once_unfold
  using once_assets [of "\<lparr>dc_builder = _, dc_naming = _, dc_spec = _, dc_docs = _, dc_mongo_version = _, dc_out_dir = out,
    dc_pki_dir = _, dc_assetlinks = _, dc_mongo_password = _\<rparr>"]
  by (intro once_rules once_at_step once_generate_pki) (simp_all add: assms)

lemma once_prepare_single:
  assumes "tidy (sk_builder k) (out_dir dir n)"
  shows "once.keeps (out_dir dir n) (prepare_single k sp n dir render_only)"
  unfolding prepare_single_def once_unfold out_dir_def [symmetric]
  by (intro once_rules once_at_step once_prepare_with assms last_out_dir) simp_all

lemma container_password_strip:
  "password_in_container mc a ms found w = (Inr v, w') \<Longrightarrow> py_strip found = found \<Longrightarrow> py_strip v = v"
  by (induction mc a ms found w rule: password_in_container.induct)
    (auto split: prod.splits sum.splits exn.splits if_splits)

lemma single_resolved_password: "resolve_mongo_password_single k n out s = (Inr v, s') \<Longrightarrow> password_kept out v s'"
  unfolding resolve_mongo_password_single_def Let_def
  by (auto simp: seq_Inr_iff has_file_def read_file_def write_file_def password_kept_def file_at_def update_conv' at_world_iff
      split: if_splits option.splits dest!: container_password_strip persistent_password)

lemma prepare_with_ctx:
  "prepare_with_password k sp n out ids cs render_only password s = (Inr (c, images, sg, files), t) \<Longrightarrow>
   dc_builder c = sk_builder k \<and> dc_out_dir c = out \<and> dc_mongo_password c = password"
  by (auto simp: prepare_with_password_def seq_Inr_iff Let_def)

lemma prepare_single_ctx:
  assumes "prepare_single k sp n dir render_only s = (Inr (c, images, ids, files), t)" and "tidy (sk_builder k) (out_dir dir n)"
  shows "dc_builder c = sk_builder k \<and> dc_out_dir c = out_dir dir n \<and> password_kept (out_dir dir n) (dc_mongo_password c) t"
proof -
  let ?out = "out_dir dir n"
  from assms(1) obtain v s1 ids' cs where
    v: "(if render_only then persistent_secret (bd_kit (sk_builder k)) ?out ''mongoRootPassword''
         else resolve_mongo_password_single k n ?out) s = (Inr v, s1)"
    and tail: "prepare_with_password k sp n ?out ids' cs render_only v s1 = (Inr (c, images, ids, files), t)"
    unfolding prepare_single_def Let_def out_dir_def [symmetric] by (auto simp: seq_Inr_iff rethrow_Inr_iff at_step_of_def)
  from v have "password_kept ?out v s1"
    by (auto split: if_splits dest: persistent_password single_resolved_password)
  moreover have "once_kept ?out s1 t" using once.keepsD [OF once_prepare_with [OF _ last_out_dir] tail] assms(2) by simp
  ultimately show ?thesis using prepare_with_ctx [OF tail] password_stays by blast
qed

lemma published_password: "publish_single k c images ids files s = (Inr d, t) \<Longrightarrow> dr_mongo_password d = dc_mongo_password c"
  by (auto simp: publish_single_def finish_single_def single_result_def seq_Inr_iff rethrow_Inr_iff at_step_def Let_def)

lemma once_deploy_single:
  assumes "tidy (sk_builder k) (out_dir dir n)"
  shows "once.keeps (out_dir dir n) (deploy_single_machine k sp n dir render_only)"
  unfolding deploy_single_machine_def
proof (rule once.keeps_seq_post [OF once_prepare_single [OF assms]])
  fix s a t
  assume run: "prepare_single k sp n dir render_only s = (Inr a, t)"
  obtain c images ids files where a: "a = (c, images, ids, files)" by (cases a)
  from prepare_single_ctx [OF run [unfolded a] assms] have out: "out_dir dir n = dc_out_dir c" by simp
  show "once.keeps (out_dir dir n) (case a of (c, images, sg, files) \<Rightarrow>
     if render_only
     then seq (checked_config k c images render_only_ref ''vol_render_only'' sg 2) (\<lambda>_.
          give ((single_result c images)\<lparr>dr_rendered_only := True\<rparr>))
     else publish_single k c images sg files)"
    unfolding a prod.case out by (intro once_rules once_checked_config once_publish)
qed

lemma single_deployed_password:
  assumes "deploy_single_machine k sp n dir render_only s = (Inr d, t)" and "tidy (sk_builder k) (out_dir dir n)"
  shows "password_kept (out_dir dir n) (dr_mongo_password d) t"
proof -
  from assms(1) obtain c images ids files s1 where p: "prepare_single k sp n dir render_only s = (Inr (c, images, ids, files), s1)"
    and rest: "(if render_only then seq (checked_config k c images render_only_ref ''vol_render_only'' ids 2) (\<lambda>_.
          give ((single_result c images)\<lparr>dr_rendered_only := True\<rparr>)) else publish_single k c images ids files) s1 = (Inr d, t)"
    by (auto simp: deploy_single_machine_def seq_Inr_iff)
  note c = prepare_single_ctx [OF p assms(2)]
  have "dr_mongo_password d = dc_mongo_password c"
    using rest by (auto simp: seq_Inr_iff single_result_def published_password split: if_splits)
  moreover have "once_kept (dc_out_dir c) s1 t"
    using rest by (rule once.keepsD [rotated]) (intro once_rules once_checked_config once_publish)
  ultimately show ?thesis using c password_stays by fastforce
qed

section \<open>A failure is located\<close>

lemma deploy_all_Inr: "deploy_all c cs ds s = (Inr ds', t) \<Longrightarrow> ds' = ds @ map c_name cs"
  by (induction cs arbitrary: ds s) (auto simp: seq_Inr_iff rethrow_Inr_iff, fastforce)

lemma deploy_all_stopped:
  "deploy_all c cs ds s = (Inl (Halted m x ds'), t) \<Longrightarrow>
   \<exists>pre y post s1 e. cs = pre @ y # post \<and> x = Some (c_name y) \<and> ds' = ds @ map c_name pre \<and>
     deploy_all c pre ds s = (Inr ds', s1) \<and> deploy_component c y s1 = (Inl e, t)"
proof (induction cs arbitrary: ds s)
  case (Cons y cs)
  from Cons.prems consider (here) e where "deploy_component c y s = (Inl e, t)" "Halted m x ds' = component_failed (c_name y) ds e"
    | (later) u s1 where "deploy_component c y s = (Inr u, s1)" "deploy_all c cs (ds @ [c_name y]) s1 = (Inl (Halted m x ds'), t)"
    by (auto simp: seq_Inl_iff rethrow_Inl_iff rethrow_Inr_iff)
  then show ?case
  proof cases
    case here
    have "x = Some (c_name y) \<and> ds' = ds" using here(2) by (auto simp: component_failed_def split: exn.splits if_splits)
    with here(1) show ?thesis by (intro exI [of _ "[]"] exI [of _ y] exI [of _ cs] exI [of _ s] exI [of _ e]) simp
  next
    case later
    from Cons.IH [OF later(2)] obtain pre z post s2 e where
      "cs = pre @ z # post" "x = Some (c_name z)" "ds' = (ds @ [c_name y]) @ map c_name pre"
      "deploy_all c pre (ds @ [c_name y]) s1 = (Inr ds', s2)" "deploy_component c z s2 = (Inl e, t)" by blast
    with later(1) show ?thesis
      by (intro exI [of _ "y # pre"] exI [of _ z] exI [of _ post] exI [of _ s2] exI [of _ e])
        (simp add: seq_Inr_iff rethrow_Inr_iff)
  qed
qed simp

definition located :: "component list \<Rightarrow> 'w deploy_ctx \<Rightarrow> 'w bench \<Rightarrow> string option \<Rightarrow> string list \<Rightarrow> 'w bench \<Rightarrow> bool" where
  "located cs c s x ds t \<longleftrightarrow> (\<exists>pre y post s1 e. cs = pre @ y # post \<and> x = Some (c_name y) \<and> ds = map c_name pre \<and>
     deploy_all c pre [] s = (Inr ds, s1) \<and> deploy_component c y s1 = (Inl e, t))"

lemma unplaced_None [simp]: "unplaced e \<noteq> Halted m (Some x) ds"
  by (auto simp: unplaced_def split: exn.splits)

lemma prepared_located:
  assumes "deploy_prepared c pki ids cs False s = (Inl (Halted m (Some x) ds), t)"
  shows "\<exists>pki_dir links s1. located cs (c\<lparr>dc_pki_dir := pki_dir, dc_assetlinks := links\<rparr>) s1 (Some x) ds t"
  using assms unplaced_None [THEN not_sym]
  by (auto simp: deploy_prepared_def Let_def seq_Inl_iff rethrow_Inl_iff rethrow_Inr_iff located_def
      dest!: deploy_all_stopped) blast

section \<open>The saved state of a redeploy\<close>

text \<open>The paths that \<open>export_state\<close> writes: no empty component, no \<open>.\<close> and no \<open>..\<close>.\<close>

definition plain_path :: "string \<Rightarrow> bool" where
  "plain_path rel \<longleftrightarrow> list_all (\<lambda>c. c \<notin> {[], ''.'', ''..''}) (split_on CHR ''/'' rel)"

lemma join_cons: "join_with [c] ((a # w) # ws) = a # join_with [c] (w # ws)"
  by (cases ws) simp_all

lemma join_split: "join_with [c] (split_on c s) = s"
proof (induction s)
  case (Cons a s)
  then show ?case by (cases "split_on c s") (simp_all add: join_cons)
qed simp

lemma split_on_inject: "split_on c a = split_on c b \<Longrightarrow> a = b"
  by (metis join_split)

lemma split_on_single: "c \<notin> set s \<Longrightarrow> split_on c s = [s]"
  by (induction s) auto

lemma resolve_plain: "list_all (\<lambda>c. c \<notin> {[], ''.'', ''..''}) cs \<Longrightarrow> resolve_onto acc cs = rev acc @ cs"
  by (induction cs arbitrary: acc) auto

lemma join_resolve_plain: "plain_path rel \<Longrightarrow> join_resolve dir rel = dir @ split_on CHR ''/'' rel"
  by (cases rel) (auto simp: join_resolve_def plain_path_def starts_with_def resolve_plain)

lemma import_untouched:
  assumes "import_state dir bs fs = (r, fs')" and "\<forall>x\<in>fst ` set bs. plain_path x \<and> x \<noteq> rel"
  shows "map_of fs' (dir @ split_on CHR ''/'' rel) = map_of fs (dir @ split_on CHR ''/'' rel)"
  using assms
  by (induction dir bs fs arbitrary: r fs' rule: import_state.induct)
    (auto simp: Let_def join_resolve_plain update_conv' split: if_splits dest: split_on_inject)

lemma import_lands:
  assumes "import_state dir bs fs = (Inr u, fs')" and "\<forall>x\<in>fst ` set bs. plain_path x" and "distinct (map fst bs)"
    and "map_of bs rel = Some v"
  shows "map_of fs' (dir @ split_on CHR ''/'' rel) = Some v"
  using assms
proof (induction bs arbitrary: fs)
  case (Cons b bs)
  obtain x w where b: "b = (x, w)" by (cases b)
  let ?fs = "AList.update (dir @ split_on CHR ''/'' x) w fs"
  from Cons.prems(1,2) have run: "import_state dir bs ?fs = (Inr u, fs')"
    by (auto simp: b Let_def join_resolve_plain split: if_splits)
  show ?case
  proof (cases "x = rel")
    case True
    with Cons.prems b have "map_of fs' (dir @ split_on CHR ''/'' rel) = map_of ?fs (dir @ split_on CHR ''/'' rel)"
      by (intro import_untouched [OF run]) auto
    with True Cons.prems(4) show ?thesis by (simp add: b update_conv')
  next
    case False
    with Cons.IH [OF run] Cons.prems b show ?thesis by simp
  qed
qed simp

lemma map_of_filter: "map_of xs k = (case filter (\<lambda>p. fst p = k) xs of [] \<Rightarrow> None | p # _ \<Rightarrow> Some (snd p))"
  by (induction xs) auto

lemma map_of_sort: "map_of (sort_key fst xs) (k :: 'a::linorder) = map_of xs k"
  by (simp add: map_of_filter sort_key_stable)

text \<open>A state file of one component is exported with the content it has.\<close>

lemma export_top:
  assumes "map_of fs (dir @ [x]) = Some v" and "is_state x" and "CHR ''/'' \<notin> set x" and "x \<noteq> []"
  shows "map_of (export_state dir fs) x = Some v"
proof -
  let ?P = "\<lambda>p. strictly_below dir p"
  have rel: "posix_rel dir p = x \<longleftrightarrow> p = dir @ [x]" if "?P p" for p
  proof -
    from that have below: "take (length dir) p = dir" "length dir < length p" by (simp_all add: strictly_below_def)
    obtain cs where p: "p = dir @ cs" using append_take_drop_id [of "length dir" p] below(1) by metis
    with below(2) have "cs \<noteq> []" by auto
    have "join_with ''/'' cs = x \<longleftrightarrow> cs = [x]"
    proof (cases cs)
      case (Cons c cs')
      then show ?thesis using assms(3) by (cases cs') auto
    qed (use \<open>cs \<noteq> []\<close> in simp)
    with p show ?thesis by (simp add: posix_rel_def)
  qed
  have "map_of (filter (\<lambda>(r, b). is_state r) (map (\<lambda>(p, b). (posix_rel dir p, b)) xs)) x = map_of xs (dir @ [x])"
    if "\<forall>pb\<in>set xs. ?P (fst pb)" for xs :: files
    using that
  proof (induction xs)
    case (Cons pb xs)
    obtain p b where pb: "pb = (p, b)" by (cases pb)
    with Cons.prems have "posix_rel dir p = x \<longleftrightarrow> p = dir @ [x]" by (intro rel) simp
    moreover have "map_of (filter (\<lambda>(r, b). is_state r) (map (\<lambda>(p, b). (posix_rel dir p, b)) xs)) x = map_of xs (dir @ [x])"
      using Cons by simp
    ultimately show ?case using assms(2) by (simp add: pb) auto
  qed simp
  then have "map_of (export_state dir fs) x = map_of (sort_key fst (filter (\<lambda>(p, b). ?P p) fs)) (dir @ [x])"
    unfolding export_state_def using set_filter [of "\<lambda>(p, b). ?P p" fs] by (simp add: case_prod_beta)
  also have "\<dots> = map_of fs (dir @ [x])"
    unfolding map_of_sort by (induction fs) (auto simp: strictly_below_def)
  finally show ?thesis using assms(1) by simp
qed

end
