(* ===== verification/Rendering.thy ===== *)
theory Rendering
  imports Render Rollout
begin

text \<open>
  What a rendering keeps: every generated file, so that a secret has the value it was drawn
  with, and the builder of a deploy that renders with it. Then paths into JSON values.
\<close>

section \<open>Generated secrets are kept\<close>

text \<open>The manifests that helm renders are Kubernetes objects: no key of a ConfigMap has a slash.\<close>

definition plain_manifest :: "json list \<Rightarrow> bool" where
  "plain_manifest docs \<longleftrightarrow> (\<forall>cm kvs. extract_configmap_data docs cm = Inr (JObj kvs) \<longrightarrow> (\<forall>k\<in>fst ` set kvs. CHR ''/'' \<notin> set k))"

definition kubernetes_keys :: "'w renderer \<Rightarrow> bool" where
  "kubernetes_keys rn \<longleftrightarrow> (\<forall>args s r w docs. rn_helm rn args s = (Some r, w) \<longrightarrow> cr_code r = 0 \<longrightarrow>
     load_manifest_docs rn (cr_out r) = Inr docs \<longrightarrow> plain_manifest docs)"

lemma once_gen_secret [simp]: "once.keeps out (gen_secret rn p n)"
  unfolding gen_secret_def by (intro once_if_missing others.keeps_seq others.keeps_simple once_rules) simp_all

lemma others_openssl [simp]: "others.keeps p (openssl g args inp)"
  by (rule others.keepsI) (auto simp: openssl_def others_kept_def file_at_def split: prod.splits)

lemma once_openssl [simp]: "once.keeps out (openssl g args inp)"
  by (rule once.keepsI) (auto simp: openssl_def once_kept_def file_at_def split: prod.splits)

lemma once_ensure_key [simp]: "once.keeps out (ensure_key g p)"
  unfolding ensure_key_def by (intro once_if_missing others.keeps_seq others.keeps_simple once_rules) simp_all

lemma once_jwks [simp]: "once.keeps out (jwks g p)"
  unfolding jwks_def jwk_def public_point_def by (intro once_rules) simp_all

lemma once_dump [simp]: "x \<notin> set ONCE \<Longrightarrow> once.keeps out (dump_to rn (out @ [x]) j)"
  unfolding dump_to_def by (rule once_write)

lemma once_remove_file: "\<not> generated out p \<Longrightarrow> once.keeps out (remove_file p)"
  by (rule once.keepsI) (auto simp: remove_file_def once_kept_def file_at_def delete_conv')

lemma map_of_filter_keys: "P k \<Longrightarrow> map_of (filter (\<lambda>(p, b). P p) xs) k = map_of xs k"
  by (induction xs) auto

lemma once_remove_tree: "x \<notin> set ONCE \<Longrightarrow> x \<noteq> VC_SECRETS_DIR \<Longrightarrow> once.keeps out (remove_tree (out @ [x]))"
proof (rule once.keepsI)
  fix s :: "'a bench" and r s'
  assume x: "x \<notin> set ONCE" "x \<noteq> VC_SECRETS_DIR" and "remove_tree (out @ [x]) s = (r, s')"
  then have s': "bn_files s' = filter (\<lambda>(p, b). take (length (out @ [x])) p \<noteq> out @ [x]) (bn_files s)"
    by (auto simp: remove_tree_def)
  have "take (length (out @ [x])) p \<noteq> out @ [x]" if "generated out p" for p
    using that x by (auto simp: generated_def)
  then show "once_kept out s s'"
    by (simp add: once_kept_def file_at_def s' map_of_filter_keys)
qed

lemma entry_path:
  assumes "CHR ''/'' \<notin> set k"
  shows "join_resolve dir k \<in> {dir, butlast dir, dir @ [k]}"
proof -
  have "\<not> starts_with ''/'' k" using assms by (cases k) (auto simp: starts_with_def)
  then show ?thesis by (simp add: join_resolve_def split_on_single [OF assms] butlast_rev [of "rev dir", simplified])
qed

lemma once_write_entries:
  assumes "x \<notin> set ONCE" "x \<noteq> VC_SECRETS_DIR" and "\<forall>k\<in>fst ` set kvs. CHR ''/'' \<notin> set k"
  shows "once.keeps out (write_entries (out @ [x]) kvs)"
  using assms(3)
proof (induction kvs)
  case (Cons kv kvs)
  obtain k v where kv: "kv = (k, v)" by (cases kv)
  have "\<not> generated out (join_resolve (out @ [x]) k)"
    using entry_path [of k "out @ [x]"] Cons.prems kv assms(1,2) by (auto simp: generated_def)
  with Cons kv show ?case by (auto intro!: once_rules once_write_other)
qed auto

lemma once_write_documents:
  assumes "x \<notin> set ONCE" "x \<noteq> VC_SECRETS_DIR" and "plain_manifest docs"
  shows "once.keeps out (write_documents docs out cm x)"
proof -
  have "once.keeps out (seq (value_of (extract_configmap_data docs cm))
      (\<lambda>d. case d of JObj kvs \<Rightarrow> write_entries (out @ [x]) kvs | _ \<Rightarrow> refuse no_attribute))"
  proof (rule once.keeps_seq_post)
    fix s a t
    assume "value_of (extract_configmap_data docs cm) s = (Inr a, t)"
    then have "extract_configmap_data docs cm = Inr a" by simp
    then have "once.keeps out (write_entries (out @ [x]) kvs)" if "a = JObj kvs" for kvs
      using that assms(3) unfolding plain_manifest_def by (intro once_write_entries [OF assms(1,2)]) blast
    then show "once.keeps out (case a of JObj kvs \<Rightarrow> write_entries (out @ [x]) kvs | _ \<Rightarrow> refuse no_attribute)"
      by (cases a) simp_all
  qed simp
  then show ?thesis
    unfolding write_documents_def Let_def by (rule once.keeps_seq [OF once_remove_tree [OF assms(1,2)]])
qed

lemma once_branding [simp]: "once.keeps out (write_branding_assets docs out)"
proof -
  have "\<not> generated out ((out @ [''branding-assets'']) @ [x])" for x by (simp add: VC_SECRETS_DIR_def)
  then show ?thesis
    unfolding write_branding_assets_def write_branding_key_def
    by (intro once_rules once_write_other) simp_all
qed

lemma once_seed_secrets [simp]: "once.keeps out (seed_secrets rn dir apigw)"
  unfolding seed_secrets_def by (intro once_rules) simp_all

lemma once_apply_secrets [simp]: "once.keeps out (apply_secrets rn OnFly docs cm secrets_dir state_dir overrides config)"
  unfolding apply_secrets_def by (intro once_rules) (simp_all add: only_if_def once.keeps_simple)

lemma once_service: "ra_target a = OnFly \<Longrightarrow> snd cf \<notin> set ONCE \<Longrightarrow> once.keeps out (render_service rn a out state_dir types docs cf)"
  unfolding render_service_def by (intro once_rules) (simp_all add: once_write ONCE_eq)

lemmas once_documents = once_write_documents [of "''vctms''"] once_write_documents [of "''documents''"]
  once_write_documents [of "''pres-reqs''"] once_write_documents [of "''as-rules''"] once_write_documents [of "''assurance''"]

lemma once_render_vc: "ra_target a = OnFly \<Longrightarrow> plain_manifest docs \<Longrightarrow> once.keeps out (render_vc rn a out state_dir types docs)"
  unfolding render_vc_def
  by (intro once_rules once_service once_documents) (auto simp: VC_CONFIGMAPS_def ONCE_eq VC_SECRETS_DIR_def)

lemma once_wallet_backend [simp]: "once.keeps out (render_wallet_backend rn a out docs)"
  unfolding render_wallet_backend_def Let_def by (intro once_rules once_remove_file once_dump) (simp_all add: ONCE_eq)

lemma once_render_docs:
  assumes "ra_target a = OnFly" and "plain_manifest docs"
  shows "once.keeps (render_dir a) (render_docs rn a base docs)"
  unfolding render_docs_def Let_def write_as_rules_def write_assurance_rules_def using assms
  by (intro once_rules once_render_vc once_documents once_write) (simp_all add: ONCE_eq VC_SECRETS_DIR_def)

lemma once_write_values [simp]: "once.keeps out (write_values rn a out base)"
  unfolding write_values_def extra_values_def Let_def by (intro once_rules once_dump) (simp_all add: ONCE_eq)

lemma once_helm [simp]: "once.keeps out (helm_template rn files ns)"
  by (rule once.keepsI) (auto simp: helm_template_def once_kept_def file_at_def split: prod.splits option.splits)

lemma once_render_fly:
  assumes "kubernetes_keys rn" and "ra_target a = OnFly"
  shows "once.keeps (render_dir a) (render rn a)"
proof -
  have tail: "once.keeps (render_dir a) (seq (helm_template rn files ns) (\<lambda>manifest.
      seq (value_of (load_manifest_docs rn manifest)) (\<lambda>docs. seq (render_docs rn a base docs) (\<lambda>_. give docs))))" for base files ns
  proof (rule once.keeps_seq_post [OF once_helm])
    fix s manifest t
    assume "helm_template rn files ns s = (Inr manifest, t)"
    then have plain: "plain_manifest docs" if "load_manifest_docs rn manifest = Inr docs" for docs
      using assms(1) that unfolding kubernetes_keys_def helm_template_def by (auto split: prod.splits option.splits if_splits)
    show "once.keeps (render_dir a) (seq (value_of (load_manifest_docs rn manifest)) (\<lambda>docs. seq (render_docs rn a base docs) (\<lambda>_. give docs)))"
      by (rule once.keeps_seq_post) (auto intro!: once_rules once_render_docs assms(2) plain)
  qed
  show ?thesis unfolding render_def by (intro tail once_rules) simp_all
qed

text \<open>A builder that renders with \<open>render\<close>, with the secrets of the vc services in the state of the instance.\<close>

definition rendering :: "'w renderer \<Rightarrow> abs_path \<Rightarrow> 'w builder \<Rightarrow> 'w builder" where
  "rendering rn dir b = b\<lparr>bd_render := (\<lambda>sp n hashes verifiers password.
     render rn (deploy_args dir (out_dir dir n @ [VC_SECRETS_DIR]) sp n hashes verifiers password))\<rparr>"

lemma tidy_rendering:
  assumes "kubernetes_keys rn" and "\<forall>args env s. once_kept (dir @ [x]) s (snd (kt_exec (bd_kit b) args env s))"
  shows "tidy (rendering rn dir b) (dir @ [x])"
proof -
  have "once_kept (dir @ [x]) s (snd (bd_render (rendering rn dir b) sp n hs vs p s))" if "x = ''fly-'' @ n_env n" for sp n hs vs p s
    using once_render_fly [OF assms(1), of "deploy_args dir (out_dir dir n @ [VC_SECRETS_DIR]) sp n hs vs p"] that
    by (simp add: rendering_def render_dir_def deploy_args_def once.keeps_def)
  with assms(2) show ?thesis by (simp add: tidy_def rendering_def)
qed

text \<open>A secret keeps the value it was drawn with.\<close>

lemma gen_secret_kept: "gen_secret rn p k s = (Inr v, t) \<Longrightarrow> \<exists>raw. file_at t p = Some raw \<and> py_strip raw = v"
  by (auto simp: gen_secret_def seq_Inr_iff has_file_def read_file_def at_world_iff write_file_def file_at_def update_conv'
      random_secret_def drawn_keep split: if_splits option.splits prod.splits dest!: draw_chars_ok)

lemma gen_secret_there: "file_at s p = Some raw \<Longrightarrow> gen_secret rn p k s = (Inr (py_strip raw), s)"
  by (simp add: gen_secret_def seq_def has_file_def read_file_def)

lemma gen_secret_again:
  assumes "gen_secret rn p k s = (Inr v, t)" and "generated out p" and "once_kept out t u"
  shows "gen_secret rn p j u = (Inr v, u)"
proof -
  obtain raw where "file_at t p = Some raw" "py_strip raw = v" using gen_secret_kept [OF assms(1)] by blast
  with assms(2,3) show ?thesis by (auto simp: once_kept_def intro!: gen_secret_there)
qed

section \<open>Reading a changed dictionary\<close>

fun json_at :: "string list \<Rightarrow> json \<Rightarrow> json option" where
  "json_at [] j = Some j"
| "json_at (k # ks) j = (case json_get j k of None \<Rightarrow> None | Some v \<Rightarrow> json_at ks v)"

lemma fold_bind_Inl [simp]: "fold (\<lambda>f r. bind_sum r f) fs (Inl e) = Inl e"
  by (induction fs) simp_all

lemma steps_simps [simp]: "steps [] j = Inr j" "steps (f # fs) j = bind_sum (f j) (steps fs)"
  by (cases "f j"; simp add: steps_def)+

lemma set_item_get: "set_item k v j = Inr j' \<Longrightarrow> json_get j' x = (if x = k then Some v else json_get j x)"
  by (auto simp: set_item_def update_conv' split: json.splits)

lemma in_item_Inr:
  assumes "in_item k f j = Inr j'"
  obtains v v' where "json_get j k = Some v" "f v = Inr v'" "\<And>x. json_get j' x = (if x = k then Some v' else json_get j x)"
  using assms set_item_get by (fastforce simp: in_item_def bind_sum_Inr_iff item_of_def split: json.splits option.splits)

lemma in_default_Inr:
  assumes "in_default k d f j = Inr j'"
  obtains v' where "f (case json_get j k of None \<Rightarrow> d | Some v \<Rightarrow> v) = Inr v'" "\<And>x. json_get j' x = (if x = k then Some v' else json_get j x)"
  using assms by (fastforce simp: in_default_def map_sum_Inr_iff update_conv' split: json.splits)

end
