(* ===== verification/Capacity.thy ===== *)
theory Capacity
  imports Single "HOL-Library.Multiset"
begin

text \<open>
  Properties of what the deploys build: the order of the components, the machine config and
  its limits, the config bundle, and the registration.
\<close>

section \<open>The order of the components\<close>

text \<open>
  What the source relies on: the first of each pair is up (or its app exists) when the second
  is deployed.
\<close>

definition relies_on :: "bool \<Rightarrow> (string \<times> string) list" where
  "relies_on conformance =
     map (Pair ''mongodb'') (mongo_consumers False) @ [(''mongodb'', ''siros-verifier''), (''pdp'', ''siros-verifier'')] @
     map (\<lambda>x. (x, ''env-admin'')) (mongo_consumers conformance) @
     [(''wallet-backend'', ''wmp-engine''), (''wmp-engine'', ''wallet-proxy'')] @
     (if conformance
      then [(''conformance-mongodb'', ''conformance-server''), (''conformance-server'', ''wallet-frontend''),
            (''conformance-runner'', ''wallet-frontend''), (''conformance-server'', ''conformance'')]
      else [])"

text \<open>\<open>y\<close> comes after \<open>x\<close>, if both are there.\<close>

definition comes_before :: "string \<Rightarrow> string \<Rightarrow> string list \<Rightarrow> bool" where
  "comes_before x y names \<longleftrightarrow> y \<in> set names \<and> x \<in> set names \<longrightarrow> x \<in> set (takeWhile (\<lambda>z. z \<noteq> y) names)"

definition ordered_names :: "string dict \<Rightarrow> string \<Rightarrow> string \<Rightarrow> bool \<Rightarrow> bool \<Rightarrow> string list" where
  "ordered_names images oidc ea conformance env_admin =
     map c_name (deploy_order (with_optional_components (build_components oidc ea) images) conformance env_admin)"

lemmas order_defs = deploy_order_def with_optional_components_def build_components_def mk_component_def CONFORMANCE_COMPONENTS_def
  SIROS_VERIFIER_COMPONENT_def WMP_ENGINE_COMPONENT_def has_component_def

definition names_in_order :: "bool \<Rightarrow> bool \<Rightarrow> bool \<Rightarrow> bool \<Rightarrow> string list" where
  "names_in_order siros wmp conformance env_admin =
     [''mongodb'', ''mini-oidc'', ''vc-registry'', ''vc-issuer'', ''vc-verifier'', ''vc-apigw'', ''pdp''] @
     (if siros then [''siros-verifier''] else []) @ [''wallet-backend''] @
     (if wmp then [''wmp-engine''] else []) @ [''wallet-proxy''] @
     (if conformance then [''conformance-mongodb'', ''conformance-server'', ''conformance-runner''] else []) @
     (if env_admin then [''env-admin''] else []) @ [''wallet-frontend''] @
     (if conformance then [''conformance''] else [])"

lemma ordered_names_eq:
  "ordered_names images oidc ea conformance env_admin =
     names_in_order (dict_has images ''siros-verifier'') (dict_has images ''wmp-engine'') conformance env_admin"
  unfolding ordered_names_def names_in_order_def
  by (cases "dict_has images ''siros-verifier''"; cases "dict_has images ''wmp-engine''"; cases conformance; cases env_admin)
    (simp_all add: order_defs)

definition sound_order :: "bool \<Rightarrow> string list \<Rightarrow> bool" where
  "sound_order conformance names \<longleftrightarrow> distinct names \<and> list_all (\<lambda>(x, y). comes_before x y names) (relies_on conformance)"

lemma order_sound: "sound_order conformance (names_in_order siros wmp conformance env_admin)"
  by (rule bool.exhaust [of siros]; rule bool.exhaust [of wmp]; rule bool.exhaust [of conformance]; rule bool.exhaust [of env_admin];
      simp only:; code_simp)

section \<open>Registration\<close>

text \<open>Attempt \<open>i\<close> starts in \<open>ws i\<close>; it fails as "not ready yet" and the next one starts after a pause.\<close>

definition not_ready :: "('w \<Rightarrow> ('w, unit) outcome) \<Rightarrow> (time \<Rightarrow> 'w \<Rightarrow> 'w) \<Rightarrow> (nat \<Rightarrow> 'w) \<Rightarrow> nat \<Rightarrow> bool" where
  "not_ready reg sleep ws i \<longleftrightarrow>
     (\<exists>m w. reg (ws i) = (Inl (OtherError ''RegistrationError'' m), w) \<and> ws (Suc i) = sleep 4 w)"

lemma register_loop_ready:
  assumes "\<forall>i<j. not_ready reg sleep ws (a + i)" and "reg (ws (a + j)) = (Inr u, w)" and "j < n"
  shows "register_loop n reg sleep fail err (ws a) = (Inr (), w)"
  using assms
proof (induction j arbitrary: a n err)
  case 0
  then show ?case by (cases n) simp_all
next
  case (Suc j)
  from Suc.prems(3) obtain n' where n: "n = Suc n'" "j < n'" by (cases n) auto
  from Suc.prems(1) obtain m w' where "reg (ws a) = (Inl (OtherError ''RegistrationError'' m), w')" "ws (Suc a) = sleep 4 w'"
    by (force simp: not_ready_def)
  moreover have "register_loop n' reg sleep fail m (ws (Suc a)) = (Inr (), w)"
    using Suc.IH [of "Suc a" n' m] Suc.prems(1,2) n(2) by force
  ultimately show ?case by (simp add: n)
qed

lemma register_loop_not_ready:
  assumes "\<forall>i<n. not_ready reg sleep ws (a + i)"
  shows "\<exists>m. register_loop n reg sleep fail err (ws a) = (Inl (fail m), ws (a + n))"
  using assms
proof (induction n arbitrary: a err)
  case (Suc n)
  from Suc.prems obtain m w' where "reg (ws a) = (Inl (OtherError ''RegistrationError'' m), w')" "ws (Suc a) = sleep 4 w'"
    by (force simp: not_ready_def)
  then show ?case using Suc.IH [of "Suc a" m] Suc.prems by force
qed auto

section \<open>The machine config\<close>

lemma each_Inr:
  "each f xs s = (Inr ys, t) \<Longrightarrow> list_all2 (\<lambda>x y. \<exists>s1 s2. f x s1 = (Inr y, s2)) xs ys"
proof (induction xs arbitrary: s ys)
  case (Cons x xs)
  from Cons.prems obtain y s1 zs s2 where "f x s = (Inr y, s1)" "each f xs s1 = (Inr zs, s2)" "ys = y # zs" "s2 = t"
    by (auto simp: seq_Inr_iff)
  with Cons.IH show ?case by blast
qed simp

lemma vc_part_Inr:
  "vc_part c images name s = (Inr x, t) \<Longrightarrow>
   \<exists>img p files. map_of images name = Some img \<and> port (dc_naming c) name [] = Inr p \<and> x = vc_container name img p files"
  by (auto simp: vc_part_def with_image_def with_port_def Let_def seq_Inr_iff split: option.splits; blast)

lemma backend_part_Inr:
  "wallet_backend_part c images s = (Inr x, t) \<Longrightarrow>
   \<exists>img p ri files. map_of images ''wallet-backend'' = Some img \<and> port (dc_naming c) ''wallet-backend'' ''http'' = Inr p \<and>
     x = wallet_backend_container img p ri files"
  by (auto simp: wallet_backend_part_def with_image_def with_port_def Let_def seq_Inr_iff split: option.splits; blast)

lemma frontend_part_Inr:
  "wallet_frontend_part c images ids s = (Inr x, t) \<Longrightarrow>
   \<exists>img p q env files. map_of images ''wallet-frontend'' = Some img \<and> port (dc_naming c) ''wallet-frontend'' [] = Inr p \<and>
     port (dc_naming c) ''wallet-proxy'' [] = Inr q \<and> x = wallet_frontend_container img p q env files"
  by (auto simp: wallet_frontend_part_def with_image_def with_port_def Let_def seq_Inr_iff split: option.splits; blast)

lemma kept_entries:
  "map (\<lambda>e. map_sum id (\<lambda>b. if b then [e] else []) (P e)) xs = map Inr ys \<Longrightarrow>
   set (concat ys) \<subseteq> set xs \<and> (\<forall>e\<in>set xs. P e = Inr True \<longrightarrow> e \<in> set (concat ys))"
proof (induction xs arbitrary: ys)
  case (Cons x xs)
  obtain z zs where ys: "ys = z # zs" using Cons.prems by (cases ys) auto
  note prems = Cons.prems [unfolded ys(1) list.map list.inject]
  note ys = ys prems [THEN conjunct1] prems [THEN conjunct2]
  from ys(2) have "set z \<subseteq> {x}" "P x = Inr True \<longrightarrow> x \<in> set z" by (cases "P x"; auto split: if_splits)+
  with Cons.IH [OF ys(3)] show ?case by (auto simp: ys(1))
qed simp

lemma active_secrets_Inr:
  "active_secrets b out s = (Inr ss, t) \<Longrightarrow> set ss \<subseteq> set SECRETS \<and>
     (\<forall>e\<in>set SECRETS. fst e \<notin> {''SIROSID_VC_NYM_AUTH_SEED'', ''SIROSID_VC_CREDENTIAL_ENCRYPTION_KEY''} \<longrightarrow> e \<in> set ss)"
proof -
  assume "active_secrets b out s = (Inr ss, t)"
  then obtain apigw where "needed_secrets apigw = Inr ss"
    by (auto simp: active_secrets_def seq_Inr_iff)
  then obtain ys where ys: "ss = concat ys"
    "map (\<lambda>e. map_sum id (\<lambda>b. if b then [e] else []) (secret_needed apigw (fst e))) SECRETS = map Inr ys"
    by (cases "all_right (map (\<lambda>e. map_sum id (\<lambda>b. if b then [e] else []) (secret_needed apigw (fst e))) SECRETS)")
      (auto simp: needed_secrets_def all_right_Inr)
  from kept_entries [OF ys(2)] show ?thesis by (auto simp: ys(1) secret_needed_def)
qed

text \<open>A built config, taken apart.\<close>

lemma config_shape:
  assumes "build_machine_config c images ref vol ids guest s = (Inr m, t)"
  obtains ss mongo pm oidc po env vcs pdp pp pdpc wb fe pf where
    "set ss \<subseteq> set SECRETS"
    "\<forall>e\<in>set SECRETS. fst e \<notin> {''SIROSID_VC_NYM_AUTH_SEED'', ''SIROSID_VC_CREDENTIAL_ENCRYPTION_KEY''} \<longrightarrow> e \<in> set ss"
    "mg_groups m = secret_groups ss"
    "mg_containers m = [secrets_init mongo ss, mongodb_container mongo pm, mini_oidc_container oidc po env] @ vcs @
       [pdp_container pdp pp pdpc, wb, fe]"
    "list_all2 (\<lambda>name x. \<exists>img p files. map_of images name = Some img \<and> port (dc_naming c) name [] = Inr p \<and>
       x = vc_container name img p files) VC_SERVICES vcs"
    "\<exists>img p ri files. map_of images ''wallet-backend'' = Some img \<and> port (dc_naming c) ''wallet-backend'' ''http'' = Inr p \<and>
       wb = wallet_backend_container img p ri files"
    "\<exists>img p q env files. map_of images ''wallet-frontend'' = Some img \<and> port (dc_naming c) ''wallet-frontend'' [] = Inr p \<and>
       port (dc_naming c) ''wallet-proxy'' [] = Inr q \<and> fe = wallet_frontend_container img p q env files"
    "port (dc_naming c) ''mongodb'' [] = Inr pm" "port (dc_naming c) ''mini-oidc'' [] = Inr po" "port (dc_naming c) ''pdp'' [] = Inr pp"
    "port (dc_naming c) ''front'' [] = Inr pf" "mg_front_port m = pf" "mg_bundle m = ref" "mg_volume m = vol"
proof -
  from assms obtain ss t1 mongo pm oidc env po vcs s2 s3 pdp pp pdpc s4 s5 wb s6 fe s7 pf where
    r: "active_secrets (dc_builder c) (dc_out_dir c) s = (Inr ss, t1)" "each (vc_part c images) VC_SERVICES s2 = (Inr vcs, s3)"
      "wallet_backend_part c images s4 = (Inr wb, s5)" "wallet_frontend_part c images ids s6 = (Inr fe, s7)"
    and f: "mg_groups m = secret_groups ss"
      "mg_containers m = [secrets_init mongo ss, mongodb_container mongo pm, mini_oidc_container oidc po env] @ vcs @
         [pdp_container pdp pp pdpc, wb, fe]"
      "port (dc_naming c) ''mongodb'' [] = Inr pm" "port (dc_naming c) ''mini-oidc'' [] = Inr po" "port (dc_naming c) ''pdp'' [] = Inr pp"
      "port (dc_naming c) ''front'' [] = Inr pf" "mg_front_port m = pf" "mg_bundle m = ref" "mg_volume m = vol"
    unfolding build_machine_config_def Let_def with_image_def with_port_def by (auto simp: seq_Inr_iff split: option.splits)
  have vcs: "list_all2 (\<lambda>name x. \<exists>img p files. map_of images name = Some img \<and> port (dc_naming c) name [] = Inr p \<and>
       x = vc_container name img p files) VC_SERVICES vcs"
    using each_Inr [OF r(2)] by (rule list_all2_mono) (blast dest: vc_part_Inr)
  show thesis
    using that active_secrets_Inr [OF r(1)] f vcs backend_part_Inr [OF r(3)] frontend_part_Inr [OF r(4)] by blast
qed

subsection \<open>Its limits\<close>

lemma secret_groups_set: "set (secret_groups ss) = (\<Union>e\<in>set ss. fst ` set (snd (snd e)))"
  by (simp add: secret_groups_def case_prod_beta)

lemma secret_groups_distinct: "distinct (secret_groups ss)"
  by (simp add: secret_groups_def)

lemma groups_of_table: "(\<Union>e\<in>set SECRETS. fst ` set (snd (snd e))) = {''mongodb'', ''vc'', ''wallet_backend''}"
  by (auto simp: SECRETS_def)

lemma secret_groups_within: "set ss \<subseteq> set SECRETS \<Longrightarrow> set (secret_groups ss) \<subseteq> {''mongodb'', ''vc'', ''wallet_backend''}"
  unfolding secret_groups_set groups_of_table [symmetric] by (rule UN_mono) auto

lemma always_needed:
  "(''SIROSID_MONGO_ROOT_PASSWORD'', ''mongoRootPassword'', [(''mongodb'', ''mongoRootPassword'')]) \<in> set SECRETS"
  "(''SIROSID_VC_SIGNING_KEY'', ''vc-pki/signing_ec_private.pem'', [(''vc'', ''signing_ec_private.pem''), (''wallet_backend'', ''asSigningKey'')]) \<in> set SECRETS"
  by (simp_all add: SECRETS_def)

lemma secret_groups_all:
  assumes "set ss \<subseteq> set SECRETS"
    and "\<forall>e\<in>set SECRETS. fst e \<notin> {''SIROSID_VC_NYM_AUTH_SEED'', ''SIROSID_VC_CREDENTIAL_ENCRYPTION_KEY''} \<longrightarrow> e \<in> set ss"
  shows "set (secret_groups ss) = {''mongodb'', ''vc'', ''wallet_backend''}"
proof
  show "set (secret_groups ss) \<subseteq> {''mongodb'', ''vc'', ''wallet_backend''}" by (rule secret_groups_within [OF assms(1)])
  have "(''SIROSID_MONGO_ROOT_PASSWORD'', ''mongoRootPassword'', [(''mongodb'', ''mongoRootPassword'')]) \<in> set ss"
    "(''SIROSID_VC_SIGNING_KEY'', ''vc-pki/signing_ec_private.pem'', [(''vc'', ''signing_ec_private.pem''), (''wallet_backend'', ''asSigningKey'')]) \<in> set ss"
    using assms(2) always_needed by auto
  then show "{''mongodb'', ''vc'', ''wallet_backend''} \<subseteq> set (secret_groups ss)" unfolding secret_groups_set by force
qed

lemma secret_groups_length: "set ss \<subseteq> set SECRETS \<Longrightarrow> length (secret_groups ss) \<le> 3"
proof -
  assume "set ss \<subseteq> set SECRETS"
  have "length (secret_groups ss) = card (set (secret_groups ss))" by (rule distinct_card [OF secret_groups_distinct, symmetric])
  also have "\<dots> \<le> card {''mongodb'', ''vc'', ''wallet_backend''}"
    by (rule card_mono) (simp_all add: secret_groups_within [OF \<open>set ss \<subseteq> set SECRETS\<close>])
  finally show ?thesis by simp
qed

lemma container_fields [simp]:
  "cn_image (secrets_init img ss) = img" "cn_image (mongodb_container img p) = img" "cn_image (mini_oidc_container img p env) = img"
  "cn_image (vc_container name img p fs) = img" "cn_image (pdp_container img p cfg) = img"
  "cn_image (wallet_backend_container img p ri fs) = img" "cn_image (wallet_frontend_container img p q env fs) = img"
  "cn_name (secrets_init img ss) = ''secrets-init''" "cn_name (mongodb_container img p) = ''mongodb''"
  "cn_name (mini_oidc_container img p env) = ''mini-oidc''" "cn_name (vc_container name img p fs) = name"
  "cn_name (pdp_container img p cfg) = ''pdp''" "cn_name (wallet_backend_container img p ri fs) = ''wallet-backend''"
  "cn_name (wallet_frontend_container img p q env fs) = ''wallet-frontend''"
  by (simp_all add: secrets_init_def mongodb_container_def mini_oidc_container_def vc_container_def pdp_container_def
      wallet_backend_container_def wallet_frontend_container_def a_container_def)

lemma built_block_devices:
  assumes "build_machine_config c images ref vol ids guest s = (Inr m, t)"
  shows "fst (block_devices m) \<le> 11 \<and> snd (block_devices m) \<le> 3"
  using assms
proof (rule config_shape)
  fix ss mongo pm oidc po env vcs pdp pp pdpc wb fe pf
  assume s: "set ss \<subseteq> set SECRETS" and g: "mg_groups m = secret_groups ss"
    and cs: "mg_containers m = [secrets_init mongo ss, mongodb_container mongo pm, mini_oidc_container oidc po env] @ vcs @
       [pdp_container pdp pp pdpc, wb, fe]"
    and vcs: "list_all2 (\<lambda>name x. \<exists>img p files. map_of images name = Some img \<and> port (dc_naming c) name [] = Inr p \<and>
       x = vc_container name img p files) VC_SERVICES vcs"
  let ?imgs = "[mongo, oidc] @ map cn_image vcs @ [pdp, cn_image wb, cn_image fe]"
  have "length vcs = 4" using list_all2_lengthD [OF vcs] by (simp add: VC_SERVICES_def)
  then have "card (set ?imgs) \<le> 9" using card_length [of ?imgs] by simp
  moreover have "set (map cn_image (mg_containers m)) = set ?imgs" by (simp add: cs)
  ultimately show ?thesis using secret_groups_length [OF s] by (simp add: block_devices_def g)
qed

subsection \<open>Its containers come up\<close>

definition start_rank :: "string \<Rightarrow> nat" where
  "start_rank x =
     (if x \<in> {''secrets-init'', ''mini-oidc'', ''pdp'', ''wallet-frontend''} then 0
      else if x = ''mongodb'' then 1
      else if x \<in> {''vc-registry'', ''vc-verifier'', ''wallet-backend''} then 2
      else if x = ''vc-issuer'' then 3 else 4)"

text \<open>
  A container waits for one that starts before it and that can reach the state waited for: one
  with a health check that is kept running, or one that ends.
\<close>

definition need_met :: "container list \<Rightarrow> container \<Rightarrow> string \<times> string \<Rightarrow> bool" where
  "need_met cs x d = (case d of (name, cond) \<Rightarrow>
     \<exists>y\<in>set cs. cn_name y = name \<and> start_rank name < start_rank (cn_name x) \<and>
       (if cond = ''healthy'' then cn_checks y \<noteq> [] \<and> cn_restart y = ''always''
        else cond = ''exited_successfully'' \<and> cn_restart y = ''no''))"

definition checked_ports :: "machine_config \<Rightarrow> nat list" where
  "checked_ports m = concat (map (\<lambda>x. map hc_port (cn_checks x)) (mg_containers m))"

definition mounts_declared :: "machine_config \<Rightarrow> bool" where
  "mounts_declared m \<longleftrightarrow> (\<forall>x\<in>set (mg_containers m). \<forall>v\<in>set (cn_mounts x). fst v = ''bundle'' \<or> fst v \<in> secret_volume ` set (mg_groups m))"

definition config_sound :: "machine_config \<Rightarrow> bool" where
  "config_sound m \<longleftrightarrow> distinct (map cn_name (mg_containers m)) \<and>
     (\<forall>x\<in>set (mg_containers m). \<forall>d\<in>set (cn_depends x). need_met (mg_containers m) x d) \<and>
     mounts_declared m \<and> distinct (mg_front_port m # checked_ports m)"

text \<open>The needs depend on the names, the kind of restart and whether there are health checks.\<close>

definition summary :: "container \<Rightarrow> string \<times> bool \<times> string \<times> (string \<times> string) list" where
  "summary x = (cn_name x, cn_checks x \<noteq> [], cn_restart x, cn_depends x)"

definition needs_of_table :: "(string \<times> bool \<times> string \<times> (string \<times> string) list) list \<Rightarrow> bool" where
  "needs_of_table ts = list_all (\<lambda>(n, _, _, ds). list_all (\<lambda>(d, cond). list_ex (\<lambda>(n', ch, r, _). n' = d \<and>
     start_rank d < start_rank n \<and> (if cond = ''healthy'' then ch \<and> r = ''always'' else cond = ''exited_successfully'' \<and> r = ''no'')) ts) ds) ts"

lemma needs_of_summary:
  "needs_of_table (map summary cs) \<longleftrightarrow> (\<forall>x\<in>set cs. \<forall>d\<in>set (cn_depends x). need_met cs x d)"
  unfolding needs_of_table_def need_met_def summary_def by (simp add: list_all_iff list_ex_iff case_prod_beta)

definition machine_table :: "(string \<times> bool \<times> string \<times> (string \<times> string) list) list" where
  "machine_table =
     [(''secrets-init'', False, ''no'', []), (''mongodb'', True, ''always'', [after_secrets]), (''mini-oidc'', True, ''always'', [])] @
     map (\<lambda>n. (n, True, ''always'', after_secrets # vc_needs n)) VC_SERVICES @
     [(''pdp'', True, ''always'', []),
      (''wallet-backend'', True, ''always'', [after_secrets, (''mongodb'', ''healthy''), (''pdp'', ''healthy'')]),
      (''wallet-frontend'', True, ''always'', [])]"

lemma machine_table_sound: "distinct (map fst machine_table) \<and> needs_of_table machine_table"
  by code_simp

lemma container_summaries [simp]:
  "summary (secrets_init img ss) = (''secrets-init'', False, ''no'', [])"
  "summary (mongodb_container img p) = (''mongodb'', True, ''always'', [after_secrets])"
  "summary (mini_oidc_container img p env) = (''mini-oidc'', True, ''always'', [])"
  "summary (vc_container name img p fs) = (name, True, ''always'', after_secrets # vc_needs name)"
  "summary (pdp_container img p cfg) = (''pdp'', True, ''always'', [])"
  "summary (wallet_backend_container img p ri fs) = (''wallet-backend'', True, ''always'', [after_secrets, (''mongodb'', ''healthy''), (''pdp'', ''healthy'')])"
  "summary (wallet_frontend_container img p q env fs) = (''wallet-frontend'', True, ''always'', [])"
  by (simp_all add: summary_def secrets_init_def mongodb_container_def mini_oidc_container_def vc_container_def pdp_container_def
      wallet_backend_container_def wallet_frontend_container_def a_container_def)

lemma machine_ports:
  assumes "single_machine n"
  shows "port n ''mongodb'' [] = Inr p \<Longrightarrow> p = 27017" "port n ''mini-oidc'' [] = Inr p \<Longrightarrow> p = 9005"
    "port n ''vc-registry'' [] = Inr p \<Longrightarrow> p = 8100" "port n ''vc-issuer'' [] = Inr p \<Longrightarrow> p = 8101"
    "port n ''vc-verifier'' [] = Inr p \<Longrightarrow> p = 8102" "port n ''vc-apigw'' [] = Inr p \<Longrightarrow> p = 8103"
    "port n ''pdp'' [] = Inr p \<Longrightarrow> p = 8104" "port n ''wallet-backend'' ''http'' = Inr p \<Longrightarrow> p = 8110"
    "port n ''wallet-frontend'' [] = Inr p \<Longrightarrow> p = 8120" "port n ''wallet-proxy'' [] = Inr p \<Longrightarrow> p = 8130"
    "port n ''front'' [] = Inr p \<Longrightarrow> p = 8080"
  using assms by (simp_all add: port_def SINGLE_MACHINE_PORTS_def)

lemmas container_defs = secrets_init_def mongodb_container_def mini_oidc_container_def vc_container_def pdp_container_def
  wallet_backend_container_def wallet_frontend_container_def a_container_def http_check_def tcp_check_def

lemma built_config_sound:
  assumes "build_machine_config c images ref vol ids guest s = (Inr m, t)" and "single_machine (dc_naming c)"
  shows "config_sound m"
  using assms(1)
proof (rule config_shape)
  fix ss mongo pm oidc po env vcs pdp pp pdpc wb fe pf
  note P = machine_ports [OF assms(2)]
  assume s: "set ss \<subseteq> set SECRETS"
    "\<forall>e\<in>set SECRETS. fst e \<notin> {''SIROSID_VC_NYM_AUTH_SEED'', ''SIROSID_VC_CREDENTIAL_ENCRYPTION_KEY''} \<longrightarrow> e \<in> set ss"
    and g: "mg_groups m = secret_groups ss"
    and cs: "mg_containers m = [secrets_init mongo ss, mongodb_container mongo pm, mini_oidc_container oidc po env] @ vcs @
       [pdp_container pdp pp pdpc, wb, fe]"
    and vcs: "list_all2 (\<lambda>name x. \<exists>img p files. map_of images name = Some img \<and> port (dc_naming c) name [] = Inr p \<and>
       x = vc_container name img p files) VC_SERVICES vcs"
    and wb: "\<exists>img p ri files. map_of images ''wallet-backend'' = Some img \<and> port (dc_naming c) ''wallet-backend'' ''http'' = Inr p \<and>
       wb = wallet_backend_container img p ri files"
    and fe: "\<exists>img p q env files. map_of images ''wallet-frontend'' = Some img \<and> port (dc_naming c) ''wallet-frontend'' [] = Inr p \<and>
       port (dc_naming c) ''wallet-proxy'' [] = Inr q \<and> fe = wallet_frontend_container img p q env files"
    and ports: "port (dc_naming c) ''mongodb'' [] = Inr pm" "port (dc_naming c) ''mini-oidc'' [] = Inr po"
      "port (dc_naming c) ''pdp'' [] = Inr pp" "port (dc_naming c) ''front'' [] = Inr pf" "mg_front_port m = pf"
  from vcs obtain i1 f1 i2 f2 i3 f3 i4 f4 where
    v: "vcs = [vc_container ''vc-registry'' i1 8100 f1, vc_container ''vc-issuer'' i2 8101 f2,
               vc_container ''vc-verifier'' i3 8102 f3, vc_container ''vc-apigw'' i4 8103 f4]"
    unfolding VC_SERVICES_def list_all2_Cons1 by (auto dest!: P)
  from wb obtain i5 ri f5 where w: "wb = wallet_backend_container i5 8110 ri f5" by (auto dest!: P)
  from fe obtain i6 e6 f6 where f: "fe = wallet_frontend_container i6 8120 8130 e6 f6" by (auto dest!: P)
  note cs = cs [unfolded v w f append.simps]
  have groups: "set (mg_groups m) = {''mongodb'', ''vc'', ''wallet_backend''}" unfolding g by (rule secret_groups_all [OF s])
  have table: "map summary (mg_containers m) = machine_table" by (simp add: cs machine_table_def VC_SERVICES_def)
  have "map cn_name (mg_containers m) = map fst machine_table" unfolding table [symmetric] by (simp add: summary_def)
  then have "distinct (map cn_name (mg_containers m))" using machine_table_sound by simp
  moreover have "\<forall>x\<in>set (mg_containers m). \<forall>d\<in>set (cn_depends x). need_met (mg_containers m) x d"
    using machine_table_sound unfolding needs_of_summary [symmetric] table by simp
  moreover have "mounts_declared m"
    unfolding mounts_declared_def groups cs using groups g
    by (auto simp: container_defs secret_mount_def bundle_mount_def)
  moreover have "distinct (mg_front_port m # checked_ports m)"
    using P(1) [OF ports(1)] P(2) [OF ports(2)] P(7) [OF ports(3)] P(11) [OF ports(4)] ports(5)
    by (simp add: checked_ports_def cs container_defs)
  ultimately show ?thesis by (simp add: config_sound_def)
qed

section \<open>The config bundle\<close>

lemma sort_key_unique:
  assumes "mset xs = mset ys" and "distinct (map fst xs)"
  shows "sort_key fst xs = sort_key fst (ys :: (string \<times> 'a) list)"
proof (rule properties_for_sort_key)
  show "mset (sort_key fst ys) = mset xs" using assms(1) by simp
  show "sorted (map fst (sort_key fst ys))" by simp
  have inj: "inj_on fst (set xs)" using assms(2) by (simp add: distinct_map)
  fix k assume "k \<in> set (sort_key fst ys)"
  then have k: "k \<in> set xs" using assms(1) by (metis mset_eq_setD set_sort)
  have *: "filter (\<lambda>x. fst k = fst x) zs = filter (\<lambda>x. k = x) zs" if "set zs = set xs" for zs
    using inj k that by (auto intro!: filter_cong dest: inj_onD)
  have d: "distinct xs" "distinct ys" using assms by (auto simp: distinct_map dest: mset_eq_imp_distinct_iff)
  have "filter (\<lambda>x. k = x) zs = [k]" if "distinct zs" "k \<in> set zs" for zs
    using that by (induction zs) (auto simp: filter_empty_conv)
  moreover have "set ys = set xs" using assms(1) by (metis mset_eq_setD)
  ultimately show "filter (\<lambda>x. fst k = fst x) (sort_key fst ys) = filter (\<lambda>x. fst k = fst x) xs"
    using * [of xs] * [of "sort_key fst ys"] d k by simp
qed

definition files_of_tar :: "tar_entry list \<Rightarrow> (string \<times> bytes) list" where
  "files_of_tar es = concat (map (\<lambda>e. case e of TarDir _ \<Rightarrow> [] | TarFile p b \<Rightarrow> [(p, b)]) es)"

definition dirs_of_tar :: "tar_entry list \<Rightarrow> string list" where
  "dirs_of_tar es = concat (map (\<lambda>e. case e of TarDir d \<Rightarrow> [d] | TarFile _ _ \<Rightarrow> []) es)"

lemma tar_simps [simp]:
  "files_of_tar [] = []" "files_of_tar (TarFile p b # es) = (p, b) # files_of_tar es" "files_of_tar (map TarDir ds @ es) = files_of_tar es"
  "dirs_of_tar [] = []" "dirs_of_tar (TarFile p b # es) = dirs_of_tar es" "dirs_of_tar (map TarDir ds @ es) = ds @ dirs_of_tar es"
  by (simp_all add: files_of_tar_def dirs_of_tar_def comp_def)

text \<open>Every directory a file lies in has an entry before it.\<close>

fun dirs_first :: "string list \<Rightarrow> tar_entry list \<Rightarrow> bool" where
  "dirs_first seen [] = True"
| "dirs_first seen (TarDir d # es) = dirs_first (seen @ [d]) es"
| "dirs_first seen (TarFile p b # es) = (set (parents p) \<subseteq> set seen \<and> dirs_first seen es)"

lemma dirs_first_append: "dirs_first seen (map TarDir ds @ es) = dirs_first (seen @ ds) es"
  by (induction ds arbitrary: seen) simp_all

lemma tar_entries_sound:
  "tar_entries seen fs = Inr es \<Longrightarrow> files_of_tar es = fs \<and> dirs_first seen es \<and> (\<forall>pb\<in>set fs. inside_image (fst pb))"
proof (induction seen fs arbitrary: es rule: tar_entries.induct)
  case (2 seen path b fs)
  let ?new = "filter (\<lambda>d. d \<notin> set seen) (parents path)"
  from "2.prems" obtain es' where "inside_image path" "tar_entries (seen @ ?new) fs = Inr es'"
    "es = map TarDir ?new @ TarFile path b # es'"
    by (cases "tar_entries (seen @ ?new) fs") (auto simp: Let_def split: if_splits)
  with "2.IH" [OF _ refl] show ?case by (auto simp: dirs_first_append)
qed simp

end
