(* ===== verification/Stage.thy ===== *)
theory Stage
  imports Rollout Capacity
begin

text \<open>
  A concrete builder: flyctl accepts every command and reports one started machine with the
  volume, no apps and no secrets; the renderer writes the config of the API gateway and returns
  two ConfigMaps; documents parse to empty objects. The witnesses of the deploys run on it.
\<close>

definition stage_fly :: "'w fly" where
  "stage_fly =
     \<lparr>fly_org = ''sandbox'', fly_run = (\<lambda>args w. (\<lparr>cr_code = 0, cr_out = ''x'', cr_err = []\<rparr>, w)), fly_app_names = (\<lambda>out. Some []),
      fly_machine_list = (\<lambda>out. Some [\<lparr>fm_id = ''m'', fm_state = Some ''started'', fm_mounts = [(Some ''mongodb_data'', None)]\<rparr>]),
      fly_volume_list = (\<lambda>out. Some [\<lparr>fv_id = ''vol_1'', fv_name = Some ''mongodb_data'', fv_state = None, fv_region = Some ''arn''\<rparr>]),
      fly_check_states = (\<lambda>out. Some [Some ''passing'']), fly_token_rows = (\<lambda>out. []), fly_secret_names = (\<lambda>out. Some []),
      fly_mono = (\<lambda>w. 0), fly_sleep = (\<lambda>t w. w), fly_fuel = 2\<rparr>"

definition stage_kit :: "'w kit" where
  "stage_kit =
     \<lparr>kt_fly = stage_fly, kt_stdin = (\<lambda>args inp w. (\<lparr>cr_code = 0, cr_out = [], cr_err = []\<rparr>, w)), kt_exec = (\<lambda>args env s. (0, s)),
      kt_docker = (\<lambda>args w. (None, w)), kt_authed = (\<lambda>w. True), kt_set_authed = (\<lambda>w. w), kt_time = (\<lambda>w. 0),
      kt_choice = (\<lambda>n w. (0, w)), kt_token_field = (\<lambda>t. None), kt_private_ips = (\<lambda>t. None)\<rparr>"

definition stage_docs :: "json list" where
  "stage_docs =
     [JObj [(''kind'', JStr ''ConfigMap''), (''metadata'', JObj [(''name'', JStr ''images'')]),
        (''data'', JObj [(''mongoCommunityVersion'', JStr ''8''), (''issuerRegistry'', JStr ''reg''), (''issuerCore'', JStr ''iss''),
           (''verifier'', JStr ''ver''), (''issuerApigw'', JStr ''gw''), (''pdp'', JStr ''pdp''), (''walletBackend'', JStr ''wb''),
           (''walletFrontendConfig'', JStr ''wf'')])],
      JObj [(''kind'', JStr ''ConfigMap''), (''metadata'', JObj [(''name'', JStr ''wallet-frontend-main'')]), (''data'', JObj [])]]"

definition stage_render :: "spec \<Rightarrow> naming \<Rightarrow> string list \<Rightarrow> json list \<Rightarrow> string \<Rightarrow> (unit bench, exn, json list) act" where
  "stage_render sp n hs vs p = seq (write_file [''tmp'', ''fly-i'', ''vc-apigw.yaml''] []) (\<lambda>_. give stage_docs)"

definition stage_pages :: pages where
  "stage_pages = \<lparr>pg_wallet_proxy = (\<lambda>_ _. Inr []), pg_wallet_frontend = (\<lambda>_ _ _. Inr []), pg_dashboard = (\<lambda>_ _ _ _ _. Inr []),
     pg_front = (\<lambda>_ _. Inr [])\<rparr>"

definition stage_builder :: "unit builder" where
  "stage_builder =
     \<lparr>bd_kit = stage_kit, bd_pages = stage_pages, bd_root = [], bd_values_fly = Inr (JObj []),
      bd_yaml = (\<lambda>t. Inr (JObj [(''apigw'', JObj [])])), bd_yaml_dump = (\<lambda>j. []), bd_json = (\<lambda>t. Inr (JList [])), bd_sha256 = (\<lambda>b. ''0''),
      bd_mint = (\<lambda>_ _ w. (Inr ''t'', w)), bd_render = stage_render, bd_register = None, bd_sleep = (\<lambda>t w. w)\<rparr>"

definition stage_spec :: "string \<Rightarrow> spec" where
  "stage_spec layout = (default_spec ''i'')\<lparr>s_region := ''arn'', s_env_admin := False, s_layout := layout,
     s_host_pattern := ''{component}-{id}.x.dev''\<rparr>"

definition stage_naming :: "string \<Rightarrow> naming" where
  "stage_naming layout = \<lparr>n_env = ''i'', n_app_prefix = ''sirosid'', n_host_pattern = ''{component}-{id}.x.dev'', n_layout = layout\<rparr>"

definition stage_blobs :: blobs where
  "stage_blobs =
     [(''mongoRootPassword'', ''pw''), (''adminToken'', ''at''), (''vc-pki/signing_ec_private.pem'', ''k''),
      (''vc-pki/wallet_provider_ec_private.pem'', ''k'')]"

definition stage_dir :: abs_path where "stage_dir = [''tmp'']"

definition stage_files :: files where
  "stage_files = map (\<lambda>(p, b). ([''tmp'', ''fly-i''] @ split_on CHR ''/'' p, b)) stage_blobs @
     map (\<lambda>x. ([''tmp'', ''fly-i'', x], []))
       [''vc-registry.yaml'', ''vc-issuer.yaml'', ''vc-verifier.yaml'', ''vc-apigw.yaml'', ''api_auth_jwks.json'', ''pdp.yaml'', ''wallet-backend.yaml'', ''assetlinks.json''] @
     map (\<lambda>x. ([''tmp'', ''fly-i'', ''vc-pki'', x], [])) [''rootCA.crt'', ''signing_ec_chain.pem'', ''wallet_provider_ec.crt'']"

definition stage_bench :: "unit bench" where
  "stage_bench = \<lparr>bn_files = stage_files, bn_world = ()\<rparr>"

definition stage_machine :: mc_machine where
  "stage_machine = \<lparr>mm_id = ''m'', mm_state = Some ''started'', mm_host_pattern = None, mm_config_hash = None, mm_version = [], mm_config = None,
     mm_containers = map (\<lambda>x. (Some x, ''healthy'')) CONTAINER_COMPONENTS @ [(Some ''secrets-init'', ''exited'')], mm_checks = []\<rparr>"

definition stage_machines :: "unit machines" where
  "stage_machines =
     \<lparr>ma_token = ''t'', ma_base_url = [], ma_timeout = 60, ma_transport = (\<lambda>_ _ _ _ _ w. (Reply 200 [], w)),
      ma_machine_list = (\<lambda>_. Some []), ma_machine = (\<lambda>_. Some stage_machine), ma_exec_result = (\<lambda>_. None),
      ma_secret_version = (\<lambda>_. Some 1), ma_clock = (\<lambda>w. 0), ma_sleep = (\<lambda>t w. w), ma_fuel = 2\<rparr>"

definition stage_registry :: "unit registry" where
  "stage_registry = \<lparr>rg_transport = (\<lambda>_ _ _ _ w. (Inr (200, [], []), w)), rg_tar = (\<lambda>es. []), rg_gzip = (\<lambda>b. b), rg_sha256 = (\<lambda>b. ''0''),
     rg_json = (\<lambda>t. Inr JNull)\<rparr>"

definition stage_single :: "unit single" where
  "stage_single = \<lparr>sk_builder = stage_builder, sk_machines = stage_machines, sk_registry = stage_registry, sk_push = None, sk_credential = ''c'',
     sk_guest = None, sk_ready_timeout = 900, sk_ip_types = (\<lambda>_. Some [])\<rparr>"

lemma seq_cong: "m = m' \<Longrightarrow> seq m k s = seq m' k s"
  by simp

lemma rethrow_cong: "m = m' \<Longrightarrow> rethrow h m s = rethrow h m' s"
  by simp

lemmas act_defs = seq_def rethrow_def

lemma stage_fields [simp]:
  "bd_kit stage_builder = stage_kit" "bd_values_fly stage_builder = Inr (JObj [])" "kt_fly stage_kit = stage_fly"
  "bd_render stage_builder sp n hs vs p = seq (write_file [''tmp'', ''fly-i'', ''vc-apigw.yaml''] []) (\<lambda>_. give stage_docs)"
  by (simp_all add: stage_builder_def stage_kit_def stage_render_def)


lemma stage_spec_fields [simp]:
  "s_region (stage_spec l) = ''arn''" "s_images (stage_spec l) = []" "s_conformance (stage_spec l) = False"
  "s_env_admin (stage_spec l) = False" "s_trusted_verifiers (stage_spec l) = []" "s_values (stage_spec l) = []"
  "s_wallet_attestation (stage_spec l) = False" "s_public_ips (stage_spec l) = True" "s_layout (stage_spec l) = l"
  "s_scale_to_zero (stage_spec l) = False" "s_android_apps (stage_spec l) = []"
  by (simp_all add: stage_spec_def default_spec_def)

lemma stage_naming_fields [simp]:
  "n_env (stage_naming l) = ''i''" "n_layout (stage_naming l) = l"
  by (simp_all add: stage_naming_def)

lemma stage_ids [simp]: "spec_identities (stage_spec l) = Inr []"
  by (simp add: spec_identities_def identities_from_entries_def)

definition stage_components :: "component list" where
  "stage_components = build_components ''ghcr.io/sirosfoundation/mini-oidc:0.0.4'' ''ghcr.io/sirosfoundation/sirosid-env-admin:0.1.0''"

lemma stage_pins [simp]: "pinned_components (Inr (JObj [])) = Inr stage_components"
  by (simp add: pinned_components_def image_pin_def text_value_def get_attr_def or_else_def stage_components_def)

lemma stage_version [simp]: "extract_image stage_docs ''mongoCommunityVersion'' = Inr ''8''"
  by (simp add: extract_image_def stage_docs_def is_configmap_def get_attr_def text_value_def)

definition stage_ctx :: "string \<Rightarrow> unit deploy_ctx" where
  "stage_ctx l = \<lparr>dc_builder = stage_builder, dc_naming = stage_naming l, dc_spec = stage_spec l, dc_docs = stage_docs, dc_mongo_version = ''8'',
     dc_out_dir = [''tmp'', ''fly-i''], dc_pki_dir = [], dc_assetlinks = [], dc_mongo_password = ''pw''\<rparr>"

definition present :: "abs_path list \<Rightarrow> unit bench \<Rightarrow> bool" where
  "present ps s \<longleftrightarrow> (\<forall>p\<in>set ps. file_at s p \<noteq> None)"

text \<open>The files that are there when the components are deployed.\<close>

definition stage_paths :: "abs_path list" where
  "stage_paths = map (\<lambda>x. [''tmp'', ''fly-i'', x]) [''vc-apigw.yaml'', ''mongoRootPassword'', ''adminToken'', ''assetlinks.json''] @
     map (\<lambda>x. [''tmp'', ''fly-i'', ''vc-pki'', x]) [''signing_ec_private.pem'', ''wallet_provider_ec_private.pem'']"

lemma present_read: "present ps s \<Longrightarrow> p \<in> set ps \<Longrightarrow> \<exists>b. read_file p s = (Inr b, s)"
  by (auto simp: present_def read_file_def split: option.split)

lemma present_write [simp]: "present ps s \<Longrightarrow> present ps (snd (write_file p b s))"
  by (simp add: present_def file_at_write)

definition fine :: "(unit bench, 'e, 'a) act \<Rightarrow> bool" where
  "fine m \<longleftrightarrow> (\<forall>s. present stage_paths s \<longrightarrow> (\<exists>a t. m s = (Inr a, t) \<and> present stage_paths t))"

lemma fine_seq: "fine m \<Longrightarrow> (\<And>a. fine (k a)) \<Longrightarrow> fine (seq m k)"
  unfolding fine_def seq_Inr_iff by blast

lemma fine_simple: "fine (give a)" "fine (write_file p b)" "fine (has_file p)" "fine (list_dir p)" "fine (value_of (Inr x))"
  by (auto simp: fine_def write_file_def has_file_def list_dir_def present_def file_at_def update_conv')

lemma fine_read: "p \<in> set stage_paths \<Longrightarrow> fine (read_file p)"
  unfolding fine_def using present_read by blast

lemma fine_world: "(\<And>w. \<exists>a w'. m w = (Inr a, w')) \<Longrightarrow> fine (at_world m)"
  by (auto simp: fine_def at_world_iff present_def file_at_def)

lemma fine_if: "(b \<Longrightarrow> fine m) \<Longrightarrow> (\<not> b \<Longrightarrow> fine n) \<Longrightarrow> fine (if b then m else n)"
  by simp

lemma fine_each: "(\<And>x. x \<in> set xs \<Longrightarrow> fine (f x)) \<Longrightarrow> fine (each f xs)"
  by (induction xs) (auto intro!: fine_seq fine_simple)

lemma fine_rethrow: "fine m \<Longrightarrow> fine (rethrow h m)"
  by (simp add: fine_def rethrow_Inr_iff)

lemma stage_run [simp]: "run stage_fly args chk cap w = (Inr \<lparr>cr_code = 0, cr_out = ''x'', cr_err = []\<rparr>, w)"
  by (simp add: run_def stage_fly_def)

lemma stage_fly_fields [simp]:
  "fly_app_names stage_fly = (\<lambda>out. Some [])" "fly_secret_names stage_fly = (\<lambda>out. Some [])"
  "fly_machine_list stage_fly = (\<lambda>out. Some [\<lparr>fm_id = ''m'', fm_state = Some ''started'', fm_mounts = [(Some ''mongodb_data'', None)]\<rparr>])"
  "fly_volume_list stage_fly = (\<lambda>out. Some [\<lparr>fv_id = ''vol_1'', fv_name = Some ''mongodb_data'', fv_state = None, fv_region = Some ''arn''\<rparr>])"
  "fly_check_states stage_fly = (\<lambda>out. Some [Some ''passing''])" "fly_mono stage_fly = (\<lambda>w. 0)" "fly_fuel stage_fly = 2"
  "kt_authed stage_kit = (\<lambda>w. True)" "fly_run stage_fly args w = (\<lparr>cr_code = 0, cr_out = ''x'', cr_err = []\<rparr>, w)"
  "kt_docker stage_kit args w = (None, w)"
  by (simp_all add: stage_fly_def stage_kit_def)

lemma stage_world_ops [simp]:
  "app_exists stage_fly a w = (Inr False, w)" "existing_secret_names stage_fly a w = (Inr [], w)"
  "ensure_app stage_fly a net False w = (Inr (), w)"
  "ensure_volume stage_fly a ''mongodb_data'' ''arn'' sz w = (Inr (Some \<lparr>fv_id = ''vol_1'', fv_name = Some ''mongodb_data'', fv_state = None, fv_region = Some ''arn''\<rparr>, False), w)"
  "ensure_running stage_fly a w = (Inr (), w)" "wait_for_checks stage_fly a w = (Inr (), w)"
  "destroy_machines_without_mount stage_fly a w = (Inr (), w)" "assert_volume_mounted stage_fly a ''mongodb_data'' w = (Inr (), w)"
  "fly_deploy stage_kit args w = (Inr (), w)" "ensure_secret stage_kit a key val force w = (Inr (), w)"
  by (simp_all add: app_exists_def existing_secret_names_def ensure_app_def ensure_volume_def list_volumes_def loads_or_def volume_named_def
      ensure_running_def wait_for_checks_def destroy_machines_without_mount_def assert_volume_mounted_def list_machines_def machine_has_mount_def
      fly_deploy_def ensure_secret_def seq_def run_fly_def numeral_2_eq_2 AT_REST_def split: option.split)

lemma fine_secret: "dc_builder c = stage_builder \<Longrightarrow> fine (set_secret_on c a key val force)"
  by (simp add: set_secret_on_def fine_world)

lemma fine_persistent: "k = stage_kit \<Longrightarrow> name \<in> set STATE_FILES \<Longrightarrow> fine (persistent_secret k dir name)"
  unfolding fine_def persistent_secret_def Let_def
  by (auto simp: seq_Inr_iff has_file_def read_file_def at_world_iff random_secret_def write_file_def present_def file_at_def update_conv'
      split: option.split prod.split)

definition stage_done :: "unit deploy_ctx" where
  "stage_done = (stage_ctx LAYOUT_APPS)\<lparr>dc_pki_dir := [''tmp'', ''fly-i'', ''vc-pki''], dc_assetlinks := [''tmp'', ''fly-i'', ''assetlinks.json'']\<rparr>"

lemma stage_done_fields [simp]:
  "dc_builder stage_done = stage_builder" "dc_naming stage_done = stage_naming LAYOUT_APPS" "dc_spec stage_done = stage_spec LAYOUT_APPS"
  "dc_docs stage_done = stage_docs" "dc_mongo_version stage_done = ''8''" "dc_out_dir stage_done = [''tmp'', ''fly-i'']"
  "dc_pki_dir stage_done = [''tmp'', ''fly-i'', ''vc-pki'']" "dc_assetlinks stage_done = [''tmp'', ''fly-i'', ''assetlinks.json'']"
  by (simp_all add: stage_done_def stage_ctx_def)

lemma stage_host: "\<exists>h. host (stage_naming l) name = Inr h"
  by (simp add: host_def stage_naming_def py_format_def format_field_def is_digit_def)

lemma fine_url: "(\<And>u. fine (f u)) \<Longrightarrow> fine (with_url stage_done name f)"
  using stage_host [of LAYOUT_APPS name] by (auto simp: with_url_def url_def intro!: fine_seq fine_simple)

lemma stage_build_fields [simp]:
  "bd_yaml stage_builder t = Inr (JObj [(''apigw'', JObj [])])" "bd_json stage_builder t = Inr (JList [])"
  "bd_pages stage_builder = stage_pages" "bd_register stage_builder = None"
  by (simp_all add: stage_builder_def)

lemmas fine_rules = fine_seq fine_simple fine_if fine_each fine_world fine_secret fine_persistent fine_url fine_read

lemma fine_dir_args [intro]: "fine (dir_args target dir P)"
  unfolding dir_args_def by (intro fine_rules)

lemma seq_value: "seq (value_of (Inr x)) k = k x" "seq (give x) k = k x"
  by (simp_all add: seq_def value_of_def give_def fun_eq_iff)

lemma stage_no_openings [simp]: "opening_secret_paths (JObj []) = Inr []" "encryption_keys (JObj []) = Inr False"
  by (simp_all add: opening_secret_paths_def encryption_keys_def get_or_def get_attr_def values_of_def)

lemma fine_pair [simp]: "fine (Pair (Inr x))"
  by (simp add: fine_def)

lemma fine_apigw: "fine (apigw_secret_args stage_done a)"
  unfolding apigw_secret_args_def
  by (rule fine_seq, simp add: fine_read stage_paths_def) (simp add: get_attr_def seq_value fine_simple)

lemma fine_vc: "fine (vc_service_files stage_done a service m p bo)"
  unfolding vc_service_files_def Let_def by (intro fine_rules fine_dir_args fine_apigw) (simp_all add: stage_paths_def signing_key_def)

definition plain_image :: "component \<Rightarrow> bool" where
  "plain_image x = (case c_image x of
     FixedImage i \<Rightarrow> \<not> is_err (py_format [(''mongo_version'', ''8'')] i)
   | ImageFromValues k \<Rightarrow> \<not> is_err (extract_image stage_docs k)
   | NoImage \<Rightarrow> False)"

lemma stage_image: "plain_image x \<Longrightarrow> fine (component_image stage_done x)"
  by (auto simp: component_image_def plain_image_def not_is_err_iff fine_simple split: image_source.splits)

lemma stage_urls: obtains u where "url (stage_naming l) name = Inr u"
  using stage_host [of l name] by (auto simp: url_def)

lemma stage_signers: "fine (read_signers stage_done)"
  unfolding read_signers_def
  by (rule fine_seq, simp add: fine_read stage_paths_def) (simp add: as_list_def seq_value)

lemma stage_frontend_data [simp]:
  "extract_configmap_data stage_docs ''wallet-frontend-main'' = Inr (JObj [])" "data_text (JObj []) x = Inr []"
  by (simp_all add: stage_docs_def is_configmap_def get_attr_def data_text_def)

lemma stage_frontend_env: "\<exists>e. wallet_frontend_env (stage_naming l) stage_docs wa ids = Inr e"
  using stage_host [of l "''wallet-frontend''"] stage_host [of l "''wallet-proxy''"]
  by (auto simp: wallet_frontend_env_def url_def)

lemma fine_value: "\<exists>x. r = Inr x \<Longrightarrow> fine (value_of r)"
  by (auto simp: fine_def)

lemma fine_frontend: "fine (wallet_frontend_args stage_done)"
  unfolding wallet_frontend_args_def Let_def
  by (simp add: stage_pages_def seq_value) (intro fine_rules stage_signers fine_value stage_frontend_env)

lemma stage_oidc_env: "\<exists>e. mini_oidc_env (stage_naming l) = Inr e"
  using stage_host [of l "''mini-oidc''"] stage_host [of l "''vc-apigw''"] by (auto simp: mini_oidc_env_def url_def)

lemma fine_mini_oidc: "fine (mini_oidc_args stage_done)"
  unfolding mini_oidc_args_def Let_def using stage_oidc_env by (intro fine_rules fine_value) auto

lemma fine_backend: "fine (wallet_backend_args stage_done a ri)"
  unfolding wallet_backend_args_def Let_def
  by (intro fine_rules fine_dir_args) (simp_all add: stage_paths_def signing_key_def STATE_FILES_def)

lemma fine_proxy: "fine (wallet_proxy_args stage_done)"
  unfolding wallet_proxy_args_def Let_def by (simp add: stage_pages_def seq_value) (intro fine_rules)

lemma fine_mongodb: "fine (mongodb_args stage_done a fresh)"
  unfolding mongodb_args_def by (intro fine_rules) simp

definition stage_names :: "string set" where
  "stage_names = {''mongodb'', ''mini-oidc'', ''vc-registry'', ''vc-issuer'', ''vc-verifier'', ''vc-apigw'', ''pdp'', ''wallet-backend'',
     ''wallet-proxy'', ''wallet-frontend''}"

lemma fine_args: "name \<in> stage_names \<Longrightarrow> fine (component_args stage_done name a ri fresh)"
  unfolding component_args_def
  by (intro fine_if fine_vc fine_mongodb fine_mini_oidc fine_backend fine_proxy fine_frontend fine_simple) (auto simp: stage_names_def)

definition stage_component :: "component \<Rightarrow> bool" where
  "stage_component x \<longleftrightarrow> c_name x \<in> stage_names \<and> plain_image x \<and>
     (c_mount x = None \<or> (\<exists>d. c_mount x = Some (''mongodb_data'', d)))"

lemma stage_names_plain: "x \<in> stage_names \<Longrightarrow> x \<noteq> ''env-admin'' \<and> x \<noteq> ''conformance''"
  by (auto simp: stage_names_def)

lemma fine_only_if: "fine m \<Longrightarrow> fine (only_if b m)"
  by (simp add: only_if_def fine_simple)

lemma fine_volume: "stage_component x \<Longrightarrow> fine (prepare_volume stage_done a x)"
  by (auto simp: stage_component_def prepare_volume_def intro!: fine_seq fine_world fine_simple) (rule exI [of _ False], simp)

lemma fine_mounted: "stage_component x \<Longrightarrow>
    fine (case c_mount x of None \<Rightarrow> give () | Some (v, d) \<Rightarrow> at_world (assert_volume_mounted stage_fly a v))"
  by (auto simp: stage_component_def intro!: fine_world fine_simple)

lemma fine_component: "stage_component x \<Longrightarrow> fine (deploy_component stage_done x)"
  unfolding deploy_component_def Let_def stage_done_fields stage_fields
  by (intro fine_rules fine_args fine_only_if fine_volume fine_mounted stage_image)
    (auto simp: stage_component_def dest: stage_names_plain)

lemma stage_components_ok: "\<forall>x\<in>set (deploy_order stage_components False False). stage_component x"
  unfolding stage_components_def build_components_def mk_component_def deploy_order_def
  by (simp add: stage_component_def stage_names_def volume_name_def plain_image_def)
    (simp add: stage_docs_def extract_image_def is_configmap_def get_attr_def text_value_def py_format_def format_field_def is_digit_def)

lemma fine_all: "\<forall>x\<in>set cs. stage_component x \<Longrightarrow> fine (deploy_all stage_done cs ds)"
  by (induction cs arbitrary: ds) (auto intro!: fine_seq fine_simple fine_rethrow fine_component)


lemma stage_urls_of: "\<exists>us. urls_of (stage_naming l) names = Inr us"
  unfolding urls_of_def
proof (induction names)
  case (Cons x xs)
  obtain h where "host (stage_naming l) x = Inr h" using stage_host by blast
  with Cons show ?case by (auto simp: url_def)
qed simp

lemma stage_finish: "fine (finish_deploy_result stage_done cs images ds)"
  unfolding finish_deploy_result_def Let_def
  by (intro fine_seq fine_persistent fine_value) (simp_all add: fine_simple STATE_FILES_def stage_urls_of)

lemma seq_gives: "m s = (Inr a, t) \<Longrightarrow> seq m k s = k a t"
  by (simp add: seq_def)

definition rendered :: "unit bench \<Rightarrow> unit bench" where
  "rendered s = snd (write_file [''tmp'', ''fly-i'', ''vc-apigw.yaml''] [] s)"

definition seeded :: "unit bench \<Rightarrow> bool" where
  "seeded s \<longleftrightarrow> (\<forall>(p, b)\<in>set stage_blobs. file_at s ([''tmp'', ''fly-i''] @ split_on CHR ''/'' p) = Some b)"

lemma seeded_password: "seeded s \<Longrightarrow> file_at s [''tmp'', ''fly-i'', ''mongoRootPassword''] = Some ''pw''"
  by (simp add: seeded_def stage_blobs_def)

lemma stage_password:
  "seeded s \<Longrightarrow> resolve_mongo_password stage_kit (stage_naming l) [''tmp'', ''fly-i''] s = (Inr ''pw'', s)"
  by (simp add: resolve_mongo_password_def Let_def seq_def has_file_def read_file_def seeded_password py_strip_def lstrip_by_def
      rstrip_by_def is_space_def cong: seq_cong)

lemma stage_prepare:
  "seeded s \<Longrightarrow> prepare_deploy stage_builder (stage_spec l) (stage_naming l) stage_dir s =
     (Inr (stage_ctx l, None, [], deploy_order stage_components False False), rendered s)"
  by (simp add: prepare_deploy_def stage_dir_def Let_def seq_def rethrow_def verifier_identity_def dict_has_def
      render_config_def with_optional_components_def stage_ctx_def stage_password rendered_def write_file_def cong: seq_cong rethrow_cong)

lemma stage_ctx_fields [simp]:
  "dc_builder (stage_ctx l) = stage_builder" "dc_naming (stage_ctx l) = stage_naming l" "dc_spec (stage_ctx l) = stage_spec l"
  "dc_docs (stage_ctx l) = stage_docs" "dc_mongo_version (stage_ctx l) = ''8''" "dc_out_dir (stage_ctx l) = [''tmp'', ''fly-i'']"
  by (simp_all add: stage_ctx_def)

lemma stage_pki: "seeded s \<Longrightarrow> generate_pki (stage_ctx l) (rendered s) = (Inr [''tmp'', ''fly-i'', ''vc-pki''], rendered s)"
proof -
  assume s: "seeded s"
  obtain h where h: "host (stage_naming l) ''vc-apigw'' = Inr h" using stage_host by blast
  have key: "file_at (rendered s) [''tmp'', ''fly-i'', ''vc-pki'', ''signing_ec_private.pem''] \<noteq> None"
    using s by (simp add: seeded_def stage_blobs_def rendered_def file_at_write)
  show ?thesis
    by (simp add: generate_pki_def Let_def with_url_def url_def h check_pki_consistency_def has_file_def signing_key_def key seq_def
        wants_dns_san_def get_or_def get_attr_def dict_has_def stage_kit_def cong: seq_cong)
qed

lemma stage_assets:
  assumes "seeded s"
  obtains t where "generate_android_assets (stage_ctx l) [] (rendered s) = (Inr [''tmp'', ''fly-i'', ''assetlinks.json''], t)"
    "present stage_paths t"
proof (rule that)
  show "generate_android_assets (stage_ctx l) [] (rendered s) = (Inr [''tmp'', ''fly-i'', ''assetlinks.json''],
      snd (write_file [''tmp'', ''fly-i'', ''assetlinks.json''] (assetlinks_json [] []) (rendered s)))"
    by (simp add: generate_android_assets_def Let_def seq_def write_file_def)
  show "present stage_paths (snd (write_file [''tmp'', ''fly-i'', ''assetlinks.json''] (assetlinks_json [] []) (rendered s)))"
    using assms by (simp add: present_def stage_paths_def rendered_def file_at_write seeded_def stage_blobs_def)
qed

lemma stage_images: "\<exists>images. images_of (deploy_order stage_components False False) (stage_spec l) stage_docs ''8'' = Inr images"
  unfolding stage_components_def build_components_def mk_component_def deploy_order_def images_of_def resolve_image_def
  by (simp add: stage_docs_def extract_image_def is_configmap_def get_attr_def text_value_def py_format_def format_field_def is_digit_def)

text \<open>A deploy from a directory with the seed succeeds.\<close>

lemma stage_deployed:
  assumes "seeded s"
  shows "\<exists>d t. deploy_instance stage_builder (stage_spec LAYOUT_APPS) (stage_naming LAYOUT_APPS) stage_dir False s = (Inr d, t)"
proof -
  let ?cs = "deploy_order stage_components False False"
  obtain images where images: "images_of ?cs (stage_spec LAYOUT_APPS) stage_docs ''8'' = Inr images" using stage_images by blast
  obtain s1 where s1: "generate_android_assets (stage_ctx LAYOUT_APPS) [] (rendered s) = (Inr [''tmp'', ''fly-i'', ''assetlinks.json''], s1)"
    "present stage_paths s1" using stage_assets [OF assms] by blast
  have ctx: "(stage_ctx LAYOUT_APPS)\<lparr>dc_pki_dir := [''tmp'', ''fly-i'', ''vc-pki''], dc_assetlinks := [''tmp'', ''fly-i'', ''assetlinks.json'']\<rparr> = stage_done"
    by (simp add: stage_done_def)
  obtain ds s2 where s2: "deploy_all stage_done ?cs [] s1 = (Inr ds, s2)" "present stage_paths s2"
    using fine_all [OF stage_components_ok] s1(2) unfolding fine_def by blast
  obtain d t where "finish_deploy_result stage_done ?cs images ds s2 = (Inr d, t)"
    using stage_finish s2(2) unfolding fine_def by blast
  then show ?thesis
    by (simp add: deploy_instance_def deploy_prepared_def rethrow_def stage_prepare [OF assms] seq_gives images stage_pki [OF assms]
        s1(1) ctx s2(1) Let_def cong: seq_cong)
qed

lemma seeded_stage: "seeded stage_bench"
  by (simp add: seeded_def stage_bench_def file_at_def stage_files_def stage_blobs_def)

lemma tidy_stage: "tidy stage_builder out"
  by (auto simp: tidy_def stage_builder_def stage_kit_def stage_render_def seq_def write_file_def once_kept_def file_at_def update_conv' ONCE_eq generated_def
      VC_SECRETS_DIR_def)


section \<open>The single machine\<close>

definition stage_one :: "unit deploy_ctx" where
  "stage_one = stage_done\<lparr>dc_naming := stage_naming LAYOUT_SINGLE_MACHINE, dc_spec := stage_spec LAYOUT_SINGLE_MACHINE\<rparr>"

definition one_images :: "string dict" where
  "one_images = map (\<lambda>x. (x, x)) CONTAINER_COMPONENTS"

lemma stage_one_fields [simp]:
  "dc_builder stage_one = stage_builder" "dc_naming stage_one = stage_naming LAYOUT_SINGLE_MACHINE"
  "dc_spec stage_one = stage_spec LAYOUT_SINGLE_MACHINE"
  "dc_docs stage_one = stage_docs" "dc_mongo_version stage_one = ''8''" "dc_out_dir stage_one = [''tmp'', ''fly-i'']"
  "dc_pki_dir stage_one = [''tmp'', ''fly-i'', ''vc-pki'']" "dc_assetlinks stage_one = [''tmp'', ''fly-i'', ''assetlinks.json'']"
  by (simp_all add: stage_one_def)

lemma stage_there:
  "x \<in> {''vc-registry.yaml'', ''vc-issuer.yaml'', ''vc-verifier.yaml'', ''vc-apigw.yaml'', ''api_auth_jwks.json'', ''pdp.yaml'',
     ''wallet-backend.yaml'', ''assetlinks.json''} \<Longrightarrow> \<exists>b. file_at stage_bench [''tmp'', ''fly-i'', x] = Some b"
  "y \<in> {''rootCA.crt'', ''signing_ec_chain.pem'', ''wallet_provider_ec.crt''} \<Longrightarrow> \<exists>b. file_at stage_bench [''tmp'', ''fly-i'', ''vc-pki'', y] = Some b"
  by (auto simp: stage_bench_def file_at_def stage_files_def stage_blobs_def)

text \<open>An action that returns and leaves the bench as it is.\<close>

definition reads :: "(unit bench, 'e, 'a) act \<Rightarrow> bool" where
  "reads m \<longleftrightarrow> (\<exists>a. m stage_bench = (Inr a, stage_bench))"

lemma reads_seq: "reads m \<Longrightarrow> (\<And>a. reads (k a)) \<Longrightarrow> reads (seq m k)"
  unfolding reads_def seq_def by fastforce

lemma reads_simple: "reads (give a)" "reads (has_file p)" "reads (list_dir p)"
  by (auto simp: reads_def has_file_def list_dir_def)

lemma reads_value: "\<exists>x. r = Inr x \<Longrightarrow> reads (value_of r)"
  by (auto simp: reads_def)

lemma reads_if: "(b \<Longrightarrow> reads m) \<Longrightarrow> (\<not> b \<Longrightarrow> reads n) \<Longrightarrow> reads (if b then m else n)"
  by simp

lemma reads_each: "(\<And>x. x \<in> set xs \<Longrightarrow> reads (f x)) \<Longrightarrow> reads (each f xs)"
  by (induction xs) (auto intro!: reads_seq reads_simple)

lemma reads_file: "\<exists>b. file_at stage_bench p = Some b \<Longrightarrow> reads (read_file p)"
  by (auto simp: reads_def read_file_def)


lemma reads_has: "reads (k (file_at stage_bench p \<noteq> None)) \<Longrightarrow> reads (seq (has_file p) k)"
  by (simp add: reads_def seq_def has_file_def)

lemma reads_as_file: "\<exists>b. file_at stage_bench p = Some b \<Longrightarrow> reads (as_file target p)"
  unfolding as_file_def by (intro reads_seq reads_file reads_simple)

lemma reads_yaml: "\<exists>b. file_at stage_bench p = Some b \<Longrightarrow> reads (rewritten_yaml stage_builder p mp)"
  unfolding rewritten_yaml_def by (intro reads_seq reads_file reads_value) simp_all

lemma no_dirs: "names_in [''tmp'', ''fly-i'', ''as-rules''] stage_files = []" "names_in [''tmp'', ''fly-i'', ''assurance''] stage_files = []"
  by (simp_all add: names_in_def stage_files_def stage_blobs_def)

lemma reads_dirs: "reads (dir_files target [''tmp'', ''fly-i'', ''as-rules''])" "reads (dir_files target [''tmp'', ''fly-i'', ''assurance''])"
  by (simp_all add: dir_files_def reads_def seq_def list_dir_def stage_bench_def no_dirs)

lemma one_port: "\<exists>p. port (stage_naming LAYOUT_SINGLE_MACHINE) x [] = Inr p"
  if "x \<in> {''mongodb'', ''mini-oidc'', ''vc-registry'', ''vc-issuer'', ''vc-verifier'', ''vc-apigw'', ''pdp'', ''wallet-frontend'', ''wallet-proxy'', ''front''}"
  using that by (auto simp: port_def single_machine_def SINGLE_MACHINE_PORTS_def)

lemma one_backend_port: "\<exists>p. port (stage_naming LAYOUT_SINGLE_MACHINE) ''wallet-backend'' ''http'' = Inr p"
  by (simp add: port_def single_machine_def SINGLE_MACHINE_PORTS_def)

lemma reads_port: "\<exists>p. port (stage_naming LAYOUT_SINGLE_MACHINE) x kind = Inr p \<Longrightarrow> (\<And>p. reads (f p)) \<Longrightarrow> reads (with_port stage_one x kind f)"
  unfolding with_port_def by (intro reads_seq reads_value) simp_all

lemma reads_image: "x \<in> set CONTAINER_COMPONENTS \<Longrightarrow> reads (f x) \<Longrightarrow> reads (with_image one_images x f)"
  by (auto simp: with_image_def one_images_def map_of_map_restrict restrict_map_def)

lemmas reads_rules = reads_seq reads_simple reads_each reads_as_file reads_yaml reads_dirs reads_port reads_image reads_value

lemma reads_vc: "name \<in> set VC_SERVICES \<Longrightarrow> reads (vc_part stage_one one_images name)"
  unfolding vc_part_def Let_def stage_one_fields
  by (intro reads_rules reads_if)
    (auto simp: VC_SERVICES_def CONTAINER_COMPONENTS_def intro!: one_port stage_there)

lemma reads_backend: "reads (wallet_backend_part stage_one one_images)"
proof -
  have none: "file_at stage_bench [''tmp'', ''fly-i'', ''wallet-backend-registry.yaml''] = None"
    by (simp add: stage_bench_def file_at_def stage_files_def stage_blobs_def)
  show ?thesis unfolding wallet_backend_part_def Let_def stage_one_fields
    by (rule reads_has) (simp add: none, intro reads_rules,
      auto simp: CONTAINER_COMPONENTS_def intro!: one_backend_port stage_there)
qed

lemma reads_frontend: "reads (wallet_frontend_part stage_one one_images [])"
  unfolding wallet_frontend_part_def Let_def stage_one_fields
  by (intro reads_rules stage_frontend_env)
    (auto simp: CONTAINER_COMPONENTS_def stage_pages_def intro!: one_port stage_there)

lemma reads_secrets: "reads (active_secrets stage_builder [''tmp'', ''fly-i''])"
  unfolding active_secrets_def
  by (intro reads_rules reads_file) (auto simp: get_or_def get_attr_def needed_secrets_def secret_needed_def SECRETS_def intro!: stage_there)

lemma stage_config:
  "\<exists>m. build_machine_config stage_one one_images ''ref'' ''vol_1'' [] None stage_bench = (Inr m, stage_bench)"
  unfolding reads_def [symmetric] build_machine_config_def Let_def stage_one_fields
  by (intro reads_rules reads_secrets reads_vc reads_backend reads_frontend reads_file stage_oidc_env)
    (auto simp: CONTAINER_COMPONENTS_def intro!: one_port stage_there)

end
