(* ===== verification/Delivery.thy ===== *)
theory Delivery
  imports Stage
begin

text \<open>
  The properties of the two deploys and of the control plane over them.
\<close>

text \<open>
  A deploy of the apps layout, whether it succeeds or fails at any point, leaves every secret that is generated once
  as it was, and a deploy that succeeds has the root password of the database written down in the state of the
  instance. The PKI script and the renderer are assumed to leave those files alone.
\<close>

theorem deploy_keeps_secrets:
  assumes "tidy b (out_dir dir n)" and "deploy_instance b sp n dir render_only s = (r, t)"
  shows "once_kept (out_dir dir n) s t \<and> (\<forall>d. r = Inr d \<longrightarrow> password_kept (out_dir dir n) (dr_mongo_password d) t)"
  using once_deploy_instance [OF assms(2,1)] deployed_password assms by blast

theorem deploy_keeps_secrets_witness:
  "\<exists>d t. deploy_instance stage_builder (stage_spec LAYOUT_APPS) (stage_naming LAYOUT_APPS) stage_dir False stage_bench = (Inr d, t) \<and>
     once_kept [''tmp'', ''fly-i''] stage_bench t \<and> password_kept [''tmp'', ''fly-i''] (dr_mongo_password d) t"
proof -
  obtain d t where run:
    "deploy_instance stage_builder (stage_spec LAYOUT_APPS) (stage_naming LAYOUT_APPS) stage_dir False stage_bench = (Inr d, t)"
    using stage_deployed [OF seeded_stage] by blast
  have "out_dir stage_dir (stage_naming LAYOUT_APPS) = [''tmp'', ''fly-i'']" by (simp add: out_dir_def stage_dir_def)
  with deploy_keeps_secrets [OF tidy_stage run] run show ?thesis by auto
qed

text \<open>
  A deploy of the single-machine layout, whether it succeeds or fails at any point, leaves every secret that is
  generated once as it was, and a deploy that succeeds has the root password of the database it reports written down in
  the state of the instance. The PKI script and the renderer are assumed to leave those files alone.
\<close>

theorem single_keeps_secrets:
  assumes "tidy (sk_builder k) (out_dir dir n)" and "deploy_single_machine k sp n dir render_only s = (r, t)"
  shows "once_kept (out_dir dir n) s t \<and> (\<forall>d. r = Inr d \<longrightarrow> password_kept (out_dir dir n) (dr_mongo_password d) t)"
  using once.keepsD [OF once_deploy_single [OF assms(1)] assms(2)] single_deployed_password assms by blast

theorem single_keeps_secrets_witness:
  "once_kept [''tmp'', ''fly-i''] stage_bench
     (snd (deploy_single_machine stage_single (stage_spec LAYOUT_SINGLE_MACHINE) (stage_naming LAYOUT_SINGLE_MACHINE) stage_dir False stage_bench))"
proof -
  have "tidy (sk_builder stage_single) (out_dir stage_dir (stage_naming LAYOUT_SINGLE_MACHINE))" by (simp add: stage_single_def tidy_stage)
  from single_keeps_secrets [OF this surjective_pairing] show ?thesis by (simp add: out_dir_def stage_dir_def)
qed




text \<open>
  C9. Every machine config that is built fits the machine and can come up: it needs no more block devices than boot,
  its containers have distinct names and distinct ports, the volumes they mount are declared, and each waits only
  for containers that start before it and can reach the awaited state.
\<close>

theorem built_config_comes_up:
  assumes "build_machine_config c images ref vol ids guest s = (Inr m, t)" and "single_machine (dc_naming c)"
  shows "check_block_devices m = Inr () \<and> config_sound m"
  using built_config_sound [OF assms] built_block_devices [OF assms(1)]
  by (simp add: check_block_devices_def MAX_BLOCK_DEVICES_def MAX_DEVICES_WITH_TEMP_DIRS_def case_prod_beta)

theorem built_config_comes_up_witness:
  "\<exists>m. build_machine_config stage_one one_images ''ref'' ''vol_1'' [] None stage_bench = (Inr m, stage_bench) \<and>
     check_block_devices m = Inr () \<and> config_sound m"
proof -
  obtain m where m: "build_machine_config stage_one one_images ''ref'' ''vol_1'' [] None stage_bench = (Inr m, stage_bench)"
    using stage_config by blast
  from built_config_comes_up [OF m] m show ?thesis by (simp add: single_machine_def)
qed

text \<open>
  The registration of the services is tried until it works: if the service becomes ready within fifteen attempts
  the registration succeeds with that attempt, and if it never does the deploy says so after exactly fifteen.
\<close>

theorem registration_is_awaited:
  assumes "admin_url \<noteq> []" and "url n ''vc-apigw'' = Inr apigw" and "url n ''vc-verifier'' = Inr verifier"
    and "\<forall>i<j. not_ready (register admin_url token apigw verifier additional) (bd_sleep b) ws i"
    and "j = 15 \<or> j < 15 \<and> register admin_url token apigw verifier additional (ws j) = (Inr (), w)"
  shows "if j < 15 then register_vc_services b n register token admin_url additional (ws 0) = (Inr (), w)
    else \<exists>m. register_vc_services b n register token admin_url additional (ws 0) = (Inl (gave_up n admin_url apigw verifier m), ws 15)"
proof -
  have run: "register_vc_services b n register token admin_url additional (ws 0) =
    register_loop 15 (register admin_url token apigw verifier additional) (bd_sleep b) (gave_up n admin_url apigw verifier) ''None'' (ws 0)"
    by (simp add: register_vc_services_def seq_def assms(1-3))
  show ?thesis
    unfolding run using register_loop_ready [of j _ _ ws 0] register_loop_not_ready [of 15 _ _ ws 0] assms(4,5) by auto
qed

text \<open>The world counts the attempts; the third one works.\<close>

definition third_time :: "nat \<Rightarrow> (nat, unit) outcome" where
  "third_time w = (if w < 2 then Inl (OtherError ''RegistrationError'' ''no'') else Inr (), w + 1)"

definition counting_builder :: "nat builder" where
  "counting_builder =
     \<lparr>bd_kit = stage_kit, bd_pages = stage_pages, bd_root = [], bd_values_fly = Inr JNull, bd_yaml = Inr \<circ> JStr, bd_yaml_dump = (\<lambda>j. []),
      bd_json = Inr \<circ> JStr, bd_sha256 = id, bd_mint = (\<lambda>_ _ w. (Inr [], w)), bd_render = (\<lambda>_ _ _ _ _. give []), bd_register = None,
      bd_sleep = (\<lambda>t w. w)\<rparr>"

theorem registration_is_awaited_witness:
  "register_vc_services counting_builder (stage_naming LAYOUT_APPS) (\<lambda>_ _ _ _ _. third_time) ''t'' ''https://x'' [] 0 = (Inr (), 3)"
proof -
  obtain a v where a: "url (stage_naming LAYOUT_APPS) ''vc-apigw'' = Inr a" "url (stage_naming LAYOUT_APPS) ''vc-verifier'' = Inr v"
    using stage_urls by metis
  have "\<forall>i<2. not_ready third_time (bd_sleep counting_builder) id i"
    by (auto simp: not_ready_def third_time_def counting_builder_def)
  moreover have "third_time 2 = (Inr (), 3)" by (simp add: third_time_def)
  ultimately show ?thesis
    using registration_is_awaited [of "''https://x''", OF _ a, of 2 "\<lambda>_ _ _ _ _. third_time" "''t''" "[]" counting_builder id 3] by simp
qed

lemma tar_entries_refused: "tar_entries seen fs = Inl e \<Longrightarrow> \<exists>pb\<in>set fs. \<not> inside_image (fst pb)"
proof (induction seen fs rule: tar_entries.induct)
  case (2 seen path b fs)
  let ?new = "filter (\<lambda>d. d \<notin> set seen) (parents path)"
  show ?case
  proof (cases "inside_image path")
    case True
    with "2.prems" have "tar_entries (seen @ ?new) fs = Inl e"
      by (cases "tar_entries (seen @ ?new) fs") (simp_all add: Let_def)
    with "2.IH" [OF _ refl] True show ?thesis by auto
  qed simp
qed simp

text \<open>
  The config bundle is canonical: its digest does not depend on the order in which the files are given, its layer
  holds exactly the files, each after the directories it lies in, and no path leaves the image.
\<close>

theorem bundle_is_canonical:
  assumes "mset files = mset files'" and "distinct (map fst files)"
  shows "image_blobs g files = image_blobs g files' \<and>
    (case tar_entries [] (sort_key fst files) of
       Inl e \<Rightarrow> \<exists>pb\<in>set files. \<not> inside_image (fst pb)
     | Inr es \<Rightarrow> set (files_of_tar es) = set files \<and> dirs_first [] es \<and> list_all (\<lambda>pb. inside_image (fst pb)) files)"
proof
  show "image_blobs g files = image_blobs g files'"
    by (simp add: image_blobs_def build_layer_def sort_key_unique [OF assms])
  show "case tar_entries [] (sort_key fst files) of
       Inl e \<Rightarrow> \<exists>pb\<in>set files. \<not> inside_image (fst pb)
     | Inr es \<Rightarrow> set (files_of_tar es) = set files \<and> dirs_first [] es \<and> list_all (\<lambda>pb. inside_image (fst pb)) files"
    using tar_entries_refused [of "[]" "sort_key fst files"] tar_entries_sound [of "[]" "sort_key fst files"]
    by (auto split: sum.split simp: list_all_iff)
qed

theorem bundle_is_canonical_witness:
  "image_blobs stage_registry [(''vctms/a.json'', ''x''), (''documents/b.json'', ''y'')] =
     image_blobs stage_registry [(''documents/b.json'', ''y''), (''vctms/a.json'', ''x'')]"
proof -
  have "mset [(''vctms/a.json'', ''x''), (''documents/b.json'', ''y'')] = mset [(''documents/b.json'', ''y''), (''vctms/a.json'', ''x'')]"
    "distinct (map fst [(''vctms/a.json'', ''x''), (''documents/b.json'', ''y'')])" by simp_all
  from bundle_is_canonical [OF this, THEN conjunct1] show ?thesis .
qed

section \<open>The control plane over the deploys\<close>





lemma fly_dir_nonempty [simp]: "fly_dir iid \<noteq> []"
  by (simp add: fly_dir_def)












end
