(* ===== verification/Wiring.thy ===== *)
theory Wiring
  imports Rendering Delivery
begin

text \<open>
  The properties of the rendered configs: overlays, the registry, identities, secrets and the
  key id of the engine. A path into a JSON value is a list of keys.
\<close>

section \<open>Overlays\<close>

fun keyed :: "json \<Rightarrow> bool" where
  "keyed (JObj kvs) = (distinct (map fst kvs) \<and> list_all keyed (map snd kvs))"
| "keyed _ = True"

fun untouched :: "string list \<Rightarrow> json \<Rightarrow> bool" where
  "untouched [] j = False"
| "untouched (k # ks) j =
     (case j of JObj kvs \<Rightarrow> (case map_of kvs k of None \<Rightarrow> True | Some v \<Rightarrow> untouched ks v) | _ \<Rightarrow> False)"

definition merged :: "json option \<Rightarrow> json \<Rightarrow> json" where
  "merged old v =
     (case v of
        JObj o' \<Rightarrow> (case old of Some (JObj b) \<Rightarrow> JObj (merge_into b o') | _ \<Rightarrow> v)
      | _ \<Rightarrow> v)"

lemma merge_into_get:
  "distinct (map fst ov) \<Longrightarrow>
   map_of (merge_into base ov) k = (case map_of ov k of None \<Rightarrow> map_of base k | Some v \<Rightarrow> Some (merged (map_of base k) v))"
proof (induction ov arbitrary: base)
  case (Cons kv ov)
  obtain k' v where kv: "kv = (k', v)" by (cases kv)
  have step: "merge_into base ((k', v) # ov) = merge_into (AList.update k' (merged (map_of base k') v) base) ov"
    by (simp add: merged_def)
  from Cons.prems kv have "map_of ov k' = None" by (simp add: map_of_eq_None_iff)
  with Cons.IH Cons.prems kv show ?case by (auto simp: step update_conv' simp del: merge_into.simps split: option.split)
qed simp

lemma keyed_map_of: "keyed (JObj kvs) \<Longrightarrow> map_of kvs k = Some v \<Longrightarrow> keyed v"
  by (auto simp: list_all_iff dest: map_of_SomeD)

lemma merged_leaf: "json_at p ov = Some v \<Longrightarrow> \<not> is_JObj v \<or> (\<forall>b. old \<noteq> Some b \<or> \<not> (\<exists>kvs. json_at p b = Some (JObj kvs))) \<Longrightarrow>
  keyed ov \<Longrightarrow> json_at p (merged old ov) = Some v"
proof (induction p arbitrary: old ov)
  case Nil
  then show ?case by (cases v) (auto simp: merged_def split: option.split json.split)
next
  case (Cons k p)
  then obtain kvs u where ov: "ov = JObj kvs" "map_of kvs k = Some u" "json_at p u = Some v"
    by (cases ov) (auto split: option.splits)
  show ?case
  proof (cases "\<exists>b. old = Some (JObj b)")
    case True
    then obtain b where b: "old = Some (JObj b)" by blast
    have "json_at p (merged (map_of b k) u) = Some v"
      using Cons.prems(2) ov(1,2) keyed_map_of [of kvs k u] Cons.prems(3)
      by (intro Cons.IH [OF ov(3)]) (auto simp: b split: option.splits)
    with ov b Cons.prems(3) show ?thesis by (simp add: merged_def merge_into_get)
  next
    case False
    then have "merged old ov = ov" by (auto simp: merged_def ov(1) split: option.split json.split)
    with ov show ?thesis by simp
  qed
qed

lemma merged_untouched: "untouched p ov \<Longrightarrow> keyed ov \<Longrightarrow> json_at p b = Some v \<Longrightarrow> json_at p (merged (Some b) ov) = Some v"
proof (induction p arbitrary: b ov)
  case (Cons k p)
  then obtain kvs where ov: "ov = JObj kvs" by (cases ov) simp_all
  obtain bs u where b: "b = JObj bs" "map_of bs k = Some u" "json_at p u = Some v"
    using Cons.prems(3) by (cases b) (auto split: option.splits)
  show ?case
  proof (cases "map_of kvs k")
    case None
    with ov b Cons.prems(2) show ?thesis by (simp add: merged_def merge_into_get)
  next
    case (Some w)
    then have "json_at p (merged (Some u) w) = Some v"
      using Cons.prems keyed_map_of [of kvs k w] ov by (intro Cons.IH [OF _ _ b(3)]) auto
    with ov b Some Cons.prems(2) show ?thesis by (simp add: merged_def merge_into_get)
  qed
qed simp

lemma merged_new: "untouched p ov \<Longrightarrow> keyed ov \<Longrightarrow> json_at p b = None \<Longrightarrow> json_at p (merged (Some b) ov) = None"
proof (induction p arbitrary: b ov)
  case (Cons k p)
  then obtain kvs where ov: "ov = JObj kvs" by (cases ov) simp_all
  have none: "json_at p w = None" if "untouched p w" "keyed w" for p w
    using that
  proof (induction p w rule: untouched.induct)
    case (2 k ks j)
    show ?case
    proof (cases j)
      case (JObj kvs)
      show ?thesis
      proof (cases "map_of kvs k")
        case (Some v)
        with 2 JObj keyed_map_of [of kvs k v] show ?thesis by simp
      qed (use JObj in simp)
    qed (use 2 in simp_all)
  qed simp
  show ?case
  proof (cases "\<exists>bs. b = JObj bs")
    case False
    then have "merged (Some b) ov = ov" by (auto simp: merged_def ov split: json.split)
    with Cons.prems(1,2) none [of "k # p" ov] show ?thesis by simp
  next
    case True
    then obtain bs where b: "b = JObj bs" by blast
    show ?thesis
    proof (cases "map_of kvs k")
      case None
      with ov b Cons.prems show ?thesis by (simp add: merged_def merge_into_get split: option.splits)
    next
      case (Some w)
      then have w: "untouched p w" "keyed w" using Cons.prems ov keyed_map_of [of kvs k w] by auto
      have "json_at p (merged (map_of bs k) w) = None"
        using Cons.IH [OF w] Cons.prems(3) none [OF w] b
        by (cases "map_of bs k") (auto simp: merged_def split: json.split)
      with ov b Some Cons.prems(2) show ?thesis by (simp add: merged_def merge_into_get)
    qed
  qed
qed simp

lemma deep_merge_merged: "deep_merge (JObj b) ov = Inr m \<Longrightarrow> m = merged (Some (JObj b)) ov"
  by (cases ov) (auto simp: deep_merge_def merged_def)

text \<open>
  C13. An overlay merged into values decides what it names and nothing else: a path the overlay does not touch reads as before,
  and one where the overlay has a value reads that value, unless both have an object there, which are merged in turn.
\<close>

theorem overlay_decides:
  assumes "deep_merge (JObj base) ov = Inr m" and "keyed ov"
  shows "(untouched p ov \<longrightarrow> json_at p m = json_at p (JObj base)) \<and>
    (\<forall>v. json_at p ov = Some v \<longrightarrow> \<not> is_JObj v \<or> \<not> (\<exists>kvs. json_at p (JObj base) = Some (JObj kvs)) \<longrightarrow> json_at p m = Some v)"
  unfolding deep_merge_merged [OF assms(1)] using assms(2)
  by (cases "json_at p (JObj base)") (auto simp: merged_untouched merged_new intro!: merged_leaf)


theorem overlay_decides_witness:
  "\<exists>m. deep_merge (JObj [(''issuer'', obj1 ''core'' (JObj [(''a'', JInt 1), (''b'', JInt 2)]))]) (obj1 ''issuer'' (obj1 ''core'' (obj1 ''b'' (JInt 3)))) = Inr m \<and>
     json_at [''issuer'', ''core'', ''a''] m = Some (JInt 1) \<and> json_at [''issuer'', ''core'', ''b''] m = Some (JInt 3)"
proof -
  let ?b = "[(''issuer'', obj1 ''core'' (JObj [(''a'', JInt 1), (''b'', JInt 2)]))]" and ?o = "obj1 ''issuer'' (obj1 ''core'' (obj1 ''b'' (JInt 3)))"
  obtain m where m: "deep_merge (JObj ?b) ?o = Inr m" by (simp add: deep_merge_def obj1_def)
  have "keyed ?o" by (simp add: obj1_def)
  with overlay_decides [OF m this, of "[''issuer'', ''core'', ''a'']"] overlay_decides [OF m this, of "[''issuer'', ''core'', ''b'']"] m
  show ?thesis by (simp add: obj1_def)
qed

section \<open>The registry\<close>







lemma json_at_append: "json_at (p @ q) j = (case json_at p j of None \<Rightarrow> None | Some v \<Rightarrow> json_at q v)"
  by (induction p arbitrary: j) (simp_all split: option.split)

lemma json_at_under: "json_at p j = Some (JObj d) \<Longrightarrow> json_at (p @ [k]) j = map_of d k"
  by (simp add: json_at_append split: option.split)



section \<open>Paths of a changed dictionary\<close>

lemma put_at:
  "set_item k v j = Inr j' \<Longrightarrow> json_at (x # ks) j' = (if x = k then json_at ks v else json_at (x # ks) j)"
  by (simp add: set_item_get)

lemma in_item_at:
  assumes "in_item k f j = Inr j'"
  obtains v v' where "\<And>ks. json_at (k # ks) j = json_at ks v" "f v = Inr v'"
    "\<And>x ks. json_at (x # ks) j' = (if x = k then json_at ks v' else json_at (x # ks) j)"
  using assms by (rule in_item_Inr) (use that in simp)

lemma in_default_at:
  assumes "in_default k d f j = Inr j'"
  obtains v v' where "f v = Inr v'" "\<And>x ks. json_at (x # ks) j' = (if x = k then json_at ks v' else json_at (x # ks) j)"
  using assms by (rule in_default_Inr) (use that in simp)

lemma set_origins_at:
  assumes "set_origins first hashes j = Inr j'"
  obtains os where "\<And>x ks. json_at (x # ks) j' = (if x = ''rp_origins'' then json_at ks (JList (JStr first # os)) else json_at (x # ks) j)"
  using assms put_at unfolding set_origins_def bind_sum_Inr_iff by blast

lemma cors_at:
  assumes "in_item ''cors'' (steps [set_item ''allowed_origins'' (JList [JStr frontend]), set_item ''allow_credentials'' (JBool True)]) j = Inr j'"
  shows "json_at [''cors'', ''allowed_origins''] j' = Some (JList [JStr frontend])"
    and "x \<noteq> ''cors'' \<Longrightarrow> json_at (x # ks) j' = json_at (x # ks) j"
  using assms by (auto elim!: in_item_at simp: bind_sum_Inr_iff put_at simp del: json_at.simps(2))

lemma own_ports_at:
  assumes "own_ports n j = Inr j'" and "x \<notin> {''port'', ''admin_port'', ''engine_port'', ''host''}"
  shows "json_at (''server'' # x # ks) j' = json_at (''server'' # x # ks) j"
  using assms by (auto simp: own_ports_def bind_sum_Inr_iff put_port_def put_at simp del: json_at.simps(2) elim!: in_item_at)

definition server_identity :: "string \<Rightarrow> string \<Rightarrow> string \<Rightarrow> json \<Rightarrow> bool" where
  "server_identity proxy frontend rpid j \<longleftrightarrow>
     json_at [''server'', ''rp_id''] j = Some (JStr rpid) \<and> json_at [''server'', ''base_url''] j = Some (JStr proxy) \<and>
     (\<exists>os. json_at [''server'', ''rp_origins''] j = Some (JList (JStr frontend # os))) \<and>
     json_at [''server'', ''cors'', ''allowed_origins''] j = Some (JList [JStr frontend])"

lemma fly_server_at:
  assumes "fly_server n hashes proxy frontend rpid j = Inr j'"
  shows "server_identity proxy frontend rpid j'" and "x \<noteq> ''server'' \<Longrightarrow> json_at (x # ks) j' = json_at (x # ks) j"
proof -
  obtain j1 where j1: "in_item ''server'' (steps [put ''rp_id'' rpid, set_origins frontend hashes, put ''base_url'' proxy,
          in_item ''cors'' (steps [set_item ''allowed_origins'' (JList [JStr frontend]), set_item ''allow_credentials'' (JBool True)])]) j = Inr j1"
    and j': "(if single_machine n then own_ports n else Inr) j1 = Inr j'"
    using assms by (auto simp: fly_server_def bind_sum_Inr_iff)
  have one: "server_identity proxy frontend rpid j1" "x \<noteq> ''server'' \<Longrightarrow> json_at (x # ks) j1 = json_at (x # ks) j" for x ks
    using j1 by (auto simp: server_identity_def bind_sum_Inr_iff put_at cors_at simp del: json_at.simps(2) elim!: in_item_at set_origins_at)
  have "server_identity proxy frontend rpid j'" if "own_ports n j1 = Inr j'"
    using one(1) by (simp add: server_identity_def own_ports_at [OF that] del: json_at.simps(2))
  then show "server_identity proxy frontend rpid j'" using one(1) j' by (auto split: if_splits)
  show "json_at (x # ks) j' = json_at (x # ks) j" if "x \<noteq> ''server''"
    using j' one(2) [OF that] that
    by (auto simp: own_ports_def bind_sum_Inr_iff put_at simp del: json_at.simps(2) split: if_splits elim!: in_item_at)
qed

lemma fly_wallet_provider_at:
  assumes "fly_wallet_provider attestation proxy j = Inr j'"
  shows "json_at [''wallet_provider'', ''wia'', ''wallet_provider_uri''] j' = Some (JStr proxy)"
    and "attestation \<Longrightarrow> json_at [''wallet_provider'', ''wia'', ''issuer''] j' = Some (JStr proxy)"
    and "x \<noteq> ''wallet_provider'' \<Longrightarrow> json_at (x # ks) j' = json_at (x # ks) j"
  using assms
  by (auto simp: fly_wallet_provider_def bind_sum_Inr_iff put_at simp del: json_at.simps(2) split: if_splits elim!: in_default_at)

lemma wallet_backend_fly_at:
  assumes "patch_wallet_backend_fly n hashes password attestation j = Inr j'"
  obtains proxy frontend rpid mongo where
    "url n ''wallet-proxy'' = Inr proxy" "url n ''wallet-frontend'' = Inr frontend" "host n ''wallet-frontend'' = Inr rpid"
    "addr n ''mongodb'' [] = Inr mongo"
    "server_identity proxy frontend rpid j'"
    "json_at [''trust'', ''registry_url''] j' = Some (JStr (proxy @ ''/registry''))"
    "json_at [''wallet_provider'', ''wia'', ''wallet_provider_uri''] j' = Some (JStr proxy)"
    "attestation \<Longrightarrow> json_at [''wallet_provider'', ''wia'', ''issuer''] j' = Some (JStr proxy)"
    "json_at [''as'', ''external_url''] j' = Some (JStr proxy)"
    "json_at [''storage'', ''mongodb'', ''uri''] j' =
       Some (JStr (''mongodb://'' @ mongo_auth (Some password) @ mongo @ ''/wallet-backend?authSource=admin''))"
proof -
  from assms obtain proxy frontend rpid pdp mongo where u:
    "url n ''wallet-proxy'' = Inr proxy" "url n ''wallet-frontend'' = Inr frontend" "host n ''wallet-frontend'' = Inr rpid"
    "addr n ''mongodb'' [] = Inr mongo" and run: "steps
       [fly_server n hashes proxy frontend rpid,
        in_item ''trust'' (steps [put ''pdp_url'' (''http://'' @ pdp), put ''registry_url'' (proxy @ ''/registry'')]),
        in_item ''storage'' (set_item ''mongodb''
          (mongo_block (''mongodb://'' @ mongo_auth (Some password) @ mongo @ ''/wallet-backend?authSource=admin''))),
        fly_wallet_provider attestation proxy,
        in_default ''as'' (JObj []) (steps [put ''external_url'' proxy, put ''default_max_tac'' ''rwlidk''])] j = Inr j'"
    by (auto simp: patch_wallet_backend_fly_def bind_sum_Inr_iff simp del: steps_simps)
  from run obtain j1 j2 j3 j4 where j:
    "fly_server n hashes proxy frontend rpid j = Inr j1"
    "in_item ''trust'' (steps [put ''pdp_url'' (''http://'' @ pdp), put ''registry_url'' (proxy @ ''/registry'')]) j1 = Inr j2"
    "in_item ''storage'' (set_item ''mongodb''
          (mongo_block (''mongodb://'' @ mongo_auth (Some password) @ mongo @ ''/wallet-backend?authSource=admin''))) j2 = Inr j3"
    "fly_wallet_provider attestation proxy j3 = Inr j4"
    "in_default ''as'' (JObj []) (steps [put ''external_url'' proxy, put ''default_max_tac'' ''rwlidk'']) j4 = Inr j'"
    by (auto simp: bind_sum_Inr_iff)
  have trust: "json_at [''trust'', ''registry_url''] j2 = Some (JStr (proxy @ ''/registry''))"
    "x \<noteq> ''trust'' \<Longrightarrow> json_at (x # ks) j2 = json_at (x # ks) j1" for x ks
    using j(2) by (auto simp: bind_sum_Inr_iff put_at simp del: json_at.simps(2) elim!: in_item_at)
  have storage: "json_at [''storage'', ''mongodb'', ''uri''] j3 =
       Some (JStr (''mongodb://'' @ mongo_auth (Some password) @ mongo @ ''/wallet-backend?authSource=admin''))"
    "x \<noteq> ''storage'' \<Longrightarrow> json_at (x # ks) j3 = json_at (x # ks) j2" for x ks
    using j(3) by (auto simp: put_at mongo_block_def simp del: json_at.simps(2) elim!: in_item_at) (simp add: mongo_block_def)
  have as: "json_at [''as'', ''external_url''] j' = Some (JStr proxy)" "x \<noteq> ''as'' \<Longrightarrow> json_at (x # ks) j' = json_at (x # ks) j4" for x ks
    using j(5) by (auto simp: bind_sum_Inr_iff put_at simp del: json_at.simps(2) elim!: in_default_at)
  note frames = as(2) fly_wallet_provider_at(3) [OF j(4)] storage(2) trust(2)
  have "server_identity proxy frontend rpid j'"
    using fly_server_at(1) [OF j(1)] by (simp add: server_identity_def frames del: json_at.simps(2))
  then show ?thesis
    using fly_wallet_provider_at(1,2) [OF j(4)] trust(1) storage(1) as(1)
    by (intro that [OF u]) (simp_all add: frames del: json_at.simps(2))
qed

lemma listeners_untouched:
  assumes "single_machine_listeners n = Inr j"
  shows "keyed j" and "untouched (''hostnames'' # ks) j" and "untouched (''pdp'' # ''extraRegistries'' # ks) j"
    and "untouched (''issuer'' # ''apigw'' # ''extraConfig'' # ''apigw'' # ''delivery'' # ks) j"
  using assms by (auto simp: single_machine_listeners_def bind_sum_Inr_iff listen_at_def map_sum_Inr_iff obj1_def)

lemma overlay_at:
  assumes "build_fly_values_overlay a = Inr overlay"
  obtains frontend rpid apigw verifier pids vs where
    "url (ra_naming a) ''wallet-frontend'' = Inr frontend" "host (ra_naming a) ''wallet-frontend'' = Inr rpid"
    "url (ra_naming a) ''vc-apigw'' = Inr apigw" "url (ra_naming a) ''vc-verifier'' = Inr verifier"
    "json_at [''hostnames'', ''walletFrontend''] overlay = Some (JStr rpid)"
    "json_at [''issuer'', ''apigw'', ''extraConfig'', ''apigw'', ''delivery'', ''openid4vci'', ''clients'', ''e2e-test-client''] overlay =
       Some (e2e_client frontend)"
    "json_at [''pdp'', ''extraRegistries'', ''whitelist'', ''lists'', ''pid-issuers''] overlay = Some (JList (JStr apigw # pids))"
    "json_at [''pdp'', ''extraRegistries'', ''mdociaca'', ''issuer_allowlist''] overlay = Some (JList (JStr apigw # pids))"
    "json_at [''pdp'', ''extraRegistries'', ''whitelist'', ''lists'', ''verifiers''] overlay = Some (JList (JStr apigw # JStr verifier # vs))"
    "\<And>proxy. ra_attestation a \<Longrightarrow> url (ra_naming a) ''wallet-proxy'' = Inr proxy \<Longrightarrow>
       json_at [''pdp'', ''extraRegistries'', ''whitelist'', ''lists'', ''wallet-providers''] overlay = Some (JList [JStr proxy])"
proof -
  let ?n = "ra_naming a"
  obtain pids verifiers providers frontend hosts oidc issuer registry pdp where
    p: "pid_issuers ?n (ra_conformance a) (ra_trusted_issuers a) = Inr pids"
    and v: "whitelist_verifiers ?n (ra_conformance a) (ra_trusted_verifiers a) = Inr verifiers"
    and w: "(if ra_attestation a then map_sum id (\<lambda>u. [JStr u]) (url ?n ''wallet-proxy'') else Inr []) = Inr providers"
    and f: "url ?n ''wallet-frontend'' = Inr frontend" and h: "hostname_values ?n = Inr hosts"
    and o': "(let ov = JObj (overlay_base ?n hosts frontend oidc issuer registry pdp (ra_attestation a) (extra_registries ?n pids
          (whitelist_config ?n pids verifiers providers (ra_verifier_roots a)) (ra_rical_url a) (ra_rical_root a)))
        in if single_machine ?n then bind_sum (single_machine_listeners ?n) (deep_merge ov) else Inr ov) = Inr overlay"
    using assms unfolding build_fly_values_overlay_def Let_def bind_sum_Inr_iff by blast
  define base where "base = overlay_base ?n hosts frontend oidc issuer registry pdp (ra_attestation a) (extra_registries ?n pids
    (whitelist_config ?n pids verifiers providers (ra_verifier_roots a)) (ra_rical_url a) (ra_rical_root a))"
  have kept: "json_at p overlay = Some x"
    if "json_at p (JObj base) = Some x" and "\<And>j. single_machine_listeners ?n = Inr j \<Longrightarrow> untouched p j" for p x
  proof (cases "single_machine ?n")
    case True
    with o' obtain j where "single_machine_listeners ?n = Inr j" "deep_merge (JObj base) j = Inr overlay"
      by (auto simp: base_def bind_sum_Inr_iff)
    with that merged_untouched [OF that(2) listeners_untouched(1) that(1)] deep_merge_merged [of base j overlay] show ?thesis by simp
  qed (use o' that in \<open>simp add: base_def\<close>)
  obtain rpid where r: "host ?n ''wallet-frontend'' = Inr rpid" "json_at [''walletFrontend''] hosts = Some (JStr rpid)"
    using h by (auto simp: hostname_values_def map_sum_Inr_iff split: sum.splits)
  obtain apigw ps where a: "url ?n ''vc-apigw'' = Inr apigw" "pids = JStr apigw # ps"
    using p by (auto simp: pid_issuers_def bind_sum_Inr_iff)
  obtain verifier vs where b: "url ?n ''vc-verifier'' = Inr verifier" "verifiers = JStr apigw # JStr verifier # vs"
    using v a by (auto simp: whitelist_verifiers_def bind_sum_Inr_iff)
  show ?thesis
  proof (rule that [OF f r(1) a(1) b(1)])
    show "json_at [''hostnames'', ''walletFrontend''] overlay = Some (JStr rpid)"
      using r(2) by (intro kept listeners_untouched) (simp_all add: base_def overlay_base_def)
    show "json_at [''issuer'', ''apigw'', ''extraConfig'', ''apigw'', ''delivery'', ''openid4vci'', ''clients'', ''e2e-test-client''] overlay =
       Some (e2e_client frontend)"
      by (intro kept listeners_untouched) (simp_all add: base_def overlay_base_def apigw_values_def obj1_def)
    show "json_at [''pdp'', ''extraRegistries'', ''whitelist'', ''lists'', ''pid-issuers''] overlay = Some (JList (JStr apigw # ps))"
      "json_at [''pdp'', ''extraRegistries'', ''mdociaca'', ''issuer_allowlist''] overlay = Some (JList (JStr apigw # ps))"
      "json_at [''pdp'', ''extraRegistries'', ''whitelist'', ''lists'', ''verifiers''] overlay = Some (JList (JStr apigw # JStr verifier # vs))"
      using a(2) b(2)
      by (intro kept listeners_untouched; simp add: base_def overlay_base_def extra_registries_def whitelist_config_def)+
    show "json_at [''pdp'', ''extraRegistries'', ''whitelist'', ''lists'', ''wallet-providers''] overlay = Some (JList [JStr proxy])"
      if "ra_attestation a" "url ?n ''wallet-proxy'' = Inr proxy" for proxy
      using w that
      by (intro kept listeners_untouched) (auto simp: base_def overlay_base_def extra_registries_def whitelist_config_def)
  qed
qed

text \<open>
  C11. The wallet backend, the wallet frontend and the issuers of an instance are told the same identities: the relying party
  of the passkeys is the host of the frontend in all three, the frontend is an accepted origin, the API, the
  authorization server, the registry and the wallet provider are at the address the frontend uses, the redirect of the
  frontend is registered at the issuer, and the trust lists hold the issuer, the verifier and, with attestation, the
  wallet provider. It holds in both layouts, whose overlays differ.
\<close>

theorem identities_agree:
  assumes "patch_wallet_backend_fly (ra_naming a) (ra_hashes a) (ra_password a) (ra_attestation a) config = Inr backend"
    and "build_fly_values_overlay a = Inr overlay"
    and "wallet_frontend_env (ra_naming a) docs (ra_attestation a) signers = Inr env"
    and "host (ra_naming a) ''wallet-frontend'' = Inr rpid" and "url (ra_naming a) ''wallet-frontend'' = Inr frontend"
    and "url (ra_naming a) ''wallet-proxy'' = Inr proxy" and "url (ra_naming a) ''vc-apigw'' = Inr apigw"
    and "url (ra_naming a) ''vc-verifier'' = Inr verifier"
  shows
   "map_of env ''WEBAUTHN_RPID'' = Some rpid \<and> json_at [''server'', ''rp_id''] backend = Some (JStr rpid) \<and>
    json_at [''hostnames'', ''walletFrontend''] overlay = Some (JStr rpid) \<and>
    map_of env ''STATIC_PUBLIC_URL'' = Some frontend \<and>
    (\<exists>os. json_at [''server'', ''rp_origins''] backend = Some (JList (JStr frontend # os))) \<and>
    json_at [''server'', ''cors'', ''allowed_origins''] backend = Some (JList [JStr frontend]) \<and>
    map_of env ''WALLET_ENGINE_URL'' = Some proxy \<and> json_at [''server'', ''base_url''] backend = Some (JStr proxy) \<and>
    json_at [''as'', ''external_url''] backend = Some (JStr proxy) \<and>
    json_at [''wallet_provider'', ''wia'', ''wallet_provider_uri''] backend = Some (JStr proxy) \<and>
    json_at [''trust'', ''registry_url''] backend = Some (JStr (proxy @ ''/registry'')) \<and>
    map_of env ''VCT_REGISTRY_URL'' = Some (proxy @ ''/registry/type-metadata'') \<and>
    (\<exists>us cb. map_of env ''OPENID4VCI_REDIRECT_URI'' = Some cb \<and> JStr cb \<in> set us \<and>
       json_at [''issuer'', ''apigw'', ''extraConfig'', ''apigw'', ''delivery'', ''openid4vci'', ''clients'', ''e2e-test-client'', ''redirect_uri''] overlay =
         Some (JList us)) \<and>
    (\<exists>pids. json_at [''pdp'', ''extraRegistries'', ''whitelist'', ''lists'', ''pid-issuers''] overlay = Some (JList (JStr apigw # pids)) \<and>
       json_at [''pdp'', ''extraRegistries'', ''mdociaca'', ''issuer_allowlist''] overlay = Some (JList (JStr apigw # pids))) \<and>
    (\<exists>vs. json_at [''pdp'', ''extraRegistries'', ''whitelist'', ''lists'', ''verifiers''] overlay = Some (JList (JStr apigw # JStr verifier # vs))) \<and>
    (ra_attestation a \<longrightarrow> map_of env ''WIA_ENABLED'' = Some ''true'' \<and>
       json_at [''wallet_provider'', ''wia'', ''issuer''] backend = Some (JStr proxy) \<and>
       json_at [''pdp'', ''extraRegistries'', ''whitelist'', ''lists'', ''wallet-providers''] overlay = Some (JList [JStr proxy]))"
proof -
  from assms(1) have b: "server_identity proxy frontend rpid backend" "json_at [''trust'', ''registry_url''] backend = Some (JStr (proxy @ ''/registry''))"
      "json_at [''wallet_provider'', ''wia'', ''wallet_provider_uri''] backend = Some (JStr proxy)"
      "ra_attestation a \<longrightarrow> json_at [''wallet_provider'', ''wia'', ''issuer''] backend = Some (JStr proxy)"
      "json_at [''as'', ''external_url''] backend = Some (JStr proxy)"
    using assms(4-6) by (auto simp del: json_at.simps elim!: wallet_backend_fly_at)
  from assms(3) have env: "map_of env ''WEBAUTHN_RPID'' = Some rpid" "map_of env ''STATIC_PUBLIC_URL'' = Some frontend" "map_of env ''WALLET_ENGINE_URL'' = Some proxy"
    "map_of env ''VCT_REGISTRY_URL'' = Some (proxy @ ''/registry/type-metadata'')"
    "map_of env ''OPENID4VCI_REDIRECT_URI'' = Some (frontend @ ''/id/default/cb'')" "ra_attestation a \<longrightarrow> map_of env ''WIA_ENABLED'' = Some ''true''"
    by (auto simp: wallet_frontend_env_def assms(4-6) bind_sum_Inr_iff)
  from assms(2) have o': "json_at [''hostnames'', ''walletFrontend''] overlay = Some (JStr rpid)"
    "\<exists>us. JStr (frontend @ ''/id/default/cb'') \<in> set us \<and>
       json_at [''issuer'', ''apigw'', ''extraConfig'', ''apigw'', ''delivery'', ''openid4vci'', ''clients'', ''e2e-test-client'', ''redirect_uri''] overlay =
         Some (JList us)"
    "\<exists>pids. json_at [''pdp'', ''extraRegistries'', ''whitelist'', ''lists'', ''pid-issuers''] overlay = Some (JList (JStr apigw # pids)) \<and>
       json_at [''pdp'', ''extraRegistries'', ''mdociaca'', ''issuer_allowlist''] overlay = Some (JList (JStr apigw # pids))"
    "\<exists>vs. json_at [''pdp'', ''extraRegistries'', ''whitelist'', ''lists'', ''verifiers''] overlay = Some (JList (JStr apigw # JStr verifier # vs))"
    "ra_attestation a \<longrightarrow>
       json_at [''pdp'', ''extraRegistries'', ''whitelist'', ''lists'', ''wallet-providers''] overlay = Some (JList [JStr proxy])"
    using assms(4-8) json_at_under [of "[''issuer'', ''apigw'', ''extraConfig'', ''apigw'', ''delivery'', ''openid4vci'', ''clients'', ''e2e-test-client'']" overlay]
    by (auto simp: e2e_client_def simp del: json_at.simps(2) elim!: overlay_at)
  from b(1)[unfolded server_identity_def] b(2-) env o' show ?thesis by (simp del: json_at.simps)
qed


text \<open>An instance on the apps layout.\<close>

definition demo_args :: render_args where
  "demo_args = \<lparr>ra_target = OnFly, ra_naming = stage_naming LAYOUT_APPS, ra_hashes = [''h''], ra_namespace = ''sirosid-dev'', ra_out = [''tmp''],
      ra_secrets_dir = [''tmp''], ra_password = ''pw'', ra_conformance = False, ra_trusted_issuers = [], ra_attestation = True,
      ra_trusted_verifiers = [], ra_verifier_roots = [], ra_rical_url = [], ra_rical_root = [], ra_zk_sources = [], ra_dc_api = [],
      ra_hostnames = [], ra_mini_oidc_url = [], ra_registries = [], ra_values = [], ra_bbs = []\<rparr>"

definition demo_backend :: json where
  "demo_backend = JObj [(''server'', JObj [(''rp_origins'', JList [JStr ''android:x'']), (''cors'', JObj [])]), (''trust'', JObj []), (''storage'', JObj [])]"

lemma demo_host: "host (stage_naming l) x = Inr (x @ ''-i.x.dev'')" "url (stage_naming l) x = Inr (''https://'' @ x @ ''-i.x.dev'')"
  by (simp_all add: host_def url_def stage_naming_def py_format_def format_field_def is_digit_def)

lemma demo_args_simps [simp]:
  "ra_naming demo_args = stage_naming LAYOUT_APPS" "ra_hashes demo_args = [''h'']" "ra_password demo_args = ''pw''" "ra_attestation demo_args"
  "ra_conformance demo_args = False" "ra_target demo_args = OnFly" "render_dir demo_args = [''tmp'', ''fly-i'']"
  by (simp_all add: demo_args_def render_dir_def stage_naming_def)

lemma bind_weak: "r = r' \<Longrightarrow> bind_sum r f = bind_sum r' f"
  by simp

lemma demo_apps: "single_machine (stage_naming LAYOUT_APPS) = False"
  by (simp add: single_machine_def stage_naming_def)

lemma demo_addr: "\<exists>p. port (stage_naming LAYOUT_APPS) x kind = Inr p \<Longrightarrow> \<exists>a. addr (stage_naming LAYOUT_APPS) x kind = Inr a"
  by (auto simp: addr_def)

lemma demo_addrs: "\<exists>a. addr (stage_naming LAYOUT_APPS) ''pdp'' [] = Inr a" "\<exists>a. addr (stage_naming LAYOUT_APPS) ''mongodb'' [] = Inr a"
    "\<exists>a. addr (stage_naming LAYOUT_APPS) ''vc-issuer'' ''grpc'' = Inr a" "\<exists>a. addr (stage_naming LAYOUT_APPS) ''vc-registry'' ''grpc'' = Inr a"
  by (intro demo_addr; simp add: port_def demo_apps APPS_PORTS_def)+

lemma demo_server: "\<exists>d. fly_server (stage_naming LAYOUT_APPS) [''h''] proxy frontend rpid demo_backend = Inr (JObj d) \<and>
    map_of d ''trust'' = Some (JObj []) \<and> map_of d ''storage'' = Some (JObj []) \<and> map_of d ''wallet_provider'' = None \<and> map_of d ''as'' = None"
  by (simp add: fly_server_def demo_backend_def demo_apps in_item_def item_of_def set_item_def set_origins_def android_origins_def iterate_def
      as_list_def is_android_def starts_with_def cong: bind_weak)

lemma demo_patched: "\<exists>b. patch_wallet_backend_fly (stage_naming LAYOUT_APPS) [''h''] ''pw'' True demo_backend = Inr b"
proof -
  obtain p m where "addr (stage_naming LAYOUT_APPS) ''pdp'' [] = Inr p" "addr (stage_naming LAYOUT_APPS) ''mongodb'' [] = Inr m" using demo_addrs by blast
  moreover obtain d where "fly_server (stage_naming LAYOUT_APPS) [''h''] (''https://wallet-proxy-i.x.dev'') (''https://wallet-frontend-i.x.dev'') (''wallet-frontend-i.x.dev'')
      demo_backend = Inr (JObj d)" "map_of d ''trust'' = Some (JObj [])" "map_of d ''storage'' = Some (JObj [])" "map_of d ''wallet_provider'' = None" "map_of d ''as'' = None"
    using demo_server by blast
  ultimately show ?thesis
    by (simp add: patch_wallet_backend_fly_def demo_host in_item_def item_of_def set_item_def in_default_def fly_wallet_provider_def update_conv'
      cong: bind_weak)
qed

lemma demo_overlay: "\<exists>ov. build_fly_values_overlay demo_args = Inr ov"
proof -
  obtain p i r where "addr (stage_naming LAYOUT_APPS) ''pdp'' [] = Inr p" "addr (stage_naming LAYOUT_APPS) ''vc-issuer'' ''grpc'' = Inr i"
      "addr (stage_naming LAYOUT_APPS) ''vc-registry'' ''grpc'' = Inr r" using demo_addrs by blast
  then show ?thesis
    by (simp add: build_fly_values_overlay_def Let_def demo_host demo_apps pid_issuers_def whitelist_verifiers_def hostname_values_def cong: bind_weak)
qed

theorem identities_agree_witness:
  "\<exists>backend env. patch_wallet_backend_fly (stage_naming LAYOUT_APPS) [''h''] ''pw'' True demo_backend = Inr backend \<and>
     wallet_frontend_env (stage_naming LAYOUT_APPS) stage_docs True [] = Inr env \<and>
     json_at [''server'', ''rp_id''] backend = Some (JStr ''wallet-frontend-i.x.dev'') \<and> map_of env ''WEBAUTHN_RPID'' = Some ''wallet-frontend-i.x.dev''"
proof -
  obtain backend ov where b: "patch_wallet_backend_fly (stage_naming LAYOUT_APPS) [''h''] ''pw'' True demo_backend = Inr backend"
    and ov: "build_fly_values_overlay demo_args = Inr ov" using demo_patched demo_overlay by blast
  obtain env where env: "wallet_frontend_env (stage_naming LAYOUT_APPS) stage_docs True [] = Inr env"
    by (simp add: wallet_frontend_env_def demo_host)
  from identities_agree [of demo_args demo_backend backend ov stage_docs "[]" env] b ov env show ?thesis by (simp add: demo_host)
qed

text \<open>
  C10. A rendering for Fly, whether it succeeds or fails, leaves every generated file as it was, and a secret drawn before it
  reads the same after it. helm renders Kubernetes objects, in which no key of a ConfigMap has a slash.
\<close>

theorem rendering_keeps_secrets:
  assumes "kubernetes_keys rn" and "ra_target a = OnFly"
  shows "once_kept (render_dir a) s (snd (render rn a s)) \<and>
    (\<forall>p k v t. generated (render_dir a) p \<longrightarrow> gen_secret rn p k s = (Inr v, t) \<longrightarrow>
      gen_secret rn p k (snd (render rn a t)) = (Inr v, snd (render rn a t)))"
proof -
  have kept: "once_kept (render_dir a) s (snd (render rn a s))" for s
    using once_render_fly [OF assms] by (simp add: once.keeps_def)
  then show ?thesis using gen_secret_again [OF _ _ kept] by blast
qed

definition demo_signer :: "unit signer" where
  "demo_signer = \<lparr>sg_openssl = (\<lambda>args inp s. ((0, ''k''), bn_world s)), sg_load = (\<lambda>_. Inr None), sg_sign = (\<lambda>_ _ w. ((1, 1), w)),
     sg_sha256 = id, sg_time = (\<lambda>_. 0), sg_random = (\<lambda>n w. (replicate n CHR 0x00, w))\<rparr>"

definition demo_manifest :: json where
  "demo_manifest = JObj [(''kind'', JStr ''ConfigMap''), (''metadata'', obj1 ''name'' (JStr ''pdp-main'')), (''data'', obj1 ''config.yaml'' (JStr ''x''))]"

definition demo_renderer :: "unit renderer" where
  "demo_renderer = \<lparr>rn_signer = demo_signer, rn_kit = stage_kit, rn_root = [], rn_chart = [''chart''], rn_read = (\<lambda>_. Some ''x''),
     rn_listing = (\<lambda>_. []), rn_yaml = (\<lambda>_. Inr (JObj [])), rn_yaml_all = (\<lambda>_. Inr [demo_manifest]), rn_yaml_dump = (\<lambda>_. ''x''),
     rn_helm = (\<lambda>args s. (Some \<lparr>cr_code = 0, cr_out = ''m'', cr_err = []\<rparr>, bn_world s))\<rparr>"

lemma demo_keys: "kubernetes_keys demo_renderer"
  by (auto simp: kubernetes_keys_def demo_renderer_def load_manifest_docs_def demo_manifest_def plain_manifest_def is_configmap_def obj1_def
      get_attr_def get_or_def split: if_splits)

theorem rendering_keeps_secrets_witness:
  "file_at (snd (render demo_renderer demo_args \<lparr>bn_files = [([''tmp'', ''fly-i'', ''adminToken''], ''at'')], bn_world = ()\<rparr>)) [''tmp'', ''fly-i'', ''adminToken''] = Some ''at''"
proof -
  let ?s = "\<lparr>bn_files = [([''tmp'', ''fly-i'', ''adminToken''], ''at'')], bn_world = ()\<rparr>"
  have "once_kept [''tmp'', ''fly-i''] ?s (snd (render demo_renderer demo_args ?s))"
    using rendering_keeps_secrets [OF demo_keys, of demo_args ?s] by simp
  then show ?thesis by (auto simp: once_kept_def file_at_def generated_def ONCE_eq)
qed

text \<open>
  C6. A deploy with the renderer of the repository, in either layout and whether it succeeds or fails at any point, leaves
  every secret that is generated once as it was, and one that succeeds has the root password of the database it reports
  written down in the state of the instance. The PKI script is assumed to leave those files alone, and helm to render
  ConfigMaps without slashes in their keys.
\<close>

theorem deploys_keep_secrets:
  assumes "kubernetes_keys rn" and "\<forall>args env s. once_kept (out_dir dir n) s (snd (kt_exec (bd_kit b) args env s))"
  shows "(case deploy_instance (rendering rn dir b) sp n dir render_only s of (r, t) \<Rightarrow>
      once_kept (out_dir dir n) s t \<and> (\<forall>d. r = Inr d \<longrightarrow> password_kept (out_dir dir n) (dr_mongo_password d) t)) \<and>
    (case deploy_single_machine (k\<lparr>sk_builder := rendering rn dir b\<rparr>) sp n dir render_only s of (r, t) \<Rightarrow>
      once_kept (out_dir dir n) s t \<and> (\<forall>d. r = Inr d \<longrightarrow> password_kept (out_dir dir n) (dr_mongo_password d) t))"
proof -
  have tidy: "tidy (rendering rn dir b) (out_dir dir n)"
    unfolding out_dir_def by (rule tidy_rendering [OF assms(1) assms(2) [unfolded out_dir_def]])
  then have single: "tidy (sk_builder (k\<lparr>sk_builder := rendering rn dir b\<rparr>)) (out_dir dir n)" by simp
  show ?thesis
    using once_deploy_instance [OF _ tidy] deployed_password [of "rendering rn dir b"] tidy
      once.keepsD [OF once_deploy_single [OF single]] single_deployed_password [OF _ single]
    by (auto split: prod.split)
qed

theorem deploys_keep_secrets_witness:
  "once_kept [''tmp'', ''fly-i''] stage_bench
     (snd (deploy_instance (rendering demo_renderer stage_dir stage_builder) (stage_spec LAYOUT_APPS) (stage_naming LAYOUT_APPS) stage_dir False stage_bench))"
proof -
  have "\<forall>args env s. once_kept (out_dir stage_dir (stage_naming LAYOUT_APPS)) s (snd (kt_exec (bd_kit stage_builder) args env s))"
    using tidy_stage by (simp add: tidy_def)
  from deploys_keep_secrets [OF demo_keys this, THEN conjunct1, of stage_bench "stage_spec LAYOUT_APPS" False] show ?thesis
    by (auto simp: out_dir_def stage_dir_def stage_naming_def split: prod.splits)
qed

section \<open>The key id of the engine's bearer\<close>

definition key_text :: "bytes \<Rightarrow> bytes \<Rightarrow> string" where
  "key_text x y = compact_text (sorted_keys (JObj (jwk_core x y)))"

lemma b64_char_plain:
  assumes "i < 64"
  shows "json_char (b64_char i) = [b64_char i]" and "b64_char i \<noteq> quote_mark"
proof -
  have "(of_char (b64_char i) :: nat) = (if i < 26 then 65 + i else if i < 52 then 71 + i else if i < 62 then i - 4 else if i = 62 then 45 else 95)"
    using assms by (simp add: b64_char_def)
  then have n: "32 \<le> (of_char (b64_char i) :: nat)" "(of_char (b64_char i) :: nat) \<le> 126" "(of_char (b64_char i) :: nat) \<notin> {34, 92}"
    using assms by auto
  then show "json_char (b64_char i) = [b64_char i]" by (simp add: json_char_def)
  from n(3) show "b64_char i \<noteq> quote_mark" by (auto simp del: b64_char_not_pad)
qed

lemma b64_body_plain: "byte_list bs \<Longrightarrow> concat (map json_char (b64_body bs)) = b64_body bs \<and> quote_mark \<notin> set (b64_body bs)"
  by (induction bs rule: b64_body.induct) (auto simp: byte_list_def sextets b64_char_plain dest!: sym [of quote_mark])

lemma base64url_body: "bytes_to_base64url b = b64_body (map of_char b)"
  by (simp add: bytes_to_base64url_def unpadded_body byte_list_def list_all_iff)

lemma base64url_inj: "bytes_to_base64url b = bytes_to_base64url c \<Longrightarrow> b = c"
proof -
  assume "bytes_to_base64url b = bytes_to_base64url c"
  then have "b64_body (map of_char b) = b64_body (map of_char c)" by (simp add: base64url_body)
  then have "Some (map of_char b) = Some (map of_char c :: nat list)"
    using b64_decode_body [of "map of_char b"] b64_decode_body [of "map of_char c"] by (simp add: byte_list_def list_all_iff b64_pad_def)
  then show "b = c" by (simp add: inj_map_eq_map inj_def)
qed

definition key_prefix :: string where
  "key_prefix = ''{'' @ quoted ''crv'' @ '':'' @ quoted ''P-256'' @ '','' @ quoted ''kty'' @ '':'' @ quoted ''EC'' @ '','' @ quoted ''x'' @ '':''"

lemma key_text_form: "\<exists>rest. key_text x y = key_prefix @ quote_mark # bytes_to_base64url x @ quote_mark # rest"
proof -
  have plain: "json_text (bytes_to_base64url x) = quoted (bytes_to_base64url x)"
    by (simp add: json_text_def base64url_body b64_body_plain byte_list_def list_all_iff)
  have "sort_key fst (jwk_core x y) = jwk_core x y"
    by (rule sort_key_id_if_sorted) (simp add: jwk_core_def)
  then have "sorted_keys (JObj (jwk_core x y)) = JObj (jwk_core x y)" by (simp add: jwk_core_def)
  then show ?thesis
    by (simp add: key_text_def compact_text_def jwk_core_def compact_json_def line_start_def plain key_prefix_def quoted_def)
      (simp add: json_text_def json_char_def quoted_def)
qed

lemma key_text_inj:
  assumes "key_text x y = key_text x' y'"
  shows "x = x'"
proof -
  obtain r r' where "key_text x y = key_prefix @ quote_mark # bytes_to_base64url x @ quote_mark # r"
    "key_text x' y' = key_prefix @ quote_mark # bytes_to_base64url x' @ quote_mark # r'" using key_text_form by metis
  with assms have eq: "bytes_to_base64url x @ quote_mark # r = bytes_to_base64url x' @ quote_mark # r'" by simp
  have "quote_mark \<notin> set (bytes_to_base64url x)" for x
    by (simp add: base64url_body b64_body_plain byte_list_def list_all_iff)
  then have "takeWhile (\<lambda>c. c \<noteq> quote_mark) (bytes_to_base64url x @ quote_mark # r) = bytes_to_base64url x" for x r
    by (subst takeWhile_append2) auto
  then have "bytes_to_base64url x = bytes_to_base64url x'" using eq by metis
  then show ?thesis by (rule base64url_inj)
qed

text \<open>
  C14. The key id of the bearer of the WMP engine is the RFC 7638 thumbprint of the signing key exactly where the first
  coordinate of the key has its full 32 bytes; where it is shorter, the id is another or, if the second coordinate is
  longer, there is no bearer at all. SHA-256 is assumed not to collide on the texts at hand.
\<close>

theorem engine_key_id:
  assumes "x < 256 ^ 32" and "y < 256 ^ 32"
    and "\<forall>k. sha256 (key_text (big_endian k x) (big_endian k y)) = sha256 (key_text (big_endian 32 x) (big_endian 32 y)) \<longrightarrow>
      key_text (big_endian k x) (big_endian k y) = key_text (big_endian 32 x) (big_endian 32 y)"
  shows "(engine_kid sha256 x y = Inr (thumbprint sha256 (big_endian 32 x) (big_endian 32 y)) \<longleftrightarrow> 256 ^ 31 \<le> x) \<and>
    (byte_length x < byte_length y \<longrightarrow> engine_kid sha256 x y = Inl (OtherError ''OverflowError'' ''int too big to convert''))"
proof
  let ?k = "byte_length x"
  have len: "256 ^ 31 \<le> x \<longleftrightarrow> ?k = 32" using byte_length_le [of x 31] byte_length_le [of x 32] assms(1) by linarith
  have x: "x < 256 ^ ?k" unfolding byte_length_le [symmetric] by simp
  have same: "?k = 32" if "thumbprint sha256 (big_endian ?k x) (big_endian ?k y) = thumbprint sha256 (big_endian 32 x) (big_endian 32 y)"
  proof -
    have "sha256 (key_text (big_endian ?k x) (big_endian ?k y)) = sha256 (key_text (big_endian 32 x) (big_endian 32 y))"
      using that unfolding thumbprint_def key_text_def [symmetric] by (rule base64url_inj)
    then have "big_endian ?k x = big_endian 32 x" using assms(3) key_text_inj by blast
    from arg_cong [OF this, of length] show ?thesis by simp
  qed
  show "engine_kid sha256 x y = Inr (thumbprint sha256 (big_endian 32 x) (big_endian 32 y)) \<longleftrightarrow> 256 ^ 31 \<le> x"
    unfolding len using same x assms(2) by (auto simp: engine_kid_def Let_def to_bytes_def)
  show "?k < byte_length y \<longrightarrow> engine_kid sha256 x y = Inl (OtherError ''OverflowError'' ''int too big to convert'')"
    using x byte_length_le [of y ?k] by (auto simp: engine_kid_def Let_def to_bytes_def)
qed


theorem engine_key_id_witness:
  "engine_kid id 5 256 = Inl (OtherError ''OverflowError'' ''int too big to convert'')"
proof -
  have "byte_length 5 < byte_length 256" by (simp add: byte_length_simps)
  then show ?thesis using engine_key_id [of 5 256 id] by simp
qed

end
