(* ===== verification/Settings.thy ===== *)
theory Settings
  imports Edge Plane Assets
begin

text \<open>
  The settings of the control plane (sirosid_service/config.py) and what the service start
  makes of them (\<open>build\<close> of sirosid_service/__main__.py). The environment is a map; \<open>float(..)\<close>
  and \<open>int(..)\<close> of a text are in the record \<open>parsers\<close>. The rule that no instance host may be
  the console's or below it is \<open>instance_host_may_be\<close>, which compares labels with patterns;
  its match of a regular expression is a function on tokens here.
\<close>

definition CONSOLE_HOST :: string where "CONSOLE_HOST = ''console.sirosid.dev''"
definition INSTANCE_DOMAIN :: string where "INSTANCE_DOMAIN = ''sirosid.dev''"

record settings =
  st_db_path :: string
  st_resources_root :: string
  st_fly_org :: string
  st_fly_token :: string
  st_rp_id :: string
  st_rp_name :: string
  st_origins :: "string list"
  st_app_prefix :: string
  st_host_pattern :: string
  st_region :: string
  st_tick_seconds :: rat
  st_client_ip_header :: string
  st_max_instances :: int
  st_host :: string
  st_port :: int
  st_console_dir :: string
  st_sweep_grace_seconds :: rat
  st_layout :: string
  st_instance_domain :: string
  st_public_ips :: bool
  st_openrouter_api_key :: string
  st_chat_models :: "string list"
  st_chat_user_daily_tokens :: int
  st_chat_global_daily_tokens :: int

record parsers =
  pn_float :: "string \<Rightarrow> exn + rat"
  pn_int :: "string \<Rightarrow> exn + int"

section \<open>What an instance host may be\<close>

datatype piece = Lit char | Run "char \<Rightarrow> bool"

definition ldh :: "char \<Rightarrow> bool" where
  "ldh c = (lower_alnum c \<or> c = CHR ''-'')"

text \<open>The fields of a pattern and the characters a value of each may have.\<close>

definition FIELDS :: "(string \<times> (char \<Rightarrow> bool)) list" where
  "FIELDS = [(''{component}'', ldh), (''{id}'', lower_alnum), (''{env}'', ldh), (''{app}'', ldh)]"

definition field_at :: "string \<Rightarrow> (string \<times> (char \<Rightarrow> bool)) option" where
  "field_at s = find (\<lambda>(f, p). starts_with f s) FIELDS"

fun drop_pieces :: "nat \<Rightarrow> string \<Rightarrow> piece list" where
  "drop_pieces k [] = []"
| "drop_pieces (Suc k) (c # s) = drop_pieces k s"
| "drop_pieces 0 (c # s) =
     (case field_at (c # s) of
        Some (f, p) \<Rightarrow> Run p # drop_pieces (length f - 1) s
      | None \<Rightarrow> Lit c # drop_pieces 0 s)"

abbreviation pieces :: "string \<Rightarrow> piece list" where
  "pieces \<equiv> drop_pieces 0"

text \<open>\<open>re.fullmatch\<close>: a run is one character or more.\<close>

fun matches :: "piece list \<Rightarrow> string \<Rightarrow> bool" where
  "matches [] s = (s = [])"
| "matches (t # ts) [] = False"
| "matches (Lit c # ts) (x # xs) = (c = x \<and> matches ts xs)"
| "matches (Run p # ts) (x # xs) = (p x \<and> (matches ts xs \<or> matches (Run p # ts) xs))"

definition rstrip_dots :: "string \<Rightarrow> string" where
  "rstrip_dots s = rstrip_by (\<lambda>c. c = CHR ''.'') s"

definition instance_host_may_be :: "string \<Rightarrow> string \<Rightarrow> bool" where
  "instance_host_may_be host_pattern name =
     (let labels = split_on CHR ''.'' (py_lower host_pattern);
          target = split_on CHR ''.'' (rstrip_dots (py_lower name)) in
      length target \<le> length labels \<and>
      list_all (\<lambda>(pat, want). matches (pieces pat) want) (zip (drop (length labels - length target) labels) target))"

section \<open>Validation\<close>

definition until :: "char \<Rightarrow> string \<Rightarrow> string" where
  "until c s = takeWhile (\<lambda>x. x \<noteq> c) s"

text \<open>\<open>s.split("://", 1)[-1]\<close>, and \<open>[1]\<close> where there is one.\<close>

fun after_scheme :: "string \<Rightarrow> string option" where
  "after_scheme [] = None"
| "after_scheme (c # s) = (if starts_with ''://'' (c # s) then Some (drop 3 (c # s)) else after_scheme s)"

definition authority :: "string \<Rightarrow> string" where
  "authority s = until CHR '':'' (until CHR ''/'' s)"

definition origin_host :: "string \<Rightarrow> string" where
  "origin_host ori = py_lower (authority (case after_scheme ori of None \<Rightarrow> ori | Some r \<Rightarrow> r))"

definition origin_problem :: "string \<Rightarrow> string \<Rightarrow> exn + string list" where
  "origin_problem rp_id ori =
     (case after_scheme ori of
        None \<Rightarrow> Inl (OtherError ''IndexError'' ''list index out of range'')
      | Some r \<Rightarrow> Inr (if authority r = rp_id \<or> ends_with (''.'' @ rp_id) (authority r) then []
          else [''origin '' @ ori @ '' is not under the RP ID '' @ rp_id]))"

definition flat_problems :: "settings \<Rightarrow> exn + string list" where
  "flat_problems st =
     (if st_layout st \<noteq> LAYOUT_SINGLE_MACHINE then Inr []
      else bind_sum (make_naming ''x'' (st_app_prefix st) (st_host_pattern st) (st_layout st)) (\<lambda>n.
      let flat = flat_host_problem n in Inr (
        (if flat \<noteq> [] then [''SIROSID_HOST_PATTERN: '' @ flat] else []) @
        (if \<not> st_public_ips st \<and> st_app_prefix st \<noteq> INSTANCE_APP_PREFIX
         then [''SIROSID_APP_PREFIX must be '' @ py_repr INSTANCE_APP_PREFIX @ '' behind the edge, which replays '' @
               ''<component>-<id>.<domain> to app '' @ INSTANCE_APP_PREFIX @ ''-<id>''] else []))))"

text \<open>The names nothing untrusted may be served at or under.\<close>

definition protected :: "settings \<Rightarrow> string list" where
  "protected st = sort (filter (\<lambda>x. x \<noteq> []) (remdups (st_rp_id st # map origin_host (st_origins st))))"

definition exposed :: "settings \<Rightarrow> string list" where
  "exposed st = map (\<lambda>name. ''instance hosts ('' @ st_host_pattern st @ '') could be '' @ name @ '' or under it: nothing untrusted may '' @
       ''be served at or under the console's RP ID or origin - instances must be its siblings'')
     (filter (instance_host_may_be (st_host_pattern st)) (protected st))"

definition other_problems :: "settings \<Rightarrow> string list" where
  "other_problems st =
     (if st_tick_seconds st \<le> 0 then [''SIROSID_TICK_SECONDS must be positive''] else []) @
     (if st_sweep_grace_seconds st < 60 then [''SIROSID_SWEEP_GRACE_SECONDS must be at least 60''] else []) @
     (if st_chat_models st \<noteq> [] \<and> st_openrouter_api_key st = [] then [''SIROSID_CHAT_MODELS is set but OPENROUTER_API_KEY is not''] else []) @
     (if st_chat_user_daily_tokens st \<le> 0 \<or> st_chat_global_daily_tokens st \<le> 0
      then [''the assistant's token budgets must be positive''] else [])"

definition domain_problems :: "settings \<Rightarrow> string list" where
  "domain_problems st =
     (if st_instance_domain st = [] then []
      else case check_domain (st_instance_domain st) of
        Inr _ \<Rightarrow> [] | Inl e \<Rightarrow> [''SIROSID_INSTANCE_DOMAIN: '' @ exn_text e])"

definition problems :: "settings \<Rightarrow> exn + string list" where
  "problems st =
     bind_sum (all_right (map (origin_problem (st_rp_id st)) (st_origins st))) (\<lambda>os.
     bind_sum (flat_problems st) (\<lambda>flat. Inr (
       (if st_fly_token st = [] then [''FLY_API_TOKEN is required (the service's own org-scoped token)''] else []) @
       (if st_origins st = [] \<or> \<not> list_all (starts_with ''https://'') (st_origins st) then [''SIROSID_ORIGINS must be https origins''] else []) @
       concat os @
       (if \<not> list_ex (\<lambda>f. has_sub f (st_host_pattern st)) [''{app}'', ''{env}'', ''{id}'']
        then [''SIROSID_HOST_PATTERN must contain {app}, {id} or {env}, or every instance would share a hostname''] else []) @
       (if st_layout st \<notin> set LAYOUTS then [''SIROSID_LAYOUT='' @ py_repr (st_layout st) @ '': one of '' @ join_with '', '' LAYOUTS] else []) @
       domain_problems st @ flat @ exposed st @ other_problems st)))"

definition configuration_problems :: "string list \<Rightarrow> exn" where
  "configuration_problems ps =
     OtherError ''SystemExit'' (''configuration problems:'' @ [CHR 0x0A] @ ''  '' @ join_with ([CHR 0x0A] @ ''  '') ps)"

definition validate_settings :: "settings \<Rightarrow> exn + unit" where
  "validate_settings st = bind_sum (problems st) (\<lambda>ps. if ps \<noteq> [] then Inl (configuration_problems ps) else Inr ())"

section \<open>The environment\<close>

type_synonym environment = "string \<Rightarrow> string option"

definition env_of :: "environment \<Rightarrow> string \<Rightarrow> string \<Rightarrow> string" where
  "env_of e name d = (case e name of None \<Rightarrow> d | Some v \<Rightarrow> v)"

definition comma_list :: "string \<Rightarrow> string list" where
  "comma_list s = filter (\<lambda>x. x \<noteq> []) (map py_strip (split_on CHR '','' s))"

definition TRUE_WORDS :: "string list" where "TRUE_WORDS = [''1'', ''true'', ''yes'']"
definition FALSE_WORDS :: "string list" where "FALSE_WORDS = [''0'', ''false'', ''no'']"

definition from_env :: "parsers \<Rightarrow> string \<Rightarrow> environment \<Rightarrow> exn + settings" where
  "from_env ps default_root e =
     (let root = env_of e ''SIROSID_RESOURCES'' default_root;
          layout = env_of e ''SIROSID_LAYOUT'' LAYOUT_APPS;
          one = (layout = LAYOUT_SINGLE_MACHINE);
          domain = env_of e ''SIROSID_INSTANCE_DOMAIN'' (if one then INSTANCE_DOMAIN else []);
          given = env_of e ''SIROSID_HOST_PATTERN'' [];
          pattern = (if given \<noteq> [] then given else if domain \<noteq> [] then ''{component}-{id}.'' @ domain else ''{app}.fly.dev'');
          public_ips = py_lower (py_strip (env_of e ''SIROSID_PUBLIC_IPS'' (if one then ''false'' else ''true'')));
          api_key = env_of e ''OPENROUTER_API_KEY'' [] in
      if public_ips \<notin> set (TRUE_WORDS @ FALSE_WORDS)
      then Inl (configuration_problems [''SIROSID_PUBLIC_IPS='' @ py_repr public_ips @ '': true or false''])
      else
      bind_sum (pn_float ps (env_of e ''SIROSID_TICK_SECONDS'' ''300'')) (\<lambda>tick.
      bind_sum (pn_int ps (env_of e ''SIROSID_MAX_INSTANCES'' ''10'')) (\<lambda>max_instances.
      bind_sum (pn_int ps (env_of e ''PORT'' ''8080'')) (\<lambda>p.
      bind_sum (pn_float ps (env_of e ''SIROSID_SWEEP_GRACE_SECONDS'' ''3600'')) (\<lambda>grace.
      bind_sum (pn_int ps (env_of e ''SIROSID_CHAT_USER_DAILY_TOKENS'' ''300000'')) (\<lambda>user_tokens.
      bind_sum (pn_int ps (env_of e ''SIROSID_CHAT_GLOBAL_DAILY_TOKENS'' ''3000000'')) (\<lambda>global_tokens.
      let st = \<lparr>st_db_path = env_of e ''SIROSID_DB'' ''/data/sirosid.db'', st_resources_root = root,
            st_fly_org = env_of e ''SIROSID_FLY_ORG'' ''sirosdev'', st_fly_token = env_of e ''FLY_API_TOKEN'' [],
            st_rp_id = env_of e ''SIROSID_RP_ID'' CONSOLE_HOST, st_rp_name = env_of e ''SIROSID_RP_NAME'' ''SIROS ID Dev'',
            st_origins = comma_list (env_of e ''SIROSID_ORIGINS'' (''https://'' @ CONSOLE_HOST)),
            st_app_prefix = env_of e ''SIROSID_APP_PREFIX'' INSTANCE_APP_PREFIX, st_host_pattern = pattern,
            st_region = env_of e ''SIROSID_REGION'' ''arn'', st_tick_seconds = tick,
            st_client_ip_header = env_of e ''SIROSID_CLIENT_IP_HEADER'' ''Fly-Client-IP'', st_max_instances = max_instances,
            st_host = env_of e ''SIROSID_HOST'' ''0.0.0.0'', st_port = p,
            st_console_dir = env_of e ''SIROSID_CONSOLE_DIR'' (root @ ''/console''), st_sweep_grace_seconds = grace,
            st_layout = layout, st_instance_domain = domain, st_public_ips = (public_ips \<in> set TRUE_WORDS),
            st_openrouter_api_key = api_key,
            st_chat_models = comma_list (env_of e ''SIROSID_CHAT_MODELS'' (if api_key \<noteq> [] then ''openrouter/auto'' else [])),
            st_chat_user_daily_tokens = user_tokens, st_chat_global_daily_tokens = global_tokens\<rparr> in
      map_sum id (\<lambda>_. st) (validate_settings st))))))))"

text \<open>The policy and the limits the service is started with.\<close>

definition service_policy :: "settings \<Rightarrow> platform_policy" where
  "service_policy st = default_policy\<lparr>pp_region := st_region st, pp_app_prefix := st_app_prefix st, pp_host_pattern := st_host_pattern st,
     pp_scale_to_zero := True, pp_env_admin := False, pp_layout := st_layout st, pp_public_ips := st_public_ips st\<rparr>"

definition service_limits :: "settings \<Rightarrow> limits" where
  "service_limits st = default_limits\<lparr>l_global_max_instances := st_max_instances st, l_sweep_grace_seconds := st_sweep_grace_seconds st\<rparr>"

section \<open>No instance host at or under the console\<close>

definition at_or_under :: "string \<Rightarrow> string \<Rightarrow> bool" where
  "at_or_under h name =
     (let n = rstrip_dots (py_lower name) in py_lower h = n \<or> ends_with (''.'' @ n) (py_lower h))"

lemma drop_pieces_drop: "drop_pieces k s = pieces (drop k s)"
proof (induction s arbitrary: k)
  case (Cons c s)
  show ?case
  proof (cases k)
    case (Suc j)
    with Cons.IH [of j] show ?thesis by simp
  qed simp
qed simp

lemma pieces_Cons:
  "pieces (c # s) = (case field_at (c # s) of Some (f, p) \<Rightarrow> Run p # pieces (drop (length f - 1) s) | None \<Rightarrow> Lit c # pieces s)"
  by (auto split: option.split intro: drop_pieces_drop)

declare drop_pieces.simps(3) [simp del]

lemma field_at_Some: "field_at s = Some (f, p) \<Longrightarrow> (f, p) \<in> set FIELDS \<and> (\<exists>r. s = f @ r)"
  by (auto simp: field_at_def find_Some_iff starts_with_iff in_set_conv_nth)

lemma fields_plain: "(f, p) \<in> set FIELDS \<Longrightarrow> f \<noteq> [] \<and> hd f = CHR ''{'' \<and> CHR ''.'' \<notin> set f \<and> \<not> p CHR ''.''"
  by (auto simp: FIELDS_def ldh_def lower_alnum_def is_lower_def is_digit_def)

lemma field_at_literal: "c \<noteq> CHR ''{'' \<Longrightarrow> field_at (c # s) = None"
proof (rule ccontr)
  assume c: "c \<noteq> CHR ''{''" and "field_at (c # s) \<noteq> None"
  then obtain f p where "field_at (c # s) = Some (f, p)" by auto
  with field_at_Some obtain r where "(f, p) \<in> set FIELDS" "c # s = f @ r" by blast
  with fields_plain [of f p] c show False by (cases f) auto
qed

lemma starts_with_stop: "x \<notin> set f \<Longrightarrow> starts_with f (a @ x # b) = starts_with f a"
  unfolding starts_with_iff by (auto simp: append_eq_append_conv2 Cons_eq_append_conv)

lemma field_at_stop: "field_at (a @ CHR ''.'' # b) = field_at a"
  by (simp add: field_at_def FIELDS_def starts_with_stop)

lemma pieces_dot: "pieces (a @ CHR ''.'' # b) = pieces a @ Lit CHR ''.'' # pieces b"
proof (induction a rule: length_induct)
  case (1 a)
  show ?case
  proof (cases a)
    case Nil
    then show ?thesis by (simp add: pieces_Cons field_at_literal)
  next
    case (Cons c s)
    have stop: "field_at (c # s @ CHR ''.'' # b) = field_at (c # s)" using field_at_stop [of "c # s"] by simp
    show ?thesis
    proof (cases "field_at (c # s)")
      case None
      with 1 [rule_format, of s] Cons stop show ?thesis by (simp add: pieces_Cons)
    next
      case (Some fp)
      obtain f p where fp: "fp = (f, p)" by (cases fp)
      with field_at_Some Some obtain r where "c # s = f @ r" "f \<noteq> []" using fields_plain by blast
      then have "length f - 1 \<le> length s" by (cases f) auto
      with 1 [rule_format, of "drop (length f - 1) s"] Cons stop Some fp show ?thesis by (simp add: pieces_Cons)
    qed
  qed
qed

definition inner :: "piece list \<Rightarrow> bool" where
  "inner ts \<longleftrightarrow> (\<forall>t\<in>set ts. case t of Lit c \<Rightarrow> c \<noteq> CHR ''.'' | Run p \<Rightarrow> \<not> p CHR ''.'')"

lemma inner_simps [simp]: "inner []" "inner (Lit c # ts) \<longleftrightarrow> c \<noteq> CHR ''.'' \<and> inner ts" "inner (Run p # ts) \<longleftrightarrow> \<not> p CHR ''.'' \<and> inner ts"
  by (simp_all add: inner_def)

lemma inner_pieces: "CHR ''.'' \<notin> set a \<Longrightarrow> inner (pieces a)"
proof (induction a rule: length_induct)
  case (1 a)
  show ?case
  proof (cases a)
    case (Cons c s)
    show ?thesis
    proof (cases "field_at (c # s)")
      case None
      with 1 Cons show ?thesis by (auto simp: pieces_Cons)
    next
      case (Some fp)
      obtain f p where fp: "fp = (f, p)" by (cases fp)
      with field_at_Some [of "c # s" f p] Some have "\<not> p CHR ''.''" using fields_plain by blast
      moreover have "CHR ''.'' \<notin> set (drop (length f - 1) s)" using 1(2) Cons by (auto dest: in_set_dropD)
      ultimately show ?thesis using 1 Cons Some fp by (simp add: pieces_Cons)
    qed
  qed simp
qed

lemma matches_no_dot: "matches ts s \<Longrightarrow> inner ts \<Longrightarrow> CHR ''.'' \<notin> set s"
  by (induction ts s rule: matches.induct) auto

lemma matches_split:
  "matches ts' s \<Longrightarrow> ts' = ts @ Lit CHR ''.'' # us \<Longrightarrow> inner ts \<Longrightarrow>
   \<exists>a b. s = a @ CHR ''.'' # b \<and> matches ts a \<and> matches us b"
proof (induction ts' s arbitrary: ts rule: matches.induct)
  case (3 c ts0 x xs)
  show ?case
  proof (cases ts)
    case Nil
    with 3 show ?thesis by (intro exI [of _ "[]"] exI [of _ xs]) simp
  next
    case (Cons t ts1)
    with 3 have t: "t = Lit c" "c = x" and rest: "matches ts0 xs" "ts0 = ts1 @ Lit CHR ''.'' # us" "inner ts1" by auto
    from "3.IH" [OF rest] obtain a b where "xs = a @ CHR ''.'' # b" "matches ts1 a" "matches us b" by blast
    with t Cons show ?thesis by (intro exI [of _ "x # a"] exI [of _ b]) simp
  qed
next
  case (4 p ts0 x xs)
  then obtain ts1 where ts: "ts = Run p # ts1" "ts0 = ts1 @ Lit CHR ''.'' # us" by (cases ts) auto
  from 4(3) have p: "p x" and "matches ts0 xs \<or> matches (Run p # ts0) xs" by auto
  then show ?case
  proof (elim disjE)
    assume "matches ts0 xs"
    moreover have "inner ts1" using 4(5) ts by simp
    ultimately obtain a b where "xs = a @ CHR ''.'' # b" "matches ts1 a" "matches us b" using 4(1) [of ts1] p ts(2) by blast
    with p ts show ?thesis by (intro exI [of _ "x # a"] exI [of _ b]) simp
  next
    assume "matches (Run p # ts0) xs"
    with 4(2) [OF this] 4(4,5) obtain a b where "xs = a @ CHR ''.'' # b" "matches ts a" "matches us b" by blast
    with p ts show ?thesis by (intro exI [of _ "x # a"] exI [of _ b]) simp
  qed
next
  case (2 t ts0)
  then show ?case by (metis matches.simps(2))
qed auto

lemma split_on_whole: "c \<notin> set s \<Longrightarrow> split_on c s = [s]"
  by (induction s) auto

lemma matches_labels:
  "matches (pieces p) s \<Longrightarrow> list_all2 (\<lambda>pat w. matches (pieces pat) w) (split_on CHR ''.'' p) (split_on CHR ''.'' s)"
proof (induction p arbitrary: s rule: length_induct)
  case (1 p)
  show ?case
  proof (cases "CHR ''.'' \<in> set p")
    case False
    with 1(2) matches_no_dot inner_pieces have "CHR ''.'' \<notin> set s" by blast
    with False 1(2) show ?thesis by (simp add: split_on_whole)
  next
    case True
    then obtain a b where p: "p = a @ CHR ''.'' # b" and a: "CHR ''.'' \<notin> set a" by (meson split_list_first)
    with 1(2) matches_split [of "pieces p" s "pieces a" "pieces b"] inner_pieces [OF a]
    obtain a' b' where s: "s = a' @ CHR ''.'' # b'" "matches (pieces a) a'" "matches (pieces b) b'" by (auto simp: pieces_dot)
    have "CHR ''.'' \<notin> set a'" using matches_no_dot [OF s(2) inner_pieces [OF a]] .
    with 1(1) p s a show ?thesis by (simp add: split_on_append)
  qed
qed


section \<open>The hosts of a naming\<close>

lemma format_field_closes:
  "format_from d (Some w) s = Inr h \<Longrightarrow>
   \<exists>f rest v h'. s = f @ CHR ''}'' # rest \<and> format_field d (rev w @ f) = Inr v \<and> h = v @ h' \<and> format_from d None rest = Inr h'"
proof (induction s arbitrary: w)
  case (Cons c s)
  show ?case
  proof (cases "c = CHR ''}''")
    case True
    with Cons.prems obtain v h' where "format_field d (rev w) = Inr v" "h = v @ h'" "format_from d None s = Inr h'"
      by (auto split: sum.splits)
    with True have "c # s = [] @ CHR ''}'' # s \<and> format_field d (rev w @ []) = Inr v \<and> h = v @ h' \<and> format_from d None s = Inr h'"
      by simp
    then show ?thesis by blast
  next
    case False
    with Cons obtain f rest v h' where "s = f @ CHR ''}'' # rest" "format_field d (rev (c # w) @ f) = Inr v" "h = v @ h'"
      "format_from d None rest = Inr h'" by fastforce
    then have "c # s = (c # f) @ CHR ''}'' # rest \<and> format_field d (rev w @ c # f) = Inr v \<and> h = v @ h' \<and> format_from d None rest = Inr h'"
      by simp
    then show ?thesis by blast
  qed
qed simp

lemma matches_run: "v \<noteq> [] \<Longrightarrow> list_all p v \<Longrightarrow> matches ts s \<Longrightarrow> matches (Run p # ts) (v @ s)"
proof (induction v)
  case (Cons x v)
  then show ?case by (cases "v = []") simp_all
qed simp

lemma lower_brace: "lower_char c = CHR ''{'' \<longleftrightarrow> c = CHR ''{''"
proof -
  have "(of_char (lower_char c) :: nat) = 123 \<longleftrightarrow> (of_char c :: nat) = 123" by (auto simp: lower_char_nat Let_def)
  then show ?thesis by (simp add: of_char_inject_nat)
qed

lemma ldh_lower: "ldh c \<Longrightarrow> lower_char c = c"
  using lower_alnum_raw [of c] by (auto simp: ldh_def)

text \<open>Values that the fields of a pattern may take.\<close>

definition field_values :: "string dict \<Rightarrow> bool" where
  "field_values d \<longleftrightarrow> (\<forall>w v. map_of d w = Some v \<longrightarrow> v \<noteq> [] \<and> (\<exists>p. (''{'' @ w @ ''}'', p) \<in> set FIELDS \<and> list_all p v))"

lemma starts_with_Cons: "starts_with [] s" "starts_with (c # f) (x # s) \<longleftrightarrow> c = x \<and> starts_with f s"
  by (auto simp: starts_with_iff)

lemma lower_fields:
  "map lower_char ''{component}'' = ''{component}''" "map lower_char ''{id}'' = ''{id}''"
  "map lower_char ''{env}'' = ''{env}''" "map lower_char ''{app}'' = ''{app}''"
  by (simp_all add: lower_char_def Let_def)

lemma field_at_fields:
  "field_at (''{component}'' @ r) = Some (''{component}'', ldh)" "field_at (''{id}'' @ r) = Some (''{id}'', lower_alnum)"
  "field_at (''{env}'' @ r) = Some (''{env}'', ldh)" "field_at (''{app}'' @ r) = Some (''{app}'', ldh)"
  by (simp_all add: field_at_def FIELDS_def starts_with_Cons)

lemma field_at_field:
  assumes "(f, p) \<in> set FIELDS"
  shows "field_at (map lower_char f @ r) = Some (f, p)"
proof -
  consider "(f, p) = (''{component}'', ldh)" | "(f, p) = (''{id}'', lower_alnum)" | "(f, p) = (''{env}'', ldh)" | "(f, p) = (''{app}'', ldh)"
    using assms unfolding FIELDS_def set_simps by blast
  then show ?thesis by cases (simp_all only: prod.inject lower_fields field_at_fields)
qed

lemma lower_values: "(f, p) \<in> set FIELDS \<Longrightarrow> list_all p v \<Longrightarrow> map lower_char v = v"
  by (auto simp: FIELDS_def list_all_iff ldh_def intro!: map_idI ldh_lower)

lemma format_matches:
  "field_values d \<Longrightarrow> format_from d None s = Inr h \<Longrightarrow> CHR ''{'' \<notin> set h \<Longrightarrow> CHR ''}'' \<notin> set h \<Longrightarrow>
   matches (pieces (py_lower s)) (py_lower h)"
proof (induction s arbitrary: h rule: length_induct)
  case (1 s)
  show ?case
  proof (cases s)
    case Nil
    with 1 show ?thesis by (simp add: py_lower_def)
  next
    case (Cons c s')
    consider (field) "c = CHR ''{''" | (close) "c = CHR ''}''" | (lit) "c \<noteq> CHR ''{''" "c \<noteq> CHR ''}''" by blast
    then show ?thesis
    proof cases
      case lit
      with 1 Cons obtain h' where h: "h = c # h'" "format_from d None s' = Inr h'" by auto
      with 1 Cons have "matches (pieces (py_lower s')) (py_lower h')" by simp
      with lit show ?thesis by (simp add: Cons h py_lower_def pieces_Cons field_at_literal lower_brace)
    next
      case close
      with 1 Cons show ?thesis by (auto split: list.splits if_splits)
    next
      case field
      with 1 Cons have open_field: "format_from d (Some []) s' = Inr h" by (auto split: list.splits if_splits)
      from format_field_closes [OF this] obtain w rest v h' where s': "s' = w @ CHR ''}'' # rest" and v: "format_field d w = Inr v"
        and h: "h = v @ h'" "format_from d None rest = Inr h'" by auto
      from v have "map_of d w = Some v" by (auto simp: format_field_def split: if_splits option.splits)
      with 1(2) obtain p where p: "v \<noteq> []" "(''{'' @ w @ ''}'', p) \<in> set FIELDS" "list_all p v"
        unfolding field_values_def by blast
      have "matches (pieces (py_lower rest)) (py_lower h')" using 1 Cons s' h by simp
      with matches_run [OF p(1,3)] lower_values [OF p(2,3)] field_at_field [OF p(2), of "py_lower rest"]
      show ?thesis by (simp add: Cons s' h field py_lower_def pieces_Cons lower_brace)
    qed
  qed
qed

lemma suffix_may_be:
  assumes "list_all2 (\<lambda>pat w. matches (pieces pat) w) labels (pre @ target)"
  shows "length target \<le> length labels \<and>
    list_all (\<lambda>(pat, want). matches (pieces pat) want) (zip (drop (length labels - length target) labels) target)"
proof -
  obtain l1 l2 where l: "labels = l1 @ l2" "length l1 = length pre" "list_all2 (\<lambda>pat w. matches (pieces pat) w) l2 target"
    using assms by (auto simp: list_all2_append2)
  then have "length l2 = length target" by (simp add: list_all2_lengthD)
  with l show ?thesis by (auto simp: list_all_iff list_all2_iff)
qed

lemma split_suffix: "split_on c (a @ c # b) = split_on c a @ split_on c b"
proof (induction a)
  case (Cons x a)
  have "split_on c a \<noteq> []" by simp
  with Cons show ?case by (cases "split_on c a") auto
qed simp

lemma host_caught:
  assumes "field_values d" and "py_format d pattern = Inr h" and "CHR ''{'' \<notin> set h" "CHR ''}'' \<notin> set h" and "at_or_under h name"
  shows "instance_host_may_be pattern name"
proof -
  let ?n = "rstrip_dots (py_lower name)"
  have labels: "list_all2 (\<lambda>pat w. matches (pieces pat) w) (split_on CHR ''.'' (py_lower pattern)) (split_on CHR ''.'' (py_lower h))"
    using matches_labels [OF format_matches [OF assms(1)]] assms(2-4) by (simp add: py_format_def)
  obtain pre where "split_on CHR ''.'' (py_lower h) = pre @ split_on CHR ''.'' ?n"
  proof (cases "py_lower h = ?n")
    case True
    then show ?thesis using that [of "[]"] by simp
  next
    case False
    with assms(5) obtain a where "py_lower h = a @ CHR ''.'' # ?n" by (auto simp: at_or_under_def Let_def ends_with_iff)
    with split_suffix [of "CHR ''.''" a ?n] that show ?thesis by auto
  qed
  with labels suffix_may_be show ?thesis by (simp add: instance_host_may_be_def Let_def)
qed

text \<open>
  C15. The rule on names. With settings that pass validation no instance is served at or under the relying party of the
  console or the host of one of its origins: whatever the id and the component, the host that a naming with the host
  pattern of the settings gives is another one. Ids and names of components and apps are of letters, digits and hyphens,
  and a host has no braces.
\<close>

theorem no_instance_at_the_console:
  assumes "validate_settings st = Inr ()" and "n_host_pattern n = st_host_pattern st"
    and "host n component = Inr h" and "CHR ''{'' \<notin> set h" and "CHR ''}'' \<notin> set h"
    and "n_env n \<noteq> []" and "list_all lower_alnum (n_env n)" and "list_all ldh (n_app_prefix n)"
    and "component \<noteq> []" and "list_all ldh component"
    and "name = st_rp_id st \<or> name \<in> origin_host ` set (st_origins st)" and "name \<noteq> []"
  shows "\<not> at_or_under h name"
proof
  assume under: "at_or_under h name"
  let ?d = "[(''app'', app n component), (''env'', n_env n), (''id'', n_env n), (''component'', component)]"
  have env: "list_all ldh (n_env n)" using assms(7) by (simp add: list_all_iff ldh_def)
  then have "list_all ldh (app n component)" "app n component \<noteq> []" using assms(8,10) by (auto simp: app_def ldh_def list_all_iff)
  with env have vals: "field_values ?d"
    using assms(6,7,9,10) by (simp add: field_values_def FIELDS_def)
  have "instance_host_may_be (st_host_pattern st) name"
    using host_caught [OF vals _ assms(4,5) under] assms(2,3) by (simp add: host_def)
  moreover have "name \<in> set (protected st)" using assms(11,12) by (auto simp: protected_def)
  ultimately have "exposed st \<noteq> []" by (auto simp: exposed_def filter_empty_conv)
  with assms(1) show False by (auto simp: validate_settings_def problems_def split: if_splits)
qed

text \<open>The settings of the production service, which serves instances at siblings of the console.\<close>

definition production :: settings where
  "production = \<lparr>st_db_path = ''/data/sirosid.db'', st_resources_root = ''/app'', st_fly_org = ''sirosdev'', st_fly_token = ''t'',
     st_rp_id = CONSOLE_HOST, st_rp_name = ''SIROS ID Dev'', st_origins = [''https://console.sirosid.dev''], st_app_prefix = ''sid'',
     st_host_pattern = ''{component}-{id}.sirosid.dev'', st_region = ''arn'', st_tick_seconds = 300,
     st_client_ip_header = ''Fly-Client-IP'', st_max_instances = 10, st_host = ''0.0.0.0'', st_port = 8080,
     st_console_dir = ''/app/console'', st_sweep_grace_seconds = 3600, st_layout = LAYOUT_SINGLE_MACHINE,
     st_instance_domain = ''sirosid.dev'', st_public_ips = False, st_openrouter_api_key = [], st_chat_models = [],
     st_chat_user_daily_tokens = 300000, st_chat_global_daily_tokens = 3000000\<rparr>"

lemma production_valid: "validate_settings production = Inr ()"
  by code_simp

definition production_naming :: naming where
  "production_naming = \<lparr>n_env = ''abcdefgh'', n_app_prefix = ''sid'', n_host_pattern = ''{component}-{id}.sirosid.dev'', n_layout = LAYOUT_SINGLE_MACHINE\<rparr>"

theorem no_instance_at_the_console_witness:
  "host production_naming ''wallet-frontend'' = Inr ''wallet-frontend-abcdefgh.sirosid.dev'' \<and>
   \<not> at_or_under ''wallet-frontend-abcdefgh.sirosid.dev'' ''console.sirosid.dev''"
proof -
  have h: "host production_naming ''wallet-frontend'' = Inr ''wallet-frontend-abcdefgh.sirosid.dev''" by code_simp
  have plain: "list_all lower_alnum (n_env production_naming)" "list_all ldh (n_app_prefix production_naming)" "list_all ldh ''wallet-frontend''"
    by code_simp+
  have "\<not> at_or_under ''wallet-frontend-abcdefgh.sirosid.dev'' (st_rp_id production)"
    by (rule no_instance_at_the_console [OF production_valid _ h _ _ _ plain(1,2) _ plain(3)])
      (simp_all add: production_naming_def production_def CONSOLE_HOST_def)
  with h show ?thesis by (simp add: production_def CONSOLE_HOST_def)
qed

end
