(* ===== verification/Registration.thy ===== *)
theory Registration
  imports Deploy Lifecycle
begin

text \<open>
  Registering the issuer and the verifiers of an environment with its wallet backend
  (scripts/bootstrap.py), which a deploy, a script and the storage reset share, and the
  callable that the control plane gives to a deploy (\<open>_register_callable\<close> of
  sirosid_service/__main__.py). urllib, the JSON parser, \<open>str\<close> of values other than
  strings and \<open>sleep\<close> are in the record \<open>admin_api\<close>; messages are left out.

  What the wallet backend does is no code of the repository. \<open>tenant_laws\<close> states what its
  admin API promises; under it the registration converges, whatever was registered before.
\<close>

record 'w admin_api =
  ap_send :: "string \<Rightarrow> string \<Rightarrow> string dict \<Rightarrow> json option \<Rightarrow> time \<Rightarrow> 'w \<Rightarrow> net_reply \<times> 'w"
  ap_json :: "bytes \<Rightarrow> exn + json"
  ap_str :: "json \<Rightarrow> string"
  ap_sleep :: "time \<Rightarrow> 'w \<Rightarrow> 'w"

definition DEFAULT_TENANT :: string where "DEFAULT_TENANT = ''default''"
definition ISSUER_CLIENT_ID :: string where "ISSUER_CLIENT_ID = ''e2e-test-client''"

definition bootstrap_error :: "string \<Rightarrow> exn" where
  "bootstrap_error m = OtherError ''BootstrapError'' m"

text \<open>\<open>OSError\<close> and its subclasses that urllib raises; \<open>URLError\<close> is one of them.\<close>

definition NETWORK_ERRORS :: "string list" where
  "NETWORK_ERRORS = [''URLError'', ''OSError'', ''TimeoutError'', ''ConnectionError'', ''ConnectionRefusedError'',
     ''ConnectionResetError'', ''ConnectionAbortedError'', ''BrokenPipeError'', ''RemoteDisconnected'', ''SSLError'',
     ''SSLCertVerificationError'', ''gaierror'', ''PermissionError'', ''InterruptedError'', ''BlockingIOError'']"

fun network_error :: "exn \<Rightarrow> bool" where
  "network_error (OtherError c m) = (c \<in> set NETWORK_ERRORS)"
| "network_error _ = False"

section \<open>A request\<close>

definition request_headers :: "string \<Rightarrow> json option \<Rightarrow> string dict" where
  "request_headers token body =
     (''Authorization'', ''Bearer '' @ token) # (if body \<noteq> None then [(''Content-Type'', ''application/json'')] else [])"

definition success :: "int \<Rightarrow> bool" where
  "success st \<longleftrightarrow> 200 \<le> st \<and> st < 300"

text \<open>
  The status and the JSON body; an empty body is \<open>None\<close>. urlopen returns for a status of
  success and raises \<open>HTTPError\<close> for another one, whose body need not be JSON.
\<close>

definition read_reply :: "'w admin_api \<Rightarrow> int \<Rightarrow> bytes \<Rightarrow> exn + int \<times> json" where
  "read_reply a st raw =
     (if raw = [] then Inr (st, JNull)
      else case ap_json a raw of
        Inr j \<Rightarrow> Inr (st, j)
      | Inl e \<Rightarrow> if success st then Inl e else (case e of ValueError _ \<Rightarrow> Inr (st, JNull) | _ \<Rightarrow> Inl e))"

definition request :: "'w admin_api \<Rightarrow> string \<Rightarrow> string \<Rightarrow> string \<Rightarrow> json option \<Rightarrow> ('w, exn, int \<times> json) act" where
  "request a meth u token body w =
     (case ap_send a meth u (request_headers token body) body 10 w of
        (NetError cls msg, w') \<Rightarrow> (Inl (OtherError cls msg), w')
      | (Reply st raw, w') \<Rightarrow> (read_reply a st raw, w'))"

section \<open>Waiting for the tenant\<close>

definition tenant_url :: "string \<Rightarrow> string \<Rightarrow> string" where
  "tenant_url admin_url tenant = admin_url @ ''/admin/tenants/'' @ tenant"

definition http_status :: "int \<Rightarrow> string" where
  "http_status st = ''HTTP '' @ show_int st"

fun tenant_loop :: "'w admin_api \<Rightarrow> string \<Rightarrow> string \<Rightarrow> string \<Rightarrow> time \<Rightarrow> nat \<Rightarrow> string \<Rightarrow> ('w, exn, unit) act" where
  "tenant_loop a admin_url token tenant delay 0 err w =
     (Inl (bootstrap_error (''wallet-backend's admin API at '' @ admin_url @ '' never became ready ('' @ err @ '')'')), w)"
| "tenant_loop a admin_url token tenant delay (Suc n) err w =
     (case request a ''GET'' (tenant_url admin_url tenant) token None w of
        (Inr (st, _), w') \<Rightarrow>
          if st = 200 then (Inr (), w')
          else if st = 401 \<or> st = 403
          then (Inl (bootstrap_error (''admin token rejected by '' @ admin_url @ '' ('' @ http_status st @ '') - wrong ADMIN_TOKEN?'')), w')
          else tenant_loop a admin_url token tenant delay n (http_status st) (ap_sleep a delay w')
      | (Inl e, w') \<Rightarrow>
          if network_error e then tenant_loop a admin_url token tenant delay n (exn_text e) (ap_sleep a delay w')
          else (Inl e, w'))"

definition wait_for_tenant :: "'w admin_api \<Rightarrow> string \<Rightarrow> string \<Rightarrow> string \<Rightarrow> ('w, exn, unit) act" where
  "wait_for_tenant a admin_url token tenant = tenant_loop a admin_url token tenant 2 30 ''None''"

section \<open>The registration\<close>

record summary =
  sm_removed :: "json list"
  sm_issuer :: string
  sm_verifier :: string
  sm_additional :: "(json \<times> string) list option"

definition text_str :: "'w admin_api \<Rightarrow> json \<Rightarrow> string" where
  "text_str a j = (case j of JStr s \<Rightarrow> s | _ \<Rightarrow> ap_str a j)"

text \<open>What is done with one issuer that is registered: a stale one is deleted.\<close>

definition drop_stale :: "'w admin_api \<Rightarrow> string \<Rightarrow> string \<Rightarrow> string \<Rightarrow> json \<Rightarrow> ('w, exn, json list) act" where
  "drop_stale a base token issuer_url issuer =
     seq (value_of (get_attr issuer ''credential_issuer_identifier'')) (\<lambda>ident.
     if json_eq ident (JStr issuer_url) then give []
     else seq (value_of (get_attr issuer ''id'')) (\<lambda>i.
       if \<not> json_truthy i then give []
       else seq (request a ''DELETE'' (base @ ''/issuers/'' @ text_str a i) token None) (\<lambda>(st, _).
         give (if success st then [ident] else []))))"

definition drop_stale_all :: "'w admin_api \<Rightarrow> string \<Rightarrow> string \<Rightarrow> string \<Rightarrow> ('w, exn, json list) act" where
  "drop_stale_all a base token issuer_url =
     seq (request a ''GET'' (base @ ''/issuers'') token None) (\<lambda>(st, existing).
     if st = 200 \<and> is_JObj existing
     then seq (value_of (as_list (case json_get existing ''issuers'' of None \<Rightarrow> JList [] | Some v \<Rightarrow> v))) (\<lambda>issuers.
       seq (each (drop_stale a base token issuer_url) issuers) (\<lambda>removed. give (concat removed)))
     else give [])"

text \<open>A POST that adds an entry: what the summary says of it.\<close>

definition post_entry :: "'w admin_api \<Rightarrow> string \<Rightarrow> string \<Rightarrow> string \<Rightarrow> string \<Rightarrow> json \<Rightarrow> ('w, exn, string) act" where
  "post_entry a what shown u token body =
     seq (request a ''POST'' u token (Some body)) (\<lambda>(st, _).
     if success st then give ''registered''
     else if st = 409 then give ''already registered''
     else refuse (bootstrap_error (''could not register '' @ what @ '' '' @ shown @ '' ('' @ http_status st @ '')'')))"

definition issuer_body :: "string \<Rightarrow> json" where
  "issuer_body issuer_url = JObj [(''credential_issuer_identifier'', JStr issuer_url), (''visible'', JBool True),
     (''client_id'', JStr ISSUER_CLIENT_ID)]"

definition verifier_body :: "json \<Rightarrow> json \<Rightarrow> json" where
  "verifier_body name u = JObj [(''name'', name), (''url'', u)]"

text \<open>A value that may be a key of a dictionary.\<close>

fun hashable :: "json \<Rightarrow> bool" where
  "hashable (JList _) = False"
| "hashable (JObj _) = False"
| "hashable _ = True"

definition post_verifier :: "'w admin_api \<Rightarrow> string \<Rightarrow> string \<Rightarrow> json \<Rightarrow> ('w, exn, json \<times> string) act" where
  "post_verifier a base token verifier =
     seq (value_of (item_of verifier ''name'')) (\<lambda>name.
     seq (value_of (item_of verifier ''url'')) (\<lambda>u.
     seq (post_entry a ''verifier'' (text_str a u) (base @ ''/verifiers'') token (verifier_body name u)) (\<lambda>r.
     if hashable u then give (u, r) else refuse (TypeError ''unhashable type''))))"

definition register_tenant ::
  "'w admin_api \<Rightarrow> string \<Rightarrow> string \<Rightarrow> string \<Rightarrow> string \<Rightarrow> string \<Rightarrow> string \<Rightarrow> json list \<Rightarrow> ('w, exn, summary) act" where
  "register_tenant a admin_url token issuer_url verifier_url tenant verifier_name additional =
     (let admin = rstrip_by (\<lambda>c. c = CHR ''/'') admin_url; base = tenant_url admin tenant in
      seq (wait_for_tenant a admin token tenant) (\<lambda>_.
      seq (drop_stale_all a base token issuer_url) (\<lambda>removed.
      seq (post_entry a ''issuer'' issuer_url (base @ ''/issuers'') token (issuer_body issuer_url)) (\<lambda>issuer.
      seq (post_entry a ''verifier'' verifier_url (base @ ''/verifiers'') token (verifier_body (JStr verifier_name) (JStr verifier_url)))
        (\<lambda>verifier.
      seq (each (post_verifier a base token) additional) (\<lambda>more.
      give \<lparr>sm_removed = removed, sm_issuer = issuer, sm_verifier = verifier,
            sm_additional = (if additional = [] then None else Some (fold (\<lambda>(k, v). AList.update k v) more []))\<rparr>))))))"

definition register :: "'w admin_api \<Rightarrow> string \<Rightarrow> string \<Rightarrow> string \<Rightarrow> string \<Rightarrow> json list \<Rightarrow> ('w, exn, summary) act" where
  "register a admin_url token issuer_url verifier_url additional =
     register_tenant a admin_url token issuer_url verifier_url DEFAULT_TENANT ''VC Verifier'' additional"

text \<open>The callable of a deploy.\<close>

definition not_ready :: "exn \<Rightarrow> exn" where
  "not_ready e = (case e of
     OtherError c m \<Rightarrow> if c = ''BootstrapError'' then registration_error m else e
   | _ \<Rightarrow> e)"

definition register_callable ::
  "'w admin_api \<Rightarrow> string \<Rightarrow> string \<Rightarrow> string \<Rightarrow> string \<Rightarrow> (string \<times> string) list \<Rightarrow> 'w \<Rightarrow> ('w, unit) outcome" where
  "register_callable a admin_url token issuer_url verifier_url additional =
     seq (rethrow not_ready (register a admin_url token issuer_url verifier_url
       (map (\<lambda>(n, u). verifier_body (JStr n) (JStr u)) additional))) (\<lambda>_. give ())"

text \<open>The command line: the exit status and what it prints to standard error.\<close>

definition bootstrap_main :: "'w admin_api \<Rightarrow> string \<Rightarrow> string \<Rightarrow> string \<Rightarrow> string \<Rightarrow> string \<Rightarrow> ('w, exn, int \<times> string) act" where
  "bootstrap_main a admin_url token issuer_url verifier_url tenant =
     handled (seq (register_tenant a admin_url token issuer_url verifier_url tenant ''VC Verifier'' []) (\<lambda>_. give (0, [])))
       (\<lambda>e. case e of
          OtherError c m \<Rightarrow> if c = ''BootstrapError'' then Some (give (1, ''ERROR: '' @ m @ [newline])) else None
        | _ \<Rightarrow> None)"

section \<open>What the admin API promises\<close>

text \<open>
  A view of the wallet backend: how many pauses it still needs to start, its issuers (id and
  identifier) and the URLs of its verifiers.
\<close>

record tenant_view =
  tv_startup :: nat
  tv_issuers :: "(string \<times> string) list"
  tv_verifiers :: "string list"

definition answers :: "'w admin_api \<Rightarrow> string \<Rightarrow> string \<Rightarrow> string \<Rightarrow> json option \<Rightarrow> 'w \<Rightarrow> int \<Rightarrow> json \<Rightarrow> 'w \<Rightarrow> bool" where
  "answers a token meth u body w st j w' \<longleftrightarrow>
     (\<exists>raw. ap_send a meth u (request_headers token body) body 10 w = (Reply st raw, w') \<and> read_reply a st raw = Inr (st, j))"

definition unready :: "'w admin_api \<Rightarrow> net_reply \<Rightarrow> bool" where
  "unready a r = (case r of
     NetError cls msg \<Rightarrow> cls \<in> set NETWORK_ERRORS
   | Reply st raw \<Rightarrow> st \<notin> {200, 401, 403} \<and> (\<exists>j. read_reply a st raw = Inr (st, j)))"

definition issuer_entry :: "json \<Rightarrow> string \<times> string \<Rightarrow> bool" where
  "issuer_entry e x \<longleftrightarrow> get_attr e ''id'' = Inr (JStr (fst x)) \<and> get_attr e ''credential_issuer_identifier'' = Inr (JStr (snd x))"

definition starting_laws :: "'w admin_api \<Rightarrow> string \<Rightarrow> string \<Rightarrow> ('w \<Rightarrow> tenant_view) \<Rightarrow> bool" where
  "starting_laws a token base view \<longleftrightarrow>
     (\<forall>w. tv_startup (view w) = 0 \<longrightarrow> (\<exists>j w'. answers a token ''GET'' base None w 200 j w' \<and> view w' = view w)) \<and>
     (\<forall>w. tv_startup (view w) \<noteq> 0 \<longrightarrow>
        (\<exists>r w'. ap_send a ''GET'' base (request_headers token None) None 10 w = (r, w') \<and> unready a r \<and> view w' = view w)) \<and>
     (\<forall>w t. view (ap_sleep a t w) = (view w)\<lparr>tv_startup := tv_startup (view w) - 1\<rparr>)"

definition issuer_laws :: "'w admin_api \<Rightarrow> string \<Rightarrow> string \<Rightarrow> ('w \<Rightarrow> tenant_view) \<Rightarrow> bool" where
  "issuer_laws a token base view \<longleftrightarrow> (\<forall>w. tv_startup (view w) = 0 \<longrightarrow>
     distinct (map fst (tv_issuers (view w))) \<and> [] \<notin> fst ` set (tv_issuers (view w)) \<and>
     (\<exists>d es w'. answers a token ''GET'' (base @ ''/issuers'') None w 200 (JObj d) w' \<and> map_of d ''issuers'' = Some (JList es) \<and>
        list_all2 issuer_entry es (tv_issuers (view w)) \<and> view w' = view w) \<and>
     (\<forall>i \<in> fst ` set (tv_issuers (view w)). \<exists>st j w'. answers a token ''DELETE'' (base @ ''/issuers/'' @ i) None w st j w' \<and>
        success st \<and> view w' = (view w)\<lparr>tv_issuers := filter (\<lambda>x. fst x \<noteq> i) (tv_issuers (view w))\<rparr>) \<and>
     (\<forall>x. if x \<in> snd ` set (tv_issuers (view w))
        then \<exists>j w'. answers a token ''POST'' (base @ ''/issuers'') (Some (issuer_body x)) w 409 j w' \<and> view w' = view w
        else \<exists>st j i w'. answers a token ''POST'' (base @ ''/issuers'') (Some (issuer_body x)) w st j w' \<and> success st \<and>
          view w' = (view w)\<lparr>tv_issuers := tv_issuers (view w) @ [(i, x)]\<rparr>))"

definition verifier_laws :: "'w admin_api \<Rightarrow> string \<Rightarrow> string \<Rightarrow> ('w \<Rightarrow> tenant_view) \<Rightarrow> bool" where
  "verifier_laws a token base view \<longleftrightarrow> (\<forall>w name u. tv_startup (view w) = 0 \<longrightarrow>
     (if u \<in> set (tv_verifiers (view w))
      then \<exists>j w'. answers a token ''POST'' (base @ ''/verifiers'') (Some (verifier_body name (JStr u))) w 409 j w' \<and> view w' = view w
      else \<exists>st j w'. answers a token ''POST'' (base @ ''/verifiers'') (Some (verifier_body name (JStr u))) w st j w' \<and> success st \<and>
        view w' = (view w)\<lparr>tv_verifiers := tv_verifiers (view w) @ [u]\<rparr>))"

definition tenant_laws :: "'w admin_api \<Rightarrow> string \<Rightarrow> string \<Rightarrow> ('w \<Rightarrow> tenant_view) \<Rightarrow> bool" where
  "tenant_laws a token base view \<longleftrightarrow>
     starting_laws a token base view \<and> issuer_laws a token base view \<and> verifier_laws a token base view"

section \<open>Convergence\<close>

lemma request_answers: "answers a token meth u body w st j w' \<Longrightarrow> request a meth u token body w = (Inr (st, j), w')"
  by (auto simp: answers_def request_def)

lemma success_simps [simp]: "success st \<Longrightarrow> st \<noteq> 409" "\<not> success 409" "success 200"
  by (auto simp: success_def)

lemma tenant_awaited:
  assumes "starting_laws a token (tenant_url admin tenant) view"
  shows "tv_startup (view w) < n \<Longrightarrow>
    \<exists>w'. tenant_loop a admin token tenant delay n err w = (Inr (), w') \<and> view w' = (view w)\<lparr>tv_startup := 0\<rparr>"
proof (induction n arbitrary: err w)
  case (Suc n)
  note laws = assms [unfolded starting_laws_def]
  show ?case
  proof (cases "tv_startup (view w) = 0")
    case True
    with laws obtain j w' where "answers a token ''GET'' (tenant_url admin tenant) None w 200 j w'" "view w' = view w" by blast
    with True show ?thesis by (simp add: request_answers)
  next
    case False
    with laws obtain r w' where r: "ap_send a ''GET'' (tenant_url admin tenant) (request_headers token None) None 10 w = (r, w')"
      "unready a r" "view w' = view w" by blast
    from laws have slept: "view (ap_sleep a delay w') = (view w)\<lparr>tv_startup := tv_startup (view w) - 1\<rparr>" using r(3) by simp
    with False Suc.prems have "tv_startup (view (ap_sleep a delay w')) < n" by simp
    note IH = Suc.IH [OF this]
    from r(2) show ?thesis
      using r(1) IH slept by (cases r) (auto simp: unready_def request_def)
  qed
qed simp

lemma one_stale:
  assumes "issuer_laws a token base view" and "tv_startup (view w) = 0" and "issuer_entry e x" and "x \<in> set (tv_issuers (view w))"
  shows "\<exists>w'. drop_stale a base token issuer_url e w = (Inr (if snd x = issuer_url then [] else [JStr (snd x)]), w') \<and>
    view w' = (view w)\<lparr>tv_issuers := filter (\<lambda>y. snd x = issuer_url \<or> fst y \<noteq> fst x) (tv_issuers (view w))\<rparr>"
proof (cases "snd x = issuer_url")
  case True
  with assms(3) show ?thesis by (auto simp: drop_stale_def seq_def issuer_entry_def)
next
  case False
  from assms(1,2,4) obtain st j w' where del: "answers a token ''DELETE'' (base @ ''/issuers/'' @ fst x) None w st j w'" "success st"
    "view w' = (view w)\<lparr>tv_issuers := filter (\<lambda>y. fst y \<noteq> fst x) (tv_issuers (view w))\<rparr>"
    unfolding issuer_laws_def by blast
  have "fst x \<noteq> []" using assms(1,2,4) unfolding issuer_laws_def by force
  moreover have "\<not> json_eq (JStr (snd x)) (JStr issuer_url)" using False by (simp add: json_eq_def)
  ultimately show ?thesis
    using False assms(3) del request_answers [OF del(1)]
    by (auto simp: drop_stale_def seq_def issuer_entry_def text_str_def)
qed

lemma stale_dropped:
  assumes "issuer_laws a token base view"
  shows "tv_startup (view w) = 0 \<Longrightarrow> list_all2 issuer_entry es xs \<Longrightarrow> set xs \<subseteq> set (tv_issuers (view w)) \<Longrightarrow> distinct (map fst xs) \<Longrightarrow>
    \<exists>w' rs. each (drop_stale a base token issuer_url) es w = (Inr rs, w') \<and>
      concat rs = map (\<lambda>x. JStr (snd x)) (filter (\<lambda>x. snd x \<noteq> issuer_url) xs) \<and>
      view w' = (view w)\<lparr>tv_issuers := filter (\<lambda>y. fst y \<notin> set (map fst (filter (\<lambda>x. snd x \<noteq> issuer_url) xs))) (tv_issuers (view w))\<rparr>"
proof (induction es arbitrary: xs w)
  case (Cons e es)
  then obtain x xs' where xs: "xs = x # xs'" "issuer_entry e x" "list_all2 issuer_entry es xs'" by (auto simp: list_all2_Cons1)
  from one_stale [OF assms Cons.prems(1) xs(2)] Cons.prems(3) xs(1) obtain w1 where w1:
    "drop_stale a base token issuer_url e w = (Inr (if snd x = issuer_url then [] else [JStr (snd x)]), w1)"
    "view w1 = (view w)\<lparr>tv_issuers := filter (\<lambda>y. snd x = issuer_url \<or> fst y \<noteq> fst x) (tv_issuers (view w))\<rparr>" by auto
  have "set xs' \<subseteq> set (tv_issuers (view w1))" using Cons.prems(3,4) xs(1) w1(2) by (auto simp: image_iff)
  with Cons.IH [of w1 xs'] Cons.prems xs w1(2) obtain w' rs where "each (drop_stale a base token issuer_url) es w1 = (Inr rs, w')"
    "concat rs = map (\<lambda>x. JStr (snd x)) (filter (\<lambda>x. snd x \<noteq> issuer_url) xs')"
    "view w' = (view w1)\<lparr>tv_issuers := filter (\<lambda>y. fst y \<notin> set (map fst (filter (\<lambda>x. snd x \<noteq> issuer_url) xs'))) (tv_issuers (view w1))\<rparr>"
    by auto
  with w1 xs(1) show ?case by (cases "snd x = issuer_url") (simp_all add: seq_def)
qed simp

text \<open>Without its stale entries a list of issuers has the entries with the right identifier.\<close>

lemma stale_gone:
  "distinct (map fst xs) \<Longrightarrow> filter (\<lambda>y. fst y \<notin> set (map fst (filter (\<lambda>x. snd x \<noteq> u) xs))) xs = filter (\<lambda>y. snd y = u) xs"
  by (rule filter_cong) (auto simp: distinct_map inj_on_def)

lemma stale_all_dropped:
  assumes "issuer_laws a token base view" and "tv_startup (view w) = 0"
  shows "\<exists>w'. drop_stale_all a base token issuer_url w =
      (Inr (map (\<lambda>x. JStr (snd x)) (filter (\<lambda>x. snd x \<noteq> issuer_url) (tv_issuers (view w)))), w') \<and>
    view w' = (view w)\<lparr>tv_issuers := filter (\<lambda>x. snd x = issuer_url) (tv_issuers (view w))\<rparr>"
proof -
  let ?xs = "tv_issuers (view w)"
  from assms have d: "distinct (map fst ?xs)" unfolding issuer_laws_def by blast
  from assms obtain d es w1 where g: "answers a token ''GET'' (base @ ''/issuers'') None w 200 (JObj d) w1"
    "map_of d ''issuers'' = Some (JList es)" "list_all2 issuer_entry es ?xs" "view w1 = view w"
    unfolding issuer_laws_def by blast
  obtain w' rs where "each (drop_stale a base token issuer_url) es w1 = (Inr rs, w')"
    "concat rs = map (\<lambda>x. JStr (snd x)) (filter (\<lambda>x. snd x \<noteq> issuer_url) ?xs)"
    "view w' = (view w)\<lparr>tv_issuers := filter (\<lambda>x. snd x = issuer_url) ?xs\<rparr>"
    using stale_dropped [OF assms(1), of w1 es ?xs issuer_url] assms(2) g(3,4) d stale_gone [OF d, of issuer_url] by auto
  with g request_answers [OF g(1)] show ?thesis by (auto simp: drop_stale_all_def seq_def as_list_def)
qed

definition noted :: "bool \<Rightarrow> string" where
  "noted there = (if there then ''already registered'' else ''registered'')"

definition added :: "string \<Rightarrow> string list \<Rightarrow> string list" where
  "added u us = (if u \<in> set us then us else us @ [u])"

lemma set_added: "set (added u us) = insert u (set us)"
  by (auto simp: added_def)

lemma fold_added: "set (fold added us vs) = set us \<union> set vs" "set us \<subseteq> set vs \<Longrightarrow> fold added us vs = vs"
  by (induction us arbitrary: vs) (auto simp: added_def)

lemma issuer_posted:
  assumes "issuer_laws a token base view" and "tv_startup (view w) = 0"
  shows "\<exists>i w'. post_entry a what shown (base @ ''/issuers'') token (issuer_body x) w =
      (Inr (noted (x \<in> snd ` set (tv_issuers (view w)))), w') \<and>
    view w' = (view w)\<lparr>tv_issuers := tv_issuers (view w) @ (if x \<in> snd ` set (tv_issuers (view w)) then [] else [(i, x)])\<rparr>"
proof (cases "x \<in> snd ` set (tv_issuers (view w))")
  case True
  with assms obtain j w' where "answers a token ''POST'' (base @ ''/issuers'') (Some (issuer_body x)) w 409 j w'" "view w' = view w"
    unfolding issuer_laws_def by meson
  with True show ?thesis by (simp add: post_entry_def seq_def request_answers noted_def)
next
  case False
  with assms obtain st j i w' where "answers a token ''POST'' (base @ ''/issuers'') (Some (issuer_body x)) w st j w'" "success st"
    "view w' = (view w)\<lparr>tv_issuers := tv_issuers (view w) @ [(i, x)]\<rparr>"
    unfolding issuer_laws_def by meson
  with False show ?thesis by (auto simp: post_entry_def seq_def request_answers noted_def)
qed

lemma verifier_posted:
  assumes "verifier_laws a token base view" and "tv_startup (view w) = 0"
  shows "\<exists>w'. post_entry a what shown (base @ ''/verifiers'') token (verifier_body name (JStr u)) w =
      (Inr (noted (u \<in> set (tv_verifiers (view w)))), w') \<and>
    view w' = (view w)\<lparr>tv_verifiers := added u (tv_verifiers (view w))\<rparr>"
proof (cases "u \<in> set (tv_verifiers (view w))")
  case True
  with assms obtain j w' where "answers a token ''POST'' (base @ ''/verifiers'') (Some (verifier_body name (JStr u))) w 409 j w'" "view w' = view w"
    unfolding verifier_laws_def by meson
  with True show ?thesis by (simp add: post_entry_def seq_def request_answers noted_def added_def)
next
  case False
  with assms obtain st j w' where "answers a token ''POST'' (base @ ''/verifiers'') (Some (verifier_body name (JStr u))) w st j w'" "success st"
    "view w' = (view w)\<lparr>tv_verifiers := tv_verifiers (view w) @ [u]\<rparr>"
    unfolding verifier_laws_def by meson
  with False show ?thesis by (simp add: post_entry_def seq_def request_answers noted_def added_def)
qed

definition named_verifier :: "json \<Rightarrow> string \<Rightarrow> bool" where
  "named_verifier v u \<longleftrightarrow> (\<exists>name. item_of v ''name'' = Inr name \<and> item_of v ''url'' = Inr (JStr u))"

lemma verifiers_posted:
  assumes "verifier_laws a token base view"
  shows "tv_startup (view w) = 0 \<Longrightarrow> list_all2 named_verifier vs us \<Longrightarrow>
    \<exists>rs w'. each (post_verifier a base token) vs w = (Inr rs, w') \<and>
      view w' = (view w)\<lparr>tv_verifiers := fold added us (tv_verifiers (view w))\<rparr> \<and>
      (set us \<subseteq> set (tv_verifiers (view w)) \<longrightarrow> snd ` set rs \<subseteq> {noted True})"
proof (induction vs arbitrary: us w)
  case (Cons v vs)
  then obtain u us' where "us = u # us'" "named_verifier v u" "list_all2 named_verifier vs us'" by (auto simp: list_all2_Cons1)
  then obtain name where us: "us = u # us'" "item_of v ''name'' = Inr name" "item_of v ''url'' = Inr (JStr u)" "list_all2 named_verifier vs us'"
    unfolding named_verifier_def by blast
  from verifier_posted [OF assms Cons.prems(1), of "''verifier''" "text_str a (JStr u)" name u] obtain w1 where w1:
    "post_verifier a base token v w = (Inr (JStr u, noted (u \<in> set (tv_verifiers (view w)))), w1)"
    "view w1 = (view w)\<lparr>tv_verifiers := added u (tv_verifiers (view w))\<rparr>"
    using us by (auto simp: post_verifier_def seq_def)
  with Cons.IH [of w1 us'] Cons.prems us(4) obtain rs w' where "each (post_verifier a base token) vs w1 = (Inr rs, w')"
    "view w' = (view w1)\<lparr>tv_verifiers := fold added us' (tv_verifiers (view w1))\<rparr>"
    "set us' \<subseteq> set (tv_verifiers (view w1)) \<longrightarrow> snd ` set rs \<subseteq> {noted True}" by auto
  note rest = this
  have "set us \<subseteq> set (tv_verifiers (view w)) \<longrightarrow> snd ` set ((JStr u, noted (u \<in> set (tv_verifiers (view w)))) # rs) \<subseteq> {noted True}"
    using rest(3) w1(2) us(1) by (auto simp: set_added)
  with w1 us(1) rest(1,2) show ?case by (simp add: seq_def)
qed simp

lemma updated_values: "snd ` set (fold (\<lambda>(k, v). AList.update k v) rs m) \<subseteq> snd ` set rs \<union> snd ` set m"
proof (induction rs arbitrary: m)
  case (Cons r rs)
  obtain k v where r: "r = (k, v)" by (cases r)
  have "snd ` set (AList.update k v m) \<subseteq> insert v (snd ` set m)" by (induction m) auto
  with Cons.IH [of "AList.update k v m"] show ?case unfolding r by auto
qed simp

lemma register_runs:
  assumes "tenant_laws a token (tenant_url (rstrip_by (\<lambda>c. c = CHR ''/'') admin_url) DEFAULT_TENANT) view"
    and "tv_startup (view w) < 30" and "list_all2 named_verifier additional us"
  shows "\<exists>sm i w'. register a admin_url token issuer_url verifier_url additional w = (Inr sm, w') \<and>
    sm_removed sm = map (\<lambda>x. JStr (snd x)) (filter (\<lambda>x. snd x \<noteq> issuer_url) (tv_issuers (view w))) \<and>
    sm_issuer sm = noted (issuer_url \<in> snd ` set (tv_issuers (view w))) \<and>
    sm_verifier sm = noted (verifier_url \<in> set (tv_verifiers (view w))) \<and>
    (set us \<subseteq> set (tv_verifiers (view w)) \<longrightarrow> (\<forall>m. sm_additional sm = Some m \<longrightarrow> snd ` set m \<subseteq> {noted True})) \<and>
    view w' = (view w)\<lparr>tv_startup := 0,
      tv_issuers := filter (\<lambda>x. snd x = issuer_url) (tv_issuers (view w)) @
        (if issuer_url \<in> snd ` set (tv_issuers (view w)) then [] else [(i, issuer_url)]),
      tv_verifiers := fold added (verifier_url # us) (tv_verifiers (view w))\<rparr>"
proof -
  let ?admin = "rstrip_by (\<lambda>c. c = CHR ''/'') admin_url" and ?base = "tenant_url (rstrip_by (\<lambda>c. c = CHR ''/'') admin_url) DEFAULT_TENANT"
  from assms(1) have laws: "starting_laws a token ?base view" "issuer_laws a token ?base view" "verifier_laws a token ?base view"
    by (simp_all add: tenant_laws_def)
  from tenant_awaited [OF laws(1) assms(2)] obtain w1 where w1: "wait_for_tenant a ?admin token DEFAULT_TENANT w = (Inr (), w1)"
    "view w1 = (view w)\<lparr>tv_startup := 0\<rparr>" unfolding wait_for_tenant_def by blast
  from stale_all_dropped [OF laws(2), of w1 issuer_url] w1(2) obtain w2 where w2: "drop_stale_all a ?base token issuer_url w1 =
      (Inr (map (\<lambda>x. JStr (snd x)) (filter (\<lambda>x. snd x \<noteq> issuer_url) (tv_issuers (view w)))), w2)"
    "view w2 = (view w)\<lparr>tv_startup := 0, tv_issuers := filter (\<lambda>x. snd x = issuer_url) (tv_issuers (view w))\<rparr>" by auto
  have ids: "issuer_url \<in> snd ` {x \<in> set xs. snd x = issuer_url} \<longleftrightarrow> issuer_url \<in> snd ` set xs" for xs :: "(string \<times> string) list" by auto
  from issuer_posted [OF laws(2), of w2 "''issuer''" issuer_url issuer_url] w2(2) ids [of "tv_issuers (view w)"] obtain i w3 where w3:
    "post_entry a ''issuer'' issuer_url (?base @ ''/issuers'') token (issuer_body issuer_url) w2 =
      (Inr (noted (issuer_url \<in> snd ` set (tv_issuers (view w)))), w3)"
    "view w3 = (view w)\<lparr>tv_startup := 0, tv_issuers := filter (\<lambda>x. snd x = issuer_url) (tv_issuers (view w)) @
      (if issuer_url \<in> snd ` set (tv_issuers (view w)) then [] else [(i, issuer_url)])\<rparr>" by auto
  from verifier_posted [OF laws(3), of w3 "''verifier''" verifier_url "JStr ''VC Verifier''" verifier_url] w3(2) obtain w4 where w4:
    "post_entry a ''verifier'' verifier_url (?base @ ''/verifiers'') token (verifier_body (JStr ''VC Verifier'') (JStr verifier_url)) w3 =
      (Inr (noted (verifier_url \<in> set (tv_verifiers (view w)))), w4)"
    "view w4 = (view w3)\<lparr>tv_verifiers := added verifier_url (tv_verifiers (view w))\<rparr>" by auto
  from verifiers_posted [OF laws(3) _ assms(3), of w4] w3(2) w4(2) obtain rs w5 where w5:
    "each (post_verifier a ?base token) additional w4 = (Inr rs, w5)"
    "view w5 = (view w4)\<lparr>tv_verifiers := fold added us (tv_verifiers (view w4))\<rparr>"
    "set us \<subseteq> set (tv_verifiers (view w4)) \<longrightarrow> snd ` set rs \<subseteq> {noted True}" by auto
  have "set us \<subseteq> set (tv_verifiers (view w)) \<longrightarrow> snd ` set (fold (\<lambda>(k, v). AList.update k v) rs []) \<subseteq> {noted True}"
    using w5(3) w4(2) updated_values [of rs "[]"] by (auto simp: added_def)
  then have old: "set us \<subseteq> set (tv_verifiers (view w)) \<longrightarrow> (\<forall>m. (if additional = [] then None else Some (fold (\<lambda>(k, v). AList.update k v) rs [])) = Some m \<longrightarrow>
    snd ` set m \<subseteq> {noted True})" by auto
  have "register a admin_url token issuer_url verifier_url additional w =
    (Inr \<lparr>sm_removed = map (\<lambda>x. JStr (snd x)) (filter (\<lambda>x. snd x \<noteq> issuer_url) (tv_issuers (view w))),
       sm_issuer = noted (issuer_url \<in> snd ` set (tv_issuers (view w))), sm_verifier = noted (verifier_url \<in> set (tv_verifiers (view w))),
       sm_additional = (if additional = [] then None else Some (fold (\<lambda>(k, v). AList.update k v) rs []))\<rparr>, w5)"
    using w1(1) w2(1) w3(1) w4(1) w5(1) by (simp add: register_def register_tenant_def Let_def seq_def)
  moreover have "view w5 = (view w)\<lparr>tv_startup := 0,
      tv_issuers := filter (\<lambda>x. snd x = issuer_url) (tv_issuers (view w)) @
        (if issuer_url \<in> snd ` set (tv_issuers (view w)) then [] else [(i, issuer_url)]),
      tv_verifiers := fold added (verifier_url # us) (tv_verifiers (view w))\<rparr>"
    using w3(2) w4(2) w5(2) by simp
  ultimately show ?thesis using old by (intro exI conjI) (assumption | simp only: summary.simps)+
qed

text \<open>
  C16. Registering an environment converges. Against an admin API that keeps its promises and is up within thirty pauses,
  the registration succeeds whatever was registered before; afterwards the issuer is the only one, and the verifier and
  the additional verifiers are known together with those known before. Running it again finds everything in place and
  changes nothing.
\<close>

theorem registration_converges:
  assumes "tenant_laws a token (tenant_url (rstrip_by (\<lambda>c. c = CHR ''/'') admin_url) DEFAULT_TENANT) view"
    and "tv_startup (view w) < 30" and "list_all2 named_verifier additional us"
  shows "\<exists>sm w'. register a admin_url token issuer_url verifier_url additional w = (Inr sm, w') \<and>
    snd ` set (tv_issuers (view w')) = {issuer_url} \<and>
    set (tv_verifiers (view w')) = {verifier_url} \<union> set us \<union> set (tv_verifiers (view w)) \<and>
    (\<exists>sm' w''. register a admin_url token issuer_url verifier_url additional w' = (Inr sm', w'') \<and> view w'' = view w' \<and>
       sm_removed sm' = [] \<and> sm_issuer sm' = ''already registered'' \<and> sm_verifier sm' = ''already registered'' \<and>
       (\<forall>m. sm_additional sm' = Some m \<longrightarrow> snd ` set m \<subseteq> {''already registered''}))"
proof -
  let ?reg = "register a admin_url token issuer_url verifier_url additional"
  obtain sm i w' where first: "?reg w = (Inr sm, w')" and v: "view w' = (view w)\<lparr>tv_startup := 0,
      tv_issuers := filter (\<lambda>x. snd x = issuer_url) (tv_issuers (view w)) @
        (if issuer_url \<in> snd ` set (tv_issuers (view w)) then [] else [(i, issuer_url)]),
      tv_verifiers := fold added (verifier_url # us) (tv_verifiers (view w))\<rparr>"
    using register_runs [OF assms, of issuer_url verifier_url] by blast
  have issuers: "snd ` set (tv_issuers (view w')) = {issuer_url}" by (auto simp: v)
  then have pure: "filter (\<lambda>x. snd x = issuer_url) (tv_issuers (view w')) = tv_issuers (view w')"
    "filter (\<lambda>x. snd x \<noteq> issuer_url) (tv_issuers (view w')) = []"
    by (auto simp: filter_id_conv filter_empty_conv)
  have verifiers: "set (tv_verifiers (view w')) = {verifier_url} \<union> set us \<union> set (tv_verifiers (view w))"
    by (auto simp: v fold_added set_added)
  then have kept: "fold added (verifier_url # us) (tv_verifiers (view w')) = tv_verifiers (view w')" by (intro fold_added(2)) auto
  have known: "verifier_url \<in> set (tv_verifiers (view w'))" "set us \<subseteq> set (tv_verifiers (view w'))" by (auto simp: verifiers)
  have still: "view w' = (view w')\<lparr>tv_startup := 0, tv_issuers := tv_issuers (view w') @ [], tv_verifiers := tv_verifiers (view w')\<rparr>"
    and "tv_startup (view w') < 30" by (simp_all add: v)
  from register_runs [OF assms(1) this(2) assms(3), of issuer_url verifier_url, unfolded pure kept issuers] obtain sm' j w'' where run:
    "?reg w' = (Inr sm', w'')" "sm_removed sm' = map (\<lambda>x :: string \<times> string. JStr (snd x)) []" "sm_issuer sm' = noted (issuer_url \<in> {issuer_url})"
    "sm_verifier sm' = noted (verifier_url \<in> set (tv_verifiers (view w')))"
    "set us \<subseteq> set (tv_verifiers (view w')) \<longrightarrow> (\<forall>m. sm_additional sm' = Some m \<longrightarrow> snd ` set m \<subseteq> {noted True})"
    "view w'' = (view w')\<lparr>tv_startup := 0, tv_issuers := tv_issuers (view w') @ (if issuer_url \<in> {issuer_url} then [] else [(j, issuer_url)]),
      tv_verifiers := tv_verifiers (view w')\<rparr>" by blast
  have "view w'' = view w'" using run(6) still by simp
  moreover have "sm_removed sm' = []" "sm_issuer sm' = noted True" "sm_verifier sm' = noted True"
    "\<forall>m. sm_additional sm' = Some m \<longrightarrow> snd ` set m \<subseteq> {noted True}"
    using run(2-5) known by simp_all
  ultimately show ?thesis using first issuers verifiers run(1) by (auto simp: noted_def)
qed

section \<open>A wallet backend\<close>

text \<open>
  A backend for the witness: its pauses, identifiers and verifiers. The list of issuers is
  sent as a text from which it can be read back.
\<close>

type_synonym backend = "nat \<times> string list \<times> string list"

definition pack :: "string list \<Rightarrow> string" where
  "pack ss = concat (map (\<lambda>s. concat (map (\<lambda>c. [CHR ''+'', c]) s) @ ''.'') ss)"

fun unpack :: "string \<Rightarrow> string list" where
  "unpack (x # c # r) =
     (if x = CHR ''+'' then (case unpack r of [] \<Rightarrow> [[c]] | s # ss \<Rightarrow> (c # s) # ss) else [] # unpack (c # r))"
| "unpack [x] = [[]]"
| "unpack [] = []"

definition listing :: "string list \<Rightarrow> json" where
  "listing ss = JObj [(''issuers'', JList (map (\<lambda>s. JObj [(''id'', JStr (CHR ''i'' # s)), (''credential_issuer_identifier'', JStr s)]) ss))]"

definition demo_base :: string where "demo_base = ''http://b/admin/tenants/default''"

fun posted_text :: "string \<Rightarrow> json option \<Rightarrow> string" where
  "posted_text k (Some (JObj d)) = (case map_of d k of Some (JStr x) \<Rightarrow> x | _ \<Rightarrow> [])"
| "posted_text k _ = []"

fun demo_send :: "string \<Rightarrow> string \<Rightarrow> string dict \<Rightarrow> json option \<Rightarrow> time \<Rightarrow> backend \<Rightarrow> net_reply \<times> backend" where
  "demo_send m u hs body t (k, ids, vs) =
     (if m = ''GET'' \<and> u = demo_base
      then (if k = 0 then Reply 200 [] else NetError ''ConnectionRefusedError'' ''refused'', k, ids, vs)
      else if m = ''GET'' then (Reply 200 (CHR ''!'' # pack (remdups ids)), k, ids, vs)
      else if m = ''DELETE'' then (Reply 204 [], k, filter (\<lambda>s. demo_base @ ''/issuers/i'' @ s \<noteq> u) ids, vs)
      else if u = demo_base @ ''/issuers'' then
        let x = posted_text ''credential_issuer_identifier'' body in
        (if x \<in> set ids then (Reply 409 [], k, ids, vs) else (Reply 201 [], k, ids @ [x], vs))
      else
        let x = posted_text ''url'' body in
        (if x \<in> set vs then (Reply 409 [], k, ids, vs) else (Reply 201 [], k, ids, vs @ [x])))"

definition demo_api :: "backend admin_api" where
  "demo_api = \<lparr>ap_send = demo_send, ap_json = \<lambda>raw. Inr (listing (unpack (tl raw))), ap_str = \<lambda>j. [],
     ap_sleep = \<lambda>t (k, ids, vs). (k - 1, ids, vs)\<rparr>"

fun demo_view :: "backend \<Rightarrow> tenant_view" where
  "demo_view (k, ids, vs) = \<lparr>tv_startup = k, tv_issuers = map (\<lambda>s. (CHR ''i'' # s, s)) (remdups ids), tv_verifiers = vs\<rparr>"

lemma unpack_item: "unpack (concat (map (\<lambda>c. [CHR ''+'', c]) s) @ CHR ''.'' # r) = s # unpack r"
proof (induction s)
  case Nil
  show ?case by (cases r) simp_all
qed simp

lemma unpack_pack: "unpack (pack ss) = ss"
  by (induction ss) (simp_all add: pack_def unpack_item)

lemma remdups_snoc: "x \<notin> set xs \<Longrightarrow> remdups (xs @ [x]) = remdups xs @ [x]"
  by (induction xs) auto

lemma demo_api_simps [simp]:
  "ap_send demo_api = demo_send" "ap_json demo_api raw = Inr (listing (unpack (tl raw)))" "ap_sleep demo_api t (k, ids, vs) = (k - 1, ids, vs)"
  "read_reply demo_api st [] = Inr (st, JNull)"
  by (simp_all add: demo_api_def read_reply_def)

lemma demo_answers:
  "demo_send m u (request_headers token b) b 10 w = (Reply st [], w') \<Longrightarrow> answers demo_api token m u b w st JNull w'"
  by (simp add: answers_def)

lemma demo_paths [simp]:
  "demo_base @ x # s \<noteq> demo_base" "demo_base \<noteq> demo_base @ x # s"
  by auto

lemma demo_starting: "starting_laws demo_api token demo_base demo_view"
  unfolding starting_laws_def
proof (intro conjI allI impI)
  fix w assume "tv_startup (demo_view w) = 0"
  then show "\<exists>j w'. answers demo_api token ''GET'' demo_base None w 200 j w' \<and> demo_view w' = demo_view w"
    by (cases w) (auto intro!: exI demo_answers)
next
  fix w assume "tv_startup (demo_view w) \<noteq> 0"
  then show "\<exists>r w'. ap_send demo_api ''GET'' demo_base (request_headers token None) None 10 w = (r, w') \<and> unready demo_api r \<and> demo_view w' = demo_view w"
    by (cases w) (auto simp: unready_def NETWORK_ERRORS_def)
next
  fix w :: backend and t show "demo_view (ap_sleep demo_api t w) = (demo_view w)\<lparr>tv_startup := tv_startup (demo_view w) - 1\<rparr>" by (cases w) simp
qed

lemma demo_issuers: "issuer_laws demo_api token demo_base demo_view"
  unfolding issuer_laws_def
proof (intro allI impI conjI)
  fix w :: backend show "distinct (map fst (tv_issuers (demo_view w)))" by (cases w) (simp add: distinct_map inj_on_def comp_def)
next
  fix w :: backend show "[] \<notin> fst ` set (tv_issuers (demo_view w))" by (cases w) auto
next
  fix w :: backend
  obtain k ids vs where w: "w = (k, ids, vs)" by (cases w) auto
  have "answers demo_api token ''GET'' (demo_base @ ''/issuers'') None w 200 (listing (remdups ids)) w"
    by (simp add: answers_def w read_reply_def unpack_pack)
  then show "\<exists>d es w'. answers demo_api token ''GET'' (demo_base @ ''/issuers'') None w 200 (JObj d) w' \<and> map_of d ''issuers'' = Some (JList es) \<and>
      list_all2 issuer_entry es (tv_issuers (demo_view w)) \<and> demo_view w' = demo_view w"
    unfolding listing_def
    by (intro exI [of _ "[(''issuers'', JList (map (\<lambda>s. JObj [(''id'', JStr (CHR ''i'' # s)), (''credential_issuer_identifier'', JStr s)]) (remdups ids)))]"]
        exI [of _ "map (\<lambda>s. JObj [(''id'', JStr (CHR ''i'' # s)), (''credential_issuer_identifier'', JStr s)]) (remdups ids)"] exI [of _ w])
      (simp add: w list_all2_conv_all_nth issuer_entry_def get_attr_def)
next
  fix w :: backend
  obtain k ids vs where w: "w = (k, ids, vs)" by (cases w) auto
  show "\<forall>i\<in>fst ` set (tv_issuers (demo_view w)). \<exists>st j w'. answers demo_api token ''DELETE'' (demo_base @ ''/issuers/'' @ i) None w st j w' \<and>
      success st \<and> demo_view w' = (demo_view w)\<lparr>tv_issuers := filter (\<lambda>x. fst x \<noteq> i) (tv_issuers (demo_view w))\<rparr>"
    by (intro ballI exI [of _ 204] exI conjI, rule demo_answers)
      (auto simp: w success_def filter_map comp_def remdups_filter [symmetric])
next
  fix w :: backend and x
  obtain k ids vs where w: "w = (k, ids, vs)" by (cases w) auto
  show "if x \<in> snd ` set (tv_issuers (demo_view w))
      then \<exists>j w'. answers demo_api token ''POST'' (demo_base @ ''/issuers'') (Some (issuer_body x)) w 409 j w' \<and> demo_view w' = demo_view w
      else \<exists>st j i w'. answers demo_api token ''POST'' (demo_base @ ''/issuers'') (Some (issuer_body x)) w st j w' \<and> success st \<and>
        demo_view w' = (demo_view w)\<lparr>tv_issuers := tv_issuers (demo_view w) @ [(i, x)]\<rparr>"
    by (auto simp: w issuer_body_def success_def remdups_snoc image_iff intro!: exI demo_answers)
qed

lemma demo_verifiers: "verifier_laws demo_api token demo_base demo_view"
  unfolding verifier_laws_def
proof (intro allI impI)
  fix w :: backend and name u
  obtain k ids vs where w: "w = (k, ids, vs)" by (cases w) auto
  show "if u \<in> set (tv_verifiers (demo_view w))
      then \<exists>j w'. answers demo_api token ''POST'' (demo_base @ ''/verifiers'') (Some (verifier_body name (JStr u))) w 409 j w' \<and> demo_view w' = demo_view w
      else \<exists>st j w'. answers demo_api token ''POST'' (demo_base @ ''/verifiers'') (Some (verifier_body name (JStr u))) w st j w' \<and> success st \<and>
        demo_view w' = (demo_view w)\<lparr>tv_verifiers := tv_verifiers (demo_view w) @ [u]\<rparr>"
    by (auto simp: w verifier_body_def success_def intro!: exI demo_answers)
qed

theorem registration_converges_witness:
  "\<exists>sm w'. register demo_api ''http://b/'' ''t'' ''https://new'' ''https://v'' [] (3, [''https://old''], [''https://u'']) = (Inr sm, w') \<and>
     snd ` set (tv_issuers (demo_view w')) = {''https://new''} \<and> set (tv_verifiers (demo_view w')) = {''https://v'', ''https://u''}"
proof -
  have "tenant_url (rstrip_by (\<lambda>c. c = CHR ''/'') ''http://b/'') DEFAULT_TENANT = demo_base" by code_simp
  then have "tenant_laws demo_api ''t'' (tenant_url (rstrip_by (\<lambda>c. c = CHR ''/'') ''http://b/'') DEFAULT_TENANT) demo_view"
    by (simp add: tenant_laws_def demo_starting demo_issuers demo_verifiers)
  from registration_converges [OF this, of "(3, [''https://old''], [''https://u''])" "[]" "[]" "''https://new''" "''https://v''"]
  show ?thesis by auto
qed

end
