(* ===== verification/EnvAdmin.thy ===== *)
theory EnvAdmin
  imports Registration Settings Net
begin

text \<open>
  The storage reset of an environment (env-admin/server.py). A \<open>platform\<close> stops and starts
  the consumers of the database: \<open>docker_platform\<close> over the engine's socket,
  \<open>fly_platform\<close> over the Machines API. The engine, the API, MongoDB, health URLs, the clocks
  and the parsers are in the record \<open>site\<close>. A reset job stops the consumers, drops the
  databases, starts the consumers, waits for them and registers the environment again.
  \<open>env_admin\<close> is the state the HTTP handlers share: the history of the resets, the job that
  runs, the subscribers of the event stream and the world outside. A job runs in a thread of
  its own: it is started by one step and runs in a later one. The messages of the
  registration and the standard output are left out.
\<close>

section \<open>Configuration\<close>

record consumer =
  cn_name :: string
  cn_target :: string
  cn_health :: "string option"

record env_config =
  ec_platform :: string
  ec_env_name :: string
  ec_token :: string
  ec_databases :: "string list"
  ec_consumers :: "consumer list"
  ec_fly_api_url :: string
  ec_fly_tokens :: "string dict"
  ec_admin_url :: string
  ec_issuer_url :: string
  ec_verifier_url :: string
  ec_additional :: "json list"

definition VERSION :: string where "VERSION = ''0.1.2''"
definition SYSTEM_DATABASES :: "string list" where "SYSTEM_DATABASES = [''admin'', ''local'', ''config'']"
definition DEFAULT_DATABASES :: "string list" where "DEFAULT_DATABASES = [''*'']"

definition docker_consumer :: "string \<Rightarrow> string \<Rightarrow> consumer" where
  "docker_consumer n t = \<lparr>cn_name = n, cn_target = t, cn_health = None\<rparr>"

definition DEFAULT_DOCKER_CONSUMERS :: "consumer list" where
  "DEFAULT_DOCKER_CONSUMERS =
     [\<lparr>cn_name = ''wallet-backend'', cn_target = ''wallet-backend-e2e-test'', cn_health = Some ''http://wallet-backend:8080/health''\<rparr>,
      docker_consumer ''vc-registry'' ''vc-registry-e2e'',
      docker_consumer ''vc-issuer'' ''vc-issuer-e2e'',
      docker_consumer ''vc-verifier'' ''vc-verifier-e2e'',
      docker_consumer ''vc-apigw'' ''vc-apigw-e2e'',
      docker_consumer ''conformance-server'' ''conformance-suite-server'']"

text \<open>The token: of a file where it is named and there, else of the environment.\<close>

definition read_token :: "environment \<Rightarrow> (string \<Rightarrow> string option) \<Rightarrow> string" where
  "read_token e fs =
     (let path = env_of e ''ENV_ADMIN_TOKEN_FILE'' [] in
      case (if path = [] then None else fs path) of
        Some t \<Rightarrow> py_strip t
      | None \<Rightarrow> py_strip (env_of e ''ENV_ADMIN_TOKEN'' []))"

text \<open>
  \<open>Config().resolve_files()\<close>; the parsers read \<open>CONSUMERS\<close>, \<open>FLY_API_TOKENS\<close> and
  \<open>ADDITIONAL_VERIFIERS\<close>, \<open>None\<close> is a JSON value that is false.
\<close>

record config_parsers =
  cq_consumers :: "string \<Rightarrow> exn + consumer list option"
  cq_tokens :: "string \<Rightarrow> exn + string dict"
  cq_verifiers :: "string \<Rightarrow> exn + json list"

definition or_text :: "string \<Rightarrow> string \<Rightarrow> string" where
  "or_text s d = (if s = [] then d else s)"

definition env_config_of :: "config_parsers \<Rightarrow> environment \<Rightarrow> (string \<Rightarrow> string option) \<Rightarrow> exn + env_config" where
  "env_config_of ps e fs =
     bind_sum (cq_consumers ps (or_text (env_of e ''CONSUMERS'' []) ''null'')) (\<lambda>consumers.
     bind_sum (cq_tokens ps (or_text (env_of e ''FLY_API_TOKENS'' []) ''{}'')) (\<lambda>tokens.
     bind_sum (cq_verifiers ps (or_text (env_of e ''ADDITIONAL_VERIFIERS'' []) ''[]'')) (\<lambda>verifiers.
     bind_sum (let f = env_of e ''FLY_API_TOKENS_FILE'' [] in
         case (if f = [] then None else fs f) of None \<Rightarrow> Inr tokens | Some t \<Rightarrow> cq_tokens ps t) (\<lambda>fly_tokens. Inr
     \<lparr>ec_platform = env_of e ''ENV_ADMIN_PLATFORM'' ''docker'', ec_env_name = env_of e ''ENV_ADMIN_ENV_NAME'' ''local'',
      ec_token = read_token e fs,
      ec_databases = comma_list (env_of e ''MONGO_DATABASES'' (join_with '','' DEFAULT_DATABASES)),
      ec_consumers = (case consumers of None \<Rightarrow> DEFAULT_DOCKER_CONSUMERS | Some cs \<Rightarrow> if cs = [] then DEFAULT_DOCKER_CONSUMERS else cs),
      ec_fly_api_url = env_of e ''FLY_API_URL'' ''https://api.machines.dev'', ec_fly_tokens = fly_tokens,
      ec_admin_url = env_of e ''ADMIN_URL'' [], ec_issuer_url = env_of e ''ISSUER_URL'' [],
      ec_verifier_url = env_of e ''VERIFIER_URL'' [], ec_additional = verifiers\<rparr>))))"

section \<open>What the service reaches\<close>

record 'w site =
  si_docker :: "string \<Rightarrow> string \<Rightarrow> time \<Rightarrow> 'w \<Rightarrow> (exn + int \<times> bool \<times> bytes) \<times> 'w"
  si_socket :: "'w \<Rightarrow> bool"
  si_fly :: "string \<Rightarrow> string \<Rightarrow> string \<Rightarrow> time \<Rightarrow> 'w \<Rightarrow> net_reply \<times> 'w"
  si_probe :: "string \<Rightarrow> time \<Rightarrow> 'w \<Rightarrow> int option \<times> 'w"
  si_names :: "'w \<Rightarrow> ('w, string list) outcome"
  si_stats :: "string \<Rightarrow> 'w \<Rightarrow> ('w, json) outcome"
  si_drop :: "string \<Rightarrow> 'w \<Rightarrow> ('w, unit) outcome"
  si_api :: "'w admin_api"
  si_json :: "bytes \<Rightarrow> exn + json"
  si_repr :: "bytes \<Rightarrow> string"
  si_int :: "string \<Rightarrow> exn + int"
  si_mono :: "'w \<Rightarrow> time"
  si_time :: "'w \<Rightarrow> time"
  si_sleep :: "time \<Rightarrow> 'w \<Rightarrow> 'w"
  si_fuel :: nat

definition runtime_error :: "string \<Rightarrow> exn" where
  "runtime_error m = OtherError ''RuntimeError'' m"

text \<open>\<open>except RuntimeError\<close>\<close>

fun runtime_text :: "exn \<Rightarrow> string option" where
  "runtime_text (OtherError c m) = (if c = ''RuntimeError'' then Some m else None)"
| "runtime_text _ = None"

text \<open>What a platform tells of a consumer.\<close>

record target_state =
  ts_exists :: bool
  ts_running :: bool
  ts_health :: json

definition absent :: target_state where
  "absent = \<lparr>ts_exists = False, ts_running = False, ts_health = JNull\<rparr>"

record 'w platform =
  pl_name :: string
  pl_available :: "'w \<Rightarrow> bool"
  pl_state :: "string \<Rightarrow> ('w, exn, target_state) act"
  pl_stop :: "string \<Rightarrow> ('w, exn, unit) act"
  pl_start :: "string \<Rightarrow> ('w, exn, unit) act"
  pl_has_healthcheck :: "string \<Rightarrow> ('w, exn, bool) act"

text \<open>\<open>j.get(k, d)\<close> and \<open>j.get(k) or {}\<close>\<close>

definition get_default :: "json \<Rightarrow> string \<Rightarrow> json \<Rightarrow> exn + json" where
  "get_default j k d = map_sum id (\<lambda>v. if dict_has (case j of JObj kvs \<Rightarrow> kvs | _ \<Rightarrow> []) k then v else d) (get_attr j k)"

definition get_or_empty :: "json \<Rightarrow> string \<Rightarrow> exn + json" where
  "get_or_empty j k = map_sum id (\<lambda>v. if json_truthy v then v else JObj []) (get_attr j k)"

section \<open>The Docker engine\<close>

definition docker_call :: "'w site \<Rightarrow> string \<Rightarrow> string \<Rightarrow> ('w, exn, json) act" where
  "docker_call si meth path w =
     (case si_docker si meth path 60 w of
        (Inl e, w') \<Rightarrow> (Inl e, w')
      | (Inr (st, is_json, body), w') \<Rightarrow>
          if 400 \<le> st \<and> st \<noteq> 304
          then (Inl (runtime_error (''docker '' @ meth @ '' '' @ path @ '': HTTP '' @ show_int st @ '' '' @ si_repr si (take 200 body))), w')
          else if body \<noteq> [] \<and> is_json then (si_json si body, w') else (Inr JNull, w'))"

definition container_path :: "string \<Rightarrow> string \<Rightarrow> string" where
  "container_path target what = ''/containers/'' @ target @ what"

text \<open>A message with \<open>HTTP 404\<close> in it means that there is no such container.\<close>

definition docker_inspect :: "'w site \<Rightarrow> string \<Rightarrow> ('w, exn, json) act" where
  "docker_inspect si target =
     handled (docker_call si ''GET'' (container_path target ''/json''))
       (\<lambda>e. case runtime_text e of None \<Rightarrow> None | Some m \<Rightarrow> if has_sub ''HTTP 404'' m then Some (give JNull) else None)"

definition docker_state_of :: "json \<Rightarrow> exn + target_state" where
  "docker_state_of info =
     (if \<not> json_truthy info then Inr absent
      else bind_sum (get_default info ''State'' (JObj [])) (\<lambda>st.
        bind_sum (get_attr st ''Running'') (\<lambda>running.
        bind_sum (get_or_empty st ''Health'') (\<lambda>h.
        bind_sum (get_attr h ''Status'') (\<lambda>status.
        Inr \<lparr>ts_exists = True, ts_running = json_truthy running, ts_health = status\<rparr>)))))"

definition docker_state :: "'w site \<Rightarrow> string \<Rightarrow> ('w, exn, target_state) act" where
  "docker_state si target = seq (docker_inspect si target) (\<lambda>info. value_of (docker_state_of info))"

definition docker_stop :: "'w site \<Rightarrow> string \<Rightarrow> ('w, exn, unit) act" where
  "docker_stop si target = seq (docker_call si ''POST'' (container_path target ''/stop?t=25'')) (\<lambda>_. give ())"

definition docker_start :: "'w site \<Rightarrow> string \<Rightarrow> ('w, exn, unit) act" where
  "docker_start si target = seq (docker_call si ''POST'' (container_path target ''/start'')) (\<lambda>_. give ())"

definition docker_has_healthcheck :: "'w site \<Rightarrow> string \<Rightarrow> ('w, exn, bool) act" where
  "docker_has_healthcheck si target =
     seq (docker_inspect si target) (\<lambda>info.
     value_of (bind_sum (get_or_empty (if json_truthy info then info else JObj []) ''Config'') (\<lambda>cfg.
       bind_sum (get_default cfg ''Healthcheck'' (JObj [])) (\<lambda>h.
       map_sum id json_truthy (get_attr h ''Test'')))))"

definition docker_platform :: "'w site \<Rightarrow> 'w platform" where
  "docker_platform si = \<lparr>pl_name = ''docker'', pl_available = si_socket si, pl_state = docker_state si, pl_stop = docker_stop si,
     pl_start = docker_start si, pl_has_healthcheck = docker_has_healthcheck si\<rparr>"

section \<open>The Machines API\<close>

definition fly_call :: "'w site \<Rightarrow> env_config \<Rightarrow> string \<Rightarrow> string \<Rightarrow> string \<Rightarrow> ('w, exn, json) act" where
  "fly_call si ec meth a path w =
     (let token = (case map_of (ec_fly_tokens ec) a of None \<Rightarrow> [] | Some t \<Rightarrow> t);
          base = rstrip_by (\<lambda>c. c = CHR ''/'') (ec_fly_api_url ec) in
      if token = [] then (Inl (runtime_error (''no Fly API token for app '' @ a)), w)
      else case si_fly si meth (base @ ''/v1/apps/'' @ a @ path) token 60 w of
        (NetError cls msg, w') \<Rightarrow> (Inl (OtherError cls msg), w')
      | (Reply st raw, w') \<Rightarrow>
          if \<not> success st
          then (Inl (runtime_error (''fly '' @ meth @ '' '' @ a @ path @ '': HTTP '' @ show_int st @ '' '' @ si_repr si (take 200 raw))), w')
          else if raw \<noteq> [] then (si_json si raw, w') else (Inr JNull, w'))"

text \<open>The machines of an app, a JSON array.\<close>

definition fly_machines :: "'w site \<Rightarrow> env_config \<Rightarrow> string \<Rightarrow> ('w, exn, json list) act" where
  "fly_machines si ec a = seq (fly_call si ec ''GET'' a ''/machines'') (\<lambda>j. value_of (as_list j))"

definition state_is :: "string list \<Rightarrow> json \<Rightarrow> exn + bool" where
  "state_is ss m = map_sum id (\<lambda>v. list_ex (\<lambda>s. json_eq v (JStr s)) ss) (get_attr m ''state'')"

text \<open>\<open>all(..)\<close>, which stops at the first value that is false.\<close>

fun all_of :: "('a \<Rightarrow> exn + bool) \<Rightarrow> 'a list \<Rightarrow> exn + bool" where
  "all_of p [] = Inr True"
| "all_of p (x # xs) = bind_sum (p x) (\<lambda>b. if b then all_of p xs else Inr False)"

definition check_passes :: "json \<Rightarrow> exn + bool" where
  "check_passes c = map_sum id (\<lambda>v. json_eq v (JStr ''passing'')) (get_attr c ''status'')"

definition fly_state_of :: "json list \<Rightarrow> exn + target_state" where
  "fly_state_of ms =
     (case ms of
        [] \<Rightarrow> Inr absent
      | m # _ \<Rightarrow>
          bind_sum (get_attr m ''checks'') (\<lambda>c.
          bind_sum (as_list c) (\<lambda>checks.
          bind_sum (if checks = [] then Inr JNull
              else map_sum id (\<lambda>b. JStr (if b then ''healthy'' else ''unhealthy'')) (all_of check_passes checks)) (\<lambda>health.
          map_sum id (\<lambda>running. \<lparr>ts_exists = True, ts_running = running, ts_health = health\<rparr>) (state_is [''started''] m)))))"

definition fly_state :: "'w site \<Rightarrow> env_config \<Rightarrow> string \<Rightarrow> ('w, exn, target_state) act" where
  "fly_state si ec target =
     seq (handled (seq (fly_machines si ec target) (\<lambda>ms. give (Some ms)))
       (\<lambda>e. case runtime_text e of None \<Rightarrow> None | Some _ \<Rightarrow> Some (give None)))
     (\<lambda>r. case r of None \<Rightarrow> give absent | Some ms \<Rightarrow> value_of (fly_state_of ms))"

fun fly_wait :: "'w site \<Rightarrow> env_config \<Rightarrow> string \<Rightarrow> string \<Rightarrow> time \<Rightarrow> nat \<Rightarrow> ('w, exn, unit) act" where
  "fly_wait si ec target st deadline 0 w = (Inl out_of_fuel, w)"
| "fly_wait si ec target st deadline (Suc n) w =
     (if si_mono si w < deadline
      then (case seq (fly_machines si ec target) (\<lambda>ms. value_of (all_of (state_is [st]) ms)) w of
          (Inl e, w') \<Rightarrow> (Inl e, w')
        | (Inr b, w') \<Rightarrow> if b then (Inr (), w') else fly_wait si ec target st deadline n (si_sleep si 2 w'))
      else (Inl (runtime_error (target @ '': machines did not reach '' @ py_repr st @ '' within 90s'')), w))"

definition wait_state :: "'w site \<Rightarrow> env_config \<Rightarrow> string \<Rightarrow> string \<Rightarrow> ('w, exn, unit) act" where
  "wait_state si ec target st w = fly_wait si ec target st (si_mono si w + 90) (si_fuel si) w"

definition fly_signal :: "'w site \<Rightarrow> env_config \<Rightarrow> string \<Rightarrow> string list \<Rightarrow> string \<Rightarrow> json \<Rightarrow> ('w, exn, unit) act" where
  "fly_signal si ec target leave what m =
     seq (value_of (state_is leave m)) (\<lambda>rests.
     only_if (\<not> rests) (seq (value_of (item_of m ''id'')) (\<lambda>i.
       seq (fly_call si ec ''POST'' target (''/machines/'' @ text_str (si_api si) i @ ''/'' @ what)) (\<lambda>_. give ()))))"

definition fly_stop :: "'w site \<Rightarrow> env_config \<Rightarrow> string \<Rightarrow> ('w, exn, unit) act" where
  "fly_stop si ec target =
     seq (fly_machines si ec target) (\<lambda>ms.
     seq (each (fly_signal si ec target [''stopped'', ''stopping''] ''stop'') ms) (\<lambda>_.
     wait_state si ec target ''stopped''))"

definition fly_start :: "'w site \<Rightarrow> env_config \<Rightarrow> string \<Rightarrow> ('w, exn, unit) act" where
  "fly_start si ec target =
     seq (fly_machines si ec target) (\<lambda>ms.
     seq (each (fly_signal si ec target [''started''] ''start'') ms) (\<lambda>_.
     wait_state si ec target ''started''))"

definition fly_has_healthcheck :: "'w site \<Rightarrow> env_config \<Rightarrow> string \<Rightarrow> ('w, exn, bool) act" where
  "fly_has_healthcheck si ec target =
     seq (fly_machines si ec target) (\<lambda>ms. case ms of
       [] \<Rightarrow> give False
     | m # _ \<Rightarrow> value_of (map_sum id json_truthy (get_attr m ''checks'')))"

definition fly_platform :: "'w site \<Rightarrow> env_config \<Rightarrow> 'w platform" where
  "fly_platform si ec = \<lparr>pl_name = ''fly'', pl_available = (\<lambda>w. ec_fly_tokens ec \<noteq> []), pl_state = fly_state si ec,
     pl_stop = fly_stop si ec, pl_start = fly_start si ec, pl_has_healthcheck = fly_has_healthcheck si ec\<rparr>"

definition make_platform :: "'w site \<Rightarrow> env_config \<Rightarrow> 'w platform" where
  "make_platform si ec = (if ec_platform ec = ''fly'' then fly_platform si ec else docker_platform si)"

section \<open>The databases\<close>

definition target_databases :: "env_config \<Rightarrow> string list \<Rightarrow> string list" where
  "target_databases ec existing =
     (if ''*'' \<in> set (ec_databases ec) then sort (filter (\<lambda>d. d \<notin> set SYSTEM_DATABASES) existing)
      else filter (\<lambda>d. d \<notin> set SYSTEM_DATABASES) (ec_databases ec))"

text \<open>\<open>int(..)\<close> of a value of a reply.\<close>

definition int_of_value :: "'w site \<Rightarrow> json \<Rightarrow> exn + int" where
  "int_of_value si j = (case j of
     JInt i \<Rightarrow> Inr i
   | JBool b \<Rightarrow> Inr (if b then 1 else 0)
   | JFloat q \<Rightarrow> Inr (if q < 0 then \<lceil>q\<rceil> else \<lfloor>q\<rfloor>)
   | JStr t \<Rightarrow> si_int si t
   | _ \<Rightarrow> Inl (TypeError ''int() argument must be a string or a number''))"

definition stat_int :: "'w site \<Rightarrow> json \<Rightarrow> string \<Rightarrow> exn + int" where
  "stat_int si st k = bind_sum (get_default st k (JInt 0)) (int_of_value si)"

definition store_stats :: "'w site \<Rightarrow> string \<Rightarrow> json \<Rightarrow> exn + json" where
  "store_stats si name st =
     bind_sum (stat_int si st ''dataSize'') (\<lambda>a. bind_sum (stat_int si st ''indexSize'') (\<lambda>b.
     bind_sum (stat_int si st ''collections'') (\<lambda>c. bind_sum (stat_int si st ''objects'') (\<lambda>d. Inr
       (JObj [(''name'', JStr name), (''exists'', JBool True), (''size_bytes'', JInt (a + b)), (''collections'', JInt c), (''documents'', JInt d)])))))"

definition store_entry :: "'w site \<Rightarrow> string list \<Rightarrow> string \<Rightarrow> ('w, exn, json) act" where
  "store_entry si existing name w =
     (if name \<notin> set existing
      then (Inr (JObj [(''name'', JStr name), (''exists'', JBool False), (''size_bytes'', JInt 0), (''collections'', JInt 0), (''documents'', JInt 0)]), w)
      else case seq (si_stats si name) (\<lambda>st. value_of (store_stats si name st)) w of
        (Inr j, w') \<Rightarrow> (Inr j, w')
      | (Inl e, w') \<Rightarrow> (Inr (JObj [(''name'', JStr name), (''exists'', JBool True), (''error'', JStr (take 200 (exn_text e)))]), w'))"

text \<open>Whether MongoDB answers, the error if it does not, and what is there.\<close>

record stores =
  so_reachable :: bool
  so_error :: string
  so_databases :: "json list"

definition first_line :: "string \<Rightarrow> string" where
  "first_line s = until newline s"

definition mongo_stores :: "'w site \<Rightarrow> env_config \<Rightarrow> ('w, exn, stores) act" where
  "mongo_stores si ec w =
     (case si_names si w of
        (Inl e, w') \<Rightarrow> (Inr \<lparr>so_reachable = False, so_error = take 200 (first_line (exn_text e)), so_databases = []\<rparr>, w')
      | (Inr names, w') \<Rightarrow>
          seq (each (store_entry si names) (target_databases ec (remdups names))) (\<lambda>dbs.
          give \<lparr>so_reachable = True, so_error = [], so_databases = dbs\<rparr>) w')"

section \<open>The event stream\<close>

type_synonym event = "string \<times> json"
type_synonym queues = "(nat \<times> event list) list"

definition emit :: "string \<Rightarrow> json \<Rightarrow> queues \<Rightarrow> queues" where
  "emit ev d qs = map (\<lambda>(k, q). (k, q @ [(ev, d)])) qs"

definition subscribe :: "queues \<Rightarrow> nat \<times> queues" where
  "subscribe qs = (let k = Suc (Max (set (0 # map fst qs))) in (k, qs @ [(k, [])]))"

definition unsubscribe :: "nat \<Rightarrow> queues \<Rightarrow> queues" where
  "unsubscribe k qs = filter (\<lambda>(i, _). i \<noteq> k) qs"

text \<open>What a stream writes next: its oldest event, or a comment after fifteen seconds without one.\<close>

definition event_text :: "(rat \<Rightarrow> string) \<Rightarrow> event \<Rightarrow> string" where
  "event_text sf ev = ''event: '' @ fst ev @ [newline] @ ''data: '' @ dumps sf one_line_json 0 (snd ev) @ [newline, newline]"

definition stream_next :: "(rat \<Rightarrow> string) \<Rightarrow> nat \<Rightarrow> queues \<Rightarrow> string \<times> queues" where
  "stream_next sf k qs =
     (case map_of qs k of
        Some (ev # rest) \<Rightarrow> (event_text sf ev, map (\<lambda>(i, q). (i, if i = k then rest else q)) qs)
      | _ \<Rightarrow> ('': keepalive'' @ [newline, newline], qs))"

section \<open>The reset job\<close>

record job_record =
  jr_id :: string
  jr_status :: string
  jr_started :: time
  jr_steps :: "(time \<times> string \<times> string) list"
  jr_dropped :: "string list"
  jr_restarted :: "string list"
  jr_error :: "string option"
  jr_finished :: "time option"

record 'w job =
  jb_record :: job_record
  jb_queues :: queues
  jb_world :: 'w

definition in_world :: "('w, exn, 'a) act \<Rightarrow> ('w job, exn, 'a) act" where
  "in_world m s = (case m (jb_world s) of (r, w) \<Rightarrow> (r, s\<lparr>jb_world := w\<rparr>))"

definition edit_record :: "(job_record \<Rightarrow> job_record) \<Rightarrow> ('w job, exn, unit) act" where
  "edit_record f s = (Inr (), s\<lparr>jb_record := f (jb_record s)\<rparr>)"

definition tell_queues :: "string \<Rightarrow> json \<Rightarrow> ('w job, exn, unit) act" where
  "tell_queues ev d s = (Inr (), s\<lparr>jb_queues := emit ev d (jb_queues s)\<rparr>)"

definition log_as :: "'w site \<Rightarrow> string \<Rightarrow> string \<Rightarrow> ('w job, exn, unit) act" where
  "log_as si level message s =
     (let t = si_time si (jb_world s) in
      (Inr (), s\<lparr>jb_record := (jb_record s)\<lparr>jr_steps := jr_steps (jb_record s) @ [(t, level, message)]\<rparr>,
         jb_queues := emit ''reset_step'' (JObj [(''id'', JStr (jr_id (jb_record s))), (''t'', JFloat t), (''level'', JStr level), (''message'', JStr message)])
           (jb_queues s)\<rparr>))"

abbreviation log_step :: "'w site \<Rightarrow> string \<Rightarrow> ('w job, exn, unit) act" where
  "log_step si \<equiv> log_as si ''info''"

fun present_consumers :: "'w site \<Rightarrow> 'w platform \<Rightarrow> consumer list \<Rightarrow> ('w job, exn, (consumer \<times> target_state) list) act" where
  "present_consumers si pl [] = give []"
| "present_consumers si pl (c # cs) =
     seq (in_world (pl_state pl (cn_target c))) (\<lambda>st.
     if ts_exists st then seq (present_consumers si pl cs) (\<lambda>r. give ((c, st) # r))
     else seq (log_step si (cn_name c @ '': not part of this stack, skipping'')) (\<lambda>_. present_consumers si pl cs))"

definition stop_consumer :: "'w site \<Rightarrow> 'w platform \<Rightarrow> consumer \<times> target_state \<Rightarrow> ('w job, exn, unit) act" where
  "stop_consumer si pl = (\<lambda>(c, st). only_if (ts_running st)
     (seq (in_world (pl_stop pl (cn_target c))) (\<lambda>_. log_step si (''stopped '' @ cn_name c))))"

definition drop_database :: "'w site \<Rightarrow> string list \<Rightarrow> string \<Rightarrow> ('w job, exn, string list) act" where
  "drop_database si existing name =
     (if name \<notin> set existing then give []
      else seq (in_world (si_drop si name)) (\<lambda>_. seq (log_step si (''dropped database '' @ name)) (\<lambda>_. give [name])))"

definition drop_databases :: "'w site \<Rightarrow> env_config \<Rightarrow> ('w job, exn, string list) act" where
  "drop_databases si ec =
     seq (in_world (si_names si)) (\<lambda>names.
     seq (each (drop_database si names) (target_databases ec (remdups names))) (\<lambda>dropped. give (concat dropped)))"

definition clear_databases :: "'w site \<Rightarrow> env_config \<Rightarrow> ('w job, exn, unit) act" where
  "clear_databases si ec =
     seq (in_world (mongo_stores si ec)) (\<lambda>stores.
     if so_reachable stores
     then seq (drop_databases si ec) (\<lambda>dropped.
       seq (edit_record (\<lambda>r. r\<lparr>jr_dropped := dropped\<rparr>)) (\<lambda>_.
       only_if (dropped = []) (log_step si ''no application databases existed - nothing to drop'')))
     else log_step si (''Mongo not reachable ('' @ so_error stores @ '') - only in-memory stores to clear''))"

definition start_consumer :: "'w site \<Rightarrow> 'w platform \<Rightarrow> consumer \<times> target_state \<Rightarrow> ('w job, exn, unit) act" where
  "start_consumer si pl = (\<lambda>(c, st).
     seq (in_world (pl_start pl (cn_target c))) (\<lambda>_.
     seq (edit_record (\<lambda>r. r\<lparr>jr_restarted := jr_restarted r @ [cn_name c]\<rparr>)) (\<lambda>_. log_step si (''started '' @ cn_name c))))"

text \<open>One round of the wait: \<open>Some\<close> is the message with which it ends.\<close>

definition healthy_once :: "'w site \<Rightarrow> 'w platform \<Rightarrow> consumer \<Rightarrow> bool \<Rightarrow> ('w, exn, string option) act" where
  "healthy_once si pl c uses w =
     (let u = (case cn_health c of None \<Rightarrow> [] | Some u \<Rightarrow> u) in
      if u \<noteq> [] then
        (case si_probe si u 3 w of
           (Some st, w') \<Rightarrow> (Inr (if success st then Some '': healthy'' else None), w')
         | (None, w') \<Rightarrow> (Inr None, w'))
      else if uses then
        seq (pl_state pl (cn_target c)) (\<lambda>st. give (if json_eq (ts_health st) (JStr ''healthy'') then Some '': healthy'' else None)) w
      else
        (case pl_state pl (cn_target c) w of
           (Inl e, w') \<Rightarrow> (Inl e, w')
         | (Inr st, w') \<Rightarrow> if ts_running st then (Inr (Some '': running (no health check to wait for)''), si_sleep si 3 w') else (Inr None, w')))"

fun healthy_loop :: "'w site \<Rightarrow> 'w platform \<Rightarrow> consumer \<Rightarrow> bool \<Rightarrow> time \<Rightarrow> nat \<Rightarrow> ('w, exn, string option) act" where
  "healthy_loop si pl c uses deadline 0 w = (Inl out_of_fuel, w)"
| "healthy_loop si pl c uses deadline (Suc n) w =
     (if si_mono si w < deadline
      then (case healthy_once si pl c uses w of
          (Inl e, w') \<Rightarrow> (Inl e, w')
        | (Inr (Some m), w') \<Rightarrow> (Inr (Some m), w')
        | (Inr None, w') \<Rightarrow> healthy_loop si pl c uses deadline n (si_sleep si 2 w'))
      else (Inr None, w))"

definition await_health :: "'w site \<Rightarrow> 'w platform \<Rightarrow> consumer \<Rightarrow> ('w, exn, string option) act" where
  "await_health si pl c w = seq (pl_has_healthcheck pl (cn_target c)) (\<lambda>uses. healthy_loop si pl c uses (si_mono si w + 120) (si_fuel si)) w"

definition wait_healthy :: "'w site \<Rightarrow> 'w platform \<Rightarrow> consumer \<Rightarrow> ('w job, exn, unit) act" where
  "wait_healthy si pl c =
     seq (in_world (await_health si pl c)) (\<lambda>m. case m of
       Some t \<Rightarrow> log_step si (cn_name c @ t)
     | None \<Rightarrow> log_as si ''warn'' (cn_name c @ '': not healthy after 120s - continuing''))"

definition bootstrap_configured :: "env_config \<Rightarrow> bool" where
  "bootstrap_configured ec \<longleftrightarrow> ec_admin_url ec \<noteq> [] \<and> ec_issuer_url ec \<noteq> [] \<and> ec_verifier_url ec \<noteq> []"

definition register_again :: "'w site \<Rightarrow> env_config \<Rightarrow> string list \<Rightarrow> ('w job, exn, unit) act" where
  "register_again si ec names =
     (if \<not> bootstrap_configured ec then log_step si ''bootstrap not configured (ADMIN_URL/ISSUER_URL/VERIFIER_URL) - skipped''
      else if ''vc-apigw'' \<notin> set names then log_step si ''VC services not running in this stack - nothing to register''
      else seq (in_world (register (si_api si) (ec_admin_url ec) (ec_token ec) (ec_issuer_url ec) (ec_verifier_url ec) (ec_additional ec)))
        (\<lambda>_. give ()))"

definition stop_all :: "'w site \<Rightarrow> 'w platform \<Rightarrow> (consumer \<times> target_state) list \<Rightarrow> ('w job, exn, unit) act" where
  "stop_all si pl present =
     seq (log_step si ''step 1/4: stopping consumers'') (\<lambda>_. seq (each (stop_consumer si pl) present) (\<lambda>_. give ()))"

definition start_all :: "'w site \<Rightarrow> 'w platform \<Rightarrow> (consumer \<times> target_state) list \<Rightarrow> ('w job, exn, unit) act" where
  "start_all si pl present =
     seq (log_step si ''step 3/4: starting consumers'') (\<lambda>_.
     seq (each (start_consumer si pl) present) (\<lambda>_.
     seq (each (\<lambda>(c, _). wait_healthy si pl c) present) (\<lambda>_. give ())))"

definition reset_steps :: "'w site \<Rightarrow> 'w platform \<Rightarrow> env_config \<Rightarrow> ('w job, exn, unit) act" where
  "reset_steps si pl ec s =
     seq (tell_queues ''reset_start'' (JObj [(''id'', JStr (jr_id (jb_record s)))])) (\<lambda>_.
     seq (in_world (\<lambda>w. (Inr (pl_available pl w), w))) (\<lambda>available.
     if \<not> available
     then refuse (runtime_error (pl_name pl @ '' control is not available to env-admin (no docker socket / no Fly tokens) - cannot restart consumers safely''))
     else seq (present_consumers si pl (ec_consumers ec)) (\<lambda>present.
       seq (stop_all si pl present) (\<lambda>_.
       seq (log_step si ''step 2/4: dropping databases'') (\<lambda>_.
       seq (clear_databases si ec) (\<lambda>_.
       seq (start_all si pl present) (\<lambda>_.
       seq (log_step si ''step 4/4: re-registering issuer and verifier'') (\<lambda>_.
       seq (register_again si ec (map (cn_name \<circ> fst) present)) (\<lambda>_.
       log_step si ''done - the environment is back to its freshly deployed state'')))))))))  s"

definition text_or_null :: "string option \<Rightarrow> json" where
  "text_or_null t = (case t of None \<Rightarrow> JNull | Some m \<Rightarrow> JStr m)"

text \<open>\<open>run\<close>: whatever happens the record ends, and the subscribers are told.\<close>

definition run_job :: "'w site \<Rightarrow> 'w platform \<Rightarrow> env_config \<Rightarrow> 'w job \<Rightarrow> 'w job" where
  "run_job si pl ec s =
     (let s1 = (case reset_steps si pl ec s of
          (Inr _, t) \<Rightarrow> snd (edit_record (\<lambda>r. r\<lparr>jr_status := ''finished''\<rparr>) t)
        | (Inl e, t) \<Rightarrow> snd (log_as si ''error'' (''reset failed: '' @ exn_text e)
            (snd (edit_record (\<lambda>r. r\<lparr>jr_status := ''error'', jr_error := Some (exn_text e)\<rparr>) t))));
          s2 = snd (edit_record (\<lambda>r. r\<lparr>jr_finished := Some (si_time si (jb_world s1))\<rparr>) s1);
          r = jb_record s2 in
      snd (tell_queues ''reset_finished'' (JObj [(''id'', JStr (jr_id r)), (''status'', JStr (jr_status r)), (''error'', text_or_null (jr_error r))]) s2))"

section \<open>The service\<close>

text \<open>The active job is an index of the history, with whether its thread is alive.\<close>

record 'w env_admin =
  ea_history :: "job_record list"
  ea_active :: "(nat \<times> bool) option"
  ea_queues :: queues
  ea_world :: 'w

definition new_record :: "string \<Rightarrow> time \<Rightarrow> job_record" where
  "new_record i t = \<lparr>jr_id = i, jr_status = ''running'', jr_started = t, jr_steps = [], jr_dropped = [], jr_restarted = [],
     jr_error = None, jr_finished = None\<rparr>"

definition reset_busy :: "string \<Rightarrow> exn" where
  "reset_busy i = OtherError ''ResetBusy'' i"

text \<open>\<open>State.start_reset\<close>; the last argument before the state is \<open>uuid4().hex[:6]\<close>.\<close>

definition start_reset :: "'w site \<Rightarrow> string \<Rightarrow> 'w env_admin \<Rightarrow> (exn + string) \<times> 'w env_admin" where
  "start_reset si hex s =
     (case ea_active s of
        Some (i, True) \<Rightarrow> (Inl (reset_busy (jr_id (ea_history s ! i))), s)
      | _ \<Rightarrow>
          let t = si_time si (ea_world s); job_id = ''reset-'' @ show_int \<lfloor>t\<rfloor> @ ''-'' @ hex in
          (Inr job_id, s\<lparr>ea_history := ea_history s @ [new_record job_id t], ea_active := Some (length (ea_history s), True)\<rparr>))"

text \<open>The thread of the active job.\<close>

definition job_thread :: "'w site \<Rightarrow> 'w platform \<Rightarrow> env_config \<Rightarrow> 'w env_admin \<Rightarrow> 'w env_admin" where
  "job_thread si pl ec s =
     (case ea_active s of
        Some (i, True) \<Rightarrow>
          (let j = run_job si pl ec \<lparr>jb_record = ea_history s ! i, jb_queues = ea_queues s, jb_world = ea_world s\<rparr> in
           s\<lparr>ea_history := (ea_history s)[i := jb_record j], ea_active := Some (i, False), ea_queues := jb_queues j, ea_world := jb_world j\<rparr>)
      | _ \<Rightarrow> s)"

definition consumer_status :: "'w platform \<Rightarrow> consumer \<Rightarrow> ('w, exn, json list) act" where
  "consumer_status pl c =
     seq (pl_state pl (cn_target c)) (\<lambda>st. give (if ts_exists st
       then [JObj [(''name'', JStr (cn_name c)), (''target'', JStr (cn_target c)),
         (''state'', JStr (if ts_running st then ''running'' else ''stopped'')), (''health'', ts_health st)]] else []))"

definition stores_json :: "stores \<Rightarrow> json" where
  "stores_json so = JObj ([(''reachable'', JBool (so_reachable so))] @
     (if so_reachable so then [] else [(''error'', JStr (so_error so))]) @ [(''databases'', JList (so_databases so))])"

definition finished_json :: "job_record \<Rightarrow> (string \<times> json) list" where
  "finished_json r = (case jr_finished r of None \<Rightarrow> [] | Some t \<Rightarrow> [(''finished_at'', JFloat t)])"

definition last_reset :: "job_record list \<Rightarrow> json" where
  "last_reset h = (if h = [] then JNull else let r = last h in
     JObj ([(''id'', JStr (jr_id r)), (''status'', JStr (jr_status r)), (''started_at'', JFloat (jr_started r))] @ finished_json r @
       [(''dropped'', JList (map JStr (jr_dropped r))), (''error'', text_or_null (jr_error r))]))"

definition status_json :: "'w site \<Rightarrow> 'w platform \<Rightarrow> env_config \<Rightarrow> 'w env_admin \<Rightarrow> (exn + json) \<times> 'w env_admin" where
  "status_json si pl ec s =
     (case seq (each (consumer_status pl) (ec_consumers ec)) (\<lambda>cs. seq (\<lambda>w. (Inr (pl_available pl w), w)) (\<lambda>available.
           seq (mongo_stores si ec) (\<lambda>so. give (concat cs, available, so)))) (ea_world s) of
        (Inl e, w) \<Rightarrow> (Inl e, s\<lparr>ea_world := w\<rparr>)
      | (Inr (cs, available, so), w) \<Rightarrow>
          (Inr (JObj [(''env'', JStr (ec_env_name ec)), (''platform'', JStr (ec_platform ec)), (''version'', JStr VERSION),
             (''control_available'', JBool available), (''mongo'', stores_json so), (''consumers'', JList cs),
             (''reset_in_progress'', JBool (case ea_active s of Some (_, alive) \<Rightarrow> alive | None \<Rightarrow> False)),
             (''last_reset'', last_reset (ea_history s)), (''bootstrap_configured'', JBool (bootstrap_configured ec))]), s\<lparr>ea_world := w\<rparr>))"

definition step_json :: "time \<times> string \<times> string \<Rightarrow> json" where
  "step_json = (\<lambda>(t, level, message). JObj [(''t'', JFloat t), (''level'', JStr level), (''message'', JStr message)])"

definition record_json :: "job_record \<Rightarrow> json" where
  "record_json r = JObj ([(''id'', JStr (jr_id r)), (''status'', JStr (jr_status r)), (''started_at'', JFloat (jr_started r)),
     (''steps'', JList (map step_json (jr_steps r))), (''dropped'', JList (map JStr (jr_dropped r))),
     (''restarted'', JList (map JStr (jr_restarted r))), (''error'', text_or_null (jr_error r))] @ finished_json r)"

text \<open>A request; an exception of a handler closes the connection without an answer.\<close>

record env_request =
  rq_path :: string
  rq_authorization :: string
  rq_length :: string
  rq_body :: bytes

datatype answer = AJson int json | AText int string | AStream nat

text \<open>\<open>urlparse(..).path\<close>: without query, fragment and the parameters of the last segment.\<close>

definition USES_PARAMS :: "string list" where
  "USES_PARAMS = [[], ''ftp'', ''hdl'', ''prospero'', ''http'', ''imap'', ''https'', ''shttp'', ''rtsp'', ''rtsps'', ''rtspu'', ''sip'', ''sips'',
     ''mms'', ''sftp'', ''tel'']"

definition parsed_path :: "string \<Rightarrow> exn + string" where
  "parsed_path p =
     (case urlsplit p of
        None \<Rightarrow> Inl (ValueError ''Invalid URL'')
      | Some u \<Rightarrow> if u_scheme u \<notin> set USES_PARAMS then Inr (u_path u) else (case rpartition_at CHR ''/'' (u_path u) of (dir, found, seg) \<Rightarrow>
          Inr ((if found then dir @ ''/'' else []) @ until CHR '';'' seg)))"

definition authorized :: "env_config \<Rightarrow> string \<Rightarrow> exn + bool" where
  "authorized ec header =
     (if \<not> starts_with ''Bearer '' header \<or> ec_token ec = [] then Inr False
      else let given = py_strip (drop 7 header) in
        if \<not> is_ascii given \<or> \<not> is_ascii (ec_token ec)
        then Inl (TypeError ''comparing strings with non-ASCII characters is not supported'')
        else Inr (given = ec_token ec))"

definition refused :: "int \<Rightarrow> string \<Rightarrow> answer" where
  "refused st m = AJson st (JObj [(''error'', JStr m)])"

definition read_body :: "'w site \<Rightarrow> env_request \<Rightarrow> exn + bytes" where
  "read_body si rq = map_sum id (\<lambda>n. if n < 0 then rq_body rq else take (nat n) (rq_body rq))
     (if rq_length rq = [] then Inr 0 else si_int si (rq_length rq))"

definition handle_post :: "'w site \<Rightarrow> env_config \<Rightarrow> env_request \<Rightarrow> string \<Rightarrow> 'w env_admin \<Rightarrow> (exn + answer) \<times> 'w env_admin" where
  "handle_post si ec rq hex s =
     seq (value_of (parsed_path (rq_path rq))) (\<lambda>path.
     if path \<noteq> ''/api/storage/reset'' then give (refused 404 ''not found'')
     else seq (value_of (authorized ec (rq_authorization rq))) (\<lambda>ok.
     if \<not> ok then give (refused 401 ''admin token required (Authorization: Bearer <adminToken>)'')
     else seq (value_of (read_body si rq)) (\<lambda>raw.
     case si_json si (if raw = [] then ''{}'' else raw) of
       Inl (ValueError m) \<Rightarrow> give (refused 400 ''body must be JSON'')
     | Inl e \<Rightarrow> refuse e
     | Inr body \<Rightarrow>
         seq (value_of (get_attr body ''confirm'')) (\<lambda>confirm.
         if \<not> json_eq confirm (JStr (ec_env_name ec))
         then give (refused 400 (''body.confirm must equal the environment name ('' @ py_repr (ec_env_name ec) @ '')''))
         else handled (seq (start_reset si hex) (\<lambda>job_id. give (AJson 202 (JObj [(''id'', JStr job_id)]))))
           (\<lambda>e. case e of
              OtherError c i \<Rightarrow> if c = ''ResetBusy'' then Some (give (refused 409 (''a reset ('' @ i @ '') is already in progress''))) else None
            | _ \<Rightarrow> None))))) s"

definition handle_get :: "'w site \<Rightarrow> 'w platform \<Rightarrow> env_config \<Rightarrow> env_request \<Rightarrow> 'w env_admin \<Rightarrow> (exn + answer) \<times> 'w env_admin" where
  "handle_get si pl ec rq s =
     seq (value_of (parsed_path (rq_path rq))) (\<lambda>path.
     if path = ''/health'' then give (AText 200 ''ok'')
     else if path = ''/api/storage'' then seq (status_json si pl ec) (\<lambda>j. give (AJson 200 j))
     else if path = ''/api/resets'' then
       (\<lambda>s. (Inr (AJson 200 (JList (map record_json (drop (length (ea_history s) - 20) (ea_history s))))), s))
     else if path = ''/api/events'' then
       (\<lambda>s. case subscribe (ea_queues s) of (k, qs) \<Rightarrow> (Inr (AStream k), s\<lparr>ea_queues := qs\<rparr>))
     else give (refused 404 ''not found'')) s"

end
