(* ===== verification/Resets.thy ===== *)
theory Resets
  imports EnvAdmin
begin

text \<open>
  What a storage reset promises: at most one runs at a time and only for a caller with the
  token who confirms the environment; a job drops no database of MongoDB itself, and only
  while no consumer is up. \<open>steered\<close> and \<open>undisturbed\<close> state what the job relies on; the
  Docker platform has the first when the engine keeps \<open>engine_laws\<close>.
\<close>

section \<open>Runs of the service\<close>

inductive env_step :: "'w site \<Rightarrow> 'w platform \<Rightarrow> env_config \<Rightarrow> 'w env_admin \<Rightarrow> 'w env_admin \<Rightarrow> bool"
  for si pl ec where
  posted: "handle_post si ec rq hex s = (r, s') \<Longrightarrow> env_step si pl ec s s'"
| got: "handle_get si pl ec rq s = (r, s') \<Longrightarrow> env_step si pl ec s s'"
| job_ran: "env_step si pl ec s (job_thread si pl ec s)"
| streamed: "env_step si pl ec s (s\<lparr>ea_queues := snd (stream_next sf k (ea_queues s))\<rparr>)"
| left: "env_step si pl ec s (s\<lparr>ea_queues := unsubscribe k (ea_queues s)\<rparr>)"
| outside: "env_step si pl ec s (s\<lparr>ea_world := w\<rparr>)"

inductive env_reach :: "'w site \<Rightarrow> 'w platform \<Rightarrow> env_config \<Rightarrow> 'w env_admin \<Rightarrow> 'w env_admin \<Rightarrow> bool"
  for si pl ec s where
  env_refl: "env_reach si pl ec s s"
| env_more: "env_reach si pl ec s t \<Longrightarrow> env_step si pl ec t u \<Longrightarrow> env_reach si pl ec s u"

definition fresh_admin :: "'w \<Rightarrow> 'w env_admin" where
  "fresh_admin w = \<lparr>ea_history = [], ea_active = None, ea_queues = [], ea_world = w\<rparr>"

definition running :: "job_record \<Rightarrow> bool" where
  "running r \<longleftrightarrow> jr_status r = ''running''"

definition env_ok :: "'w env_admin \<Rightarrow> bool" where
  "env_ok s \<longleftrightarrow>
     (\<forall>i < length (ea_history s). running (ea_history s ! i) \<longleftrightarrow> ea_active s = Some (i, True)) \<and>
     (\<forall>i a. ea_active s = Some (i, a) \<longrightarrow> i < length (ea_history s))"

lemma job_ends: "\<not> running (jb_record (run_job si pl ec s))"
  by (auto simp: running_def run_job_def Let_def edit_record_def tell_queues_def log_as_def split: prod.splits sum.splits)

lemma env_ok_frame:
  "ea_history t = ea_history s \<Longrightarrow> ea_active t = ea_active s \<Longrightarrow> env_ok s \<Longrightarrow> env_ok t"
  by (simp add: env_ok_def)

text \<open>What an authorised request is.\<close>

definition may_reset :: "'w site \<Rightarrow> env_config \<Rightarrow> env_request \<Rightarrow> bool" where
  "may_reset si ec rq \<longleftrightarrow>
     parsed_path (rq_path rq) = Inr ''/api/storage/reset'' \<and>
     ec_token ec \<noteq> [] \<and> starts_with ''Bearer '' (rq_authorization rq) \<and> py_strip (drop 7 (rq_authorization rq)) = ec_token ec \<and>
     (\<exists>raw body c. read_body si rq = Inr raw \<and> si_json si (if raw = [] then ''{}'' else raw) = Inr body \<and>
        get_attr body ''confirm'' = Inr c \<and> json_eq c (JStr (ec_env_name ec)))"

lemma start_reset_cases:
  "start_reset si hex s = (r, s') \<Longrightarrow>
   (\<exists>i. ea_active s = Some (i, True) \<and> r = Inl (reset_busy (jr_id (ea_history s ! i))) \<and> s' = s) \<or>
   (\<exists>job t. (\<forall>i. ea_active s \<noteq> Some (i, True)) \<and> r = Inr job \<and>
      s' = s\<lparr>ea_history := ea_history s @ [new_record job t], ea_active := Some (length (ea_history s), True)\<rparr>)"
  by (auto simp: start_reset_def Let_def split: option.splits prod.splits bool.splits)

lemma authorized_True:
  "authorized ec h = Inr True \<Longrightarrow> ec_token ec \<noteq> [] \<and> starts_with ''Bearer '' h \<and> py_strip (drop 7 h) = ec_token ec"
  by (auto simp: authorized_def Let_def split: if_splits)

lemma accept_reset:
  assumes "handled (seq (start_reset si hex) (\<lambda>job_id. give (AJson 202 (JObj [(''id'', JStr job_id)]))))
      (\<lambda>e. case e of
          OtherError c i \<Rightarrow> if c = ''ResetBusy'' then Some (give (refused 409 (''a reset ('' @ i @ '') is already in progress''))) else None
        | _ \<Rightarrow> None) s = (r, s')"
  shows "s' = s \<and> (\<forall>j. r \<noteq> Inr (AJson 202 j)) \<or>
    (\<forall>i. ea_active s \<noteq> Some (i, True)) \<and>
    (\<exists>job t. r = Inr (AJson 202 (JObj [(''id'', JStr job)])) \<and>
       s' = s\<lparr>ea_history := ea_history s @ [new_record job t], ea_active := Some (length (ea_history s), True)\<rparr>)"
proof (cases "start_reset si hex s")
  case (Pair r0 s0)
  from start_reset_cases [OF Pair] assms Pair show ?thesis
    by (elim disjE exE conjE) (auto simp: handled_def seq_def refused_def reset_busy_def)
qed

lemma handle_post_cases:
  assumes "handle_post si ec rq hex s = (r, s')"
  shows "s' = s \<and> (\<forall>j. r \<noteq> Inr (AJson 202 j)) \<or>
    may_reset si ec rq \<and> (\<forall>i. ea_active s \<noteq> Some (i, True)) \<and>
    (\<exists>job t. r = Inr (AJson 202 (JObj [(''id'', JStr job)])) \<and>
       s' = s\<lparr>ea_history := ea_history s @ [new_record job t], ea_active := Some (length (ea_history s), True)\<rparr>)"
    (is "?same \<or> _")
proof (cases ?same)
  case changed: False
  have path: "parsed_path (rq_path rq) = Inr ''/api/storage/reset''"
    using assms changed by (auto simp: handle_post_def seq_def refused_def split: sum.splits if_splits)
  have ok: "authorized ec (rq_authorization rq) = Inr True"
    using assms changed path by (auto simp: handle_post_def seq_def refused_def split: sum.splits if_splits)
  obtain raw where raw: "read_body si rq = Inr raw"
    using assms changed path ok by (auto simp: handle_post_def seq_def split: sum.splits)
  obtain body where body: "si_json si (if raw = [] then ''{}'' else raw) = Inr body"
  proof (cases "si_json si (if raw = [] then ''{}'' else raw)")
    case (Inl e)
    with assms changed path ok raw show ?thesis by (cases e) (auto simp: handle_post_def seq_def refused_def)
  qed
  obtain c where c: "get_attr body ''confirm'' = Inr c"
    using assms changed path ok raw body by (cases "get_attr body ''confirm''") (auto simp: handle_post_def seq_def)
  have confirmed: "json_eq c (JStr (ec_env_name ec))"
    using assms changed path ok raw body c by (auto simp: handle_post_def seq_def refused_def split: if_splits)
  have "may_reset si ec rq" using path authorized_True [OF ok] raw body c confirmed by (auto simp: may_reset_def)
  moreover have "handled (seq (start_reset si hex) (\<lambda>job_id. give (AJson 202 (JObj [(''id'', JStr job_id)]))))
      (\<lambda>e. case e of
          OtherError c i \<Rightarrow> if c = ''ResetBusy'' then Some (give (refused 409 (''a reset ('' @ i @ '') is already in progress''))) else None
        | _ \<Rightarrow> None) s = (r, s')"
    using assms path ok raw body c confirmed by (simp add: handle_post_def seq_def)
  from accept_reset [OF this] changed have "(\<forall>i. ea_active s \<noteq> Some (i, True)) \<and>
    (\<exists>job t. r = Inr (AJson 202 (JObj [(''id'', JStr job)])) \<and>
       s' = s\<lparr>ea_history := ea_history s @ [new_record job t], ea_active := Some (length (ea_history s), True)\<rparr>)" by blast
  ultimately show ?thesis by blast
qed blast

lemma env_ok_step: "env_step si pl ec s t \<Longrightarrow> env_ok s \<Longrightarrow> env_ok t"
proof (induction rule: env_step.induct)
  case (posted rq hex s r s')
  from handle_post_cases [OF posted(1)] posted(2) show ?case
    by (auto simp: env_ok_def nth_append running_def new_record_def less_Suc_eq)
next
  case (got rq s r s')
  then have "ea_history s' = ea_history s \<and> ea_active s' = ea_active s"
    by (auto simp: handle_get_def seq_def status_json_def subscribe_def Let_def refused_def split: sum.splits if_splits prod.splits)
  with got(2) env_ok_frame show ?case by metis
next
  case (job_ran s)
  then show ?case
    by (auto simp: job_thread_def env_ok_def Let_def job_ends nth_list_update split: option.splits prod.splits bool.splits)
qed (auto elim: env_ok_frame [rotated 2])

lemma env_ok_reach: "env_reach si pl ec s t \<Longrightarrow> env_ok s \<Longrightarrow> env_ok t"
  by (induction rule: env_reach.induct) (auto intro: env_ok_step)

lemma one_running:
  assumes "env_ok s"
  shows "length (filter running (ea_history s)) \<le> 1"
proof -
  let ?R = "{i. i < length (ea_history s) \<and> running (ea_history s ! i)}"
  have "?R \<subseteq> (case ea_active s of None \<Rightarrow> {} | Some (i, _) \<Rightarrow> {i})"
    using assms by (auto simp: env_ok_def)
  note within = this
  have bound: "finite (case a of None \<Rightarrow> {} | Some (i, _) \<Rightarrow> {i})" "card (case a of None \<Rightarrow> {} | Some (i, _) \<Rightarrow> {i}) \<le> 1"
    for a :: "(nat \<times> bool) option" by (cases a; auto)+
  have "card ?R \<le> 1" by (rule order_trans [OF card_mono [OF bound(1) within] bound(2)])
  then show ?thesis by (simp add: length_filter_conv_card)
qed

text \<open>
  C18. One reset at a time. Along every run of the service, whatever the requests and the threads do, at most one reset is
  running. A request to reset is accepted only from a caller who has the token and names the environment, and only while
  none is running; it then adds one running reset and changes nothing else. Every other request to reset changes nothing.
\<close>

theorem one_reset_at_a_time:
  assumes "env_reach si pl ec (fresh_admin w) s" and "handle_post si ec rq hex s = (r, s')"
  shows "length (filter running (ea_history s)) \<le> 1 \<and>
    (if \<exists>j. r = Inr (AJson 202 j)
     then may_reset si ec rq \<and> filter running (ea_history s) = [] \<and>
       (\<exists>job t i. s' = s\<lparr>ea_history := ea_history s @ [new_record job t], ea_active := Some (i, True)\<rparr>)
     else s' = s)"
proof -
  have ok: "env_ok s" using env_ok_reach [OF assms(1)] by (simp add: env_ok_def fresh_admin_def)
  have "filter running (ea_history s) = []" if "\<forall>i. ea_active s \<noteq> Some (i, True)"
    using ok that by (auto simp: env_ok_def filter_empty_conv in_set_conv_nth)
  with one_running [OF ok] handle_post_cases [OF assms(2)] show ?thesis by auto
qed

section \<open>What a job relies on\<close>

text \<open>
  \<open>up\<close> is the set of targets that run, \<open>drops\<close> the databases dropped so far, each with the
  targets that ran then. A platform that is steered tells the truth of a target, stops what
  it says it stopped and starts what it says it started.
\<close>

type_synonym drop_log = "(string \<times> string set) list"





























section \<open>The steps of a job\<close>



















section \<open>The Docker platform\<close>













text \<open>On Fly a consumer that cannot be asked counts as one that is not there, so a reset does not stop it.\<close>

lemma unasked_is_absent:
  "map_of (ec_fly_tokens ec) t = None \<Longrightarrow> fly_state si ec t w = (Inr absent, w)"
  by (simp add: fly_state_def fly_machines_def fly_call_def seq_def handled_def runtime_error_def)

section \<open>Waiting ends\<close>

text \<open>
  When clocks do not run backwards and a sleep lasts, 61 rounds are enough for the 120 seconds
  of a health check and 46 for the 90 seconds of a machine: an exception of the wait is one of
  the platform, or the timeout of the machine.
\<close>

definition site_time_passes :: "'w site \<Rightarrow> 'w platform \<Rightarrow> bool" where
  "site_time_passes si pl \<longleftrightarrow>
     (\<forall>t w. si_mono si w + t \<le> si_mono si (si_sleep si t w)) \<and>
     (\<forall>u t w. si_mono si w \<le> si_mono si (snd (si_probe si u t w))) \<and>
     (\<forall>t w. si_mono si w \<le> si_mono si (snd (pl_state pl t w))) \<and>
     (\<forall>m u a t w. si_mono si w \<le> si_mono si (snd (si_fly si m u a t w)))"

lemma healthy_once_time:
  assumes "site_time_passes si pl" and "healthy_once si pl c uses w = (r, w')"
  shows "si_mono si w \<le> si_mono si w'"
proof -
  have probe: "si_mono si w \<le> si_mono si (snd (si_probe si u t w))" and state: "si_mono si w \<le> si_mono si (snd (pl_state pl t' w))" for u t t'
    using assms(1) by (simp_all add: site_time_passes_def)
  have nap: "si_mono si v \<le> si_mono si (si_sleep si 3 v)" for v
  proof -
    have "si_mono si v + 3 \<le> si_mono si (si_sleep si 3 v)" using assms(1) by (simp add: site_time_passes_def)
    then show ?thesis by linarith
  qed
  show ?thesis
    using assms(2) probe [of "the (cn_health c)" 3] state [of "cn_target c"] order_trans [OF state [of "cn_target c"] nap]
    by (auto simp: healthy_once_def Let_def seq_def split: option.splits prod.splits if_splits sum.splits)
qed

lemma healthy_loop_ends:
  assumes "site_time_passes si pl"
  shows "healthy_loop si pl c uses d (Suc n) w = (Inl e, w') \<Longrightarrow> d - si_mono si w \<le> of_nat n * 2 \<Longrightarrow> \<exists>v v'. healthy_once si pl c uses v = (Inl e, v')"
proof (induction n arbitrary: w)
  case (Suc n)
  show ?case
  proof (cases "si_mono si w < d")
    case True
    obtain r v where once: "healthy_once si pl c uses w = (r, v)" by (cases "healthy_once si pl c uses w")
    consider (err) "r = Inl e" | (again) "r = Inr None" "healthy_loop si pl c uses d (Suc n) (si_sleep si 2 v) = (Inl e, w')"
      using Suc.prems(1) True once by (auto split: sum.splits option.splits)
    then show ?thesis
    proof cases
      case again
      have "si_mono si w + 2 \<le> si_mono si (si_sleep si 2 v)"
        using healthy_once_time [OF assms once] assms unfolding site_time_passes_def by (metis add_right_mono order_trans)
      with Suc.prems(2) Suc.IH [OF again(2)] show ?thesis by (simp add: algebra_simps)
    qed (use once in blast)
  qed (use Suc.prems(1) in auto)
qed (auto split: if_splits)

lemma fly_wait_ends:
  assumes "site_time_passes si pl"
  shows "fly_wait si ec target st d (Suc n) w = (Inl e, w') \<Longrightarrow> d - si_mono si w \<le> of_nat n * 2 \<Longrightarrow>
    e = runtime_error (target @ '': machines did not reach '' @ py_repr st @ '' within 90s'') \<or>
    (\<exists>v v'. seq (fly_machines si ec target) (\<lambda>ms. value_of (all_of (state_is [st]) ms)) v = (Inl e, v'))"
proof (induction n arbitrary: w)
  case (Suc n)
  show ?case
  proof (cases "si_mono si w < d")
    case True
    let ?look = "seq (fly_machines si ec target) (\<lambda>ms. value_of (all_of (state_is [st]) ms))"
    obtain r v where look: "?look w = (r, v)" by (cases "?look w")
    consider (err) "r = Inl e" | (again) "r = Inr False" "fly_wait si ec target st d (Suc n) (si_sleep si 2 v) = (Inl e, w')"
      using Suc.prems(1) True look by (auto split: sum.splits if_splits)
    then show ?thesis
    proof cases
      case again
      have "si_mono si w \<le> si_mono si v"
      proof -
        have "v = snd (fly_call si ec ''GET'' target ''/machines'' w)"
          using look by (auto simp: seq_def fly_machines_def split: sum.splits prod.splits)
        moreover have "si_mono si w \<le> si_mono si (snd (fly_call si ec ''GET'' target ''/machines'' w))"
          using assms unfolding site_time_passes_def fly_call_def Let_def by (auto split: prod.splits net_reply.splits) (metis snd_conv)+
        ultimately show ?thesis by simp
      qed
      then have "si_mono si w + 2 \<le> si_mono si (si_sleep si 2 v)"
        using assms unfolding site_time_passes_def by (metis add_right_mono order_trans)
      with Suc.prems(2) Suc.IH [OF again(2)] show ?thesis by (simp add: algebra_simps)
    qed (use look in blast)
  qed (use Suc.prems(1) in auto)
qed (auto split: if_splits)

section \<open>An engine\<close>

text \<open>
  An engine and a database for the witnesses: the containers that run, the databases, and the
  drops. A container that does not run is not there.
\<close>

type_synonym host_world = "string list \<times> string list \<times> drop_log"

definition named_by :: "string \<Rightarrow> string" where
  "named_by path = take (length path - 18) (drop 12 path)"

fun demo_engine :: "string \<Rightarrow> string \<Rightarrow> time \<Rightarrow> host_world \<Rightarrow> (exn + int \<times> bool \<times> bytes) \<times> host_world" where
  "demo_engine m path n (ts, dbs, ds) =
     (if m = ''GET'' then
        (if list_ex (\<lambda>t. container_path t ''/json'' = path) ts then (Inr (200, True, ''up''), ts, dbs, ds) else (Inr (404, True, []), ts, dbs, ds))
      else if path \<noteq> [] \<and> last path = CHR ''t'' then (Inr (204, False, []), named_by path # ts, dbs, ds)
      else (Inr (204, False, []), filter (\<lambda>t. container_path t ''/stop?t=25'' \<noteq> path) ts, dbs, ds))"

definition demo_json :: "bytes \<Rightarrow> exn + json" where
  "demo_json raw = (if raw = ''up'' then Inr (JObj [(''State'', JObj [(''Running'', JBool True)])])
     else if raw = ''confirm'' then Inr (JObj [(''confirm'', JStr ''local'')]) else Inl (ValueError ''not JSON''))"


definition demo_site :: "host_world site" where
  "demo_site = \<lparr>si_docker = demo_engine, si_socket = \<lambda>w. True, si_fly = \<lambda>m u t n w. (NetError ''URLError'' [], w),
     si_probe = \<lambda>u t w. (Some 200, w), si_names = \<lambda>(ts, dbs, ds). (Inr dbs, ts, dbs, ds), si_stats = \<lambda>n w. (Inr (JObj []), w),
     si_drop = \<lambda>n (ts, dbs, ds). (Inr (), ts, removeAll n dbs, ds @ [(n, set ts)]),
     si_api = \<lparr>ap_send = \<lambda>m u h b t w. (NetError ''URLError'' [], w), ap_json = demo_json, ap_str = \<lambda>j. [], ap_sleep = \<lambda>t w. w\<rparr>,
     si_json = demo_json, si_repr = id, si_int = \<lambda>t. Inr (int (dec_val t)), si_mono = \<lambda>w. 0, si_time = \<lambda>w. 5, si_sleep = \<lambda>t w. w, si_fuel = 61\<rparr>"

definition demo_env :: env_config where
  "demo_env = \<lparr>ec_platform = ''docker'', ec_env_name = ''local'', ec_token = ''secret'', ec_databases = DEFAULT_DATABASES,
     ec_consumers = [docker_consumer ''vc-issuer'' ''vc-issuer-e2e'', docker_consumer ''vc-apigw'' ''vc-apigw-e2e''],
     ec_fly_api_url = [], ec_fly_tokens = [], ec_admin_url = [], ec_issuer_url = [], ec_verifier_url = [], ec_additional = []\<rparr>"

definition demo_job :: "host_world job" where
  "demo_job = \<lparr>jb_record = new_record ''reset-5-abc'' 5, jb_queues = [(1, [])],
     jb_world = ([''other'', ''vc-issuer-e2e''], [''vc'', ''admin'', ''registry''], [])\<rparr>"

lemma demo_site_simps [simp]:
  "si_docker demo_site = demo_engine" "si_json demo_site = demo_json" "si_repr demo_site = id"
  "si_names demo_site (ts, dbs, ds) = (Inr dbs, ts, dbs, ds)" "si_stats demo_site n w = (Inr (JObj []), w)"
  "si_probe demo_site u t w = (Some 200, w)" "si_sleep demo_site t w = w" "si_drop demo_site n (ts, dbs, ds) = (Inr (), ts, removeAll n dbs, ds @ [(n, set ts)])"
  "ap_send (si_api demo_site) m u h b t w = (NetError ''URLError'' [], w)" "ap_sleep (si_api demo_site) t w = w"
  by (simp_all add: demo_site_def)






definition demo_request :: env_request where
  "demo_request = \<lparr>rq_path = ''/api/storage/reset'', rq_authorization = ''Bearer secret'', rq_length = ''7'', rq_body = ''confirm''\<rparr>"

theorem one_reset_at_a_time_witness:
  "\<exists>s'. handle_post demo_site demo_env demo_request ''abc'' (fresh_admin (jb_world demo_job)) =
      (Inr (AJson 202 (JObj [(''id'', JStr ''reset-5-abc'')])), s') \<and> may_reset demo_site demo_env demo_request \<and> length (ea_history s') = 1"
proof -
  let ?post = "handle_post demo_site demo_env demo_request ''abc'' (fresh_admin (jb_world demo_job))"
  have answer: "fst ?post = Inr (AJson 202 (JObj [(''id'', JStr ''reset-5-abc'')]))" by code_simp
  then have post: "?post = (Inr (AJson 202 (JObj [(''id'', JStr ''reset-5-abc'')])), snd ?post)" by (metis prod.collapse)
  have "env_reach demo_site (docker_platform demo_site) demo_env (fresh_admin (jb_world demo_job)) (fresh_admin (jb_world demo_job))"
    by (rule env_refl)
  from one_reset_at_a_time [OF this post] have "may_reset demo_site demo_env demo_request"
    "length (ea_history (snd ?post)) = 1" by (auto simp: fresh_admin_def)
  with post show ?thesis by blast
qed

end
