(* ===== verification/Spec2Isabelle.thy ===== *)
theory Spec2Isabelle
  imports Custody Consent Platform Assistant Wiring Settings Resets
begin

text \<open>
  The hosted SIROS ID sandbox. A control plane (sirosid_service) lets invited users create instances of
  the SIROS ID stack; each instance is deployed on Fly by a library (sirosid_core) that also runs from
  scripts. Users sign in with passkeys in a browser console or through OAuth as an MCP client; what belongs
  to a user (instance specs, saved configs, instance state) is sealed under a key that only an unlocked
  session holds. The service is one process with one SQLite database; slow work runs as background jobs.

  \<^bold>\<open>Theories.\<close> Each models the file or files named and states what it needs of code outside the repository
  (flyctl, the Machines API, webauthn, AES-GCM, SHA-256, SQLite's text of a float, YAML and JSON parsers, the text of a
  time, the language model) as record fields.

  \<^item> Prelude: exceptions as a datatype, outcomes (result and state), dictionaries, rows and UPDATE/DELETE on
    lists, Python's string operations; the locales of keyed rows (\<open>key_update\<close>), of relations on rows
    (\<open>row_order\<close>) and of values that can be taken once (\<open>one_shot\<close>). Json: JSON values and Python's view of
    them. Net: urlsplit and ipaddress.
  \<^item> Components, Naming, Spec, Android, Policy, Templates: components.py, naming.py, spec.py, android.py,
    policy.py and templates.py of sirosid_core: the catalogue, names and ports, the deployable spec, signing
    identities, what a user's config may contain, the offered configs.
  \<^item> Fly, Machines, Lifecycle, Health, State, Edge: fly.py, machines.py, lifecycle.py, health.py, state.py and
    edge.py: the clients, destroying, stopping, starting and resetting an instance, its health, its state
    files, the routing of hosts. The world behind a client is a type variable that every call threads.
  \<^item> Vault, Db, Plane, Accounts, Configs, Instances, Jobs, Background: vault.py, db.py and service.py of
    sirosid_service. \<open>cp\<close> is the state of the control plane: database, keys in memory, queue of jobs, outside
    world; an operation is a function from arguments, time and random draws to a result and a new state. A job
    is split in \<open>job_start\<close> and \<open>job_finish\<close>, because other requests run between the two.
  \<^item> OAuth, Auth, Api, McpWeb: oauth.py, auth.py, the guard of api.py and mcp_web.py. \<open>portal\<close> is the state of the HTTP
    routes, \<open>serve\<close> one request to a route of mcp_web.py. Consent: histories of those routes. Settings: config.py and what \<open>build\<close> of __main__.py
    makes of the settings.
  \<^item> Registration: scripts/bootstrap.py and the callable that the control plane gives to a deploy; \<open>admin_api\<close> is the
    transport to the wallet backend, \<open>tenant_laws\<close> what the backend promises. EnvAdmin: env-admin/server.py; \<open>platform\<close> is
    the interface that the Docker and the Fly platform implement, \<open>site\<close> everything outside, \<open>job\<close> a reset with its record,
    \<open>env_admin\<close> the state the handlers share. Resets: runs of the service, what a reset keeps and that its waits end.
  \<^item> Invariants, Steps, Reach: the invariant \<open>db_ok\<close>, that each operation preserves it and only lets rows
    evolve (\<open>db_evolves\<close>), the step relation of requests and jobs in any order, and what holds in every
    reachable state. Demo: a concrete control plane for the witnesses.
  \<^item> Knowledge, Skills, Mcp, Chat: knowledge/__init__.py of sirosid_core, skills.py, mcp.py, chat.py and llm.py of
    sirosid_service: the topics an agent reads, the runbooks, the MCP server with its tools, the assistant of the
    console with its budget, conversations, approvals and loop over the model. \<open>mcp_server\<close> holds the plane and the
    knowledge files; \<open>chat\<close> is the state of the assistant around that of the control plane, with the events sent.
  \<^item> Bench, Toolbox, Assets, Oci, Deploy, Single: the deploy of an instance. A bench is the files of the working
    directory with the world around them, and an \<open>act\<close> is what a function of the deploy does to it. Toolbox: the rest of
    fly.py and the generated secrets of state.py. Assets: parts of assets.py, helm.py, vc_render.py and siros_verifier.py.
    Oci: oci.py. Deploy: deploy.py, the apps layout. Single: singlemachine.py, the layout of one machine with many
    containers. The records \<open>kit\<close>, \<open>builder\<close>, \<open>pages\<close>, \<open>registry\<close> and \<open>single\<close> hold what is foreign or not modelled:
    commands, the PKI script, texts of pages, YAML, tar, gzip and SHA-256; the renderer in a \<open>builder\<close> is any action, and
    \<open>rendering\<close> puts the one of the repository there.
  \<^item> Tokens, Values, Render: the tokens a deploy issues (api_auth.py, engine_pdp_token.py); vc_render.py as functions on
    JSON values (Values) and as what it writes (Render), render.py and helm.py. The record \<open>renderer\<close> holds YAML, helm, the
    files of the repository, openssl and the random source.
  \<^item> Rollout, Capacity, Stage: what a deploy keeps (the locale \<open>frame\<close>, interpreted for the generated secrets and for
    files outside), where it fails; its order, its limits and its bundle; a concrete builder for the witnesses. Rendering: what a rendering keeps, and that a
    builder with it is \<open>tidy\<close>.
  \<^item> Delivery, Wiring, Effects, Custody, Admission, Platform, Assistant: the effects on Fly (termination of polling, what a
    destroy runs and reports) and the properties of the components, C5 to C40 (C15 to C18 are in Settings, Registration and
    Resets, C29 to C31 in McpWeb and Consent); this theory states those of all runs, C1 to C4.

  \<^bold>\<open>What is shown.\<close> Along every run quotas, naming, expiry and ownership are consistent, a destroyed instance
  stays destroyed, a disabled account holds no key, an invite works once (C1 to C4). A deploy never rotates a generated
  secret, through sealing and the scratch directory as well; its failure is located, its order and its machine config are
  sound (C5 to C9). A rendering keeps what was drawn, tells every
  service the same identities, and its overlays and rewritings change what they name and nothing else; the key id of the
  engine's bearer is right for most keys only (C10 to C14). Settings that are accepted put no instance at the
  console's names (C15). A registration converges, a storage reset drops what it may while no consumer is up, and one runs at
  a time (C16 to C18). Ownership and keys of single operations and what the periodic work touches (C19 to C24). OAuth,
  passkeys and the HTTP guard (C25 to C28). The MCP endpoint serves live tokens only, guesses are bounded by the limiter,
  and no application is connected without its user's consent (C29 to C31). Names,
  specs, policy, routing, files and Fly commands of the library (C32 to C37). The tools run on well-typed arguments only,
  the assistant destroys nothing without the user's approval, and its turns end, for every model (C38 to C40).
  Hypotheses on foreign code are \<open>aead_correct\<close> (decryption inverts encryption), \<open>aead_binding\<close> (a ciphertext opens under
  its key and associated data only), \<open>nonces_ok\<close> (nonces have the right length), \<open>logs_commands\<close> (the world records the
  commands run), \<open>fly_time_passes\<close>, \<open>machines_time_passes\<close> (clocks do not run backwards, a sleep lasts), \<open>tidy\<close> (the
  PKI script and the renderer leave the generated secrets of the instance alone), \<open>kubernetes_keys\<close> (no key of a
  ConfigMap that helm renders has a slash), \<open>tenant_laws\<close> (what the admin API of the wallet backend does), \<open>steered\<close> (a
  platform tells the truth and does what it is told, which Docker does under \<open>engine_laws\<close>) and \<open>undisturbed\<close> (nothing else
  starts or stops a consumer during a reset). Vault, Demo, Stage, Wiring, Registration and Resets have instances of them.

  \<^bold>\<open>Fuel.\<close> The polling loops take their number of rounds from \<open>fly_fuel\<close> and \<open>ma_fuel\<close>; C37 shows how many rounds are
  enough for the deadlines of the code. The registration loops have the fifteen and thirty attempts of the code. The waits of
  a reset take \<open>si_fuel\<close>, for which 61 rounds are enough (\<open>healthy_loop_ends\<close>, \<open>fly_wait_ends\<close> in Resets).

  \<^bold>\<open>Not modelled.\<close> Text generation (the nginx configs and pages of assets.py, the templates of edge.py), the permissions of
  files, the boot manager (a terminal program of a developer's machine), the scripts other than bootstrap.py, which put the
  library on a command line, the choice of a route for a path (Starlette) and the table of routes of api.py, logging and progress messages, and threads: SQLite
  transactions and the lock of a dictionary are atomic steps here, and so is the run of a storage reset. The plane runs an arbitrary deployer; \<open>apps_deployer\<close> and \<open>single_deployer\<close> are the real ones, and
  C5 is about them. Strings are sequences of 8-bit characters; times are rational numbers.
\<close>

section \<open>The control plane as a whole\<close>







text \<open>
  C4. An invite is redeemed at most once: after a redemption, in every later state and for every name, email
  and time, the same token is refused and the database is left as it is.
\<close>

theorem invite_single_use:
  assumes "reach cf (initial w) s" and "redeem_invite cf token name email now r (sdb s) = (Inr p, d)"
    and "reach cf (s\<lparr>sys_cp := (sys_cp s)\<lparr>database := d\<rparr>\<rparr>) s'"
  shows "\<exists>m. redeem_invite cf token name' email' now' r' (sdb s') = (Inl (InvalidInvite m), sdb s')"
  by (rule redeemed_for_good [OF assms])

theorem invite_single_use_witness:
  "\<exists>d m. fst (redeem_invite (demo_plane no_aead) ''tok'' ''Eve'' [] 7 demo_draws d) = Inl (InvalidInvite m)"
proof -
  obtain p d where r: "redeem_invite (demo_plane no_aead) ''tok'' ''Bob'' [] 6 other_draws (database (demo_invited no_aead)) = (Inr p, d)"
    using demo_redeem by blast
  with invite_single_use [OF demo_reach_invited _ reach_refl, of no_aead "''tok''" "''Bob''" "[]" 6 other_draws p d]
  show ?thesis by (simp del: ex_simps) (metis fst_conv)
qed

end
